(* ===== verification/Prelude.thy ===== *)
theory Prelude
  imports Main "HOL-Library.Word" "HOL-Library.Char_ord" "HOL-Library.List_Lexorder"
    "HOL-Library.Product_Lexorder"
begin

text \<open>
  What every component shares: instants and durations, the Rust integer and string primitives the
  code calls, and the generic lemmas on lists. A Rust \<open>String\<close> is the list of its UTF-8 bytes, so
  \<open>length\<close> is \<open>str::len\<close>; where the code walks characters, \<open>utf8_chars\<close> groups the bytes of each
  code point. Instants are microseconds since the epoch, the precision both stores keep.
\<close>

named_theorems dam_defs \<open>definitions a component unfolds in its own lemmas\<close>

section \<open>Instants, durations and bounded counters\<close>

type_synonym time = int
type_synonym duration = int

abbreviation usecs_per_sec :: int where "usecs_per_sec \<equiv> 1000000"

text \<open>\<open>DateTime::timestamp\<close>: whole seconds, rounded down.\<close>

definition timestamp :: "time \<Rightarrow> int" where
  "timestamp t = t div usecs_per_sec"

definition seconds :: "int \<Rightarrow> duration" where
  "seconds n = n * usecs_per_sec"

text \<open>\<open>Duration::num_seconds\<close>: truncated towards zero.\<close>

definition num_seconds :: "duration \<Rightarrow> int" where
  "num_seconds d = sgn d * (\<bar>d\<bar> div usecs_per_sec)"

definition u32_max :: nat where "u32_max = 4294967295"

definition sat_add_u32 :: "nat \<Rightarrow> nat \<Rightarrow> nat" where
  "sat_add_u32 a b = min (a + b) u32_max"

lemma sat_add_u32_le: "sat_add_u32 a b \<le> u32_max"
  by (simp add: sat_add_u32_def)

lemma timestamp_mono: "s \<le> t \<Longrightarrow> timestamp s \<le> timestamp t"
  by (simp add: timestamp_def zdiv_mono1)

lemma timestamp_seconds [simp]: "timestamp (seconds n) = n"
  by (simp add: timestamp_def seconds_def)

section \<open>Iterator adaptors\<close>

fun find_map :: "('a \<Rightarrow> 'b option) \<Rightarrow> 'a list \<Rightarrow> 'b option" where
  "find_map f [] = None"
| "find_map f (x # xs) = (case f x of Some y \<Rightarrow> Some y | None \<Rightarrow> find_map f xs)"

lemma find_map_None_iff: "find_map f xs = None \<longleftrightarrow> (\<forall>x \<in> set xs. f x = None)"
  by (induction xs) (auto split: option.splits)

lemma find_map_SomeD: "find_map f xs = Some y \<Longrightarrow> \<exists>x \<in> set xs. f x = Some y"
  by (induction xs) (auto split: option.splits)

lemma find_SomeD: "find P xs = Some x \<Longrightarrow> x \<in> set xs \<and> P x"
  by (auto simp: find_Some_iff)

text \<open>\<open>Iterator::min_by_key\<close>: the first of the elements whose key is least.\<close>

fun min_by_key :: "('a \<Rightarrow> 'k::linorder) \<Rightarrow> 'a list \<Rightarrow> 'a option" where
  "min_by_key k [] = None"
| "min_by_key k (x # xs) =
     (case min_by_key k xs of None \<Rightarrow> Some x | Some y \<Rightarrow> Some (if k x \<le> k y then x else y))"

lemma min_by_key_None_iff [simp]: "min_by_key k xs = None \<longleftrightarrow> xs = []"
  by (cases xs) (auto split: option.splits)

lemma min_by_key_mem: "min_by_key k xs = Some x \<Longrightarrow> x \<in> set xs"
  by (induction xs arbitrary: x) (auto split: option.splits if_splits)

lemma min_by_key_least: "min_by_key k xs = Some x \<Longrightarrow> y \<in> set xs \<Longrightarrow> k x \<le> k y"
proof (induction xs arbitrary: x y)
  case (Cons a xs)
  then show ?case
    by (cases "min_by_key k xs") (fastforce split: if_splits)+
qed simp

text \<open>\<open>Vec::dedup\<close> on a sorted list leaves each value once.\<close>

fun dedup :: "'a list \<Rightarrow> 'a list" where
  "dedup (x # y # zs) = (if x = y then dedup (y # zs) else x # dedup (y # zs))"
| "dedup xs = xs"

lemma set_dedup [simp]: "set (dedup xs) = set xs"
  by (induction xs rule: dedup.induct) auto

lemma dedup_Cons_neq_Nil [simp]: "dedup xs = [] \<longleftrightarrow> xs = []"
  by (induction xs rule: dedup.induct) auto

lemma strict_sorted_dedup: "sorted (xs :: 'a::linorder list) \<Longrightarrow> sorted_wrt (<) (dedup xs)"
  by (induction xs rule: dedup.induct) (auto simp: less_le)

end
