(* ===== verification/Ordered_Map.thy ===== *)
theory Ordered_Map
  imports Prelude
begin

text \<open>
  \<open>BTreeMap\<close> as an association list with strictly increasing keys: iteration order is the list's
  order, equality of maps is equality of lists, and a lookup is \<open>map_of\<close>. The interface the
  components rely on is the locale \<open>key_map\<close>, interpreted here on the list operations.
\<close>

fun bt_insert :: "'k::linorder \<Rightarrow> 'v \<Rightarrow> ('k \<times> 'v) list \<Rightarrow> ('k \<times> 'v) list" where
  "bt_insert k v [] = [(k, v)]"
| "bt_insert k v ((k', v') # m) =
     (if k < k' then (k, v) # (k', v') # m
      else if k = k' then (k, v) # m
      else (k', v') # bt_insert k v m)"

definition bt_wf :: "('k::linorder \<times> 'v) list \<Rightarrow> bool" where
  "bt_wf m \<longleftrightarrow> sorted_wrt (<) (map fst m)"

abbreviation bt_get :: "('k::linorder \<times> 'v) list \<Rightarrow> 'k \<Rightarrow> 'v option" where
  "bt_get m k \<equiv> map_of m k"

text \<open>\<open>FromIterator\<close>: the later of two equal keys wins.\<close>

definition bt_collect :: "('k::linorder \<times> 'v) list \<Rightarrow> ('k \<times> 'v) list" where
  "bt_collect kvs = foldl (\<lambda>m (k, v). bt_insert k v m) [] kvs"

lemma bt_wf_Nil [simp]: "bt_wf []"
  by (simp add: bt_wf_def)

lemma bt_wf_Cons: "bt_wf ((k, v) # m) \<longleftrightarrow> (\<forall>k' \<in> fst ` set m. k < k') \<and> bt_wf m"
  by (auto simp: bt_wf_def)

lemma fst_set_bt_insert [simp]: "fst ` set (bt_insert k v m) = insert k (fst ` set m)"
  by (induction k v m rule: bt_insert.induct) auto

lemma bt_wf_insert [intro]: "bt_wf m \<Longrightarrow> bt_wf (bt_insert k v m)"
  by (induction k v m rule: bt_insert.induct) (auto simp: bt_wf_Cons)

lemma map_of_bt_insert [simp]: "map_of (bt_insert k v m) = (map_of m)(k \<mapsto> v)"
  by (induction k v m rule: bt_insert.induct) (auto simp: fun_eq_iff)

lemma bt_wf_distinct: "bt_wf m \<Longrightarrow> distinct (map fst m)"
  by (simp add: bt_wf_def strict_sorted_iff)

lemma bt_get_eq_Some_iff: "bt_wf m \<Longrightarrow> bt_get m k = Some v \<longleftrightarrow> (k, v) \<in> set m"
  by (simp add: bt_wf_distinct map_of_eq_Some_iff)

lemma bt_canonical:
  assumes "bt_wf m" "bt_wf n" "map_of m = map_of n"
  shows "m = n"
proof -
  have dm: "distinct (map fst m)" and dn: "distinct (map fst n)"
    using assms(1,2) by (auto dest: bt_wf_distinct)
  have eq: "set m = set n"
    using assms(3) map_of_inject_set [OF dm dn] by simp
  have "inj_on fst (set m \<union> set n)"
    using dm eq by (simp add: distinct_map)
  moreover have "sorted (map fst m)" "sorted (map fst n)"
    using assms(1,2) by (simp_all add: bt_wf_def strict_sorted_imp_sorted)
  ultimately show ?thesis
    using dm dn eq by (blast intro: map_sorted_distinct_set_unique)
qed

section \<open>The interface\<close>

locale key_map =
  fixes empty :: "'m"
    and insert :: "'k \<Rightarrow> 'v \<Rightarrow> 'm \<Rightarrow> 'm"
    and lookup :: "'m \<Rightarrow> 'k \<Rightarrow> 'v option"
    and invar :: "'m \<Rightarrow> bool"
  assumes lookup_empty: "lookup empty k = None"
    and invar_empty: "invar empty"
    and lookup_insert: "invar m \<Longrightarrow> lookup (insert k v m) k' = (if k' = k then Some v else lookup m k')"
    and invar_insert: "invar m \<Longrightarrow> invar (insert k v m)"
    and extensional: "invar m \<Longrightarrow> invar n \<Longrightarrow> (\<forall>k. lookup m k = lookup n k) \<Longrightarrow> m = n"
begin

lemma invar_fold: "invar m \<Longrightarrow> invar (foldl (\<lambda>m (k, v). insert k v m) m kvs)"
  by (induction kvs arbitrary: m) (auto intro: invar_insert)

lemma lookup_fold:
  "invar m \<Longrightarrow> lookup (foldl (\<lambda>m (k, v). insert k v m) m kvs) k =
     (case map_of (rev kvs) k of None \<Rightarrow> lookup m k | Some v \<Rightarrow> Some v)"
  by (induction kvs arbitrary: m)
    (auto simp: lookup_insert invar_insert map_add_def split: option.splits)

lemma insert_commute:
  assumes "invar m" "k \<noteq> k'"
  shows "insert k v (insert k' v' m) = insert k' v' (insert k v m)"
  by (rule extensional) (use assms in \<open>auto simp: lookup_insert invar_insert\<close>)

lemma insert_idem: "invar m \<Longrightarrow> insert k v (insert k w m) = insert k v m"
  by (rule extensional) (auto simp: lookup_insert invar_insert)

lemma insert_present: "invar m \<Longrightarrow> lookup m k = Some v \<Longrightarrow> insert k v m = m"
  by (rule extensional) (auto simp: lookup_insert invar_insert)

end

interpretation bt: key_map "[]" bt_insert "\<lambda>m. map_of (m :: ('k::linorder \<times> 'v) list)" bt_wf
  by unfold_locales (auto intro: bt_canonical)

lemma bt_wf_collect [simp]: "bt_wf (bt_collect kvs)"
  by (simp add: bt_collect_def bt.invar_fold)

lemma map_of_bt_collect [simp]: "map_of (bt_collect kvs) k = map_of (rev kvs) k"
  by (simp add: bt_collect_def bt.lookup_fold split: option.splits)

text \<open>Maps collected from the same pairs in another order are the same map.\<close>

lemma bt_collect_perm:
  assumes "distinct (map fst kvs)" "distinct (map fst kvs')" "set kvs = set kvs'"
  shows "bt_collect kvs = bt_collect kvs'"
proof (rule bt_canonical)
  have "map_of (rev kvs) = map_of (rev kvs')"
    using assms by (intro map_of_inject_set [THEN iffD2]) (simp_all add: rev_map [symmetric])
  then show "map_of (bt_collect kvs) = map_of (bt_collect kvs')"
    by (simp add: fun_eq_iff)
qed simp_all

end
