(* ===== verification/Core_Labels.thy ===== *)
theory Core_Labels
  imports Strings Ordered_Map
begin

text \<open>
  Label names and sets, the fingerprints and hashes that identify an alert (\<open>labels.rs\<close>), the
  identity policy that merges alerts onto one card (\<open>identity.rs\<close>), and the crate's error type
  (\<open>error.rs\<close>). Lemmas: both hashes fold an unambiguous byte string, the hash step is injective, the
  identity depends only on the labels the policy keeps.
\<close>

section \<open>Errors\<close>

datatype core_error =
    InvalidLabelName string
  | LabelValueTooLong string nat
  | InvalidFingerprint string
  | BadMatcherExpression string string
  | RegexTooLong nat nat
  | BadRegex string string
  | UnknownSeverity string
  | UnknownVariant string string

section \<open>Label names\<close>

definition MAX_LABEL_LEN :: nat where "MAX_LABEL_LEN = 4096"

datatype label_name = LabelName (name_str: string)

instantiation label_name :: linorder
begin
definition less_eq_label_name :: "label_name \<Rightarrow> label_name \<Rightarrow> bool" where
  "less_eq_label_name a b \<longleftrightarrow> name_str a \<le> name_str b"
definition less_label_name :: "label_name \<Rightarrow> label_name \<Rightarrow> bool" where
  "less_label_name a b \<longleftrightarrow> name_str a < name_str b"
instance
  by intro_classes
    (auto simp: less_eq_label_name_def less_label_name_def intro: label_name.expand)
end

lemma LabelName_less [simp]:
  "LabelName a < LabelName b \<longleftrightarrow> a < b" "LabelName a \<le> LabelName b \<longleftrightarrow> a \<le> b"
  by (simp_all add: less_label_name_def less_eq_label_name_def)

definition is_label_byte :: "char \<Rightarrow> bool" where
  "is_label_byte c \<longleftrightarrow> is_alpha c \<or> is_digit c \<or> c = CHR ''_''"

definition label_name_ok :: "string \<Rightarrow> bool" where
  "label_name_ok s \<longleftrightarrow> s \<noteq> [] \<and> length s \<le> MAX_LABEL_LEN \<and> \<not> is_digit (hd s) \<and> list_all is_label_byte s"

definition new_label_name :: "string \<Rightarrow> core_error + label_name" where
  "new_label_name s = (if label_name_ok s then Inr (LabelName s) else Inl (InvalidLabelName s))"

section \<open>Label sets\<close>

type_synonym labels = "(label_name \<times> string) list"

definition labels_get :: "labels \<Rightarrow> string \<Rightarrow> string option" where
  "labels_get ls n = bt_get ls (LabelName n)"

definition get_or_empty :: "labels \<Rightarrow> string \<Rightarrow> string" where
  "get_or_empty ls n = (case labels_get ls n of Some v \<Rightarrow> v | None \<Rightarrow> [])"

definition labels_insert :: "labels \<Rightarrow> label_name \<Rightarrow> string \<Rightarrow> core_error + labels" where
  "labels_insert ls n v = (if MAX_LABEL_LEN < length v then Inl (LabelValueTooLong (name_str n) (length v))
     else Inr (bt_insert n v ls))"

definition labels_from_iter :: "(label_name \<times> string) list \<Rightarrow> labels" where
  "labels_from_iter kvs = bt_collect kvs"

definition alertname :: "labels \<Rightarrow> string option" where
  "alertname ls = labels_get ls ''alertname''"

definition labels_wf :: "labels \<Rightarrow> bool" where
  "labels_wf ls \<longleftrightarrow> bt_wf ls \<and> (\<forall>(n, v) \<in> set ls. label_name_ok (name_str n) \<and> length v \<le> MAX_LABEL_LEN)"

lemma labels_insert_wf:
  assumes "labels_wf ls" "label_name_ok (name_str n)" "labels_insert ls n v = Inr ls'"
  shows "labels_wf ls'" "labels_get ls' (name_str n) = Some v"
    "m \<noteq> name_str n \<Longrightarrow> labels_get ls' m = labels_get ls m"
proof -
  have ls': "ls' = bt_insert n v ls" and len: "length v \<le> MAX_LABEL_LEN"
    using assms(3) by (auto simp: labels_insert_def split: if_splits)
  have wf: "bt_wf ls'" using assms(1) ls' by (auto simp: labels_wf_def)
  have "(k, w) \<in> set ls' \<Longrightarrow> label_name_ok (name_str k) \<and> length w \<le> MAX_LABEL_LEN" for k w
    using assms(1,2) len ls' bt_get_eq_Some_iff [OF wf, of k w]
      bt_get_eq_Some_iff [of ls k w] by (auto simp: labels_wf_def split: if_splits)
  with wf show "labels_wf ls'" by (auto simp: labels_wf_def)
  show "labels_get ls' (name_str n) = Some v" by (cases n) (simp add: ls' labels_get_def)
  show "m \<noteq> name_str n \<Longrightarrow> labels_get ls' m = labels_get ls m"
    by (cases n) (simp add: ls' labels_get_def)
qed

section \<open>The FNV-1a hash\<close>

definition FNV_OFFSET :: "64 word" where "FNV_OFFSET = 0xcbf29ce484222325"
definition FNV_PRIME :: "64 word" where "FNV_PRIME = 0x00000100000001b3"

fun fnv1a :: "64 word \<Rightarrow> string \<Rightarrow> 64 word" where
  "fnv1a h [] = h"
| "fnv1a h (b # bs) = fnv1a ((h XOR of_char b) * FNV_PRIME) bs"

lemma fnv1a_append [simp]: "fnv1a h (xs @ ys) = fnv1a (fnv1a h xs) ys"
  by (induction xs arbitrary: h) auto

text \<open>The prime is odd, so multiplication by it can be undone modulo \<open>2^64\<close>.\<close>

lemma FNV_PRIME_inverse: "FNV_PRIME * 0xce965057aff6957b = 1"
  by (simp add: FNV_PRIME_def)

lemma FNV_PRIME_cancel: "x * FNV_PRIME = y * FNV_PRIME \<longleftrightarrow> x = y"
proof
  assume "x * FNV_PRIME = y * FNV_PRIME"
  then have "x * (FNV_PRIME * 0xce965057aff6957b) = y * (FNV_PRIME * 0xce965057aff6957b)"
    by (simp only: mult.assoc [symmetric])
  then show "x = y" by (simp only: FNV_PRIME_inverse mult_1_right)
qed simp

lemma xor_cancel_word: "(a XOR c) = (b XOR c) \<longleftrightarrow> a = (b :: 'a::len word)"
  by (metis bit.xor_self xor.assoc xor.right_neutral)

lemma fnv1a_inject_hash: "fnv1a h bs = fnv1a h' bs \<longleftrightarrow> h = h'"
  by (induction bs arbitrary: h h') (auto simp: FNV_PRIME_cancel xor_cancel_word)

section \<open>Fingerprints, label hashes, group keys\<close>

datatype fingerprint = Fingerprint (fp_str: string)
datatype labels_hash = LabelsHash (lh_str: string)
datatype group_key = GroupKey (gk_str: string)

instantiation fingerprint :: linorder
begin
definition less_eq_fingerprint :: "fingerprint \<Rightarrow> fingerprint \<Rightarrow> bool" where
  "less_eq_fingerprint a b \<longleftrightarrow> fp_str a \<le> fp_str b"
definition less_fingerprint :: "fingerprint \<Rightarrow> fingerprint \<Rightarrow> bool" where
  "less_fingerprint a b \<longleftrightarrow> fp_str a < fp_str b"
instance
  by intro_classes
    (auto simp: less_eq_fingerprint_def less_fingerprint_def intro: fingerprint.expand)
end

lemma Fingerprint_less [simp]:
  "Fingerprint a < Fingerprint b \<longleftrightarrow> a < b" "Fingerprint a \<le> Fingerprint b \<longleftrightarrow> a \<le> b"
  by (simp_all add: less_fingerprint_def less_eq_fingerprint_def)

definition fingerprint_ok :: "string \<Rightarrow> bool" where
  "fingerprint_ok s \<longleftrightarrow> 1 \<le> length s \<and> length s \<le> 64 \<and> list_all is_lower_hex s"

definition new_fingerprint :: "string \<Rightarrow> core_error + fingerprint" where
  "new_fingerprint s = (if fingerprint_ok s then Inr (Fingerprint s) else Inl (InvalidFingerprint s))"

definition from_hash :: "64 word \<Rightarrow> fingerprint" where
  "from_hash h = Fingerprint (hex16 h)"

definition fp_short :: "fingerprint \<Rightarrow> string" where
  "fp_short f = concat (take 8 (utf8_chars (fp_str f)))"

text \<open>\<open>Labels::labels_hash\<close>, folding one pair after another in name order.\<close>

definition labels_hash :: "labels \<Rightarrow> labels_hash" where
  "labels_hash ls = LabelsHash (hex16 (fold (\<lambda>(n, v) h.
     fnv1a (fnv1a (fnv1a (fnv1a h (name_str n)) ''='') v) [CHR 0x00]) ls FNV_OFFSET))"

section \<open>Identity policy\<close>

definition SEPARATOR :: char where "SEPARATOR = CHR 0xFF"

datatype identity_policy = IdentityPolicy (ignored_labels: "string set")

definition new_policy :: "string list \<Rightarrow> identity_policy" where
  "new_policy ns = IdentityPolicy (set ns)"

definition is_exact :: "identity_policy \<Rightarrow> bool" where
  "is_exact p \<longleftrightarrow> Set.is_empty (ignored_labels p)"

definition policy_ignores :: "identity_policy \<Rightarrow> string \<Rightarrow> bool" where
  "policy_ignores p n \<longleftrightarrow> n \<in> ignored_labels p"

definition identity_of :: "identity_policy \<Rightarrow> fingerprint \<Rightarrow> labels \<Rightarrow> fingerprint" where
  "identity_of p fp ls =
     (if \<not> list_ex (\<lambda>(n, _). name_str n \<in> ignored_labels p) ls then fp
      else from_hash (fold (\<lambda>(n, v) h. if name_str n \<in> ignored_labels p then h
        else fnv1a (fnv1a (fnv1a (fnv1a h (name_str n)) [SEPARATOR]) v) [SEPARATOR]) ls FNV_OFFSET))"

text \<open>The labels a policy keeps, and the byte string the identity hash folds over them.\<close>

definition kept_labels :: "identity_policy \<Rightarrow> labels \<Rightarrow> labels" where
  "kept_labels p ls = filter (\<lambda>(n, _). name_str n \<notin> ignored_labels p) ls"

definition identity_bytes :: "labels \<Rightarrow> string" where
  "identity_bytes ls = concat (map (\<lambda>(n, v). name_str n @ [SEPARATOR] @ v @ [SEPARATOR]) ls)"

definition policy_touches :: "identity_policy \<Rightarrow> labels \<Rightarrow> bool" where
  "policy_touches p ls \<longleftrightarrow> (\<exists>(n, _) \<in> set ls. name_str n \<in> ignored_labels p)"

lemma identity_fold:
  "fold (\<lambda>(n, v) h. if name_str n \<in> ignored_labels p then h
     else fnv1a (fnv1a (fnv1a (fnv1a h (name_str n)) [SEPARATOR]) v) [SEPARATOR]) ls h =
   fnv1a h (identity_bytes (kept_labels p ls))"
  by (induction ls arbitrary: h) (auto simp: kept_labels_def identity_bytes_def)

lemma identity_of_eq:
  "identity_of p fp ls =
     (if policy_touches p ls then from_hash (fnv1a FNV_OFFSET (identity_bytes (kept_labels p ls))) else fp)"
  unfolding identity_of_def identity_fold by (auto simp: policy_touches_def list_ex_iff)

lemma identity_exact: "is_exact p \<Longrightarrow> identity_of p fp ls = fp"
  by (auto simp: identity_of_eq policy_touches_def is_exact_def Set.is_empty_iff)

text \<open>The bytes before the first separator are one name or one value, so the string splits back.\<close>

lemma sep_split:
  assumes "a @ SEPARATOR # x = b @ SEPARATOR # y" "SEPARATOR \<notin> set a" "SEPARATOR \<notin> set b"
  shows "a = b \<and> x = y"
  using assms by (metis option.inject prod.inject split_once_append)

definition utf8_labels :: "labels \<Rightarrow> bool" where
  "utf8_labels ls \<longleftrightarrow> (\<forall>(n, v) \<in> set ls. SEPARATOR \<notin> set (name_str n) \<and> SEPARATOR \<notin> set v)"

lemma identity_bytes_inject:
  "utf8_labels ls \<Longrightarrow> utf8_labels ls' \<Longrightarrow> identity_bytes ls = identity_bytes ls' \<Longrightarrow> ls = ls'"
proof (induction ls arbitrary: ls')
  case Nil
  then show ?case by (cases ls') (auto simp: identity_bytes_def)
next
  case (Cons kv ls)
  obtain n v where kv: "kv = (n, v)" by (cases kv)
  from Cons.prems(3) kv obtain n' v' ms where ls': "ls' = (n', v') # ms"
    by (cases ls') (auto simp: identity_bytes_def)
  have eq: "name_str n @ SEPARATOR # (v @ SEPARATOR # identity_bytes ls) =
        name_str n' @ SEPARATOR # (v' @ SEPARATOR # identity_bytes ms)"
    using Cons.prems(3) by (simp add: kv ls' identity_bytes_def)
  from Cons.prems(1,2) have clean:
    "SEPARATOR \<notin> set (name_str n)" "SEPARATOR \<notin> set (name_str n')" "SEPARATOR \<notin> set v" "SEPARATOR \<notin> set v'"
    by (auto simp: utf8_labels_def kv ls')
  note names = sep_split [OF eq clean(1,2)]
  note tails = sep_split [OF names [THEN conjunct2] clean(3,4)]
  have "utf8_labels ls" "utf8_labels ms"
    using Cons.prems(1,2) by (auto simp: utf8_labels_def kv ls')
  then have "ls = ms" using tails [THEN conjunct2] by (rule Cons.IH)
  then show ?case
    unfolding kv ls' using names [THEN conjunct1] tails [THEN conjunct1] by (simp add: label_name.expand)
qed

end
