(* ===== verification/Core_Alert.thy ===== *)
theory Core_Alert
  imports Core_Labels
begin

text \<open>
  The alert and everything said about it (\<open>alert.rs\<close>): annotations, severity, the two statuses, event
  kinds and sources, and the dedupe key a card is held under, with its scope, its retirement and its
  worker lane. The stored words of the enums share one contract, the locale \<open>stored_word\<close>.
\<close>

section \<open>Enums stored as words\<close>

text \<open>The \<open>match value\<close> of every \<open>FromStr\<close>: the words in order, and the error for any other.\<close>

definition parse_word :: "string \<Rightarrow> (string \<times> 'a) list \<Rightarrow> string \<Rightarrow> core_error + 'a" where
  "parse_word kind table s = (case map_of table s of Some x \<Rightarrow> Inr x | None \<Rightarrow> Inl (UnknownVariant kind s))"

locale stored_word =
  fixes as_str :: "'a \<Rightarrow> string" and from_str :: "string \<Rightarrow> core_error + 'a" and kind :: string
  assumes parse_print: "from_str (as_str x) = Inr x"
    and print_parse: "from_str s = Inr x \<Longrightarrow> s = as_str x"
    and parse_error: "from_str s = Inl e \<Longrightarrow> e = UnknownVariant kind s"
begin

lemma as_str_inject: "as_str x = as_str y \<longleftrightarrow> x = y"
  by (metis Inr_inject parse_print)

lemma from_str_iff: "from_str s = Inr x \<longleftrightarrow> s = as_str x"
  using parse_print print_parse by blast

lemma from_str_error_iff: "from_str s = Inl e \<longleftrightarrow> s \<notin> range as_str \<and> e = UnknownVariant kind s"
proof
  assume err: "from_str s = Inl e"
  then have "s \<noteq> as_str x" for x using parse_print by force
  with err parse_error show "s \<notin> range as_str \<and> e = UnknownVariant kind s" by blast
next
  assume r: "s \<notin> range as_str \<and> e = UnknownVariant kind s"
  then show "from_str s = Inl e"
  proof (cases "from_str s")
    case (Inl e')
    with r show ?thesis using parse_error by blast
  next
    case (Inr x)
    with r show ?thesis using print_parse by blast
  qed
qed

end

section \<open>Annotations\<close>

type_synonym annotations = "(string \<times> string) list"

definition ann_insert :: "annotations \<Rightarrow> string \<Rightarrow> string \<Rightarrow> annotations" where
  "ann_insert a n v = bt_insert n v a"

definition changed_from :: "annotations \<Rightarrow> annotations \<Rightarrow> annotations" where
  "changed_from cur prev = fold (\<lambda>(n, v) ch. if bt_get prev n \<noteq> Some v then ann_insert ch n v else ch) cur []"

lemma changed_from_fold:
  assumes "bt_wf m" "distinct (map fst xs)" "fst ` set xs \<inter> fst ` set m = {}"
  shows "bt_wf (fold (\<lambda>(n, v) ch. if P n v then ann_insert ch n v else ch) xs m) \<and>
    map_of (fold (\<lambda>(n, v) ch. if P n v then ann_insert ch n v else ch) xs m) k =
      (case map_of xs k of Some v \<Rightarrow> if P k v then Some v else map_of m k | None \<Rightarrow> map_of m k)"
  using assms
proof (induction xs arbitrary: m)
  case (Cons kv xs)
  obtain n v where kv: "kv = (n, v)" by (cases kv)
  let ?f = "\<lambda>(n, v) ch. if P n v then ann_insert ch n v else ch"
  let ?m = "if P n v then ann_insert m n v else m"
  have fresh: "n \<notin> fst ` set xs" using Cons.prems(2) by (simp add: kv)
  then have n: "map_of xs n = None" by (simp add: map_of_eq_None_iff)
  have "bt_wf ?m" "distinct (map fst xs)" "fst ` set xs \<inter> fst ` set ?m = {}"
    using Cons.prems fresh by (auto simp: kv ann_insert_def)
  note IH = Cons.IH [OF this]
  have "fold ?f (kv # xs) m = fold ?f xs ?m" by (simp add: kv)
  then show ?case using IH n
    by (cases "map_of xs k") (auto simp: kv ann_insert_def)
qed simp

section \<open>Severity\<close>

datatype severity = Info | Warning | Critical

instantiation severity :: linorder
begin
definition severity_rank :: "severity \<Rightarrow> nat" where
  "severity_rank s = (case s of Info \<Rightarrow> 0 | Warning \<Rightarrow> 1 | Critical \<Rightarrow> 2)"
definition less_eq_severity :: "severity \<Rightarrow> severity \<Rightarrow> bool" where
  "less_eq_severity a b \<longleftrightarrow> severity_rank a \<le> severity_rank b"
definition less_severity :: "severity \<Rightarrow> severity \<Rightarrow> bool" where
  "less_severity a b \<longleftrightarrow> severity_rank a < severity_rank b"
instance
  by intro_classes
    (auto simp: less_eq_severity_def less_severity_def severity_rank_def split: severity.splits)
end

lemmas severity_order = less_eq_severity_def less_severity_def severity_rank_def

definition severity_str :: "severity \<Rightarrow> string" where
  "severity_str s = (case s of Info \<Rightarrow> ''info'' | Warning \<Rightarrow> ''warning'' | Critical \<Rightarrow> ''critical'')"

definition severity_from_str :: "string \<Rightarrow> core_error + severity" where
  "severity_from_str s = (let w = ascii_lower (trim s) in
     if w \<in> {''critical'', ''crit'', ''fatal'', ''emergency'', ''page'', ''p1''} then Inr Critical
     else if w \<in> {''warning'', ''warn'', ''error'', ''p2''} then Inr Warning
     else if w \<in> {''info'', ''informational'', ''information'', ''none'', ''p3''} then Inr Info
     else Inl (UnknownSeverity s))"

definition SEVERITY_LABEL :: string where "SEVERITY_LABEL = ''severity''"

definition severity_from_labels :: "labels \<Rightarrow> severity" where
  "severity_from_labels ls = (case labels_get ls SEVERITY_LABEL of
     None \<Rightarrow> Info
   | Some v \<Rightarrow> (case severity_from_str v of Inr s \<Rightarrow> s | Inl _ \<Rightarrow> Info))"

section \<open>Statuses\<close>

datatype alert_status = AFiring | AResolved

definition alert_status_str :: "alert_status \<Rightarrow> string" where
  "alert_status_str s = (case s of AFiring \<Rightarrow> ''firing'' | AResolved \<Rightarrow> ''resolved'')"

definition alert_status_from_str :: "string \<Rightarrow> core_error + alert_status" where
  "alert_status_from_str = parse_word ''alert status'' [(''firing'', AFiring), (''resolved'', AResolved)]"

datatype am_state = AmActive | AmSuppressed | AmUnprocessed

definition am_state_str :: "am_state \<Rightarrow> string" where
  "am_state_str s = (case s of AmActive \<Rightarrow> ''active'' | AmSuppressed \<Rightarrow> ''suppressed'' | AmUnprocessed \<Rightarrow> ''unprocessed'')"

definition is_suppressed :: "am_state \<Rightarrow> bool" where
  "is_suppressed s \<longleftrightarrow> s = AmSuppressed"

definition am_state_from_str :: "string \<Rightarrow> core_error + am_state" where
  "am_state_from_str = parse_word ''alertmanager state''
     [(''active'', AmActive), (''suppressed'', AmSuppressed), (''unprocessed'', AmUnprocessed)]"

section \<open>The alert\<close>

record alert =
  al_fingerprint :: fingerprint
  al_labels :: labels
  al_annotations :: annotations
  al_starts_at :: time
  al_ends_at :: "time option"
  al_generator_url :: "string option"
  al_status :: alert_status
  al_am_state :: am_state
  al_silenced_by :: "string list"
  al_inhibited_by :: "string list"
  al_group_key :: "group_key option"

definition alert_severity :: "alert \<Rightarrow> severity" where
  "alert_severity a = severity_from_labels (al_labels a)"

definition alert_name :: "alert \<Rightarrow> string" where
  "alert_name a = (case alertname (al_labels a) of
     Some n \<Rightarrow> if n \<noteq> [] then n else fp_short (al_fingerprint a)
   | None \<Rightarrow> fp_short (al_fingerprint a))"

definition is_firing :: "alert \<Rightarrow> bool" where
  "is_firing a \<longleftrightarrow> al_status a = AFiring"

definition alert_duration :: "alert \<Rightarrow> time \<Rightarrow> duration" where
  "alert_duration a now = (case al_ends_at a of Some e \<Rightarrow> e | None \<Rightarrow> now) - al_starts_at a"

definition alert_identity :: "identity_policy \<Rightarrow> alert \<Rightarrow> fingerprint" where
  "alert_identity p a = identity_of p (al_fingerprint a) (al_labels a)"

section \<open>Events\<close>

datatype event_kind = EFired | EResolved | EUpdated | ESilenced | EUnsilenced

definition event_kind_str :: "event_kind \<Rightarrow> string" where
  "event_kind_str k = (case k of EFired \<Rightarrow> ''fired'' | EResolved \<Rightarrow> ''resolved'' | EUpdated \<Rightarrow> ''updated''
     | ESilenced \<Rightarrow> ''silenced'' | EUnsilenced \<Rightarrow> ''unsilenced'')"

definition is_transition :: "event_kind \<Rightarrow> bool" where
  "is_transition k \<longleftrightarrow> k \<noteq> EUpdated"

definition event_kind_from_str :: "string \<Rightarrow> core_error + event_kind" where
  "event_kind_from_str = parse_word ''event kind'' [(''fired'', EFired), (''resolved'', EResolved),
     (''updated'', EUpdated), (''silenced'', ESilenced), (''unsilenced'', EUnsilenced)]"

datatype event_source = SWebhook | SReconciler | SUser

definition event_source_str :: "event_source \<Rightarrow> string" where
  "event_source_str s = (case s of SWebhook \<Rightarrow> ''webhook'' | SReconciler \<Rightarrow> ''reconciler'' | SUser \<Rightarrow> ''user'')"

definition event_source_from_str :: "string \<Rightarrow> core_error + event_source" where
  "event_source_from_str = parse_word ''event source''
     [(''webhook'', SWebhook), (''reconciler'', SReconciler), (''user'', SUser)]"

lemmas word_defs = parse_word_def alert_status_str_def alert_status_from_str_def am_state_str_def
  am_state_from_str_def event_kind_str_def event_kind_from_str_def event_source_str_def
  event_source_from_str_def

interpretation status_word: stored_word alert_status_str alert_status_from_str "''alert status''"
  by unfold_locales (auto simp: word_defs split: alert_status.splits option.splits if_splits)

interpretation am_word: stored_word am_state_str am_state_from_str "''alertmanager state''"
  by unfold_locales (auto simp: word_defs split: am_state.splits option.splits if_splits)

interpretation kind_word: stored_word event_kind_str event_kind_from_str "''event kind''"
  by unfold_locales (auto simp: word_defs split: event_kind.splits option.splits if_splits)

interpretation source_word: stored_word event_source_str event_source_from_str "''event source''"
  by unfold_locales (auto simp: word_defs split: event_source.splits option.splits if_splits)

record alert_delta =
  d_kind :: event_kind
  d_source :: event_source
  d_alert :: alert
  d_flap_count :: nat
  d_observed_at :: time

section \<open>Dedupe keys\<close>

datatype dedupe_key = DedupeKey (key_str: string)

definition per_alert :: "fingerprint \<Rightarrow> dedupe_key" where
  "per_alert f = DedupeKey (''a:'' @ fp_str f)"

definition per_group :: "group_key \<Rightarrow> dedupe_key" where
  "per_group g = DedupeKey (''g:'' @ gk_str g)"

definition digest :: "int \<Rightarrow> time \<Rightarrow> dedupe_key" where
  "digest route_id window = DedupeKey (''d:'' @ show_int route_id @ '':'' @ show_int (timestamp window))"

definition SUPERSEDED_PREFIX :: string where "SUPERSEDED_PREFIX = ''superseded:''"
definition ORPHANED_PREFIX :: string where "ORPHANED_PREFIX = ''orphaned:''"

datatype retirement = RetSuperseded | RetOrphaned

definition key_retirement :: "dedupe_key \<Rightarrow> retirement option" where
  "key_retirement k =
     (if starts_with SUPERSEDED_PREFIX (key_str k) then Some RetSuperseded
      else if starts_with ORPHANED_PREFIX (key_str k) then Some RetOrphaned
      else None)"

datatype key_scope = ScopeAlert string | ScopeGroup string | ScopeDigest int time | Unrecognised

text \<open>\<open>from_ts\<close> is chrono's \<open>DateTime::from_timestamp(_, 0)\<close>.\<close>

definition key_scope :: "(int \<Rightarrow> time option) \<Rightarrow> dedupe_key \<Rightarrow> key_scope" where
  "key_scope from_ts k =
     (let live = (case Option.bind
            (find_map (\<lambda>p. strip_prefix p (key_str k)) [SUPERSEDED_PREFIX, ORPHANED_PREFIX])
            (\<lambda>rest. map_option snd (split_once (CHR '':'') rest)) of
          Some key \<Rightarrow> key | None \<Rightarrow> key_str k)
      in case strip_prefix ''a:'' live of Some i \<Rightarrow> ScopeAlert i
       | None \<Rightarrow> (case strip_prefix ''g:'' live of Some g \<Rightarrow> ScopeGroup g
       | None \<Rightarrow> (case Option.bind (strip_prefix ''d:'' live) (split_once (CHR '':'')) of
           None \<Rightarrow> Unrecognised
         | Some (route, window) \<Rightarrow> (case parse_i64 route of None \<Rightarrow> Unrecognised
           | Some r \<Rightarrow> (case Option.bind (parse_i64 window) from_ts of
               None \<Rightarrow> Unrecognised | Some w \<Rightarrow> ScopeDigest r w)))))"

definition key_lane :: "dedupe_key \<Rightarrow> nat \<Rightarrow> nat" where
  "key_lane k lanes = (if lanes \<le> 1 then 0 else unat (fnv1a FNV_OFFSET (key_str k)) mod lanes)"

text \<open>How the store rewrites the key of a replaced and of a deleted card.\<close>

definition superseded_key :: "int \<Rightarrow> dedupe_key \<Rightarrow> dedupe_key" where
  "superseded_key i k = DedupeKey (SUPERSEDED_PREFIX @ show_int i @ '':'' @ key_str k)"

definition orphaned_key :: "int \<Rightarrow> dedupe_key \<Rightarrow> dedupe_key" where
  "orphaned_key i k = DedupeKey (ORPHANED_PREFIX @ show_int i @ '':'' @ key_str k)"

lemmas key_defs = per_alert_def per_group_def digest_def SUPERSEDED_PREFIX_def ORPHANED_PREFIX_def
  superseded_key_def orphaned_key_def

lemma key_lane_less: "0 < lanes \<Longrightarrow> key_lane k lanes < lanes"
  by (simp add: key_lane_def)

lemma split_once_show_int [simp]: "split_once (CHR '':'') (show_int i @ CHR '':'' # s) = Some (show_int i, s)"
  by (rule split_once_append [OF show_int_no_colon])

lemma digest_inject: "digest r w = digest r' w' \<longleftrightarrow> r = r' \<and> timestamp w = timestamp w'"
proof
  assume "digest r w = digest r' w'"
  then have "show_int r @ CHR '':'' # show_int (timestamp w) = show_int r' @ CHR '':'' # show_int (timestamp w')"
    by (simp add: digest_def)
  then show "r = r' \<and> timestamp w = timestamp w'"
    by (metis option.inject prod.inject show_int_inject split_once_show_int)
qed (simp add: digest_def)

lemma key_kinds_distinct:
  "per_alert f \<noteq> per_group g" "per_alert f \<noteq> digest r w" "per_group g \<noteq> digest r w"
  by (simp_all add: key_defs)

lemma per_alert_inject [simp]: "per_alert f = per_alert f' \<longleftrightarrow> f = f'"
  by (auto simp: per_alert_def intro: fingerprint.expand)

lemma scope_per_alert [simp]: "key_scope ts (per_alert f) = ScopeAlert (fp_str f)"
  by (simp add: key_scope_def key_defs)

lemma scope_per_group [simp]: "key_scope ts (per_group g) = ScopeGroup (gk_str g)"
  by (simp add: key_scope_def key_defs)

lemma scope_digest:
  assumes "- (2 ^ 63) \<le> r" "r < 2 ^ 63" "- (2 ^ 63) \<le> timestamp w" "timestamp w < 2 ^ 63"
    and "ts (timestamp w) = Some w"
  shows "key_scope ts (digest r w) = ScopeDigest r w"
  using assms by (simp add: key_scope_def key_defs parse_i64_show_int)

lemma live_scope:
  assumes "key_retirement k = None"
  shows "key_scope ts (superseded_key i k) = key_scope ts k"
    "key_scope ts (orphaned_key i k) = key_scope ts k"
  using assms
  by (auto simp: key_scope_def key_retirement_def superseded_key_def orphaned_key_def
      SUPERSEDED_PREFIX_def ORPHANED_PREFIX_def split: if_splits)

lemma retirement_superseded [simp]: "key_retirement (superseded_key i k) = Some RetSuperseded"
  by (simp add: key_retirement_def superseded_key_def)

lemma retirement_orphaned [simp]: "key_retirement (orphaned_key i k) = Some RetOrphaned"
  by (simp add: key_retirement_def key_defs)

lemma retirement_live [simp]:
  "key_retirement (per_alert f) = None" "key_retirement (per_group g) = None"
  "key_retirement (digest r w) = None"
  by (simp_all add: key_retirement_def key_defs)

text \<open>A key retired twice reports no scope: only one prefix is read through.\<close>

lemma scope_retired_twice: "key_scope ts (orphaned_key j (superseded_key i k)) = Unrecognised"
  by (simp add: key_scope_def key_defs)

end
