(* ===== verification/Core_State.thy ===== *)
theory Core_State
  imports Core_Alert
begin

text \<open>
  The notification state machine (\<open>state.rs\<close>): what a card shows, what may move it, and the state a
  card is born in. Lemmas: the transition table is never the identity, orphaned is terminal, every
  other state can move, and the reachable part of the machine.
\<close>

datatype notification_state = Firing | Acked | Silenced | Ignored | Resolved | Orphaned

definition state_str :: "notification_state \<Rightarrow> string" where
  "state_str s = (case s of Firing \<Rightarrow> ''firing'' | Acked \<Rightarrow> ''acked'' | Silenced \<Rightarrow> ''silenced''
     | Ignored \<Rightarrow> ''ignored'' | Resolved \<Rightarrow> ''resolved'' | Orphaned \<Rightarrow> ''orphaned'')"

definition is_open :: "notification_state \<Rightarrow> bool" where
  "is_open s \<longleftrightarrow> s \<in> {Firing, Acked, Silenced}"

definition has_components :: "notification_state \<Rightarrow> bool" where
  "has_components s \<longleftrightarrow> is_open s \<or> s = Ignored"

definition holds_thread_open :: "notification_state \<Rightarrow> bool" where
  "holds_thread_open s \<longleftrightarrow> s \<notin> {Resolved, Orphaned}"

definition wants_pin :: "notification_state \<Rightarrow> bool" where
  "wants_pin s \<longleftrightarrow> s = Firing"

definition state_from_str :: "string \<Rightarrow> core_error + notification_state" where
  "state_from_str = parse_word ''notification state'' [(''firing'', Firing), (''acked'', Acked),
     (''silenced'', Silenced), (''ignored'', Ignored), (''resolved'', Resolved), (''orphaned'', Orphaned)]"

lemmas state_defs = is_open_def has_components_def holds_thread_open_def wants_pin_def

interpretation state_word: stored_word state_str state_from_str "''notification state''"
  by unfold_locales
    (auto simp: parse_word_def state_str_def state_from_str_def
      split: notification_state.splits option.splits if_splits)

datatype trigger = TFired | TResolved | TAcknowledged | TAckRevoked | TSilenced | TUnsilenced
  | TIgnored | TUnignored | TMessageLost

definition from_event :: "event_kind \<Rightarrow> trigger option" where
  "from_event k = (case k of EFired \<Rightarrow> Some TFired | EResolved \<Rightarrow> Some TResolved
     | ESilenced \<Rightarrow> Some TSilenced | EUnsilenced \<Rightarrow> Some TUnsilenced | EUpdated \<Rightarrow> None)"

text \<open>The guarded arms of \<open>match trigger\<close>, in order; \<open>None\<close> is its last arm's early return.\<close>

definition next_state :: "notification_state \<Rightarrow> trigger \<Rightarrow> bool \<Rightarrow> notification_state option" where
  "next_state current trigger acknowledged =
     (if current = Orphaned then None
      else let resume = (if acknowledged then Acked else Firing) in
        case (case trigger of
            TMessageLost \<Rightarrow> Some Orphaned
          | TFired \<Rightarrow> if current = Resolved then Some resume else None
          | TResolved \<Rightarrow> if is_open current \<or> current = Ignored then Some Resolved else None
          | TAcknowledged \<Rightarrow> if current = Firing then Some Acked else None
          | TAckRevoked \<Rightarrow> if current = Acked then Some Firing else None
          | TSilenced \<Rightarrow> if current \<in> {Firing, Acked} then Some Silenced else None
          | TUnsilenced \<Rightarrow> if current = Silenced then Some resume else None
          | TIgnored \<Rightarrow> if current \<in> {Firing, Acked} then Some Ignored else None
          | TUnignored \<Rightarrow> if current = Ignored then Some resume else None)
        of None \<Rightarrow> None | Some n \<Rightarrow> if n \<noteq> current then Some n else None)"

definition initial_state :: "alert_status \<Rightarrow> am_state \<Rightarrow> bool \<Rightarrow> notification_state" where
  "initial_state status am ignored =
     (if status = AResolved then Resolved
      else if ignored then Ignored
      else if is_suppressed am then Silenced
      else Firing)"

lemma next_state_Orphaned [simp]: "next_state Orphaned t a = None"
  by (simp add: next_state_def)

lemma next_state_moves: "next_state s t a = Some s' \<Longrightarrow> s' \<noteq> s"
  by (auto simp: next_state_def Let_def split: if_splits option.splits)

text \<open>The step relation of one card: a trigger, and whether the alert is held at that moment.\<close>

inductive card_step :: "notification_state \<Rightarrow> notification_state \<Rightarrow> bool" where
  step: "next_state s t a = Some s' \<Longrightarrow> card_step s s'"

inductive_cases card_stepE: "card_step s s'"
inductive_simps card_step_Orphaned [simp]: "card_step Orphaned s'"

text \<open>The table as a relation: where a card in each state can go.\<close>

definition successors :: "notification_state \<Rightarrow> notification_state set" where
  "successors s = (case s of
     Firing \<Rightarrow> {Acked, Silenced, Ignored, Resolved, Orphaned}
   | Acked \<Rightarrow> {Firing, Silenced, Ignored, Resolved, Orphaned}
   | Silenced \<Rightarrow> {Firing, Acked, Resolved, Orphaned}
   | Ignored \<Rightarrow> {Firing, Acked, Resolved, Orphaned}
   | Resolved \<Rightarrow> {Firing, Acked, Orphaned}
   | Orphaned \<Rightarrow> {})"

lemma card_step_successors: "card_step s s' \<Longrightarrow> s' \<in> successors s"
  by (elim card_stepE)
    (auto simp: next_state_def successors_def Let_def is_open_def
      split: if_splits option.splits trigger.splits notification_state.splits)

text \<open>A trigger that makes each move of the table.\<close>

definition trigger_to :: "notification_state \<Rightarrow> notification_state \<Rightarrow> trigger" where
  "trigger_to s s' = (case s' of
     Orphaned \<Rightarrow> TMessageLost | Resolved \<Rightarrow> TResolved | Silenced \<Rightarrow> TSilenced | Ignored \<Rightarrow> TIgnored
   | _ \<Rightarrow> (case s of Silenced \<Rightarrow> TUnsilenced | Ignored \<Rightarrow> TUnignored | Resolved \<Rightarrow> TFired
       | Acked \<Rightarrow> TAckRevoked | _ \<Rightarrow> TAcknowledged))"

lemma next_state_trigger_to:
  "s' \<in> successors s \<Longrightarrow> next_state s (trigger_to s s') (s' = Acked) = Some s'"
  by (cases s; cases s'; simp add: successors_def next_state_def trigger_to_def is_open_def)

lemma successors_card_step: "s' \<in> successors s \<Longrightarrow> card_step s s'"
  by (rule card_step.step [OF next_state_trigger_to])

lemma card_step_iff: "card_step s s' \<longleftrightarrow> s' \<in> successors s"
  using card_step_successors successors_card_step by blast

end
