(* ===== verification/Core_Matcher.thy ===== *)
theory Core_Matcher
  imports Core_Alert
begin

text \<open>
  Matchers and matcher expressions (\<open>matcher.rs\<close>), and the expression that names exactly one alert
  (\<open>matchers_of\<close> and \<open>escape\<close> of the Discord crate's \<open>views.rs\<close>). The regular expression engine is a
  parameter: it compiles a pattern to its match predicate or reports why not. Lemmas: the parser
  splits at top-level commas only, an escaped value is read back unchanged, and the expression of an
  alert parses to one equality per label.
\<close>

section \<open>Matchers\<close>

type_synonym regex = "string \<Rightarrow> bool"
type_synonym regex_engine = "string \<Rightarrow> string + regex"

definition MAX_REGEX_LEN :: nat where "MAX_REGEX_LEN = 512"

datatype match_op = OpEqual | OpNotEqual | OpRegexMatch | OpRegexNotMatch

definition op_str :: "match_op \<Rightarrow> string" where
  "op_str o' = (case o' of OpEqual \<Rightarrow> ''='' | OpNotEqual \<Rightarrow> ''!='' | OpRegexMatch \<Rightarrow> ''=~'' | OpRegexNotMatch \<Rightarrow> ''!~'')"

definition op_is_regex :: "match_op \<Rightarrow> bool" where
  "op_is_regex o' \<longleftrightarrow> o' \<in> {OpRegexMatch, OpRegexNotMatch}"

definition op_is_equal :: "match_op \<Rightarrow> bool" where
  "op_is_equal o' \<longleftrightarrow> o' \<in> {OpEqual, OpRegexMatch}"

record matcher =
  m_name :: label_name
  m_op :: match_op
  m_value :: string
  m_regex :: "regex option"

definition new_matcher :: "regex_engine \<Rightarrow> label_name \<Rightarrow> match_op \<Rightarrow> string \<Rightarrow> core_error + matcher" where
  "new_matcher rx name o' value =
     (if op_is_regex o' then
        if MAX_REGEX_LEN < length value then Inl (RegexTooLong (length value) MAX_REGEX_LEN)
        else (case rx (''^(?:'' @ value @ '')$'') of
            Inl detail \<Rightarrow> Inl (BadRegex value detail)
          | Inr re \<Rightarrow> Inr \<lparr>m_name = name, m_op = o', m_value = value, m_regex = Some re\<rparr>)
      else Inr \<lparr>m_name = name, m_op = o', m_value = value, m_regex = None\<rparr>)"

definition matcher_matches :: "matcher \<Rightarrow> labels \<Rightarrow> bool" where
  "matcher_matches m ls =
     (let actual = get_or_empty ls (name_str (m_name m)) in
      case m_op m of
        OpEqual \<Rightarrow> actual = m_value m
      | OpNotEqual \<Rightarrow> actual \<noteq> m_value m
      | OpRegexMatch \<Rightarrow> (case m_regex m of Some re \<Rightarrow> re actual | None \<Rightarrow> False)
      | OpRegexNotMatch \<Rightarrow> (case m_regex m of Some re \<Rightarrow> \<not> re actual | None \<Rightarrow> False))"

definition matcher_eq :: "matcher \<Rightarrow> matcher \<Rightarrow> bool" where
  "matcher_eq a b \<longleftrightarrow> m_name a = m_name b \<and> m_op a = m_op b \<and> m_value a = m_value b"

type_synonym matcher_set = "matcher list"

definition set_matches :: "matcher_set \<Rightarrow> labels \<Rightarrow> bool" where
  "set_matches ms ls \<longleftrightarrow> list_all (\<lambda>m. matcher_matches m ls) ms"

definition matcher_display :: "matcher \<Rightarrow> string" where
  "matcher_display m = name_str (m_name m) @ op_str (m_op m) @ m_value m"

section \<open>Parsing an expression\<close>

text \<open>The loop of \<open>split_top_level\<close>, with the part being read as an accumulator.\<close>

fun split_top :: "bool \<Rightarrow> bool \<Rightarrow> string \<Rightarrow> string \<Rightarrow> string list" where
  "split_top quoted escaped acc [] = [acc]"
| "split_top quoted escaped acc (ch # cs) =
     (if escaped then split_top quoted False (acc @ [ch]) cs
      else if ch = CHR 0x5C \<and> quoted then split_top quoted True (acc @ [ch]) cs
      else if ch = CHR 0x22 then split_top (\<not> quoted) False (acc @ [ch]) cs
      else if ch = CHR '','' \<and> \<not> quoted then acc # split_top quoted False [] cs
      else split_top quoted False (acc @ [ch]) cs)"

definition split_top_level :: "string \<Rightarrow> string list" where
  "split_top_level e = split_top False False [] e"

definition USIZE_MAX :: nat where "USIZE_MAX = 18446744073709551615"

definition OPERATORS :: "(string \<times> match_op) list" where
  "OPERATORS = [(''=~'', OpRegexMatch), (''!~'', OpRegexNotMatch), (''!='', OpNotEqual), (''='', OpEqual)]"

definition find_operator :: "string \<Rightarrow> (nat \<times> match_op) option" where
  "find_operator part = map_option (\<lambda>(i, o', _). (i, o'))
     (min_by_key (\<lambda>(i, _, len). (i, USIZE_MAX - len))
       (List.map_filter (\<lambda>(token, o'). map_option (\<lambda>i. (i, o', length token)) (find_sub token part))
         OPERATORS))"

fun unescape :: "bool \<Rightarrow> string \<Rightarrow> string" where
  "unescape escaped [] = []"
| "unescape escaped (ch # cs) =
     (if \<not> escaped \<and> ch = CHR 0x5C then unescape True cs else ch # unescape False cs)"

definition unquote :: "string \<Rightarrow> string" where
  "unquote value = (case Option.bind (strip_prefix [CHR 0x22] value) (strip_suffix [CHR 0x22]) of
     None \<Rightarrow> value | Some inner \<Rightarrow> unescape False inner)"

definition parse_matcher :: "regex_engine \<Rightarrow> string \<Rightarrow> core_error + matcher" where
  "parse_matcher rx part = (case find_operator part of
     None \<Rightarrow> Inl (BadMatcherExpression part ''no =, !=, =~ or !~ operator'')
   | Some (index, o') \<Rightarrow>
       let name = trim (take index part);
           value = unquote (trim (drop (index + length (op_str o')) part))
       in case new_label_name name of Inl e \<Rightarrow> Inl e | Inr n \<Rightarrow> new_matcher rx n o' value)"

fun parse_parts :: "regex_engine \<Rightarrow> string list \<Rightarrow> core_error + matcher_set" where
  "parse_parts rx [] = Inr []"
| "parse_parts rx (p # ps) =
     (let part = trim p in
      if part = [] then parse_parts rx ps
      else case parse_matcher rx part of Inl e \<Rightarrow> Inl e
        | Inr m \<Rightarrow> (case parse_parts rx ps of Inl e \<Rightarrow> Inl e | Inr ms \<Rightarrow> Inr (m # ms)))"

definition parse_matchers :: "regex_engine \<Rightarrow> string \<Rightarrow> core_error + matcher_set" where
  "parse_matchers rx expression =
     (let t = trim expression;
          t' = (case Option.bind (strip_prefix ''{'' t) (strip_suffix ''}'') of Some r \<Rightarrow> r | None \<Rightarrow> t)
      in parse_parts rx (split_top_level t'))"

section \<open>The expression that names one alert\<close>

definition escape :: "string \<Rightarrow> string" where
  "escape v = concat (map (\<lambda>c. if c = CHR 0x22 then [CHR 0x5C, CHR 0x22] else [c])
     (concat (map (\<lambda>c. if c = CHR 0x5C then [CHR 0x5C, CHR 0x5C] else [c]) v)))"

fun join :: "string \<Rightarrow> string list \<Rightarrow> string" where
  "join sep [] = []"
| "join sep [p] = p"
| "join sep (p # q # ps) = p @ sep @ join sep (q # ps)"

definition matcher_part :: "label_name \<times> string \<Rightarrow> string" where
  "matcher_part kv = name_str (fst kv) @ ''='' @ [CHR 0x22] @ escape (snd kv) @ [CHR 0x22]"

definition matchers_of :: "alert \<Rightarrow> string" where
  "matchers_of a = join '', '' (map matcher_part (al_labels a))"

section \<open>Trimming and splitting what the printer writes\<close>

definition solid :: "char \<Rightarrow> bool" where
  "solid c \<longleftrightarrow> (of_char c :: nat) < 128 \<and> \<not> is_whitespace [c]"

lemma solid_not_cont: "solid c \<Longrightarrow> \<not> is_cont c"
  by (simp add: solid_def is_cont_def)

lemma solid_group: "solid c \<Longrightarrow> \<not> is_whitespace (c # cs)"
  by (cases cs) (auto simp: solid_def is_whitespace_def split: list.splits)

lemma utf8_chars_append: "\<not> is_cont c \<Longrightarrow> utf8_chars (s @ c # t) = utf8_chars s @ utf8_chars (c # t)"
proof (induction s rule: utf8_chars.induct)
  case (2 a s)
  show ?case
  proof (cases "\<forall>x \<in> set s. is_cont x")
    case True
    with 2 show ?thesis
      by (simp add: takeWhile_append dropWhile_append takeWhile_eq_all_conv [THEN iffD2]
          dropWhile_eq_Nil_conv [THEN iffD2])
  next
    case False
    with 2 show ?thesis by (auto simp: takeWhile_append dropWhile_append)
  qed
qed simp

lemma trim_solid:
  assumes "s \<noteq> []" "solid (hd s)" "solid (last s)"
  shows "trim s = s"
proof -
  obtain a r where a: "s = a # r" using assms(1) by (cases s) auto
  obtain q b where b: "s = q @ [b]" using assms(1) by (cases s rule: rev_cases) auto
  have "dropWhile is_whitespace (utf8_chars s) = utf8_chars s"
    using assms(2) by (simp add: a solid_group)
  moreover have "utf8_chars s = utf8_chars q @ [[b]]"
    using assms(3) by (simp add: b utf8_chars_append solid_not_cont)
  moreover have "\<not> is_whitespace [b]" using assms(3) by (simp add: b solid_def)
  ultimately show ?thesis by (metis concat_utf8_chars dropWhile.simps(2) rev.simps(2) rev_rev_ident trim_def
        rev_append append_Cons append_Nil)
qed

lemma trim_space: "s \<noteq> [] \<Longrightarrow> solid (hd s) \<Longrightarrow> trim (CHR '' '' # s) = trim s"
proof -
  assume "s \<noteq> []" "solid (hd s)"
  then have "utf8_chars (CHR '' '' # s) = [CHR '' ''] # utf8_chars s"
    by (cases s) (simp_all add: solid_not_cont)
  moreover have "is_whitespace [CHR '' '']" by (simp add: is_whitespace_def)
  ultimately show ?thesis by (simp add: trim_def)
qed

lemma label_byte_solid: "is_label_byte c \<Longrightarrow> solid c"
  by (auto simp: is_label_byte_def solid_def is_whitespace_def is_alpha_def is_digit_def Let_def)

lemma label_byte_neq:
  "is_label_byte c \<Longrightarrow> c \<noteq> CHR 0x22 \<and> c \<noteq> CHR '','' \<and> c \<noteq> CHR ''='' \<and> c \<noteq> CHR ''!'' \<and> c \<noteq> CHR ''{''"
  by (auto simp: is_label_byte_def is_alpha_def is_digit_def Let_def)

lemma quote_solid [simp]: "solid (CHR 0x22)"
  by (simp add: solid_def is_whitespace_def)

lemma escape_simps [simp]:
  "escape [] = []"
  "escape (c # v) = (if c = CHR 0x5C then [CHR 0x5C, CHR 0x5C]
     else if c = CHR 0x22 then [CHR 0x5C, CHR 0x22] else [c]) @ escape v"
  by (auto simp: escape_def)

lemma unescape_escape: "unescape False (escape v @ r) = v @ unescape False r"
  by (induction v) auto

lemma split_top_escaped:
  "split_top True False acc (escape v @ CHR 0x22 # r) = split_top False False (acc @ escape v @ [CHR 0x22]) r"
  by (induction v arbitrary: acc) auto

lemma split_top_plain:
  "list_all is_label_byte n \<Longrightarrow> split_top False False acc (n @ r) = split_top False False (acc @ n) r"
  by (induction n arbitrary: acc) (auto dest: label_byte_neq)

definition part_ok :: "label_name \<times> string \<Rightarrow> bool" where
  "part_ok kv \<longleftrightarrow> label_name_ok (name_str (fst kv))"

lemma split_top_part:
  "part_ok kv \<Longrightarrow> split_top False False acc (matcher_part kv @ r) = split_top False False (acc @ matcher_part kv) r"
  by (simp add: part_ok_def label_name_ok_def matcher_part_def split_top_plain split_top_escaped)

lemma split_top_join:
  "list_all part_ok (kv # kvs) \<Longrightarrow>
   split_top False False acc (join '', '' (map matcher_part (kv # kvs))) =
     (acc @ matcher_part kv) # map (\<lambda>kv. CHR '' '' # matcher_part kv) kvs"
proof (induction kvs arbitrary: kv acc)
  case Nil
  then show ?case using split_top_part [of kv acc "[]"] by simp
next
  case (Cons kv' kvs)
  from Cons.prems Cons.IH [of kv' "[CHR '' '']"] show ?case
    by (simp add: split_top_part)
qed

lemma matcher_part_ends:
  assumes "part_ok kv"
  shows "matcher_part kv \<noteq> []" "solid (hd (matcher_part kv))" "solid (last (matcher_part kv))"
    "hd (matcher_part kv) \<noteq> CHR ''{''" "is_label_byte (hd (matcher_part kv))"
  using assms
  by (cases "name_str (fst kv)"; auto simp: part_ok_def label_name_ok_def matcher_part_def
      dest: label_byte_solid label_byte_neq)+

section \<open>Finding the operator\<close>

lemma find_sub_skip:
  "p \<noteq> [] \<Longrightarrow> hd p \<notin> set n \<Longrightarrow> find_sub p (n @ s) = map_option (\<lambda>i. length n + i) (find_sub p s)"
proof (induction n)
  case (Cons c n)
  then show ?case by (cases p) (auto simp: option.map_comp o_def)
next
  case Nil
  show ?case by (cases "find_sub p s") simp_all
qed

lemma find_operator_equal:
  assumes "list_all is_label_byte n"
  shows "find_operator (n @ CHR ''='' # CHR 0x22 # e) = Some (length n, OpEqual)"
proof -
  have clean: "CHR ''='' \<notin> set n" "CHR ''!'' \<notin> set n"
    using assms by (auto simp: list_all_iff dest: label_byte_neq)
  define k where "k = find_sub ''=~'' e"
  define l where "l = find_sub ''!~'' e"
  define m where "m = find_sub ''!='' e"
  have "find_sub ''=~'' (n @ CHR ''='' # CHR 0x22 # e) = map_option (\<lambda>i. length n + i + 2) k"
    "find_sub ''!~'' (n @ CHR ''='' # CHR 0x22 # e) = map_option (\<lambda>i. length n + i + 2) l"
    "find_sub ''!='' (n @ CHR ''='' # CHR 0x22 # e) = map_option (\<lambda>i. length n + i + 2) m"
    "find_sub ''='' (n @ CHR ''='' # CHR 0x22 # e) = Some (length n)"
    using clean by (simp_all add: find_sub_skip k_def l_def m_def option.map_comp o_def)
  then show ?thesis
    by (cases k; cases l; cases m)
      (simp_all add: find_operator_def OPERATORS_def List.map_filter_simps less_eq_prod_simp)
qed

lemma parse_matcher_part:
  assumes "part_ok kv"
  shows "parse_matcher rx (matcher_part kv) =
    Inr \<lparr>m_name = fst kv, m_op = OpEqual, m_value = snd kv, m_regex = None\<rparr>"
proof -
  obtain n v where kv: "kv = (LabelName n, v)" by (cases kv; cases "fst kv") auto
  let ?q = "CHR 0x22 # escape v @ [CHR 0x22]"
  have ok: "label_name_ok n" and bytes: "list_all is_label_byte n" and ne: "n \<noteq> []"
    using assms by (auto simp: part_ok_def label_name_ok_def kv)
  have part: "matcher_part (LabelName n, v) = n @ CHR ''='' # ?q" by (simp add: matcher_part_def)
  have "solid (hd n)" "solid (last n)"
    using bytes ne by (auto simp: list_all_iff intro!: label_byte_solid)
  then have name: "trim n = n" using ne by (intro trim_solid)
  have quoted: "trim ?q = ?q" by (rule trim_solid) auto
  have "strip_suffix [CHR 0x22] (escape v @ [CHR 0x22]) = Some (escape v)"
    by (rule strip_suffix_append)
  then have "unquote ?q = v" using unescape_escape [of v "[]"] by (simp add: unquote_def)
  with ok name quoted show ?thesis
    by (simp add: parse_matcher_def part find_operator_equal [OF bytes] op_str_def Let_def
        new_label_name_def new_matcher_def op_is_regex_def kv)
qed

lemma parse_parts_spaced:
  assumes "list_all part_ok kvs"
  shows "parse_parts rx (map (\<lambda>kv. CHR '' '' # matcher_part kv) kvs) =
    Inr (map (\<lambda>(n, v). \<lparr>m_name = n, m_op = OpEqual, m_value = v, m_regex = None\<rparr>) kvs)"
  using assms
proof (induction kvs)
  case (Cons kv kvs)
  then have kv: "part_ok kv" by simp
  note ends = matcher_part_ends [OF kv]
  have "trim (CHR '' '' # matcher_part kv) = matcher_part kv"
    using ends by (simp add: trim_space trim_solid)
  with Cons ends(1) show ?case by (simp add: Let_def parse_matcher_part [OF kv] split_beta)
qed simp

lemma last_join:
  "kvs \<noteq> [] \<Longrightarrow> list_all part_ok kvs \<Longrightarrow> join '', '' (map matcher_part kvs) \<noteq> [] \<and>
   hd (join '', '' (map matcher_part kvs)) = hd (matcher_part (hd kvs)) \<and>
   last (join '', '' (map matcher_part kvs)) = last (matcher_part (last kvs))"
proof (induction kvs)
  case (Cons kv kvs)
  then show ?case
    using matcher_part_ends(1) [of kv] by (cases kvs) auto
qed simp

lemma parse_matchers_of:
  assumes "list_all part_ok (al_labels a)"
  shows "parse_matchers rx (matchers_of a) =
    Inr (map (\<lambda>(n, v). \<lparr>m_name = n, m_op = OpEqual, m_value = v, m_regex = None\<rparr>) (al_labels a))"
proof (cases "al_labels a")
  case Nil
  then show ?thesis
    by (simp add: parse_matchers_def matchers_of_def trim_def split_top_level_def)
next
  case (Cons kv kvs)
  let ?e = "join '', '' (map matcher_part (kv # kvs))"
  have ok: "part_ok kv" "list_all part_ok kvs" "part_ok (last (kv # kvs))"
    using assms Cons by (auto simp: list_all_iff)
  note ends = matcher_part_ends [OF ok(1)] and lasts = matcher_part_ends [OF ok(3)]
  have e: "?e \<noteq> []" "hd ?e = hd (matcher_part kv)" "last ?e = last (matcher_part (last (kv # kvs)))"
    using last_join [of "kv # kvs"] ok by simp_all
  then have trim: "trim ?e = ?e" using ends lasts by (intro trim_solid) simp_all
  have brace: "strip_prefix ''{'' ?e = None"
    using e(1,2) ends(4) by (cases ?e) auto
  have "split_top_level ?e = matcher_part kv # map (\<lambda>kv. CHR '' '' # matcher_part kv) kvs"
    using split_top_join [of kv kvs "[]"] ok by (simp add: split_top_level_def)
  moreover have "trim (matcher_part kv) = matcher_part kv" using ends by (intro trim_solid)
  ultimately show ?thesis
    using ends(1) trim brace ok
    by (simp add: parse_matchers_def matchers_of_def Cons Let_def parse_matcher_part
        parse_parts_spaced split_beta del: join.simps)
qed

end
