(* ===== verification/Store_Types.thy ===== *)
theory Store_Types
  imports Core_State Core_Matcher
begin

text \<open>
  What the store crate names: the ids and their column form (\<open>ids.rs\<close>), the error vocabulary
  (\<open>error.rs\<close>), routes, ignore rules, subscriptions and forum tags (\<open>routing.rs\<close>), the alert rows and
  queries (\<open>alerts.rs\<close>), the cards and acknowledgements (\<open>notifications.rs\<close>), the outbox
  (\<open>outbox.rs\<close>) and the decision a transaction applies (\<open>lib.rs\<close>). Snowflakes are 64-bit words,
  surrogate keys are integers, \<open>u32\<close> counters naturals with their saturation written out.
\<close>

section \<open>Ids\<close>

type_synonym snowflake = "64 word"

definition to_db :: "snowflake \<Rightarrow> int" where "to_db s = sint s"

definition from_db :: "int \<Rightarrow> snowflake" where "from_db i = word_of_int i"

type_synonym guild_id = snowflake
type_synonym channel_id = snowflake
type_synonym message_id = snowflake
type_synonym user_id = snowflake
type_synonym role_id = snowflake
type_synonym tag_id = snowflake

type_synonym notification_id = int
type_synonym route_id = int
type_synonym outbox_id = int
type_synonym ignore_id = int
type_synonym subscription_id = int

type_synonym worker_id = string

lemma from_db_to_db [simp]: "from_db (to_db s) = s"
  by (simp add: to_db_def from_db_def)

lemma to_db_from_db: "- (2 ^ 63) \<le> i \<Longrightarrow> i < 2 ^ 63 \<Longrightarrow> to_db (from_db i) = i"
  by (simp add: to_db_def from_db_def sint_sbintrunc' signed_take_bit_int_eq_self)

lemma to_db_range: "- (2 ^ 63) \<le> to_db s \<and> to_db s < 2 ^ 63"
  using sint_range_size [of s] by (simp add: to_db_def word_size)

section \<open>Errors\<close>

datatype store_error =
    Conflict string
  | NotFound string string
  | LeaseLost outbox_id
  | Decode string string
  | Backend string
  | Migration string

fun is_retryable :: "store_error \<Rightarrow> bool" where
  "is_retryable (Backend _) = True"
| "is_retryable _ = False"

definition no_such_notification :: "notification_id \<Rightarrow> store_error" where
  "no_such_notification i = NotFound ''notification'' (show_int i)"

definition no_such_route :: "route_id \<Rightarrow> store_error" where
  "no_such_route i = NotFound ''route'' (show_int i)"

section \<open>Routes\<close>

datatype route_source = RouteConfig | RouteDiscord

definition route_source_str :: "route_source \<Rightarrow> string" where
  "route_source_str s = (case s of RouteConfig \<Rightarrow> ''config'' | RouteDiscord \<Rightarrow> ''discord'')"

definition is_mutable_from_discord :: "route_source \<Rightarrow> bool" where
  "is_mutable_from_discord s \<longleftrightarrow> s = RouteDiscord"

definition route_source_from_str :: "string \<Rightarrow> core_error + route_source" where
  "route_source_from_str = parse_word ''route source'' [(''config'', RouteConfig), (''discord'', RouteDiscord)]"

datatype group_strategy = PerAlert | PerGroup | Digest

definition group_strategy_str :: "group_strategy \<Rightarrow> string" where
  "group_strategy_str s = (case s of PerAlert \<Rightarrow> ''per_alert'' | PerGroup \<Rightarrow> ''per_group'' | Digest \<Rightarrow> ''digest'')"

definition group_strategy_from_str :: "string \<Rightarrow> core_error + group_strategy" where
  "group_strategy_from_str = parse_word ''group strategy''
     [(''per_alert'', PerAlert), (''per_group'', PerGroup), (''digest'', Digest)]"

datatype thread_trigger = Never | OnCreate | OnAck | OnFirstReply

datatype thread_kind = PublicThread | PrivateThread

record thread_policy =
  tp_when :: thread_trigger
  tp_kind :: thread_kind
  tp_archive_after_minutes :: nat

record state_tags =
  st_firing :: string
  st_acked :: string
  st_silenced :: string
  st_resolved :: string

record forum_policy =
  fp_title_template :: string
  fp_manage_tags :: bool
  fp_state_tags :: state_tags
  fp_severity_tags :: bool
  fp_label_tags :: "string list"
  fp_default_tag :: "string option"
  fp_auto_archive_minutes :: nat
  fp_archive_on_resolve :: bool
  fp_lock_on_resolve :: bool
  fp_pin_min_severity :: "severity option"
  fp_max_pinned :: nat
  fp_bump_on_state_change :: bool

datatype route_target =
    TextTarget channel_id thread_policy
  | ForumTarget channel_id forum_policy
  | ThreadTarget channel_id
  | DmTarget user_id

fun target_channel :: "route_target \<Rightarrow> channel_id option" where
  "target_channel (TextTarget c _) = Some c"
| "target_channel (ForumTarget c _) = Some c"
| "target_channel (ThreadTarget t) = Some t"
| "target_channel (DmTarget _) = None"

fun is_forum :: "route_target \<Rightarrow> bool" where
  "is_forum (ForumTarget _ _) = True"
| "is_forum _ = False"

fun target_kind :: "route_target \<Rightarrow> string" where
  "target_kind (TextTarget _ _) = ''text''"
| "target_kind (ForumTarget _ _) = ''forum''"
| "target_kind (ThreadTarget _) = ''thread''"
| "target_kind (DmTarget _) = ''dm''"

record mentions =
  mn_roles :: "role_id list"
  mn_users :: "user_id list"
  mn_min_severity :: "severity option"

definition mentions_empty :: "mentions \<Rightarrow> bool" where
  "mentions_empty m \<longleftrightarrow> mn_roles m = [] \<and> mn_users m = []"

record escalation =
  es_after_secs :: nat
  es_roles :: "role_id list"
  es_users :: "user_id list"

text \<open>
  \<open>chrono::Duration::seconds\<close> panics unless the milliseconds fit an \<open>i64\<close>; the panic is the
  value \<open>None\<close>.
\<close>

definition I64_MAX :: int where "I64_MAX = 9223372036854775807"

definition duration_seconds :: "int \<Rightarrow> duration option" where
  "duration_seconds s = (if - (I64_MAX div 1000) \<le> s \<and> s \<le> I64_MAX div 1000 then Some (seconds s) else None)"

definition escalation_after :: "escalation \<Rightarrow> duration option" where
  "escalation_after e = duration_seconds (min (int (max (es_after_secs e) 1)) I64_MAX)"

definition escalation_empty :: "escalation \<Rightarrow> bool" where
  "escalation_empty e \<longleftrightarrow> es_roles e = [] \<and> es_users e = []"

record route =
  rt_id :: route_id
  rt_guild_id :: guild_id
  rt_name :: string
  rt_matcher_source :: string
  rt_matchers :: matcher_set
  rt_min_severity :: "severity option"
  rt_target :: route_target
  rt_group_strategy :: group_strategy
  rt_mentions :: mentions
  rt_escalation :: "escalation option"
  rt_priority :: int
  rt_continue_to_next :: bool
  rt_source :: route_source
  rt_enabled :: bool
  rt_created_by :: "user_id option"
  rt_created_at :: time

text \<open>\<open>Option::is_none_or\<close> on a severity floor.\<close>

definition at_least :: "severity option \<Rightarrow> severity \<Rightarrow> bool" where
  "at_least floor s = (case floor of None \<Rightarrow> True | Some f \<Rightarrow> f \<le> s)"

definition route_accepts :: "route \<Rightarrow> labels \<Rightarrow> severity \<Rightarrow> bool" where
  "route_accepts r ls s \<longleftrightarrow> rt_enabled r \<and> set_matches (rt_matchers r) ls \<and> at_least (rt_min_severity r) s"

definition mentions_at :: "route \<Rightarrow> severity \<Rightarrow> bool" where
  "mentions_at r s \<longleftrightarrow> \<not> mentions_empty (rt_mentions r) \<and> at_least (mn_min_severity (rt_mentions r)) s"

lemma at_least_mono: "at_least f s \<Longrightarrow> s \<le> t \<Longrightarrow> at_least f t"
  by (auto simp: at_least_def split: option.splits)

lemma route_accepts_mono: "route_accepts r ls s \<Longrightarrow> s \<le> t \<Longrightarrow> route_accepts r ls t"
  by (auto simp: route_accepts_def intro: at_least_mono)

section \<open>Ignore rules, subscriptions, forum tags\<close>

datatype ignore_scope = IgnoreGuild | IgnoreChannel

definition ignore_scope_str :: "ignore_scope \<Rightarrow> string" where
  "ignore_scope_str s = (case s of IgnoreGuild \<Rightarrow> ''guild'' | IgnoreChannel \<Rightarrow> ''channel'')"

definition ignore_scope_from_str :: "string \<Rightarrow> core_error + ignore_scope" where
  "ignore_scope_from_str = parse_word ''ignore scope'' [(''guild'', IgnoreGuild), (''channel'', IgnoreChannel)]"

record ignore_rule =
  ig_id :: ignore_id
  ig_scope :: ignore_scope
  ig_guild_id :: guild_id
  ig_channel_id :: "channel_id option"
  ig_matcher_source :: string
  ig_matchers :: matcher_set
  ig_reason :: string
  ig_created_by :: user_id
  ig_created_at :: time
  ig_expires_at :: "time option"
  ig_revoked_at :: "time option"

definition ignore_active :: "ignore_rule \<Rightarrow> time \<Rightarrow> bool" where
  "ignore_active r now \<longleftrightarrow> ig_revoked_at r = None \<and>
     (case ig_expires_at r of None \<Rightarrow> True | Some expiry \<Rightarrow> now < expiry)"

definition ignore_mutes :: "ignore_rule \<Rightarrow> labels \<Rightarrow> channel_id \<Rightarrow> time \<Rightarrow> bool" where
  "ignore_mutes r ls channel now =
     (if \<not> ignore_active r now \<or> \<not> set_matches (ig_matchers r) ls then False
      else case ig_scope r of IgnoreGuild \<Rightarrow> True | IgnoreChannel \<Rightarrow> ig_channel_id r = Some channel)"

record subscription =
  su_id :: subscription_id
  su_user_id :: user_id
  su_matcher_source :: string
  su_matchers :: matcher_set
  su_min_severity :: "severity option"
  su_created_at :: time

record forum_tag =
  ft_channel_id :: channel_id
  ft_name :: string
  ft_id :: tag_id
  ft_moderated :: bool
  ft_synced_at :: time

section \<open>Cards\<close>

record notification =
  n_id :: notification_id
  n_dedupe_key :: dedupe_key
  n_fingerprint :: fingerprint
  n_route_id :: route_id
  n_guild_id :: guild_id
  n_channel_id :: channel_id
  n_message_id :: "message_id option"
  n_thread_id :: "channel_id option"
  n_state :: notification_state
  n_render_hash :: "string option"
  n_applied_tags :: "tag_id list"
  n_tags_hash :: "string option"
  n_pinned :: bool
  n_archived :: bool
  n_responded_at :: "time option"
  n_escalated_at :: "time option"
  n_supersedes :: "notification_id option"
  n_resolved_at :: "time option"
  n_reply_count :: nat
  n_created_at :: time
  n_updated_at :: time

definition is_posted :: "notification \<Rightarrow> bool" where
  "is_posted n \<longleftrightarrow> n_message_id n \<noteq> None"

definition needs_edit :: "notification \<Rightarrow> string \<Rightarrow> bool" where
  "needs_edit n h \<longleftrightarrow> n_render_hash n \<noteq> Some h"

definition needs_tag_update :: "notification \<Rightarrow> string \<Rightarrow> bool" where
  "needs_tag_update n h \<longleftrightarrow> n_tags_hash n \<noteq> Some h"

record new_notification =
  nn_dedupe_key :: dedupe_key
  nn_fingerprint :: fingerprint
  nn_route_id :: route_id
  nn_guild_id :: guild_id
  nn_channel_id :: channel_id
  nn_state :: notification_state
  nn_supersedes :: "notification_id option"
  nn_created_at :: time

datatype ack_kind = Ack | Investigating | Handover

definition ack_kind_str :: "ack_kind \<Rightarrow> string" where
  "ack_kind_str k = (case k of Ack \<Rightarrow> ''ack'' | Investigating \<Rightarrow> ''investigating'' | Handover \<Rightarrow> ''handover'')"

definition ack_kind_from_str :: "string \<Rightarrow> core_error + ack_kind" where
  "ack_kind_from_str = parse_word ''acknowledgement kind''
     [(''ack'', Ack), (''investigating'', Investigating), (''handover'', Handover)]"

record ack_command =
  ac_fingerprint :: fingerprint
  ac_user_id :: user_id
  ac_kind :: ack_kind
  ac_note :: "string option"
  ac_revoke :: bool
  ac_at :: time

record ack_outcome =
  ao_changed :: bool
  ao_holder :: "user_id option"
  ao_acknowledged_at :: "time option"
  ao_cards :: "notification list"

record thread_reply =
  tr_thread_id :: channel_id
  tr_author_id :: user_id
  tr_at :: time

section \<open>Alert rows, queries, silences\<close>

record ingest_batch =
  ib_source :: event_source
  ib_group_key :: "group_key option"
  ib_truncated :: nat
  ib_alerts :: "alert list"
  ib_received_at :: time

definition new_batch :: "event_source \<Rightarrow> alert list \<Rightarrow> time \<Rightarrow> ingest_batch" where
  "new_batch s as t = \<lparr>ib_source = s, ib_group_key = None, ib_truncated = 0, ib_alerts = as, ib_received_at = t\<rparr>"

definition is_truncated :: "ingest_batch \<Rightarrow> bool" where
  "is_truncated b \<longleftrightarrow> 0 < ib_truncated b"

record ingest_outcome =
  io_deltas :: "alert_delta list"
  io_duplicates :: nat

record alert_record =
  ar_alert :: alert
  ar_labels_hash :: labels_hash
  ar_first_seen_at :: time
  ar_last_seen_at :: time
  ar_resolved_at :: "time option"
  ar_flap_count :: nat
  ar_updated_at :: time

record query_matcher =
  qm_name :: string
  qm_op :: match_op
  qm_value :: string

record alert_query =
  aq_statuses :: "alert_status list"
  aq_min_severity :: "severity option"
  aq_matchers :: "query_matcher list"
  aq_notification_state :: "notification_state option"
  aq_offset :: nat
  aq_limit :: nat

record 'a page =
  pg_items :: "'a list"
  pg_total :: nat
  pg_offset :: nat
  pg_limit :: nat

definition page_end :: "'a page \<Rightarrow> nat" where
  "page_end p = pg_offset p + length (pg_items p)"

definition has_more :: "'a page \<Rightarrow> bool" where
  "has_more p \<longleftrightarrow> page_end p < pg_total p"

datatype silence_lifecycle = SilencePending | SilenceActive | SilenceExpired

definition silence_lifecycle_str :: "silence_lifecycle \<Rightarrow> string" where
  "silence_lifecycle_str s = (case s of SilencePending \<Rightarrow> ''pending'' | SilenceActive \<Rightarrow> ''active''
     | SilenceExpired \<Rightarrow> ''expired'')"

definition is_in_force :: "silence_lifecycle \<Rightarrow> bool" where
  "is_in_force s \<longleftrightarrow> s = SilenceActive"

definition silence_lifecycle_from_str :: "string \<Rightarrow> core_error + silence_lifecycle" where
  "silence_lifecycle_from_str = parse_word ''silence state''
     [(''pending'', SilencePending), (''active'', SilenceActive), (''expired'', SilenceExpired)]"

record silence_link =
  sl_am_id :: string
  sl_matchers :: string
  sl_starts_at :: time
  sl_ends_at :: time
  sl_created_by :: string
  sl_discord_user_id :: "user_id option"
  sl_origin_message :: "string option"
  sl_comment :: string
  sl_state :: silence_lifecycle
  sl_synced_at :: time

record silence_state =
  ss_am_id :: string
  ss_suppresses :: "fingerprint list"
  ss_state :: silence_lifecycle
  ss_ends_at :: time
  ss_observed_at :: time

section \<open>The outbox\<close>

record silence_effect =
  sf_am_id :: "string option"
  sf_matchers :: string
  sf_starts_at :: time
  sf_ends_at :: time
  sf_created_by :: string
  sf_comment :: string
  sf_discord_user_id :: "user_id option"
  sf_origin_message :: "string option"

datatype effect =
    PostCard notification_id bool
  | EditCard notification_id
  | ResyncCard notification_id
  | OpenThread notification_id string
  | ThreadNote notification_id string
  | SetTags notification_id "tag_id list"
  | SetFlags notification_id bool bool nat "notification_state option"
  | SetPinned notification_id bool
  | DisableComponents notification_id
  | CreateSilence silence_effect
  | ExpireSilence string
  | Escalate notification_id "role_id list" "user_id list"
  | AdminNotice channel_id string

fun effect_notification :: "effect \<Rightarrow> notification_id option" where
  "effect_notification (PostCard n _) = Some n"
| "effect_notification (EditCard n) = Some n"
| "effect_notification (ResyncCard n) = Some n"
| "effect_notification (OpenThread n _) = Some n"
| "effect_notification (ThreadNote n _) = Some n"
| "effect_notification (SetTags n _) = Some n"
| "effect_notification (SetFlags n _ _ _ _) = Some n"
| "effect_notification (SetPinned n _) = Some n"
| "effect_notification (DisableComponents n) = Some n"
| "effect_notification (Escalate n _ _) = Some n"
| "effect_notification (CreateSilence _) = None"
| "effect_notification (ExpireSilence _) = None"
| "effect_notification (AdminNotice _ _) = None"

fun effect_kind :: "effect \<Rightarrow> string" where
  "effect_kind (PostCard _ _) = ''post_card''"
| "effect_kind (EditCard _) = ''edit_card''"
| "effect_kind (ResyncCard _) = ''resync_card''"
| "effect_kind (OpenThread _ _) = ''open_thread''"
| "effect_kind (ThreadNote _ _) = ''thread_note''"
| "effect_kind (SetTags _ _) = ''set_tags''"
| "effect_kind (SetFlags _ _ _ _ _) = ''set_flags''"
| "effect_kind (SetPinned _ _) = ''set_pinned''"
| "effect_kind (DisableComponents _) = ''disable_components''"
| "effect_kind (CreateSilence _) = ''create_silence''"
| "effect_kind (ExpireSilence _) = ''expire_silence''"
| "effect_kind (Escalate _ _ _) = ''escalate''"
| "effect_kind (AdminNotice _ _) = ''admin_notice''"

fun is_coalescable :: "effect \<Rightarrow> bool" where
  "is_coalescable (EditCard _) = True"
| "is_coalescable (ResyncCard _) = True"
| "is_coalescable (SetTags _ _) = True"
| "is_coalescable _ = False"

lemma coalescable_names_card: "is_coalescable e \<Longrightarrow> \<exists>n. effect_notification e = Some n"
  by (cases e) auto

record outbox_item =
  ob_id :: outbox_id
  ob_lane :: nat
  ob_effect :: effect
  ob_dedupe_key :: dedupe_key
  ob_not_before :: time
  ob_attempts :: nat
  ob_claimed_by :: "worker_id option"
  ob_claimed_at :: "time option"
  ob_last_error :: "string option"
  ob_created_at :: time

record new_outbox_item =
  no_effect :: effect
  no_dedupe_key :: dedupe_key
  no_not_before :: time

definition outbox_now :: "effect \<Rightarrow> dedupe_key \<Rightarrow> time \<Rightarrow> new_outbox_item" where
  "outbox_now e k t = \<lparr>no_effect = e, no_dedupe_key = k, no_not_before = t\<rparr>"

record applied_effect =
  ae_message_id :: "message_id option"
  ae_thread_id :: "channel_id option"
  ae_render_hash :: "string option"
  ae_applied_tags :: "tag_id list option"
  ae_tags_hash :: "string option"
  ae_pinned :: "bool option"
  ae_archived :: "bool option"
  ae_am_silence_id :: "string option"

definition no_applied :: applied_effect where
  "no_applied = \<lparr>ae_message_id = None, ae_thread_id = None, ae_render_hash = None, ae_applied_tags = None,
     ae_tags_hash = None, ae_pinned = None, ae_archived = None, ae_am_silence_id = None\<rparr>"

definition OUTBOX_LANES :: nat where "OUTBOX_LANES = 1024"

record lane_assignment =
  la_index :: nat
  la_of :: nat

definition new_lane_assignment :: "nat \<Rightarrow> nat \<Rightarrow> lane_assignment" where
  "new_lane_assignment index of' = (let n = max of' 1 in \<lparr>la_index = index mod n, la_of = n\<rparr>)"

record claim_request =
  cr_lane :: "lane_assignment option"
  cr_lease_secs :: nat
  cr_limit :: nat

section \<open>Decisions\<close>

record planned_card =
  pc_card :: new_notification
  pc_mention :: bool
  pc_not_before :: time

record card_update =
  cu_id :: notification_id
  cu_fingerprint :: fingerprint
  cu_state :: "notification_state option"
  cu_effects :: "new_outbox_item list"

record decision =
  de_new_cards :: "planned_card list"
  de_updates :: "card_update list"
  de_at :: time

definition decision_empty :: "decision \<Rightarrow> bool" where
  "decision_empty d \<longleftrightarrow> de_new_cards d = [] \<and> de_updates d = []"

section \<open>The stored words\<close>

lemmas store_word_defs = parse_word_def route_source_str_def route_source_from_str_def
  group_strategy_str_def group_strategy_from_str_def ignore_scope_str_def ignore_scope_from_str_def
  ack_kind_str_def ack_kind_from_str_def silence_lifecycle_str_def silence_lifecycle_from_str_def

interpretation route_source_word: stored_word route_source_str route_source_from_str "''route source''"
  by unfold_locales (auto simp: store_word_defs split: route_source.splits option.splits if_splits)

interpretation strategy_word: stored_word group_strategy_str group_strategy_from_str "''group strategy''"
  by unfold_locales (auto simp: store_word_defs split: group_strategy.splits option.splits if_splits)

interpretation scope_word: stored_word ignore_scope_str ignore_scope_from_str "''ignore scope''"
  by unfold_locales (auto simp: store_word_defs split: ignore_scope.splits option.splits if_splits)

interpretation ack_word: stored_word ack_kind_str ack_kind_from_str "''acknowledgement kind''"
  by unfold_locales (auto simp: store_word_defs split: ack_kind.splits option.splits if_splits)

interpretation silence_word: stored_word silence_lifecycle_str silence_lifecycle_from_str "''silence state''"
  by unfold_locales (auto simp: store_word_defs split: silence_lifecycle.splits option.splits if_splits)

text \<open>The workers' lane classes partition the lanes.\<close>

lemma lanes_partition:
  assumes "0 < n"
  shows "\<exists>!i. i < n \<and> lane mod la_of (new_lane_assignment i n) = la_index (new_lane_assignment i n)"
proof (rule ex1I [of _ "lane mod n"])
  show "lane mod n < n \<and> lane mod la_of (new_lane_assignment (lane mod n) n) = la_index (new_lane_assignment (lane mod n) n)"
    using assms by (simp add: new_lane_assignment_def Let_def max_absorb1)
  show "i < n \<and> lane mod la_of (new_lane_assignment i n) = la_index (new_lane_assignment i n) \<Longrightarrow> i = lane mod n" for i
    using assms by (simp add: new_lane_assignment_def Let_def max_absorb1)
qed

section \<open>Messages of the errors\<close>

text \<open>
  The messages of the error types (their \<open>Display\<close> forms, \<open>core/src/error.rs\<close> and \<open>store/src/error.rs\<close>), which the
  code carries into other errors, into the outbox's \<open>last_error\<close> and into notices. Back-quoted parts are the
  values themselves.
\<close>

definition quoted :: "string \<Rightarrow> string" where
  "quoted s = CHR 0x60 # s @ [CHR 0x60]"

fun core_error_str :: "core_error \<Rightarrow> string" where
  "core_error_str (InvalidLabelName name) = quoted name @ '' is not a valid label name''"
| "core_error_str (LabelValueTooLong name len) =
     ''value of label '' @ quoted name @ '' is '' @ show_nat len @ '' bytes, over the limit''"
| "core_error_str (InvalidFingerprint v) = quoted v @ '' is not a valid alert fingerprint''"
| "core_error_str (BadMatcherExpression expression detail) = ''cannot parse matcher '' @ quoted expression @ '': '' @ detail"
| "core_error_str (RegexTooLong len limit) =
     ''regex is '' @ show_nat len @ '' bytes, over the '' @ show_nat limit @ ''-byte limit''"
| "core_error_str (BadRegex pattern detail) = ''cannot compile regex '' @ quoted pattern @ '': '' @ detail"
| "core_error_str (UnknownSeverity v) = quoted v @ '' is not a severity''"
| "core_error_str (UnknownVariant kind v) = quoted v @ '' is not a known '' @ kind"

fun store_error_str :: "store_error \<Rightarrow> string" where
  "store_error_str (Conflict c) = ''unique constraint '' @ quoted c @ '' rejected the write''"
| "store_error_str (NotFound kind key) = ''no '' @ kind @ '' matching '' @ key"
| "store_error_str (LeaseLost i) = ''outbox item '' @ show_int i @ '' is no longer claimed by this worker''"
| "store_error_str (Decode kind detail) = ''cannot decode stored '' @ kind @ '': '' @ detail"
| "store_error_str (Backend detail) = ''database error: '' @ detail"
| "store_error_str (Migration detail) = ''migration failed: '' @ detail"

section \<open>Audit entries and retention\<close>

text \<open>
  The audit log's entries and the retention policy (\<open>store/src/audit.rs\<close>). A \<open>serde_json::Value\<close> is the datatype
  \<open>json\<close>; an object keeps its fields in the order written, and an instant printed as RFC 3339 text stays an instant.
\<close>

datatype json =
    JNull
  | JBool bool
  | JInt int
  | JStr string
  | JTime time
  | JList "json list"
  | JObj "(string \<times> json) list"

datatype audit_result = AuditOk | AuditDenied | AuditError

definition audit_result_str :: "audit_result \<Rightarrow> string" where
  "audit_result_str r = (case r of AuditOk \<Rightarrow> ''ok'' | AuditDenied \<Rightarrow> ''denied'' | AuditError \<Rightarrow> ''error'')"

definition audit_result_from_str :: "string \<Rightarrow> core_error + audit_result" where
  "audit_result_from_str = parse_word ''audit result''
     [(''ok'', AuditOk), (''denied'', AuditDenied), (''error'', AuditError)]"

record audit_entry =
  au_actor :: "user_id option"
  au_guild_id :: "guild_id option"
  au_action :: string
  au_subject :: "string option"
  au_detail :: json
  au_result :: audit_result
  au_at :: time

definition audit_ok :: "string \<Rightarrow> user_id option \<Rightarrow> time \<Rightarrow> audit_entry" where
  "audit_ok action actor at = \<lparr>au_actor = actor, au_guild_id = None, au_action = action, au_subject = None,
     au_detail = JNull, au_result = AuditOk, au_at = at\<rparr>"

definition audit_denied :: "string \<Rightarrow> user_id option \<Rightarrow> time \<Rightarrow> audit_entry" where
  "audit_denied action actor at = (audit_ok action actor at)\<lparr>au_result := AuditDenied\<rparr>"

section \<open>Retention\<close>

record retention_policy =
  rp_events :: duration
  rp_resolved :: duration
  rp_audit :: duration
  rp_batch_limit :: nat

definition days :: "int \<Rightarrow> duration" where
  "days n = seconds (86400 * n)"

definition default_retention :: retention_policy where
  "default_retention = \<lparr>rp_events = days 30, rp_resolved = days 30, rp_audit = days 365, rp_batch_limit = 5000\<rparr>"

record prune_report =
  pr_events :: nat
  pr_alerts :: nat
  pr_notifications :: nat
  pr_audit :: nat
  pr_more :: bool

end
