(* ===== verification/Engine_Routing.thy ===== *)
theory Engine_Routing
  imports Store_Types "HOL-Library.AList"
begin

text \<open>
  The routing snapshot (\<open>routing.rs\<close> of the engine crate): its construction, which routes an alert is
  delivered to, which ignore rule mutes it, the forum tag lookups, subscriptions as routes, and the
  rebuild from the store, whose four reads are parameters. A \<open>HashMap\<close> is an association list under
  \<open>AList.update\<close>. Lemmas: resolution is first match per guild, guilds never interfere, the reported
  ignore rule mutes and prefers the guild scope.
\<close>

section \<open>The snapshot\<close>

type_synonym tag_cache = "(channel_id \<times> (string \<times> tag_id) list) list"

record routing_snapshot =
  sn_routes :: "route list"
  sn_ignores :: "ignore_rule list"
  sn_tags :: tag_cache

definition insert_tag :: "forum_tag \<Rightarrow> tag_cache \<Rightarrow> tag_cache" where
  "insert_tag t m = AList.update (ft_channel_id t)
     (AList.update (ft_name t) (ft_id t) (case map_of m (ft_channel_id t) of Some ts \<Rightarrow> ts | None \<Rightarrow> [])) m"

definition new_snapshot :: "route list \<Rightarrow> ignore_rule list \<Rightarrow> forum_tag list \<Rightarrow> routing_snapshot" where
  "new_snapshot routes ignores tags =
     \<lparr>sn_routes = sort_key (\<lambda>r. (rt_priority r, rt_id r)) routes, sn_ignores = ignores,
      sn_tags = fold insert_tag tags []\<rparr>"

fun resolve_loop :: "route list \<Rightarrow> guild_id list \<Rightarrow> labels \<Rightarrow> severity \<Rightarrow> route list" where
  "resolve_loop [] settled ls s = []"
| "resolve_loop (r # rs) settled ls s =
     (if rt_guild_id r \<in> set settled \<or> \<not> route_accepts r ls s then resolve_loop rs settled ls s
      else r # resolve_loop rs
        (if \<not> rt_continue_to_next r then settled @ [rt_guild_id r] else settled) ls s)"

definition resolve :: "routing_snapshot \<Rightarrow> labels \<Rightarrow> severity \<Rightarrow> route list" where
  "resolve sn ls s = resolve_loop (sn_routes sn) [] ls s"

definition ignore_for :: "routing_snapshot \<Rightarrow> guild_id \<Rightarrow> channel_id \<Rightarrow> labels \<Rightarrow> time \<Rightarrow> ignore_rule option" where
  "ignore_for sn guild channel ls now = min_by_key (\<lambda>r. case ig_scope r of IgnoreGuild \<Rightarrow> 0::nat | IgnoreChannel \<Rightarrow> 1)
     (filter (\<lambda>r. ig_guild_id r = guild \<and> ignore_mutes r ls channel now) (sn_ignores sn))"

definition route_by_id :: "routing_snapshot \<Rightarrow> route_id \<Rightarrow> route option" where
  "route_by_id sn i = find (\<lambda>r. rt_id r = i) (sn_routes sn)"

definition tag_id :: "routing_snapshot \<Rightarrow> channel_id \<Rightarrow> string \<Rightarrow> tag_id option" where
  "tag_id sn channel name = Option.bind (map_of (sn_tags sn) channel) (\<lambda>ts. map_of ts name)"

definition tag_count :: "routing_snapshot \<Rightarrow> channel_id \<Rightarrow> nat" where
  "tag_count sn channel = (case map_of (sn_tags sn) channel of None \<Rightarrow> 0 | Some ts \<Rightarrow> length ts)"

section \<open>Subscriptions\<close>

definition SUBSCRIPTION_GUILD :: guild_id where "SUBSCRIPTION_GUILD = 0"

definition I32_MAX :: int where "I32_MAX = 2147483647"

definition no_mentions :: mentions where
  "no_mentions = \<lparr>mn_roles = [], mn_users = [], mn_min_severity = None\<rparr>"

definition subscription_route :: "subscription \<Rightarrow> route" where
  "subscription_route su =
     \<lparr>rt_id = - su_id su, rt_guild_id = SUBSCRIPTION_GUILD, rt_name = ''subscription '' @ show_int (su_id su),
      rt_matcher_source = su_matcher_source su, rt_matchers = su_matchers su,
      rt_min_severity = su_min_severity su, rt_target = DmTarget (su_user_id su),
      rt_group_strategy = PerAlert, rt_mentions = no_mentions, rt_escalation = None,
      rt_priority = I32_MAX, rt_continue_to_next = True, rt_source = RouteDiscord, rt_enabled = True,
      rt_created_by = Some (su_user_id su), rt_created_at = su_created_at su\<rparr>"

section \<open>Rebuilding from the store\<close>

definition forum_channel :: "route \<Rightarrow> channel_id option" where
  "forum_channel r = (case rt_target r of ForumTarget c _ \<Rightarrow> Some c | _ \<Rightarrow> None)"

text \<open>A loop of \<open>?\<close>-terminated reads: the first failure ends it.\<close>

fun try_concat :: "('a \<Rightarrow> 'e + 'b list) \<Rightarrow> 'a list \<Rightarrow> 'e + 'b list" where
  "try_concat f [] = Inr []"
| "try_concat f (x # xs) = (case f x of Inl e \<Rightarrow> Inl e
     | Inr ys \<Rightarrow> (case try_concat f xs of Inl e \<Rightarrow> Inl e | Inr zs \<Rightarrow> Inr (ys @ zs)))"

definition load_snapshot ::
  "store_error + route list \<Rightarrow> (guild_id \<Rightarrow> store_error + ignore_rule list) \<Rightarrow>
   (channel_id \<Rightarrow> store_error + forum_tag list) \<Rightarrow> store_error + subscription list \<Rightarrow>
   store_error + routing_snapshot" where
  "load_snapshot routes active_ignores forum_tags subscriptions = (case routes of Inl e \<Rightarrow> Inl e
   | Inr rs \<Rightarrow> (case try_concat active_ignores (dedup (sort (map rt_guild_id rs))) of Inl e \<Rightarrow> Inl e
   | Inr igs \<Rightarrow> (case try_concat forum_tags (dedup (sort (List.map_filter forum_channel rs))) of Inl e \<Rightarrow> Inl e
   | Inr tags \<Rightarrow> (case subscriptions of Inl e \<Rightarrow> Inl e
   | Inr sus \<Rightarrow> Inr (new_snapshot (rs @ map subscription_route sus) igs tags)))))"

section \<open>Resolution\<close>

text \<open>Alertmanager's \<open>continue\<close>: take matching routes up to and including the first that stops.\<close>

fun first_match :: "route list \<Rightarrow> route list" where
  "first_match [] = []"
| "first_match (r # rs) = (if rt_continue_to_next r then r # first_match rs else [r])"

lemma resolve_loop_guild:
  "filter (\<lambda>r. rt_guild_id r = g) (resolve_loop rs settled ls s) =
     (if g \<in> set settled then []
      else first_match (filter (\<lambda>r. rt_guild_id r = g \<and> route_accepts r ls s) rs))"
  by (induction rs arbitrary: settled) auto

lemma resolve_loop_sub: "set (resolve_loop rs settled ls s) \<subseteq> {r \<in> set rs. route_accepts r ls s}"
  by (induction rs arbitrary: settled) auto

lemma resolve_loop_mem: "r \<in> set (resolve_loop rs settled ls s) \<Longrightarrow> r \<in> set rs"
  using resolve_loop_sub by fast

lemma resolve_guild:
  "filter (\<lambda>r. rt_guild_id r = g) (resolve sn ls s) =
     first_match (filter (\<lambda>r. rt_guild_id r = g \<and> route_accepts r ls s) (sn_routes sn))"
  by (simp add: resolve_def resolve_loop_guild)

lemma resolve_accepts: "r \<in> set (resolve sn ls s) \<Longrightarrow> r \<in> set (sn_routes sn) \<and> route_accepts r ls s"
  using resolve_loop_sub by (force simp: resolve_def)

lemma first_match_eq_Nil [simp]: "first_match rs = [] \<longleftrightarrow> rs = []"
  by (cases rs) auto

lemma first_match_all: "list_all rt_continue_to_next rs \<Longrightarrow> first_match rs = rs"
  by (induction rs) auto

text \<open>Some route of a guild takes the alert exactly when some route of it accepts the alert.\<close>

lemma resolve_guild_nonempty:
  "(\<exists>r \<in> set (resolve sn ls s). rt_guild_id r = g) \<longleftrightarrow>
   (\<exists>r \<in> set (sn_routes sn). rt_guild_id r = g \<and> route_accepts r ls s)"
proof -
  have "(\<exists>r \<in> set (resolve sn ls s). rt_guild_id r = g) \<longleftrightarrow> filter (\<lambda>r. rt_guild_id r = g) (resolve sn ls s) \<noteq> []"
    by (auto simp: filter_empty_conv)
  then show ?thesis by (auto simp: resolve_guild filter_empty_conv)
qed

lemma new_snapshot_routes:
  "set (sn_routes (new_snapshot rs igs tags)) = set rs"
  "sorted (map (\<lambda>r. (rt_priority r, rt_id r)) (sn_routes (new_snapshot rs igs tags)))"
  by (simp_all add: new_snapshot_def)

lemma filter_new_snapshot:
  "filter P (sn_routes (new_snapshot rs igs tags)) = sort_key (\<lambda>r. (rt_priority r, rt_id r)) (filter P rs)"
  by (simp add: new_snapshot_def filter_sort)

lemma resolve_distinct_ids:
  assumes "distinct (map rt_id (sn_routes sn))"
  shows "distinct (map rt_id (resolve sn ls s))"
proof -
  have "distinct (map rt_id rs) \<Longrightarrow> distinct (map rt_id (resolve_loop rs settled ls s))" for rs settled
    by (induction rs arbitrary: settled) (auto dest: resolve_loop_mem)
  then show ?thesis using assms by (simp add: resolve_def)
qed

section \<open>Ignore rules\<close>

lemma ignore_for_mutes:
  assumes "ignore_for sn g c ls now = Some r"
  shows "r \<in> set (sn_ignores sn)" "ig_guild_id r = g" "ignore_mutes r ls c now"
  using min_by_key_mem [OF assms [unfolded ignore_for_def]] by auto

lemma ignore_for_None_iff:
  "ignore_for sn g c ls now = None \<longleftrightarrow>
     (\<forall>r \<in> set (sn_ignores sn). ig_guild_id r = g \<longrightarrow> \<not> ignore_mutes r ls c now)"
  by (auto simp: ignore_for_def filter_empty_conv)

lemma ignore_for_guild_first:
  assumes "ignore_for sn g c ls now = Some r" "q \<in> set (sn_ignores sn)" "ig_guild_id q = g"
    "ignore_mutes q ls c now" "ig_scope q = IgnoreGuild"
  shows "ig_scope r = IgnoreGuild"
  using min_by_key_least [OF assms(1) [unfolded ignore_for_def], of q] assms(2-5)
  by (auto split: ignore_scope.splits)

section \<open>Tags\<close>

lemma map_of_insert_tag:
  "map_of (insert_tag t m) c =
     (if c = ft_channel_id t
      then Some (AList.update (ft_name t) (ft_id t) (case map_of m c of Some ts \<Rightarrow> ts | None \<Rightarrow> []))
      else map_of m c)"
  by (simp add: insert_tag_def update_conv')

definition cached_tag :: "tag_cache \<Rightarrow> channel_id \<Rightarrow> string \<Rightarrow> tag_id option" where
  "cached_tag m c n = Option.bind (map_of m c) (\<lambda>ts. map_of ts n)"

lemma cached_insert_tag:
  "cached_tag (insert_tag t m) c n =
     (if c = ft_channel_id t \<and> n = ft_name t then Some (ft_id t) else cached_tag m c n)"
  by (auto simp: cached_tag_def map_of_insert_tag update_conv' split: option.splits)

text \<open>The id under a name is the last one cached for that channel and name.\<close>

lemma cached_fold:
  "cached_tag (fold insert_tag ts m) c n =
     (case map_of (rev (map (\<lambda>t. ((ft_channel_id t, ft_name t), ft_id t)) ts)) (c, n) of
        Some i \<Rightarrow> Some i | None \<Rightarrow> cached_tag m c n)"
  by (induction ts arbitrary: m)
    (auto simp: cached_insert_tag map_add_def split: option.splits)

lemma tag_id_new_snapshot:
  "tag_id (new_snapshot rs igs ts) c n =
     map_of (rev (map (\<lambda>t. ((ft_channel_id t, ft_name t), ft_id t)) ts)) (c, n)"
proof -
  have "tag_id (new_snapshot rs igs ts) c n = cached_tag (fold insert_tag ts []) c n"
    by (simp add: tag_id_def new_snapshot_def cached_tag_def)
  then show ?thesis
    unfolding cached_fold by (simp add: cached_tag_def [of "[]"] split: option.splits)
qed

section \<open>The loaded snapshot\<close>

lemma try_concat_Inr: "try_concat f xs = Inr ys \<Longrightarrow> y \<in> set ys \<Longrightarrow> \<exists>x \<in> set xs. \<exists>zs. f x = Inr zs \<and> y \<in> set zs"
proof (induction xs arbitrary: ys)
  case (Cons x xs)
  then show ?case by (fastforce split: sum.splits)
qed simp

lemma load_snapshotD:
  assumes "load_snapshot routes igf tagf subs = Inr sn"
  obtains rs igs tags sus where "routes = Inr rs" "subs = Inr sus"
    "try_concat igf (dedup (sort (map rt_guild_id rs))) = Inr igs"
    "sn = new_snapshot (rs @ map subscription_route sus) igs tags"
  using assms by (auto simp: load_snapshot_def split: sum.splits)

text \<open>A subscription that accepts an alert is always delivered: no route can settle its guild.\<close>

lemma subscription_delivered:
  assumes "load_snapshot routes igf tagf (Inr sus) = Inr sn" "routes = Inr rs"
    "\<forall>r \<in> set rs. rt_guild_id r \<noteq> SUBSCRIPTION_GUILD"
    "su \<in> set sus" "route_accepts (subscription_route su) ls s"
  shows "subscription_route su \<in> set (resolve sn ls s)"
proof -
  let ?P = "\<lambda>r. rt_guild_id r = SUBSCRIPTION_GUILD \<and> route_accepts r ls s"
  obtain igs tags where sn: "sn = new_snapshot (rs @ map subscription_route sus) igs tags"
    using assms(1,2) by (auto elim: load_snapshotD)
  have "set (filter ?P (sn_routes sn)) \<subseteq> set (map subscription_route sus)"
    using assms(3) by (auto simp: sn new_snapshot_routes)
  then have "list_all rt_continue_to_next (filter ?P (sn_routes sn))"
    by (auto simp: list_all_iff subscription_route_def)
  then have "filter (\<lambda>r. rt_guild_id r = SUBSCRIPTION_GUILD) (resolve sn ls s) = filter ?P (sn_routes sn)"
    by (simp add: resolve_guild first_match_all)
  moreover have "subscription_route su \<in> set (filter ?P (sn_routes sn))"
    using assms(4,5) by (auto simp: sn new_snapshot_routes subscription_route_def)
  ultimately have "subscription_route su \<in> set (filter (\<lambda>r. rt_guild_id r = SUBSCRIPTION_GUILD) (resolve sn ls s))"
    by (simp only:)
  then show ?thesis by simp
qed

text \<open>Subscriptions leave the resolution of every other guild as it was.\<close>

lemma subscriptions_add_nothing:
  assumes "g \<noteq> SUBSCRIPTION_GUILD"
  shows "filter (\<lambda>r. rt_guild_id r = g) (resolve (new_snapshot (rs @ map subscription_route sus) igs tags) ls s) =
    filter (\<lambda>r. rt_guild_id r = g) (resolve (new_snapshot rs igs tags) ls s)"
proof -
  have "filter (\<lambda>r. rt_guild_id r = g \<and> route_accepts r ls s) (map subscription_route sus) = []"
    using assms by (auto simp: filter_empty_conv subscription_route_def)
  then show ?thesis by (simp add: resolve_guild filter_new_snapshot)
qed

end
