(* ===== verification/Engine_Storm.thy ===== *)
theory Engine_Storm
  imports Store_Types "HOL-Library.AList"
begin

text \<open>
  The storm counter (\<open>storm.rs\<close>): a bounded sliding window of arrivals per route, and the state the
  decision reads. Times are pushed in order; the counter keeps at most \<open>RETAINED_PER_ROUTE\<close> times the
  larger threshold per route. Lemma: under any interleaving of arrivals and snapshots in time order a
  route is judged storming exactly when the alerts it accepted inside the window reach its threshold,
  whatever was trimmed.
\<close>

section \<open>The counter\<close>

definition RETAINED_PER_ROUTE :: nat where "RETAINED_PER_ROUTE = 4"

record storm_counter =
  sc_seen :: "(route_id \<times> time list) list"
  sc_threshold :: nat
  sc_forum_threshold :: nat
  sc_window :: duration

definition new_counter :: "nat \<Rightarrow> nat \<Rightarrow> duration \<Rightarrow> storm_counter" where
  "new_counter th fth w = \<lparr>sc_seen = [], sc_threshold = th, sc_forum_threshold = fth, sc_window = w\<rparr>"

definition storm_cap :: "storm_counter \<Rightarrow> nat" where
  "storm_cap c = max (max (sc_threshold c) (sc_forum_threshold c) * RETAINED_PER_ROUTE) 1"

definition arrivals :: "(route_id \<times> time list) list \<Rightarrow> route_id \<Rightarrow> time list" where
  "arrivals seen r = (case map_of seen r of Some ts \<Rightarrow> ts | None \<Rightarrow> [])"

text \<open>The \<open>pop_front\<close> loop leaves the last \<open>cap\<close> arrivals.\<close>

definition observe :: "route_id \<Rightarrow> time \<Rightarrow> storm_counter \<Rightarrow> storm_counter" where
  "observe r at c =
     (let pushed = arrivals (sc_seen c) r @ [at]
      in c\<lparr>sc_seen := AList.update r (drop (length pushed - storm_cap c) pushed) (sc_seen c)\<rparr>)"

record storm_state =
  sm_counts :: "(route_id \<times> nat) list"
  sm_threshold :: nat
  sm_forum_threshold :: nat
  sm_window :: duration

definition empty_storm :: "nat \<Rightarrow> nat \<Rightarrow> duration \<Rightarrow> storm_state" where
  "empty_storm th fth w = \<lparr>sm_counts = [], sm_threshold = th, sm_forum_threshold = fth, sm_window = w\<rparr>"

definition prune_seen :: "time \<Rightarrow> (route_id \<times> time list) list \<Rightarrow> (route_id \<times> time list) list" where
  "prune_seen cutoff seen = filter (\<lambda>(_, ts). ts \<noteq> [])
     (map (\<lambda>(r, ts). (r, dropWhile (\<lambda>at. at < cutoff) ts)) seen)"

definition storm_snapshot :: "time \<Rightarrow> storm_counter \<Rightarrow> storm_counter \<times> storm_state" where
  "storm_snapshot now c =
     (let kept = prune_seen (now - sc_window c) (sc_seen c)
      in (c\<lparr>sc_seen := kept\<rparr>,
          \<lparr>sm_counts = map (\<lambda>(r, ts). (r, length ts)) kept, sm_threshold = sc_threshold c,
           sm_forum_threshold = sc_forum_threshold c, sm_window = sc_window c\<rparr>))"

definition storm_count :: "storm_state \<Rightarrow> route_id \<Rightarrow> nat" where
  "storm_count st r = (case map_of (sm_counts st) r of Some n \<Rightarrow> n | None \<Rightarrow> 0)"

definition threshold_for :: "storm_state \<Rightarrow> route \<Rightarrow> nat" where
  "threshold_for st r = (if is_forum (rt_target r) then sm_forum_threshold st else sm_threshold st)"

definition is_storming :: "storm_state \<Rightarrow> route \<Rightarrow> bool" where
  "is_storming st r \<longleftrightarrow> threshold_for st r \<le> storm_count st (rt_id r)"

section \<open>The window against the full history\<close>

text \<open>In time order what is inside the window is a suffix, so trimming to a suffix commutes with it.\<close>

lemma filter_sorted_suffix:
  "sorted xs \<Longrightarrow> filter (\<lambda>x. (c::time) \<le> x) xs = dropWhile (\<lambda>x. x < c) xs"
proof (induction xs)
  case (Cons a xs)
  then show ?case by (cases xs) (auto simp: filter_id_conv)
qed simp

lemma filter_drop_split:
  assumes "\<forall>x \<in> set w. \<not> P x" "\<forall>x \<in> set f. P x"
  shows "length (filter P (drop k (w @ f))) = length f - (k - length w)"
proof -
  have "filter P (drop k w) = []" using assms(1) by (auto simp: filter_empty_conv dest: in_set_dropD)
  moreover have "filter P (drop n f) = drop n f" for n
    using assms(2) by (auto simp: filter_id_conv dest: in_set_dropD)
  ultimately show ?thesis by simp
qed

lemma filter_drop_last:
  assumes "sorted xs"
  shows "length (filter (\<lambda>x. (c::time) \<le> x) (drop (length xs - n) xs)) = min n (length (filter (\<lambda>x. c \<le> x) xs))"
proof -
  define w where "w = takeWhile (\<lambda>x. x < c) xs"
  define f where "f = dropWhile (\<lambda>x. x < c) xs"
  have xs: "xs = w @ f" by (simp add: w_def f_def)
  have f: "filter (\<lambda>x. c \<le> x) xs = f" using assms by (simp add: f_def filter_sorted_suffix)
  have "\<forall>x \<in> set w. \<not> c \<le> x" by (auto simp: w_def dest: set_takeWhileD)
  moreover have "\<forall>x \<in> set f. c \<le> x" using arg_cong [OF f, of set] by auto
  ultimately have "length (filter (\<lambda>x. c \<le> x) (drop k (w @ f))) = length f - (k - length w)" for k
    by (rule filter_drop_split)
  from this [of "length xs - n"] show ?thesis unfolding f unfolding xs [symmetric] by (simp add: xs min_def)
qed

definition live_since :: "time \<Rightarrow> time list \<Rightarrow> nat" where
  "live_since c ts = length (filter (\<lambda>x. c \<le> x) ts)"

datatype storm_event = Arrival route_id time | Snapshot time

fun event_time :: "storm_event \<Rightarrow> time" where
  "event_time (Arrival _ t) = t"
| "event_time (Snapshot t) = t"

fun storm_step :: "storm_event \<Rightarrow> storm_counter \<Rightarrow> storm_counter" where
  "storm_step (Arrival r t) c = observe r t c"
| "storm_step (Snapshot t) c = fst (storm_snapshot t c)"

fun history :: "route_id \<Rightarrow> storm_event list \<Rightarrow> time list" where
  "history r [] = []"
| "history r (Arrival q t # es) = (if q = r then t # history r es else history r es)"
| "history r (Snapshot t # es) = history r es"

lemma history_append: "history r (xs @ ys) = history r xs @ history r ys"
  by (induction r xs rule: history.induct) auto

lemma history_times: "t \<in> set (history r es) \<Longrightarrow> t \<in> set (map event_time es)"
  by (induction r es rule: history.induct) (auto split: if_splits)

text \<open>
  What the counter keeps for a route agrees with the full history on every window a later snapshot can
  ask about, up to the cap.
\<close>

definition storm_rel :: "time \<Rightarrow> storm_counter \<Rightarrow> route_id \<Rightarrow> time list \<Rightarrow> bool" where
  "storm_rel now c r hist \<longleftrightarrow> distinct (map fst (sc_seen c)) \<and> sorted (arrivals (sc_seen c) r) \<and>
     (\<forall>t \<in> set (arrivals (sc_seen c) r). t \<le> now) \<and>
     (\<forall>since \<ge> now - sc_window c. min (storm_cap c) (live_since since (arrivals (sc_seen c) r)) =
        min (storm_cap c) (live_since since hist))"

lemma storm_rel_later: "storm_rel now c r hist \<Longrightarrow> now \<le> now' \<Longrightarrow> storm_rel now' c r hist"
  by (fastforce simp: storm_rel_def)

lemma arrivals_observe:
  "arrivals (sc_seen (observe q t c)) r =
     (if r = q then let p = arrivals (sc_seen c) q @ [t] in drop (length p - storm_cap c) p
      else arrivals (sc_seen c) r)"
  by (simp add: observe_def Let_def arrivals_def update_conv')

lemma observe_params [simp]:
  "storm_cap (observe q t c) = storm_cap c" "sc_window (observe q t c) = sc_window c"
  "sc_threshold (observe q t c) = sc_threshold c" "sc_forum_threshold (observe q t c) = sc_forum_threshold c"
  by (simp_all add: observe_def storm_cap_def Let_def)

lemma snapshot_params [simp]:
  "storm_cap (fst (storm_snapshot t c)) = storm_cap c"
  "sc_window (fst (storm_snapshot t c)) = sc_window c"
  "sc_threshold (fst (storm_snapshot t c)) = sc_threshold c"
  "sc_forum_threshold (fst (storm_snapshot t c)) = sc_forum_threshold c"
  by (simp_all add: storm_snapshot_def storm_cap_def Let_def)

lemma live_since_append [simp]: "live_since c (xs @ ys) = live_since c xs + live_since c ys"
  by (simp add: live_since_def)

lemma storm_rel_observe:
  assumes rel: "storm_rel now c r hist" and "now \<le> t"
  shows "storm_rel t (observe q t c) r (hist @ (if q = r then [t] else []))"
proof (cases "q = r")
  case True
  let ?p = "arrivals (sc_seen c) r @ [t]" and ?n = "storm_cap c"
  have sorted: "sorted ?p" using assms by (fastforce simp: storm_rel_def sorted_append)
  have new: "arrivals (sc_seen (observe q t c)) r = drop (length ?p - ?n) ?p"
    using True by (simp add: arrivals_observe Let_def)
  have len: "live_since since (drop (length ?p - ?n) ?p) = min ?n (live_since since ?p)" for since
    using filter_drop_last [OF sorted, of since ?n] unfolding live_since_def .
  have "min ?n (live_since since ?p) = min ?n (live_since since (hist @ [t]))" if "t - sc_window c \<le> since" for since
  proof -
    have "now - sc_window c \<le> since" using that assms(2) by simp
    then have "min ?n (live_since since (arrivals (sc_seen c) r)) = min ?n (live_since since hist)"
      using rel by (simp add: storm_rel_def)
    then show ?thesis by (simp add: min_def split: if_splits)
  qed
  moreover have "\<forall>x \<in> set ?p. x \<le> t" using assms by (auto simp: storm_rel_def)
  then have "\<forall>x \<in> set (drop (length ?p - ?n) ?p). x \<le> t" by (blast dest: in_set_dropD)
  moreover have "distinct (map fst (sc_seen (observe q t c)))"
    using rel by (simp add: storm_rel_def observe_def Let_def distinct_update)
  ultimately show ?thesis
    using True sorted_wrt_drop [OF sorted, of "length ?p - ?n"] unfolding storm_rel_def new len observe_params
    by (simp add: min_def)
next
  case False
  have "arrivals (sc_seen (observe q t c)) r = arrivals (sc_seen c) r"
    using False by (simp add: arrivals_observe)
  moreover have "distinct (map fst (sc_seen (observe q t c)))"
    using rel by (simp add: storm_rel_def observe_def Let_def distinct_update)
  ultimately show ?thesis
    using storm_rel_later [OF assms] False by (simp add: storm_rel_def)
qed

lemma map_of_prune:
  assumes "distinct (map fst seen)"
  shows "map_of (prune_seen since seen) r =
    (case map_of seen r of None \<Rightarrow> None
     | Some ts \<Rightarrow> let ts' = dropWhile (\<lambda>at. at < since) ts in if ts' = [] then None else Some ts')"
  using assms
proof (induction seen)
  case (Cons p seen)
  obtain q ts where p: "p = (q, ts)" by (cases p)
  then have "map_of seen q = None" using Cons.prems by (simp add: map_of_eq_None_iff)
  with Cons p show ?case by (auto simp: prune_seen_def Let_def)
qed (simp add: prune_seen_def)

lemma arrivals_prune:
  "distinct (map fst seen) \<Longrightarrow> arrivals (prune_seen since seen) r = dropWhile (\<lambda>at. at < since) (arrivals seen r)"
  by (simp add: arrivals_def map_of_prune Let_def split: option.splits if_splits del: dropWhile_eq_Nil_conv)

lemma distinct_prune: "distinct (map fst seen) \<Longrightarrow> distinct (map fst (prune_seen since seen))"
  unfolding prune_seen_def by (rule distinct_map_filter) (simp add: o_def split_beta)

lemma storm_rel_snapshot:
  assumes "storm_rel now c r hist" "now \<le> t"
  shows "storm_rel t (fst (storm_snapshot t c)) r hist"
proof -
  have d: "distinct (map fst (sc_seen c))" and sorted: "sorted (arrivals (sc_seen c) r)"
    using assms by (simp_all add: storm_rel_def)
  have kept: "arrivals (sc_seen (fst (storm_snapshot t c))) r =
      filter (\<lambda>x. t - sc_window c \<le> x) (arrivals (sc_seen c) r)"
    using d sorted by (simp add: storm_snapshot_def Let_def arrivals_prune filter_sorted_suffix)
  have "live_since since (filter (\<lambda>x. t - sc_window c \<le> x) ts) = live_since since ts"
    if "t - sc_window c \<le> since" for since ts
    unfolding live_since_def filter_filter by (rule arg_cong [where f = length], rule filter_cong) (use that in auto)
  moreover have "distinct (map fst (sc_seen (fst (storm_snapshot t c))))"
    using d by (simp add: storm_snapshot_def Let_def distinct_prune)
  ultimately show ?thesis
    using storm_rel_later [OF assms] sorted
    unfolding storm_rel_def kept snapshot_params by (simp add: sorted_wrt_filter)
qed

lemma storm_rel_run:
  assumes "storm_rel now c r hist" "sorted (map event_time es)" "\<forall>e \<in> set es. now \<le> event_time e"
  shows "storm_rel (foldl (\<lambda>_. event_time) now es) (fold storm_step es c) r (hist @ history r es)"
  using assms
proof (induction es arbitrary: now c hist)
  case (Cons e es)
  have "storm_rel (event_time e) (storm_step e c) r (hist @ history r [e])"
  proof (cases e)
    case (Arrival q t)
    then show ?thesis using storm_rel_observe [OF Cons.prems(1), of t q] Cons.prems(3) by (cases "q = r") auto
  next
    case (Snapshot t)
    then show ?thesis using storm_rel_snapshot [OF Cons.prems(1), of t] Cons.prems(3) by simp
  qed
  from Cons.IH [OF this] Cons.prems show ?case
    by (simp add: history_append [of r "[e]" es, simplified])
qed simp

text \<open>The verdict on a route is the verdict on its full history.\<close>

lemma storming_iff:
  assumes "storm_rel now c r hist" "now \<le> t" "rt_id route = r"
    "snd (storm_snapshot t c) = st"
  shows "is_storming st route \<longleftrightarrow> threshold_for st route \<le> live_since (t - sc_window c) hist"
proof -
  let ?a = "arrivals (sc_seen (fst (storm_snapshot t c))) r"
  have rel: "storm_rel t (fst (storm_snapshot t c)) r hist" by (rule storm_rel_snapshot [OF assms(1,2)])
  have d: "distinct (map fst (sc_seen c))" and sorted: "sorted (arrivals (sc_seen c) r)"
    using assms(1) by (simp_all add: storm_rel_def)
  have "?a = filter (\<lambda>x. t - sc_window c \<le> x) (arrivals (sc_seen c) r)"
    using d sorted by (simp add: storm_snapshot_def Let_def arrivals_prune filter_sorted_suffix)
  then have all: "live_since (t - sc_window c) ?a = length ?a" by (simp add: live_since_def)
  have count: "storm_count st r = length ?a"
    using assms(4) by (auto simp: storm_count_def storm_snapshot_def Let_def arrivals_def
        map_of_map_restrict map_of_map o_def split: option.splits)
  have "threshold_for st route \<le> storm_cap c"
    using assms(4) by (auto simp: threshold_for_def storm_snapshot_def Let_def storm_cap_def RETAINED_PER_ROUTE_def)
  moreover have "min (storm_cap c) (length ?a) = min (storm_cap c) (live_since (t - sc_window c) hist)"
    using rel all unfolding storm_rel_def by (metis order_refl snapshot_params(1,2))
  ultimately show ?thesis
    using assms(3) count by (auto simp: is_storming_def min_def split: if_splits)
qed

lemma storm_rel_new: "storm_rel now (new_counter th fth w) r []"
  by (simp add: storm_rel_def new_counter_def arrivals_def)

end
