(* ===== verification/Engine_Decide.thy ===== *)
theory Engine_Decide
  imports Engine_Routing Engine_Storm
begin

text \<open>
  The decision (\<open>decide.rs\<close>): what one accepted alert change does to the cards showing it, written
  function by function. Chrono's \<open>DateTime::from_timestamp(_, 0)\<close>, which the digest key rounds a
  window with, is the parameter \<open>from_ts\<close>. Lemmas: who gets a card and who is mentioned, where every
  update leaves its card, what an update enqueues and in which order, and the tag budget.
\<close>

section \<open>Settings and inputs\<close>

definition MAX_APPLIED_TAGS :: nat where "MAX_APPLIED_TAGS = 5"
definition MAX_AUTO_ARCHIVE :: nat where "MAX_AUTO_ARCHIVE = 10080"

record decision_settings =
  ds_debounce :: duration
  ds_digest_window :: duration
  ds_archive_after_minutes :: nat
  ds_regroup_window :: duration
  ds_identity :: identity_policy

definition default_settings :: decision_settings where
  "default_settings = \<lparr>ds_debounce = seconds 3, ds_digest_window = seconds 300, ds_archive_after_minutes = 1440,
     ds_regroup_window = seconds 1800, ds_identity = IdentityPolicy {}\<rparr>"

type_synonym existing_cards = "(channel_id \<times> dedupe_key) \<rightharpoonup> notification"

record alert_context =
  cx_acknowledged :: bool
  cx_firing_siblings :: "alert list"

section \<open>Keys and channels\<close>

fun delivery_channel :: "route_target \<Rightarrow> channel_id" where
  "delivery_channel (TextTarget c _) = c"
| "delivery_channel (ForumTarget c _) = c"
| "delivery_channel (ThreadTarget t) = t"
| "delivery_channel (DmTarget u) = u"

definition digest_key :: "(int \<Rightarrow> time option) \<Rightarrow> route \<Rightarrow> decision_settings \<Rightarrow> time \<Rightarrow> dedupe_key" where
  "digest_key from_ts route ds now =
     (let window = max (num_seconds (ds_digest_window ds)) 1;
          start = timestamp now - timestamp now mod window
      in digest (rt_id route) (case from_ts start of Some t \<Rightarrow> t | None \<Rightarrow> now))"

definition dedupe_keys ::
  "(int \<Rightarrow> time option) \<Rightarrow> alert_delta \<Rightarrow> route \<Rightarrow> storm_state \<Rightarrow> decision_settings \<Rightarrow> time \<Rightarrow> dedupe_key list" where
  "dedupe_keys from_ts delta route storm ds now =
     (let per = per_alert (alert_identity (ds_identity ds) (d_alert delta)) in
      if rt_group_strategy route = Digest then [digest_key from_ts route ds now]
      else let configured = (case rt_group_strategy route of
              PerGroup \<Rightarrow> (case al_group_key (d_alert delta) of None \<Rightarrow> per | Some g \<Rightarrow> per_group g)
            | _ \<Rightarrow> per)
        in if \<not> is_storming storm route then [configured]
           else [configured, digest_key from_ts route ds now])"

definition dedupe_key ::
  "(int \<Rightarrow> time option) \<Rightarrow> alert_delta \<Rightarrow> route \<Rightarrow> storm_state \<Rightarrow> decision_settings \<Rightarrow> time \<Rightarrow> dedupe_key" where
  "dedupe_key from_ts delta route storm ds now = last (dedupe_keys from_ts delta route storm ds now)"

definition identity_siblings :: "identity_policy \<Rightarrow> alert \<Rightarrow> alert list \<Rightarrow> alert list" where
  "identity_siblings p a candidates =
     filter (\<lambda>c. al_fingerprint c \<noteq> al_fingerprint a \<and> alert_identity p c = alert_identity p a) candidates"

definition auto_archive_minutes :: "route \<Rightarrow> notification_state \<Rightarrow> decision_settings \<Rightarrow> nat" where
  "auto_archive_minutes route state ds =
     (if holds_thread_open state then MAX_AUTO_ARCHIVE
      else case rt_target route of
          ForumTarget _ policy \<Rightarrow> fp_auto_archive_minutes policy
        | TextTarget _ thread \<Rightarrow> tp_archive_after_minutes thread
        | ThreadTarget _ \<Rightarrow> ds_archive_after_minutes ds
        | DmTarget _ \<Rightarrow> ds_archive_after_minutes ds)"

section \<open>Tags\<close>

definition slug :: "string \<Rightarrow> string" where
  "slug v = concat (map (\<lambda>ch. if is_whitespace ch then ''-'' else ch) (take 20 (utf8_chars v)))"

definition label_tag_names :: "forum_policy \<Rightarrow> labels \<Rightarrow> string list" where
  "label_tag_names policy ls = map slug (filter (\<lambda>v. v \<noteq> []) (map (get_or_empty ls) (fp_label_tags policy)))"

definition state_tag_name :: "forum_policy \<Rightarrow> notification_state \<Rightarrow> string" where
  "state_tag_name policy state = (case state of
     Acked \<Rightarrow> st_acked (fp_state_tags policy)
   | Silenced \<Rightarrow> st_silenced (fp_state_tags policy)
   | Resolved \<Rightarrow> st_resolved (fp_state_tags policy)
   | _ \<Rightarrow> st_firing (fp_state_tags policy))"

definition tag_names :: "forum_policy \<Rightarrow> notification_state \<Rightarrow> severity \<Rightarrow> labels \<Rightarrow> string list" where
  "tag_names policy state sev ls =
     [state_tag_name policy state] @ (if fp_severity_tags policy then [severity_str sev] else []) @
     label_tag_names policy ls"

fun apply_tag_names :: "(string \<Rightarrow> tag_id option) \<Rightarrow> string list \<Rightarrow> tag_id list \<Rightarrow> tag_id list" where
  "apply_tag_names lookup [] tags = tags"
| "apply_tag_names lookup (name # names) tags =
     (let tags' = (case lookup name of
            Some i \<Rightarrow> if i \<notin> set tags then tags @ [i] else tags
          | None \<Rightarrow> tags)
      in if length tags' = MAX_APPLIED_TAGS then tags' else apply_tag_names lookup names tags')"

definition desired_tags ::
  "routing_snapshot \<Rightarrow> channel_id \<Rightarrow> forum_policy \<Rightarrow> notification_state \<Rightarrow> severity \<Rightarrow> labels \<Rightarrow> tag_id list" where
  "desired_tags sn channel policy state sev ls =
     (let tags = apply_tag_names (tag_id sn channel) (tag_names policy state sev ls) []
      in if tags = [] then
           (case Option.bind (fp_default_tag policy) (tag_id sn channel) of Some d \<Rightarrow> [d] | None \<Rightarrow> [])
         else tags)"

section \<open>New cards\<close>

definition outlived :: "notification \<Rightarrow> alert_delta \<Rightarrow> decision_settings \<Rightarrow> time \<Rightarrow> bool" where
  "outlived cd delta ds now \<longleftrightarrow> n_state cd = Resolved \<and> is_firing (d_alert delta) \<and>
     (case n_resolved_at cd of None \<Rightarrow> False | Some r \<Rightarrow> ds_regroup_window ds < now - r)"

definition creation_for ::
  "alert_delta \<Rightarrow> route \<Rightarrow> channel_id \<Rightarrow> dedupe_key \<Rightarrow> bool \<Rightarrow> severity \<Rightarrow> notification_id option \<Rightarrow> time \<Rightarrow>
   planned_card option" where
  "creation_for delta route channel key ignored sev supersedes now =
     (if ignored then None
      else if \<not> is_firing (d_alert delta) then None
      else let state = initial_state (al_status (d_alert delta)) (al_am_state (d_alert delta)) False
        in Some \<lparr>pc_card = \<lparr>nn_dedupe_key = key, nn_fingerprint = al_fingerprint (d_alert delta),
               nn_route_id = rt_id route, nn_guild_id = rt_guild_id route, nn_channel_id = channel,
               nn_state = state, nn_supersedes = supersedes, nn_created_at = now\<rparr>,
             pc_mention = (state = Firing \<and> d_kind delta = EFired \<and> mentions_at route sev),
             pc_not_before = now\<rparr>)"

section \<open>Updates\<close>

definition trigger_for :: "alert_delta \<Rightarrow> notification \<Rightarrow> bool \<Rightarrow> trigger option" where
  "trigger_for delta cd ignored =
     (let open' = (is_open (n_state cd) \<or> n_state cd = Ignored) in
      if al_status (d_alert delta) = AResolved
      then if open' then Some TResolved else from_event (d_kind delta)
      else if ignored \<and> n_state cd \<noteq> Ignored then Some TIgnored
      else if \<not> ignored \<and> n_state cd = Ignored then Some TUnignored
      else if n_state cd = Resolved then Some TFired
      else from_event (d_kind delta))"

definition live_on :: "route \<Rightarrow> alert \<Rightarrow> bool" where
  "live_on route a \<longleftrightarrow> is_firing a \<and> route_accepts route (al_labels a) (alert_severity a)"

definition still_firing :: "route \<Rightarrow> notification \<Rightarrow> alert list \<Rightarrow> alert option" where
  "still_firing route cd siblings =
     (case find (\<lambda>a. al_fingerprint a = n_fingerprint cd) (filter (live_on route) siblings) of
        Some a \<Rightarrow> Some a
      | None \<Rightarrow> find (live_on route) siblings)"

definition immediate :: "effect \<Rightarrow> notification \<Rightarrow> time \<Rightarrow> new_outbox_item" where
  "immediate e cd now = \<lparr>no_effect = e, no_dedupe_key = n_dedupe_key cd, no_not_before = now\<rparr>"

definition debounced :: "effect \<Rightarrow> notification \<Rightarrow> decision_settings \<Rightarrow> time \<Rightarrow> new_outbox_item" where
  "debounced e cd ds now = \<lparr>no_effect = e, no_dedupe_key = n_dedupe_key cd, no_not_before = now + ds_debounce ds\<rparr>"

definition resolved_post_flags ::
  "route \<Rightarrow> forum_policy \<Rightarrow> notification \<Rightarrow> decision_settings \<Rightarrow> time \<Rightarrow> new_outbox_item option" where
  "resolved_post_flags route policy cd ds now =
     (if \<not> fp_archive_on_resolve policy \<and> n_archived cd then None
      else Some (debounced (SetFlags (n_id cd) (fp_archive_on_resolve policy)
             (fp_archive_on_resolve policy \<and> fp_lock_on_resolve policy)
             (auto_archive_minutes route Resolved ds) (Some Resolved)) cd ds now))"

definition reopened_post_window ::
  "route \<Rightarrow> notification \<Rightarrow> notification_state \<Rightarrow> decision_settings \<Rightarrow> time \<Rightarrow> new_outbox_item option" where
  "reopened_post_window route cd effective ds now =
     (if n_archived cd \<or> n_state cd \<noteq> Resolved \<or> \<not> holds_thread_open effective then None
      else Some (debounced (SetFlags (n_id cd) False False (auto_archive_minutes route effective ds)
             (Some effective)) cd ds now))"

definition state_note :: "notification_state \<Rightarrow> notification_state \<Rightarrow> nat \<Rightarrow> string" where
  "state_note previous state flap_count =
     (let rearmed = (previous = Resolved) in
      case state of
        Acked \<Rightarrow> if rearmed then ''Firing again. Still acknowledged.'' else ''Acknowledged.''
      | Silenced \<Rightarrow> ''Silenced in Alertmanager.''
      | Ignored \<Rightarrow> ''Muted in Discord. Alertmanager is still notifying.''
      | Resolved \<Rightarrow> ''Resolved.''
      | Orphaned \<Rightarrow> ''Card lost; a replacement was posted.''
      | Firing \<Rightarrow> if 0 < flap_count then ''Firing again, flap '' @ [CHR 0xC3, CHR 0x97] @ show_nat flap_count @ ''.''
          else if rearmed then ''Firing again.'' else ''Firing.'')"

definition forum_effects ::
  "alert_delta \<Rightarrow> routing_snapshot \<Rightarrow> notification \<Rightarrow> channel_id \<Rightarrow> forum_policy \<Rightarrow> notification_state \<Rightarrow>
   notification_state option \<Rightarrow> alert \<Rightarrow> time \<Rightarrow> new_outbox_item list" where
  "forum_effects delta sn cd channel policy effective state shown now =
     (if state \<noteq> None \<or> al_fingerprint shown \<noteq> n_fingerprint cd
      then [immediate (SetTags (n_id cd)
              (desired_tags sn channel policy effective (alert_severity shown) (al_labels shown))) cd now]
      else []) @
     (if state \<noteq> None then
        (if fp_bump_on_state_change policy
         then [immediate (ThreadNote (n_id cd) (state_note (n_state cd) effective (d_flap_count delta))) cd now]
         else []) @
        (let pin = (wants_pin effective \<and>
             (case fp_pin_min_severity policy of None \<Rightarrow> False | Some f \<Rightarrow> f \<le> alert_severity shown))
         in if pin \<noteq> n_pinned cd then [immediate (SetPinned (n_id cd) pin) cd now] else [])
      else [])"

definition opt_list :: "'a option \<Rightarrow> 'a list" where
  "opt_list x = (case x of None \<Rightarrow> [] | Some y \<Rightarrow> [y])"

text \<open>The state the card moves to and the alert it shows, before any effect is planned.\<close>

definition settle_on :: "trigger option \<Rightarrow> alert option \<Rightarrow> alert \<Rightarrow> trigger option \<times> alert" where
  "settle_on trigger sibling a = (case sibling of
     Some s \<Rightarrow> if trigger = Some TResolved then (None, s) else (trigger, a)
   | None \<Rightarrow> (trigger, a))"

definition update_state ::
  "alert_delta \<Rightarrow> route \<Rightarrow> notification \<Rightarrow> bool \<Rightarrow> bool \<Rightarrow> alert list \<Rightarrow> notification_state option \<times> alert" where
  "update_state delta route cd ignored acknowledged siblings =
     (let (trigger, shown) = settle_on (trigger_for delta cd ignored) (still_firing route cd siblings) (d_alert delta);
          state = Option.bind trigger (\<lambda>t. next_state (n_state cd) t acknowledged)
      in (if n_state cd = Resolved \<and> state \<in> {Some Firing, Some Acked} \<and> is_suppressed (al_am_state shown)
          then Some Silenced else state, shown))"

definition update_effects ::
  "alert_delta \<Rightarrow> route \<Rightarrow> routing_snapshot \<Rightarrow> notification \<Rightarrow> notification_state option \<Rightarrow> alert \<Rightarrow>
   decision_settings \<Rightarrow> time \<Rightarrow> new_outbox_item list" where
  "update_effects delta route sn cd state shown ds now =
     (let effective = (case state of Some s \<Rightarrow> s | None \<Rightarrow> n_state cd) in
      (if n_archived cd
       then [immediate (SetFlags (n_id cd) False False (auto_archive_minutes route effective ds) (Some effective)) cd now]
       else []) @
      (case rt_target route of ForumTarget _ _ \<Rightarrow> opt_list (reopened_post_window route cd effective ds now) | _ \<Rightarrow> []) @
      [debounced (EditCard (n_id cd)) cd ds now] @
      (case rt_target route of
         ForumTarget channel policy \<Rightarrow> forum_effects delta sn cd channel policy effective state shown now
       | _ \<Rightarrow> []) @
      (if state = Some Resolved
       then [immediate (DisableComponents (n_id cd)) cd now] @
         (case rt_target route of
            ForumTarget _ policy \<Rightarrow> opt_list (resolved_post_flags route policy cd ds now)
          | _ \<Rightarrow> [])
       else []))"

definition update_for ::
  "alert_delta \<Rightarrow> route \<Rightarrow> routing_snapshot \<Rightarrow> notification \<Rightarrow> bool \<Rightarrow> bool \<Rightarrow> alert list \<Rightarrow>
   decision_settings \<Rightarrow> time \<Rightarrow> card_update option" where
  "update_for delta route sn cd ignored acknowledged siblings ds now =
     (if n_state cd = Orphaned then None
      else let (state, shown) = update_state delta route cd ignored acknowledged siblings
        in Some \<lparr>cu_id = n_id cd, cu_fingerprint = al_fingerprint shown, cu_state = state,
             cu_effects = update_effects delta route sn cd state shown ds now\<rparr>)"

section \<open>The decision\<close>

text \<open>\<open>find_map\<close> over the keys, with the first outlived card remembered on the way.\<close>

fun scan_keys ::
  "existing_cards \<Rightarrow> alert_delta \<Rightarrow> decision_settings \<Rightarrow> time \<Rightarrow> channel_id \<Rightarrow> dedupe_key list \<Rightarrow>
   notification option \<Rightarrow> notification option \<times> notification option" where
  "scan_keys ex delta ds now ch [] old = (old, None)"
| "scan_keys ex delta ds now ch (k # ks) old = (case ex (ch, k) of
     None \<Rightarrow> scan_keys ex delta ds now ch ks old
   | Some cd \<Rightarrow>
       if outlived cd delta ds now
       then scan_keys ex delta ds now ch ks (case old of None \<Rightarrow> Some cd | Some c \<Rightarrow> Some c)
       else (old, Some cd))"

definition decide_route ::
  "(int \<Rightarrow> time option) \<Rightarrow> alert_delta \<Rightarrow> routing_snapshot \<Rightarrow> storm_state \<Rightarrow> existing_cards \<Rightarrow> alert_context \<Rightarrow>
   decision_settings \<Rightarrow> time \<Rightarrow> route \<Rightarrow> decision \<Rightarrow> decision" where
  "decide_route from_ts delta sn storm ex cx ds now route acc =
     (let channel = delivery_channel (rt_target route);
          ignore = ignore_for sn (rt_guild_id route) channel (al_labels (d_alert delta)) now;
          keys = dedupe_keys from_ts delta route storm ds now;
          identity = alert_identity (ds_identity ds) (d_alert delta)
      in case scan_keys ex delta ds now channel keys None of
           (_, Some cd) \<Rightarrow>
             let siblings = (if n_dedupe_key cd = per_alert identity then cx_firing_siblings cx else [])
             in (case update_for delta route sn cd (ignore \<noteq> None) (cx_acknowledged cx) siblings ds now of
                  None \<Rightarrow> acc
                | Some u \<Rightarrow> acc\<lparr>de_updates := de_updates acc @ [u]\<rparr>)
         | (old, None) \<Rightarrow>
             (case creation_for delta route channel (last keys) (ignore \<noteq> None) (alert_severity (d_alert delta))
                  (map_option n_id old) now of
                None \<Rightarrow> acc
              | Some p \<Rightarrow> acc\<lparr>de_new_cards := de_new_cards acc @ [p]\<rparr>))"

definition decide ::
  "(int \<Rightarrow> time option) \<Rightarrow> alert_delta \<Rightarrow> routing_snapshot \<Rightarrow> storm_state \<Rightarrow> existing_cards \<Rightarrow> alert_context \<Rightarrow>
   decision_settings \<Rightarrow> time \<Rightarrow> decision" where
  "decide from_ts delta sn storm ex cx ds now =
     fold (decide_route from_ts delta sn storm ex cx ds now)
       (resolve sn (al_labels (d_alert delta)) (alert_severity (d_alert delta)))
       \<lparr>de_new_cards = [], de_updates = [], de_at = now\<rparr>"

end
