(* ===== verification/Decide_Facts.thy ===== *)
theory Decide_Facts
  imports Engine_Decide "HOL-Library.Multiset"
begin

text \<open>
  Facts about the decision: it splits into one outcome per resolved route; the card a route holds and
  the one it outlived; where an update leaves its card; what an update enqueues and the order a worker
  claims it in; and the forum tag budget.
\<close>

section \<open>One outcome per route\<close>

definition held_card ::
  "(int \<Rightarrow> time option) \<Rightarrow> alert_delta \<Rightarrow> storm_state \<Rightarrow> existing_cards \<Rightarrow> decision_settings \<Rightarrow> time \<Rightarrow> route \<Rightarrow>
   notification option \<times> notification option" where
  "held_card from_ts delta storm ex ds now route =
     scan_keys ex delta ds now (delivery_channel (rt_target route)) (dedupe_keys from_ts delta route storm ds now) None"

definition is_muted :: "routing_snapshot \<Rightarrow> alert_delta \<Rightarrow> time \<Rightarrow> route \<Rightarrow> bool" where
  "is_muted sn delta now route \<longleftrightarrow>
     ignore_for sn (rt_guild_id route) (delivery_channel (rt_target route)) (al_labels (d_alert delta)) now \<noteq> None"

definition siblings_for :: "alert_delta \<Rightarrow> alert_context \<Rightarrow> decision_settings \<Rightarrow> notification \<Rightarrow> alert list" where
  "siblings_for delta cx ds cd =
     (if n_dedupe_key cd = per_alert (alert_identity (ds_identity ds) (d_alert delta)) then cx_firing_siblings cx else [])"

definition route_update ::
  "(int \<Rightarrow> time option) \<Rightarrow> alert_delta \<Rightarrow> routing_snapshot \<Rightarrow> storm_state \<Rightarrow> existing_cards \<Rightarrow> alert_context \<Rightarrow>
   decision_settings \<Rightarrow> time \<Rightarrow> route \<Rightarrow> card_update option" where
  "route_update from_ts delta sn storm ex cx ds now route =
     (case snd (held_card from_ts delta storm ex ds now route) of None \<Rightarrow> None
      | Some cd \<Rightarrow> update_for delta route sn cd (is_muted sn delta now route) (cx_acknowledged cx)
          (siblings_for delta cx ds cd) ds now)"

definition route_card ::
  "(int \<Rightarrow> time option) \<Rightarrow> alert_delta \<Rightarrow> routing_snapshot \<Rightarrow> storm_state \<Rightarrow> existing_cards \<Rightarrow>
   decision_settings \<Rightarrow> time \<Rightarrow> route \<Rightarrow> planned_card option" where
  "route_card from_ts delta sn storm ex ds now route =
     (case held_card from_ts delta storm ex ds now route of (_, Some _) \<Rightarrow> None
      | (old, None) \<Rightarrow> creation_for delta route (delivery_channel (rt_target route))
          (dedupe_key from_ts delta route storm ds now) (is_muted sn delta now route)
          (alert_severity (d_alert delta)) (map_option n_id old) now)"

lemma decide_route_eq:
  "decide_route from_ts delta sn storm ex cx ds now route acc =
     acc\<lparr>de_updates := de_updates acc @ opt_list (route_update from_ts delta sn storm ex cx ds now route),
         de_new_cards := de_new_cards acc @ opt_list (route_card from_ts delta sn storm ex ds now route)\<rparr>"
  by (simp add: decide_route_def route_update_def route_card_def held_card_def is_muted_def siblings_for_def
      dedupe_key_def opt_list_def Let_def split: prod.splits option.splits)

lemma decide_fold:
  "fold (decide_route from_ts delta sn storm ex cx ds now) rs acc =
     acc\<lparr>de_updates := de_updates acc @ List.map_filter (route_update from_ts delta sn storm ex cx ds now) rs,
         de_new_cards := de_new_cards acc @ List.map_filter (route_card from_ts delta sn storm ex ds now) rs\<rparr>"
  by (induction rs arbitrary: acc)
    (simp_all add: decide_route_eq List.map_filter_simps opt_list_def split: option.splits)

definition routes_for :: "alert_delta \<Rightarrow> routing_snapshot \<Rightarrow> route list" where
  "routes_for delta sn = resolve sn (al_labels (d_alert delta)) (alert_severity (d_alert delta))"

lemma decide_eq:
  "decide from_ts delta sn storm ex cx ds now =
     \<lparr>de_new_cards = List.map_filter (route_card from_ts delta sn storm ex ds now) (routes_for delta sn),
      de_updates = List.map_filter (route_update from_ts delta sn storm ex cx ds now) (routes_for delta sn),
      de_at = now\<rparr>"
  by (simp add: decide_def decide_fold routes_for_def)

lemma map_filter_mem: "y \<in> set (List.map_filter f xs) \<longleftrightarrow> (\<exists>x \<in> set xs. f x = Some y)"
  by (force simp: List.map_filter_def)

lemma one_outcome:
  "route_card from_ts delta sn storm ex ds now route = Some p \<Longrightarrow>
   route_update from_ts delta sn storm ex cx ds now route = None"
  by (auto simp: route_card_def route_update_def split: prod.splits option.splits)

lemma decide_length:
  "length (de_new_cards (decide from_ts delta sn storm ex cx ds now)) +
   length (de_updates (decide from_ts delta sn storm ex cx ds now)) \<le> length (routes_for delta sn)"
proof -
  have "length (List.map_filter (route_card from_ts delta sn storm ex ds now) rs) +
      length (List.map_filter (route_update from_ts delta sn storm ex cx ds now) rs) \<le> length rs" for rs
    by (induction rs) (auto simp: List.map_filter_simps dest: one_outcome [where cx = cx] split: option.splits)
  then show ?thesis by (simp add: decide_eq)
qed

section \<open>The card a route holds\<close>

lemma dedupe_keys_nonempty [simp]: "dedupe_keys from_ts delta route storm ds now \<noteq> []"
  by (simp add: dedupe_keys_def Let_def)

lemma dedupe_key_mem: "dedupe_key from_ts delta route storm ds now \<in> set (dedupe_keys from_ts delta route storm ds now)"
  by (simp add: dedupe_key_def)

lemma scan_keys_Some:
  "scan_keys ex delta ds now ch ks old = (old', Some cd) \<Longrightarrow>
   (\<exists>k \<in> set ks. ex (ch, k) = Some cd) \<and> \<not> outlived cd delta ds now"
proof (induction ks arbitrary: old)
  case (Cons k ks)
  show ?case
  proof (cases "ex (ch, k)")
    case None
    with Cons show ?thesis by auto
  next
    case (Some c)
    with Cons show ?thesis by (cases "outlived c delta ds now") auto
  qed
qed simp

lemma scan_keys_keeps: "old \<noteq> None \<Longrightarrow> fst (scan_keys ex delta ds now ch ks old) \<noteq> None"
proof (induction ks arbitrary: old)
  case (Cons k ks)
  show ?case
  proof (cases "ex (ch, k)")
    case None
    with Cons show ?thesis by simp
  next
    case (Some c)
    with Cons.prems Cons.IH [of old] show ?thesis by (cases old; cases "outlived c delta ds now") auto
  qed
qed simp

lemma scan_keys_None:
  "scan_keys ex delta ds now ch ks old = (old', None) \<Longrightarrow> k \<in> set ks \<Longrightarrow> ex (ch, k) = Some cd \<Longrightarrow>
   outlived cd delta ds now \<and> old' \<noteq> None"
proof (induction ks arbitrary: old)
  case (Cons k' ks)
  show ?case
  proof (cases "ex (ch, k')")
    case None
    with Cons show ?thesis by auto
  next
    case (Some c)
    let ?old = "case old of None \<Rightarrow> Some c | Some o' \<Rightarrow> Some o'"
    have out: "outlived c delta ds now" and eq: "scan_keys ex delta ds now ch ks ?old = (old', None)"
      using Cons.prems(1) Some by (auto split: if_splits)
    have "?old \<noteq> None" by (cases old) auto
    from scan_keys_keeps [OF this, of ex delta ds now ch ks] eq have "old' \<noteq> None" by simp
    with Cons.IH [OF eq] Cons.prems(2,3) out Some show ?thesis by auto
  qed
qed simp

lemma scan_keys_old:
  "scan_keys ex delta ds now ch ks old = (Some cd, r) \<Longrightarrow>
   old = Some cd \<or> (outlived cd delta ds now \<and> (\<exists>k \<in> set ks. ex (ch, k) = Some cd))"
proof (induction ks arbitrary: old)
  case (Cons k ks)
  show ?case
  proof (cases "ex (ch, k)")
    case None
    with Cons show ?thesis by auto
  next
    case (Some c)
    show ?thesis
    proof (cases "outlived c delta ds now")
      case True
      with Cons.IH [of "case old of None \<Rightarrow> Some c | Some o' \<Rightarrow> Some o'"] Cons.prems Some show ?thesis
        by (cases old) auto
    next
      case False
      with Cons.prems Some show ?thesis by simp
    qed
  qed
qed simp

lemma held_cardD:
  assumes "held_card from_ts delta storm ex ds now route = (old, Some cd)"
  obtains k where "k \<in> set (dedupe_keys from_ts delta route storm ds now)"
    "ex (delivery_channel (rt_target route), k) = Some cd" "\<not> outlived cd delta ds now"
  using scan_keys_Some [OF assms [unfolded held_card_def]] by blast

lemma held_card_outlived:
  assumes "held_card from_ts delta storm ex ds now route = (Some cd, r)"
  obtains k where "k \<in> set (dedupe_keys from_ts delta route storm ds now)"
    "ex (delivery_channel (rt_target route), k) = Some cd" "outlived cd delta ds now"
  using scan_keys_old [OF assms [unfolded held_card_def]] by auto

lemma outlivedD:
  "outlived cd delta ds now \<Longrightarrow> n_state cd = Resolved \<and> is_firing (d_alert delta) \<and>
     (\<exists>r. n_resolved_at cd = Some r \<and> ds_regroup_window ds < now - r)"
  by (auto simp: outlived_def split: option.splits)

section \<open>New cards\<close>

lemma creation_for_Some:
  "creation_for delta route ch key ignored sev older now = Some p \<longleftrightarrow>
     \<not> ignored \<and> is_firing (d_alert delta) \<and>
     p = \<lparr>pc_card = \<lparr>nn_dedupe_key = key, nn_fingerprint = al_fingerprint (d_alert delta),
            nn_route_id = rt_id route, nn_guild_id = rt_guild_id route, nn_channel_id = ch,
            nn_state = (if is_suppressed (al_am_state (d_alert delta)) then Silenced else Firing),
            nn_supersedes = older, nn_created_at = now\<rparr>,
          pc_mention = (\<not> is_suppressed (al_am_state (d_alert delta)) \<and> d_kind delta = EFired \<and> mentions_at route sev),
          pc_not_before = now\<rparr>"
  by (auto simp: creation_for_def initial_state_def Let_def is_firing_def split: alert_status.splits)

lemma decide_new_cardE:
  assumes "p \<in> set (de_new_cards (decide from_ts delta sn storm ex cx ds now))"
  obtains route old where "route \<in> set (routes_for delta sn)"
    "held_card from_ts delta storm ex ds now route = (old, None)"
    "\<not> is_muted sn delta now route" "is_firing (d_alert delta)"
    "creation_for delta route (delivery_channel (rt_target route)) (dedupe_key from_ts delta route storm ds now)
       False (alert_severity (d_alert delta)) (map_option n_id old) now = Some p"
proof -
  obtain route where r: "route \<in> set (routes_for delta sn)"
    "route_card from_ts delta sn storm ex ds now route = Some p"
    using assms by (auto simp: decide_eq map_filter_mem)
  then obtain old where "held_card from_ts delta storm ex ds now route = (old, None)"
    by (auto simp: route_card_def split: prod.splits option.splits)
  moreover from this r(2) have "\<not> is_muted sn delta now route" "is_firing (d_alert delta)"
    by (auto simp: route_card_def creation_for_def split: if_splits)
  ultimately show thesis using that [OF r(1), of old] r(2) by (simp add: route_card_def)
qed

section \<open>Where an update leaves its card\<close>

lemma update_for_None_iff: "update_for delta route sn cd ig ack sibs ds now = None \<longleftrightarrow> n_state cd = Orphaned"
  by (simp add: update_for_def Let_def split: prod.splits)

lemma update_forD:
  assumes "update_for delta route sn cd ig ack sibs ds now = Some u"
  shows "n_state cd \<noteq> Orphaned" "cu_id u = n_id cd"
    "cu_state u = fst (update_state delta route cd ig ack sibs)"
    "cu_fingerprint u = al_fingerprint (snd (update_state delta route cd ig ack sibs))"
    "cu_effects u = update_effects delta route sn cd (cu_state u)
       (snd (update_state delta route cd ig ack sibs)) ds now"
  using assms by (auto simp: update_for_def Let_def split: if_splits prod.splits)

definition effective_state :: "notification \<Rightarrow> notification_state option \<Rightarrow> notification_state" where
  "effective_state cd st = (case st of Some s \<Rightarrow> s | None \<Rightarrow> n_state cd)"

text \<open>What \<open>classify\<close> promises of a delta's kind.\<close>

definition delta_ok :: "alert_delta \<Rightarrow> bool" where
  "delta_ok d \<longleftrightarrow> (d_kind d = EFired \<longrightarrow> is_firing (d_alert d)) \<and>
     (d_kind d = EResolved \<longrightarrow> \<not> is_firing (d_alert d)) \<and>
     (d_kind d = ESilenced \<longrightarrow> is_suppressed (al_am_state (d_alert d))) \<and>
     (d_kind d = EUnsilenced \<longrightarrow> \<not> is_suppressed (al_am_state (d_alert d)))"

lemmas move_defs = update_state_def settle_on_def trigger_for_def next_state_def is_firing_def from_event_def is_open_def Let_def

lemma update_state_resolved:
  assumes "\<not> is_firing (d_alert delta)" "is_open (n_state cd) \<or> n_state cd = Ignored"
  shows "update_state delta route cd ig ack sibs =
    (case still_firing route cd sibs of None \<Rightarrow> (Some Resolved, d_alert delta) | Some a \<Rightarrow> (None, a))"
proof -
  have "al_status (d_alert delta) = AResolved" using assms(1) by (cases "al_status (d_alert delta)") (auto simp: is_firing_def)
  with assms(2) show ?thesis
    by (cases "still_firing route cd sibs"; cases "n_state cd"; simp add: move_defs)
qed

lemma trigger_for_firing:
  "is_firing (d_alert delta) \<Longrightarrow> delta_ok delta \<Longrightarrow> trigger_for delta cd ig \<noteq> Some TResolved"
  by (auto simp: trigger_for_def is_firing_def Let_def from_event_def delta_ok_def split: event_kind.splits)

lemma update_state_firing:
  assumes "is_firing (d_alert delta)" "delta_ok delta"
  shows "snd (update_state delta route cd ig ack sibs) = d_alert delta"
    "fst (update_state delta route cd ig ack sibs) =
      (let st = Option.bind (trigger_for delta cd ig) (\<lambda>t. next_state (n_state cd) t ack)
       in if n_state cd = Resolved \<and> st \<in> {Some Firing, Some Acked} \<and> is_suppressed (al_am_state (d_alert delta))
          then Some Silenced else st)"
proof -
  have "settle_on (trigger_for delta cd ig) (still_firing route cd sibs) (d_alert delta) =
      (trigger_for delta cd ig, d_alert delta)"
    using trigger_for_firing [OF assms, of cd ig] by (simp add: settle_on_def split: option.splits)
  then show "snd (update_state delta route cd ig ack sibs) = d_alert delta"
    "fst (update_state delta route cd ig ack sibs) =
      (let st = Option.bind (trigger_for delta cd ig) (\<lambda>t. next_state (n_state cd) t ack)
       in if n_state cd = Resolved \<and> st \<in> {Some Firing, Some Acked} \<and> is_suppressed (al_am_state (d_alert delta))
          then Some Silenced else st)"
    by (simp_all add: update_state_def Let_def)
qed

lemma update_state_rearm:
  assumes "is_firing (d_alert delta)" "delta_ok delta" "n_state cd = Resolved"
  shows "fst (update_state delta route cd ig ack sibs) =
    (if ig then None else if is_suppressed (al_am_state (d_alert delta)) then Some Silenced
     else Some (if ack then Acked else Firing))"
  unfolding update_state_firing(2) [OF assms(1,2)]
  using assms(1,3) by (auto simp: trigger_for_def next_state_def is_firing_def Let_def)

lemma update_state_moves:
  assumes "fst (update_state delta route cd ig ack sibs) = Some s"
  shows "card_step (n_state cd) s \<or> (n_state cd = Resolved \<and> s = Silenced)"
proof -
  obtain tr sh where p: "settle_on (trigger_for delta cd ig) (still_firing route cd sibs) (d_alert delta) = (tr, sh)"
    by fastforce
  have "fst (update_state delta route cd ig ack sibs) =
      (let st = Option.bind tr (\<lambda>t. next_state (n_state cd) t ack)
       in if n_state cd = Resolved \<and> st \<in> {Some Firing, Some Acked} \<and> is_suppressed (al_am_state sh)
          then Some Silenced else st)"
    by (simp add: update_state_def p Let_def)
  with assms show ?thesis
    by (auto simp: Let_def split: if_splits option.splits bind_splits intro: card_step.step)
qed

section \<open>What an update enqueues\<close>

lemma opt_list_simps [simp]: "opt_list None = []" "opt_list (Some x) = [x]"
  by (simp_all add: opt_list_def)

lemma set_opt_list [simp]: "x \<in> set (opt_list y) \<longleftrightarrow> y = Some x"
  by (cases y) auto

lemmas effect_defs = update_effects_def forum_effects_def resolved_post_flags_def reopened_post_window_def
  immediate_def debounced_def Let_def

lemma update_effects_card:
  assumes "e \<in> set (update_effects delta route sn cd st shown ds now)"
  shows "effect_notification (no_effect e) = Some (n_id cd)" "no_dedupe_key e = n_dedupe_key cd"
    "no_not_before e \<in> {now, now + ds_debounce ds}" "effect_kind (no_effect e) \<noteq> ''post_card''"
  using assms by (auto simp: effect_defs split: route_target.splits if_splits)

lemma update_effects_edit:
  "filter (\<lambda>e. effect_kind (no_effect e) = ''edit_card'') (update_effects delta route sn cd st shown ds now) =
     [debounced (EditCard (n_id cd)) cd ds now]"
  by (simp add: effect_defs opt_list_def split: route_target.splits)

text \<open>The order a worker claims one card's items in: \<open>not_before\<close>, then insertion.\<close>

definition claim_order :: "new_outbox_item list \<Rightarrow> new_outbox_item list" where
  "claim_order items = sort_key no_not_before items"

lemma last_claim_order:
  assumes "\<forall>x \<in> set xs. no_not_before x \<le> no_not_before y"
  shows "claim_order (xs @ [y]) = claim_order xs @ [y]"
  unfolding claim_order_def
proof (rule properties_for_sort_key)
  show "sorted (map no_not_before (sort_key no_not_before xs @ [y]))"
    using assms by (auto simp: sorted_append)
next
  fix k
  have swap: "(\<lambda>x. no_not_before k = no_not_before x) = (\<lambda>x. no_not_before x = no_not_before k)" by auto
  show "filter (\<lambda>x. no_not_before k = no_not_before x) (sort_key no_not_before xs @ [y]) =
      filter (\<lambda>x. no_not_before k = no_not_before x) (xs @ [y])"
    unfolding swap by (simp add: sort_key_stable)
qed simp

section \<open>Tags\<close>

lemma apply_tag_names_bound:
  "length tags < MAX_APPLIED_TAGS \<Longrightarrow> distinct tags \<Longrightarrow>
   length (apply_tag_names lookup names tags) \<le> MAX_APPLIED_TAGS \<and> distinct (apply_tag_names lookup names tags) \<and>
   (\<exists>more. apply_tag_names lookup names tags = tags @ more \<and> set more \<subseteq> {i. \<exists>n \<in> set names. lookup n = Some i})"
proof (induction lookup names tags rule: apply_tag_names.induct)
  case (2 lookup name names tags)
  show ?case
  proof (cases "\<exists>i. lookup name = Some i \<and> i \<notin> set tags")
    case True
    then obtain i where i: "lookup name = Some i" "i \<notin> set tags" by blast
    show ?thesis
    proof (cases "length (tags @ [i]) = MAX_APPLIED_TAGS")
      case True
      then show ?thesis using i 2 by auto
    next
      case False
      then have "length (tags @ [i]) < MAX_APPLIED_TAGS" using 2(2) by simp
      from 2(1) [of "tags @ [i]"] this i 2(3) False show ?thesis by (auto simp: Let_def)
    qed
  next
    case False
    then have same: "(case lookup name of Some i \<Rightarrow> if i \<notin> set tags then tags @ [i] else tags | None \<Rightarrow> tags) = tags"
      by (auto split: option.splits)
    have "length tags \<noteq> MAX_APPLIED_TAGS" using 2(2) by simp
    with 2(1) [of tags] 2(2,3) show ?thesis unfolding apply_tag_names.simps Let_def same by auto
  qed
qed simp

end
