(* ===== verification/Store_Logic.thy ===== *)
theory Store_Logic
  imports Store_Types
begin

text \<open>
  The decisions both backends share (\<open>logic.rs\<close>): what an arriving alert does to its stored row, the
  silences in force against each fingerprint, and the parts of an alert query that run in memory or
  are flattened for SQL. Lemmas: a redelivery changes nothing, the kind of every transition, the flap
  count, and the exact content of the suppression map.
\<close>

section \<open>What an arriving alert changes\<close>

record transition =
  tn_kind :: event_kind
  tn_flap_count :: nat
  tn_first_seen_at :: time
  tn_resolved_at :: "time option"

definition resolved_at :: "alert \<Rightarrow> time \<Rightarrow> time option" where
  "resolved_at incoming received_at = (if is_firing incoming then None
     else Some (case al_ends_at incoming of Some e \<Rightarrow> e | None \<Rightarrow> received_at))"

definition regrouped :: "alert_record \<Rightarrow> time \<Rightarrow> duration \<Rightarrow> bool" where
  "regrouped previous received_at regroup = (case ar_resolved_at previous of
     None \<Rightarrow> False | Some resolved \<Rightarrow> regroup < received_at - resolved)"

definition is_material_change :: "alert \<Rightarrow> alert \<Rightarrow> bool" where
  "is_material_change p i \<longleftrightarrow>
     al_labels p \<noteq> al_labels i \<or> al_annotations p \<noteq> al_annotations i \<or> al_starts_at p \<noteq> al_starts_at i \<or>
     al_ends_at p \<noteq> al_ends_at i \<or> al_generator_url p \<noteq> al_generator_url i \<or> al_am_state p \<noteq> al_am_state i \<or>
     al_silenced_by p \<noteq> al_silenced_by i \<or> al_inhibited_by p \<noteq> al_inhibited_by i \<or> al_group_key p \<noteq> al_group_key i"

definition classify :: "alert_record option \<Rightarrow> alert \<Rightarrow> time \<Rightarrow> duration \<Rightarrow> transition option" where
  "classify previous incoming received_at regroup = (case previous of
     None \<Rightarrow> Some \<lparr>tn_kind = (if is_firing incoming then EFired else EResolved), tn_flap_count = 0,
       tn_first_seen_at = received_at, tn_resolved_at = resolved_at incoming received_at\<rparr>
   | Some p \<Rightarrow>
       let base = \<lparr>tn_kind = EUpdated, tn_flap_count = ar_flap_count p,
             tn_first_seen_at = ar_first_seen_at p, tn_resolved_at = ar_resolved_at p\<rparr>
       in if al_status (ar_alert p) \<noteq> al_status incoming then
            Some (if \<not> is_firing incoming then
                base\<lparr>tn_kind := EResolved, tn_resolved_at := resolved_at incoming received_at\<rparr>
              else if regrouped p received_at regroup then
                base\<lparr>tn_kind := EFired, tn_flap_count := 0, tn_resolved_at := None\<rparr>
              else base\<lparr>tn_kind := EFired, tn_flap_count := sat_add_u32 (ar_flap_count p) 1, tn_resolved_at := None\<rparr>)
          else let was = is_suppressed (al_am_state (ar_alert p)); now = is_suppressed (al_am_state incoming)
            in if was \<noteq> now then Some (base\<lparr>tn_kind := (if now then ESilenced else EUnsilenced)\<rparr>)
               else if is_material_change (ar_alert p) incoming then Some base
               else None)"

definition carry_over :: "alert_record option \<Rightarrow> alert \<Rightarrow> alert" where
  "carry_over previous incoming = (case (al_group_key incoming, previous) of
     (None, Some p) \<Rightarrow> incoming\<lparr>al_group_key := al_group_key (ar_alert p)\<rparr>
   | _ \<Rightarrow> incoming)"

lemma classify_None_iff:
  "classify (Some p) a t r = None \<longleftrightarrow>
     al_status (ar_alert p) = al_status a \<and> \<not> is_material_change (ar_alert p) a"
  by (auto simp: classify_def Let_def is_material_change_def)

lemma same_alert_iff:
  "al_fingerprint p = al_fingerprint i \<Longrightarrow> al_status p = al_status i \<Longrightarrow>
   \<not> is_material_change p i \<longleftrightarrow> p = (i :: alert)"
  by (auto simp: is_material_change_def intro: alert.equality)

lemma classify_kind:
  assumes "classify previous a t r = Some tn"
  shows "tn_kind tn = EFired \<Longrightarrow> is_firing a" "tn_kind tn = EResolved \<Longrightarrow> \<not> is_firing a"
    "tn_kind tn = ESilenced \<Longrightarrow> is_suppressed (al_am_state a)"
    "tn_kind tn = EUnsilenced \<Longrightarrow> \<not> is_suppressed (al_am_state a)"
  using assms by (auto simp: classify_def Let_def split: option.splits if_splits)

lemma classify_flap_le: "classify (Some p) a t r = Some tn \<Longrightarrow> ar_flap_count p \<le> u32_max \<Longrightarrow> tn_flap_count tn \<le> u32_max"
  by (auto simp: classify_def Let_def sat_add_u32_le split: if_splits)

lemma classify_first_seen: "classify (Some p) a t r = Some tn \<Longrightarrow> tn_first_seen_at tn = ar_first_seen_at p"
  by (auto simp: classify_def Let_def split: if_splits)

lemma classify_new: "classify None a t r \<noteq> None"
  by (simp add: classify_def)

lemma carry_over_simps [simp]:
  "al_fingerprint (carry_over p a) = al_fingerprint a" "al_labels (carry_over p a) = al_labels a"
  "al_status (carry_over p a) = al_status a" "al_am_state (carry_over p a) = al_am_state a"
  by (simp_all add: carry_over_def split: option.splits)

lemma carry_over_idem: "carry_over p (carry_over p a) = carry_over p a"
  by (simp add: carry_over_def split: option.splits)

lemma carry_over_stored: "ar_alert r = carry_over p a \<Longrightarrow> carry_over (Some r) a = carry_over p a"
  by (auto simp: carry_over_def split: option.splits)

section \<open>The silences in force\<close>

type_synonym suppression = "(fingerprint \<times> string list) list"

definition push_silence :: "string \<Rightarrow> fingerprint \<Rightarrow> suppression \<Rightarrow> suppression" where
  "push_silence i f m = bt_insert f ((case bt_get m f of Some ids \<Rightarrow> ids | None \<Rightarrow> []) @ [i]) m"

definition collect_silences :: "silence_state list \<Rightarrow> suppression" where
  "collect_silences snap = fold (\<lambda>s m. if ss_state s \<noteq> SilenceActive then m
     else fold (push_silence (ss_am_id s)) (ss_suppresses s) m) snap []"

definition suppression_map :: "silence_state list \<Rightarrow> suppression" where
  "suppression_map snap = map (\<lambda>(f, ids). (f, dedup (sort ids))) (collect_silences snap)"

text \<open>The ids in force against a fingerprint, with repetitions, in snapshot order.\<close>

definition in_force_ids :: "silence_state list \<Rightarrow> fingerprint \<Rightarrow> string list" where
  "in_force_ids snap f = concat (map (\<lambda>s. if ss_state s = SilenceActive
     then map (\<lambda>_. ss_am_id s) (filter ((=) f) (ss_suppresses s)) else []) snap)"

lemma bt_wf_push [simp]: "bt_wf m \<Longrightarrow> bt_wf (push_silence i f m)"
  by (simp add: push_silence_def bt_wf_insert)

definition ids_of :: "suppression \<Rightarrow> fingerprint \<Rightarrow> string list" where
  "ids_of m f = (case bt_get m f of Some ids \<Rightarrow> ids | None \<Rightarrow> [])"

definition silences_ok :: "suppression \<Rightarrow> bool" where
  "silences_ok m \<longleftrightarrow> bt_wf m \<and> (\<forall>f. bt_get m f \<noteq> Some [])"

lemma push_silence_ok:
  assumes "silences_ok m"
  shows "silences_ok (push_silence i f m)"
    "ids_of (push_silence i f m) g = ids_of m g @ (if g = f then [i] else [])"
  using assms by (auto simp: silences_ok_def ids_of_def push_silence_def intro: bt_wf_insert)

lemma fold_push_ok:
  "silences_ok m \<Longrightarrow> silences_ok (fold (push_silence i) fs m) \<and>
     ids_of (fold (push_silence i) fs m) g = ids_of m g @ map (\<lambda>_. i) (filter ((=) g) fs)"
  by (induction fs arbitrary: m) (auto simp: push_silence_ok)

lemma collect_silences_ok:
  "silences_ok (collect_silences snap) \<and> ids_of (collect_silences snap) g = in_force_ids snap g"
proof -
  have "silences_ok m \<Longrightarrow> silences_ok (fold (\<lambda>s m. if ss_state s \<noteq> SilenceActive then m
      else fold (push_silence (ss_am_id s)) (ss_suppresses s) m) snap m) \<and>
    ids_of (fold (\<lambda>s m. if ss_state s \<noteq> SilenceActive then m
      else fold (push_silence (ss_am_id s)) (ss_suppresses s) m) snap m) g = ids_of m g @ in_force_ids snap g" for m
    by (induction snap arbitrary: m) (auto simp: in_force_ids_def fold_push_ok)
  from this [of "[]"] show ?thesis
    by (simp add: collect_silences_def silences_ok_def ids_of_def)
qed

lemma in_force_ids_iff:
  "i \<in> set (in_force_ids snap f) \<longleftrightarrow>
     (\<exists>s \<in> set snap. ss_state s = SilenceActive \<and> ss_am_id s = i \<and> f \<in> set (ss_suppresses s))"
  by (auto simp: in_force_ids_def split: if_splits)

lemma map_of_map_values: "map_of (map (\<lambda>(k, v). (k, g v)) m) k = map_option g (map_of m k)"
  by (induction m) auto

lemma suppression_map_get:
  "bt_get (suppression_map snap) f =
     (if in_force_ids snap f = [] then None else Some (dedup (sort (in_force_ids snap f))))"
  using collect_silences_ok [of snap f]
  by (auto simp: suppression_map_def map_of_map_values ids_of_def silences_ok_def split: option.splits)

lemma suppression_map_wf: "bt_wf (suppression_map snap)"
  using collect_silences_ok [of snap]
  by (simp add: suppression_map_def silences_ok_def bt_wf_def o_def split_beta)

section \<open>Queries\<close>

definition compile_matcher :: "regex_engine \<Rightarrow> query_matcher \<Rightarrow> core_error + matcher" where
  "compile_matcher rx q = (case new_label_name (qm_name q) of Inl e \<Rightarrow> Inl e
     | Inr n \<Rightarrow> new_matcher rx n (qm_op q) (qm_value q))"

definition is_sql_expressible :: "query_matcher \<Rightarrow> bool" where
  "is_sql_expressible q \<longleftrightarrow> \<not> op_is_regex (qm_op q)"

definition compiled_matches :: "regex_engine \<Rightarrow> query_matcher \<Rightarrow> labels \<Rightarrow> bool" where
  "compiled_matches rx q ls = (case compile_matcher rx q of Inl _ \<Rightarrow> False | Inr m \<Rightarrow> matcher_matches m ls)"

definition matches_regex_matchers :: "regex_engine \<Rightarrow> alert_record \<Rightarrow> alert_query \<Rightarrow> bool" where
  "matches_regex_matchers rx r q = list_all (\<lambda>m. compiled_matches rx m (al_labels (ar_alert r)))
     (filter (\<lambda>m. \<not> is_sql_expressible m) (aq_matchers q))"

definition needs_in_memory_filter :: "alert_query \<Rightarrow> bool" where
  "needs_in_memory_filter q = list_ex (\<lambda>m. \<not> is_sql_expressible m) (aq_matchers q)"

definition IN_MEMORY_SCAN_LIMIT :: nat where "IN_MEMORY_SCAN_LIMIT = 5000"

definition severities_at_or_above :: "severity \<Rightarrow> string list" where
  "severities_at_or_above floor = map severity_str (filter (\<lambda>s. floor \<le> s) [Info, Warning, Critical])"

record sql_alert_filter =
  sq_statuses :: "string list"
  sq_severities :: "string list"
  sq_label_names :: "string list"
  sq_label_values :: "string list"
  sq_label_equal :: "bool list"
  sq_notification_state :: "string option"

definition push_matcher :: "regex_engine \<Rightarrow> query_matcher \<Rightarrow> sql_alert_filter \<Rightarrow> sql_alert_filter" where
  "push_matcher rx m f = (case compile_matcher rx m of Inl _ \<Rightarrow> f
     | Inr c \<Rightarrow> f\<lparr>sq_label_names := sq_label_names f @ [name_str (m_name c)],
         sq_label_values := sq_label_values f @ [qm_value m],
         sq_label_equal := sq_label_equal f @ [op_is_equal (m_op c)]\<rparr>)"

definition from_query :: "regex_engine \<Rightarrow> alert_query \<Rightarrow> sql_alert_filter" where
  "from_query rx q = fold (push_matcher rx) (filter is_sql_expressible (aq_matchers q))
     \<lparr>sq_statuses = map alert_status_str (aq_statuses q),
      sq_severities = (case aq_min_severity q of Some s \<Rightarrow> severities_at_or_above s | None \<Rightarrow> []),
      sq_label_names = [], sq_label_values = [], sq_label_equal = [],
      sq_notification_state = map_option state_str (aq_notification_state q)\<rparr>"

text \<open>The predicate the bound lists stand for, a row of three parallel lists per matcher.\<close>

definition sql_labels_match :: "sql_alert_filter \<Rightarrow> labels \<Rightarrow> bool" where
  "sql_labels_match f ls = list_all (\<lambda>(n, v, eq). (get_or_empty ls n = v) = eq)
     (zip (sq_label_names f) (zip (sq_label_values f) (sq_label_equal f)))"

lemma severity_str_mem: "severity_str s \<in> set (severities_at_or_above floor) \<longleftrightarrow> floor \<le> s"
  by (cases s; cases floor; simp add: severities_at_or_above_def severity_str_def severity_order)

lemma fold_push_matcher:
  assumes "\<forall>m \<in> set ms. \<exists>c. compile_matcher rx m = Inr c"
    "list_all is_sql_expressible ms"
    "length (sq_label_names f) = length (sq_label_equal f)" "length (sq_label_values f) = length (sq_label_equal f)"
  shows "sql_labels_match (fold (push_matcher rx) ms f) ls \<longleftrightarrow>
    sql_labels_match f ls \<and> list_all (\<lambda>m. compiled_matches rx m ls) ms"
  using assms
proof (induction ms arbitrary: f)
  case (Cons m ms)
  then obtain c where c: "compile_matcher rx m = Inr c" by auto
  let ?f = "push_matcher rx m f"
  have lens: "length (sq_label_names ?f) = length (sq_label_equal ?f)"
    "length (sq_label_values ?f) = length (sq_label_equal ?f)"
    using Cons.prems c by (simp_all add: push_matcher_def)
  have "sql_labels_match ?f ls \<longleftrightarrow> sql_labels_match f ls \<and> compiled_matches rx m ls"
    using Cons.prems c
    by (auto simp: push_matcher_def sql_labels_match_def compiled_matches_def compile_matcher_def
        is_sql_expressible_def op_is_regex_def op_is_equal_def new_matcher_def matcher_matches_def Let_def
        split: sum.splits match_op.splits if_splits)
  with Cons.IH [of ?f] Cons.prems lens show ?case by auto
qed simp

end
