(* ===== verification/Sqlite_Db.thy ===== *)
theory Sqlite_Db
  imports Store_Logic Store_Types
begin

text \<open>
  The database the SQLite backend keeps (its migrations 0001 to 0006) and the transaction every
  operation runs in. A table is the list of its rows in insertion order, an auto-increment key the next
  unused id, and a transaction a state-passing function whose \<open>Inl\<close> is the rollback: \<open>run_tx\<close> then
  leaves the database as it was. Failures of the driver itself are not modelled; a unique index that
  rejects a write is. Columns that only restate the payload (\<open>outbox.kind\<close>,
  \<open>outbox.notification_id\<close>, \<open>alerts.severity\<close>) are read off it.
\<close>

section \<open>Tables\<close>

record ack_row =
  ak_fingerprint :: fingerprint
  ak_user_id :: user_id
  ak_kind :: ack_kind
  ak_note :: "string option"
  ak_created_at :: time
  ak_revoked_at :: "time option"

datatype event_payload =
    UpdatedPayload annotations
  | TransitionPayload alert_status am_state severity "string list"

record event_row =
  ev_fingerprint :: fingerprint
  ev_kind :: event_kind
  ev_source :: event_source
  ev_starts_at :: time
  ev_ends_at :: "time option"
  ev_payload :: event_payload
  ev_received_at :: time

record db =
  db_alerts :: "alert_record list"
  db_events :: "event_row list"
  db_cards :: "notification list"
  db_next_card :: notification_id
  db_outbox :: "outbox_item list"
  db_next_item :: outbox_id
  db_acks :: "ack_row list"
  db_silences :: "silence_link list"
  db_audit :: "audit_entry list"

definition empty_db :: db where
  "empty_db = \<lparr>db_alerts = [], db_events = [], db_cards = [], db_next_card = 1, db_outbox = [],
     db_next_item = 1, db_acks = [], db_silences = [], db_audit = []\<rparr>"

section \<open>Statements\<close>

definition update_where :: "('r \<Rightarrow> bool) \<Rightarrow> ('r \<Rightarrow> 'r) \<Rightarrow> 'r list \<Rightarrow> 'r list" where
  "update_where P f rows = map (\<lambda>r. if P r then f r else r) rows"

definition affected :: "('r \<Rightarrow> bool) \<Rightarrow> 'r list \<Rightarrow> nat" where
  "affected P rows = length (filter P rows)"

lemma affected_0_iff: "affected P rows = 0 \<longleftrightarrow> (\<forall>r \<in> set rows. \<not> P r)"
  by (auto simp: affected_def filter_empty_conv)

lemma length_update_where [simp]: "length (update_where P f rows) = length rows"
  by (simp add: update_where_def)

lemma set_update_where: "set (update_where P f rows) = (\<lambda>r. if P r then f r else r) ` set rows"
  by (simp add: update_where_def)

lemma map_update_where: "(\<And>r. P r \<Longrightarrow> g (f r) = g r) \<Longrightarrow> map g (update_where P f rows) = map g rows"
  by (auto simp: update_where_def)

lemma update_where_none: "\<forall>r \<in> set rows. \<not> P r \<Longrightarrow> update_where P f rows = rows"
  by (simp add: update_where_def map_idI)

lemma affected_after_update:
  assumes "\<And>r. \<not> P (f r)"
  shows "affected P (update_where P f rows) = 0"
proof -
  have "\<not> P r" if "r \<in> set (update_where P f rows)" for r
    using that assms by (induction rows) (auto simp: update_where_def split: if_splits)
  then show ?thesis unfolding affected_0_iff by blast
qed

section \<open>Transactions\<close>

type_synonym 'a tx = "db \<Rightarrow> store_error + 'a \<times> db"

definition tx_ret :: "'a \<Rightarrow> 'a tx" where
  "tx_ret x = (\<lambda>db. Inr (x, db))"

definition tx_bind :: "'a tx \<Rightarrow> ('a \<Rightarrow> 'b tx) \<Rightarrow> 'b tx" where
  "tx_bind m f = (\<lambda>db. case m db of Inl e \<Rightarrow> Inl e | Inr (x, db') \<Rightarrow> f x db')"

definition tx_fail :: "store_error \<Rightarrow> 'a tx" where
  "tx_fail e = (\<lambda>db. Inl e)"

fun tx_each :: "('a \<Rightarrow> unit tx) \<Rightarrow> 'a list \<Rightarrow> unit tx" where
  "tx_each f [] = tx_ret ()"
| "tx_each f (x # xs) = tx_bind (f x) (\<lambda>_. tx_each f xs)"

fun tx_map :: "('a \<Rightarrow> 'b tx) \<Rightarrow> 'a list \<Rightarrow> 'b list tx" where
  "tx_map f [] = tx_ret []"
| "tx_map f (x # xs) = tx_bind (f x) (\<lambda>y. tx_bind (tx_map f xs) (\<lambda>ys. tx_ret (y # ys)))"

definition run_tx :: "'a tx \<Rightarrow> db \<Rightarrow> (store_error + 'a) \<times> db" where
  "run_tx m db = (case m db of Inl e \<Rightarrow> (Inl e, db) | Inr (x, db') \<Rightarrow> (Inr x, db'))"

lemma tx_bind_Inr_iff:
  "tx_bind m f db = Inr (y, db'') \<longleftrightarrow> (\<exists>x db'. m db = Inr (x, db') \<and> f x db' = Inr (y, db''))"
  by (auto simp: tx_bind_def split: sum.splits)

lemma tx_simps [simp]:
  "tx_ret x db = Inr (y, db') \<longleftrightarrow> y = x \<and> db' = db" "tx_fail e db \<noteq> Inr r" "tx_ret x db \<noteq> Inl e"
  "tx_fail e db = Inl e' \<longleftrightarrow> e' = e"
  by (auto simp: tx_ret_def tx_fail_def)

lemma run_tx_Inl: "run_tx m db = (Inl e, db') \<Longrightarrow> db' = db"
  by (auto simp: run_tx_def split: sum.splits)

lemma run_tx_Inr_iff [simp]: "run_tx m db = (Inr x, db') \<longleftrightarrow> m db = Inr (x, db')"
  by (auto simp: run_tx_def split: sum.splits)

text \<open>What every operation of a component promises: it keeps the invariant when it commits.\<close>

locale tx_invariant =
  fixes inv :: "db \<Rightarrow> bool"
  assumes inv_empty: "inv empty_db"
begin

definition keeps :: "'a tx \<Rightarrow> bool" where
  "keeps m \<longleftrightarrow> (\<forall>db x db'. inv db \<longrightarrow> m db = Inr (x, db') \<longrightarrow> inv db')"

lemma keepsI: "(\<And>db x db'. inv db \<Longrightarrow> m db = Inr (x, db') \<Longrightarrow> inv db') \<Longrightarrow> keeps m"
  by (auto simp: keeps_def)

lemma keepsD: "keeps m \<Longrightarrow> inv db \<Longrightarrow> m db = Inr (x, db') \<Longrightarrow> inv db'"
  by (auto simp: keeps_def)

lemma keeps_ret [intro]: "keeps (tx_ret x)"
  by (auto simp: keeps_def)

lemma keeps_fail [intro]: "keeps (tx_fail e)"
  by (auto simp: keeps_def)

lemma keeps_bind: "keeps m \<Longrightarrow> (\<And>x. keeps (f x)) \<Longrightarrow> keeps (tx_bind m f)"
  unfolding keeps_def tx_bind_Inr_iff by metis

lemma keeps_each: "(\<And>x. x \<in> set xs \<Longrightarrow> keeps (f x)) \<Longrightarrow> keeps (tx_each f xs)"
  by (induction xs) (auto intro: keeps_bind)

lemma keeps_map: "(\<And>x. x \<in> set xs \<Longrightarrow> keeps (f x)) \<Longrightarrow> keeps (tx_map f xs)"
  by (induction xs) (auto intro!: keeps_bind)

text \<open>So it holds after any sequence of operations on a new database, whatever each of them answers.\<close>

lemma inv_history: "(\<And>f db. f \<in> set ops \<Longrightarrow> inv db \<Longrightarrow> inv (f db)) \<Longrightarrow> inv (foldl (\<lambda>db f. f db) empty_db ops)"
proof (induction ops rule: rev_induct)
  case Nil
  show ?case by (simp add: inv_empty)
next
  case (snoc f ops)
  then show ?case by simp
qed

lemma keeps_run: "keeps m \<Longrightarrow> inv db \<Longrightarrow> inv (snd (run_tx m db))"
  by (auto simp: keeps_def run_tx_def split: sum.splits)

end

section \<open>Silences\<close>

definition write_silence :: "silence_link \<Rightarrow> unit tx" where
  "write_silence link = (\<lambda>db.
     if affected (\<lambda>s. sl_am_id s = sl_am_id link) (db_silences db) = 0
     then Inr ((), db\<lparr>db_silences := db_silences db @ [link]\<rparr>)
     else Inr ((), db\<lparr>db_silences := update_where (\<lambda>s. sl_am_id s = sl_am_id link) (\<lambda>_. link) (db_silences db)\<rparr>))"

lemma write_silence_frame:
  "write_silence link db = Inr (x, db') \<Longrightarrow> db_cards db' = db_cards db \<and> db_outbox db' = db_outbox db \<and>
     db_next_card db' = db_next_card db \<and> db_next_item db' = db_next_item db \<and> db_alerts db' = db_alerts db \<and>
     db_acks db' = db_acks db \<and> db_events db' = db_events db \<and> db_audit db' = db_audit db"
  by (auto simp: write_silence_def split: if_splits)

end
