(* ===== verification/Sqlite_Outbox.thy ===== *)
theory Sqlite_Outbox
  imports Sqlite_Db
begin

text \<open>
  The durable queue (\<open>store/outbox.rs\<close> of the SQLite backend): enqueueing with per-card folding,
  claiming a lane's due items in order, completing, failing and reclaiming them. Lemmas: only the
  holder of a claim can settle an item, a claim takes the earliest due unclaimed items and no others,
  and a fold touches nothing but pending items of the same kind for the same card.
\<close>

section \<open>Enqueueing\<close>

definition same_card_pending :: "effect \<Rightarrow> outbox_item \<Rightarrow> bool" where
  "same_card_pending e r \<longleftrightarrow> ob_claimed_at r = None \<and> effect_kind (ob_effect r) = effect_kind e \<and>
     effect_notification (ob_effect r) = effect_notification e"

definition fold_into :: "new_outbox_item \<Rightarrow> outbox_item \<Rightarrow> outbox_item" where
  "fold_into item r = r\<lparr>ob_effect := no_effect item, ob_not_before := min (ob_not_before r) (no_not_before item)\<rparr>"

definition insert_item :: "new_outbox_item \<Rightarrow> time \<Rightarrow> unit tx" where
  "insert_item item at = (\<lambda>db. Inr ((), db\<lparr>
     db_outbox := db_outbox db @ [\<lparr>ob_id = db_next_item db, ob_lane = key_lane (no_dedupe_key item) OUTBOX_LANES,
       ob_effect = no_effect item, ob_dedupe_key = no_dedupe_key item, ob_not_before = no_not_before item,
       ob_attempts = 0, ob_claimed_by = None, ob_claimed_at = None, ob_last_error = None, ob_created_at = at\<rparr>],
     db_next_item := db_next_item db + 1\<rparr>))"

definition enqueue :: "new_outbox_item \<Rightarrow> time \<Rightarrow> unit tx" where
  "enqueue item at = (\<lambda>db.
     if is_coalescable (no_effect item) \<and> effect_notification (no_effect item) \<noteq> None
        \<and> 0 < affected (same_card_pending (no_effect item)) (db_outbox db)
     then Inr ((), db\<lparr>db_outbox := update_where (same_card_pending (no_effect item)) (fold_into item) (db_outbox db)\<rparr>)
     else insert_item item at db)"

definition enqueue_effects :: "new_outbox_item list \<Rightarrow> time \<Rightarrow> db \<Rightarrow> (store_error + unit) \<times> db" where
  "enqueue_effects items at = run_tx (tx_each (\<lambda>i. enqueue i at) items)"

section \<open>Claiming\<close>

definition claimable :: "lane_assignment option \<Rightarrow> time \<Rightarrow> outbox_item \<Rightarrow> bool" where
  "claimable lane now r \<longleftrightarrow> ob_claimed_at r = None \<and> ob_not_before r \<le> now \<and>
     (case lane of None \<Rightarrow> True | Some l \<Rightarrow> ob_lane r mod la_of l = la_index l)"

abbreviation item_order :: "outbox_item \<Rightarrow> time \<times> outbox_id" where
  "item_order r \<equiv> (ob_not_before r, ob_id r)"

definition take_row :: "worker_id \<Rightarrow> time \<Rightarrow> outbox_item \<Rightarrow> outbox_item" where
  "take_row w now r = r\<lparr>ob_claimed_by := Some w, ob_claimed_at := Some now, ob_attempts := ob_attempts r + 1\<rparr>"

definition claim_ids :: "claim_request \<Rightarrow> time \<Rightarrow> db \<Rightarrow> outbox_id list" where
  "claim_ids req now db =
     map ob_id (take (cr_limit req) (sort_key item_order (filter (claimable (cr_lane req) now) (db_outbox db))))"

definition claim_outbox :: "worker_id \<Rightarrow> claim_request \<Rightarrow> time \<Rightarrow> db \<Rightarrow> (store_error + outbox_item list) \<times> db" where
  "claim_outbox w req now = run_tx (\<lambda>db.
     let ids = claim_ids req now db in
     if ids = [] then Inr ([], db)
     else let rows = update_where (\<lambda>r. ob_id r \<in> set ids) (take_row w now) (db_outbox db)
       in Inr (sort_key item_order (filter (\<lambda>r. ob_id r \<in> set ids) rows), db\<lparr>db_outbox := rows\<rparr>))"

section \<open>Settling\<close>

definition take_claim :: "worker_id \<Rightarrow> outbox_id \<Rightarrow> effect tx" where
  "take_claim w i = (\<lambda>db. case find (\<lambda>r. ob_id r = i) (db_outbox db) of
     None \<Rightarrow> Inl (LeaseLost i)
   | Some r \<Rightarrow> if ob_claimed_by r \<noteq> Some w then Inl (LeaseLost i) else Inr (ob_effect r, db))"

definition coalesce :: "'a option \<Rightarrow> 'a option \<Rightarrow> 'a option" where
  "coalesce x y = (case x of None \<Rightarrow> y | Some v \<Rightarrow> Some v)"

definition apply_row :: "applied_effect \<Rightarrow> time \<Rightarrow> notification \<Rightarrow> notification" where
  "apply_row a now n = n\<lparr>n_updated_at := now,
     n_message_id := coalesce (ae_message_id a) (n_message_id n),
     n_thread_id := coalesce (ae_thread_id a) (n_thread_id n),
     n_render_hash := coalesce (ae_render_hash a) (n_render_hash n),
     n_applied_tags := (case ae_applied_tags a of None \<Rightarrow> n_applied_tags n | Some t \<Rightarrow> t),
     n_tags_hash := coalesce (ae_tags_hash a) (n_tags_hash n),
     n_pinned := (case ae_pinned a of None \<Rightarrow> n_pinned n | Some p \<Rightarrow> p),
     n_archived := (case ae_archived a of None \<Rightarrow> n_archived n | Some p \<Rightarrow> p)\<rparr>"

text \<open>The two unique indexes of the notifications table.\<close>

definition KEY_INDEX :: string where
  "KEY_INDEX = ''UNIQUE constraint failed: notifications.channel_id, notifications.dedupe_key''"

definition MESSAGE_INDEX :: string where
  "MESSAGE_INDEX = ''UNIQUE constraint failed: notifications.message_id''"

definition keys_unique :: "notification list \<Rightarrow> bool" where
  "keys_unique ns \<longleftrightarrow> distinct (map (\<lambda>n. (n_channel_id n, n_dedupe_key n)) ns)"

definition messages_unique :: "notification list \<Rightarrow> bool" where
  "messages_unique ns \<longleftrightarrow> distinct (List.map_filter n_message_id ns)"

text \<open>An \<open>UPDATE\<close> or \<open>INSERT\<close> of notification rows, rejected by an index it would break.\<close>

definition write_cards :: "notification list \<Rightarrow> unit tx" where
  "write_cards ns = (\<lambda>db. if \<not> keys_unique ns then Inl (Conflict KEY_INDEX)
     else if \<not> messages_unique ns then Inl (Conflict MESSAGE_INDEX)
     else Inr ((), db\<lparr>db_cards := ns\<rparr>))"

definition update_card :: "notification_id \<Rightarrow> (notification \<Rightarrow> notification) \<Rightarrow> unit tx" where
  "update_card i f = (\<lambda>db. if affected (\<lambda>n. n_id n = i) (db_cards db) = 0 then Inl (no_such_notification i)
     else write_cards (update_where (\<lambda>n. n_id n = i) f (db_cards db)) db)"

definition apply_to_card :: "notification_id \<Rightarrow> applied_effect \<Rightarrow> time \<Rightarrow> unit tx" where
  "apply_to_card i a now = update_card i (apply_row a now)"

definition delete_item :: "outbox_id \<Rightarrow> unit tx" where
  "delete_item i = (\<lambda>db. Inr ((), db\<lparr>db_outbox := filter (\<lambda>r. ob_id r \<noteq> i) (db_outbox db)\<rparr>))"

definition silence_of :: "silence_effect \<Rightarrow> string \<Rightarrow> time \<Rightarrow> silence_link" where
  "silence_of request am_id now = \<lparr>sl_am_id = am_id, sl_matchers = sf_matchers request,
     sl_starts_at = sf_starts_at request, sl_ends_at = sf_ends_at request, sl_created_by = sf_created_by request,
     sl_discord_user_id = sf_discord_user_id request, sl_origin_message = sf_origin_message request,
     sl_comment = sf_comment request, sl_state = SilenceActive, sl_synced_at = now\<rparr>"

definition settle_silence :: "effect \<Rightarrow> applied_effect \<Rightarrow> time \<Rightarrow> unit tx" where
  "settle_silence e a now = (case e of
     CreateSilence request \<Rightarrow> (case ae_am_silence_id a of
         Some am_id \<Rightarrow> write_silence (silence_of request am_id now) | None \<Rightarrow> tx_ret ())
   | ExpireSilence am_id \<Rightarrow> (\<lambda>db. Inr ((), db\<lparr>db_silences :=
         update_where (\<lambda>s. sl_am_id s = am_id) (\<lambda>s. s\<lparr>sl_state := SilenceExpired, sl_synced_at := now\<rparr>)
           (db_silences db)\<rparr>))
   | _ \<Rightarrow> tx_ret ())"

text \<open>\<open>now\<close> is the backend's \<open>Utc::now()\<close>.\<close>

definition complete_outbox ::
  "worker_id \<Rightarrow> outbox_id \<Rightarrow> applied_effect \<Rightarrow> time \<Rightarrow> db \<Rightarrow> (store_error + unit) \<times> db" where
  "complete_outbox w i a now = run_tx
     (tx_bind (take_claim w i) (\<lambda>e.
      tx_bind (case effect_notification e of None \<Rightarrow> tx_ret () | Some n \<Rightarrow> apply_to_card n a now) (\<lambda>_.
      tx_bind (settle_silence e a now) (\<lambda>_. delete_item i))))"

definition fail_outbox ::
  "worker_id \<Rightarrow> outbox_id \<Rightarrow> string \<Rightarrow> time option \<Rightarrow> db \<Rightarrow> (store_error + unit) \<times> db" where
  "fail_outbox w i err retry_at = run_tx
     (tx_bind (take_claim w i) (\<lambda>_. case retry_at of
        Some t \<Rightarrow> (\<lambda>db. Inr ((), db\<lparr>db_outbox := update_where (\<lambda>r. ob_id r = i)
          (\<lambda>r. r\<lparr>ob_claimed_by := None, ob_claimed_at := None, ob_not_before := t, ob_last_error := Some err\<rparr>)
          (db_outbox db)\<rparr>))
      | None \<Rightarrow> delete_item i))"

definition expired_claim :: "time \<Rightarrow> outbox_item \<Rightarrow> bool" where
  "expired_claim older_than r \<longleftrightarrow> (case ob_claimed_at r of None \<Rightarrow> False | Some t \<Rightarrow> t < older_than)"

definition reclaim_expired :: "time \<Rightarrow> time \<Rightarrow> db \<Rightarrow> (store_error + nat) \<times> db" where
  "reclaim_expired older_than now = run_tx (\<lambda>db.
     Inr (affected (expired_claim older_than) (db_outbox db),
       db\<lparr>db_outbox := update_where (expired_claim older_than)
         (\<lambda>r. r\<lparr>ob_claimed_by := None, ob_claimed_at := None, ob_not_before := now\<rparr>) (db_outbox db)\<rparr>))"

definition outbox_depth :: "db \<Rightarrow> (string \<times> nat) list" where
  "outbox_depth db =
     (let pending = filter (\<lambda>r. ob_claimed_at r = None) (db_outbox db)
      in map (\<lambda>k. (k, length (filter (\<lambda>r. effect_kind (ob_effect r) = k) pending)))
           (dedup (sort (map (\<lambda>r. effect_kind (ob_effect r)) pending))))"

section \<open>The queue's invariant\<close>

definition item_ok :: "db \<Rightarrow> outbox_item \<Rightarrow> bool" where
  "item_ok db r \<longleftrightarrow> ob_id r < db_next_item db \<and> (ob_claimed_by r = None \<longleftrightarrow> ob_claimed_at r = None) \<and>
     ob_lane r = key_lane (ob_dedupe_key r) OUTBOX_LANES"

definition outbox_ok :: "db \<Rightarrow> bool" where
  "outbox_ok db \<longleftrightarrow> distinct (map ob_id (db_outbox db)) \<and> (\<forall>r \<in> set (db_outbox db). item_ok db r)"

interpretation queue: tx_invariant outbox_ok
  by unfold_locales (simp add: outbox_ok_def empty_db_def)

lemma outbox_ok_cong:
  "db_outbox db' = db_outbox db \<Longrightarrow> db_next_item db' = db_next_item db \<Longrightarrow> outbox_ok db' \<longleftrightarrow> outbox_ok db"
  by (simp add: outbox_ok_def item_ok_def)

lemma outbox_ok_update:
  assumes "outbox_ok db"
    and "\<And>r. r \<in> set (db_outbox db) \<Longrightarrow> P r \<Longrightarrow> ob_id (f r) = ob_id r \<and> (item_ok db r \<longrightarrow> item_ok db (f r))"
  shows "outbox_ok (db\<lparr>db_outbox := update_where P f (db_outbox db)\<rparr>)"
proof -
  have "map ob_id (update_where P f (db_outbox db)) = map ob_id (db_outbox db)"
    using assms(2) by (auto simp: update_where_def)
  then show ?thesis using assms by (auto simp: outbox_ok_def set_update_where item_ok_def)
qed

lemma insert_item_ok: "outbox_ok db \<Longrightarrow> insert_item item at db = Inr (x, db') \<Longrightarrow> outbox_ok db'"
proof -
  assume ok: "outbox_ok db" and ins: "insert_item item at db = Inr (x, db')"
  from ok have "db_next_item db \<notin> ob_id ` set (db_outbox db)" by (auto simp: outbox_ok_def item_ok_def)
  moreover have "\<And>r. r \<in> set (db_outbox db) \<Longrightarrow> ob_id r < db_next_item db + 1"
    using ok by (force simp: outbox_ok_def item_ok_def)
  ultimately show "outbox_ok db'" using ok ins by (auto simp: insert_item_def outbox_ok_def item_ok_def)
qed

lemma fold_into_simps [simp]:
  "ob_id (fold_into item r) = ob_id r" "ob_lane (fold_into item r) = ob_lane r"
  "ob_dedupe_key (fold_into item r) = ob_dedupe_key r" "ob_claimed_by (fold_into item r) = ob_claimed_by r"
  "ob_claimed_at (fold_into item r) = ob_claimed_at r" "ob_effect (fold_into item r) = no_effect item"
  "ob_not_before (fold_into item r) = min (ob_not_before r) (no_not_before item)"
  by (simp_all add: fold_into_def)

lemma enqueue_keeps: "queue.keeps (enqueue item at)"
proof (rule queue.keepsI)
  fix db x db'
  assume ok: "outbox_ok db" and enq: "enqueue item at db = Inr (x, db')"
  have "outbox_ok (db\<lparr>db_outbox := update_where P (fold_into item) (db_outbox db)\<rparr>)" for P
    using ok by (rule outbox_ok_update) (simp add: item_ok_def)
  with enq insert_item_ok [OF ok] show "outbox_ok db'" by (auto simp: enqueue_def split: if_splits)
qed

lemma enqueue_effects_ok: "outbox_ok db \<Longrightarrow> outbox_ok (snd (enqueue_effects items at db))"
  unfolding enqueue_effects_def by (intro queue.keeps_run queue.keeps_each enqueue_keeps)

lemma claim_outbox_ok: "outbox_ok db \<Longrightarrow> outbox_ok (snd (claim_outbox w req now db))"
  unfolding claim_outbox_def
proof (rule queue.keeps_run, rule queue.keepsI)
  fix db x db'
  let ?ids = "claim_ids req now db"
  assume ok: "outbox_ok db" and claim: "(let ids = claim_ids req now db in
     if ids = [] then Inr ([], db)
     else let rows = update_where (\<lambda>r. ob_id r \<in> set ids) (take_row w now) (db_outbox db)
       in Inr (sort_key item_order (filter (\<lambda>r. ob_id r \<in> set ids) rows), db\<lparr>db_outbox := rows\<rparr>)) = Inr (x, db')"
  have "outbox_ok (db\<lparr>db_outbox := update_where P (take_row w now) (db_outbox db)\<rparr>)" for P
    using ok by (rule outbox_ok_update) (simp add: item_ok_def take_row_def)
  with ok claim show "outbox_ok db'" by (auto simp: Let_def split: if_splits)
qed

lemma delete_item_keeps: "queue.keeps (delete_item i)"
  by (rule queue.keepsI) (auto simp: delete_item_def outbox_ok_def item_ok_def distinct_map_filter)

lemma take_claim_keeps: "queue.keeps (take_claim w i)"
  by (rule queue.keepsI) (auto simp: take_claim_def split: option.splits if_splits)

lemma write_cards_frame:
  "write_cards ns db = Inr (x, db') \<Longrightarrow> db' = db\<lparr>db_cards := ns\<rparr> \<and> keys_unique ns \<and> messages_unique ns"
  by (auto simp: write_cards_def split: if_splits)

lemma update_cardD:
  "update_card i f db = Inr (x, db') \<Longrightarrow>
     db' = db\<lparr>db_cards := update_where (\<lambda>n. n_id n = i) f (db_cards db)\<rparr> \<and>
     keys_unique (db_cards db') \<and> messages_unique (db_cards db') \<and> (\<exists>n \<in> set (db_cards db). n_id n = i)"
proof -
  assume upd: "update_card i f db = Inr (x, db')"
  then have some: "affected (\<lambda>n. n_id n = i) (db_cards db) \<noteq> 0"
    and wr: "write_cards (update_where (\<lambda>n. n_id n = i) f (db_cards db)) db = Inr (x, db')"
    by (simp_all add: update_card_def split: if_splits)
  from some have "\<exists>n \<in> set (db_cards db). n_id n = i" unfolding affected_0_iff by blast
  with write_cards_frame [OF wr] show ?thesis by simp
qed

lemma update_card_keeps: "queue.keeps (update_card i f)"
proof (rule queue.keepsI)
  fix db x db'
  assume ok: "outbox_ok db" and upd: "update_card i f db = Inr (x, db')"
  from update_cardD [OF upd] have "db_outbox db' = db_outbox db" "db_next_item db' = db_next_item db" by simp_all
  with ok outbox_ok_cong [of db' db] show "outbox_ok db'" by simp
qed

lemma settle_silence_frame:
  "settle_silence e a now db = Inr (x, db') \<Longrightarrow> db_cards db' = db_cards db \<and> db_outbox db' = db_outbox db \<and>
     db_next_card db' = db_next_card db \<and> db_next_item db' = db_next_item db \<and> db_alerts db' = db_alerts db \<and>
     db_acks db' = db_acks db \<and> db_events db' = db_events db"
proof -
  assume st: "settle_silence e a now db = Inr (x, db')"
  show ?thesis
  proof (cases "\<exists>req am_id. e = CreateSilence req \<and> ae_am_silence_id a = Some am_id")
    case True
    with st show ?thesis by (elim exE) (simp add: settle_silence_def write_silence_frame)
  next
    case False
    with st show ?thesis by (cases e) (auto simp: settle_silence_def split: option.splits)
  qed
qed

lemma settle_silence_keeps: "queue.keeps (settle_silence e a now)"
proof (rule queue.keepsI)
  fix db x db'
  assume ok: "outbox_ok db" and st: "settle_silence e a now db = Inr (x, db')"
  from settle_silence_frame [OF st] have "db_outbox db' = db_outbox db" "db_next_item db' = db_next_item db" by simp_all
  with ok outbox_ok_cong [of db' db] show "outbox_ok db'" by simp
qed

lemma complete_outbox_ok: "outbox_ok db \<Longrightarrow> outbox_ok (snd (complete_outbox w i a now db))"
  unfolding complete_outbox_def apply_to_card_def
  by (intro queue.keeps_run queue.keeps_bind take_claim_keeps settle_silence_keeps delete_item_keeps)
    (auto split: option.split intro: update_card_keeps)

lemma fail_outbox_ok: "outbox_ok db \<Longrightarrow> outbox_ok (snd (fail_outbox w i err retry db))"
  unfolding fail_outbox_def
proof (intro queue.keeps_run queue.keeps_bind take_claim_keeps)
  fix e
  show "queue.keeps (case retry of
      Some t \<Rightarrow> (\<lambda>db. Inr ((), db\<lparr>db_outbox := update_where (\<lambda>r. ob_id r = i)
        (\<lambda>r. r\<lparr>ob_claimed_by := None, ob_claimed_at := None, ob_not_before := t, ob_last_error := Some err\<rparr>)
        (db_outbox db)\<rparr>))
    | None \<Rightarrow> delete_item i)"
    by (cases retry) (auto intro!: delete_item_keeps queue.keepsI outbox_ok_update simp: item_ok_def)
qed

lemma reclaim_expired_ok: "outbox_ok db \<Longrightarrow> outbox_ok (snd (reclaim_expired older now db))"
  unfolding reclaim_expired_def
  by (rule queue.keeps_run, rule queue.keepsI) (auto simp: item_ok_def intro!: outbox_ok_update)

section \<open>What a claim takes\<close>

definition due_items :: "claim_request \<Rightarrow> time \<Rightarrow> db \<Rightarrow> outbox_item list" where
  "due_items req now db = sort_key item_order (filter (claimable (cr_lane req) now) (db_outbox db))"

lemma take_row_simps [simp]:
  "ob_id (take_row w now r) = ob_id r" "ob_not_before (take_row w now r) = ob_not_before r"
  "ob_claimed_by (take_row w now r) = Some w" "ob_claimed_at (take_row w now r) = Some now"
  "ob_effect (take_row w now r) = ob_effect r" "ob_attempts (take_row w now r) = ob_attempts r + 1"
  "ob_dedupe_key (take_row w now r) = ob_dedupe_key r" "ob_lane (take_row w now r) = ob_lane r"
  by (simp_all add: take_row_def)

lemma insort_key_map: "(\<And>x. k (f x) = k x) \<Longrightarrow> insort_key k (f a) (map f xs) = map f (insort_key k a xs)"
  by (induction xs) auto

lemma sort_key_map: "(\<And>x. k (f x) = k x) \<Longrightarrow> sort_key k (map f xs) = map f (sort_key k xs)"
  by (induction xs) (auto simp: insort_key_map)

lemma filter_update_where:
  "(\<And>r. P (f r) = P r) \<Longrightarrow> filter P (update_where P f rows) = map f (filter P rows)"
  by (induction rows) (auto simp: update_where_def)

lemma sort_key_subset:
  assumes "distinct (map ob_id rows)" "sorted (map item_order xs)" "distinct xs" "set xs = set (filter P rows)"
  shows "sort_key item_order (filter P rows) = xs"
proof -
  have inj: "inj_on item_order (set rows)"
    using assms(1) by (auto simp: inj_on_def distinct_map)
  have d: "distinct (filter P rows)" using assms(1) by (auto simp: distinct_map)
  show ?thesis
  proof (rule map_sorted_distinct_set_unique [where f = item_order])
    show "inj_on item_order (set (sort_key item_order (filter P rows)) \<union> set xs)"
      using inj assms(4) by (auto intro: inj_on_subset)
    show "distinct (map item_order (sort_key item_order (filter P rows)))"
      using d inj by (auto simp: distinct_map intro: inj_on_subset)
    show "distinct (map item_order xs)"
      using assms(3,4) inj by (auto simp: distinct_map intro: inj_on_subset)
  qed (use assms in auto)
qed

lemma claim_outbox_eq:
  assumes ok: "outbox_ok db"
  shows "claim_outbox w req now db =
    (Inr (map (take_row w now) (take (cr_limit req) (due_items req now db))),
     db\<lparr>db_outbox := update_where (\<lambda>r. r \<in> set (take (cr_limit req) (due_items req now db))) (take_row w now) (db_outbox db)\<rparr>)"
proof -
  let ?due = "due_items req now db" and ?rows = "db_outbox db"
  let ?t = "take (cr_limit req) ?due"
  let ?P = "\<lambda>r. ob_id r \<in> set (claim_ids req now db)"
  have ids: "claim_ids req now db = map ob_id ?t" by (simp add: claim_ids_def due_items_def)
  have d: "distinct (map ob_id ?rows)" using ok by (simp add: outbox_ok_def)
  have sub: "set ?t \<subseteq> set ?rows" using set_take_subset by (fastforce simp: due_items_def)
  have P: "?P r \<longleftrightarrow> r \<in> set ?t" if "r \<in> set ?rows" for r
    using that sub d unfolding ids by (auto simp: distinct_map dest: inj_onD)
  then have upd: "update_where ?P (take_row w now) ?rows = update_where (\<lambda>r. r \<in> set ?t) (take_row w now) ?rows"
    by (simp add: update_where_def)
  have "distinct ?due" using d by (simp add: due_items_def distinct_map)
  moreover have "sorted (map item_order ?due)" by (simp add: due_items_def)
  moreover have "set ?t = set (filter ?P ?rows)" using P sub by auto
  ultimately have "sort_key item_order (filter ?P ?rows) = ?t"
    by (intro sort_key_subset [OF d]) (auto simp: take_map [symmetric] sorted_wrt_take)
  then have sel: "sort_key item_order (filter ?P (update_where ?P (take_row w now) ?rows)) = map (take_row w now) ?t"
    by (simp add: filter_update_where sort_key_map)
  show ?thesis
  proof (cases "claim_ids req now db = []")
    case True
    then have nil: "?t = []" by (simp add: ids)
    from True show ?thesis unfolding nil by (simp add: claim_outbox_def run_tx_def update_where_none)
  next
    case False
    then show ?thesis using sel upd by (simp add: claim_outbox_def run_tx_def Let_def)
  qed
qed

lemma due_items_mem: "r \<in> set (due_items req now db) \<longleftrightarrow> r \<in> set (db_outbox db) \<and> claimable (cr_lane req) now r"
  by (auto simp: due_items_def)

text \<open>An item left behind is no earlier in the order than an item taken.\<close>

lemma take_sorted_le:
  assumes "sorted (map f xs)" "x \<in> set (take n xs)" "y \<in> set xs" "y \<notin> set (take n xs)"
  shows "f x \<le> f y"
proof -
  have "y \<in> set (drop n xs)" using assms(3,4) by (metis Un_iff append_take_drop_id set_append)
  moreover have "sorted (map f (take n xs) @ map f (drop n xs))"
    using assms(1) by (metis append_take_drop_id map_append)
  ultimately show ?thesis using assms(2) by (auto simp: sorted_append)
qed

section \<open>Who may settle an item\<close>

lemma take_claim_Inr:
  "take_claim w i db = Inr (e, db') \<longleftrightarrow>
     db' = db \<and> (\<exists>r. find (\<lambda>r. ob_id r = i) (db_outbox db) = Some r \<and> ob_claimed_by r = Some w \<and> e = ob_effect r)"
  by (auto simp: take_claim_def split: option.splits)

lemma take_claim_lost:
  assumes "outbox_ok db" "\<not> (\<exists>r \<in> set (db_outbox db). ob_id r = i \<and> ob_claimed_by r = Some w)"
  shows "take_claim w i db = Inl (LeaseLost i)"
  using assms(2) by (auto simp: take_claim_def dest!: find_SomeD split: option.splits)

lemma complete_lost: "take_claim w i db = Inl e \<Longrightarrow> complete_outbox w i a now db = (Inl e, db)"
  by (simp add: complete_outbox_def run_tx_def tx_bind_def)

lemma fail_lost: "take_claim w i db = Inl e \<Longrightarrow> fail_outbox w i err retry db = (Inl e, db)"
  by (simp add: fail_outbox_def run_tx_def tx_bind_def)

lemma complete_removes:
  assumes "complete_outbox w i a now db = (Inr (), db')"
  shows "db_outbox db' = filter (\<lambda>r. ob_id r \<noteq> i) (db_outbox db)"
proof -
  obtain e x y db1 db2 db3 where steps: "take_claim w i db = Inr (e, db1)"
    "(case effect_notification e of None \<Rightarrow> tx_ret () | Some n \<Rightarrow> apply_to_card n a now) db1 = Inr (x, db2)"
    "settle_silence e a now db2 = Inr (y, db3)" "delete_item i db3 = Inr ((), db')"
    using assms by (auto simp: complete_outbox_def tx_bind_Inr_iff)
  have "db1 = db" using steps(1) by (simp add: take_claim_Inr)
  moreover have "db_outbox db2 = db_outbox db1"
    using steps(2) by (cases "effect_notification e") (auto simp: apply_to_card_def dest: update_cardD)
  moreover have "db_outbox db3 = db_outbox db2" using settle_silence_frame [OF steps(3)] by simp
  ultimately show ?thesis using steps(4) by (auto simp: delete_item_def)
qed

lemma complete_effect:
  assumes "complete_outbox w i applied now db = (Inr (), db')"
  shows "db_outbox db' = filter (\<lambda>r. ob_id r \<noteq> i) (db_outbox db) \<and>
    (\<exists>r. find (\<lambda>r. ob_id r = i) (db_outbox db) = Some r \<and> ob_claimed_by r = Some w \<and>
      db_cards db' = (case effect_notification (ob_effect r) of None \<Rightarrow> db_cards db
        | Some c \<Rightarrow> update_where (\<lambda>n. n_id n = c) (apply_row applied now) (db_cards db)))"
proof -
  from assms obtain e x db1 y db2 where 1: "take_claim w i db = Inr (e, db)"
    "(case effect_notification e of None \<Rightarrow> tx_ret () | Some n \<Rightarrow> apply_to_card n applied now) db = Inr (x, db1)"
    "settle_silence e applied now db1 = Inr (y, db2)" "delete_item i db2 = Inr ((), db')"
    by (auto simp: complete_outbox_def tx_bind_Inr_iff take_claim_Inr)
  from 1(1) obtain r where r: "find (\<lambda>r. ob_id r = i) (db_outbox db) = Some r" "ob_claimed_by r = Some w" "e = ob_effect r"
    unfolding take_claim_Inr by blast
  have "db_cards db' = db_cards db1" using 1(4) settle_silence_frame [OF 1(3)] by (auto simp: delete_item_def)
  also have "db_cards db1 = (case effect_notification e of None \<Rightarrow> db_cards db
        | Some c \<Rightarrow> update_where (\<lambda>n. n_id n = c) (apply_row applied now) (db_cards db))"
    using 1(2) by (cases "effect_notification e") (auto simp: apply_to_card_def dest!: update_cardD)
  finally show ?thesis using complete_removes [OF assms] r by blast
qed

section \<open>What enqueueing leaves\<close>

lemma enqueue_outbox:
  assumes "enqueue item at db = Inr (x, db')"
  shows "\<exists>r \<in> set (db_outbox db'). ob_claimed_at r = None \<and> ob_effect r = no_effect item \<and>
      ob_not_before r \<le> no_not_before item"
    "r \<in> set (db_outbox db) \<Longrightarrow> ob_claimed_at r \<noteq> None \<or> effect_notification (ob_effect r) \<noteq> effect_notification (no_effect item)
      \<or> effect_kind (ob_effect r) \<noteq> effect_kind (no_effect item) \<Longrightarrow> r \<in> set (db_outbox db')"
    "length (db_outbox db') \<le> Suc (length (db_outbox db))"
    "db_cards db' = db_cards db" "db_next_card db' = db_next_card db" "db_acks db' = db_acks db"
    "db_alerts db' = db_alerts db" "db_events db' = db_events db" "db_silences db' = db_silences db"
proof -
  let ?P = "same_card_pending (no_effect item)"
  show "\<exists>r \<in> set (db_outbox db'). ob_claimed_at r = None \<and> ob_effect r = no_effect item \<and>
      ob_not_before r \<le> no_not_before item"
  proof (cases "is_coalescable (no_effect item) \<and> effect_notification (no_effect item) \<noteq> None \<and> 0 < affected ?P (db_outbox db)")
    case True
    then obtain r where "r \<in> set (db_outbox db)" "?P r" using affected_0_iff [of ?P "db_outbox db"] by auto
    then have "fold_into item r \<in> set (update_where ?P (fold_into item) (db_outbox db))" "ob_claimed_at r = None"
      by (auto simp: set_update_where same_card_pending_def)
    with True assms show ?thesis by (intro bexI [of _ "fold_into item r"]) (auto simp: enqueue_def)
  next
    case False
    with assms have "insert_item item at db = Inr (x, db')" by (simp add: enqueue_def split: if_splits)
    then show ?thesis by (auto simp: insert_item_def)
  qed
  show "r \<in> set (db_outbox db')" if "r \<in> set (db_outbox db)" "ob_claimed_at r \<noteq> None \<or>
      effect_notification (ob_effect r) \<noteq> effect_notification (no_effect item)
      \<or> effect_kind (ob_effect r) \<noteq> effect_kind (no_effect item)"
  proof -
    have "\<not> ?P r" using that(2) by (auto simp: same_card_pending_def)
    with assms that(1) show ?thesis
      by (auto simp: enqueue_def insert_item_def set_update_where image_iff split: if_splits intro!: bexI [of _ r])
  qed
qed (use assms in \<open>auto simp: enqueue_def insert_item_def split: if_splits\<close>)

end
