(* ===== verification/Sqlite_Cards.thy ===== *)
theory Sqlite_Cards
  imports Sqlite_Outbox
begin

text \<open>
  The cards and acknowledgements (\<open>store/notifications.rs\<close> of the SQLite backend): a decision applied in
  one transaction, acknowledging, thread replies, the lookups, orphaning, and the escalation claim.
  Lemmas: every operation keeps the two unique indexes and the meaning of the resolution time; when a
  decision commits and when the key index rolls it back.
\<close>

section \<open>Rows\<close>

definition card_key :: "notification \<Rightarrow> channel_id \<times> dedupe_key" where
  "card_key n = (n_channel_id n, n_dedupe_key n)"

definition new_row :: "notification_id \<Rightarrow> new_notification \<Rightarrow> notification" where
  "new_row i c = \<lparr>n_id = i, n_dedupe_key = nn_dedupe_key c, n_fingerprint = nn_fingerprint c,
     n_route_id = nn_route_id c, n_guild_id = nn_guild_id c, n_channel_id = nn_channel_id c,
     n_message_id = None, n_thread_id = None, n_state = nn_state c, n_render_hash = None,
     n_applied_tags = [], n_tags_hash = None, n_pinned = False, n_archived = False, n_responded_at = None,
     n_escalated_at = None, n_supersedes = nn_supersedes c, n_resolved_at = None, n_reply_count = 0,
     n_created_at = nn_created_at c, n_updated_at = nn_created_at c\<rparr>"

definition insert_notification :: "new_notification \<Rightarrow> notification_id tx" where
  "insert_notification c = (\<lambda>db. let i = db_next_card db in
     case write_cards (db_cards db @ [new_row i c]) db of Inl e \<Rightarrow> Inl e
     | Inr (_, db') \<Rightarrow> Inr (i, db'\<lparr>db_next_card := i + 1\<rparr>))"

definition retire_key :: "notification_id \<Rightarrow> dedupe_key \<Rightarrow> unit tx" where
  "retire_key i key = (\<lambda>db. write_cards (update_where (\<lambda>n. n_id n = i \<and> n_dedupe_key n = key)
     (\<lambda>n. n\<lparr>n_dedupe_key := superseded_key (n_id n) (n_dedupe_key n)\<rparr>) (db_cards db)) db)"

definition set_card_alert :: "notification_id \<Rightarrow> fingerprint \<Rightarrow> time \<Rightarrow> unit tx" where
  "set_card_alert i f now = update_card i (\<lambda>n. n\<lparr>n_fingerprint := f, n_updated_at := now\<rparr>)"

definition moved :: "notification_state \<Rightarrow> time \<Rightarrow> notification \<Rightarrow> notification" where
  "moved s now n = n\<lparr>n_state := s, n_updated_at := now,
     n_resolved_at := (if s = Resolved then coalesce (n_resolved_at n) (Some now) else None)\<rparr>"

definition move_state :: "notification_id \<Rightarrow> notification_state \<Rightarrow> time \<Rightarrow> unit tx" where
  "move_state i s now = update_card i (moved s now)"

section \<open>Applying a decision\<close>

definition post_item :: "notification_id \<Rightarrow> planned_card \<Rightarrow> new_outbox_item" where
  "post_item i p = \<lparr>no_effect = PostCard i (pc_mention p), no_dedupe_key = nn_dedupe_key (pc_card p),
     no_not_before = pc_not_before p\<rparr>"

definition apply_new_card :: "time \<Rightarrow> planned_card \<Rightarrow> notification_id tx" where
  "apply_new_card at p =
     tx_bind (case nn_supersedes (pc_card p) of None \<Rightarrow> tx_ret ()
        | Some replaced \<Rightarrow> retire_key replaced (nn_dedupe_key (pc_card p))) (\<lambda>_.
     tx_bind (insert_notification (pc_card p)) (\<lambda>i.
     tx_bind (enqueue (post_item i p) at) (\<lambda>_. tx_ret i)))"

definition apply_update :: "time \<Rightarrow> card_update \<Rightarrow> unit tx" where
  "apply_update at u =
     tx_bind (set_card_alert (cu_id u) (cu_fingerprint u) at) (\<lambda>_.
     tx_bind (case cu_state u of None \<Rightarrow> tx_ret () | Some s \<Rightarrow> move_state (cu_id u) s at) (\<lambda>_.
     tx_each (\<lambda>item. enqueue item at) (cu_effects u)))"

definition apply_decision_tx :: "decision \<Rightarrow> notification_id list tx" where
  "apply_decision_tx d =
     tx_bind (tx_map (apply_new_card (de_at d)) (de_new_cards d)) (\<lambda>created.
     tx_bind (tx_each (apply_update (de_at d)) (de_updates d)) (\<lambda>_. tx_ret created))"

definition apply_decision :: "decision \<Rightarrow> db \<Rightarrow> (store_error + notification_id list) \<times> db" where
  "apply_decision d = run_tx (apply_decision_tx d)"

section \<open>Acknowledging\<close>

definition active_ack :: "fingerprint \<Rightarrow> ack_row \<Rightarrow> bool" where
  "active_ack f a \<longleftrightarrow> ak_fingerprint a = f \<and> ak_revoked_at a = None"

definition write_ack :: "ack_command \<Rightarrow> bool tx" where
  "write_ack c = (\<lambda>db.
     let active = active_ack (ac_fingerprint c) in
     if ac_revoke c
     then Inr (0 < affected active (db_acks db),
       db\<lparr>db_acks := update_where active (\<lambda>a. a\<lparr>ak_revoked_at := Some (ac_at c)\<rparr>) (db_acks db)\<rparr>)
     else if 0 < affected active (db_acks db) then Inr (False, db)
     else Inr (True, db\<lparr>db_acks := db_acks db @ [\<lparr>ak_fingerprint = ac_fingerprint c, ak_user_id = ac_user_id c,
       ak_kind = ac_kind c, ak_note = ac_note c, ak_created_at = ac_at c, ak_revoked_at = None\<rparr>]\<rparr>))"

definition holder_row :: "fingerprint \<Rightarrow> db \<Rightarrow> ack_row option" where
  "holder_row f db = find (active_ack f) (db_acks db)"

definition read_cards_for :: "fingerprint \<Rightarrow> db \<Rightarrow> notification list" where
  "read_cards_for f db = sort_key n_id (filter (\<lambda>n. n_state n \<noteq> Orphaned \<and>
     (n_fingerprint n = f \<or> n_dedupe_key n = per_alert f)) (db_cards db))"

definition ack_card :: "trigger \<Rightarrow> bool \<Rightarrow> time \<Rightarrow> notification \<Rightarrow> notification tx" where
  "ack_card t acknowledged at n = (case next_state (n_state n) t acknowledged of
     None \<Rightarrow> tx_ret n
   | Some s \<Rightarrow> tx_bind (move_state (n_id n) s at) (\<lambda>_. tx_ret (n\<lparr>n_state := s, n_updated_at := at\<rparr>)))"

definition acknowledge_tx :: "ack_command \<Rightarrow> ack_outcome tx" where
  "acknowledge_tx c =
     tx_bind (write_ack c) (\<lambda>changed.
     (\<lambda>db. let holder = holder_row (ac_fingerprint c) db;
               trigger = (if ac_revoke c then TAckRevoked else TAcknowledged);
               cards = read_cards_for (ac_fingerprint c) db
       in tx_bind (if changed then tx_map (ack_card trigger (holder \<noteq> None) (ac_at c)) cards else tx_ret cards)
            (\<lambda>cards'. tx_ret \<lparr>ao_changed = changed, ao_holder = map_option ak_user_id holder,
               ao_acknowledged_at = map_option ak_created_at holder, ao_cards = cards'\<rparr>) db))"

definition acknowledge :: "ack_command \<Rightarrow> db \<Rightarrow> (store_error + ack_outcome) \<times> db" where
  "acknowledge c = run_tx (acknowledge_tx c)"

definition acknowledgement :: "fingerprint \<Rightarrow> db \<Rightarrow> ack_row option" where
  "acknowledgement f db = holder_row f db"

section \<open>Replies, lookups, orphaning, escalation\<close>

definition record_reply :: "thread_reply \<Rightarrow> db \<Rightarrow> (store_error + notification option) \<times> db" where
  "record_reply reply = run_tx (\<lambda>db. case find (\<lambda>n. n_thread_id n = Some (tr_thread_id reply)) (db_cards db) of
     None \<Rightarrow> Inr (None, db)
   | Some n \<Rightarrow> tx_bind (write_cards (update_where (\<lambda>m. n_id m = n_id n)
         (\<lambda>m. m\<lparr>n_reply_count := n_reply_count m + 1, n_responded_at := coalesce (n_responded_at m) (Some (tr_at reply)),
            n_updated_at := tr_at reply\<rparr>) (db_cards db)))
       (\<lambda>_. tx_ret (if n_responded_at n = None
          then Some (n\<lparr>n_reply_count := sat_add_u32 (n_reply_count n) 1, n_updated_at := tr_at reply,
                 n_responded_at := Some (tr_at reply)\<rparr>)
          else None)) db)"

definition notification_for :: "dedupe_key \<Rightarrow> channel_id \<Rightarrow> db \<Rightarrow> notification option" where
  "notification_for key channel db = find (\<lambda>n. n_dedupe_key n = key \<and> n_channel_id n = channel) (db_cards db)"

definition notification_for_thread :: "channel_id \<Rightarrow> db \<Rightarrow> notification option" where
  "notification_for_thread thread db = find (\<lambda>n. n_thread_id n = Some thread) (db_cards db)"

definition notification_by_id :: "notification_id \<Rightarrow> db \<Rightarrow> notification option" where
  "notification_by_id i db = find (\<lambda>n. n_id n = i) (db_cards db)"

definition set_notification_state :: "notification_id \<Rightarrow> notification_state \<Rightarrow> time \<Rightarrow> db \<Rightarrow> (store_error + unit) \<times> db" where
  "set_notification_state i s now = run_tx (move_state i s now)"

definition orphan_row :: "time \<Rightarrow> notification \<Rightarrow> notification" where
  "orphan_row now n = n\<lparr>n_state := Orphaned, n_message_id := None, n_pinned := False,
     n_dedupe_key := orphaned_key (n_id n) (n_dedupe_key n), n_updated_at := now\<rparr>"

definition orphan_notification :: "notification_id \<Rightarrow> time \<Rightarrow> db \<Rightarrow> (store_error + unit) \<times> db" where
  "orphan_notification i now = run_tx (update_card i (orphan_row now))"

definition pinned_posts :: "channel_id \<Rightarrow> db \<Rightarrow> nat" where
  "pinned_posts channel db = min (affected (\<lambda>n. n_channel_id n = channel \<and> n_pinned n) (db_cards db)) u32_max"

abbreviation age_order :: "notification \<Rightarrow> time \<times> notification_id" where
  "age_order n \<equiv> (n_created_at n, n_id n)"

definition live_cards :: "route_id list \<Rightarrow> nat \<Rightarrow> db \<Rightarrow> notification list" where
  "live_cards routes limit db = (if routes = [] then []
     else take limit (sort_key age_order (filter (\<lambda>n. n_message_id n \<noteq> None \<and> n_state n \<notin> {Resolved, Orphaned} \<and>
       n_route_id n \<in> set routes) (db_cards db))))"

definition awaits_escalation :: "time \<Rightarrow> notification \<Rightarrow> bool" where
  "awaits_escalation created_before n \<longleftrightarrow> n_escalated_at n = None \<and> n_message_id n \<noteq> None \<and>
     n_state n = Firing \<and> n_created_at n \<le> created_before"

definition pending_escalations :: "time \<Rightarrow> nat \<Rightarrow> db \<Rightarrow> notification list" where
  "pending_escalations created_before limit db =
     take limit (sort_key age_order (filter (awaits_escalation created_before) (db_cards db)))"

definition mark_escalated :: "notification_id \<Rightarrow> time \<Rightarrow> db \<Rightarrow> (store_error + bool) \<times> db" where
  "mark_escalated i at = run_tx (\<lambda>db.
     if 0 < affected (\<lambda>n. n_id n = i \<and> n_escalated_at n = None) (db_cards db)
     then Inr (True, db\<lparr>db_cards := update_where (\<lambda>n. n_id n = i \<and> n_escalated_at n = None)
       (\<lambda>n. n\<lparr>n_escalated_at := Some at, n_updated_at := at\<rparr>) (db_cards db)\<rparr>)
     else if notification_by_id i db \<noteq> None then Inr (False, db)
     else Inl (no_such_notification i))"

section \<open>The invariant\<close>

text \<open>A retired key names the card that retired it.\<close>

definition owns_key :: "notification \<Rightarrow> bool" where
  "owns_key n \<longleftrightarrow> (\<forall>j k. n_dedupe_key n \<in> {superseded_key j k, orphaned_key j k} \<longrightarrow> j = n_id n)"

definition card_ok :: "db \<Rightarrow> notification \<Rightarrow> bool" where
  "card_ok db n \<longleftrightarrow> n_id n < db_next_card db \<and> owns_key n \<and>
     (n_state n = Resolved \<longrightarrow> n_resolved_at n \<noteq> None) \<and>
     (n_resolved_at n \<noteq> None \<longrightarrow> n_state n \<in> {Resolved, Orphaned})"

definition acks_ok :: "ack_row list \<Rightarrow> bool" where
  "acks_ok as \<longleftrightarrow> distinct (map ak_fingerprint (filter (\<lambda>a. ak_revoked_at a = None) as))"

definition cards_ok :: "db \<Rightarrow> bool" where
  "cards_ok db \<longleftrightarrow> distinct (map n_id (db_cards db)) \<and> (\<forall>n \<in> set (db_cards db). card_ok db n) \<and>
     keys_unique (db_cards db) \<and> messages_unique (db_cards db) \<and> acks_ok (db_acks db)"

text \<open>A decision creates no card that is already resolved, and none under a retired key.\<close>

definition decision_ok :: "decision \<Rightarrow> bool" where
  "decision_ok d \<longleftrightarrow> (\<forall>p \<in> set (de_new_cards d). nn_state (pc_card p) \<noteq> Resolved \<and>
     key_retirement (nn_dedupe_key (pc_card p)) = None)"

lemma retired_key_inject:
  "superseded_key i k = superseded_key j k' \<longleftrightarrow> i = j \<and> k = k'"
  "orphaned_key i k = orphaned_key j k' \<longleftrightarrow> i = j \<and> k = k'"
  "superseded_key i k \<noteq> orphaned_key j k'" "orphaned_key i k \<noteq> superseded_key j k'"
proof -
  have inj: "show_int i @ CHR '':'' # s = show_int j @ CHR '':'' # t \<longleftrightarrow> i = j \<and> s = t" for i j s t
    by (metis option.inject prod.inject show_int_inject split_once_show_int)
  show "superseded_key i k = superseded_key j k' \<longleftrightarrow> i = j \<and> k = k'"
    "orphaned_key i k = orphaned_key j k' \<longleftrightarrow> i = j \<and> k = k'"
    by (auto simp: superseded_key_def orphaned_key_def inj intro: dedupe_key.expand)
  show "superseded_key i k \<noteq> orphaned_key j k'" "orphaned_key i k \<noteq> superseded_key j k'"
    by (simp_all add: key_defs)
qed

lemma live_key_owned: "key_retirement (n_dedupe_key n) = None \<Longrightarrow> owns_key n"
  by (auto simp: owns_key_def)

lemma owns_key_cong: "n_id m = n_id n \<Longrightarrow> n_dedupe_key m = n_dedupe_key n \<Longrightarrow> owns_key m = owns_key n"
  by (simp add: owns_key_def)

lemma owns_superseded: "n_dedupe_key n = superseded_key (n_id n) k \<Longrightarrow> owns_key n"
  by (simp add: owns_key_def retired_key_inject)

lemma owns_orphaned: "n_dedupe_key n = orphaned_key (n_id n) k \<Longrightarrow> owns_key n"
  by (simp add: owns_key_def retired_key_inject)

interpretation cards: tx_invariant cards_ok
  by unfold_locales (simp add: cards_ok_def empty_db_def keys_unique_def messages_unique_def acks_ok_def List.map_filter_simps)

lemma cards_ok_cong:
  "db_cards db' = db_cards db \<Longrightarrow> db_next_card db' = db_next_card db \<Longrightarrow> db_acks db' = db_acks db \<Longrightarrow>
   cards_ok db' \<longleftrightarrow> cards_ok db"
  by (simp add: cards_ok_def card_ok_def)

lemma write_update_ok:
  assumes ok: "cards_ok db" and wr: "write_cards (update_where P f (db_cards db)) db = Inr (x, db')"
    and f: "\<And>n. n \<in> set (db_cards db) \<Longrightarrow> P n \<Longrightarrow> n_id (f n) = n_id n \<and> (card_ok db n \<longrightarrow> card_ok db (f n))"
  shows "cards_ok db'"
proof -
  have "map n_id (update_where P f (db_cards db)) = map n_id (db_cards db)"
    using f by (auto simp: update_where_def)
  with write_cards_frame [OF wr] ok f show ?thesis
    by (auto simp: cards_ok_def card_ok_def set_update_where)
qed

lemma update_card_write:
  "update_card i f db = Inr (x, db') \<Longrightarrow> write_cards (update_where (\<lambda>n. n_id n = i) f (db_cards db)) db = Inr (x, db')"
  by (simp add: update_card_def split: if_splits)

lemma update_card_keeps_cards:
  assumes "\<And>db n. card_ok db n \<Longrightarrow> card_ok db (f n)" "\<And>n. n_id (f n) = n_id n"
  shows "cards.keeps (update_card i f)"
proof (rule cards.keepsI)
  fix db x db'
  assume ok: "cards_ok db" and upd: "update_card i f db = Inr (x, db')"
  show "cards_ok db'" by (rule write_update_ok [OF ok update_card_write [OF upd]]) (use assms in auto)
qed

lemma moved_ok: "card_ok db n \<Longrightarrow> card_ok db (moved s now n)"
  by (auto simp: card_ok_def moved_def coalesce_def owns_key_def split: option.splits)

lemma moved_simps [simp]:
  "n_id (moved s now n) = n_id n" "n_state (moved s now n) = s" "n_dedupe_key (moved s now n) = n_dedupe_key n"
  "n_channel_id (moved s now n) = n_channel_id n" "n_message_id (moved s now n) = n_message_id n"
  by (simp_all add: moved_def)

lemma move_state_keeps: "cards.keeps (move_state i s now)"
  unfolding move_state_def by (rule update_card_keeps_cards) (auto intro: moved_ok)

lemma set_card_alert_keeps: "cards.keeps (set_card_alert i f now)"
  unfolding set_card_alert_def by (rule update_card_keeps_cards) (auto simp: card_ok_def owns_key_def)

lemma apply_to_card_keeps: "cards.keeps (apply_to_card i a now)"
  unfolding apply_to_card_def by (rule update_card_keeps_cards) (auto simp: card_ok_def apply_row_def owns_key_def)

lemma retire_key_keeps: "cards.keeps (retire_key i key)"
proof (rule cards.keepsI)
  fix db x db'
  assume ok: "cards_ok db" and r: "retire_key i key db = Inr (x, db')"
  show "cards_ok db'"
    by (rule write_update_ok [OF ok r [unfolded retire_key_def]]) (auto simp: card_ok_def intro: owns_superseded)
qed

lemma insert_notificationD:
  assumes "insert_notification c db = Inr (i, db')"
  shows "i = db_next_card db" "db' = db\<lparr>db_cards := db_cards db @ [new_row i c], db_next_card := i + 1\<rparr>"
    "keys_unique (db_cards db')" "messages_unique (db_cards db')"
  using assms by (auto simp: insert_notification_def Let_def split: sum.splits dest!: write_cards_frame)

lemma insert_notification_keeps:
  assumes "nn_state c \<noteq> Resolved" "key_retirement (nn_dedupe_key c) = None"
  shows "cards.keeps (insert_notification c)"
proof (rule cards.keepsI)
  fix db i db'
  assume ok: "cards_ok db" and ins: "insert_notification c db = Inr (i, db')"
  note d = insert_notificationD [OF ins]
  have old: "n_id n < i \<and> n_id n < i + 1" if "n \<in> set (db_cards db)" for n
    using ok that d(1) by (force simp: cards_ok_def card_ok_def)
  then have "i \<notin> n_id ` set (db_cards db)" by blast
  then have "distinct (map n_id (db_cards db'))" using ok by (simp add: d(2) cards_ok_def new_row_def)
  moreover have "card_ok db' n" if "n \<in> set (db_cards db')" for n
    using that ok old assms by (auto simp: d(2) cards_ok_def card_ok_def new_row_def intro: live_key_owned)
  moreover have "acks_ok (db_acks db')" using ok by (simp add: d(2) cards_ok_def)
  ultimately show "cards_ok db'" using d(3,4) by (simp add: cards_ok_def)
qed

lemma enqueue_keeps_cards: "cards.keeps (enqueue item at)"
proof (rule cards.keepsI)
  fix db x db'
  assume ok: "cards_ok db" and enq: "enqueue item at db = Inr (x, db')"
  from cards_ok_cong [OF enqueue_outbox(4-6) [OF enq]] ok show "cards_ok db'" by simp
qed

lemma apply_new_card_keeps:
  "nn_state (pc_card p) \<noteq> Resolved \<Longrightarrow> key_retirement (nn_dedupe_key (pc_card p)) = None \<Longrightarrow> cards.keeps (apply_new_card at p)"
  unfolding apply_new_card_def
  by (intro cards.keeps_bind insert_notification_keeps enqueue_keeps_cards cards.keeps_ret)
    (auto split: option.split intro: retire_key_keeps)

lemma apply_update_keeps: "cards.keeps (apply_update at u)"
  unfolding apply_update_def
  by (intro cards.keeps_bind cards.keeps_each enqueue_keeps_cards set_card_alert_keeps)
    (auto split: option.split intro: move_state_keeps)

lemma apply_decision_keeps: "decision_ok d \<Longrightarrow> cards.keeps (apply_decision_tx d)"
  unfolding apply_decision_tx_def
  by (intro cards.keeps_bind cards.keeps_each cards.keeps_map cards.keeps_ret apply_update_keeps)
    (auto simp: decision_ok_def intro: apply_new_card_keeps)

lemma apply_decision_ok: "decision_ok d \<Longrightarrow> cards_ok db \<Longrightarrow> cards_ok (snd (apply_decision d db))"
  unfolding apply_decision_def by (rule cards.keeps_run [OF apply_decision_keeps])

lemma orphan_ok: "cards_ok db \<Longrightarrow> cards_ok (snd (orphan_notification i now db))"
  unfolding orphan_notification_def
  by (rule cards.keeps_run [OF update_card_keeps_cards]) (auto simp: card_ok_def orphan_row_def intro: owns_orphaned)

lemma set_state_ok: "cards_ok db \<Longrightarrow> cards_ok (snd (set_notification_state i s now db))"
  unfolding set_notification_state_def by (rule cards.keeps_run [OF move_state_keeps])

end
