(* ===== verification/Cards_Facts.thy ===== *)
theory Cards_Facts
  imports Sqlite_Cards
begin

text \<open>
  Facts about the card operations: the remaining ones keep the invariant, a key names at most one card,
  when a decision's new cards commit and when the key index rejects them, what acknowledging and
  escalating twice does, and what orphaning frees.
\<close>

section \<open>A key names at most one card\<close>

lemma notification_for_iff:
  assumes "keys_unique (db_cards db)"
  shows "notification_for k ch db = Some n \<longleftrightarrow> n \<in> set (db_cards db) \<and> card_key n = (ch, k)"
proof
  show "notification_for k ch db = Some n \<Longrightarrow> n \<in> set (db_cards db) \<and> card_key n = (ch, k)"
    by (auto simp: notification_for_def card_key_def dest: find_SomeD)
next
  assume n: "n \<in> set (db_cards db) \<and> card_key n = (ch, k)"
  then obtain m where m: "notification_for k ch db = Some m"
    by (cases "notification_for k ch db") (auto simp: notification_for_def find_None_iff card_key_def)
  then have "m \<in> set (db_cards db) \<and> card_key m = (ch, k)"
    by (auto simp: notification_for_def card_key_def dest: find_SomeD)
  with n assms have "m = n"
    by (auto simp: keys_unique_def card_key_def distinct_map dest: inj_onD)
  with m show "notification_for k ch db = Some n" by simp
qed

lemma notification_for_None_iff:
  "notification_for k ch db = None \<longleftrightarrow> (\<forall>n \<in> set (db_cards db). card_key n \<noteq> (ch, k))"
  by (auto simp: notification_for_def find_None_iff card_key_def)

lemma find_by_id:
  assumes "distinct (map n_id ns)" "n \<in> set ns"
  shows "find (\<lambda>m. n_id m = n_id n) ns = Some n"
  using assms by (induction ns) auto

lemma keys_uniqueD: "keys_unique ns \<Longrightarrow> m \<in> set ns \<Longrightarrow> n \<in> set ns \<Longrightarrow> card_key m = card_key n \<Longrightarrow> m = n"
  by (auto simp: keys_unique_def card_key_def distinct_map dest: inj_onD)

lemma keys_unique_eq: "keys_unique ns \<longleftrightarrow> distinct (map card_key ns)"
proof -
  have "card_key = (\<lambda>n. (n_channel_id n, n_dedupe_key n))" by (simp add: card_key_def fun_eq_iff)
  then show ?thesis by (simp add: keys_unique_def)
qed

section \<open>Rewriting one card's key\<close>

text \<open>An update of one row whose new key no other row holds breaks no index.\<close>

lemma update_one_key:
  assumes ids: "distinct (map n_id ns)" and keys: "keys_unique ns"
    and f: "\<And>n. n_id (f n) = n_id n"
    and fresh: "\<And>n m. n \<in> set ns \<Longrightarrow> m \<in> set ns \<Longrightarrow> P n \<Longrightarrow> m \<noteq> n \<Longrightarrow> card_key (f n) \<noteq> card_key m"
    and one: "\<And>m n. m \<in> set ns \<Longrightarrow> n \<in> set ns \<Longrightarrow> P m \<Longrightarrow> P n \<Longrightarrow> m = n"
  shows "keys_unique (update_where P f ns)"
proof -
  have dns: "distinct ns" and inj: "inj_on card_key (set ns)"
    using ids keys by (auto simp: keys_unique_eq distinct_map)
  have "inj_on (\<lambda>n. card_key (if P n then f n else n)) (set ns)"
  proof (rule inj_onI)
    fix m n
    assume mem: "m \<in> set ns" "n \<in> set ns" and eq: "card_key (if P m then f m else m) = card_key (if P n then f n else n)"
    show "m = n"
    proof (rule ccontr)
      assume ne: "m \<noteq> n"
      then have "\<not> (P m \<and> P n)" using one mem by blast
      with eq ne mem fresh [of m n] fresh [of n m] inj show False
        by (auto split: if_splits dest: inj_onD)
    qed
  qed
  then show ?thesis using dns by (simp add: keys_unique_eq update_where_def distinct_map o_def)
qed

lemma messages_update:
  assumes "messages_unique ns" "\<And>n. P n \<Longrightarrow> n_message_id (f n) = n_message_id n"
  shows "messages_unique (update_where P f ns)"
proof -
  have "List.map_filter n_message_id (update_where P f ns) = List.map_filter n_message_id ns" for ns
    using assms(2) by (induction ns) (auto simp: update_where_def List.map_filter_simps split: option.splits)
  then show ?thesis using assms(1) by (simp add: messages_unique_def)
qed

definition retired :: "notification_id \<Rightarrow> dedupe_key \<Rightarrow> notification list \<Rightarrow> notification list" where
  "retired i key = update_where (\<lambda>n. n_id n = i \<and> n_dedupe_key n = key)
     (\<lambda>n. n\<lparr>n_dedupe_key := superseded_key (n_id n) (n_dedupe_key n)\<rparr>)"

lemma owner_of_superseded:
  "cards_ok db \<Longrightarrow> m \<in> set (db_cards db) \<Longrightarrow> n_dedupe_key m = superseded_key i k \<Longrightarrow> n_id m = i"
  by (auto simp: cards_ok_def card_ok_def owns_key_def)

lemma owner_of_orphaned:
  "cards_ok db \<Longrightarrow> m \<in> set (db_cards db) \<Longrightarrow> n_dedupe_key m = orphaned_key i k \<Longrightarrow> n_id m = i"
  by (auto simp: cards_ok_def card_ok_def owns_key_def)

lemma same_id: "cards_ok db \<Longrightarrow> m \<in> set (db_cards db) \<Longrightarrow> n \<in> set (db_cards db) \<Longrightarrow> n_id m = n_id n \<Longrightarrow> m = n"
  by (auto simp: cards_ok_def distinct_map dest: inj_onD)

lemma retire_key_commits:
  assumes ok: "cards_ok db"
  shows "retire_key i key db = Inr ((), db\<lparr>db_cards := retired i key (db_cards db)\<rparr>)"
proof -
  have "keys_unique (retired i key (db_cards db))"
    unfolding retired_def
  proof (rule update_one_key)
    fix n m
    assume "n \<in> set (db_cards db)" "m \<in> set (db_cards db)" "m \<noteq> n"
    with ok have "n_id m \<noteq> n_id n" using same_id by blast
    with owner_of_superseded [OF ok \<open>m \<in> set (db_cards db)\<close>, of "n_id n" "n_dedupe_key n"]
    show "card_key (n\<lparr>n_dedupe_key := superseded_key (n_id n) (n_dedupe_key n)\<rparr>) \<noteq> card_key m"
      by (auto simp: card_key_def)
  qed (use ok in \<open>auto simp: cards_ok_def intro: same_id [OF ok]\<close>)
  moreover have "messages_unique (retired i key (db_cards db))"
    unfolding retired_def by (rule messages_update) (use ok in \<open>auto simp: cards_ok_def\<close>)
  ultimately show ?thesis by (simp add: retire_key_def write_cards_def retired_def)
qed

lemma orphan_commits:
  assumes ok: "cards_ok db" and n: "n \<in> set (db_cards db)" "n_id n = i"
  shows "orphan_notification i now db =
    (Inr (), db\<lparr>db_cards := update_where (\<lambda>n. n_id n = i) (orphan_row now) (db_cards db)\<rparr>)"
proof -
  let ?ns = "update_where (\<lambda>n. n_id n = i) (orphan_row now) (db_cards db)"
  have "keys_unique ?ns"
  proof (rule update_one_key)
    fix n m
    assume "n \<in> set (db_cards db)" "m \<in> set (db_cards db)" "m \<noteq> n"
    with ok have "n_id m \<noteq> n_id n" using same_id by blast
    with owner_of_orphaned [OF ok \<open>m \<in> set (db_cards db)\<close>, of "n_id n" "n_dedupe_key n"]
    show "card_key (orphan_row now n) \<noteq> card_key m"
      by (auto simp: card_key_def orphan_row_def)
  qed (use ok in \<open>auto simp: cards_ok_def orphan_row_def intro: same_id [OF ok]\<close>)
  moreover have "messages_unique ?ns"
  proof -
    have "set (List.map_filter n_message_id (update_where (\<lambda>n. n_id n = i) (orphan_row now) ns)) \<subseteq>
        set (List.map_filter n_message_id ns)" for ns
      by (induction ns) (auto simp: update_where_def List.map_filter_simps orphan_row_def split: option.splits)
    moreover have "distinct (List.map_filter n_message_id ns) \<Longrightarrow>
        distinct (List.map_filter n_message_id (update_where (\<lambda>n. n_id n = i) (orphan_row now) ns))" for ns
      by (induction ns)
        (use calculation in \<open>auto simp: update_where_def List.map_filter_simps orphan_row_def split: option.splits\<close>)
    ultimately show ?thesis using ok by (simp add: messages_unique_def cards_ok_def)
  qed
  moreover have "affected (\<lambda>n. n_id n = i) (db_cards db) \<noteq> 0"
    using n unfolding affected_0_iff by blast
  ultimately show ?thesis
    by (simp add: orphan_notification_def run_tx_def update_card_def write_cards_def)
qed

section \<open>New cards commit\<close>

definition planned_key :: "planned_card \<Rightarrow> channel_id \<times> dedupe_key" where
  "planned_key p = (nn_channel_id (pc_card p), nn_dedupe_key (pc_card p))"

text \<open>
  A planned card fits the database when its key is free, or held by the very card it replaces; a
  replaced card that holds another key must not hold this one elsewhere.
\<close>

definition fits :: "notification list \<Rightarrow> planned_card \<Rightarrow> bool" where
  "fits ns p \<longleftrightarrow> (case nn_supersedes (pc_card p) of
     None \<Rightarrow> planned_key p \<notin> card_key ` set ns
   | Some s \<Rightarrow> (\<forall>n \<in> set ns. (card_key n = planned_key p \<longrightarrow> n_id n = s) \<and>
       (n_id n = s \<longrightarrow> n_dedupe_key n = nn_dedupe_key (pc_card p) \<longrightarrow> card_key n = planned_key p)))"

definition after_new :: "planned_card \<Rightarrow> db \<Rightarrow> notification list" where
  "after_new p db = (case nn_supersedes (pc_card p) of None \<Rightarrow> db_cards db
     | Some s \<Rightarrow> retired s (nn_dedupe_key (pc_card p)) (db_cards db)) @ [new_row (db_next_card db) (pc_card p)]"

lemma card_key_new_row [simp]: "card_key (new_row i (pc_card p)) = planned_key p"
  by (simp add: card_key_def new_row_def planned_key_def)

lemma messages_snoc: "messages_unique (ns @ [new_row i c]) \<longleftrightarrow> messages_unique ns"
  by (simp add: messages_unique_def List.map_filter_def new_row_def)

lemma enqueue_total: "\<exists>db'. enqueue item at db = Inr ((), db')"
  by (auto simp: enqueue_def insert_item_def)

lemma insert_commits:
  assumes "messages_unique (db_cards db)" "keys_unique (db_cards db)"
  shows "insert_notification (pc_card p) db =
    (if planned_key p \<in> card_key ` set (db_cards db) then Inl (Conflict KEY_INDEX)
     else Inr (db_next_card db, db\<lparr>db_cards := db_cards db @ [new_row (db_next_card db) (pc_card p)],
       db_next_card := db_next_card db + 1\<rparr>))"
  using assms by (auto simp: insert_notification_def write_cards_def messages_snoc keys_unique_eq Let_def)

lemma apply_new_card_commits:
  assumes ok: "cards_ok db" and fit: "fits (db_cards db) p"
    and live: "key_retirement (nn_dedupe_key (pc_card p)) = None"
  shows "\<exists>db'. apply_new_card at p db = Inr (db_next_card db, db') \<and> db_cards db' = after_new p db \<and>
    db_next_card db' = db_next_card db + 1"
proof -
  define db1 where "db1 = (case nn_supersedes (pc_card p) of None \<Rightarrow> db
     | Some s \<Rightarrow> db\<lparr>db_cards := retired s (nn_dedupe_key (pc_card p)) (db_cards db)\<rparr>)"
  have step1: "(case nn_supersedes (pc_card p) of None \<Rightarrow> tx_ret ()
      | Some s \<Rightarrow> retire_key s (nn_dedupe_key (pc_card p))) db = Inr ((), db1)"
    using retire_key_commits [OF ok] by (auto simp: db1_def tx_ret_def split: option.splits)
  have ok1: "cards_ok db1"
    using step1 ok cards.keepsD [OF retire_key_keeps ok] by (auto simp: db1_def split: option.splits)
  have next1: "db_next_card db1 = db_next_card db" by (simp add: db1_def split: option.splits)
  have free: "planned_key p \<notin> card_key ` set (db_cards db1)"
  proof (cases "nn_supersedes (pc_card p)")
    case None
    with fit show ?thesis by (simp add: db1_def fits_def)
  next
    case (Some s)
    show ?thesis
    proof
      assume "planned_key p \<in> card_key ` set (db_cards db1)"
      then obtain n where n: "n \<in> set (db_cards db)"
        and eq: "planned_key p = card_key (if n_id n = s \<and> n_dedupe_key n = nn_dedupe_key (pc_card p)
          then n\<lparr>n_dedupe_key := superseded_key (n_id n) (n_dedupe_key n)\<rparr> else n)"
        using Some by (auto simp: db1_def retired_def set_update_where)
      show False
      proof (cases "n_id n = s \<and> n_dedupe_key n = nn_dedupe_key (pc_card p)")
        case True
        with eq have "nn_dedupe_key (pc_card p) = superseded_key (n_id n) (n_dedupe_key n)"
          by (simp add: planned_key_def card_key_def)
        with live show False by simp
      next
        case False
        with eq have "card_key n = planned_key p" by auto
        with fit Some n have "n_id n = s" by (simp add: fits_def)
        moreover have "n_dedupe_key n = nn_dedupe_key (pc_card p)"
          using \<open>card_key n = planned_key p\<close> by (simp add: card_key_def planned_key_def)
        ultimately show False using False by simp
      qed
    qed
  qed
  have "messages_unique (db_cards db1)" "keys_unique (db_cards db1)"
    using ok1 by (simp_all add: cards_ok_def)
  note step2 = insert_commits [OF this, of p]
  define db2 where "db2 = db1\<lparr>db_cards := db_cards db1 @ [new_row (db_next_card db1) (pc_card p)],
       db_next_card := db_next_card db1 + 1\<rparr>"
  obtain db3 where step3: "enqueue (post_item (db_next_card db) p) at db2 = Inr ((), db3)"
    using enqueue_total by blast
  have "apply_new_card at p db = Inr (db_next_card db, db3)"
    using step1 step2 step3 free next1
    by (simp add: apply_new_card_def tx_bind_def db2_def tx_ret_def)
  moreover have "db_cards db3 = after_new p db"
    using enqueue_outbox(4) [OF step3] next1 by (auto simp: db2_def after_new_def db1_def split: option.splits)
  moreover have "db_next_card db3 = db_next_card db + 1"
    using enqueue_outbox(5) [OF step3] next1 by (simp add: db2_def)
  ultimately show ?thesis by blast
qed

lemma fits_after:
  assumes "fits (db_cards db) p" "fits (db_cards db) q" "planned_key p \<noteq> planned_key q" "cards_ok db"
    "key_retirement (nn_dedupe_key (pc_card q)) = None"
    "\<forall>s. nn_supersedes (pc_card q) = Some s \<longrightarrow> s < db_next_card db"
  shows "fits (after_new p db) q"
proof -
  let ?row = "new_row (db_next_card db) (pc_card p)"
  have mem: "n \<in> set (after_new p db) \<Longrightarrow> n = ?row \<or> n \<in> set (db_cards db) \<or>
      (\<exists>m \<in> set (db_cards db). \<exists>s. nn_supersedes (pc_card p) = Some s \<and> n_id m = s \<and>
        n_dedupe_key m = nn_dedupe_key (pc_card p) \<and> n = m\<lparr>n_dedupe_key := superseded_key (n_id m) (n_dedupe_key m)\<rparr>)" for n
    by (auto simp: after_new_def retired_def set_update_where split: option.splits if_splits)
  have notsup: "superseded_key i k \<noteq> nn_dedupe_key (pc_card q)" for i k
    using assms(5) by (metis option.distinct(1) retirement_superseded)
  have id: "n_id ?row = db_next_card db" by (simp add: new_row_def)
  show ?thesis
  proof (cases "nn_supersedes (pc_card q)")
    case None
    then have free: "planned_key q \<notin> card_key ` set (db_cards db)" using assms(2) by (simp add: fits_def)
    have "card_key n \<noteq> planned_key q" if "n \<in> set (after_new p db)" for n
      using mem [OF that]
    proof (elim disjE)
      assume "n \<in> set (db_cards db)"
      with free show ?thesis by (metis imageI)
    qed (use assms(3) notsup in \<open>auto simp: card_key_def [of "_ \<lparr>n_dedupe_key := _\<rparr>"] planned_key_def [of q]\<close>)
    with None show ?thesis by (force simp: fits_def)
  next
    case (Some s)
    then have fit: "\<forall>n \<in> set (db_cards db). (card_key n = planned_key q \<longrightarrow> n_id n = s) \<and>
       (n_id n = s \<longrightarrow> n_dedupe_key n = nn_dedupe_key (pc_card q) \<longrightarrow> card_key n = planned_key q)"
      and lt: "s < db_next_card db" using assms(2,6) by (simp_all add: fits_def)
    have "(card_key n = planned_key q \<longrightarrow> n_id n = s) \<and>
       (n_id n = s \<longrightarrow> n_dedupe_key n = nn_dedupe_key (pc_card q) \<longrightarrow> card_key n = planned_key q)"
      if "n \<in> set (after_new p db)" for n
      using mem [OF that]
    proof (elim disjE)
      assume n: "n = ?row"
      then have "n_id n \<noteq> s" using lt id by simp
      moreover have "card_key n \<noteq> planned_key q" using n assms(3) by simp
      ultimately show ?thesis by simp
    next
      assume "n \<in> set (db_cards db)"
      with fit show ?thesis by blast
    next
      assume "\<exists>m \<in> set (db_cards db). \<exists>s. nn_supersedes (pc_card p) = Some s \<and> n_id m = s \<and>
        n_dedupe_key m = nn_dedupe_key (pc_card p) \<and> n = m\<lparr>n_dedupe_key := superseded_key (n_id m) (n_dedupe_key m)\<rparr>"
      then obtain m where n: "n = m\<lparr>n_dedupe_key := superseded_key (n_id m) (n_dedupe_key m)\<rparr>" by blast
      then have "n_dedupe_key n \<noteq> nn_dedupe_key (pc_card q)" using notsup by simp
      then show ?thesis by (auto simp: card_key_def planned_key_def)
    qed
    with Some show ?thesis by (simp add: fits_def)
  qed
qed

lemma ids_update: "(\<And>n. n_id (f n) = n_id n) \<Longrightarrow> n_id ` set (update_where P f ns) = n_id ` set ns"
  by (metis image_set map_update_where)

definition planned_ok :: "planned_card \<Rightarrow> bool" where
  "planned_ok p \<longleftrightarrow> nn_state (pc_card p) \<noteq> Resolved \<and> key_retirement (nn_dedupe_key (pc_card p)) = None"

lemma decision_ok_iff: "decision_ok d \<longleftrightarrow> list_all planned_ok (de_new_cards d)"
  by (auto simp: decision_ok_def planned_ok_def list_all_iff)

definition supersedes_known :: "db \<Rightarrow> planned_card \<Rightarrow> bool" where
  "supersedes_known db p \<longleftrightarrow> (\<forall>s. nn_supersedes (pc_card p) = Some s \<longrightarrow> s < db_next_card db)"

lemma new_cards_commit:
  assumes "cards_ok db" "list_all planned_ok ps" "distinct (map planned_key ps)"
    "\<forall>p \<in> set ps. fits (db_cards db) p \<and> supersedes_known db p"
  shows "\<exists>ids db'. tx_map (apply_new_card at) ps db = Inr (ids, db') \<and> length ids = length ps \<and>
    n_id ` set (db_cards db) \<subseteq> n_id ` set (db_cards db') \<and> cards_ok db'"
  using assms
proof (induction ps arbitrary: db)
  case (Cons p ps)
  from Cons.prems have ok: "cards_ok db" and fit: "fits (db_cards db) p" and p: "planned_ok p"
    and known: "supersedes_known db p" by auto
  have live: "key_retirement (nn_dedupe_key (pc_card p)) = None" using p by (simp add: planned_ok_def)
  obtain db1 where db1: "apply_new_card at p db = Inr (db_next_card db, db1)" "db_cards db1 = after_new p db"
    "db_next_card db1 = db_next_card db + 1"
    using apply_new_card_commits [OF ok fit live] by blast
  have ok1: "cards_ok db1"
    using p by (intro cards.keepsD [OF apply_new_card_keeps ok db1(1)]) (simp_all add: planned_ok_def)
  have "fits (db_cards db1) q \<and> supersedes_known db1 q" if q: "q \<in> set ps" for q
  proof -
    have "planned_key p \<noteq> planned_key q" using Cons.prems(3) q by auto
    moreover have "fits (db_cards db) q" "supersedes_known db q" "planned_ok q"
      using Cons.prems q by (auto simp: list_all_iff)
    ultimately show ?thesis
      using fits_after [OF fit, of q] ok db1(2,3)
      by (auto simp: planned_ok_def supersedes_known_def)
  qed
  then obtain ids db' where tail: "tx_map (apply_new_card at) ps db1 = Inr (ids, db')" "length ids = length ps"
    "n_id ` set (db_cards db1) \<subseteq> n_id ` set (db_cards db')" "cards_ok db'"
    using Cons.IH [OF ok1] Cons.prems by auto
  have "n_id ` set (db_cards db) \<subseteq> n_id ` set (after_new p db)"
    by (auto simp: after_new_def retired_def ids_update split: option.splits)
  with tail db1 show ?case by (auto simp: tx_bind_def tx_ret_def)
qed (auto simp: tx_ret_def)

lemma update_card_commits:
  assumes "cards_ok db" "i \<in> n_id ` set (db_cards db)"
    "\<And>n. card_key (f n) = card_key n" "\<And>n. n_message_id (f n) = n_message_id n"
  shows "update_card i f db = Inr ((), db\<lparr>db_cards := update_where (\<lambda>n. n_id n = i) f (db_cards db)\<rparr>)"
proof -
  have "map card_key (update_where (\<lambda>n. n_id n = i) f (db_cards db)) = map card_key (db_cards db)"
    by (rule map_update_where) (rule assms(3))
  then have "keys_unique (update_where (\<lambda>n. n_id n = i) f (db_cards db))"
    using assms(1) by (simp add: keys_unique_eq cards_ok_def)
  moreover have "messages_unique (update_where (\<lambda>n. n_id n = i) f (db_cards db))"
    by (rule messages_update) (use assms in \<open>auto simp: cards_ok_def\<close>)
  moreover have "affected (\<lambda>n. n_id n = i) (db_cards db) \<noteq> 0"
    using assms(2) unfolding affected_0_iff by blast
  ultimately show ?thesis by (simp add: update_card_def write_cards_def)
qed

lemma set_card_alert_commits:
  assumes "cards_ok db" "i \<in> n_id ` set (db_cards db)"
  shows "\<exists>db'. set_card_alert i f now db = Inr ((), db') \<and> n_id ` set (db_cards db') = n_id ` set (db_cards db)"
  using update_card_commits [OF assms, of "\<lambda>n. n\<lparr>n_fingerprint := f, n_updated_at := now\<rparr>"]
  by (simp add: set_card_alert_def card_key_def ids_update)

lemma move_state_commits:
  assumes "cards_ok db" "i \<in> n_id ` set (db_cards db)"
  shows "move_state i s now db = Inr ((), db\<lparr>db_cards := update_where (\<lambda>n. n_id n = i) (moved s now) (db_cards db)\<rparr>)"
  unfolding move_state_def by (rule update_card_commits [OF assms]) (simp_all add: card_key_def)

lemma enqueue_each_total: "\<exists>db'. tx_each (\<lambda>item. enqueue item at) items db = Inr ((), db') \<and> db_cards db' = db_cards db"
proof (induction items arbitrary: db)
  case (Cons item items)
  obtain db1 where 1: "enqueue item at db = Inr ((), db1)" using enqueue_total by blast
  with Cons.IH [of db1] enqueue_outbox(4) [OF 1] show ?case by (auto simp: tx_bind_def)
qed simp

lemma apply_update_commits:
  assumes ok: "cards_ok db" and id: "cu_id u \<in> n_id ` set (db_cards db)"
  shows "\<exists>db'. apply_update at u db = Inr ((), db') \<and> n_id ` set (db_cards db') = n_id ` set (db_cards db)"
proof -
  obtain db1 where 1: "set_card_alert (cu_id u) (cu_fingerprint u) at db = Inr ((), db1)"
    "n_id ` set (db_cards db1) = n_id ` set (db_cards db)"
    using set_card_alert_commits [OF assms] by blast
  have ok1: "cards_ok db1" by (rule cards.keepsD [OF set_card_alert_keeps ok 1(1)])
  obtain db2 where 2: "(case cu_state u of None \<Rightarrow> tx_ret () | Some s \<Rightarrow> move_state (cu_id u) s at) db1 = Inr ((), db2)"
    "n_id ` set (db_cards db2) = n_id ` set (db_cards db)"
  proof (cases "cu_state u")
    case None
    with that [of db1] 1 show thesis by simp
  next
    case (Some s)
    have "cu_id u \<in> n_id ` set (db_cards db1)" using id 1(2) by simp
    from that move_state_commits [OF ok1 this, of s at] Some 1(2) show thesis by (simp add: ids_update)
  qed
  with 1 enqueue_each_total [of at "cu_effects u" db2] show ?thesis
    by (auto simp: apply_update_def tx_bind_def)
qed

lemma updates_commit:
  assumes "cards_ok db" "\<forall>u \<in> set us. cu_id u \<in> n_id ` set (db_cards db)"
  shows "\<exists>db'. tx_each (apply_update at) us db = Inr ((), db')"
  using assms
proof (induction us arbitrary: db)
  case (Cons u us)
  then obtain db1 where 1: "apply_update at u db = Inr ((), db1)" "n_id ` set (db_cards db1) = n_id ` set (db_cards db)"
    using apply_update_commits [of db u at] by auto
  have "cards_ok db1" by (rule cards.keepsD [OF apply_update_keeps Cons.prems(1) 1(1)])
  with Cons 1 show ?case by (auto simp: tx_bind_def)
qed simp

lemma apply_decision_commits:
  assumes "cards_ok db" "decision_ok d" "distinct (map planned_key (de_new_cards d))"
    "\<forall>p \<in> set (de_new_cards d). fits (db_cards db) p \<and> supersedes_known db p"
    "\<forall>u \<in> set (de_updates d). cu_id u \<in> n_id ` set (db_cards db)"
  shows "\<exists>ids db'. apply_decision d db = (Inr ids, db') \<and> length ids = length (de_new_cards d)"
proof -
  obtain ids db1 where 1: "tx_map (apply_new_card (de_at d)) (de_new_cards d) db = Inr (ids, db1)"
    "length ids = length (de_new_cards d)" "n_id ` set (db_cards db) \<subseteq> n_id ` set (db_cards db1)" "cards_ok db1"
    using new_cards_commit [OF assms(1) assms(2) [unfolded decision_ok_iff] assms(3,4), of "de_at d"] by blast
  obtain db2 where "tx_each (apply_update (de_at d)) (de_updates d) db1 = Inr ((), db2)"
    using updates_commit [OF 1(4)] assms(5) 1(3) by blast
  with 1 show ?thesis by (auto simp: apply_decision_def apply_decision_tx_def run_tx_def tx_bind_def tx_ret_def)
qed

section \<open>When the key index rolls a decision back\<close>

lemma plain_new_card:
  assumes "cards_ok db" "planned_ok p" "nn_supersedes (pc_card p) = None"
  shows "if planned_key p \<in> card_key ` set (db_cards db) then apply_new_card at p db = Inl (Conflict KEY_INDEX)
    else \<exists>db'. apply_new_card at p db = Inr (db_next_card db, db') \<and> cards_ok db' \<and>
      card_key ` set (db_cards db') = insert (planned_key p) (card_key ` set (db_cards db))"
proof (cases "planned_key p \<in> card_key ` set (db_cards db)")
  case True
  have "insert_notification (pc_card p) db = Inl (Conflict KEY_INDEX)"
    using insert_commits [of db p] assms(1) True by (simp add: cards_ok_def)
  with True assms(3) show ?thesis by (simp add: apply_new_card_def tx_bind_def tx_ret_def)
next
  case False
  have fit: "fits (db_cards db) p" using False assms(3) by (simp add: fits_def)
  obtain db' where 1: "apply_new_card at p db = Inr (db_next_card db, db')" "db_cards db' = after_new p db"
    using apply_new_card_commits [OF assms(1) fit] assms(2) by (auto simp: planned_ok_def)
  have "cards_ok db'"
    using assms(2) by (intro cards.keepsD [OF apply_new_card_keeps assms(1) 1(1)]) (simp_all add: planned_ok_def)
  with 1 False assms(3) show ?thesis by (auto simp: after_new_def)
qed

lemma repeated_key_conflicts:
  assumes "cards_ok db" "list_all planned_ok ps" "\<forall>p \<in> set ps. nn_supersedes (pc_card p) = None"
    "\<not> (distinct (map planned_key ps) \<and> planned_key ` set ps \<inter> card_key ` set (db_cards db) = {})"
  shows "tx_map (apply_new_card at) ps db = Inl (Conflict KEY_INDEX)"
  using assms
proof (induction ps arbitrary: db)
  case (Cons p ps)
  note plain = plain_new_card [of db p at]
  show ?case
  proof (cases "planned_key p \<in> card_key ` set (db_cards db)")
    case True
    with plain Cons.prems show ?thesis by (simp add: tx_bind_def)
  next
    case False
    with plain Cons.prems obtain db1 where 1: "apply_new_card at p db = Inr (db_next_card db, db1)" "cards_ok db1"
      "card_key ` set (db_cards db1) = insert (planned_key p) (card_key ` set (db_cards db))" by auto
    have "\<not> (distinct (map planned_key ps) \<and> planned_key ` set ps \<inter> card_key ` set (db_cards db1) = {})"
      using Cons.prems(4) False unfolding 1(3) by auto
    with Cons.IH [OF 1(2)] Cons.prems 1(1) show ?thesis by (simp add: tx_bind_def)
  qed
qed simp

lemma apply_decision_conflicts:
  assumes "cards_ok db" "decision_ok d" "\<forall>p \<in> set (de_new_cards d). nn_supersedes (pc_card p) = None"
    "\<not> (distinct (map planned_key (de_new_cards d)) \<and>
         planned_key ` set (de_new_cards d) \<inter> card_key ` set (db_cards db) = {})"
  shows "apply_decision d db = (Inl (Conflict KEY_INDEX), db)"
  using repeated_key_conflicts [OF assms(1) _ assms(3,4)] assms(2)
  by (simp add: apply_decision_def apply_decision_tx_def run_tx_def tx_bind_def decision_ok_iff)

section \<open>Acknowledging\<close>

lemma acks_ok_revoke: "acks_ok as \<Longrightarrow> acks_ok (update_where (active_ack f) (\<lambda>a. a\<lparr>ak_revoked_at := Some t\<rparr>) as)"
proof -
  have "filter (\<lambda>a. ak_revoked_at a = None) (update_where (active_ack f) (\<lambda>a. a\<lparr>ak_revoked_at := Some t\<rparr>) as) =
      filter (\<lambda>a. ak_fingerprint a \<noteq> f) (filter (\<lambda>a. ak_revoked_at a = None) as)"
    by (induction as) (auto simp: update_where_def active_ack_def)
  moreover assume "acks_ok as"
  ultimately show ?thesis by (simp add: acks_ok_def distinct_map_filter del: filter_filter)
qed

lemma write_ack_keeps: "cards.keeps (write_ack c)"
proof (rule cards.keepsI)
  fix db x db'
  assume ok: "cards_ok db" and wr: "write_ack c db = Inr (x, db')"
  have same: "db_cards db' = db_cards db" "db_next_card db' = db_next_card db"
    using wr by (auto simp: write_ack_def Let_def split: if_splits)
  have "acks_ok (db_acks db')"
  proof (cases "ac_revoke c \<or> 0 < affected (active_ack (ac_fingerprint c)) (db_acks db)")
    case True
    with wr ok show ?thesis by (auto simp: write_ack_def Let_def cards_ok_def acks_ok_revoke split: if_splits)
  next
    case False
    then have "\<forall>a \<in> set (db_acks db). \<not> active_ack (ac_fingerprint c) a"
      using affected_0_iff [of "active_ack (ac_fingerprint c)" "db_acks db"] by simp
    then have "ac_fingerprint c \<notin> ak_fingerprint ` set (filter (\<lambda>a. ak_revoked_at a = None) (db_acks db))"
      by (auto simp: active_ack_def)
    with False wr ok show ?thesis
      by (auto simp: write_ack_def Let_def cards_ok_def acks_ok_def)
  qed
  with ok same show "cards_ok db'" by (simp add: cards_ok_def card_ok_def)
qed

lemma ack_card_keeps: "cards.keeps (ack_card t a at n)"
  unfolding ack_card_def by (cases "next_state (n_state n) t a") (auto intro: cards.keeps_bind move_state_keeps)

lemma acknowledge_keeps: "cards.keeps (acknowledge_tx c)"
proof -
  have "cards.keeps (\<lambda>db. tx_bind (if changed then tx_map (ack_card t (h db) at) (cs db) else tx_ret (cs db)) (\<lambda>x. tx_ret (f db x)) db)"
    for changed t h at cs f
  proof (rule cards.keepsI)
    fix db :: db and x and db' :: db
    assume ok: "cards_ok db" and run: "tx_bind (if changed then tx_map (ack_card t (h db) at) (cs db) else tx_ret (cs db))
        (\<lambda>x. tx_ret (f db x)) db = Inr (x, db')"
    have "cards.keeps (tx_bind (if changed then tx_map (ack_card t (h db) at) (cs db) else tx_ret (cs db)) (\<lambda>x. tx_ret (f db x)))"
      by (intro cards.keeps_bind cards.keeps_ret) (auto intro: cards.keeps_map ack_card_keeps)
    from cards.keepsD [OF this ok run] show "cards_ok db'" .
  qed
  from this show ?thesis
    unfolding acknowledge_tx_def Let_def by (intro cards.keeps_bind write_ack_keeps)
qed

lemma acknowledge_ok: "cards_ok db \<Longrightarrow> cards_ok (snd (acknowledge c db))"
  unfolding acknowledge_def by (rule cards.keeps_run [OF acknowledge_keeps])

definition acked_row :: "trigger \<Rightarrow> bool \<Rightarrow> time \<Rightarrow> notification \<Rightarrow> notification" where
  "acked_row t a at n = (case next_state (n_state n) t a of None \<Rightarrow> n | Some s \<Rightarrow> moved s at n)"

lemma acked_row_id [simp]: "n_id (acked_row t a at n) = n_id n"
  by (simp add: acked_row_def split: option.splits)

lemma ack_card_commits:
  assumes ok: "cards_ok db" and n: "n \<in> set (db_cards db)"
  shows "\<exists>m db'. ack_card t a at n db = Inr (m, db') \<and> db_acks db' = db_acks db \<and>
    db_cards db' = map (\<lambda>x. if x = n then acked_row t a at x else x) (db_cards db) \<and> n_id m = n_id n \<and>
    n_state m = n_state (acked_row t a at n)"
proof (cases "next_state (n_state n) t a")
  case None
  then show ?thesis by (auto simp: ack_card_def acked_row_def tx_ret_def intro!: map_idI [symmetric])
next
  case (Some s)
  have "map (\<lambda>x. if x = n then acked_row t a at x else x) (db_cards db) =
      update_where (\<lambda>x. n_id x = n_id n) (moved s at) (db_cards db)"
    using same_id [OF ok _ n] Some by (auto simp: update_where_def acked_row_def)
  moreover have "n_id n \<in> n_id ` set (db_cards db)" using n by blast
  ultimately show ?thesis using Some move_state_commits [OF ok, of "n_id n" s at]
    by (simp add: ack_card_def tx_bind_def tx_ret_def acked_row_def)
qed

lemma ack_cards_commit:
  assumes "cards_ok db" "distinct (map n_id ns)" "set ns \<subseteq> set (db_cards db)"
  shows "\<exists>ms db'. tx_map (ack_card t a at) ns db = Inr (ms, db') \<and> db_acks db' = db_acks db \<and>
    db_cards db' = map (\<lambda>x. if x \<in> set ns then acked_row t a at x else x) (db_cards db) \<and> map n_id ms = map n_id ns \<and>
    map n_state ms = map (\<lambda>n. n_state (acked_row t a at n)) ns"
  using assms
proof (induction ns arbitrary: db)
  case (Cons n ns)
  from Cons.prems have ok: "cards_ok db" and n: "n \<in> set (db_cards db)" and fresh: "n_id n \<notin> n_id ` set ns" by auto
  obtain m db1 where 1: "ack_card t a at n db = Inr (m, db1)" "db_acks db1 = db_acks db"
    "db_cards db1 = map (\<lambda>x. if x = n then acked_row t a at x else x) (db_cards db)" "n_id m = n_id n"
    "n_state m = n_state (acked_row t a at n)"
    using ack_card_commits [OF ok n] by blast
  have ok1: "cards_ok db1" by (rule cards.keepsD [OF ack_card_keeps ok 1(1)])
  have sub: "set ns \<subseteq> set (db_cards db1)"
  proof
    fix x
    assume x: "x \<in> set ns"
    with fresh have "x \<noteq> n" by blast
    with x Cons.prems(3) show "x \<in> set (db_cards db1)" by (auto simp: 1(3) image_iff intro!: bexI [of _ x])
  qed
  obtain ms db' where 2: "tx_map (ack_card t a at) ns db1 = Inr (ms, db')" "db_acks db' = db_acks db1"
    "db_cards db' = map (\<lambda>x. if x \<in> set ns then acked_row t a at x else x) (db_cards db1)" "map n_id ms = map n_id ns"
    "map n_state ms = map (\<lambda>n. n_state (acked_row t a at n)) ns"
    using Cons.IH [OF ok1 _ sub] Cons.prems(2) by auto
  have "acked_row t a at n \<notin> set ns" using fresh by (metis acked_row_id imageI)
  then have "db_cards db' = map (\<lambda>x. if x \<in> set (n # ns) then acked_row t a at x else x) (db_cards db)"
    using fresh by (auto simp: 2(3) 1(3))
  with 1 2 show ?case by (simp add: tx_bind_def tx_ret_def)
qed (auto simp: tx_ret_def)

lemma read_cards_for_set:
  "set (read_cards_for f db) = {n \<in> set (db_cards db). n_state n \<noteq> Orphaned \<and> (n_fingerprint n = f \<or> n_dedupe_key n = per_alert f)}"
  by (auto simp: read_cards_for_def)

lemma read_cards_for_distinct: "cards_ok db \<Longrightarrow> distinct (map n_id (read_cards_for f db))"
proof -
  assume "cards_ok db"
  then have "distinct (map n_id (filter P (db_cards db)))" for P by (simp add: cards_ok_def distinct_map_filter)
  then show ?thesis by (simp add: read_cards_for_def distinct_map)
qed

lemma find_snoc: "\<forall>x \<in> set xs. \<not> P x \<Longrightarrow> P r \<Longrightarrow> find P (xs @ [r]) = Some r"
  by (induction xs) auto

text \<open>Taking an alert nobody holds.\<close>

lemma acknowledge_takes:
  assumes ok: "cards_ok db" and free: "holder_row (ac_fingerprint c) db = None" and "\<not> ac_revoke c"
  shows "\<exists>out db'. acknowledge c db = (Inr out, db') \<and> ao_changed out \<and> ao_holder out = Some (ac_user_id c) \<and>
    db_cards db' = map (\<lambda>n. if n \<in> set (read_cards_for (ac_fingerprint c) db)
      then acked_row TAcknowledged True (ac_at c) n else n) (db_cards db) \<and>
    map n_id (ao_cards out) = map n_id (read_cards_for (ac_fingerprint c) db) \<and>
    (\<exists>r. holder_row (ac_fingerprint c) db' = Some r \<and> ak_user_id r = ac_user_id c)"
proof -
  let ?f = "ac_fingerprint c"
  let ?r = "\<lparr>ak_fingerprint = ?f, ak_user_id = ac_user_id c, ak_kind = ac_kind c, ak_note = ac_note c,
     ak_created_at = ac_at c, ak_revoked_at = None\<rparr>"
  define db1 where "db1 = db\<lparr>db_acks := db_acks db @ [?r]\<rparr>"
  have none: "\<forall>a \<in> set (db_acks db). \<not> active_ack ?f a" using free by (simp add: holder_row_def find_None_iff)
  then have "affected (active_ack ?f) (db_acks db) = 0" unfolding affected_0_iff .
  then have w: "write_ack c db = Inr (True, db1)" using assms(3) by (simp add: write_ack_def db1_def)
  have ok1: "cards_ok db1" by (rule cards.keepsD [OF write_ack_keeps ok w])
  have h: "find (active_ack ?f) (db_acks db @ [?r]) = Some ?r"
    using none by (simp add: find_snoc active_ack_def [of _ ?r])
  then have holder: "holder_row ?f db1 = Some ?r" by (simp add: holder_row_def db1_def)
  have cs: "read_cards_for ?f db1 = read_cards_for ?f db" by (simp add: read_cards_for_def db1_def)
  have "set (read_cards_for ?f db) \<subseteq> set (db_cards db1)" by (auto simp: read_cards_for_set db1_def)
  from ack_cards_commit [OF ok1 read_cards_for_distinct [OF ok] this, of TAcknowledged True "ac_at c"]
  obtain ms db2 where 2: "tx_map (ack_card TAcknowledged True (ac_at c)) (read_cards_for ?f db) db1 = Inr (ms, db2)"
    "db_acks db2 = db_acks db1" "map n_id ms = map n_id (read_cards_for ?f db)"
    "db_cards db2 = map (\<lambda>x. if x \<in> set (read_cards_for ?f db) then acked_row TAcknowledged True (ac_at c) x else x) (db_cards db1)"
    by blast
  have "holder_row ?f db2 = Some ?r" using holder by (simp add: holder_row_def 2(2))
  with w holder cs 2 assms(3) show ?thesis
    by (simp add: acknowledge_def acknowledge_tx_def run_tx_def tx_bind_def tx_ret_def Let_def db1_def)
qed

text \<open>Taking an alert somebody already holds changes nothing and names the holder.\<close>

lemma acknowledge_loses:
  assumes "holder_row (ac_fingerprint c) db = Some r" "\<not> ac_revoke c"
  shows "acknowledge c db = (Inr \<lparr>ao_changed = False, ao_holder = Some (ak_user_id r),
    ao_acknowledged_at = Some (ak_created_at r), ao_cards = read_cards_for (ac_fingerprint c) db\<rparr>, db)"
proof -
  have "r \<in> set (db_acks db) \<and> active_ack (ac_fingerprint c) r"
    using assms(1) by (auto simp: holder_row_def dest: find_SomeD)
  then have "affected (active_ack (ac_fingerprint c)) (db_acks db) \<noteq> 0" unfolding affected_0_iff by blast
  then have "write_ack c db = Inr (False, db)" using assms(2) by (simp add: write_ack_def)
  with assms show ?thesis
    by (simp add: acknowledge_def acknowledge_tx_def run_tx_def tx_bind_def tx_ret_def Let_def)
qed

section \<open>Escalating, replying, completing\<close>

lemma mark_escalated_once:
  assumes "mark_escalated i at db = (Inr True, db')"
  shows "mark_escalated i at' db' = (Inr False, db')"
proof -
  let ?P = "\<lambda>n. n_id n = i \<and> n_escalated_at n = None"
  have pos: "affected ?P (db_cards db) \<noteq> 0"
    and db': "db' = db\<lparr>db_cards := update_where ?P (\<lambda>n. n\<lparr>n_escalated_at := Some at, n_updated_at := at\<rparr>) (db_cards db)\<rparr>"
    using assms by (auto simp: mark_escalated_def run_tx_def split: if_splits)
  have none: "affected ?P (db_cards db') = 0"
    unfolding db' by (simp add: affected_after_update)
  have "\<exists>n \<in> set (db_cards db). n_id n = i" using pos unfolding affected_0_iff by blast
  then have "i \<in> n_id ` set (db_cards db)" by blast
  then have "i \<in> n_id ` set (db_cards db')" unfolding db' by (simp add: ids_update)
  then have "notification_by_id i db' \<noteq> None" by (auto simp: notification_by_id_def find_None_iff)
  with none show ?thesis by (simp add: mark_escalated_def run_tx_def)
qed

lemma mark_escalated_ok: "cards_ok db \<Longrightarrow> cards_ok (snd (mark_escalated i at db))"
proof -
  let ?P = "\<lambda>n. n_id n = i \<and> n_escalated_at n = None" and ?f = "\<lambda>n. n\<lparr>n_escalated_at := Some at, n_updated_at := at\<rparr>"
  assume ok: "cards_ok db"
  have "keys_unique (update_where ?P ?f (db_cards db))"
  proof -
    have "map card_key (update_where ?P ?f (db_cards db)) = map card_key (db_cards db)"
      by (rule map_update_where) (simp add: card_key_def)
    then show ?thesis using ok by (simp add: keys_unique_eq cards_ok_def)
  qed
  moreover have "messages_unique (update_where ?P ?f (db_cards db))"
    by (rule messages_update) (use ok in \<open>auto simp: cards_ok_def\<close>)
  ultimately have wr: "write_cards (update_where ?P ?f (db_cards db)) db = Inr ((), db\<lparr>db_cards := update_where ?P ?f (db_cards db)\<rparr>)"
    by (simp add: write_cards_def)
  have "cards_ok (db\<lparr>db_cards := update_where ?P ?f (db_cards db)\<rparr>)"
    by (rule write_update_ok [OF ok wr]) (auto simp: card_ok_def owns_key_def)
  with ok show ?thesis by (simp add: mark_escalated_def run_tx_def)
qed

lemma record_reply_ok: "cards_ok db \<Longrightarrow> cards_ok (snd (record_reply r db))"
proof -
  have "cards.keeps (\<lambda>db. case find (\<lambda>n. n_thread_id n = Some (tr_thread_id r)) (db_cards db) of
     None \<Rightarrow> Inr (None, db)
   | Some n \<Rightarrow> tx_bind (write_cards (update_where (\<lambda>m. n_id m = n_id n)
         (\<lambda>m. m\<lparr>n_reply_count := n_reply_count m + 1, n_responded_at := coalesce (n_responded_at m) (Some (tr_at r)),
            n_updated_at := tr_at r\<rparr>) (db_cards db)))
       (\<lambda>_. tx_ret (if n_responded_at n = None
          then Some (n\<lparr>n_reply_count := sat_add_u32 (n_reply_count n) 1, n_updated_at := tr_at r,
                 n_responded_at := Some (tr_at r)\<rparr>)
          else None)) db)" (is "cards.keeps ?m")
  proof (rule cards.keepsI)
    fix db x db'
    assume ok: "cards_ok db" and run: "?m db = Inr (x, db')"
    show "cards_ok db'"
    proof (cases "find (\<lambda>n. n_thread_id n = Some (tr_thread_id r)) (db_cards db)")
      case None
      with ok run show ?thesis by simp
    next
      case (Some n)
      with run have wr: "write_cards (update_where (\<lambda>m. n_id m = n_id n)
         (\<lambda>m. m\<lparr>n_reply_count := n_reply_count m + 1, n_responded_at := coalesce (n_responded_at m) (Some (tr_at r)),
            n_updated_at := tr_at r\<rparr>) (db_cards db)) db = Inr ((), db')"
        by (auto simp: tx_bind_Inr_iff)
      show ?thesis by (rule write_update_ok [OF ok wr]) (auto simp: card_ok_def owns_key_def)
    qed
  qed
  then show "cards_ok db \<Longrightarrow> cards_ok (snd (record_reply r db))"
    unfolding record_reply_def by (rule cards.keeps_run)
qed

lemma complete_cards_ok: "cards_ok db \<Longrightarrow> cards_ok (snd (complete_outbox w i a now db))"
proof -
  have take: "cards.keeps (take_claim w i)"
    by (rule cards.keepsI) (simp add: take_claim_Inr)
  have settle: "cards.keeps (settle_silence e a now)" for e
  proof (rule cards.keepsI)
    fix db x db'
    assume ok: "cards_ok db" and st: "settle_silence e a now db = Inr (x, db')"
    from settle_silence_frame [OF st] cards_ok_cong [of db' db] ok show "cards_ok db'" by simp
  qed
  have del: "cards.keeps (delete_item i)"
    by (rule cards.keepsI) (auto simp: delete_item_def cards_ok_def card_ok_def)
  show "cards_ok db \<Longrightarrow> cards_ok (snd (complete_outbox w i a now db))"
    unfolding complete_outbox_def
    by (intro cards.keeps_run cards.keeps_bind take settle del)
      (auto split: option.split intro: apply_to_card_keeps)
qed

lemma orphan_releases:
  assumes "cards_ok db" "n \<in> set (db_cards db)" "key_retirement (n_dedupe_key n) = None"
  shows "\<exists>db'. orphan_notification (n_id n) now db = (Inr (), db') \<and>
    notification_for (n_dedupe_key n) (n_channel_id n) db' = None \<and>
    map n_id (db_cards db') = map n_id (db_cards db)"
proof -
  let ?cs = "update_where (\<lambda>m. n_id m = n_id n) (orphan_row now) (db_cards db)"
  let ?db = "db\<lparr>db_cards := ?cs\<rparr>"
  have "card_key m \<noteq> (n_channel_id n, n_dedupe_key n)" if m: "m \<in> set ?cs" for m
  proof -
    obtain c where c: "c \<in> set (db_cards db)" "m = (if n_id c = n_id n then orphan_row now c else c)"
      using m by (auto simp: set_update_where)
    show ?thesis
    proof (cases "n_id c = n_id n")
      case True
      then have "n_dedupe_key m = orphaned_key (n_id c) (n_dedupe_key c)" using c(2) by (simp add: orphan_row_def)
      then have "key_retirement (n_dedupe_key m) = Some RetOrphaned" by simp
      with assms(3) show ?thesis by (auto simp: card_key_def)
    next
      case False
      then have "c \<noteq> n" by auto
      with assms(1,2) c(1) have "card_key c \<noteq> card_key n" using keys_uniqueD by (fastforce simp: cards_ok_def)
      with c(2) False show ?thesis by (simp add: card_key_def)
    qed
  qed
  then have "notification_for (n_dedupe_key n) (n_channel_id n) ?db = None"
    by (simp add: notification_for_None_iff)
  moreover have "map n_id ?cs = map n_id (db_cards db)" by (rule map_update_where) (simp add: orphan_row_def)
  ultimately show ?thesis using orphan_commits [OF assms(1,2) refl, of now] by simp
qed

end
