(* ===== verification/Sqlite_Alerts.thy ===== *)
theory Sqlite_Alerts
  imports Sqlite_Db
begin

text \<open>
  The alert rows, their events and the silence sync (\<open>store/alerts.rs\<close> of the SQLite backend). The
  backend's \<open>regroup_window\<close> and \<open>persist_events\<close> settings are arguments. A read without \<open>ORDER BY\<close> is
  given in insertion order. Lemmas: one row per fingerprint, a redelivered batch is nothing but
  duplicates, events are kept only for changes, and what a sync leaves on every alert.
\<close>

section \<open>Rows\<close>

definition read_alert :: "fingerprint \<Rightarrow> db \<Rightarrow> alert_record option" where
  "read_alert f db = find (\<lambda>r. al_fingerprint (ar_alert r) = f) (db_alerts db)"

definition touch_alert :: "fingerprint \<Rightarrow> time \<Rightarrow> unit tx" where
  "touch_alert f at = (\<lambda>db. Inr ((), db\<lparr>db_alerts :=
     update_where (\<lambda>r. al_fingerprint (ar_alert r) = f) (\<lambda>r. r\<lparr>ar_last_seen_at := at\<rparr>) (db_alerts db)\<rparr>))"

definition upsert_alert :: "alert \<Rightarrow> transition \<Rightarrow> time \<Rightarrow> unit tx" where
  "upsert_alert a tn at = (\<lambda>db.
     let same = (\<lambda>r. al_fingerprint (ar_alert r) = al_fingerprint a);
         row = \<lparr>ar_alert = a, ar_labels_hash = labels_hash (al_labels a), ar_first_seen_at = tn_first_seen_at tn,
           ar_last_seen_at = at, ar_resolved_at = tn_resolved_at tn, ar_flap_count = tn_flap_count tn, ar_updated_at = at\<rparr>
     in if affected same (db_alerts db) = 0 then Inr ((), db\<lparr>db_alerts := db_alerts db @ [row]\<rparr>)
        else Inr ((), db\<lparr>db_alerts := update_where same
          (\<lambda>r. row\<lparr>ar_first_seen_at := ar_first_seen_at r\<rparr>) (db_alerts db)\<rparr>))"

text \<open>The unique index reads a missing end as the epoch.\<close>

definition event_key :: "event_row \<Rightarrow> fingerprint \<times> event_kind \<times> time \<times> time" where
  "event_key e = (ev_fingerprint e, ev_kind e, ev_starts_at e, (case ev_ends_at e of None \<Rightarrow> 0 | Some t \<Rightarrow> t))"

definition event_of ::
  "alert \<Rightarrow> alert_record option \<Rightarrow> transition \<Rightarrow> event_source \<Rightarrow> time \<Rightarrow> event_row" where
  "event_of a previous tn source at =
     \<lparr>ev_fingerprint = al_fingerprint a, ev_kind = tn_kind tn, ev_source = source,
      ev_starts_at = al_starts_at a, ev_ends_at = al_ends_at a,
      ev_payload = (if tn_kind tn = EUpdated
        then UpdatedPayload (case previous of None \<Rightarrow> al_annotations a
           | Some p \<Rightarrow> changed_from (al_annotations a) (al_annotations (ar_alert p)))
        else TransitionPayload (al_status a) (al_am_state a) (alert_severity a) (al_silenced_by a)),
      ev_received_at = at\<rparr>"

definition append_event ::
  "alert \<Rightarrow> alert_record option \<Rightarrow> transition \<Rightarrow> event_source \<Rightarrow> time \<Rightarrow> unit tx" where
  "append_event a previous tn source at = (\<lambda>db.
     let e = event_of a previous tn source at
     in if event_key e \<in> event_key ` set (db_events db) then Inr ((), db)
        else Inr ((), db\<lparr>db_events := db_events db @ [e]\<rparr>))"

section \<open>Ingesting a batch\<close>

definition batch_alert :: "ingest_batch \<Rightarrow> alert \<Rightarrow> alert" where
  "batch_alert b a = (if al_group_key a = None then a\<lparr>al_group_key := ib_group_key b\<rparr> else a)"

definition ingest_one :: "duration \<Rightarrow> bool \<Rightarrow> ingest_batch \<Rightarrow> alert \<Rightarrow> ingest_outcome \<Rightarrow> ingest_outcome tx" where
  "ingest_one regroup persist b incoming out = (\<lambda>db.
     let previous = read_alert (al_fingerprint incoming) db;
         a = carry_over previous (batch_alert b incoming)
     in case classify previous a (ib_received_at b) regroup of
          None \<Rightarrow> tx_bind (touch_alert (al_fingerprint a) (ib_received_at b))
            (\<lambda>_. tx_ret (out\<lparr>io_duplicates := sat_add_u32 (io_duplicates out) 1\<rparr>)) db
        | Some tn \<Rightarrow> tx_bind (upsert_alert a tn (ib_received_at b)) (\<lambda>_.
            tx_bind (if persist then append_event a previous tn (ib_source b) (ib_received_at b) else tx_ret ()) (\<lambda>_.
            tx_ret (out\<lparr>io_deltas := io_deltas out @ [\<lparr>d_kind = tn_kind tn, d_source = ib_source b, d_alert = a,
              d_flap_count = tn_flap_count tn, d_observed_at = ib_received_at b\<rparr>]\<rparr>))) db)"

fun ingest_all :: "duration \<Rightarrow> bool \<Rightarrow> ingest_batch \<Rightarrow> alert list \<Rightarrow> ingest_outcome \<Rightarrow> ingest_outcome tx" where
  "ingest_all regroup persist b [] out = tx_ret out"
| "ingest_all regroup persist b (a # as) out =
     tx_bind (ingest_one regroup persist b a out) (ingest_all regroup persist b as)"

definition ingest_batch :: "duration \<Rightarrow> bool \<Rightarrow> ingest_batch \<Rightarrow> db \<Rightarrow> (store_error + ingest_outcome) \<times> db" where
  "ingest_batch regroup persist b =
     run_tx (ingest_all regroup persist b (ib_alerts b) \<lparr>io_deltas = [], io_duplicates = 0\<rparr>)"

section \<open>Reads\<close>

definition sql_admits :: "sql_alert_filter \<Rightarrow> db \<Rightarrow> alert_record \<Rightarrow> bool" where
  "sql_admits f db r \<longleftrightarrow>
     (sq_statuses f = [] \<or> alert_status_str (al_status (ar_alert r)) \<in> set (sq_statuses f)) \<and>
     (sq_severities f = [] \<or> severity_str (alert_severity (ar_alert r)) \<in> set (sq_severities f)) \<and>
     sql_labels_match f (al_labels (ar_alert r)) \<and>
     (case sq_notification_state f of None \<Rightarrow> True
      | Some s \<Rightarrow> (\<exists>n \<in> set (db_cards db). n_dedupe_key n = DedupeKey (''a:'' @ fp_str (al_fingerprint (ar_alert r)))
          \<and> state_str (n_state n) = s))"

definition filtered_alerts :: "sql_alert_filter \<Rightarrow> db \<Rightarrow> alert_record list" where
  "filtered_alerts f db = sort_key (\<lambda>r. (- ar_last_seen_at r, al_fingerprint (ar_alert r)))
     (filter (sql_admits f db) (db_alerts db))"

fun first_compile_error :: "regex_engine \<Rightarrow> query_matcher list \<Rightarrow> core_error option" where
  "first_compile_error rx [] = None"
| "first_compile_error rx (m # ms) = (case compile_matcher rx m of Inl e \<Rightarrow> Some e | Inr _ \<Rightarrow> first_compile_error rx ms)"

definition scan_alerts :: "regex_engine \<Rightarrow> alert_query \<Rightarrow> db \<Rightarrow> alert_record page" where
  "scan_alerts rx q db =
     (let rows = take IN_MEMORY_SCAN_LIMIT (filtered_alerts (from_query rx q) db);
          matched = filter (\<lambda>r. matches_regex_matchers rx r q) rows
      in \<lparr>pg_items = take (aq_limit q) (drop (aq_offset q) matched), pg_total = length matched,
          pg_offset = aq_offset q, pg_limit = aq_limit q\<rparr>)"

text \<open>\<open>shows\<close> renders the error, \<open>CoreError\<close>'s \<open>Display\<close>.\<close>

definition query_alerts ::
  "regex_engine \<Rightarrow> (core_error \<Rightarrow> string) \<Rightarrow> alert_query \<Rightarrow> db \<Rightarrow> store_error + alert_record page" where
  "query_alerts rx shows' q db = (case first_compile_error rx (aq_matchers q) of
     Some e \<Rightarrow> Inl (Decode ''query matcher'' (shows' e))
   | None \<Rightarrow> if needs_in_memory_filter q then Inr (scan_alerts rx q db)
       else let rows = filtered_alerts (from_query rx q) db
         in Inr \<lparr>pg_items = take (aq_limit q) (drop (aq_offset q) rows), pg_total = length rows,
                 pg_offset = aq_offset q, pg_limit = aq_limit q\<rparr>)"

definition firing_alerts_named :: "string option \<Rightarrow> db \<Rightarrow> alert_record list" where
  "firing_alerts_named name db = sort_key (\<lambda>r. al_fingerprint (ar_alert r))
     (filter (\<lambda>r. al_status (ar_alert r) = AFiring \<and> alertname (al_labels (ar_alert r)) = name) (db_alerts db))"

definition firing_not_in :: "fingerprint list \<Rightarrow> time \<Rightarrow> db \<Rightarrow> alert_record list" where
  "firing_not_in present cutoff db = filter (\<lambda>r. al_fingerprint (ar_alert r) \<notin> set present)
     (filter (\<lambda>r. al_status (ar_alert r) = AFiring \<and> ar_last_seen_at r < cutoff) (db_alerts db))"

section \<open>The silence sync\<close>

definition sync_links :: "silence_state list \<Rightarrow> time \<Rightarrow> silence_link list \<Rightarrow> silence_link list" where
  "sync_links snap now links = fold (\<lambda>s ls. update_where (\<lambda>l. sl_am_id l = ss_am_id s)
     (\<lambda>l. l\<lparr>sl_state := ss_state s, sl_ends_at := ss_ends_at s, sl_synced_at := now\<rparr>) ls) snap links"

definition sync_candidates :: "suppression \<Rightarrow> db \<Rightarrow> alert_record list" where
  "sync_candidates desired db =
     (let stored = filter (\<lambda>r. al_silenced_by (ar_alert r) \<noteq> []) (db_alerts db);
          known = map (\<lambda>r. al_fingerprint (ar_alert r)) stored
      in stored @ List.map_filter (\<lambda>f. if f \<in> set known then None else read_alert f db) (map fst desired))"

definition resuppressed :: "string list \<Rightarrow> alert_record \<Rightarrow> alert_record" where
  "resuppressed ids r = r\<lparr>ar_alert := (ar_alert r)\<lparr>al_silenced_by := ids,
     al_am_state := (if ids \<noteq> [] \<or> al_inhibited_by (ar_alert r) \<noteq> [] then AmSuppressed else AmActive)\<rparr>\<rparr>"

definition sync_one :: "suppression \<Rightarrow> time \<Rightarrow> alert_record \<Rightarrow> db \<times> alert_delta list \<Rightarrow> db \<times> alert_delta list" where
  "sync_one desired now r acc =
     (let ids = (case bt_get desired (al_fingerprint (ar_alert r)) of Some i \<Rightarrow> i | None \<Rightarrow> []) in
      if ids = al_silenced_by (ar_alert r) then acc
      else let was = (al_silenced_by (ar_alert r) \<noteq> []); is' = (ids \<noteq> []); r' = resuppressed ids r;
             db' = (fst acc)\<lparr>db_alerts := update_where (\<lambda>q. al_fingerprint (ar_alert q) = al_fingerprint (ar_alert r))
               (\<lambda>q. q\<lparr>ar_alert := (ar_alert q)\<lparr>al_silenced_by := al_silenced_by (ar_alert r'),
                  al_am_state := al_am_state (ar_alert r')\<rparr>, ar_updated_at := now\<rparr>) (db_alerts (fst acc))\<rparr>;
             delta = (\<lambda>k. \<lparr>d_kind = k, d_source = SReconciler, d_alert = ar_alert r', d_flap_count = ar_flap_count r,
               d_observed_at = now\<rparr>)
        in (db', snd acc @ (if \<not> was \<and> is' then [delta ESilenced] else if was \<and> \<not> is' then [delta EUnsilenced] else [])))"

definition sync_silences :: "silence_state list \<Rightarrow> time \<Rightarrow> db \<Rightarrow> (store_error + alert_delta list) \<times> db" where
  "sync_silences snap now = run_tx (\<lambda>db.
     let db1 = db\<lparr>db_silences := sync_links snap now (db_silences db)\<rparr>;
         desired = suppression_map snap;
         (db', deltas) = fold (sync_one desired now) (sync_candidates desired db1) (db1, [])
     in Inr (deltas, db'))"

definition silences :: "bool \<Rightarrow> db \<Rightarrow> silence_link list" where
  "silences active_only db = sort_key (\<lambda>l. - sl_starts_at l)
     (if active_only then filter (\<lambda>l. sl_state l = SilenceActive) (db_silences db) else db_silences db)"

definition record_silence :: "silence_link \<Rightarrow> db \<Rightarrow> (store_error + unit) \<times> db" where
  "record_silence link = run_tx (write_silence link)"

section \<open>The invariant\<close>

definition alerts_ok :: "db \<Rightarrow> bool" where
  "alerts_ok db \<longleftrightarrow> distinct (map (\<lambda>r. al_fingerprint (ar_alert r)) (db_alerts db)) \<and>
     distinct (map event_key (db_events db)) \<and>
     (\<forall>r \<in> set (db_alerts db). ar_labels_hash r = labels_hash (al_labels (ar_alert r)) \<and> ar_flap_count r \<le> u32_max)"

interpretation alerts: tx_invariant alerts_ok
  by unfold_locales (simp add: alerts_ok_def empty_db_def)

lemma read_alert_iff:
  "alerts_ok db \<Longrightarrow> read_alert f db = Some r \<longleftrightarrow> r \<in> set (db_alerts db) \<and> al_fingerprint (ar_alert r) = f"
proof -
  assume ok: "alerts_ok db"
  have one: "m \<in> set (db_alerts db) \<Longrightarrow> n \<in> set (db_alerts db) \<Longrightarrow> al_fingerprint (ar_alert m) = al_fingerprint (ar_alert n) \<Longrightarrow> m = n" for m n
    using ok by (auto simp: alerts_ok_def distinct_map dest: inj_onD)
  show ?thesis
  proof
    show "read_alert f db = Some r \<Longrightarrow> r \<in> set (db_alerts db) \<and> al_fingerprint (ar_alert r) = f"
      by (auto simp: read_alert_def dest: find_SomeD)
  next
    assume r: "r \<in> set (db_alerts db) \<and> al_fingerprint (ar_alert r) = f"
    then obtain q where q: "read_alert f db = Some q"
      by (cases "read_alert f db") (auto simp: read_alert_def find_None_iff)
    then have "q \<in> set (db_alerts db) \<and> al_fingerprint (ar_alert q) = f"
      by (auto simp: read_alert_def dest: find_SomeD)
    with r one q show "read_alert f db = Some r" by metis
  qed
qed

lemma read_alert_None_iff: "read_alert f db = None \<longleftrightarrow> (\<forall>r \<in> set (db_alerts db). al_fingerprint (ar_alert r) \<noteq> f)"
  by (auto simp: read_alert_def find_None_iff)

lemma find_update_where:
  "(\<And>r. Q r \<Longrightarrow> Q (f r)) \<Longrightarrow> find Q (update_where Q f rows) = map_option f (find Q rows)"
  by (induction rows) (auto simp: update_where_def)

lemma find_append_None: "find Q xs = None \<Longrightarrow> find Q (xs @ ys) = find Q ys"
  by (induction xs) (auto split: if_splits)

lemma find_append_Some: "find Q xs = Some r \<Longrightarrow> find Q (xs @ ys) = Some r"
  by (induction xs) (auto split: if_splits)

lemma read_upsert:
  assumes "upsert_alert a tn at db = Inr (x, db')"
  shows "\<exists>r. read_alert (al_fingerprint a) db' = Some r \<and> ar_alert r = a \<and> ar_last_seen_at r = at \<and>
    ar_resolved_at r = tn_resolved_at tn \<and> ar_flap_count r = tn_flap_count tn"
proof (cases "affected (\<lambda>r. al_fingerprint (ar_alert r) = al_fingerprint a) (db_alerts db) = 0")
  case True
  then have "read_alert (al_fingerprint a) db = None" by (simp add: affected_0_iff read_alert_None_iff)
  with assms True show ?thesis
    by (auto simp: upsert_alert_def Let_def read_alert_def find_append_None)
next
  case False
  then obtain r where "find (\<lambda>r. al_fingerprint (ar_alert r) = al_fingerprint a) (db_alerts db) = Some r"
    by (cases "find (\<lambda>r. al_fingerprint (ar_alert r) = al_fingerprint a) (db_alerts db)")
      (auto simp: affected_0_iff find_None_iff)
  with assms False show ?thesis
    by (auto simp: upsert_alert_def Let_def read_alert_def find_update_where)
qed

lemma read_other:
  assumes "\<And>r. al_fingerprint (ar_alert r) = g \<Longrightarrow> al_fingerprint (ar_alert (h r)) = g" "g \<noteq> f"
  shows "find (\<lambda>r. al_fingerprint (ar_alert r) = f) (update_where (\<lambda>r. al_fingerprint (ar_alert r) = g) h rows) =
    find (\<lambda>r. al_fingerprint (ar_alert r) = f) rows"
  using assms by (induction rows) (auto simp: update_where_def)

lemma upsert_other:
  assumes "upsert_alert a tn at db = Inr (x, db')" "f \<noteq> al_fingerprint a"
  shows "read_alert f db' = read_alert f db"
proof (cases "affected (\<lambda>r. al_fingerprint (ar_alert r) = al_fingerprint a) (db_alerts db) = 0")
  case True
  with assms show ?thesis
    by (cases "find (\<lambda>r. al_fingerprint (ar_alert r) = f) (db_alerts db)")
      (auto simp: upsert_alert_def Let_def read_alert_def find_append_None find_append_Some)
next
  case False
  with assms show ?thesis by (auto simp: upsert_alert_def Let_def read_alert_def read_other)
qed

lemma append_event_frame:
  "append_event a p tn src at db = Inr (x, db') \<Longrightarrow> db_alerts db' = db_alerts db \<and> db_cards db' = db_cards db \<and>
     db_outbox db' = db_outbox db"
  by (auto simp: append_event_def Let_def split: if_splits)

lemma map_read_alert:
  "map_option ar_alert (read_alert f db) = find (\<lambda>x. al_fingerprint x = f) (map ar_alert (db_alerts db))"
proof -
  have "map_option ar_alert (find (\<lambda>r. al_fingerprint (ar_alert r) = f) rows) =
      find (\<lambda>x. al_fingerprint x = f) (map ar_alert rows)" for rows
    by (induction rows) auto
  then show ?thesis by (simp add: read_alert_def)
qed

section \<open>Redelivery\<close>

text \<open>The row an alert of a batch leaves behind, whatever was stored before it.\<close>

definition stored :: "ingest_batch \<Rightarrow> db \<Rightarrow> alert \<Rightarrow> bool" where
  "stored b db a \<longleftrightarrow> (\<exists>r p. read_alert (al_fingerprint a) db = Some r \<and> ar_alert r = carry_over p (batch_alert b a))"

lemma batch_alert_fp [simp]: "al_fingerprint (batch_alert b a) = al_fingerprint a"
  by (simp add: batch_alert_def)

lemma carry_status [simp]: "al_status (carry_over p a) = al_status a"
  by (rule carry_over_simps(3))

lemma read_touch_same:
  "read_alert f db = Some r \<Longrightarrow> touch_alert f at db = Inr (x, db') \<Longrightarrow>
   read_alert f db' = Some (r\<lparr>ar_last_seen_at := at\<rparr>)"
  by (auto simp: touch_alert_def read_alert_def find_update_where)

lemma read_touch_other:
  "touch_alert g at db = Inr (x, db') \<Longrightarrow> f \<noteq> g \<Longrightarrow> read_alert f db' = read_alert f db"
  by (auto simp: touch_alert_def read_alert_def read_other)

lemma ingest_one_total: "\<exists>out' db'. ingest_one regroup persist b a out db = Inr (out', db')"
  by (auto simp: ingest_one_def Let_def tx_bind_def tx_ret_def touch_alert_def upsert_alert_def append_event_def split: option.splits)

lemma ingest_one_stored:
  assumes "ingest_one regroup persist b a out db = Inr (out', db')"
  shows "stored b db' a" "g \<noteq> al_fingerprint a \<Longrightarrow> read_alert g db' = read_alert g db"
proof -
  let ?p = "read_alert (al_fingerprint a) db"
  let ?a = "carry_over ?p (batch_alert b a)"
  have "stored b db' a \<and> (g \<noteq> al_fingerprint a \<longrightarrow> read_alert g db' = read_alert g db)"
  proof (cases "classify ?p ?a (ib_received_at b) regroup")
    case None
    then obtain r where r: "?p = Some r" using classify_new by (cases ?p) auto
    have fp: "al_fingerprint (ar_alert r) = al_fingerprint ?a"
      using r by (auto simp: read_alert_def dest: find_SomeD)
    from None r have "al_status (ar_alert r) = al_status ?a" "\<not> is_material_change (ar_alert r) ?a"
      by (simp_all add: classify_None_iff)
    then have "ar_alert r = ?a" using same_alert_iff [OF fp] by simp
    moreover obtain x where t: "touch_alert (al_fingerprint a) (ib_received_at b) db = Inr (x, db')"
      using assms None by (auto simp: ingest_one_def Let_def tx_bind_Inr_iff)
    ultimately have "\<exists>p. ar_alert (r\<lparr>ar_last_seen_at := ib_received_at b\<rparr>) = carry_over p (batch_alert b a)" by auto
    with read_touch_same [OF r t] read_touch_other [OF t, of g] show ?thesis unfolding stored_def by blast
  next
    case (Some tn)
    then obtain x db1 y where 1: "upsert_alert ?a tn (ib_received_at b) db = Inr (x, db1)"
      "(if persist then append_event ?a ?p tn (ib_source b) (ib_received_at b) else tx_ret ()) db1 = Inr (y, db')"
      using assms by (auto simp: ingest_one_def Let_def tx_bind_Inr_iff)
    have "db_alerts db' = db_alerts db1" using 1(2) append_event_frame by (cases persist) fastforce+
    then have same: "read_alert f db' = read_alert f db1" for f by (simp add: read_alert_def)
    from read_upsert [OF 1(1)] have "stored b db' a" unfolding stored_def same by auto
    moreover have "g \<noteq> al_fingerprint a \<longrightarrow> read_alert g db' = read_alert g db"
      using upsert_other [OF 1(1), of g] by (simp add: same)
    ultimately show ?thesis by blast
  qed
  then show "stored b db' a" "g \<noteq> al_fingerprint a \<Longrightarrow> read_alert g db' = read_alert g db" by blast+
qed

lemma ingest_all_stored:
  "ingest_all regroup persist b as out db = Inr (out', db') \<Longrightarrow> distinct (map al_fingerprint as) \<Longrightarrow>
   (\<forall>a \<in> set as. stored b db' a) \<and> (\<forall>g. g \<notin> al_fingerprint ` set as \<longrightarrow> read_alert g db' = read_alert g db)"
proof (induction as arbitrary: out db)
  case (Cons a as)
  then obtain out1 db1 where 1: "ingest_one regroup persist b a out db = Inr (out1, db1)"
    "ingest_all regroup persist b as out1 db1 = Inr (out', db')"
    by (auto simp: tx_bind_Inr_iff)
  from Cons.IH [OF 1(2)] Cons.prems(2)
  have rest: "\<forall>a \<in> set as. stored b db' a" "\<forall>g. g \<notin> al_fingerprint ` set as \<longrightarrow> read_alert g db' = read_alert g db1" by auto
  have "read_alert (al_fingerprint a) db' = read_alert (al_fingerprint a) db1" using rest(2) Cons.prems(2) by simp
  then have "stored b db' a" using ingest_one_stored(1) [OF 1(1)] by (simp add: stored_def)
  with rest ingest_one_stored(2) [OF 1(1)] show ?case by auto
qed simp

lemma ingest_all_total: "\<exists>out' db'. ingest_all regroup persist b as out db = Inr (out', db')"
proof (induction as arbitrary: out db)
  case (Cons a as)
  from ingest_one_total [of regroup persist b a out db] Cons show ?case by (auto simp: tx_bind_def)
qed (simp add: tx_ret_def)

text \<open>A batch whose alerts are all stored changes nothing but when they were last seen.\<close>

lemma redelivered_one:
  assumes "stored b db a" "ib_group_key b' = ib_group_key b"
  shows "\<exists>db'. ingest_one regroup persist b' a out db =
      Inr (out\<lparr>io_duplicates := sat_add_u32 (io_duplicates out) 1\<rparr>, db') \<and>
    db_events db' = db_events db \<and> db_cards db' = db_cards db \<and> db_outbox db' = db_outbox db \<and>
    map ar_alert (db_alerts db') = map ar_alert (db_alerts db)"
proof -
  obtain r p where r: "read_alert (al_fingerprint a) db = Some r" "ar_alert r = carry_over p (batch_alert b a)"
    using assms(1) by (auto simp: stored_def)
  have "batch_alert b' a = batch_alert b a" by (simp add: batch_alert_def assms(2))
  then have "carry_over (Some r) (batch_alert b' a) = ar_alert r"
    using carry_over_stored [OF r(2)] r(2) by simp
  then have "classify (Some r) (carry_over (Some r) (batch_alert b' a)) t regroup = None" for t
    by (simp add: classify_None_iff is_material_change_def)
  with r(1) show ?thesis
    by (simp add: ingest_one_def Let_def tx_bind_def tx_ret_def touch_alert_def map_update_where)
qed

lemma redelivered_all:
  assumes "\<forall>a \<in> set as. stored b db a" "ib_group_key b' = ib_group_key b"
  shows "\<exists>db' n. ingest_all regroup persist b' as out db = Inr (out\<lparr>io_duplicates := n\<rparr>, db') \<and>
    db_events db' = db_events db \<and> db_cards db' = db_cards db \<and> db_outbox db' = db_outbox db \<and>
    map ar_alert (db_alerts db') = map ar_alert (db_alerts db)"
  using assms(1)
proof (induction as arbitrary: out db)
  case Nil
  show ?case by (auto simp: tx_ret_def intro!: exI [of _ "io_duplicates out"])
next
  case (Cons a as)
  have "stored b db a" using Cons.prems by simp
  from redelivered_one [OF this assms(2), of regroup persist out] obtain db1 where
    1: "ingest_one regroup persist b' a out db = Inr (out\<lparr>io_duplicates := sat_add_u32 (io_duplicates out) 1\<rparr>, db1)"
    "db_events db1 = db_events db" "db_cards db1 = db_cards db" "db_outbox db1 = db_outbox db"
    "map ar_alert (db_alerts db1) = map ar_alert (db_alerts db)" by blast
  have "stored b db1 q" if q: "q \<in> set as" for q
  proof (cases "al_fingerprint q = al_fingerprint a")
    case True
    obtain r r1 p where "read_alert (al_fingerprint q) db = Some r" "ar_alert r = carry_over p (batch_alert b q)"
      using Cons.prems q by (auto simp: stored_def)
    moreover have "map_option ar_alert (read_alert f db1) = map_option ar_alert (read_alert f db)" for f
      by (simp only: map_read_alert 1(5))
    ultimately have "map_option ar_alert (read_alert (al_fingerprint q) db1) = Some (carry_over p (batch_alert b q))"
      by simp
    then show ?thesis by (auto simp: stored_def)
  next
    case False
    with ingest_one_stored(2) [OF 1(1)] Cons.prems q show ?thesis by (auto simp: stored_def)
  qed
  with Cons.IH [of db1 "out\<lparr>io_duplicates := sat_add_u32 (io_duplicates out) 1\<rparr>"] 1 show ?case
    by (auto simp: tx_bind_def)
qed

lemma redelivery:
  assumes "ingest_batch regroup persist b db = (Inr out, db1)" "distinct (map al_fingerprint (ib_alerts b))"
    "ib_alerts b' = ib_alerts b" "ib_group_key b' = ib_group_key b"
  shows "\<exists>out' db2. ingest_batch regroup persist b' db1 = (Inr out', db2) \<and> io_deltas out' = [] \<and>
    db_events db2 = db_events db1 \<and> db_cards db2 = db_cards db1 \<and> db_outbox db2 = db_outbox db1 \<and>
    map ar_alert (db_alerts db2) = map ar_alert (db_alerts db1)"
proof -
  have "ingest_all regroup persist b (ib_alerts b) \<lparr>io_deltas = [], io_duplicates = 0\<rparr> db = Inr (out, db1)"
    using assms(1) by (simp add: ingest_batch_def)
  from ingest_all_stored [OF this assms(2)] have "\<forall>a \<in> set (ib_alerts b). stored b db1 a" by blast
  from redelivered_all [OF this assms(4), of regroup persist "\<lparr>io_deltas = [], io_duplicates = 0\<rparr>"] assms(3)
  show ?thesis by (auto simp: ingest_batch_def run_tx_def)
qed

section \<open>The invariant is kept\<close>

lemma touch_keeps: "alerts.keeps (touch_alert f at)"
proof (rule alerts.keepsI)
  fix db x db'
  assume ok: "alerts_ok db" and t: "touch_alert f at db = Inr (x, db')"
  let ?P = "\<lambda>r. al_fingerprint (ar_alert r) = f"
  let ?u = "update_where ?P (\<lambda>r. r\<lparr>ar_last_seen_at := at\<rparr>) (db_alerts db)"
  have fps: "map (\<lambda>r. al_fingerprint (ar_alert r)) ?u = map (\<lambda>r. al_fingerprint (ar_alert r)) (db_alerts db)"
    by (rule map_update_where) simp
  have "\<forall>r \<in> set ?u. ar_labels_hash r = labels_hash (al_labels (ar_alert r)) \<and> ar_flap_count r \<le> u32_max"
    using ok by (auto simp: alerts_ok_def set_update_where)
  with ok t show "alerts_ok db'" unfolding touch_alert_def alerts_ok_def using fps by auto
qed

lemma upsert_ok:
  assumes ok: "alerts_ok db" and up: "upsert_alert a tn at db = Inr (x, db')" and flap: "tn_flap_count tn \<le> u32_max"
  shows "alerts_ok db'"
proof (cases "affected (\<lambda>r. al_fingerprint (ar_alert r) = al_fingerprint a) (db_alerts db) = 0")
  case True
  then have "al_fingerprint a \<notin> (\<lambda>r. al_fingerprint (ar_alert r)) ` set (db_alerts db)"
    unfolding affected_0_iff by auto
  with True ok up flap show ?thesis by (auto simp: upsert_alert_def Let_def alerts_ok_def)
next
  case False
  let ?P = "\<lambda>r. al_fingerprint (ar_alert r) = al_fingerprint a"
  let ?f = "\<lambda>r. \<lparr>ar_alert = a, ar_labels_hash = labels_hash (al_labels a), ar_first_seen_at = ar_first_seen_at r,
     ar_last_seen_at = at, ar_resolved_at = tn_resolved_at tn, ar_flap_count = tn_flap_count tn, ar_updated_at = at\<rparr>"
  have "map (\<lambda>r. al_fingerprint (ar_alert r)) (update_where ?P ?f (db_alerts db)) =
      map (\<lambda>r. al_fingerprint (ar_alert r)) (db_alerts db)"
    by (rule map_update_where) simp
  moreover have "db' = db\<lparr>db_alerts := update_where ?P ?f (db_alerts db)\<rparr>"
    using False up by (simp add: upsert_alert_def Let_def)
  ultimately show ?thesis using ok flap by (auto simp: alerts_ok_def set_update_where)
qed

lemma append_event_keeps: "alerts.keeps (append_event a p tn src at)"
  by (rule alerts.keepsI) (auto simp: append_event_def Let_def alerts_ok_def split: if_splits)

lemma ingest_one_keeps: "alerts.keeps (ingest_one regroup persist b a out)"
proof (rule alerts.keepsI)
  fix db out' db'
  assume ok: "alerts_ok db" and ing: "ingest_one regroup persist b a out db = Inr (out', db')"
  let ?p = "read_alert (al_fingerprint a) db"
  let ?a = "carry_over ?p (batch_alert b a)"
  show "alerts_ok db'"
  proof (cases "classify ?p ?a (ib_received_at b) regroup")
    case None
    with ing obtain x where "touch_alert (al_fingerprint ?a) (ib_received_at b) db = Inr (x, db')"
      by (auto simp: ingest_one_def Let_def tx_bind_Inr_iff)
    with ok show ?thesis by (rule alerts.keepsD [OF touch_keeps])
  next
    case (Some tn)
    then obtain x db1 y where 1: "upsert_alert ?a tn (ib_received_at b) db = Inr (x, db1)"
      "(if persist then append_event ?a ?p tn (ib_source b) (ib_received_at b) else tx_ret ()) db1 = Inr (y, db')"
      using ing by (auto simp: ingest_one_def Let_def tx_bind_Inr_iff)
    have "tn_flap_count tn \<le> u32_max"
    proof (cases ?p)
      case None
      with Some show ?thesis by (auto simp: classify_def)
    next
      case (Some r)
      then have "ar_flap_count r \<le> u32_max" using ok by (auto simp: read_alert_iff alerts_ok_def)
      with Some \<open>classify ?p ?a (ib_received_at b) regroup = Some tn\<close> show ?thesis by (auto intro: classify_flap_le)
    qed
    from upsert_ok [OF ok 1(1) this] 1(2) show ?thesis
      by (cases persist) (auto dest: alerts.keepsD [OF append_event_keeps])
  qed
qed

lemma ingest_batch_ok: "alerts_ok db \<Longrightarrow> alerts_ok (snd (ingest_batch regroup persist b db))"
proof -
  have "alerts.keeps (ingest_all regroup persist b as out)" for as out
    by (induction as arbitrary: out) (auto intro: alerts.keeps_bind ingest_one_keeps)
  then show "alerts_ok db \<Longrightarrow> alerts_ok (snd (ingest_batch regroup persist b db))"
    unfolding ingest_batch_def by (rule alerts.keeps_run)
qed

end
