(* ===== verification/Sqlite_Audit.thy ===== *)
theory Sqlite_Audit
  imports Cards_Facts Sqlite_Alerts
begin

text \<open>
  The audit log and the retention pass of the SQLite backend (\<open>store/audit.rs\<close>). A pruning statement deletes the first
  \<open>batch_limit\<close> expired rows of its table in key order: the row id of events and audit entries, which is their order in
  the table, the id of cards, the fingerprint of alerts. Deleting an alert deletes its events with it
  (\<open>ON DELETE CASCADE\<close>).
\<close>

definition append_audit :: "audit_entry \<Rightarrow> db \<Rightarrow> (store_error + unit) \<times> db" where
  "append_audit entry = run_tx (\<lambda>db. Inr ((), db\<lparr>db_audit := db_audit db @ [entry]\<rparr>))"

section \<open>Deleting in batches\<close>

text \<open>\<open>DELETE \<dots> WHERE id IN (SELECT id \<dots> ORDER BY id LIMIT n)\<close>, with the number of rows deleted.\<close>

definition first_rows :: "('r \<Rightarrow> bool) \<Rightarrow> ('r \<Rightarrow> 'k::linorder) \<Rightarrow> nat \<Rightarrow> 'r list \<Rightarrow> 'r list" where
  "first_rows P key n rows = take n (sort_key key (filter P rows))"

definition delete_rows :: "('r \<Rightarrow> bool) \<Rightarrow> ('r \<Rightarrow> 'k::linorder) \<Rightarrow> nat \<Rightarrow> 'r list \<Rightarrow> nat \<times> 'r list" where
  "delete_rows P key n rows = (let gone = key ` set (first_rows P key n rows)
     in (affected (\<lambda>r. key r \<in> gone) rows, filter (\<lambda>r. key r \<notin> gone) rows))"

text \<open>The same for a table whose rows lie in key order.\<close>

fun delete_first :: "('r \<Rightarrow> bool) \<Rightarrow> nat \<Rightarrow> 'r list \<Rightarrow> nat \<times> 'r list" where
  "delete_first P n [] = (0, [])"
| "delete_first P n (r # rs) = (if P r \<and> 0 < n then (let (k, left) = delete_first P (n - 1) rs in (Suc k, left))
     else (let (k, left) = delete_first P n rs in (k, r # left)))"

definition settled_before :: "time \<Rightarrow> notification \<Rightarrow> bool" where
  "settled_before cutoff n \<longleftrightarrow> n_state n = Resolved \<and> n_updated_at n < cutoff"

definition resolved_before :: "time \<Rightarrow> alert_record \<Rightarrow> bool" where
  "resolved_before cutoff r \<longleftrightarrow> al_status (ar_alert r) = AResolved \<and>
     (case ar_resolved_at r of None \<Rightarrow> False | Some t \<Rightarrow> t < cutoff)"

definition row_fingerprint :: "alert_record \<Rightarrow> fingerprint" where
  "row_fingerprint r = al_fingerprint (ar_alert r)"

definition prune_tx :: "retention_policy \<Rightarrow> time \<Rightarrow> prune_report tx" where
  "prune_tx p now = (\<lambda>db.
     let n = rp_batch_limit p;
         (events, evs) = delete_first (\<lambda>e. ev_received_at e < now - rp_events p) n (db_events db);
         (cards, ns) = delete_rows (settled_before (now - rp_resolved p)) n_id n (db_cards db);
         (alerts, as) = delete_rows (resolved_before (now - rp_resolved p)) row_fingerprint n (db_alerts db);
         evs' = filter (\<lambda>e. ev_fingerprint e \<in> row_fingerprint ` set as \<or>
           ev_fingerprint e \<notin> row_fingerprint ` set (db_alerts db)) evs;
         (audit, log) = delete_first (\<lambda>e. au_at e < now - rp_audit p) n (db_audit db)
     in Inr (\<lparr>pr_events = events, pr_alerts = alerts, pr_notifications = cards, pr_audit = audit,
         pr_more = (\<exists>k \<in> set [events, cards, alerts, audit]. n \<le> k)\<rparr>,
       db\<lparr>db_events := evs', db_cards := ns, db_alerts := as, db_audit := log\<rparr>))"

definition prune :: "retention_policy \<Rightarrow> time \<Rightarrow> db \<Rightarrow> (store_error + prune_report) \<times> db" where
  "prune p now = run_tx (prune_tx p now)"

section \<open>What a pass deletes\<close>

lemma set_delete_first: "set (snd (delete_first P n rows)) \<subseteq> set rows"
proof (induction rows arbitrary: n)
  case (Cons r rs)
  from Cons.IH [of n] Cons.IH [of "n - 1"] show ?case by (auto simp: split_beta Let_def)
qed simp

lemma left_delete_first: "length (filter P (snd (delete_first P n rows))) = length (filter P rows) - n"
  by (induction rows arbitrary: n) (auto simp: split_beta Let_def)

lemma distinct_delete_first: "distinct (map f rows) \<Longrightarrow> distinct (map f (snd (delete_first P n rows)))"
proof (induction rows arbitrary: n)
  case (Cons r rs)
  then show ?case using set_delete_first [of P n rs] by (auto simp: split_beta Let_def)
qed simp

lemma fst_delete_first: "fst (delete_first P n rows) = min n (length (filter P rows))"
  by (induction rows arbitrary: n) (auto simp: split_beta Let_def)

lemma delete_first_keeps: "\<not> P r \<Longrightarrow> r \<in> set rows \<Longrightarrow> r \<in> set (snd (delete_first P n rows))"
  by (induction rows arbitrary: n) (auto simp: split_beta Let_def)

lemma first_rows_sub: "r \<in> set (first_rows P key n rows) \<Longrightarrow> r \<in> set rows \<and> P r"
  by (auto simp: first_rows_def dest: in_set_takeD)

lemma set_delete_rows: "set (snd (delete_rows P key n rows)) \<subseteq> set rows"
  by (auto simp: delete_rows_def Let_def)

lemma delete_rows_filter: "\<exists>Q. snd (delete_rows P key n rows) = filter Q rows"
  unfolding delete_rows_def Let_def by (intro exI) simp

text \<open>With unique keys, exactly the chosen rows go.\<close>

lemma delete_rows_unique:
  assumes "distinct (map key rows)"
  shows "set (snd (delete_rows P key n rows)) = set rows - set (first_rows P key n rows)"
    "fst (delete_rows P key n rows) = min n (length (filter P rows))"
proof -
  have inj: "inj_on key (set rows)" and dist: "distinct rows" using assms by (simp_all add: distinct_map)
  have mem: "key r \<in> key ` set (first_rows P key n rows) \<longleftrightarrow> r \<in> set (first_rows P key n rows)" if "r \<in> set rows" for r
    using that first_rows_sub [of _ P key n rows] inj by (auto simp: inj_on_def)
  then show "set (snd (delete_rows P key n rows)) = set rows - set (first_rows P key n rows)"
    by (auto simp: delete_rows_def Let_def dest: first_rows_sub)
  have "filter (\<lambda>r. key r \<in> key ` set (first_rows P key n rows)) rows = filter (\<lambda>r. r \<in> set (first_rows P key n rows)) rows"
    using mem by (intro filter_cong) auto
  moreover have "length (filter (\<lambda>r. r \<in> set (first_rows P key n rows)) rows) = card (set (first_rows P key n rows))"
  proof -
    have "distinct (filter (\<lambda>r. r \<in> set (first_rows P key n rows)) rows)" using dist by simp
    then have "length (filter (\<lambda>r. r \<in> set (first_rows P key n rows)) rows) =
        card (set (filter (\<lambda>r. r \<in> set (first_rows P key n rows)) rows))" by (rule distinct_card [symmetric])
    also have "set (filter (\<lambda>r. r \<in> set (first_rows P key n rows)) rows) = set (first_rows P key n rows)"
      by (auto dest: first_rows_sub)
    finally show ?thesis .
  qed
  moreover have "distinct (first_rows P key n rows)" using dist by (simp add: first_rows_def distinct_take)
  then have "card (set (first_rows P key n rows)) = min n (length (filter P rows))"
    by (simp add: distinct_card first_rows_def min.commute)
  ultimately show "fst (delete_rows P key n rows) = min n (length (filter P rows))"
    by (simp add: delete_rows_def Let_def affected_def)
qed

lemma left_delete_rows:
  assumes "distinct (map key rows)"
  shows "length (filter P (snd (delete_rows P key n rows))) = length (filter P rows) - n"
proof -
  have dist: "distinct rows" using assms by (simp add: distinct_map)
  obtain Q where Q: "snd (delete_rows P key n rows) = filter Q rows" using delete_rows_filter [of P key n rows] by blast
  have "length (filter P (filter Q rows)) = card (set (filter P (filter Q rows)))"
    using dist by (intro distinct_card [symmetric]) simp
  also have "set (filter P (filter Q rows)) = set (filter P rows) - set (first_rows P key n rows)"
    using delete_rows_unique(1) [OF assms, of P n] unfolding Q by auto
  also have "card \<dots> = length (filter P rows) - card (set (first_rows P key n rows))"
    using first_rows_sub [of _ P key n rows] dist by (subst card_Diff_subset) (auto simp: distinct_card [symmetric])
  also have "card (set (first_rows P key n rows)) = min n (length (filter P rows))"
    using dist by (subst distinct_card) (auto simp: first_rows_def distinct_take)
  finally show ?thesis by (simp add: Q)
qed

lemma map_filter_filter_distinct:
  assumes "distinct (List.map_filter f xs)"
  shows "distinct (List.map_filter f (filter Q xs))"
proof -
  have "filter (\<lambda>x. f x \<noteq> None) (filter Q xs) = filter Q (filter (\<lambda>x. f x \<noteq> None) xs)"
    by (simp add: conj_commute)
  with assms distinct_map_filter show ?thesis unfolding List.map_filter_def by metis
qed

end
