(* ===== verification/Sqlite_System.thy ===== *)
theory Sqlite_System
  imports Sqlite_Audit
begin

text \<open>
  The whole store: the three components' invariants held at once, the frame of every statement (which
  tables it leaves alone), and that every operation of the backend keeps them all. A store call is a
  value of \<open>store_call\<close>, so a history is a list of calls by any number of workers, pollers and commands
  in any order.
\<close>

section \<open>Frames\<close>

definition frames :: "(db \<Rightarrow> 'v) \<Rightarrow> 'a tx \<Rightarrow> bool" where
  "frames view m \<longleftrightarrow> (\<forall>db x db'. m db = Inr (x, db') \<longrightarrow> view db' = view db)"

lemma framesD: "frames v m \<Longrightarrow> m db = Inr (x, db') \<Longrightarrow> v db' = v db"
  by (auto simp: frames_def)

lemma framesI: "(\<And>db x db'. m db = Inr (x, db') \<Longrightarrow> v db' = v db) \<Longrightarrow> frames v m"
  by (auto simp: frames_def)

lemma frames_ret: "frames v (tx_ret x)"
  by (auto simp: frames_def)

lemma frames_bind: "frames v m \<Longrightarrow> (\<And>x. frames v (f x)) \<Longrightarrow> frames v (tx_bind m f)"
  unfolding frames_def tx_bind_Inr_iff by metis

lemma frames_each: "(\<And>x. frames v (f x)) \<Longrightarrow> frames v (tx_each f xs)"
  by (induction xs) (auto intro: frames_bind frames_ret)

lemma frames_map: "(\<And>x. frames v (f x)) \<Longrightarrow> frames v (tx_map f xs)"
  by (induction xs) (auto intro!: frames_bind frames_ret)

lemma frames_read: "(\<And>d. frames v (f d)) \<Longrightarrow> frames v (\<lambda>db. f db db)"
  unfolding frames_def by blast

lemma frames_run: "frames v m \<Longrightarrow> v (snd (run_tx m db)) = v db"
  by (auto simp: frames_def run_tx_def split: sum.splits)

abbreviation alert_tables :: "db \<Rightarrow> alert_record list \<times> event_row list" where
  "alert_tables db \<equiv> (db_alerts db, db_events db)"

abbreviation queue_tables :: "db \<Rightarrow> outbox_item list \<times> outbox_id" where
  "queue_tables db \<equiv> (db_outbox db, db_next_item db)"

abbreviation card_tables :: "db \<Rightarrow> notification list \<times> notification_id \<times> ack_row list" where
  "card_tables db \<equiv> (db_cards db, db_next_card db, db_acks db)"

lemma write_cards_frames: "frames alert_tables (write_cards ns)" "frames queue_tables (write_cards ns)"
  by (auto intro!: framesI dest!: write_cards_frame)

lemma write_each_frames:
  assumes "frames v (\<lambda>db. write_cards (g db) db)"
  shows "frames v (\<lambda>db. if P db then Inl (e db) else write_cards (g db) db)"
  using assms by (auto simp: frames_def)

lemma update_card_frames: "frames alert_tables (update_card i f)" "frames queue_tables (update_card i f)"
  by (auto intro!: framesI dest!: update_cardD)

lemma insert_item_frames: "frames alert_tables (insert_item it at)" "frames card_tables (insert_item it at)"
  by (auto intro!: framesI simp: insert_item_def)

lemma enqueue_frames: "frames alert_tables (enqueue it at)" "frames card_tables (enqueue it at)"
  by (auto intro!: framesI dest: enqueue_outbox(4-8))

lemma retire_key_frames: "frames alert_tables (retire_key i k)" "frames queue_tables (retire_key i k)"
  unfolding retire_key_def by (rule frames_read, rule write_cards_frames)+

lemma insert_notification_frames:
  "frames alert_tables (insert_notification c)" "frames queue_tables (insert_notification c)"
  by (auto intro!: framesI dest!: insert_notificationD(2))

lemma settle_silence_frames: "frames alert_tables (settle_silence e a now)" "frames card_tables (settle_silence e a now)"
  by (auto intro!: framesI dest!: settle_silence_frame)

lemma delete_item_frames: "frames alert_tables (delete_item i)" "frames card_tables (delete_item i)"
  by (auto intro!: framesI simp: delete_item_def)

lemma take_claim_frames: "frames v (take_claim w i)"
  by (auto intro!: framesI simp: take_claim_def split: option.splits if_splits)

lemma write_silence_frames: "frames alert_tables (write_silence l)" "frames card_tables (write_silence l)"
  "frames queue_tables (write_silence l)"
  by (auto intro!: framesI dest!: write_silence_frame)

lemma write_ack_frames: "frames alert_tables (write_ack c)" "frames queue_tables (write_ack c)"
  by (auto intro!: framesI simp: write_ack_def Let_def split: if_splits)

lemmas card_frames = update_card_frames retire_key_frames insert_notification_frames
lemmas queue_frames = enqueue_frames delete_item_frames settle_silence_frames take_claim_frames

lemma apply_new_card_alerts: "frames alert_tables (apply_new_card at p)"
  unfolding apply_new_card_def
  by (intro frames_bind card_frames queue_frames frames_ret) (auto split: option.split intro: frames_ret retire_key_frames)

lemma apply_update_alerts: "frames alert_tables (apply_update at u)"
  unfolding apply_update_def
  by (intro frames_bind frames_each queue_frames)
    (auto split: option.split simp: set_card_alert_def move_state_def intro: frames_ret update_card_frames)

lemma apply_decision_alerts: "frames alert_tables (apply_decision_tx d)"
  unfolding apply_decision_tx_def
  by (intro frames_bind frames_map frames_each apply_new_card_alerts apply_update_alerts frames_ret)

lemma ack_card_frames: "frames alert_tables (ack_card t a at n)" "frames queue_tables (ack_card t a at n)"
  unfolding ack_card_def
  by (auto split: option.split simp: move_state_def intro!: frames_bind update_card_frames frames_ret)

lemma acknowledge_frame:
  assumes w: "frames v (write_ack c)" "\<And>t a at n. frames v (ack_card t a at n)"
  shows "frames v (acknowledge_tx c)"
proof (rule framesI)
  fix db x db'
  assume "acknowledge_tx c db = Inr (x, db')"
  then obtain ch db1 t a ns y where 1: "write_ack c db = Inr (ch, db1)"
    "(if ch then tx_map (ack_card t a (ac_at c)) ns else tx_ret ns) db1 = Inr (y, db')"
    by (auto simp: acknowledge_tx_def Let_def tx_bind_Inr_iff)
  have "frames v (tx_map (ack_card t a (ac_at c)) ns)" by (intro frames_map w)
  with 1(2) have "v db' = v db1" by (cases ch) (auto dest: framesD)
  with framesD [OF w(1) 1(1)] show "v db' = v db" by simp
qed

lemma acknowledge_frames: "frames alert_tables (acknowledge_tx c)" "frames queue_tables (acknowledge_tx c)"
  by (intro acknowledge_frame write_ack_frames ack_card_frames)+

lemma alert_write_frames:
  "frames card_tables (touch_alert f at)" "frames queue_tables (touch_alert f at)"
  "frames card_tables (upsert_alert a tn at)" "frames queue_tables (upsert_alert a tn at)"
  "frames card_tables (append_event a p tn src at)" "frames queue_tables (append_event a p tn src at)"
  by (auto intro!: framesI simp: touch_alert_def upsert_alert_def append_event_def Let_def split: if_splits)

lemma ingest_one_frame:
  assumes w: "\<And>f at. frames v (touch_alert f at)" "\<And>a tn at. frames v (upsert_alert a tn at)"
      "\<And>a p tn src at. frames v (append_event a p tn src at)"
  shows "frames v (ingest_one rg ps b a out)"
proof (rule framesI)
  fix db x db'
  let ?p = "read_alert (al_fingerprint a) db"
  let ?a = "carry_over ?p (batch_alert b a)"
  assume ing: "ingest_one rg ps b a out db = Inr (x, db')"
  show "v db' = v db"
  proof (cases "classify ?p ?a (ib_received_at b) rg")
    case None
    with ing obtain y where "touch_alert (al_fingerprint ?a) (ib_received_at b) db = Inr (y, db')"
      by (auto simp: ingest_one_def Let_def tx_bind_Inr_iff)
    then show ?thesis by (rule framesD [OF w(1)])
  next
    case (Some tn)
    with ing obtain y z db1 where 1: "upsert_alert ?a tn (ib_received_at b) db = Inr (y, db1)"
      "(if ps then append_event ?a ?p tn (ib_source b) (ib_received_at b) else tx_ret ()) db1 = Inr (z, db')"
      by (auto simp: ingest_one_def Let_def tx_bind_Inr_iff)
    from 1(2) have "v db' = v db1" by (cases ps) (auto dest: framesD [OF w(3)])
    with framesD [OF w(2) 1(1)] show ?thesis by simp
  qed
qed

lemma ingest_one_frames: "frames card_tables (ingest_one rg ps b a out)" "frames queue_tables (ingest_one rg ps b a out)"
  by (intro ingest_one_frame alert_write_frames)+

lemma ingest_all_frames: "frames card_tables (ingest_all rg ps b as out)" "frames queue_tables (ingest_all rg ps b as out)"
  by (induction as arbitrary: out) (auto intro: frames_bind ingest_one_frames frames_ret)

lemma ingest_frame: "card_tables (snd (ingest_batch rg ps b db)) = card_tables db"
  "queue_tables (snd (ingest_batch rg ps b db)) = queue_tables db"
  unfolding ingest_batch_def by (rule frames_run, rule ingest_all_frames)+

section \<open>The whole invariant\<close>

definition db_ok :: "db \<Rightarrow> bool" where
  "db_ok db \<longleftrightarrow> cards_ok db \<and> outbox_ok db \<and> alerts_ok db"

interpretation store: tx_invariant db_ok
  by unfold_locales (simp add: db_ok_def cards.inv_empty queue.inv_empty alerts.inv_empty)

lemma alerts_ok_frame: "alert_tables db' = alert_tables db \<Longrightarrow> alerts_ok db \<Longrightarrow> alerts_ok db'"
  by (simp add: alerts_ok_def)

lemma outbox_ok_frame: "queue_tables db' = queue_tables db \<Longrightarrow> outbox_ok db \<Longrightarrow> outbox_ok db'"
  using outbox_ok_cong [of db' db] by simp

lemma cards_ok_frame: "card_tables db' = card_tables db \<Longrightarrow> cards_ok db \<Longrightarrow> cards_ok db'"
  using cards_ok_cong [of db' db] by simp

lemma outbox_keeps_new_card: "queue.keeps (apply_new_card at p)"
proof -
  have fr: "queue.keeps m" if "frames queue_tables m" for m :: "'x tx"
    by (rule queue.keepsI, rule outbox_ok_frame, rule framesD [OF that])
  show ?thesis unfolding apply_new_card_def
    by (intro queue.keeps_bind enqueue_keeps queue.keeps_ret fr insert_notification_frames)
      (auto split: option.split intro: frames_ret retire_key_frames)
qed

lemma outbox_keeps_update: "queue.keeps (apply_update at u)"
  unfolding apply_update_def
  by (intro queue.keeps_bind queue.keeps_each enqueue_keeps)
    (auto split: option.split simp: set_card_alert_def move_state_def intro: update_card_keeps)

lemma outbox_keeps_decision: "queue.keeps (apply_decision_tx d)"
  unfolding apply_decision_tx_def
  by (intro queue.keeps_bind queue.keeps_each queue.keeps_map queue.keeps_ret outbox_keeps_new_card outbox_keeps_update)

lemma apply_decision_db_ok: "decision_ok d \<Longrightarrow> db_ok db \<Longrightarrow> db_ok (snd (apply_decision d db))"
  unfolding db_ok_def
  using apply_decision_ok queue.keeps_run [OF outbox_keeps_decision]
    alerts_ok_frame [OF frames_run [OF apply_decision_alerts]]
  by (auto simp: apply_decision_def)

lemma ingest_db_ok: "db_ok db \<Longrightarrow> db_ok (snd (ingest_batch rg ps b db))"
  unfolding db_ok_def
  using ingest_batch_ok cards_ok_frame [OF ingest_frame(1)] outbox_ok_frame [OF ingest_frame(2)] by blast

lemma acknowledge_db_ok: "db_ok db \<Longrightarrow> db_ok (snd (acknowledge c db))"
  unfolding db_ok_def
  using acknowledge_ok alerts_ok_frame [OF frames_run [OF acknowledge_frames(1)]]
    outbox_ok_frame [OF frames_run [OF acknowledge_frames(2)]]
  by (auto simp: acknowledge_def)

lemma enqueue_db_ok: "db_ok db \<Longrightarrow> db_ok (snd (enqueue_effects items at db))"
proof -
  have "frames alert_tables (tx_each (\<lambda>i. enqueue i at) items)" "frames card_tables (tx_each (\<lambda>i. enqueue i at) items)"
    by (intro frames_each enqueue_frames)+
  then show "db_ok db \<Longrightarrow> db_ok (snd (enqueue_effects items at db))"
    unfolding db_ok_def using enqueue_effects_ok
    by (auto simp: enqueue_effects_def intro: alerts_ok_frame [OF frames_run] cards_ok_frame [OF frames_run])
qed

section \<open>Any history of calls\<close>

datatype store_call =
    CallIngest duration bool ingest_batch
  | CallDecision decision
  | CallAcknowledge ack_command
  | CallEnqueue "new_outbox_item list" time
  | CallClaim worker_id claim_request time
  | CallComplete worker_id outbox_id applied_effect time
  | CallFail worker_id outbox_id string "time option"
  | CallReclaim time time
  | CallReply thread_reply
  | CallOrphan notification_id time
  | CallSetState notification_id notification_state time
  | CallEscalated notification_id time
  | CallSyncSilences "silence_state list" time
  | CallRecordSilence silence_link
  | CallAudit audit_entry
  | CallPrune retention_policy time

fun run_call :: "store_call \<Rightarrow> db \<Rightarrow> db" where
  "run_call (CallIngest rg ps b) db = snd (ingest_batch rg ps b db)"
| "run_call (CallDecision d) db = snd (apply_decision d db)"
| "run_call (CallAcknowledge c) db = snd (acknowledge c db)"
| "run_call (CallEnqueue items at) db = snd (enqueue_effects items at db)"
| "run_call (CallClaim w req now) db = snd (claim_outbox w req now db)"
| "run_call (CallComplete w i a now) db = snd (complete_outbox w i a now db)"
| "run_call (CallFail w i err retry) db = snd (fail_outbox w i err retry db)"
| "run_call (CallReclaim older now) db = snd (reclaim_expired older now db)"
| "run_call (CallReply r) db = snd (record_reply r db)"
| "run_call (CallOrphan i now) db = snd (orphan_notification i now db)"
| "run_call (CallSetState i s now) db = snd (set_notification_state i s now db)"
| "run_call (CallEscalated i at) db = snd (mark_escalated i at db)"
| "run_call (CallSyncSilences snap now) db = snd (sync_silences snap now db)"
| "run_call (CallRecordSilence link) db = snd (record_silence link db)"
| "run_call (CallAudit entry) db = snd (append_audit entry db)"
| "run_call (CallPrune p now) db = snd (prune p now db)"

text \<open>The one thing asked of a caller: decisions come from the decision function.\<close>

fun call_ok :: "store_call \<Rightarrow> bool" where
  "call_ok (CallDecision d) = decision_ok d"
| "call_ok _ = True"

lemma claim_frame: "alert_tables (snd (claim_outbox w req now db)) = alert_tables db"
  "card_tables (snd (claim_outbox w req now db)) = card_tables db"
  by (auto simp: claim_outbox_def run_tx_def Let_def)

lemma fail_frame: "alert_tables (snd (fail_outbox w i err retry db)) = alert_tables db"
  "card_tables (snd (fail_outbox w i err retry db)) = card_tables db"
proof -
  have gen: "v (snd (fail_outbox w i err retry db)) = v db" if "\<And>db x. v (db\<lparr>db_outbox := x\<rparr>) = v db" for v :: "db \<Rightarrow> 'v"
    unfolding fail_outbox_def
    by (rule frames_run, rule frames_bind [OF take_claim_frames], cases retry)
      (auto simp: delete_item_def that frames_def)
  then show "alert_tables (snd (fail_outbox w i err retry db)) = alert_tables db"
    "card_tables (snd (fail_outbox w i err retry db)) = card_tables db"
    using gen [of alert_tables] gen [of card_tables] by simp_all
qed

lemma complete_alerts: "alert_tables (snd (complete_outbox w i a now db)) = alert_tables db"
  unfolding complete_outbox_def
  by (rule frames_run, intro frames_bind queue_frames)
    (auto split: option.split simp: apply_to_card_def intro: frames_ret update_card_frames)

lemma reclaim_frame: "alert_tables (snd (reclaim_expired older now db)) = alert_tables db"
  "card_tables (snd (reclaim_expired older now db)) = card_tables db"
  by (simp_all add: reclaim_expired_def run_tx_def)

lemma reply_frame: "alert_tables (snd (record_reply r db)) = alert_tables db"
  "queue_tables (snd (record_reply r db)) = queue_tables db"
proof -
  have "v (snd (record_reply r db)) = v db" if w: "\<And>ns. frames v (write_cards ns)" for v :: "db \<Rightarrow> 'v"
    unfolding record_reply_def
  proof (rule frames_run, rule framesI, goal_cases)
    case (1 db x db')
    then show ?case by (auto simp: tx_bind_Inr_iff split: option.splits dest: framesD [OF w])
  qed
  then show "alert_tables (snd (record_reply r db)) = alert_tables db"
    "queue_tables (snd (record_reply r db)) = queue_tables db"
    by (blast intro: write_cards_frames)+
qed

lemma mark_frame: "alert_tables (snd (mark_escalated i at db)) = alert_tables db"
  "queue_tables (snd (mark_escalated i at db)) = queue_tables db"
  by (simp_all add: mark_escalated_def run_tx_def)

lemma card_update_frame: "alert_tables (snd (run_tx (update_card i f) db)) = alert_tables db"
  "queue_tables (snd (run_tx (update_card i f) db)) = queue_tables db"
  by (rule frames_run, rule update_card_frames)+

lemma sync_one_frame:
  assumes "sync_one desired now r (db, ds) = (db', ds')"
  shows "card_tables db' = card_tables db \<and> queue_tables db' = queue_tables db \<and> db_events db' = db_events db \<and>
    (alerts_ok db \<longrightarrow> alerts_ok db')"
proof -
  have ok: "alerts_ok (db\<lparr>db_alerts := update_where P (\<lambda>q. q\<lparr>ar_alert := (ar_alert q)\<lparr>al_silenced_by := x,
      al_am_state := y\<rparr>, ar_updated_at := now\<rparr>) (db_alerts db)\<rparr>)" if "alerts_ok db" for P x y
  proof -
    let ?u = "update_where P (\<lambda>q. q\<lparr>ar_alert := (ar_alert q)\<lparr>al_silenced_by := x, al_am_state := y\<rparr>, ar_updated_at := now\<rparr>) (db_alerts db)"
    have "map (\<lambda>r. al_fingerprint (ar_alert r)) ?u = map (\<lambda>r. al_fingerprint (ar_alert r)) (db_alerts db)"
      by (rule map_update_where) simp
    with that show ?thesis by (auto simp: alerts_ok_def set_update_where)
  qed
  from assms show ?thesis
    by (auto simp: sync_one_def Let_def ok split: if_splits)
qed

lemma sync_fold_frame:
  "fold (sync_one desired now) rs (db, ds) = (db', ds') \<Longrightarrow>
   card_tables db' = card_tables db \<and> queue_tables db' = queue_tables db \<and> db_events db' = db_events db \<and>
   (alerts_ok db \<longrightarrow> alerts_ok db')"
proof (induction rs arbitrary: db ds)
  case (Cons r rs)
  obtain db1 ds1 where 1: "sync_one desired now r (db, ds) = (db1, ds1)" by fastforce
  with Cons.prems have "fold (sync_one desired now) rs (db1, ds1) = (db', ds')" by simp
  from Cons.IH [OF this] sync_one_frame [OF 1] show ?case by simp
qed simp

lemma sync_db_ok: "db_ok db \<Longrightarrow> db_ok (snd (sync_silences snap now db))"
proof -
  assume ok: "db_ok db"
  let ?db = "db\<lparr>db_silences := sync_links snap now (db_silences db)\<rparr>"
  obtain db' ds where f: "fold (sync_one (suppression_map snap) now) (sync_candidates (suppression_map snap) ?db) (?db, []) = (db', ds)"
    by fastforce
  have "alerts_ok ?db" using ok alerts_ok_frame [of ?db db] by (simp add: db_ok_def)
  moreover have "snd (sync_silences snap now db) = db'" using f by (simp add: sync_silences_def run_tx_def Let_def)
  ultimately show ?thesis
    using ok sync_fold_frame [OF f] cards_ok_frame [of db' db] outbox_ok_frame [of db' db]
    by (simp add: db_ok_def)
qed

lemma record_silence_db_ok: "db_ok db \<Longrightarrow> db_ok (snd (record_silence link db))"
  unfolding db_ok_def record_silence_def
  using alerts_ok_frame [OF frames_run [OF write_silence_frames(1)]] cards_ok_frame [OF frames_run [OF write_silence_frames(2)]]
    outbox_ok_frame [OF frames_run [OF write_silence_frames(3)]] by blast

lemma audit_db_ok: "db_ok db \<Longrightarrow> db_ok (snd (append_audit entry db))"
  by (simp add: append_audit_def run_tx_def db_ok_def cards_ok_frame [of _ db] outbox_ok_frame [of _ db] alerts_ok_frame [of _ db])

lemma audit_queue [simp]: "db_outbox (snd (append_audit entry db)) = db_outbox db" "db_outbox (snd (prune p now db)) = db_outbox db"
  by (simp_all add: append_audit_def prune_def prune_tx_def run_tx_def Let_def split_beta)

lemma prune_tables:
  "\<exists>P Q. db_cards (snd (prune p now db)) = filter P (db_cards db) \<and> db_alerts (snd (prune p now db)) = filter Q (db_alerts db) \<and>
     db_next_card (snd (prune p now db)) = db_next_card db \<and> db_acks (snd (prune p now db)) = db_acks db \<and>
     queue_tables (snd (prune p now db)) = queue_tables db \<and> db_silences (snd (prune p now db)) = db_silences db"
  "distinct (map event_key (db_events db)) \<Longrightarrow> distinct (map event_key (db_events (snd (prune p now db))))"
  using delete_rows_filter [of "settled_before (now - rp_resolved p)" n_id "rp_batch_limit p" "db_cards db"]
    delete_rows_filter [of "resolved_before (now - rp_resolved p)" row_fingerprint "rp_batch_limit p" "db_alerts db"]
    distinct_delete_first [of event_key "db_events db" "\<lambda>e. ev_received_at e < now - rp_events p" "rp_batch_limit p"]
  by (auto simp: prune_def prune_tx_def run_tx_def Let_def split_beta distinct_map_filter)

lemma cards_ok_filter:
  assumes "cards_ok db" "db_cards db' = filter P (db_cards db)" "db_next_card db' = db_next_card db" "db_acks db' = db_acks db"
  shows "cards_ok db'"
  using assms map_filter_filter_distinct [of n_message_id "db_cards db" P]
  by (auto simp: cards_ok_def card_ok_def keys_unique_def messages_unique_def distinct_map_filter)

lemma prune_db_ok: "db_ok db \<Longrightarrow> db_ok (snd (prune p now db))"
proof -
  assume ok: "db_ok db"
  obtain P Q where t: "db_cards (snd (prune p now db)) = filter P (db_cards db)"
    "db_alerts (snd (prune p now db)) = filter Q (db_alerts db)" "db_next_card (snd (prune p now db)) = db_next_card db"
    "db_acks (snd (prune p now db)) = db_acks db" "queue_tables (snd (prune p now db)) = queue_tables db"
    using prune_tables(1) by blast
  from ok t have "cards_ok (snd (prune p now db))" by (auto simp: db_ok_def intro: cards_ok_filter)
  moreover from ok t have "outbox_ok (snd (prune p now db))" by (auto simp: db_ok_def intro: outbox_ok_frame)
  moreover from ok t prune_tables(2) have "alerts_ok (snd (prune p now db))"
    by (auto simp: db_ok_def alerts_ok_def distinct_map_filter)
  ultimately show ?thesis by (simp add: db_ok_def)
qed

lemma run_call_ok: "call_ok c \<Longrightarrow> db_ok db \<Longrightarrow> db_ok (run_call c db)"
proof (cases c)
  case (CallClaim w req now)
  then show "db_ok db \<Longrightarrow> db_ok (run_call c db)"
    using claim_outbox_ok alerts_ok_frame [OF claim_frame(1)] cards_ok_frame [OF claim_frame(2)] by (auto simp: db_ok_def)
next
  case (CallComplete w i a now)
  then show "db_ok db \<Longrightarrow> db_ok (run_call c db)"
    using complete_outbox_ok complete_cards_ok alerts_ok_frame [OF complete_alerts] by (auto simp: db_ok_def)
next
  case (CallFail w i err retry)
  then show "db_ok db \<Longrightarrow> db_ok (run_call c db)"
    using fail_outbox_ok alerts_ok_frame [OF fail_frame(1)] cards_ok_frame [OF fail_frame(2)] by (auto simp: db_ok_def)
next
  case (CallReclaim older now)
  then show "db_ok db \<Longrightarrow> db_ok (run_call c db)"
    using reclaim_expired_ok alerts_ok_frame [OF reclaim_frame(1)] cards_ok_frame [OF reclaim_frame(2)] by (auto simp: db_ok_def)
next
  case (CallReply r)
  then show "db_ok db \<Longrightarrow> db_ok (run_call c db)"
    using record_reply_ok alerts_ok_frame [OF reply_frame(1)] outbox_ok_frame [OF reply_frame(2)] by (auto simp: db_ok_def)
next
  case (CallOrphan i now)
  then show "db_ok db \<Longrightarrow> db_ok (run_call c db)"
    using orphan_ok [unfolded orphan_notification_def] alerts_ok_frame [OF card_update_frame(1)] outbox_ok_frame [OF card_update_frame(2)]
    by (auto simp: db_ok_def orphan_notification_def)
next
  case (CallSetState i s now)
  then show "db_ok db \<Longrightarrow> db_ok (run_call c db)"
    using set_state_ok [unfolded set_notification_state_def move_state_def] alerts_ok_frame [OF card_update_frame(1)]
      outbox_ok_frame [OF card_update_frame(2)]
    by (auto simp: db_ok_def set_notification_state_def move_state_def)
next
  case (CallEscalated i at)
  then show "db_ok db \<Longrightarrow> db_ok (run_call c db)"
    using mark_escalated_ok alerts_ok_frame [OF mark_frame(1)] outbox_ok_frame [OF mark_frame(2)] by (auto simp: db_ok_def)
qed (auto intro: ingest_db_ok apply_decision_db_ok acknowledge_db_ok enqueue_db_ok sync_db_ok record_silence_db_ok audit_db_ok prune_db_ok)

lemma history_ok: "list_all call_ok calls \<Longrightarrow> db_ok (fold run_call calls empty_db)"
proof (induction calls rule: rev_induct)
  case Nil
  show ?case using store.inv_empty by simp
next
  case (snoc c calls)
  then show ?case by (simp add: run_call_ok)
qed

end
