(* ===== verification/Runtime_Service.thy ===== *)
theory Runtime_Service
  imports Decide_Facts Sqlite_System
begin

text \<open>
  The pipeline of the runtime crate (\<open>service.rs\<close>, \<open>admin.rs\<close>): what each handler does to the store,
  the storm counter, the poll clocks and the set of notices already said. Alertmanager's answers are
  arguments, and so are the published routing snapshot and the instants \<open>Utc::now()\<close> returns during a
  handler, in the order it reads them. Metrics and log lines are not modelled.
\<close>

section \<open>What Alertmanager fails with\<close>

datatype am_error =
    AmUnreachable string
  | AmTimeout nat
  | AmStatus nat string
  | AmDecode string
  | AmConfig string

fun am_is_retryable :: "am_error \<Rightarrow> bool" where
  "am_is_retryable (AmUnreachable _) = True"
| "am_is_retryable (AmTimeout _) = True"
| "am_is_retryable (AmStatus status _) = (500 \<le> status)"
| "am_is_retryable (AmDecode _) = False"
| "am_is_retryable (AmConfig _) = False"

section \<open>State\<close>

record service_config =
  cf_settings :: decision_settings
  cf_regroup :: duration
  cf_persist_events :: bool
  cf_admin :: "channel_id option"
  cf_lease :: duration
  cf_deadman :: duration

record pipeline =
  pl_db :: db
  pl_counter :: storm_counter
  pl_storm :: storm_state
  pl_last_poll :: int
  pl_previous_poll :: int
  pl_last_webhook :: int
  pl_said :: "string set"

type_synonym clock = "nat \<Rightarrow> time"

type_synonym from_timestamp = "int \<Rightarrow> time option"

definition start_pipeline :: "db \<Rightarrow> storm_counter \<Rightarrow> storm_state \<Rightarrow> pipeline" where
  "start_pipeline db counter storm = \<lparr>pl_db = db, pl_counter = counter, pl_storm = storm, pl_last_poll = 0,
     pl_previous_poll = 0, pl_last_webhook = 0, pl_said = {}\<rparr>"

section \<open>Applying changes\<close>

definition observe_delta :: "routing_snapshot \<Rightarrow> alert_delta \<Rightarrow> storm_counter \<Rightarrow> storm_counter" where
  "observe_delta sn delta = fold (\<lambda>route. observe (rt_id route) (d_observed_at delta))
     (resolve sn (al_labels (d_alert delta)) (alert_severity (d_alert delta)))"

definition count_storm :: "routing_snapshot \<Rightarrow> alert_delta list \<Rightarrow> time \<Rightarrow> pipeline \<Rightarrow> pipeline" where
  "count_storm sn deltas now pl =
     (let (counter, storm) = storm_snapshot now (fold (observe_delta sn) deltas (pl_counter pl))
      in pl\<lparr>pl_counter := counter, pl_storm := storm\<rparr>)"

definition card_places ::
  "from_timestamp \<Rightarrow> routing_snapshot \<Rightarrow> storm_state \<Rightarrow> decision_settings \<Rightarrow> time \<Rightarrow> alert_delta \<Rightarrow>
   (channel_id \<times> dedupe_key) list" where
  "card_places from_ts sn storm ds now delta =
     concat (map (\<lambda>route. map (Pair (delivery_channel (rt_target route))) (dedupe_keys from_ts delta route storm ds now))
       (resolve sn (al_labels (d_alert delta)) (alert_severity (d_alert delta))))"

definition read_places :: "db \<Rightarrow> (channel_id \<times> dedupe_key) list \<Rightarrow> existing_cards" where
  "read_places db places = fold (\<lambda>(ch, k) m. case notification_for k ch db of
     Some c \<Rightarrow> m((ch, k) \<mapsto> c) | None \<Rightarrow> m) places Map.empty"

definition firing_siblings :: "decision_settings \<Rightarrow> alert_delta \<Rightarrow> db \<Rightarrow> alert list" where
  "firing_siblings ds delta db =
     (if is_firing (d_alert delta) \<or> is_exact (ds_identity ds) then []
      else identity_siblings (ds_identity ds) (d_alert delta)
        (map ar_alert (firing_alerts_named (alertname (al_labels (d_alert delta))) db)))"

definition plan_delta ::
  "from_timestamp \<Rightarrow> routing_snapshot \<Rightarrow> storm_state \<Rightarrow> decision_settings \<Rightarrow> time \<Rightarrow> alert_delta \<Rightarrow> db \<Rightarrow> decision" where
  "plan_delta from_ts sn storm ds now delta db =
     (let places = card_places from_ts sn storm ds now delta;
          existing = read_places db places;
          acknowledged = (acknowledgement (al_fingerprint (d_alert delta)) db \<noteq> None \<or>
            list_ex (\<lambda>p. case existing p of Some c \<Rightarrow> n_state c = Acked | None \<Rightarrow> False) places)
      in decide from_ts delta sn storm existing
           \<lparr>cx_acknowledged = acknowledged, cx_firing_siblings = firing_siblings ds delta db\<rparr> ds now)"

definition apply_delta ::
  "from_timestamp \<Rightarrow> routing_snapshot \<Rightarrow> storm_state \<Rightarrow> decision_settings \<Rightarrow> time \<Rightarrow> alert_delta \<Rightarrow> db \<Rightarrow>
   (store_error + unit) \<times> db" where
  "apply_delta from_ts sn storm ds now delta db =
     (let decision = plan_delta from_ts sn storm ds now delta db in
      if decision_empty decision then (Inr (), db)
      else case apply_decision decision db of
          (Inr _, db') \<Rightarrow> (Inr (), db')
        | (Inl (Conflict c), db') \<Rightarrow> (Inr (), db')
        | (Inl e, db') \<Rightarrow> (Inl e, db'))"

fun apply_each ::
  "from_timestamp \<Rightarrow> routing_snapshot \<Rightarrow> storm_state \<Rightarrow> decision_settings \<Rightarrow> time \<Rightarrow> alert_delta list \<Rightarrow> db \<Rightarrow>
   (store_error + unit) \<times> db" where
  "apply_each from_ts sn storm ds now [] db = (Inr (), db)"
| "apply_each from_ts sn storm ds now (d # deltas) db = (case apply_delta from_ts sn storm ds now d db of
     (Inl e, db') \<Rightarrow> (Inl e, db')
   | (Inr _, db') \<Rightarrow> apply_each from_ts sn storm ds now deltas db')"

definition apply_deltas ::
  "from_timestamp \<Rightarrow> service_config \<Rightarrow> routing_snapshot \<Rightarrow> alert_delta list \<Rightarrow> time \<Rightarrow> pipeline \<Rightarrow>
   (store_error + unit) \<times> pipeline" where
  "apply_deltas from_ts cf sn deltas now pl =
     (let counted = count_storm sn deltas now pl;
          (r, db') = apply_each from_ts sn (pl_storm counted) (cf_settings cf) now deltas (pl_db counted)
      in (r, counted\<lparr>pl_db := db'\<rparr>))"

section \<open>Escalation\<close>

definition ESCALATION_BATCH :: nat where "ESCALATION_BATCH = 50"

definition overdue_policy :: "routing_snapshot \<Rightarrow> time \<Rightarrow> notification \<Rightarrow> escalation option" where
  "overdue_policy sn now cd = (case Option.bind (route_by_id sn (n_route_id cd)) rt_escalation of
     None \<Rightarrow> None
   | Some policy \<Rightarrow> (case escalation_after policy of
       None \<Rightarrow> None
     | Some after \<Rightarrow> if now - n_created_at cd < after then None else Some policy))"

fun escalate_cards ::
  "routing_snapshot \<Rightarrow> time \<Rightarrow> notification list \<Rightarrow> nat \<Rightarrow> db \<Rightarrow> (store_error + nat) \<times> db" where
  "escalate_cards sn now [] n db = (Inr n, db)"
| "escalate_cards sn now (cd # cds) n db = (case overdue_policy sn now cd of
     None \<Rightarrow> escalate_cards sn now cds n db
   | Some policy \<Rightarrow> (case mark_escalated (n_id cd) now db of
       (Inl e, db1) \<Rightarrow> (Inl e, db1)
     | (Inr False, db1) \<Rightarrow> escalate_cards sn now cds n db1
     | (Inr True, db1) \<Rightarrow> (case enqueue_effects
           [outbox_now (Escalate (n_id cd) (es_roles policy) (es_users policy)) (n_dedupe_key cd) now] now db1 of
         (Inl e, db2) \<Rightarrow> (Inl e, db2)
       | (Inr _, db2) \<Rightarrow> escalate_cards sn now cds (n + 1) db2)))"

text \<open>
  \<open>None\<close> is a panic: a deadline \<open>chrono::Duration::seconds\<close> refuses, or an instant before
  \<open>DateTime::MIN_UTC\<close>, the parameter \<open>earliest\<close>.
\<close>

definition route_deadlines :: "routing_snapshot \<Rightarrow> duration option list" where
  "route_deadlines sn = map escalation_after (List.map_filter rt_escalation (sn_routes sn))"

definition escalate ::
  "time \<Rightarrow> routing_snapshot \<Rightarrow> time \<Rightarrow> db \<Rightarrow> (store_error + nat) option \<times> db" where
  "escalate earliest sn now db =
     (if route_deadlines sn = [] then (Some (Inr 0), db)
      else if None \<in> set (route_deadlines sn) then (None, db)
      else let soonest = Min (the ` set (route_deadlines sn)) in
        if now - soonest < earliest then (None, db)
        else let (r, db') = escalate_cards sn now (pending_escalations (now - soonest) ESCALATION_BATCH db) 0 db
          in (Some r, db'))"

section \<open>The administrative channel\<close>

definition ADMIN_LANE :: string where "ADMIN_LANE = ''admin''"

definition say :: "service_config \<Rightarrow> string \<Rightarrow> time \<Rightarrow> time \<Rightarrow> pipeline \<Rightarrow> pipeline" where
  "say cf text due at pl = (case cf_admin cf of None \<Rightarrow> pl
     | Some channel \<Rightarrow> pl\<lparr>pl_db := snd (enqueue_effects
         [outbox_now (AdminNotice channel text) (DedupeKey ADMIN_LANE) due] at (pl_db pl))\<rparr>)"

definition say_once :: "service_config \<Rightarrow> string \<Rightarrow> string \<Rightarrow> time \<Rightarrow> time \<Rightarrow> pipeline \<Rightarrow> pipeline" where
  "say_once cf key text due at pl =
     (if cf_admin cf = None then pl
      else if key \<in> pl_said pl then pl
      else say cf text due at (pl\<lparr>pl_said := insert key (pl_said pl)\<rparr>))"

definition forget :: "string \<Rightarrow> pipeline \<Rightarrow> pipeline" where
  "forget key pl = pl\<lparr>pl_said := pl_said pl - {key}\<rparr>"

section \<open>The deadman\<close>

definition DEADMAN_KEY :: string where "DEADMAN_KEY = ''deadman''"

definition num_minutes :: "duration \<Rightarrow> int" where
  "num_minutes d = sgn d * (\<bar>d\<bar> div (60 * usecs_per_sec))"

definition deadman_text :: "duration \<Rightarrow> string" where
  "deadman_text d = ''No webhook has arrived in '' @ show_int (num_minutes d) @
     '' minutes and Alertmanager cannot be reached. Alerts may be firing without anybody being told.''"

definition is_quiet :: "from_timestamp \<Rightarrow> service_config \<Rightarrow> time \<Rightarrow> pipeline \<Rightarrow> bool" where
  "is_quiet from_ts cf now pl \<longleftrightarrow> pl_last_webhook pl \<noteq> 0 \<and>
     (case from_ts (pl_last_webhook pl) of None \<Rightarrow> False | Some last' \<Rightarrow> cf_deadman cf < now - last')"

definition check_deadman ::
  "from_timestamp \<Rightarrow> service_config \<Rightarrow> bool \<Rightarrow> time \<Rightarrow> time \<Rightarrow> time \<Rightarrow> pipeline \<Rightarrow> pipeline" where
  "check_deadman from_ts cf reachable now due at pl =
     (if is_quiet from_ts cf now pl \<and> \<not> reachable
      then say_once cf DEADMAN_KEY (deadman_text (cf_deadman cf)) due at pl
      else forget DEADMAN_KEY pl)"

section \<open>The reconciler\<close>

definition as_resolved :: "time \<Rightarrow> alert_record \<Rightarrow> alert" where
  "as_resolved now r = (ar_alert r)\<lparr>al_status := AResolved,
     al_ends_at := coalesce (al_ends_at (ar_alert r)) (Some now)\<rparr>"

definition resolve_missing ::
  "from_timestamp \<Rightarrow> service_config \<Rightarrow> routing_snapshot \<Rightarrow> fingerprint list \<Rightarrow> time \<Rightarrow> time \<Rightarrow> pipeline \<Rightarrow>
   (store_error + unit) \<times> pipeline" where
  "resolve_missing from_ts cf sn present now applied_at pl =
     (if pl_previous_poll pl = 0 then (Inr (), pl)
      else case from_ts (pl_previous_poll pl) of None \<Rightarrow> (Inr (), pl)
        | Some cutoff \<Rightarrow>
            let missing = firing_not_in present cutoff (pl_db pl) in
            if missing = [] then (Inr (), pl)
            else case ingest_batch (cf_regroup cf) (cf_persist_events cf)
                (new_batch SReconciler (map (as_resolved now) missing) now) (pl_db pl) of
              (Inl e, db') \<Rightarrow> (Inl e, pl\<lparr>pl_db := db'\<rparr>)
            | (Inr outcome, db') \<Rightarrow> apply_deltas from_ts cf sn (io_deltas outcome) applied_at (pl\<lparr>pl_db := db'\<rparr>))"

text \<open>Ingest a polled batch and apply what changed, failures logged only.\<close>

definition reconcile_batch ::
  "from_timestamp \<Rightarrow> service_config \<Rightarrow> routing_snapshot \<Rightarrow> alert list \<Rightarrow> time \<Rightarrow> time \<Rightarrow> pipeline \<Rightarrow> pipeline" where
  "reconcile_batch from_ts cf sn as started applied_at pl =
     (case ingest_batch (cf_regroup cf) (cf_persist_events cf) (new_batch SReconciler as started) (pl_db pl) of
        (Inl e, db') \<Rightarrow> pl\<lparr>pl_db := db'\<rparr>
      | (Inr outcome, db') \<Rightarrow> snd (apply_deltas from_ts cf sn (io_deltas outcome) applied_at (pl\<lparr>pl_db := db'\<rparr>)))"

definition move_polls :: "time \<Rightarrow> pipeline \<Rightarrow> pipeline" where
  "move_polls started pl = pl\<lparr>pl_previous_poll := pl_last_poll pl, pl_last_poll := timestamp started\<rparr>"

definition reconcile ::
  "from_timestamp \<Rightarrow> service_config \<Rightarrow> routing_snapshot \<Rightarrow> (am_error + alert list) \<Rightarrow> clock \<Rightarrow> pipeline \<Rightarrow>
   (am_error + nat) \<times> pipeline" where
  "reconcile from_ts cf sn answer clock pl = (case answer of
     Inl e \<Rightarrow> (Inl e, check_deadman from_ts cf False (clock 0) (clock 1) (clock 2) pl)
   | Inr as \<Rightarrow>
       let pl1 = check_deadman from_ts cf True (clock 0) (clock 1) (clock 2) pl;
           pl2 = reconcile_batch from_ts cf sn as (clock 0) (clock 3) pl1;
           pl3 = snd (resolve_missing from_ts cf sn (map al_fingerprint as) (clock 0) (clock 4) pl2)
       in (Inr (length as), move_polls (clock 0) pl3))"

section \<open>Silences\<close>

record silence_record =
  sr_id :: string
  sr_matchers :: matcher_set
  sr_starts_at :: time
  sr_ends_at :: time
  sr_updated_at :: time
  sr_created_by :: string
  sr_comment :: string
  sr_state :: silence_lifecycle

definition suppressed_fingerprints :: "alert list \<Rightarrow> string \<Rightarrow> fingerprint list" where
  "suppressed_fingerprints as silence_id = map al_fingerprint (filter (\<lambda>a. silence_id \<in> set (al_silenced_by a)) as)"

definition observed_silence :: "alert list \<Rightarrow> time \<Rightarrow> silence_record \<Rightarrow> silence_state" where
  "observed_silence as now s = \<lparr>ss_am_id = sr_id s, ss_suppresses = suppressed_fingerprints as (sr_id s),
     ss_state = sr_state s, ss_ends_at = sr_ends_at s, ss_observed_at = now\<rparr>"

definition sync_service ::
  "from_timestamp \<Rightarrow> service_config \<Rightarrow> routing_snapshot \<Rightarrow> (am_error + silence_record list) \<Rightarrow> (am_error + alert list) \<Rightarrow> clock \<Rightarrow>
   pipeline \<Rightarrow> (am_error + nat) \<times> pipeline" where
  "sync_service from_ts cf sn silences' alerts' clock pl = (case silences' of Inl e \<Rightarrow> (Inl e, pl)
   | Inr sils \<Rightarrow> (case alerts' of Inl e \<Rightarrow> (Inl e, pl)
   | Inr as \<Rightarrow> (Inr (length sils),
       case sync_silences (map (observed_silence as (clock 0)) sils) (clock 0) (pl_db pl) of
         (Inl e, db') \<Rightarrow> pl\<lparr>pl_db := db'\<rparr>
       | (Inr deltas, db') \<Rightarrow> snd (apply_deltas from_ts cf sn deltas (clock 1) (pl\<lparr>pl_db := db'\<rparr>)))))"

section \<open>Leases and the webhook\<close>

text \<open>\<open>chrono::Duration::from_std\<close> refuses what does not fit \<open>i64\<close> milliseconds.\<close>

definition lease_margin :: "duration \<Rightarrow> duration" where
  "lease_margin lease = (if lease * 3 \<le> I64_MAX * 1000 then lease * 3 else seconds 90)"

definition reclaim_leases :: "service_config \<Rightarrow> time \<Rightarrow> db \<Rightarrow> (store_error + nat) \<times> db" where
  "reclaim_leases cf now = reclaim_expired (now - lease_margin (cf_lease cf)) now"

datatype service_error = Unavailable store_error | Rejected string | Internal store_error

record ingest_accepted =
  ia_accepted :: nat
  ia_duplicates :: nat

definition ingest ::
  "from_timestamp \<Rightarrow> service_config \<Rightarrow> routing_snapshot \<Rightarrow> ingest_batch \<Rightarrow> time \<Rightarrow> pipeline \<Rightarrow>
   (service_error + ingest_accepted) \<times> pipeline" where
  "ingest from_ts cf sn request now pl =
     (let stamped = pl\<lparr>pl_last_webhook := timestamp (ib_received_at request)\<rparr> in
      case ingest_batch (cf_regroup cf) (cf_persist_events cf) request (pl_db stamped) of
        (Inl e, db') \<Rightarrow> (Inl (if is_retryable e then Unavailable e else Internal e), stamped\<lparr>pl_db := db'\<rparr>)
      | (Inr outcome, db') \<Rightarrow>
          (case apply_deltas from_ts cf sn (io_deltas outcome) now (stamped\<lparr>pl_db := db'\<rparr>) of
             (Inl e, pl') \<Rightarrow> (Inl (Unavailable e), pl')
           | (Inr _, pl') \<Rightarrow> (Inr \<lparr>ia_accepted = min (length (io_deltas outcome)) u32_max,
               ia_duplicates = io_duplicates outcome\<rparr>, pl')))"

definition last_poll_age :: "time \<Rightarrow> pipeline \<Rightarrow> nat option" where
  "last_poll_age now pl = (if pl_last_poll pl = 0 then None else Some (nat (max (timestamp now - pl_last_poll pl) 0)))"

end
