(* ===== verification/Sqlite_Silences.thy ===== *)
theory Sqlite_Silences
  imports Sqlite_System Decide_Facts
begin

text \<open>
  What a silence sync leaves behind (\<open>sync_silences\<close> of \<open>store/alerts.rs\<close>): whatever the rows said before,
  every alert ends up carrying exactly the silences in force against it.
\<close>

definition in_force :: "suppression \<Rightarrow> fingerprint \<Rightarrow> string list" where
  "in_force desired f = (case bt_get desired f of Some ids \<Rightarrow> ids | None \<Rightarrow> [])"

lemma sync_one_alerts:
  assumes "sync_one desired now r (db, ds) = (db', ds')"
  shows "map (\<lambda>q. al_fingerprint (ar_alert q)) (db_alerts db') = map (\<lambda>q. al_fingerprint (ar_alert q)) (db_alerts db)"
    "q \<in> set (db_alerts db') \<Longrightarrow> al_fingerprint (ar_alert q) \<noteq> al_fingerprint (ar_alert r) \<Longrightarrow> q \<in> set (db_alerts db)"
    "q \<in> set (db_alerts db') \<Longrightarrow> al_fingerprint (ar_alert q) = al_fingerprint (ar_alert r) \<Longrightarrow>
      al_silenced_by (ar_alert q) = in_force desired (al_fingerprint (ar_alert r)) \<or>
      (q \<in> set (db_alerts db) \<and> in_force desired (al_fingerprint (ar_alert r)) = al_silenced_by (ar_alert r))"
proof -
  let ?ids = "in_force desired (al_fingerprint (ar_alert r))"
  let ?P = "\<lambda>q. al_fingerprint (ar_alert q) = al_fingerprint (ar_alert r)"
  let ?g = "\<lambda>q. q\<lparr>ar_alert := (ar_alert q)\<lparr>al_silenced_by := ?ids, al_am_state := al_am_state (ar_alert (resuppressed ?ids r))\<rparr>, ar_updated_at := now\<rparr>"
  have "db_alerts db' = (if ?ids = al_silenced_by (ar_alert r) then db_alerts db else update_where ?P ?g (db_alerts db))"
    using assms by (auto simp: sync_one_def Let_def in_force_def resuppressed_def split: if_splits)
  then consider "db_alerts db' = db_alerts db" "?ids = al_silenced_by (ar_alert r)" | "db_alerts db' = update_where ?P ?g (db_alerts db)"
    by (auto split: if_splits)
  then have "map (\<lambda>q. al_fingerprint (ar_alert q)) (db_alerts db') = map (\<lambda>q. al_fingerprint (ar_alert q)) (db_alerts db) \<and>
    (\<forall>q \<in> set (db_alerts db'). (\<not> ?P q \<longrightarrow> q \<in> set (db_alerts db)) \<and>
       (?P q \<longrightarrow> al_silenced_by (ar_alert q) = ?ids \<or> (q \<in> set (db_alerts db) \<and> ?ids = al_silenced_by (ar_alert r))))"
  proof cases
    case 1
    then show ?thesis by simp
  next
    case 2
    have "map (\<lambda>q. al_fingerprint (ar_alert q)) (update_where ?P ?g (db_alerts db)) = map (\<lambda>q. al_fingerprint (ar_alert q)) (db_alerts db)"
      by (rule map_update_where) simp
    with 2 show ?thesis by (auto simp: set_update_where)
  qed
  then show "map (\<lambda>q. al_fingerprint (ar_alert q)) (db_alerts db') = map (\<lambda>q. al_fingerprint (ar_alert q)) (db_alerts db)"
    "q \<in> set (db_alerts db') \<Longrightarrow> al_fingerprint (ar_alert q) \<noteq> al_fingerprint (ar_alert r) \<Longrightarrow> q \<in> set (db_alerts db)"
    "q \<in> set (db_alerts db') \<Longrightarrow> al_fingerprint (ar_alert q) = al_fingerprint (ar_alert r) \<Longrightarrow>
      al_silenced_by (ar_alert q) = ?ids \<or> (q \<in> set (db_alerts db) \<and> ?ids = al_silenced_by (ar_alert r))"
    by blast+
qed

text \<open>Processing distinct rows, each read off the table as it was: the processed ones carry what is in force.\<close>

lemma sync_fold_alerts:
  assumes "fold (sync_one desired now) rs (db, ds) = (db', ds')" "distinct (map (\<lambda>r. al_fingerprint (ar_alert r)) rs)"
    "\<forall>r \<in> set rs. \<forall>q \<in> set (db_alerts db). al_fingerprint (ar_alert q) = al_fingerprint (ar_alert r) \<longrightarrow> q = r"
  shows "\<forall>q \<in> set (db_alerts db').
    (al_fingerprint (ar_alert q) \<in> (\<lambda>r. al_fingerprint (ar_alert r)) ` set rs \<longrightarrow>
       al_silenced_by (ar_alert q) = in_force desired (al_fingerprint (ar_alert q))) \<and>
    (al_fingerprint (ar_alert q) \<notin> (\<lambda>r. al_fingerprint (ar_alert r)) ` set rs \<longrightarrow> q \<in> set (db_alerts db))"
  using assms
proof (induction rs arbitrary: db ds rule: list.induct)
  case (Cons r rs)
  obtain db1 ds1 where 1: "sync_one desired now r (db, ds) = (db1, ds1)" by fastforce
  note s = sync_one_alerts [OF 1]
  have rest: "\<forall>r' \<in> set rs. \<forall>q \<in> set (db_alerts db1). al_fingerprint (ar_alert q) = al_fingerprint (ar_alert r') \<longrightarrow> q = r'"
  proof (intro ballI impI)
    fix r' q
    assume r': "r' \<in> set rs" and q: "q \<in> set (db_alerts db1)" "al_fingerprint (ar_alert q) = al_fingerprint (ar_alert r')"
    have "al_fingerprint (ar_alert r) \<notin> (\<lambda>r. al_fingerprint (ar_alert r)) ` set rs" using Cons.prems(2) by simp
    then have "al_fingerprint (ar_alert r') \<noteq> al_fingerprint (ar_alert r)" using rev_image_eqI [OF r'] by metis
    with s(2) [OF q(1)] q(2) Cons.prems(3) r' show "q = r'" by simp
  qed
  have "fold (sync_one desired now) rs (db1, ds1) = (db', ds')" using Cons.prems(1) 1 by simp
  from Cons.IH [OF this _ rest] Cons.prems(2) have ih: "q \<in> set (db_alerts db') \<Longrightarrow>
      (al_fingerprint (ar_alert q) \<in> (\<lambda>r. al_fingerprint (ar_alert r)) ` set rs \<longrightarrow>
         al_silenced_by (ar_alert q) = in_force desired (al_fingerprint (ar_alert q))) \<and>
      (al_fingerprint (ar_alert q) \<notin> (\<lambda>r. al_fingerprint (ar_alert r)) ` set rs \<longrightarrow> q \<in> set (db_alerts db1))" for q
    by simp
  show ?case
  proof
    fix q
    assume q: "q \<in> set (db_alerts db')"
    show "(al_fingerprint (ar_alert q) \<in> (\<lambda>r. al_fingerprint (ar_alert r)) ` set (r # rs) \<longrightarrow>
         al_silenced_by (ar_alert q) = in_force desired (al_fingerprint (ar_alert q))) \<and>
      (al_fingerprint (ar_alert q) \<notin> (\<lambda>r. al_fingerprint (ar_alert r)) ` set (r # rs) \<longrightarrow> q \<in> set (db_alerts db))"
    proof (cases "al_fingerprint (ar_alert q) \<in> (\<lambda>r. al_fingerprint (ar_alert r)) ` set rs")
      case True
      with ih [OF q] show ?thesis by simp
    next
      case False
      with ih [OF q] have q1: "q \<in> set (db_alerts db1)" by simp
      show ?thesis
      proof (cases "al_fingerprint (ar_alert q) = al_fingerprint (ar_alert r)")
        case True
        from s(3) [OF q1 True] Cons.prems(3) True show ?thesis by auto
      next
        case False
        with s(2) [OF q1] \<open>al_fingerprint (ar_alert q) \<notin> _\<close> show ?thesis by auto
      qed
    qed
  qed
qed simp

lemma bex_one: "(\<exists>f \<in> K. f \<notin> A \<and> S \<and> g = f) \<longleftrightarrow> S \<and> g \<in> K \<and> g \<notin> A"
  by blast

lemma sync_silences_exact:
  assumes ok: "alerts_ok db" and r: "r \<in> set (db_alerts (snd (sync_silences snap now db)))"
  shows "al_silenced_by (ar_alert r) = dedup (sort (in_force_ids snap (al_fingerprint (ar_alert r))))"
proof -
  let ?db = "db\<lparr>db_silences := sync_links snap now (db_silences db)\<rparr>"
  let ?m = "suppression_map snap"
  let ?fp = "\<lambda>r. al_fingerprint (ar_alert r)"
  obtain db' ds where f: "fold (sync_one ?m now) (sync_candidates ?m ?db) (?db, []) = (db', ds)" by fastforce
  have ok': "alerts_ok ?db" using ok by (simp add: alerts_ok_def)
  have one: "q = q'" if "q \<in> set (db_alerts db)" "q' \<in> set (db_alerts db)" "?fp q = ?fp q'" for q q'
    using ok that by (auto simp: alerts_ok_def distinct_map dest: inj_onD)
  let ?stored = "filter (\<lambda>r. al_silenced_by (ar_alert r) \<noteq> []) (db_alerts db)"
  let ?extra = "List.map_filter (\<lambda>f. if f \<in> ?fp ` set ?stored then None else read_alert f ?db) (map fst ?m)"
  have cand: "sync_candidates ?m ?db = ?stored @ ?extra" by (simp add: sync_candidates_def Let_def)
  have ex: "q \<in> set ?extra \<longleftrightarrow> q \<in> set (db_alerts db) \<and> ?fp q \<in> fst ` set ?m \<and> ?fp q \<notin> ?fp ` set ?stored" for q
  proof -
    have rd: "read_alert f ?db = Some q \<longleftrightarrow> q \<in> set (db_alerts db) \<and> ?fp q = f" for f
      by (simp add: read_alert_iff [OF ok'])
    have "q \<in> set ?extra \<longleftrightarrow> (\<exists>f \<in> fst ` set ?m. f \<notin> ?fp ` set ?stored \<and> read_alert f ?db = Some q)"
      unfolding map_filter_mem set_map by (intro bex_cong refl) simp
    then show ?thesis unfolding rd bex_one .
  qed
  have "distinct (map ?fp ?extra)"
  proof -
    have "distinct fs \<Longrightarrow> distinct (map ?fp (List.map_filter (\<lambda>f. if f \<in> A then None else read_alert f ?db) fs))" for fs A
    proof (induction fs)
      case (Cons f fs)
      then show ?case by (auto simp: List.map_filter_simps map_filter_mem read_alert_iff [OF ok'] split: option.splits if_splits)
    qed (simp add: List.map_filter_simps)
    moreover have "distinct (map fst ?m)" using suppression_map_wf [of snap] by (simp add: bt_wf_def strict_sorted_iff)
    ultimately show ?thesis by blast
  qed
  then have dist: "distinct (map ?fp (sync_candidates ?m ?db))"
    using ok ex unfolding cand by (auto simp: alerts_ok_def distinct_map_filter)
  have sub: "\<forall>c \<in> set (sync_candidates ?m ?db). \<forall>q \<in> set (db_alerts ?db). ?fp q = ?fp c \<longrightarrow> q = c"
    using one ex unfolding cand by auto
  have r': "r \<in> set (db_alerts db')" using r f by (simp add: sync_silences_def run_tx_def Let_def)
  have inf: "in_force ?m (?fp r) = dedup (sort (in_force_ids snap (?fp r)))"
    by (simp add: in_force_def suppression_map_get)
  show ?thesis
  proof (cases "?fp r \<in> ?fp ` set (sync_candidates ?m ?db)")
    case True
    with sync_fold_alerts [OF f dist sub] r' inf show ?thesis by simp
  next
    case False
    then have "r \<in> set (db_alerts db)" using sync_fold_alerts [OF f dist sub] r' by simp
    then have "al_silenced_by (ar_alert r) = []" "?fp r \<notin> fst ` set ?m"
      using False ex unfolding cand by auto
    moreover from this(2) have "bt_get ?m (?fp r) = None" by (simp add: map_of_eq_None_iff)
    then have "in_force ?m (?fp r) = []" by (simp add: in_force_def)
    ultimately show ?thesis using inf by simp
  qed
qed

end
