(* ===== verification/Service_Facts.thy ===== *)
theory Service_Facts
  imports Runtime_Service Sqlite_Silences
begin

text \<open>
  Facts about the handlers: what they read of the store is what the decision assumes, every handler keeps
  the store's invariant, when the reconciler resolves an alert, which cards a sweep escalates, and when
  the deadman speaks.
\<close>

section \<open>What a decision is given\<close>

lemma read_places_eq:
  "read_places db places (ch, k) = (if (ch, k) \<in> set places then notification_for k ch db else None)"
proof -
  have "fold (\<lambda>(ch, k) m. case notification_for k ch db of Some c \<Rightarrow> m((ch, k) \<mapsto> c) | None \<Rightarrow> m) places m (ch, k) =
      (if (ch, k) \<in> set places \<and> notification_for k ch db \<noteq> None then notification_for k ch db else m (ch, k))" for m
    by (induction places arbitrary: m) (auto split: option.splits prod.splits)
  then show ?thesis by (auto simp: read_places_def)
qed

lemma places_mem:
  "(ch, k) \<in> set (card_places from_ts sn storm ds now delta) \<longleftrightarrow>
   (\<exists>route \<in> set (routes_for delta sn). ch = delivery_channel (rt_target route) \<and> k \<in> set (dedupe_keys from_ts delta route storm ds now))"
  by (auto simp: card_places_def routes_for_def)

text \<open>The lookup misses nothing the decision asks for: it reads exactly the keys the decision computes.\<close>

lemma read_place_of_route:
  assumes "route \<in> set (routes_for delta sn)" "k \<in> set (dedupe_keys from_ts delta route storm ds now)"
  shows "read_places db (card_places from_ts sn storm ds now delta) (delivery_channel (rt_target route), k) =
    notification_for k (delivery_channel (rt_target route)) db"
  using assms by (auto simp: read_places_eq places_mem)

section \<open>Every handler keeps the invariant\<close>

lemma dedupe_keys_live: "k \<in> set (dedupe_keys from_ts delta route storm ds now) \<Longrightarrow> key_retirement k = None"
  by (auto simp: dedupe_keys_def digest_key_def Let_def split: if_splits option.splits group_strategy.splits)

lemma decide_decision_ok: "decision_ok (decide from_ts delta sn storm ex cx ds now)"
  unfolding decision_ok_def
proof
  fix p
  assume mem: "p \<in> set (de_new_cards (decide from_ts delta sn storm ex cx ds now))"
  show "nn_state (pc_card p) \<noteq> Resolved \<and> key_retirement (nn_dedupe_key (pc_card p)) = None"
  proof (rule decide_new_cardE [OF mem])
    fix route old
    assume "creation_for delta route (delivery_channel (rt_target route))
        (dedupe_key from_ts delta route storm ds now) False (alert_severity (d_alert delta)) (map_option n_id old) now = Some p"
    then have "nn_dedupe_key (pc_card p) = dedupe_key from_ts delta route storm ds now"
      "nn_state (pc_card p) \<in> {Silenced, Firing}" unfolding creation_for_Some by simp_all
    with dedupe_keys_live [OF dedupe_key_mem] show ?thesis by auto
  qed
qed

lemma apply_delta_frame: "alert_tables (snd (apply_delta from_ts sn storm ds now delta db)) = alert_tables db"
proof -
  have "alert_tables (snd (apply_decision d db)) = alert_tables db" for d
    unfolding apply_decision_def by (rule frames_run [OF apply_decision_alerts])
  then show ?thesis
    by (auto simp: apply_delta_def Let_def split: prod.splits sum.splits store_error.splits) (metis snd_conv)+
qed

lemma apply_delta_ok: "db_ok db \<Longrightarrow> db_ok (snd (apply_delta from_ts sn storm ds now delta db))"
proof -
  assume ok: "db_ok db"
  have "decision_ok (plan_delta from_ts sn storm ds now delta db)"
    by (simp add: plan_delta_def Let_def decide_decision_ok)
  from apply_decision_db_ok [OF this ok] show ?thesis
    by (auto simp: apply_delta_def Let_def ok split: prod.splits sum.splits store_error.splits)
qed

lemma apply_each_ok: "db_ok db \<Longrightarrow> db_ok (snd (apply_each from_ts sn storm ds now deltas db))"
proof (induction deltas arbitrary: db)
  case (Cons d deltas)
  from Cons.IH [OF apply_delta_ok [OF Cons.prems]] apply_delta_ok [OF Cons.prems] show ?case
    by (auto split: prod.splits sum.splits) (metis snd_conv)+
qed simp

lemma apply_each_frame: "alert_tables (snd (apply_each from_ts sn storm ds now deltas db)) = alert_tables db"
proof (induction deltas arbitrary: db)
  case (Cons d deltas)
  obtain r db1 where 1: "apply_delta from_ts sn storm ds now d db = (r, db1)" by fastforce
  with apply_delta_frame [of from_ts sn storm ds now d db] have "alert_tables db1 = alert_tables db" by simp
  with 1 Cons.IH [of db1] show ?case by (cases r) simp_all
qed simp

lemma count_storm_simps [simp]:
  "pl_db (count_storm sn deltas now pl) = pl_db pl" "pl_last_poll (count_storm sn deltas now pl) = pl_last_poll pl"
  "pl_previous_poll (count_storm sn deltas now pl) = pl_previous_poll pl"
  "pl_said (count_storm sn deltas now pl) = pl_said pl"
  "pl_last_webhook (count_storm sn deltas now pl) = pl_last_webhook pl"
  by (simp_all add: count_storm_def Let_def split: prod.splits)

lemma apply_deltas_db:
  "pl_db (snd (apply_deltas from_ts cf sn deltas now pl)) =
     snd (apply_each from_ts sn (pl_storm (count_storm sn deltas now pl)) (cf_settings cf) now deltas (pl_db pl))"
  by (simp add: apply_deltas_def Let_def split: prod.splits)

lemma apply_deltas_simps [simp]:
  "pl_last_poll (snd (apply_deltas from_ts cf sn deltas now pl)) = pl_last_poll pl"
  "pl_previous_poll (snd (apply_deltas from_ts cf sn deltas now pl)) = pl_previous_poll pl"
  "pl_said (snd (apply_deltas from_ts cf sn deltas now pl)) = pl_said pl"
  "pl_last_webhook (snd (apply_deltas from_ts cf sn deltas now pl)) = pl_last_webhook pl"
  by (simp_all add: apply_deltas_def Let_def split: prod.splits)

lemma apply_deltas_ok: "db_ok (pl_db pl) \<Longrightarrow> db_ok (pl_db (snd (apply_deltas from_ts cf sn deltas now pl)))"
  by (simp add: apply_deltas_db apply_each_ok)

lemma apply_deltas_alerts:
  "alert_tables (pl_db (snd (apply_deltas from_ts cf sn deltas now pl))) = alert_tables (pl_db pl)"
  unfolding apply_deltas_db by (rule apply_each_frame)

lemma no_deltas_db: "pl_db (snd (apply_deltas from_ts cf sn [] now pl)) = pl_db pl"
  by (simp add: apply_deltas_db)

lemma say_ok: "db_ok (pl_db pl) \<Longrightarrow> db_ok (pl_db (say cf text due at pl))"
  by (simp add: say_def enqueue_db_ok split: option.split)

lemma say_simps [simp]:
  "pl_last_poll (say cf text due at pl) = pl_last_poll pl" "pl_previous_poll (say cf text due at pl) = pl_previous_poll pl"
  "pl_said (say cf text due at pl) = pl_said pl" "pl_last_webhook (say cf text due at pl) = pl_last_webhook pl"
  by (simp_all add: say_def split: option.split)

lemma check_deadman_simps [simp]:
  "pl_last_poll (check_deadman from_ts cf up now due at pl) = pl_last_poll pl"
  "pl_previous_poll (check_deadman from_ts cf up now due at pl) = pl_previous_poll pl"
  "pl_last_webhook (check_deadman from_ts cf up now due at pl) = pl_last_webhook pl"
  by (simp_all add: check_deadman_def say_once_def forget_def)

lemma check_deadman_ok: "db_ok (pl_db pl) \<Longrightarrow> db_ok (pl_db (check_deadman from_ts cf up now due at pl))"
  by (simp add: check_deadman_def say_once_def forget_def say_ok)

lemma check_deadman_up: "check_deadman from_ts cf True now due at pl = forget DEADMAN_KEY pl"
  by (simp add: check_deadman_def)

lemma forget_simps [simp]:
  "pl_db (forget k pl) = pl_db pl" "pl_last_poll (forget k pl) = pl_last_poll pl"
  "pl_previous_poll (forget k pl) = pl_previous_poll pl" "pl_last_webhook (forget k pl) = pl_last_webhook pl"
  by (simp_all add: forget_def)

lemma reconcile_batch_simps [simp]:
  "pl_last_poll (reconcile_batch from_ts cf sn as started at pl) = pl_last_poll pl"
  "pl_previous_poll (reconcile_batch from_ts cf sn as started at pl) = pl_previous_poll pl"
  by (simp_all add: reconcile_batch_def split: prod.splits sum.splits)

lemma ingest_batch_total: "\<exists>out. ingest_batch rg ps b db = (Inr out, snd (ingest_batch rg ps b db))"
proof -
  have "\<exists>out' db'. ingest_all rg ps b as out db = Inr (out', db')" for as out
  proof (induction as arbitrary: out db)
    case (Cons a as)
    obtain out1 db1 where 1: "ingest_one rg ps b a out db = Inr (out1, db1)" using ingest_one_total by blast
    from Cons.IH [of out1 db1] show ?case by (simp add: tx_bind_def 1)
  qed (simp add: tx_ret_def)
  then obtain out db' where "ingest_all rg ps b (ib_alerts b) \<lparr>io_deltas = [], io_duplicates = 0\<rparr> db = Inr (out, db')"
    by blast
  then show ?thesis by (simp add: ingest_batch_def run_tx_def)
qed

lemma reconcile_batch_alerts:
  "alert_tables (pl_db (reconcile_batch from_ts cf sn as started at pl)) =
     alert_tables (snd (ingest_batch (cf_regroup cf) (cf_persist_events cf) (new_batch SReconciler as started) (pl_db pl)))"
proof -
  obtain out db' where 1: "ingest_batch (cf_regroup cf) (cf_persist_events cf) (new_batch SReconciler as started) (pl_db pl) = (Inr out, db')"
    using ingest_batch_total by blast
  then have "pl_db (reconcile_batch from_ts cf sn as started at pl) =
      pl_db (snd (apply_deltas from_ts cf sn (io_deltas out) at (pl\<lparr>pl_db := db'\<rparr>)))"
    by (simp add: reconcile_batch_def)
  with apply_deltas_alerts [of from_ts cf sn "io_deltas out" at "pl\<lparr>pl_db := db'\<rparr>"] 1 show ?thesis by simp
qed

lemma reconcile_batch_ok: "db_ok (pl_db pl) \<Longrightarrow> db_ok (pl_db (reconcile_batch from_ts cf sn as started at pl))"
proof -
  assume ok: "db_ok (pl_db pl)"
  obtain out db' where 1: "ingest_batch (cf_regroup cf) (cf_persist_events cf) (new_batch SReconciler as started) (pl_db pl) = (Inr out, db')"
    using ingest_batch_total by blast
  from ingest_db_ok [OF ok] 1 have "db_ok db'" by (metis snd_conv)
  with 1 show ?thesis by (simp add: reconcile_batch_def apply_deltas_ok)
qed

lemma resolve_missing_simps [simp]:
  "pl_last_poll (snd (resolve_missing from_ts cf sn present now at pl)) = pl_last_poll pl"
  "pl_previous_poll (snd (resolve_missing from_ts cf sn present now at pl)) = pl_previous_poll pl"
  by (auto simp: resolve_missing_def Let_def split: option.splits prod.splits sum.splits)

text \<open>What the reconciler resolves, once it has a poll to compare with.\<close>

definition missing_since :: "from_timestamp \<Rightarrow> fingerprint list \<Rightarrow> pipeline \<Rightarrow> alert_record list" where
  "missing_since from_ts present pl = (if pl_previous_poll pl = 0 then []
     else case from_ts (pl_previous_poll pl) of None \<Rightarrow> [] | Some cutoff \<Rightarrow> firing_not_in present cutoff (pl_db pl))"

abbreviation resolving_batch :: "from_timestamp \<Rightarrow> fingerprint list \<Rightarrow> time \<Rightarrow> pipeline \<Rightarrow> ingest_batch" where
  "resolving_batch from_ts present now pl \<equiv>
     new_batch SReconciler (map (as_resolved now) (missing_since from_ts present pl)) now"

lemma resolve_missing_none: "missing_since from_ts present pl = [] \<Longrightarrow> resolve_missing from_ts cf sn present now at pl = (Inr (), pl)"
  by (simp add: resolve_missing_def missing_since_def split: option.splits if_splits)

lemma resolve_missing_some:
  assumes "missing_since from_ts present pl \<noteq> []"
  obtains out db' where
    "ingest_batch (cf_regroup cf) (cf_persist_events cf) (resolving_batch from_ts present now pl) (pl_db pl) = (Inr out, db')"
    "resolve_missing from_ts cf sn present now at pl = apply_deltas from_ts cf sn (io_deltas out) at (pl\<lparr>pl_db := db'\<rparr>)"
proof -
  from assms have ms: "pl_previous_poll pl \<noteq> 0" by (simp add: missing_since_def split: if_splits)
  with assms obtain cutoff where c: "from_ts (pl_previous_poll pl) = Some cutoff"
    by (auto simp: missing_since_def split: option.splits)
  obtain out db' where 1: "ingest_batch (cf_regroup cf) (cf_persist_events cf) (resolving_batch from_ts present now pl) (pl_db pl) = (Inr out, db')"
    using ingest_batch_total by blast
  moreover have "resolve_missing from_ts cf sn present now at pl = apply_deltas from_ts cf sn (io_deltas out) at (pl\<lparr>pl_db := db'\<rparr>)"
    using 1 assms by (simp add: resolve_missing_def missing_since_def ms c Let_def)
  ultimately show thesis by (rule that)
qed

lemma resolve_missing_ok: "db_ok (pl_db pl) \<Longrightarrow> db_ok (pl_db (snd (resolve_missing from_ts cf sn present now at pl)))"
proof (cases "missing_since from_ts present pl = []")
  case False
  assume ok: "db_ok (pl_db pl)"
  from False obtain out db' where 1:
    "ingest_batch (cf_regroup cf) (cf_persist_events cf) (resolving_batch from_ts present now pl) (pl_db pl) = (Inr out, db')"
    "resolve_missing from_ts cf sn present now at pl = apply_deltas from_ts cf sn (io_deltas out) at (pl\<lparr>pl_db := db'\<rparr>)"
    by (rule resolve_missing_some)
  from ingest_db_ok [OF ok] 1(1) have "db_ok db'" by (metis snd_conv)
  with 1(2) show ?thesis by (simp add: apply_deltas_ok)
qed (simp add: resolve_missing_none)

lemma reconcile_ok: "db_ok (pl_db pl) \<Longrightarrow> db_ok (pl_db (snd (reconcile from_ts cf sn answer clock pl)))"
  by (simp add: reconcile_def Let_def move_polls_def check_deadman_ok reconcile_batch_ok resolve_missing_ok split: sum.split)

lemma sync_service_ok:
  assumes ok: "db_ok (pl_db pl)"
  shows "db_ok (pl_db (snd (sync_service from_ts cf sn sils alerts' clock pl)))"
proof (cases sils)
  case (Inr ss)
  show ?thesis
  proof (cases alerts')
    case (Inr as)
    obtain ds db' where 1: "sync_silences (map (observed_silence as (clock 0)) ss) (clock 0) (pl_db pl) = (Inr ds, db')"
      by (fastforce simp: sync_silences_def run_tx_def Let_def split: prod.splits)
    from sync_db_ok [OF ok] 1 have "db_ok db'" by (metis snd_conv)
    with 1 \<open>sils = Inr ss\<close> Inr show ?thesis by (simp add: sync_service_def apply_deltas_ok)
  qed (simp add: sync_service_def \<open>sils = Inr ss\<close> ok)
qed (simp add: sync_service_def ok)

lemma ingest_ok:
  assumes ok: "db_ok (pl_db pl)"
  shows "db_ok (pl_db (snd (ingest from_ts cf sn b now pl)))"
proof -
  obtain out db' where 1: "ingest_batch (cf_regroup cf) (cf_persist_events cf) b (pl_db pl) = (Inr out, db')"
    using ingest_batch_total by blast
  from ingest_db_ok [OF ok] 1 have "db_ok db'" by (metis snd_conv)
  then have "db_ok (pl_db (snd (apply_deltas from_ts cf sn (io_deltas out) now
      (pl\<lparr>pl_last_webhook := timestamp (ib_received_at b), pl_db := db'\<rparr>))))"
    by (simp add: apply_deltas_ok)
  with 1 show ?thesis by (auto simp: ingest_def Let_def split: prod.splits sum.splits)
qed

lemma escalate_cards_ok: "db_ok db \<Longrightarrow> db_ok (snd (escalate_cards sn now cds n db))"
proof (induction cds arbitrary: n db)
  case (Cons cd cds)
  show ?case
  proof (cases "overdue_policy sn now cd")
    case None
    with Cons show ?thesis by simp
  next
    case (Some policy)
    obtain r db1 where 1: "mark_escalated (n_id cd) now db = (r, db1)" by fastforce
    have ok1: "db_ok db1" using run_call_ok [of "CallEscalated (n_id cd) now", OF _ Cons.prems] 1 by simp
    obtain r2 db2 where 2: "enqueue_effects [outbox_now (Escalate (n_id cd) (es_roles policy) (es_users policy)) (n_dedupe_key cd) now] now db1 = (r2, db2)"
      by fastforce
    have ok2: "db_ok db2" using enqueue_db_ok [OF ok1] 2 by (metis snd_conv)
    from Some 1 2 ok1 ok2 Cons.IH show ?thesis by (auto split: sum.splits bool.splits)
  qed
qed simp

lemma escalate_ok: "db_ok db \<Longrightarrow> db_ok (snd (escalate earliest sn now db))"
  using escalate_cards_ok by (auto simp: escalate_def Let_def split: prod.splits) (metis snd_conv)

section \<open>An alert no card holds yet\<close>

lemma fresh_cards_commit:
  assumes "cards_ok db" "list_all planned_ok ps" "\<forall>p \<in> set ps. nn_supersedes (pc_card p) = None"
    "distinct (map planned_key ps)" "planned_key ` set ps \<inter> card_key ` set (db_cards db) = {}"
  shows "\<exists>ids db'. tx_map (apply_new_card at) ps db = Inr (ids, db') \<and>
    card_key ` set (db_cards db') = planned_key ` set ps \<union> card_key ` set (db_cards db)"
  using assms
proof (induction ps arbitrary: db)
  case Nil
  then show ?case by (simp add: tx_ret_def)
next
  case (Cons p ps)
  have p: "planned_ok p" "nn_supersedes (pc_card p) = None" "planned_key p \<notin> card_key ` set (db_cards db)"
    using Cons.prems by auto
  obtain db1 where 1: "apply_new_card at p db = Inr (db_next_card db, db1)" "cards_ok db1"
    "card_key ` set (db_cards db1) = insert (planned_key p) (card_key ` set (db_cards db))"
    using plain_new_card [OF Cons.prems(1) p(1,2), of at] p(3) by auto
  have "list_all planned_ok ps" "\<forall>p \<in> set ps. nn_supersedes (pc_card p) = None" "distinct (map planned_key ps)"
    "planned_key ` set ps \<inter> card_key ` set (db_cards db1) = {}"
    using Cons.prems by (auto simp: 1(3))
  from Cons.IH [OF 1(2) this] obtain ids db' where 2: "tx_map (apply_new_card at) ps db1 = Inr (ids, db')"
    "card_key ` set (db_cards db') = planned_key ` set ps \<union> card_key ` set (db_cards db1)" by blast
  have "tx_map (apply_new_card at) (p # ps) db = Inr (db_next_card db # ids, db')"
    by (simp add: tx_bind_def tx_ret_def 1(1) 2(1))
  then show ?case using 1(3) 2(2) by auto
qed

lemma scan_keys_empty: "\<forall>k \<in> set ks. ex (ch, k) = None \<Longrightarrow> scan_keys ex delta ds now ch ks old = (old, None)"
  by (induction ks) auto

definition fresh_card ::
  "from_timestamp \<Rightarrow> alert_delta \<Rightarrow> storm_state \<Rightarrow> decision_settings \<Rightarrow> time \<Rightarrow> route \<Rightarrow> planned_card" where
  "fresh_card from_ts delta storm ds now route =
     the (creation_for delta route (delivery_channel (rt_target route)) (dedupe_key from_ts delta route storm ds now) False
       (alert_severity (d_alert delta)) None now)"

lemma fresh_card_simps:
  assumes "is_firing (d_alert delta)"
  shows "creation_for delta route (delivery_channel (rt_target route)) (dedupe_key from_ts delta route storm ds now) False
       (alert_severity (d_alert delta)) None now = Some (fresh_card from_ts delta storm ds now route)"
    "planned_key (fresh_card from_ts delta storm ds now route) =
       (delivery_channel (rt_target route), dedupe_key from_ts delta route storm ds now)"
    "nn_supersedes (pc_card (fresh_card from_ts delta storm ds now route)) = None"
  using assms by (simp_all add: fresh_card_def creation_for_def planned_key_def Let_def)

lemma fresh_decision:
  assumes "is_firing (d_alert delta)"
    "\<forall>route \<in> set (routes_for delta sn). \<forall>k \<in> set (dedupe_keys from_ts delta route storm ds now).
       ex (delivery_channel (rt_target route), k) = None"
  shows "de_new_cards (decide from_ts delta sn storm ex cx ds now) =
      map (fresh_card from_ts delta storm ds now) (filter (\<lambda>r. \<not> is_muted sn delta now r) (routes_for delta sn))"
    "de_updates (decide from_ts delta sn storm ex cx ds now) = []"
proof -
  have held: "held_card from_ts delta storm ex ds now route = (None, None)" if "route \<in> set (routes_for delta sn)" for route
    using assms(2) that by (simp add: held_card_def scan_keys_empty)
  have "route_card from_ts delta sn storm ex ds now route =
      (if is_muted sn delta now route then None else Some (fresh_card from_ts delta storm ds now route))"
    "route_update from_ts delta sn storm ex cx ds now route = None" if "route \<in> set (routes_for delta sn)" for route
    using held [OF that] assms(1) by (auto simp: route_card_def route_update_def fresh_card_simps) (simp add: creation_for_def)
  then have "List.map_filter (route_card from_ts delta sn storm ex ds now) rs =
      map (fresh_card from_ts delta storm ds now) (filter (\<lambda>r. \<not> is_muted sn delta now r) rs)"
    "List.map_filter (route_update from_ts delta sn storm ex cx ds now) rs = []"
    if "set rs \<subseteq> set (routes_for delta sn)" for rs
    using that by (induction rs) (auto simp: List.map_filter_simps)
  then show "de_new_cards (decide from_ts delta sn storm ex cx ds now) =
      map (fresh_card from_ts delta storm ds now) (filter (\<lambda>r. \<not> is_muted sn delta now r) (routes_for delta sn))"
    "de_updates (decide from_ts delta sn storm ex cx ds now) = []"
    by (simp_all add: decide_eq)
qed

lemma fresh_alert:
  assumes ok: "cards_ok db" and firing: "is_firing (d_alert delta)"
    and free: "\<forall>(ch, k) \<in> set (card_places from_ts sn storm ds now delta). notification_for k ch db = None"
  defines "places \<equiv> map (\<lambda>r. (delivery_channel (rt_target r), dedupe_key from_ts delta r storm ds now))
      (filter (\<lambda>r. \<not> is_muted sn delta now r) (routes_for delta sn))"
  shows "\<not> distinct places \<Longrightarrow> apply_delta from_ts sn storm ds now delta db = (Inr (), db)"
    "distinct places \<Longrightarrow> \<exists>db'. apply_delta from_ts sn storm ds now delta db = (Inr (), db') \<and>
       card_key ` set (db_cards db') = set places \<union> card_key ` set (db_cards db)"
proof -
  let ?d = "plan_delta from_ts sn storm ds now delta db"
  let ?ps = "de_new_cards ?d"
  have none: "\<forall>route \<in> set (routes_for delta sn). \<forall>k \<in> set (dedupe_keys from_ts delta route storm ds now).
       read_places db (card_places from_ts sn storm ds now delta) (delivery_channel (rt_target route), k) = None"
    using free by (auto simp: read_place_of_route) (auto simp: places_mem)
  note fd = fresh_decision [OF firing none]
  have new: "?ps = map (fresh_card from_ts delta storm ds now) (filter (\<lambda>r. \<not> is_muted sn delta now r) (routes_for delta sn))"
    and upd: "de_updates ?d = []"
    by (simp_all add: plan_delta_def Let_def fd)
  have keys: "map planned_key ?ps = places" by (simp add: new places_def fresh_card_simps [OF firing])
  have none_sup: "\<forall>p \<in> set ?ps. nn_supersedes (pc_card p) = None" by (auto simp: new fresh_card_simps [OF firing])
  have pok: "list_all planned_ok ?ps" and dok: "decision_ok ?d"
    using decide_decision_ok by (simp_all add: plan_delta_def Let_def flip: decision_ok_iff)
  have dis: "planned_key ` set ?ps \<inter> card_key ` set (db_cards db) = {}"
  proof -
    have "planned_key ` set ?ps = set places" using keys by (metis set_map)
    moreover have "(ch, k) \<notin> card_key ` set (db_cards db)" if "(ch, k) \<in> set places" for ch k
    proof -
      have "(ch, k) \<in> set (card_places from_ts sn storm ds now delta)"
        using that dedupe_key_mem by (auto simp: places_def places_mem)
      then have "notification_for k ch db = None" using free by blast
      then show ?thesis by (auto simp: notification_for_None_iff)
    qed
    ultimately show ?thesis by auto
  qed
  show "\<not> distinct places \<Longrightarrow> apply_delta from_ts sn storm ds now delta db = (Inr (), db)"
    using apply_decision_conflicts [OF ok dok none_sup] keys by (auto simp: apply_delta_def Let_def)
  assume d: "distinct places"
  obtain ids db' where 1: "tx_map (apply_new_card (de_at ?d)) ?ps db = Inr (ids, db')"
    "card_key ` set (db_cards db') = planned_key ` set ?ps \<union> card_key ` set (db_cards db)"
    using fresh_cards_commit [OF ok pok none_sup _ dis] d keys by metis
  have "apply_decision ?d db = (Inr ids, db')"
    using 1(1) by (simp add: apply_decision_def apply_decision_tx_def upd tx_bind_def tx_ret_def)
  moreover have "planned_key ` set ?ps = set places" using keys by (metis set_map)
  ultimately show "\<exists>db'. apply_delta from_ts sn storm ds now delta db = (Inr (), db') \<and>
       card_key ` set (db_cards db') = set places \<union> card_key ` set (db_cards db)"
    using 1(2) by (cases "decision_empty ?d") (auto simp: apply_delta_def Let_def decision_empty_def)
qed

section \<open>When the reconciler resolves\<close>

lemma ingest_all_other:
  "ingest_all rg ps b as out db = Inr (out', db') \<Longrightarrow> f \<notin> al_fingerprint ` set as \<Longrightarrow> read_alert f db' = read_alert f db"
proof (induction as arbitrary: out db)
  case (Cons a as)
  then obtain out1 db1 where 1: "ingest_one rg ps b a out db = Inr (out1, db1)" "ingest_all rg ps b as out1 db1 = Inr (out', db')"
    by (auto simp: tx_bind_Inr_iff)
  with Cons.IH [OF 1(2)] Cons.prems ingest_one_stored(2) [OF 1(1), of f] show ?case by simp
qed simp

lemma ingest_batch_other:
  "ingest_batch rg ps b db = (Inr out, db') \<Longrightarrow> f \<notin> al_fingerprint ` set (ib_alerts b) \<Longrightarrow> read_alert f db' = read_alert f db"
  unfolding ingest_batch_def run_tx_Inr_iff by (rule ingest_all_other)

lemma read_alert_cong: "db_alerts db' = db_alerts db \<Longrightarrow> read_alert f db' = read_alert f db"
  by (simp add: read_alert_def)

lemma new_batch_simps [simp]: "ib_alerts (new_batch s as t) = as" "ib_group_key (new_batch s as t) = None" "ib_received_at (new_batch s as t) = t"
  by (simp_all add: new_batch_def)

lemma reconcile_batch_other:
  assumes "f \<notin> al_fingerprint ` set as"
  shows "read_alert f (pl_db (reconcile_batch from_ts cf sn as started at pl)) = read_alert f (pl_db pl)"
proof -
  obtain out db' where 1: "ingest_batch (cf_regroup cf) (cf_persist_events cf) (new_batch SReconciler as started) (pl_db pl) = (Inr out, db')"
    using ingest_batch_total by blast
  have "db_alerts (pl_db (reconcile_batch from_ts cf sn as started at pl)) = db_alerts db'"
    using reconcile_batch_alerts [of from_ts cf sn as started at pl] 1 by simp
  from read_alert_cong [OF this] ingest_batch_other [OF 1, of f] assms show ?thesis by simp
qed

lemma firing_not_in_iff:
  "alerts_ok db \<Longrightarrow> r \<in> set (firing_not_in present cutoff db) \<longleftrightarrow>
     read_alert (al_fingerprint (ar_alert r)) db = Some r \<and> al_fingerprint (ar_alert r) \<notin> set present \<and>
     al_status (ar_alert r) = AFiring \<and> ar_last_seen_at r < cutoff"
  by (auto simp: firing_not_in_def read_alert_iff)

lemma firing_not_in_distinct: "alerts_ok db \<Longrightarrow> distinct (map (\<lambda>r. al_fingerprint (ar_alert r)) (firing_not_in present cutoff db))"
  by (simp add: firing_not_in_def alerts_ok_def distinct_map_filter)

definition last_seen_before :: "from_timestamp \<Rightarrow> pipeline \<Rightarrow> alert_record \<Rightarrow> bool" where
  "last_seen_before from_ts pl r \<longleftrightarrow> pl_previous_poll pl \<noteq> 0 \<and>
     (case from_ts (pl_previous_poll pl) of None \<Rightarrow> False | Some cutoff \<Rightarrow> ar_last_seen_at r < cutoff)"

lemma missing_since_iff:
  "alerts_ok (pl_db pl) \<Longrightarrow> r \<in> set (missing_since from_ts present pl) \<longleftrightarrow>
     read_alert (al_fingerprint (ar_alert r)) (pl_db pl) = Some r \<and> al_fingerprint (ar_alert r) \<notin> set present \<and>
     al_status (ar_alert r) = AFiring \<and> last_seen_before from_ts pl r"
  by (cases "from_ts (pl_previous_poll pl)") (auto simp: missing_since_def last_seen_before_def firing_not_in_iff)

lemma missing_since_distinct:
  "alerts_ok (pl_db pl) \<Longrightarrow> distinct (map (\<lambda>r. al_fingerprint (ar_alert r)) (missing_since from_ts present pl))"
  by (simp add: missing_since_def firing_not_in_distinct split: option.split)

lemma as_resolved_simps [simp]: "al_fingerprint (as_resolved now r) = al_fingerprint (ar_alert r)" "al_status (as_resolved now r) = AResolved"
  by (simp_all add: as_resolved_def)

lemma resolve_missing_reads:
  assumes ok: "alerts_ok (pl_db pl)" and r: "read_alert f (pl_db pl) = Some r"
  shows "r \<notin> set (missing_since from_ts present pl) \<Longrightarrow>
      read_alert f (pl_db (snd (resolve_missing from_ts cf sn present now at pl))) = Some r"
    "r \<in> set (missing_since from_ts present pl) \<Longrightarrow>
      \<exists>r'. read_alert f (pl_db (snd (resolve_missing from_ts cf sn present now at pl))) = Some r' \<and> al_status (ar_alert r') = AResolved"
proof -
  let ?ms = "missing_since from_ts present pl"
  let ?s = "snd (resolve_missing from_ts cf sn present now at pl)"
  have fp: "al_fingerprint (ar_alert r) = f" using r ok by (simp add: read_alert_iff)
  have only: "f \<in> (\<lambda>r. al_fingerprint (ar_alert r)) ` set ?ms \<longleftrightarrow> r \<in> set ?ms"
    using r ok fp by (auto simp: missing_since_iff)
  have "(r \<notin> set ?ms \<longrightarrow> read_alert f (pl_db ?s) = Some r) \<and>
    (r \<in> set ?ms \<longrightarrow> (\<exists>r'. read_alert f (pl_db ?s) = Some r' \<and> al_status (ar_alert r') = AResolved))"
  proof (cases "?ms = []")
    case True
    with r show ?thesis by (simp add: resolve_missing_none)
  next
    case False
    then obtain out db' where 1:
      "ingest_batch (cf_regroup cf) (cf_persist_events cf) (resolving_batch from_ts present now pl) (pl_db pl) = (Inr out, db')"
      "resolve_missing from_ts cf sn present now at pl = apply_deltas from_ts cf sn (io_deltas out) at (pl\<lparr>pl_db := db'\<rparr>)"
      by (rule resolve_missing_some)
    have same: "read_alert f (pl_db ?s) = read_alert f db'"
      using apply_deltas_alerts [of from_ts cf sn "io_deltas out" at "pl\<lparr>pl_db := db'\<rparr>"] 1(2)
      by (intro read_alert_cong) simp
    have fps: "map al_fingerprint (map (as_resolved now) ?ms) = map (\<lambda>r. al_fingerprint (ar_alert r)) ?ms" by simp
    have ing: "ingest_all (cf_regroup cf) (cf_persist_events cf) (resolving_batch from_ts present now pl)
        (map (as_resolved now) ?ms) \<lparr>io_deltas = [], io_duplicates = 0\<rparr> (pl_db pl) = Inr (out, db')"
      using 1(1) by (simp add: ingest_batch_def)
    have "stored (resolving_batch from_ts present now pl) db' (as_resolved now r)" if "r \<in> set ?ms"
      using ingest_all_stored [OF ing] missing_since_distinct [OF ok] that unfolding fps by simp
    then have "r \<in> set ?ms \<longrightarrow> (\<exists>r'. read_alert f db' = Some r' \<and> al_status (ar_alert r') = AResolved)"
      using fp by (auto simp: stored_def batch_alert_def)
    moreover have "r \<notin> set ?ms \<longrightarrow> read_alert f db' = Some r"
      using ingest_all_other [OF ing, of f] only r by (auto simp: image_image)
    ultimately show ?thesis by (simp add: same)
  qed
  then show "r \<notin> set ?ms \<Longrightarrow> read_alert f (pl_db ?s) = Some r"
    "r \<in> set ?ms \<Longrightarrow> \<exists>r'. read_alert f (pl_db ?s) = Some r' \<and> al_status (ar_alert r') = AResolved" by blast+
qed

text \<open>One poll that does not list an alert: it is resolved exactly when it was last seen before the poll before last.\<close>

lemma reconcile_unlisted:
  assumes ok: "db_ok (pl_db pl)" and r: "read_alert f (pl_db pl) = Some r" "al_status (ar_alert r) = AFiring"
    and f: "f \<notin> al_fingerprint ` set as"
  shows "\<not> last_seen_before from_ts pl r \<Longrightarrow> read_alert f (pl_db (snd (reconcile from_ts cf sn (Inr as) clock pl))) = Some r"
    "last_seen_before from_ts pl r \<Longrightarrow> \<exists>r'. read_alert f (pl_db (snd (reconcile from_ts cf sn (Inr as) clock pl))) = Some r' \<and> al_status (ar_alert r') = AResolved"
proof -
  define pl2 where "pl2 = reconcile_batch from_ts cf sn as (clock 0) (clock 3) (forget DEADMAN_KEY pl)"
  have ok2: "alerts_ok (pl_db pl2)"
    using reconcile_batch_ok [of "forget DEADMAN_KEY pl"] ok by (simp add: pl2_def db_ok_def)
  have r2: "read_alert f (pl_db pl2) = Some r" using reconcile_batch_other [OF f] r by (simp add: pl2_def)
  have fp: "al_fingerprint (ar_alert r) = f" using r ok by (simp add: read_alert_iff db_ok_def)
  have mem: "r \<in> set (missing_since from_ts (map al_fingerprint as) pl2) \<longleftrightarrow> last_seen_before from_ts pl r"
  proof -
    have "pl_previous_poll pl2 = pl_previous_poll pl" by (simp add: pl2_def)
    with r2 r(2) f fp show ?thesis
      unfolding missing_since_iff [OF ok2] last_seen_before_def by (auto split: option.split)
  qed
  have eq: "pl_db (snd (reconcile from_ts cf sn (Inr as) clock pl)) =
      pl_db (snd (resolve_missing from_ts cf sn (map al_fingerprint as) (clock 0) (clock 4) pl2))"
    by (simp add: reconcile_def Let_def move_polls_def check_deadman_up pl2_def)
  note res = resolve_missing_reads [OF ok2 r2, of from_ts "map al_fingerprint as" cf sn "clock 0" "clock 4"]
  show "\<not> last_seen_before from_ts pl r \<Longrightarrow> read_alert f (pl_db (snd (reconcile from_ts cf sn (Inr as) clock pl))) = Some r"
    using res(1) mem by (simp add: eq)
  show "last_seen_before from_ts pl r \<Longrightarrow> \<exists>r'. read_alert f (pl_db (snd (reconcile from_ts cf sn (Inr as) clock pl))) = Some r' \<and> al_status (ar_alert r') = AResolved"
    using res(2) mem by (simp add: eq)
qed

lemma reconcile_polls:
  "pl_last_poll (snd (reconcile from_ts cf sn (Inr as) clock pl)) = timestamp (clock 0)"
  "pl_previous_poll (snd (reconcile from_ts cf sn (Inr as) clock pl)) = pl_last_poll pl"
  "pl_last_poll (snd (reconcile from_ts cf sn (Inl e) clock pl)) = pl_last_poll pl"
  "pl_previous_poll (snd (reconcile from_ts cf sn (Inl e) clock pl)) = pl_previous_poll pl"
  by (simp_all add: reconcile_def Let_def move_polls_def)

section \<open>What a sweep escalates\<close>

definition due_cards :: "routing_snapshot \<Rightarrow> time \<Rightarrow> notification list \<Rightarrow> notification list" where
  "due_cards sn now = filter (\<lambda>cd. overdue_policy sn now cd \<noteq> None)"

definition mention_for :: "routing_snapshot \<Rightarrow> time \<Rightarrow> notification \<Rightarrow> effect" where
  "mention_for sn now cd = (case overdue_policy sn now cd of None \<Rightarrow> Escalate (n_id cd) [] []
     | Some p \<Rightarrow> Escalate (n_id cd) (es_roles p) (es_users p))"

definition mark_row :: "time \<Rightarrow> notification \<Rightarrow> notification" where
  "mark_row now n = n\<lparr>n_escalated_at := Some now, n_updated_at := now\<rparr>"

lemma mark_escalated_first:
  assumes "cards_ok db" "cd \<in> set (db_cards db)" "n_escalated_at cd = None"
  shows "mark_escalated (n_id cd) now db =
    (Inr True, db\<lparr>db_cards := map (\<lambda>n. if n = cd then mark_row now n else n) (db_cards db)\<rparr>)"
proof -
  let ?P = "\<lambda>n. n_id n = n_id cd \<and> n_escalated_at n = None"
  have one: "\<And>n. n \<in> set (db_cards db) \<Longrightarrow> ?P n \<longleftrightarrow> n = cd" using same_id [OF assms(1)] assms(2,3) by blast
  have "affected ?P (db_cards db) \<noteq> 0" unfolding affected_0_iff using assms by blast
  moreover have "update_where ?P (\<lambda>n. n\<lparr>n_escalated_at := Some now, n_updated_at := now\<rparr>) (db_cards db) =
      map (\<lambda>n. if n = cd then mark_row now n else n) (db_cards db)"
    using one by (auto simp: update_where_def mark_row_def)
  ultimately show ?thesis by (simp add: mark_escalated_def run_tx_def)
qed

lemma enqueue_escalate:
  obtains db' where "enqueue_effects [outbox_now (Escalate i rs us) k at] at db = (Inr (), db')"
    "map ob_effect (db_outbox db') = map ob_effect (db_outbox db) @ [Escalate i rs us]" "db_cards db' = db_cards db"
  by (simp add: enqueue_effects_def run_tx_def tx_bind_def tx_ret_def enqueue_def insert_item_def outbox_now_def)

lemma enqueue_db_ok_eq: "db_ok db \<Longrightarrow> enqueue_effects items at db = (r, db') \<Longrightarrow> db_ok db'"
  using enqueue_db_ok [of db items at] by simp

lemma escalate_cards_marks:
  "db_ok db \<Longrightarrow> distinct cds \<Longrightarrow> \<forall>cd \<in> set cds. cd \<in> set (db_cards db) \<and> n_escalated_at cd = None \<Longrightarrow>
   \<exists>db'. escalate_cards sn now cds k db = (Inr (k + length (due_cards sn now cds)), db') \<and>
     db_cards db' = map (\<lambda>n. if n \<in> set (due_cards sn now cds) then mark_row now n else n) (db_cards db) \<and>
     map ob_effect (db_outbox db') = map ob_effect (db_outbox db) @ map (mention_for sn now) (due_cards sn now cds)"
proof (induction cds arbitrary: k db)
  case Nil
  then show ?case by (simp add: due_cards_def)
next
  case (Cons cd cds)
  have ids: "distinct (map n_id (db_cards db))" and ok: "cards_ok db" using Cons.prems(1) by (auto simp: db_ok_def cards_ok_def)
  show ?case
  proof (cases "overdue_policy sn now cd")
    case None
    with Cons show ?thesis by (simp add: due_cards_def)
  next
    case (Some p)
    let ?f = "\<lambda>n. if n = cd then mark_row now n else n"
    let ?db1 = "db\<lparr>db_cards := map ?f (db_cards db)\<rparr>"
    obtain db2 where enq: "enqueue_effects [outbox_now (Escalate (n_id cd) (es_roles p) (es_users p)) (n_dedupe_key cd) now] now ?db1 = (Inr (), db2)"
      and eff2: "map ob_effect (db_outbox db2) = map ob_effect (db_outbox ?db1) @ [Escalate (n_id cd) (es_roles p) (es_users p)]"
      and cards2: "db_cards db2 = db_cards ?db1"
      by (rule enqueue_escalate)
    have cd: "cd \<in> set (db_cards db)" "n_escalated_at cd = None" "cd \<notin> set cds" using Cons.prems by simp_all
    note mark = mark_escalated_first [OF ok cd(1,2), of now]
    have "db_ok (run_call (CallEscalated (n_id cd) now) db)" by (rule run_call_ok [OF _ Cons.prems(1)]) simp
    then have "db_ok ?db1" unfolding run_call.simps mark snd_conv .
    from enqueue_db_ok_eq [OF this enq] have ok2: "db_ok db2" .
    have all2: "n \<in> set (db_cards db2) \<and> n_escalated_at n = None" if "n \<in> set cds" for n
    proof -
      have "n \<in> set (db_cards db)" "n_escalated_at n = None" "n \<noteq> cd" using that Cons.prems(3) cd(3) by auto
      then show ?thesis unfolding cards2 by force
    qed
    have dist: "distinct cds" using Cons.prems(2) by simp
    obtain db' where 1:
      "escalate_cards sn now cds (k + 1) db2 = (Inr (k + 1 + length (due_cards sn now cds)), db')"
      "db_cards db' = map (\<lambda>n. if n \<in> set (due_cards sn now cds) then mark_row now n else n) (db_cards db2)"
      "map ob_effect (db_outbox db') = map ob_effect (db_outbox db2) @ map (mention_for sn now) (due_cards sn now cds)"
      using Cons.IH [OF ok2 dist, of "k + 1"] all2 by blast
    have due: "due_cards sn now (cd # cds) = cd # due_cards sn now cds" by (simp add: due_cards_def Some)
    have esc: "mark_row now cd \<notin> set (due_cards sn now cds)"
      using Cons.prems(3) by (auto simp: due_cards_def mark_row_def)
    have "cd \<notin> set (due_cards sn now cds)" using cd(3) by (simp add: due_cards_def)
    then have "db_cards db' = map (\<lambda>n. if n \<in> set (due_cards sn now (cd # cds)) then mark_row now n else n) (db_cards db)"
      unfolding 1(2) cards2 due using esc by auto
    moreover have "escalate_cards sn now (cd # cds) k db = (Inr (k + length (due_cards sn now (cd # cds))), db')"
      using 1(1) enq by (simp add: Some mark due)
    moreover have "map ob_effect (db_outbox db') =
        map ob_effect (db_outbox db) @ map (mention_for sn now) (due_cards sn now (cd # cds))"
      unfolding 1(3) due eff2 by (simp add: mention_for_def Some)
    ultimately show ?thesis by blast
  qed
qed

lemma pending_mem: "cd \<in> set (pending_escalations before k db) \<Longrightarrow> cd \<in> set (db_cards db) \<and> awaits_escalation before cd"
  by (auto simp: pending_escalations_def dest: in_set_takeD)

lemma pending_distinct: "cards_ok db \<Longrightarrow> distinct (pending_escalations before k db)"
proof -
  assume "cards_ok db"
  then have "distinct (db_cards db)" by (auto simp: cards_ok_def distinct_map)
  then show ?thesis by (simp add: pending_escalations_def distinct_take)
qed

section \<open>The deadman\<close>

lemma check_deadman_again:
  "is_quiet from_ts cf now pl \<Longrightarrow> cf_admin cf = Some ch \<Longrightarrow> DEADMAN_KEY \<in> pl_said pl \<Longrightarrow>
   check_deadman from_ts cf False now due at pl = pl"
  by (simp add: check_deadman_def say_once_def)

lemma check_deadman_first:
  assumes "is_quiet from_ts cf now pl" "cf_admin cf = Some ch" "DEADMAN_KEY \<notin> pl_said pl"
  shows "pl_said (check_deadman from_ts cf False now due at pl) = insert DEADMAN_KEY (pl_said pl)"
    "map ob_effect (db_outbox (pl_db (check_deadman from_ts cf False now due at pl))) =
       map ob_effect (db_outbox (pl_db pl)) @ [AdminNotice ch (deadman_text (cf_deadman cf))]"
  using assms
  by (simp_all add: check_deadman_def say_once_def say_def enqueue_effects_def run_tx_def tx_bind_def tx_ret_def
      enqueue_def insert_item_def outbox_now_def)

section \<open>The running pipeline\<close>

text \<open>
  One step of a running process: a webhook, a poll, a silence sync, a sweep, the janitor, or any store
  call a worker, a command or a gateway event makes, each with whatever arguments and under whatever
  routing snapshot is published at the time.
\<close>

inductive pipeline_step :: "from_timestamp \<Rightarrow> service_config \<Rightarrow> pipeline \<Rightarrow> pipeline \<Rightarrow> bool"
  for from_ts cf where
  webhook: "pipeline_step from_ts cf pl (snd (ingest from_ts cf sn b now pl))"
| poll: "pipeline_step from_ts cf pl (snd (reconcile from_ts cf sn answer clock pl))"
| sync: "pipeline_step from_ts cf pl (snd (sync_service from_ts cf sn sils answer clock pl))"
| sweep: "pipeline_step from_ts cf pl (pl\<lparr>pl_db := snd (escalate earliest sn now (pl_db pl))\<rparr>)"
| janitor: "pipeline_step from_ts cf pl (pl\<lparr>pl_db := snd (reclaim_leases cf now (pl_db pl))\<rparr>)"
| call: "call_ok c \<Longrightarrow> pipeline_step from_ts cf pl (pl\<lparr>pl_db := run_call c (pl_db pl)\<rparr>)"
| notice: "pipeline_step from_ts cf pl (say_once cf key txt due at pl)"

inductive_cases pipeline_stepE: "pipeline_step from_ts cf pl pl'"

lemma pipeline_step_ok: "pipeline_step from_ts cf pl pl' \<Longrightarrow> db_ok (pl_db pl) \<Longrightarrow> db_ok (pl_db pl')"
proof (erule pipeline_stepE)
  fix now
  assume "pl' = pl\<lparr>pl_db := snd (reclaim_leases cf now (pl_db pl))\<rparr>" "db_ok (pl_db pl)"
  with run_call_ok [of "CallReclaim (now - lease_margin (cf_lease cf)) now" "pl_db pl"] show "db_ok (pl_db pl')"
    by (simp add: reclaim_leases_def)
qed (auto simp: say_once_def intro: ingest_ok reconcile_ok sync_service_ok escalate_ok run_call_ok say_ok)

definition reachable :: "from_timestamp \<Rightarrow> service_config \<Rightarrow> storm_counter \<Rightarrow> storm_state \<Rightarrow> pipeline \<Rightarrow> bool" where
  "reachable from_ts cf counter storm pl \<longleftrightarrow>
     (pipeline_step from_ts cf)\<^sup>*\<^sup>* (start_pipeline empty_db counter storm) pl"

lemma reachable_ok: "reachable from_ts cf counter storm pl \<Longrightarrow> db_ok (pl_db pl)"
  unfolding reachable_def
proof (induction rule: rtranclp_induct)
  case base
  show ?case using store.inv_empty by (simp add: start_pipeline_def)
next
  case (step pl pl')
  from pipeline_step_ok [OF step(2,3)] show ?case .
qed

end
