(* ===== verification/Fixtures.thy ===== *)
theory Fixtures
  imports Service_Facts
begin

text \<open>
  Small concrete values the properties are applied to: one alert, one text route and one forum route, a
  card in each state, and databases built by the model's own operations.
\<close>

definition fp_a :: fingerprint where "fp_a = Fingerprint ''00000000000000aa''"
definition fp_b :: fingerprint where "fp_b = Fingerprint ''00000000000000bb''"

definition disk_labels :: labels where
  "disk_labels = [(LabelName ''alertname'', ''Disk''), (LabelName ''severity'', ''critical'')]"

definition disk_alert :: alert where
  "disk_alert = \<lparr>al_fingerprint = fp_a, al_labels = disk_labels, al_annotations = [],
     al_starts_at = 0, al_ends_at = None, al_generator_url = None, al_status = AFiring, al_am_state = AmActive, al_silenced_by = [],
     al_inhibited_by = [], al_group_key = None\<rparr>"

definition fired :: alert_delta where
  "fired = \<lparr>d_kind = EFired, d_source = SWebhook, d_alert = disk_alert, d_flap_count = 0, d_observed_at = 0\<rparr>"

definition resolved :: alert_delta where
  "resolved = fired\<lparr>d_kind := EResolved, d_alert := disk_alert\<lparr>al_status := AResolved\<rparr>\<rparr>"

definition on_call :: mentions where
  "on_call = \<lparr>mn_roles = [5], mn_users = [], mn_min_severity = None\<rparr>"

definition text_target :: route_target where
  "text_target = TextTarget 7 \<lparr>tp_when = Never, tp_kind = PublicThread, tp_archive_after_minutes = 60\<rparr>"

definition text_route :: route where
  "text_route = \<lparr>rt_id = 1, rt_guild_id = 10, rt_name = ''ops'', rt_matcher_source = [], rt_matchers = [],
     rt_min_severity = None, rt_target = text_target, rt_group_strategy = PerAlert, rt_mentions = on_call,
     rt_escalation = None, rt_priority = 0, rt_continue_to_next = True, rt_source = RouteConfig, rt_enabled = True,
     rt_created_by = None, rt_created_at = 0\<rparr>"

definition post_policy :: forum_policy where
  "post_policy = \<lparr>fp_title_template = [], fp_manage_tags = False,
     fp_state_tags = \<lparr>st_firing = ''firing'', st_acked = ''acked'', st_silenced = ''silenced'', st_resolved = ''resolved''\<rparr>,
     fp_severity_tags = True, fp_label_tags = [], fp_default_tag = None, fp_auto_archive_minutes = 1440,
     fp_archive_on_resolve = True, fp_lock_on_resolve = True, fp_pin_min_severity = None, fp_max_pinned = 1,
     fp_bump_on_state_change = True\<rparr>"

definition forum_route :: route where
  "forum_route = text_route\<lparr>rt_id := 2, rt_guild_id := 20, rt_target := ForumTarget 8 post_policy\<rparr>"

definition quiet :: storm_state where "quiet = empty_storm 10 10 (seconds 60)"

definition text_snapshot :: routing_snapshot where "text_snapshot = new_snapshot [text_route] [] []"

definition nobody :: alert_context where "nobody = \<lparr>cx_acknowledged = False, cx_firing_siblings = []\<rparr>"

definition disk_card :: notification where
  "disk_card = new_row 1 \<lparr>nn_dedupe_key = per_alert fp_a, nn_fingerprint = fp_a, nn_route_id = 1, nn_guild_id = 10,
     nn_channel_id = 7, nn_state = Firing, nn_supersedes = None, nn_created_at = 0\<rparr>"

definition held :: existing_cards where "held = [(7, per_alert fp_a) \<mapsto> disk_card]"

lemma fixture_simps [simp]:
  "d_alert fired = disk_alert" "d_kind fired = EFired" "d_kind resolved = EResolved"
  "d_alert resolved = disk_alert\<lparr>al_status := AResolved\<rparr>"
  "al_labels disk_alert = disk_labels" "al_fingerprint disk_alert = fp_a" "al_am_state disk_alert = AmActive"
  "al_status disk_alert = AFiring"
  by (simp_all add: fired_def resolved_def disk_alert_def)

lemma fixture_firing [simp]: "is_firing disk_alert" "\<not> is_firing (disk_alert\<lparr>al_status := AResolved\<rparr>)"
  by (simp_all add: is_firing_def)

lemma disk_severity [simp]: "severity_from_labels disk_labels = Critical" "alert_severity disk_alert = Critical"
  by code_simp+

lemma disk_card_simps [simp]:
  "n_id disk_card = 1" "n_state disk_card = Firing" "n_dedupe_key disk_card = per_alert fp_a"
  "n_channel_id disk_card = 7" "n_fingerprint disk_card = fp_a" "n_resolved_at disk_card = None" "\<not> n_archived disk_card"
  by (simp_all add: disk_card_def new_row_def)

lemma fixture_route [simp]:
  "rt_id text_route = 1" "rt_guild_id text_route = 10" "rt_target text_route = text_target" "delivery_channel text_target = 7"
  by (simp_all add: text_route_def text_target_def)

text \<open>A regex engine for the witnesses: every pattern compiles, to the literal comparison with its text.\<close>

definition literal_regex :: regex_engine where
  "literal_regex pat = Inr (\<lambda>v. v = pat)"

end
