(* ===== verification/Properties_Core.thy ===== *)
theory Properties_Core
  imports Fixtures
begin

text \<open>What the domain types promise: the matcher language, alert identity, dedupe keys, the card's state machine
  and the stored words; and the decisions both store backends share.\<close>

section \<open>Labels, matchers, identities\<close>

text \<open>
  C39: The expression the bot writes for one alert's silence parses back, whatever its label values contain, and
  what it parses to matches exactly the label sets that carry every one of the alert's labels.
\<close>

theorem silence_expression_roundtrip:
  assumes "list_all part_ok (al_labels a)"
  shows "\<exists>ms. parse_matchers rx (matchers_of a) = Inr ms \<and>
    (\<forall>ls. set_matches ms ls \<longleftrightarrow> list_all (\<lambda>(n, v). get_or_empty ls (name_str n) = v) (al_labels a))"
  unfolding parse_matchers_of [OF assms]
  by (auto simp: set_matches_def matcher_matches_def list_all_iff)

theorem silence_expression_roundtrip_witness:
  "\<exists>ms. parse_matchers literal_regex (matchers_of (disk_alert\<lparr>al_labels := [(LabelName ''job'', ''a,b=c!'')]\<rparr>)) = Inr ms \<and>
     set_matches ms [(LabelName ''job'', ''a,b=c!'')]"
proof -
  have "list_all part_ok [(LabelName ''job'', ''a,b=c!'')]" by (simp add: part_ok_def label_name_ok_def) code_simp
  with silence_expression_roundtrip [of "disk_alert\<lparr>al_labels := [(LabelName ''job'', ''a,b=c!'')]\<rparr>" literal_regex]
  show ?thesis by (auto simp: get_or_empty_def labels_get_def)
qed

text \<open>
  Two alerts that carry an ignored label hash the same bytes exactly when they agree on every label the policy
  keeps, so identities separate kept labels up to collisions of the hash; and under an exact policy the identity
  is the fingerprint.
\<close>

theorem identity_keeps_labels:
  assumes "policy_touches p (al_labels a)" "policy_touches p (al_labels b)"
    "utf8_labels (kept_labels p (al_labels a))" "utf8_labels (kept_labels p (al_labels b))"
  shows "(identity_bytes (kept_labels p (al_labels a)) = identity_bytes (kept_labels p (al_labels b)) \<longleftrightarrow>
      kept_labels p (al_labels a) = kept_labels p (al_labels b)) \<and>
    alert_identity p a = from_hash (fnv1a FNV_OFFSET (identity_bytes (kept_labels p (al_labels a)))) \<and>
    (is_exact q \<longrightarrow> alert_identity q a = al_fingerprint a)"
proof (intro conjI impI)
  show "identity_bytes (kept_labels p (al_labels a)) = identity_bytes (kept_labels p (al_labels b)) \<longleftrightarrow>
      kept_labels p (al_labels a) = kept_labels p (al_labels b)"
    using identity_bytes_inject [OF assms(3,4)] by auto
  show "alert_identity p a = from_hash (fnv1a FNV_OFFSET (identity_bytes (kept_labels p (al_labels a))))"
    using assms(1) by (simp add: alert_identity_def identity_of_eq)
  show "alert_identity q a = al_fingerprint a" if "is_exact q"
    using that by (simp add: alert_identity_def identity_exact)
qed

definition replica_policy :: identity_policy where "replica_policy = new_policy [''replica'']"

definition on_replica :: "string \<Rightarrow> alert" where
  "on_replica v = disk_alert\<lparr>al_labels := [(LabelName ''alertname'', ''Disk''), (LabelName ''replica'', v)]\<rparr>"

theorem identity_keeps_labels_witness:
  "alert_identity replica_policy (on_replica ''a'') = alert_identity replica_policy (on_replica ''b'')"
proof -
  have kept: "kept_labels replica_policy (al_labels (on_replica v)) = [(LabelName ''alertname'', ''Disk'')]" for v
    by (simp add: kept_labels_def replica_policy_def new_policy_def on_replica_def)
  have touch: "policy_touches replica_policy (al_labels (on_replica v))" for v
    by (simp add: policy_touches_def replica_policy_def new_policy_def on_replica_def)
  have utf: "utf8_labels [(LabelName ''alertname'', ''Disk'')]" by (simp add: utf8_labels_def SEPARATOR_def)
  from identity_keeps_labels [OF touch touch, of "''a''" "''b''"] identity_keeps_labels [OF touch touch, of "''b''" "''a''"] utf
  show ?thesis by (simp add: kept)
qed

section \<open>Keys\<close>

text \<open>
  A key says what it is for: the scope read back from a key is the alert, the group or the digest window it was
  made for; replacing or orphaning a card keeps its scope readable, marks the key as retired and never makes it
  collide with another card's retired key.
\<close>

theorem keys_report_their_scope:
  assumes "- (2 ^ 63) \<le> r" "r < 2 ^ 63" "- (2 ^ 63) \<le> timestamp t" "timestamp t < 2 ^ 63"
    "from_ts (timestamp t) = Some t" "k \<in> {per_alert f, per_group g, digest r t}"
  shows "key_scope from_ts k = (if k = per_alert f then ScopeAlert (fp_str f)
      else if k = per_group g then ScopeGroup (gk_str g) else ScopeDigest r t) \<and>
    key_scope from_ts (superseded_key i k) = key_scope from_ts k \<and> key_scope from_ts (orphaned_key i k) = key_scope from_ts k \<and>
    key_retirement k = None \<and> key_retirement (superseded_key i k) = Some RetSuperseded \<and>
    key_retirement (orphaned_key i k) = Some RetOrphaned \<and>
    (superseded_key i k = superseded_key j k' \<longleftrightarrow> i = j \<and> k = k') \<and>
    (orphaned_key i k = orphaned_key j k' \<longleftrightarrow> i = j \<and> k = k') \<and> superseded_key i k \<noteq> orphaned_key j k'"
proof -
  have live: "key_retirement k = None" using assms(6) by auto
  have "key_scope from_ts k = (if k = per_alert f then ScopeAlert (fp_str f)
      else if k = per_group g then ScopeGroup (gk_str g) else ScopeDigest r t)"
    using assms(6) scope_digest [where ts = from_ts, OF assms(1-5)] by (auto simp: key_kinds_distinct key_kinds_distinct [symmetric])
  then show ?thesis using live live_scope [OF live] retired_key_inject by simp
qed

theorem keys_report_their_scope_witness:
  "key_scope (\<lambda>s. Some (seconds s)) (superseded_key 4 (digest 7 (seconds 300))) = ScopeDigest 7 (seconds 300)"
  using keys_report_their_scope [where r = 7 and t = "seconds 300" and from_ts = "\<lambda>s. Some (seconds s)"
      and k = "digest 7 (seconds 300)" and f = fp_a and g = "GroupKey []" and i = 4 and j = 4 and k' = "digest 7 (seconds 300)"]
  by (simp add: key_kinds_distinct key_kinds_distinct [symmetric])

section \<open>States and stored words\<close>

text \<open>
  The transition function is the documented table: some trigger moves a card from one state to another exactly
  when the table lists the move, every move changes the state, and an orphaned card is terminal.
\<close>

theorem transition_table:
  "(\<exists>t a. next_state s t a = Some s') \<longleftrightarrow> s' \<in> (case s of
     Firing \<Rightarrow> {Acked, Silenced, Ignored, Resolved, Orphaned}
   | Acked \<Rightarrow> {Firing, Silenced, Ignored, Resolved, Orphaned}
   | Silenced \<Rightarrow> {Firing, Acked, Resolved, Orphaned}
   | Ignored \<Rightarrow> {Firing, Acked, Resolved, Orphaned}
   | Resolved \<Rightarrow> {Firing, Acked, Orphaned}
   | Orphaned \<Rightarrow> {})"
  using card_step_iff [of s s'] by (simp add: card_step.simps successors_def)

text \<open>
  The words the database and the wire carry for states, statuses, kinds, sources, strategies, scopes,
  acknowledgements and silence lifecycles parse to exactly the value that prints them, and anything else is refused.
\<close>

theorem stored_words_roundtrip:
  "(state_from_str s = Inr x1 \<longleftrightarrow> s = state_str x1) \<and> (alert_status_from_str s = Inr x2 \<longleftrightarrow> s = alert_status_str x2) \<and>
   (am_state_from_str s = Inr x3 \<longleftrightarrow> s = am_state_str x3) \<and> (event_kind_from_str s = Inr x4 \<longleftrightarrow> s = event_kind_str x4) \<and>
   (event_source_from_str s = Inr x5 \<longleftrightarrow> s = event_source_str x5) \<and> (route_source_from_str s = Inr x6 \<longleftrightarrow> s = route_source_str x6) \<and>
   (group_strategy_from_str s = Inr x7 \<longleftrightarrow> s = group_strategy_str x7) \<and> (ignore_scope_from_str s = Inr x8 \<longleftrightarrow> s = ignore_scope_str x8) \<and>
   (ack_kind_from_str s = Inr x9 \<longleftrightarrow> s = ack_kind_str x9) \<and>
   (silence_lifecycle_from_str s = Inr x10 \<longleftrightarrow> s = silence_lifecycle_str x10)"
  by (simp only: state_word.from_str_iff status_word.from_str_iff am_word.from_str_iff kind_word.from_str_iff
      source_word.from_str_iff route_source_word.from_str_iff strategy_word.from_str_iff scope_word.from_str_iff
      ack_word.from_str_iff silence_word.from_str_iff simp_thms)

text \<open>A Discord id survives the database's signed 64-bit column, and every id fits it.\<close>

theorem snowflake_roundtrip:
  "from_db (to_db s) = s \<and> to_db s \<in> {- (2 ^ 63)..<2 ^ 63}"
  using to_db_range [of s] by simp

section \<open>Decisions both backends share\<close>

text \<open>
  What arrives for a known alert is no change exactly when it is the stored alert again; otherwise its kind is
  the status change if there is one, else the suppression change if there is one, else an update; a re-fire counts
  one more flap, or starts over when the alert had been resolved for longer than the regroup window, and nothing
  else touches the flap count or the first-seen time.
\<close>

theorem change_classified:
  assumes "al_fingerprint (ar_alert p) = al_fingerprint a"
  shows "case classify (Some p) a now window of
      None \<Rightarrow> ar_alert p = a
    | Some tn \<Rightarrow> ar_alert p \<noteq> a \<and> tn_first_seen_at tn = ar_first_seen_at p \<and>
        tn_kind tn = (if al_status (ar_alert p) \<noteq> al_status a then if is_firing a then EFired else EResolved
          else if is_suppressed (al_am_state (ar_alert p)) \<noteq> is_suppressed (al_am_state a)
            then if is_suppressed (al_am_state a) then ESilenced else EUnsilenced
          else EUpdated) \<and>
        tn_flap_count tn = (if tn_kind tn = EFired then if regrouped p now window then 0
          else sat_add_u32 (ar_flap_count p) 1 else ar_flap_count p)"
proof (cases "classify (Some p) a now window")
  case None
  then show ?thesis using classify_None_iff [of p a now window] same_alert_iff [OF assms] by simp
next
  case (Some tn)
  have "ar_alert p \<noteq> a"
    using Some classify_None_iff [of p a now window] same_alert_iff [OF assms] by fastforce
  with Some show ?thesis
    by (auto simp: classify_def Let_def is_firing_def split: if_splits)
qed

definition disk_record :: alert_record where
  "disk_record = \<lparr>ar_alert = disk_alert\<lparr>al_status := AResolved\<rparr>, ar_labels_hash = labels_hash disk_labels, ar_first_seen_at = 0,
     ar_last_seen_at = 5, ar_resolved_at = Some 5, ar_flap_count = 2, ar_updated_at = 5\<rparr>"

theorem change_classified_witness:
  "\<exists>tn. classify (Some disk_record) disk_alert 7 (seconds 1800) = Some tn \<and> tn_kind tn = EFired \<and> tn_flap_count tn = 3"
proof -
  have ne: "disk_alert\<lparr>al_status := AResolved\<rparr> \<noteq> disk_alert" by (simp add: disk_alert_def)
  show ?thesis
    using change_classified [of disk_record disk_alert 7 "seconds 1800"] ne
    by (auto simp: disk_record_def regrouped_def seconds_def sat_add_u32_def u32_max_def split: option.splits)
qed

text \<open>
  The label predicate handed to SQL is the matchers' own verdict: for a query whose matchers compile and are
  all expressible in SQL, a label set passes the three parallel lists exactly when every matcher matches it.
\<close>

theorem sql_filter_agrees:
  assumes "\<forall>m \<in> set (aq_matchers q). \<exists>c. compile_matcher rx m = Inr c" "\<not> needs_in_memory_filter q"
  shows "sql_labels_match (from_query rx q) ls \<longleftrightarrow> list_all (\<lambda>m. compiled_matches rx m ls) (aq_matchers q)"
proof -
  have all: "list_all is_sql_expressible (aq_matchers q)" using assms(2) by (auto simp: needs_in_memory_filter_def list_ex_iff list_all_iff)
  then have "filter is_sql_expressible (aq_matchers q) = aq_matchers q" by (simp add: filter_id_conv list_all_iff)
  then show ?thesis
    unfolding from_query_def by (subst fold_push_matcher) (use assms(1) all in \<open>auto simp: sql_labels_match_def\<close>)
qed

definition job_query :: alert_query where
  "job_query = \<lparr>aq_statuses = [], aq_min_severity = None, aq_matchers = [\<lparr>qm_name = ''job'', qm_op = OpNotEqual, qm_value = ''x''\<rparr>],
     aq_notification_state = None, aq_offset = 0, aq_limit = 10\<rparr>"

theorem sql_filter_agrees_witness:
  "sql_labels_match (from_query literal_regex job_query) disk_labels"
proof -
  have n: "new_label_name ''job'' = Inr (LabelName ''job'')" by code_simp
  have c: "compile_matcher literal_regex \<lparr>qm_name = ''job'', qm_op = OpNotEqual, qm_value = ''x''\<rparr> =
      Inr \<lparr>m_name = LabelName ''job'', m_op = OpNotEqual, m_value = ''x'', m_regex = None\<rparr>"
    by (simp add: compile_matcher_def n new_matcher_def op_is_regex_def)
  from sql_filter_agrees [of job_query literal_regex disk_labels] show ?thesis
    by (simp add: job_query_def c needs_in_memory_filter_def is_sql_expressible_def op_is_regex_def compiled_matches_def
        matcher_matches_def get_or_empty_def labels_get_def disk_labels_def)
qed

end
