(* ===== verification/Properties_Engine.thy ===== *)
theory Properties_Engine
  imports Fixtures
begin

text \<open>What the decision engine promises: routing, the decision itself, storms and forum tags.\<close>

section \<open>New cards\<close>

lemma scan_none_outlived:
  assumes "held_card from_ts delta storm ex ds now route = (old, None)"
    "k \<in> set (dedupe_keys from_ts delta route storm ds now)" "ex (delivery_channel (rt_target route), k) = Some cd"
  shows "outlived cd delta ds now"
  using scan_keys_None [OF assms(1) [unfolded held_card_def] assms(2,3)] by blast

text \<open>
  C13: A decision creates a card only for a firing alert, on a route the snapshot resolved for it, in that
  route's guild and channel, where no ignore rule mutes it and where every card already held under the
  route's keys is outlived. The card starts silenced exactly when Alertmanager suppresses the alert, and it
  mentions the route's targets exactly when it starts firing, the change is a fresh fire, and the severity
  reaches the mention floor.
\<close>

theorem new_card_justified:
  assumes "p \<in> set (de_new_cards (decide from_ts delta sn storm ex cx ds now))"
  shows "is_firing (d_alert delta) \<and> (\<exists>route \<in> set (resolve sn (al_labels (d_alert delta)) (alert_severity (d_alert delta))).
    nn_route_id (pc_card p) = rt_id route \<and> nn_guild_id (pc_card p) = rt_guild_id route \<and>
    nn_channel_id (pc_card p) = delivery_channel (rt_target route) \<and>
    nn_dedupe_key (pc_card p) = dedupe_key from_ts delta route storm ds now \<and>
    nn_fingerprint (pc_card p) = al_fingerprint (d_alert delta) \<and>
    ignore_for sn (rt_guild_id route) (delivery_channel (rt_target route)) (al_labels (d_alert delta)) now = None \<and>
    (\<forall>k \<in> set (dedupe_keys from_ts delta route storm ds now). \<forall>cd.
       ex (delivery_channel (rt_target route), k) = Some cd \<longrightarrow> outlived cd delta ds now) \<and>
    nn_state (pc_card p) = (if is_suppressed (al_am_state (d_alert delta)) then Silenced else Firing) \<and>
    (pc_mention p \<longleftrightarrow> \<not> is_suppressed (al_am_state (d_alert delta)) \<and> d_kind delta = EFired \<and>
       mentions_at route (alert_severity (d_alert delta))))"
proof (rule decide_new_cardE [OF assms])
  fix route old
  assume r: "route \<in> set (routes_for delta sn)" "held_card from_ts delta storm ex ds now route = (old, None)"
    "\<not> is_muted sn delta now route" "is_firing (d_alert delta)"
    "creation_for delta route (delivery_channel (rt_target route)) (dedupe_key from_ts delta route storm ds now)
       False (alert_severity (d_alert delta)) (map_option n_id old) now = Some p"
  then have "ignore_for sn (rt_guild_id route) (delivery_channel (rt_target route)) (al_labels (d_alert delta)) now = None"
    by (simp add: is_muted_def)
  with r show ?thesis
    by (intro conjI bexI [of _ route]) (auto simp: creation_for_Some routes_for_def dest: scan_none_outlived)
qed

lemma fired_decision:
  "de_new_cards (decide (\<lambda>_. None) fired text_snapshot quiet Map.empty nobody default_settings 0) =
     [\<lparr>pc_card = \<lparr>nn_dedupe_key = per_alert fp_a, nn_fingerprint = fp_a, nn_route_id = 1, nn_guild_id = 10,
        nn_channel_id = 7, nn_state = Firing, nn_supersedes = None, nn_created_at = 0\<rparr>, pc_mention = True, pc_not_before = 0\<rparr>]"
  by code_simp

theorem new_card_justified_witness:
  "\<exists>route \<in> set (resolve text_snapshot disk_labels Critical). rt_id route = 1 \<and> mentions_at route Critical \<and>
     ignore_for text_snapshot (rt_guild_id route) (delivery_channel (rt_target route)) disk_labels 0 = None"
  using new_card_justified [of _ "\<lambda>_. None" fired text_snapshot quiet Map.empty nobody default_settings 0]
  unfolding fired_decision by fastforce

text \<open>
  C14: No accepted change is lost: on every route the snapshot resolves for it, the decision either creates
  the route's card, or updates a card the route holds under one of its keys, or there was nothing to say
  there, because the alert is not firing or an ignore rule mutes it, or because the card held there was
  orphaned.
\<close>

theorem every_route_served:
  assumes "route \<in> set (resolve sn (al_labels (d_alert delta)) (alert_severity (d_alert delta)))"
    and "is_firing (d_alert delta)"
    and "ignore_for sn (rt_guild_id route) (delivery_channel (rt_target route)) (al_labels (d_alert delta)) now = None"
  shows "(\<exists>p \<in> set (de_new_cards (decide from_ts delta sn storm ex cx ds now)). nn_route_id (pc_card p) = rt_id route \<and>
      planned_key p = (delivery_channel (rt_target route), dedupe_key from_ts delta route storm ds now)) \<or>
    (\<exists>k \<in> set (dedupe_keys from_ts delta route storm ds now). \<exists>cd. ex (delivery_channel (rt_target route), k) = Some cd \<and>
      (n_state cd = Orphaned \<or> (\<exists>u \<in> set (de_updates (decide from_ts delta sn storm ex cx ds now)). cu_id u = n_id cd)))"
proof -
  have r: "route \<in> set (routes_for delta sn)" "\<not> is_muted sn delta now route"
    using assms by (simp_all add: routes_for_def is_muted_def)
  obtain old held' where h: "held_card from_ts delta storm ex ds now route = (old, held')" by fastforce
  show ?thesis
  proof (cases held')
    case None
    obtain p where "creation_for delta route (delivery_channel (rt_target route)) (dedupe_key from_ts delta route storm ds now)
        False (alert_severity (d_alert delta)) (map_option n_id old) now = Some p" and
      p: "nn_route_id (pc_card p) = rt_id route" "planned_key p = (delivery_channel (rt_target route), dedupe_key from_ts delta route storm ds now)"
      using assms(2) by (simp add: creation_for_Some planned_key_def)
    then have "route_card from_ts delta sn storm ex ds now route = Some p"
      using h None r(2) by (simp add: route_card_def)
    then have "p \<in> set (de_new_cards (decide from_ts delta sn storm ex cx ds now))"
      using r(1) by (auto simp: decide_eq map_filter_mem)
    with p show ?thesis by blast
  next
    case (Some cd)
    obtain k where k: "k \<in> set (dedupe_keys from_ts delta route storm ds now)"
      "ex (delivery_channel (rt_target route), k) = Some cd"
      using held_cardD [OF h [unfolded Some]] by blast
    show ?thesis
    proof (cases "n_state cd = Orphaned")
      case False
      then obtain u where u: "route_update from_ts delta sn storm ex cx ds now route = Some u"
        using h Some update_for_None_iff by (fastforce simp: route_update_def)
      then have "cu_id u = n_id cd" using h Some by (auto simp: route_update_def dest: update_forD(2))
      moreover have "u \<in> set (de_updates (decide from_ts delta sn storm ex cx ds now))"
        using u r(1) by (auto simp: decide_eq map_filter_mem)
      ultimately show ?thesis using k by blast
    qed (use k in blast)
  qed
qed

lemma text_resolves: "resolve text_snapshot disk_labels Critical = [text_route]" "sn_ignores text_snapshot = []"
  by (simp_all add: text_snapshot_def new_snapshot_def resolve_def route_accepts_def text_route_def set_matches_def at_least_def)

lemma text_keys [simp]: "dedupe_keys from_ts fired text_route quiet default_settings 0 = [per_alert fp_a]"
  by (simp add: dedupe_keys_def text_route_def is_storming_def quiet_def empty_storm_def threshold_for_def storm_count_def
      alert_identity_def identity_exact default_settings_def is_exact_def Set.is_empty_iff Let_def)

lemma held_decision:
  "de_new_cards (decide (\<lambda>_. None) fired text_snapshot quiet held nobody default_settings 0) = []"
  by code_simp

lemma held_at: "held (7, per_alert fp_a) = Some disk_card"
  by (simp add: held_def)

theorem every_route_served_witness:
  "\<exists>u \<in> set (de_updates (decide (\<lambda>_. None) fired text_snapshot quiet held nobody default_settings 0)). cu_id u = 1"
  using every_route_served [of text_route text_snapshot fired 0 "\<lambda>_. None" quiet held nobody default_settings]
  by (simp add: text_resolves ignore_for_def held_decision held_at)

section \<open>Updates\<close>

text \<open>
  C15: When an alert resolves, an open card on a route either stays as it is and is handed to an alert that
  still fires behind it (the card's own alert first), with no state change, no sealing and no disabling of its
  buttons, or, when none of them fires on that route, it is resolved under the resolving alert and its buttons
  are disabled.
\<close>

theorem resolve_waits_for_siblings:
  assumes "\<not> is_firing (d_alert delta)" "is_open (n_state cd) \<or> n_state cd = Ignored"
  shows "\<exists>u. update_for delta route sn cd ignored acknowledged siblings ds now = Some u \<and>
    (case still_firing route cd siblings of
       Some a \<Rightarrow> cu_state u = None \<and> cu_fingerprint u = al_fingerprint a \<and> live_on route a \<and> a \<in> set siblings \<and>
         DisableComponents (n_id cd) \<notin> no_effect ` set (cu_effects u)
     | None \<Rightarrow> (\<forall>a \<in> set siblings. \<not> live_on route a) \<and> cu_state u = Some Resolved \<and>
         cu_fingerprint u = al_fingerprint (d_alert delta) \<and>
         DisableComponents (n_id cd) \<in> no_effect ` set (cu_effects u))"
proof -
  have "n_state cd \<noteq> Orphaned" using assms(2) by (auto simp: is_open_def)
  then obtain u where u: "update_for delta route sn cd ignored acknowledged siblings ds now = Some u"
    using update_for_None_iff by blast
  note us = update_state_resolved [OF assms] and d = update_forD [OF u]
  show ?thesis
  proof (cases "still_firing route cd siblings")
    case None
    then have "\<forall>a \<in> set siblings. \<not> live_on route a"
      by (auto simp: still_firing_def find_None_iff split: option.splits)
    with None u us d show ?thesis by (auto simp: update_effects_def immediate_def image_iff)
  next
    case (Some a)
    then have "live_on route a \<and> a \<in> set siblings"
      by (auto simp: still_firing_def split: option.splits dest!: find_SomeD)
    with Some u us d show ?thesis
      by (auto simp: effect_defs opt_list_def split: route_target.splits if_splits option.splits)
  qed
qed

theorem resolve_waits_for_siblings_witness:
  "\<exists>u. update_for resolved text_route text_snapshot disk_card False False [] default_settings 0 = Some u \<and> cu_state u = Some Resolved"
  using resolve_waits_for_siblings [of resolved disk_card text_route text_snapshot False False "[]" default_settings 0]
  by (auto simp: is_open_def still_firing_def)

text \<open>
  A firing change on a resolved card re-arms it into the state its alert is in: nothing while an ignore
  rule mutes it, silenced while Alertmanager suppresses it, otherwise acknowledged if somebody holds the alert
  and firing if nobody does; and the card shows the alert that fired.
\<close>

theorem rearmed_state:
  assumes "is_firing (d_alert delta)" "delta_ok delta" "n_state cd = Resolved"
  shows "\<exists>u. update_for delta route sn cd ignored acknowledged siblings ds now = Some u \<and>
    cu_fingerprint u = al_fingerprint (d_alert delta) \<and>
    cu_state u = (if ignored then None else if is_suppressed (al_am_state (d_alert delta)) then Some Silenced
      else Some (if acknowledged then Acked else Firing))"
proof -
  obtain u where u: "update_for delta route sn cd ignored acknowledged siblings ds now = Some u"
    using update_for_None_iff assms(3) by fastforce
  with update_forD [OF u] update_state_rearm [OF assms] update_state_firing(1) [OF assms(1,2)] show ?thesis by auto
qed

theorem rearmed_state_witness:
  "\<exists>u. update_for fired text_route text_snapshot (disk_card\<lparr>n_state := Resolved\<rparr>) False True [] default_settings 0 = Some u \<and>
     cu_state u = Some Acked"
  using rearmed_state [of fired "disk_card\<lparr>n_state := Resolved\<rparr>" text_route text_snapshot False True "[]" default_settings 0]
  by (auto simp: delta_ok_def is_suppressed_def)

text \<open>
  An update moves a card only along the state machine's edges, or from resolved to silenced when the card
  is re-armed by a suppressed alert; it never moves a card to the state it is in, never orphans one and never
  touches one already orphaned.
\<close>

theorem update_moves:
  assumes "update_for delta route sn cd ignored acknowledged siblings ds now = Some u" "cu_state u = Some s"
  shows "n_state cd \<noteq> Orphaned \<and> s \<noteq> Orphaned \<and> s \<noteq> n_state cd \<and>
    (s \<in> successors (n_state cd) \<or> (n_state cd = Resolved \<and> s = Silenced))"
proof -
  have us: "fst (update_state delta route cd ignored acknowledged siblings) = Some s"
    using assms(2) update_forD(3) [OF assms(1)] by simp
  obtain tr sh where p: "settle_on (trigger_for delta cd ignored) (still_firing route cd siblings) (d_alert delta) = (tr, sh)"
    by fastforce
  have "tr \<noteq> Some TMessageLost"
    using p by (auto simp: settle_on_def trigger_for_def from_event_def Let_def split: option.splits if_splits event_kind.splits)
  moreover have "s = Silenced \<and> n_state cd = Resolved \<or> Option.bind tr (\<lambda>t. next_state (n_state cd) t acknowledged) = Some s"
    using us by (auto simp: update_state_def p Let_def split: if_splits)
  ultimately have "s \<noteq> Orphaned"
    by (auto simp: next_state_def Let_def split: bind_splits if_splits trigger.splits option.splits)
  moreover from update_state_moves [OF us] have "card_step (n_state cd) s \<or> (n_state cd = Resolved \<and> s = Silenced)" .
  ultimately show ?thesis
    using update_forD(1) [OF assms(1)] by (auto simp: card_step_iff successors_def split: notification_state.splits)
qed

theorem update_moves_witness:
  "Resolved \<in> successors (n_state disk_card)"
proof -
  obtain u where u: "update_for resolved text_route text_snapshot disk_card False False [] default_settings 0 = Some u"
    using update_for_None_iff [of resolved text_route text_snapshot disk_card] by fastforce
  moreover have "cu_state u = Some Resolved"
    using update_forD(3) [OF u] update_state_resolved [of resolved disk_card text_route False False "[]"]
    by (simp add: is_open_def still_firing_def)
  ultimately show ?thesis using update_moves by fastforce
qed

text \<open>
  Everything an update enqueues is about the card it updates and is queued under that card's key, now or
  one debounce later; it edits the card exactly once and never posts one.
\<close>

theorem update_effects_scope:
  assumes "update_for delta route sn cd ignored acknowledged siblings ds now = Some u"
  shows "cu_id u = n_id cd \<and>
    (\<forall>e \<in> set (cu_effects u). effect_notification (no_effect e) = Some (n_id cd) \<and> no_dedupe_key e = n_dedupe_key cd \<and>
      no_not_before e \<in> {now, now + ds_debounce ds} \<and> (\<forall>m. no_effect e \<noteq> PostCard (n_id cd) m)) \<and>
    filter (\<lambda>e. no_effect e = EditCard (n_id cd)) (cu_effects u) = [debounced (EditCard (n_id cd)) cd ds now]"
proof -
  note d = update_forD [OF assms]
  have "filter (\<lambda>e. no_effect e = EditCard (n_id cd)) (cu_effects u) = [debounced (EditCard (n_id cd)) cd ds now]"
    unfolding d(5) by (simp add: effect_defs opt_list_def split: route_target.splits)
  moreover have "no_effect e \<noteq> PostCard (n_id cd) m" if "e \<in> set (cu_effects u)" for e m
    using update_effects_card(4) [OF that [unfolded d(5)]] by auto
  ultimately show ?thesis using d(2) update_effects_card(1-3) [of _ delta route sn cd "cu_state u"]
    unfolding d(5) by blast
qed

theorem update_effects_scope_witness:
  "\<exists>u. update_for fired text_route text_snapshot disk_card False False [] default_settings 0 = Some u \<and> cu_id u = 1"
proof -
  obtain u where "update_for fired text_route text_snapshot disk_card False False [] default_settings 0 = Some u"
    using update_for_None_iff [of fired text_route text_snapshot disk_card] by fastforce
  with update_effects_scope [OF this] show ?thesis by auto
qed

text \<open>
  C23: On a forum route that archives on resolve, the last thing a worker claims of a resolution is the flag
  write that archives (and, if the policy says so, locks) the post, so every edit, note, tag and button change
  of that resolution reaches the post before it is sealed.
\<close>

theorem sealed_last:
  assumes "rt_target route = ForumTarget channel policy" "fp_archive_on_resolve policy" "0 \<le> ds_debounce ds"
    "update_for delta route sn cd ignored acknowledged siblings ds now = Some u" "cu_state u = Some Resolved"
  shows "last (claim_order (cu_effects u)) = debounced (SetFlags (n_id cd) True (fp_lock_on_resolve policy)
    (auto_archive_minutes route Resolved ds) (Some Resolved)) cd ds now"
proof -
  let ?seal = "debounced (SetFlags (n_id cd) True (fp_lock_on_resolve policy) (auto_archive_minutes route Resolved ds) (Some Resolved)) cd ds now"
  note eff = update_forD(5) [OF assms(4)]
  obtain xs where xs: "cu_effects u = xs @ [?seal]"
    unfolding eff assms(5) using assms(1,2) by (simp add: update_effects_def resolved_post_flags_def)
  have "no_not_before e \<le> no_not_before ?seal" if "e \<in> set xs" for e
  proof -
    have "e \<in> set (cu_effects u)" using that xs by simp
    from update_effects_card(3) [OF this [unfolded eff]] assms(3) show ?thesis by (auto simp: debounced_def)
  qed
  then show ?thesis unfolding xs by (subst last_claim_order) auto
qed

theorem sealed_last_witness:
  "\<exists>u. update_for resolved forum_route text_snapshot disk_card False False [] default_settings 0 = Some u \<and>
     no_effect (last (claim_order (cu_effects u))) = SetFlags 1 True True 1440 (Some Resolved)"
proof -
  obtain u where u: "update_for resolved forum_route text_snapshot disk_card False False [] default_settings 0 = Some u"
    using update_for_None_iff [of resolved forum_route text_snapshot disk_card] by fastforce
  moreover have "cu_state u = Some Resolved"
    using update_forD(3) [OF u] update_state_resolved [of resolved disk_card forum_route False False "[]"]
    by (simp add: is_open_def still_firing_def)
  moreover have "rt_target forum_route = ForumTarget 8 post_policy" by (simp add: forum_route_def)
  moreover have "auto_archive_minutes forum_route Resolved default_settings = 1440"
    by (simp add: auto_archive_minutes_def holds_thread_open_def forum_route_def post_policy_def)
  ultimately show ?thesis
    using sealed_last [of forum_route 8 post_policy default_settings resolved text_snapshot disk_card False False "[]" 0 u]
    by (simp add: post_policy_def default_settings_def seconds_def debounced_def)
qed

section \<open>Tags\<close>

text \<open>
  The tags the decision wants on a forum post are at most five, Discord's limit, all different, and all
  ids the snapshot caches for that very channel.
\<close>

theorem desired_tags_budget:
  "length (desired_tags sn channel policy state sev ls) \<le> MAX_APPLIED_TAGS \<and>
   distinct (desired_tags sn channel policy state sev ls) \<and>
   set (desired_tags sn channel policy state sev ls) \<subseteq> {t. \<exists>name. tag_id sn channel name = Some t}"
proof -
  let ?tags = "apply_tag_names (tag_id sn channel) (tag_names policy state sev ls) []"
  have b: "length ?tags \<le> MAX_APPLIED_TAGS \<and> distinct ?tags \<and> set ?tags \<subseteq> {t. \<exists>name. tag_id sn channel name = Some t}"
    using apply_tag_names_bound [of "[]" "tag_id sn channel" "tag_names policy state sev ls"]
    by (auto simp: MAX_APPLIED_TAGS_def)
  show ?thesis
  proof (cases "?tags = []")
    case True
    then show ?thesis
      by (auto simp: desired_tags_def Let_def MAX_APPLIED_TAGS_def split: option.splits bind_splits)
  next
    case False
    with b show ?thesis by (simp add: desired_tags_def Let_def)
  qed
qed

section \<open>Storms\<close>

lemma storm_run_params: "sc_window (fold storm_step es c) = sc_window c"
proof (induction es arbitrary: c)
  case (Cons e es)
  then show ?case by (cases e) (auto simp: observe_def storm_snapshot_def Let_def)
qed simp

lemma foldl_last_time: "sorted (map event_time es) \<Longrightarrow> \<forall>e \<in> set es. t0 \<le> event_time e \<Longrightarrow> t0 \<le> t \<Longrightarrow> \<forall>e \<in> set es. event_time e \<le> t \<Longrightarrow>
  foldl (\<lambda>_. event_time) t0 es \<le> t"
  by (induction es arbitrary: t0) auto

text \<open>
  C40: Whatever the counter trimmed, and whichever snapshots were taken in between, a route is judged to be
  storming exactly when the alerts it accepted inside the window reach its threshold, the forum's for a forum
  route.
\<close>

theorem storm_verdict:
  assumes "sorted (map event_time es)" "\<forall>e \<in> set es. event_time e \<le> t"
  shows "is_storming (snd (storm_snapshot t (fold storm_step es (new_counter threshold forum_threshold window)))) route \<longleftrightarrow>
    (if is_forum (rt_target route) then forum_threshold else threshold) \<le> live_since (t - window) (history (rt_id route) es)"
proof -
  let ?c = "new_counter threshold forum_threshold window"
  define t0 where "t0 = (case es of [] \<Rightarrow> t | e # _ \<Rightarrow> event_time e)"
  have t0: "\<forall>e \<in> set es. t0 \<le> event_time e" "t0 \<le> t" using assms by (cases es; simp add: t0_def)+
  note rel = storm_rel_run [OF storm_rel_new assms(1) t0(1), of threshold forum_threshold window "rt_id route", simplified]
  have le: "foldl (\<lambda>_. event_time) t0 es \<le> t" by (rule foldl_last_time [OF assms(1) t0 assms(2)])
  have params: "sc_threshold (fold storm_step es c) = sc_threshold c" "sc_forum_threshold (fold storm_step es c) = sc_forum_threshold c" for c
  proof -
    have "sc_threshold (storm_step e c) = sc_threshold c \<and> sc_forum_threshold (storm_step e c) = sc_forum_threshold c" for e c
      by (cases e) (auto simp: observe_def storm_snapshot_def Let_def)
    then show "sc_threshold (fold storm_step es c) = sc_threshold c" "sc_forum_threshold (fold storm_step es c) = sc_forum_threshold c"
      by (induction es arbitrary: c) auto
  qed
  show ?thesis
    unfolding storming_iff [OF rel le refl refl]
    by (simp add: storm_run_params params threshold_for_def storm_snapshot_def Let_def new_counter_def)
qed

theorem storm_verdict_witness:
  "is_storming (snd (storm_snapshot 9 (fold storm_step [Arrival 1 1, Arrival 2 2, Snapshot 3, Arrival 1 5] (new_counter 2 1 20)))) text_route"
  using storm_verdict [of "[Arrival 1 1, Arrival 2 2, Snapshot 3, Arrival 1 5]" 9 2 1 20 text_route]
  by (simp add: live_since_def text_target_def)

section \<open>Routing\<close>

text \<open>
  Within one guild an alert goes to the accepting routes in (priority, id) order, up to and including the
  first that does not continue, whatever routes other guilds have and in whatever order the routes were given.
\<close>

theorem resolve_first_match:
  "filter (\<lambda>r. rt_guild_id r = g) (resolve (new_snapshot rs igs tags) ls sev) =
     first_match (sort_key (\<lambda>r. (rt_priority r, rt_id r)) (filter (\<lambda>r. rt_guild_id r = g \<and> route_accepts r ls sev) rs))"
  by (simp add: resolve_guild filter_new_snapshot)

text \<open>
  A subscription that accepts an alert is always delivered: in a snapshot loaded from the store no route
  can settle the subscriptions' guild, so neither a route nor another subscription can keep it from its user.
\<close>

theorem subscription_reaches_user:
  assumes "load_snapshot (Inr rs) igf tagf (Inr sus) = Inr sn" "\<forall>r \<in> set rs. rt_guild_id r \<noteq> SUBSCRIPTION_GUILD"
    "su \<in> set sus" "route_accepts (subscription_route su) ls sev"
  shows "\<exists>route \<in> set (resolve sn ls sev). rt_target route = DmTarget (su_user_id su) \<and> rt_id route = - su_id su"
proof
  show "subscription_route su \<in> set (resolve sn ls sev)"
    using subscription_delivered [OF assms(1) refl assms(2-4)] .
  show "rt_target (subscription_route su) = DmTarget (su_user_id su) \<and> rt_id (subscription_route su) = - su_id su"
    by (simp add: subscription_route_def)
qed

definition disk_subscription :: subscription where
  "disk_subscription = \<lparr>su_id = 3, su_user_id = 42, su_matcher_source = [], su_matchers = [], su_min_severity = None, su_created_at = 0\<rparr>"

theorem subscription_reaches_user_witness:
  "\<exists>sn. load_snapshot (Inr [text_route]) (\<lambda>_. Inr []) (\<lambda>_. Inr []) (Inr [disk_subscription]) = Inr sn \<and>
     (\<exists>route \<in> set (resolve sn disk_labels Critical). rt_target route = DmTarget 42)"
proof -
  have acc: "route_accepts (subscription_route disk_subscription) disk_labels Critical"
    by (simp add: subscription_route_def disk_subscription_def route_accepts_def set_matches_def at_least_def)
  obtain sn where sn: "load_snapshot (Inr [text_route]) (\<lambda>_. Inr []) (\<lambda>_. Inr []) (Inr [disk_subscription]) = Inr sn"
    by (simp add: load_snapshot_def forum_channel_def text_target_def List.map_filter_simps)
  from subscription_reaches_user [OF sn _ _ acc] show ?thesis
    using sn by (auto simp: SUBSCRIPTION_GUILD_def disk_subscription_def)
qed

text \<open>
  An alert is muted in a channel exactly when some ignore rule of its guild, active and matching, covers
  that channel; and the rule reported is a guild-wide one whenever a guild-wide one mutes.
\<close>

theorem ignore_reported:
  "case ignore_for sn g c ls now of
     None \<Rightarrow> \<forall>r \<in> set (sn_ignores sn). ig_guild_id r = g \<longrightarrow> \<not> ignore_mutes r ls c now
   | Some r \<Rightarrow> r \<in> set (sn_ignores sn) \<and> ig_guild_id r = g \<and> ignore_active r now \<and> set_matches (ig_matchers r) ls \<and>
       (ig_scope r = IgnoreGuild \<or> ig_channel_id r = Some c \<and>
         (\<forall>q \<in> set (sn_ignores sn). ig_guild_id q = g \<longrightarrow> ignore_mutes q ls c now \<longrightarrow> ig_scope q \<noteq> IgnoreGuild))"
proof (cases "ignore_for sn g c ls now")
  case None
  with ignore_for_None_iff [of sn g c ls now] show ?thesis by simp
next
  case (Some r)
  note m = ignore_for_mutes [OF Some]
  from m(3) have r: "ignore_active r now" "set_matches (ig_matchers r) ls" "ig_scope r = IgnoreGuild \<or> ig_channel_id r = Some c"
    by (auto simp: ignore_mutes_def split: if_splits ignore_scope.splits)
  have "\<forall>q \<in> set (sn_ignores sn). ig_guild_id q = g \<longrightarrow> ignore_mutes q ls c now \<longrightarrow> ig_scope q \<noteq> IgnoreGuild"
    if "ig_scope r \<noteq> IgnoreGuild"
    using ignore_for_guild_first [OF Some] that by blast
  with m(1,2) r Some show ?thesis by fastforce
qed

definition guild_mute :: ignore_rule where
  "guild_mute = \<lparr>ig_id = 1, ig_scope = IgnoreGuild, ig_guild_id = 10, ig_channel_id = None, ig_matcher_source = [],
     ig_matchers = [], ig_reason = [], ig_created_by = 1, ig_created_at = 0, ig_expires_at = Some 9, ig_revoked_at = None\<rparr>"

definition muted_snapshot :: routing_snapshot where "muted_snapshot = new_snapshot [text_route] [guild_mute] []"

theorem ignore_reported_witness:
  "(\<exists>r. ignore_for muted_snapshot 10 7 disk_labels 5 = Some r \<and> ignore_active r 5) \<and> ignore_for muted_snapshot 10 7 disk_labels 9 = None"
proof -
  have "ignore_mutes guild_mute disk_labels 7 5" "\<not> ignore_mutes guild_mute disk_labels 7 9"
    by (simp_all add: ignore_mutes_def ignore_active_def guild_mute_def set_matches_def)
  then have "ignore_for muted_snapshot 10 7 disk_labels 5 = Some guild_mute" "ignore_for muted_snapshot 10 7 disk_labels 9 = None"
    by (simp_all add: ignore_for_def muted_snapshot_def new_snapshot_def) (simp add: guild_mute_def)
  then show ?thesis
    using ignore_reported [where sn = muted_snapshot and g = 10 and c = 7 and ls = disk_labels and now = 5] by simp
qed

end
