(* ===== verification/Properties_Store.thy ===== *)
theory Properties_Store
  imports Fixtures
begin

text \<open>What the SQLite store promises of its cards, its queue, its alerts and its acknowledgements.\<close>

section \<open>Decisions\<close>

text \<open>
  Applying a decision is all or nothing: either every planned card gets a row, and the store's invariant
  still holds (one card per channel and key, one per message, every queued item in its key's lane), or the
  database is exactly what it was.
\<close>

theorem decision_atomic:
  assumes "db_ok db" "decision_ok d"
  shows "case apply_decision d db of
      (Inr ids, db') \<Rightarrow> length ids = length (de_new_cards d) \<and> db_ok db' \<and> distinct (map card_key (db_cards db'))
    | (Inl e, db') \<Rightarrow> db' = db"
proof -
  obtain r db' where r: "apply_decision d db = (r, db')" by fastforce
  show ?thesis
  proof (cases r)
    case (Inl e)
    with r show ?thesis by (auto simp: apply_decision_def dest: run_tx_Inl)
  next
    case (Inr ids)
    have "tx_map f xs s = Inr (ys, s') \<Longrightarrow> length ys = length xs" for f :: "planned_card \<Rightarrow> notification_id tx" and xs ys s s'
      by (induction xs arbitrary: ys s) (auto simp: tx_bind_Inr_iff)
    then have "length ids = length (de_new_cards d)"
      using r Inr by (auto simp: apply_decision_def apply_decision_tx_def tx_bind_Inr_iff)
    moreover have "db_ok db'" using apply_decision_db_ok [OF assms(2,1)] r by simp
    ultimately show ?thesis using r Inr by (simp add: db_ok_def cards_ok_def keys_unique_eq)
  qed
qed

definition disk_plan :: decision where
  "disk_plan = \<lparr>de_new_cards = [\<lparr>pc_card = \<lparr>nn_dedupe_key = per_alert fp_a, nn_fingerprint = fp_a, nn_route_id = 1,
     nn_guild_id = 10, nn_channel_id = 7, nn_state = Firing, nn_supersedes = None, nn_created_at = 0\<rparr>,
     pc_mention = True, pc_not_before = 0\<rparr>], de_updates = [], de_at = 0\<rparr>"

definition disk_db :: db where "disk_db = snd (apply_decision disk_plan empty_db)"

lemma disk_plan_ok [simp]: "decision_ok disk_plan"
  by (simp add: decision_ok_def disk_plan_def)

lemma empty_db_ok [simp]: "db_ok empty_db"
  by (rule store.inv_empty)

lemma disk_db_ok [simp]: "db_ok disk_db"
  unfolding disk_db_def by (rule apply_decision_db_ok) simp_all

definition disk_item :: outbox_item where
  "disk_item = \<lparr>ob_id = 1, ob_lane = key_lane (per_alert fp_a) OUTBOX_LANES, ob_effect = PostCard 1 True,
     ob_dedupe_key = per_alert fp_a, ob_not_before = 0, ob_attempts = 0, ob_claimed_by = None, ob_claimed_at = None,
     ob_last_error = None, ob_created_at = 0\<rparr>"

lemma disk_apply: "apply_decision disk_plan empty_db = (Inr [1], disk_db)"
  "db_cards disk_db = [disk_card]" "db_outbox disk_db = [disk_item]" "db_acks disk_db = []" "db_alerts disk_db = []"
  by (simp_all add: disk_db_def apply_decision_def apply_decision_tx_def disk_plan_def run_tx_def tx_bind_def tx_ret_def
      apply_new_card_def insert_notification_def Let_def empty_db_def write_cards_def keys_unique_def messages_unique_def
      List.map_filter_simps new_row_def post_item_def enqueue_def insert_item_def disk_card_def disk_item_def)

theorem decision_atomic_witness:
  "\<exists>db'. apply_decision disk_plan empty_db = (Inr [1], db') \<and> distinct (map card_key (db_cards db'))"
  using decision_atomic [of empty_db disk_plan] by (simp add: disk_apply(1))

text \<open>
  C24: Whatever any number of workers, pollers, commands and gateway events do to the store, in any order and
  with any arguments, so long as decisions come from the decision function, there is at most one card per
  channel and key and one per message, at most one unrevoked acknowledgement and one row per alert, a card
  carries a resolution time whenever it is resolved and otherwise only if it was since orphaned, and every
  queued item sits in its key's lane, claimed by somebody exactly when it has a claim time.
\<close>

theorem any_history_keeps_invariant:
  assumes "list_all call_ok calls"
  defines "db \<equiv> fold run_call calls empty_db"
  shows "distinct (map (\<lambda>n. (n_channel_id n, n_dedupe_key n)) (db_cards db)) \<and> distinct (map n_id (db_cards db)) \<and>
    distinct (List.map_filter n_message_id (db_cards db)) \<and>
    distinct (map ak_fingerprint (filter (\<lambda>a. ak_revoked_at a = None) (db_acks db))) \<and>
    distinct (map (\<lambda>r. al_fingerprint (ar_alert r)) (db_alerts db)) \<and>
    (\<forall>n \<in> set (db_cards db). (n_state n = Resolved \<longrightarrow> n_resolved_at n \<noteq> None) \<and>
       (n_resolved_at n \<noteq> None \<longrightarrow> n_state n \<in> {Resolved, Orphaned})) \<and>
    (\<forall>i \<in> set (db_outbox db). ob_lane i = key_lane (ob_dedupe_key i) OUTBOX_LANES \<and>
       (ob_claimed_by i = None \<longleftrightarrow> ob_claimed_at i = None))"
  using history_ok [OF assms(1)] unfolding db_def [symmetric]
  by (auto simp: db_ok_def cards_ok_def card_ok_def keys_unique_def messages_unique_def acks_ok_def outbox_ok_def item_ok_def
      alerts_ok_def)

theorem any_history_keeps_invariant_witness:
  "distinct (map n_id (db_cards (fold run_call [CallDecision disk_plan, CallOrphan 1 5, CallDecision disk_plan] empty_db)))"
  using any_history_keeps_invariant [of "[CallDecision disk_plan, CallOrphan 1 5, CallDecision disk_plan]"] by simp

text \<open>
  A card that was lost can be replaced: orphaning a card always succeeds on a card that exists, and
  afterwards no card holds its channel and key, so a later change posts a new one there.
\<close>

theorem orphan_frees_key:
  assumes "cards_ok db" "n \<in> set (db_cards db)" "key_retirement (n_dedupe_key n) = None"
  shows "\<exists>db'. orphan_notification (n_id n) now db = (Inr (), db') \<and>
    notification_for (n_dedupe_key n) (n_channel_id n) db' = None \<and>
    map n_id (db_cards db') = map n_id (db_cards db)"
  by (rule orphan_releases [OF assms])

theorem orphan_frees_key_witness:
  "\<exists>db'. orphan_notification 1 5 disk_db = (Inr (), db') \<and> notification_for (per_alert fp_a) 7 db' = None"
  using orphan_frees_key [of disk_db disk_card 5] disk_db_ok by (auto simp: disk_apply db_ok_def)

section \<open>The queue\<close>

text \<open>
  A claim takes the due, unclaimed items of its lane class in (due time, id) order up to its limit: whatever
  it leaves is not due, not its lane's, already claimed, or later than everything it took; each item it takes is
  marked as its own and counts one more attempt, and no other item changes.
\<close>

theorem claim_takes_earliest:
  assumes "outbox_ok db" "claim_outbox w req now db = (Inr items, db')"
  shows "length items \<le> cr_limit req \<and> sorted (map item_order items) \<and>
    (\<forall>i \<in> set items. \<exists>r \<in> set (db_outbox db). claimable (cr_lane req) now r \<and> i = take_row w now r) \<and>
    (\<forall>r \<in> set (db_outbox db). r \<in> set (db_outbox db') \<or> take_row w now r \<in> set items) \<and>
    (\<forall>r \<in> set (db_outbox db). claimable (cr_lane req) now r \<longrightarrow> take_row w now r \<notin> set items \<longrightarrow>
       length items = cr_limit req \<and> (\<forall>i \<in> set items. item_order i \<le> item_order r))"
proof -
  let ?due = "due_items req now db"
  let ?taken = "take (cr_limit req) ?due"
  have eq: "items = map (take_row w now) ?taken"
    "db' = db\<lparr>db_outbox := update_where (\<lambda>r. r \<in> set ?taken) (take_row w now) (db_outbox db)\<rparr>"
    using claim_outbox_eq [OF assms(1), of w req now] assms(2) by simp_all
  have sorted: "sorted (map item_order ?due)" by (simp add: due_items_def)
  have ord: "item_order (take_row w now r) = item_order r" for r by simp
  have mo: "map item_order items = map item_order ?taken" unfolding eq(1) by simp
  have 1: "sorted (map item_order items)"
    unfolding mo using sorted by (simp add: take_map [symmetric] sorted_wrt_take)
  have 2: "\<exists>r \<in> set (db_outbox db). claimable (cr_lane req) now r \<and> i = take_row w now r" if "i \<in> set items" for i
  proof -
    from that obtain r where "r \<in> set ?taken" "i = take_row w now r" unfolding eq(1) by auto
    then show ?thesis using due_items_mem [of r req now db] in_set_takeD by fast
  qed
  have 3: "r \<in> set (db_outbox db') \<or> take_row w now r \<in> set items" if "r \<in> set (db_outbox db)" for r
    using that unfolding eq by (cases "r \<in> set ?taken") (auto simp: set_update_where intro: rev_image_eqI)
  have 4: "length items = cr_limit req \<and> (\<forall>i \<in> set items. item_order i \<le> item_order r)"
    if r: "r \<in> set (db_outbox db)" "claimable (cr_lane req) now r" "take_row w now r \<notin> set items" for r
  proof -
    have due: "r \<in> set ?due" using r by (simp add: due_items_mem)
    have out: "r \<notin> set ?taken" using r(3) unfolding eq(1) by auto
    with due have "cr_limit req < length ?due" by (metis not_le take_all)
    moreover have "item_order i \<le> item_order r" if "i \<in> set items" for i
    proof -
      from that obtain q where q: "q \<in> set ?taken" "i = take_row w now q" unfolding eq(1) by auto
      from take_sorted_le [OF sorted q(1) due out] q(2) ord show ?thesis by simp
    qed
    ultimately show ?thesis by (simp add: eq(1))
  qed
  show ?thesis using 1 2 3 4 by (simp add: eq(1) del: take_row_simps)
qed

definition any_worker :: claim_request where
  "any_worker = \<lparr>cr_lane = None, cr_lease_secs = 30, cr_limit = 8\<rparr>"

definition claimed_db :: db where "claimed_db = snd (claim_outbox ''w1'' any_worker 5 disk_db)"

lemma disk_claim: "claim_outbox ''w1'' any_worker 5 disk_db = (Inr [take_row ''w1'' 5 disk_item], claimed_db)"
  "db_outbox claimed_db = [take_row ''w1'' 5 disk_item]"
proof -
  have ok: "outbox_ok disk_db" using disk_db_ok by (simp add: db_ok_def)
  have due: "due_items any_worker 5 disk_db = [disk_item]"
    by (simp add: due_items_def disk_apply claimable_def disk_item_def any_worker_def)
  show "claim_outbox ''w1'' any_worker 5 disk_db = (Inr [take_row ''w1'' 5 disk_item], claimed_db)"
    "db_outbox claimed_db = [take_row ''w1'' 5 disk_item]"
    unfolding claimed_db_def claim_outbox_eq [OF ok] due by (simp_all add: any_worker_def update_where_def disk_apply)
qed

theorem claim_takes_earliest_witness:
  "\<exists>r \<in> set (db_outbox disk_db). claimable None 5 r \<and> take_row ''w1'' 5 disk_item = take_row ''w1'' 5 r"
  using claim_takes_earliest [OF _ disk_claim(1)] disk_db_ok by (auto simp: db_ok_def any_worker_def)

text \<open>
  Two claims never hand out the same item: what one worker was given, no later claim by any worker at any
  time returns, for as long as nobody completes, fails or reclaims in between.
\<close>

theorem claims_never_overlap:
  assumes "outbox_ok db" "claim_outbox w req now db = (Inr xs, db1)" "claim_outbox w' req' now' db1 = (Inr ys, db2)"
  shows "ob_id ` set xs \<inter> ob_id ` set ys = {}"
proof -
  have ok1: "outbox_ok db1" using claim_outbox_ok [OF assms(1), of w req now] assms(2) by simp
  have x: "\<exists>r1 \<in> set (db_outbox db1). ob_id r1 = ob_id x \<and> ob_claimed_at r1 \<noteq> None" if "x \<in> set xs" for x
  proof -
    from that obtain r where r: "r \<in> set (take (cr_limit req) (due_items req now db))" "x = take_row w now r"
      using claim_outbox_eq [OF assms(1), of w req now] assms(2) by auto
    have "r \<in> set (db_outbox db)" using r(1) due_items_mem by (fast dest: in_set_takeD)
    then have "take_row w now r \<in> set (db_outbox db1)"
      using r(1) claim_outbox_eq [OF assms(1), of w req now] assms(2) by (auto simp: set_update_where intro: rev_image_eqI)
    then show ?thesis using r(2) by (intro bexI [of _ "take_row w now r"]) (simp_all add: take_row_def)
  qed
  have y: "\<exists>r1 \<in> set (db_outbox db1). ob_id r1 = ob_id y \<and> ob_claimed_at r1 = None" if "y \<in> set ys" for y
  proof -
    from that obtain r where r: "r \<in> set (take (cr_limit req') (due_items req' now' db1))" "y = take_row w' now' r"
      using claim_outbox_eq [OF ok1, of w' req' now'] assms(3) by auto
    then have "r \<in> set (db_outbox db1)" "claimable (cr_lane req') now' r"
      using due_items_mem [of r req' now' db1] by (auto dest: in_set_takeD)
    then show ?thesis using r(2) by (auto simp: claimable_def)
  qed
  have "r = q" if "r \<in> set (db_outbox db1)" "q \<in> set (db_outbox db1)" "ob_id r = ob_id q" for r q
    using ok1 that by (auto simp: outbox_ok_def distinct_map dest: inj_onD)
  with x y show ?thesis by (fastforce simp: disjoint_iff)
qed

theorem claims_never_overlap_witness:
  "\<exists>ys db2. claim_outbox ''w2'' any_worker 9 claimed_db = (Inr ys, db2) \<and> 1 \<notin> ob_id ` set ys"
proof -
  have ok: "outbox_ok disk_db" using disk_db_ok by (simp add: db_ok_def)
  have ok1: "outbox_ok claimed_db" using claim_outbox_ok [OF ok, of "''w1''" any_worker 5] by (simp add: claimed_db_def)
  obtain ys db2 where 2: "claim_outbox ''w2'' any_worker 9 claimed_db = (Inr ys, db2)"
    using claim_outbox_eq [OF ok1, of "''w2''" any_worker 9] by blast
  from claims_never_overlap [OF ok disk_claim(1) 2] 2 show ?thesis by (auto simp: disk_item_def)
qed

text \<open>
  C25: Only the worker holding an item's claim can settle it: a worker whose lease was taken away, or that never
  had it, gets a lost lease from completing and from failing it, and changes nothing.
\<close>

theorem settling_needs_the_claim:
  assumes "outbox_ok db" "\<not> (\<exists>r \<in> set (db_outbox db). ob_id r = i \<and> ob_claimed_by r = Some w)"
  shows "complete_outbox w i applied now db = (Inl (LeaseLost i), db) \<and>
    fail_outbox w i err retry db = (Inl (LeaseLost i), db)"
  using take_claim_lost [OF assms] by (simp add: complete_lost fail_lost)

theorem settling_needs_the_claim_witness:
  "complete_outbox ''w2'' 1 no_applied 7 claimed_db = (Inl (LeaseLost 1), claimed_db)"
proof -
  have ok: "outbox_ok disk_db" using disk_db_ok by (simp add: db_ok_def)
  have ok1: "outbox_ok claimed_db" using claim_outbox_ok [OF ok, of "''w1''" any_worker 5] by (simp add: claimed_db_def)
  from settling_needs_the_claim [OF ok1, of 1 "''w2''"] show ?thesis by (simp add: disk_claim take_row_def)
qed

text \<open>
  The workers' lane classes partition the queue: under n workers every item is some worker's, and only
  that worker's, so one card's items are always claimed by one worker.
\<close>

theorem one_worker_per_lane:
  assumes "0 < n"
  shows "\<exists>!i. i < n \<and> (\<forall>now r. ob_lane r = key_lane k OUTBOX_LANES \<longrightarrow> ob_claimed_at r = None \<longrightarrow> ob_not_before r \<le> now \<longrightarrow>
    claimable (Some (new_lane_assignment i n)) now r)"
proof -
  let ?l = "key_lane k OUTBOX_LANES"
  have "(\<forall>now r. ob_lane r = ?l \<longrightarrow> ob_claimed_at r = None \<longrightarrow> ob_not_before r \<le> now \<longrightarrow>
      claimable (Some (new_lane_assignment i n)) now r) \<longleftrightarrow>
    ?l mod la_of (new_lane_assignment i n) = la_index (new_lane_assignment i n)" for i
  proof
    assume all: "\<forall>now r. ob_lane r = ?l \<longrightarrow> ob_claimed_at r = None \<longrightarrow> ob_not_before r \<le> now \<longrightarrow>
      claimable (Some (new_lane_assignment i n)) now r"
    from all [rule_format, where r = "disk_item\<lparr>ob_lane := ?l\<rparr>" and now = 0]
    show "?l mod la_of (new_lane_assignment i n) = la_index (new_lane_assignment i n)"
      by (simp add: disk_item_def claimable_def)
  qed (simp add: claimable_def)
  then show ?thesis using lanes_partition [OF assms, of ?l] by simp
qed

theorem one_worker_per_lane_witness:
  "\<exists>i < 3. claimable (Some (new_lane_assignment i 3)) 5 (disk_item\<lparr>ob_lane := key_lane (per_alert fp_a) OUTBOX_LANES\<rparr>)"
proof -
  obtain i where "i < 3" and "\<forall>now r. ob_lane r = key_lane (per_alert fp_a) OUTBOX_LANES \<longrightarrow> ob_claimed_at r = None \<longrightarrow>
      ob_not_before r \<le> now \<longrightarrow> claimable (Some (new_lane_assignment i 3)) now r"
    using one_worker_per_lane [of 3 "per_alert fp_a"] by auto
  then show ?thesis by (auto simp: disk_item_def)
qed

section \<open>Nothing queued is lost\<close>

definition grows :: "'a tx \<Rightarrow> bool" where
  "grows m \<longleftrightarrow> (\<forall>db x db'. m db = Inr (x, db') \<longrightarrow> ob_id ` set (db_outbox db) \<subseteq> ob_id ` set (db_outbox db'))"

lemma growsI: "(\<And>db x db'. m db = Inr (x, db') \<Longrightarrow> ob_id ` set (db_outbox db) \<subseteq> ob_id ` set (db_outbox db')) \<Longrightarrow> grows m"
  by (simp add: grows_def)

lemma grows_bind: "grows m \<Longrightarrow> (\<And>x. grows (f x)) \<Longrightarrow> grows (tx_bind m f)"
  unfolding grows_def tx_bind_Inr_iff by (meson order_trans)

lemma grows_ret: "grows (tx_ret x)"
  by (simp add: grows_def)

lemma grows_each: "(\<And>x. grows (f x)) \<Longrightarrow> grows (tx_each f xs)"
  by (induction xs) (auto intro: grows_bind grows_ret)

lemma grows_map: "(\<And>x. grows (f x)) \<Longrightarrow> grows (tx_map f xs)"
  by (induction xs) (auto intro!: grows_bind grows_ret)

lemma grows_frame: "frames queue_tables m \<Longrightarrow> grows m"
  by (rule growsI) (auto dest: framesD)

lemma grows_run: "grows m \<Longrightarrow> ob_id ` set (db_outbox db) \<subseteq> ob_id ` set (db_outbox (snd (run_tx m db)))"
  by (auto simp: grows_def run_tx_def split: sum.splits)

lemma ids_update_where: "(\<And>r. ob_id (f r) = ob_id r) \<Longrightarrow> ob_id ` set (update_where P f rows) = ob_id ` set rows"
  by (metis list.set_map map_update_where)

lemma enqueue_grows: "grows (enqueue item at)"
proof (rule growsI)
  fix db x db'
  assume e: "enqueue item at db = Inr (x, db')"
  show "ob_id ` set (db_outbox db) \<subseteq> ob_id ` set (db_outbox db')"
  proof (cases "is_coalescable (no_effect item) \<and> effect_notification (no_effect item) \<noteq> None
        \<and> 0 < affected (same_card_pending (no_effect item)) (db_outbox db)")
    case True
    with e have "db_outbox db' = update_where (same_card_pending (no_effect item)) (fold_into item) (db_outbox db)"
      by (auto simp: enqueue_def)
    then show ?thesis by (simp add: ids_update_where)
  next
    case False
    with e show ?thesis unfolding enqueue_def by (auto simp: insert_item_def split: if_splits)
  qed
qed

lemma decision_grows: "grows (apply_decision_tx d)"
proof -
  have "grows (apply_new_card at p)" for at p
    unfolding apply_new_card_def
    by (intro grows_bind grows_ret enqueue_grows)
      (auto split: option.split intro: grows_ret grows_frame retire_key_frames insert_notification_frames)
  moreover have "grows (apply_update at u)" for at u
    unfolding apply_update_def
    by (intro grows_bind grows_each enqueue_grows)
      (auto split: option.split simp: set_card_alert_def move_state_def intro: grows_ret grows_frame update_card_frames)
  ultimately show ?thesis
    unfolding apply_decision_tx_def by (intro grows_bind grows_map grows_each grows_ret)
qed

lemma settle_keeps_others:
  assumes "i \<in> ob_id ` set (db_outbox db)" "i \<notin> ob_id ` set (db_outbox (snd (complete_outbox w j a now db)))"
  shows "j = i \<and> (\<exists>r \<in> set (db_outbox db). ob_id r = i \<and> ob_claimed_by r = Some w)"
proof (cases "complete_outbox w j a now db")
  case (Pair r db')
  show ?thesis
  proof (cases r)
    case (Inl e)
    with Pair have "db' = db" by (auto simp: complete_outbox_def dest: run_tx_Inl)
    with assms Pair show ?thesis by simp
  next
    case (Inr u)
    then have "complete_outbox w j a now db = (Inr (), db')" using Pair by simp
    from complete_removes [OF this] assms Pair have "j = i" by auto
    moreover from Inr Pair obtain e where "take_claim w j db = Inr (e, db)"
      by (auto simp: complete_outbox_def tx_bind_Inr_iff take_claim_Inr)
    then have "\<exists>r \<in> set (db_outbox db). ob_id r = j \<and> ob_claimed_by r = Some w"
      unfolding take_claim_Inr by (auto dest!: find_SomeD)
    ultimately show ?thesis by simp
  qed
qed

lemma fail_keeps_others:
  assumes "i \<in> ob_id ` set (db_outbox db)" "i \<notin> ob_id ` set (db_outbox (snd (fail_outbox w j err retry db)))"
  shows "j = i \<and> retry = None \<and> (\<exists>r \<in> set (db_outbox db). ob_id r = i \<and> ob_claimed_by r = Some w)"
proof (cases "take_claim w j db")
  case (Inl e)
  with assms show ?thesis by (simp add: fail_lost)
next
  case (Inr p)
  then obtain e where t: "take_claim w j db = Inr (e, db)" by (cases p) (auto simp: take_claim_Inr)
  then have held: "\<exists>r \<in> set (db_outbox db). ob_id r = j \<and> ob_claimed_by r = Some w"
    unfolding take_claim_Inr by (auto dest!: find_SomeD)
  show ?thesis
  proof (cases retry)
    case None
    have "db_outbox (snd (fail_outbox w j err retry db)) = filter (\<lambda>r. ob_id r \<noteq> j) (db_outbox db)"
      by (simp add: fail_outbox_def run_tx_def tx_bind_def t None delete_item_def)
    with assms have "j = i" by auto
    with None held show ?thesis by simp
  next
    case (Some at)
    have "ob_id ` set (db_outbox (snd (fail_outbox w j err retry db))) = ob_id ` set (db_outbox db)"
      by (simp add: fail_outbox_def run_tx_def tx_bind_def t Some ids_update_where)
    with assms show ?thesis by simp
  qed
qed

text \<open>
  C33: Whatever is queued stays queued until a worker that holds its claim completes it or gives it up for good:
  no other call, by anybody, can make an item disappear.
\<close>

theorem queued_until_settled:
  assumes "i \<in> ob_id ` set (db_outbox db)" "i \<notin> ob_id ` set (db_outbox (run_call c db))"
  shows "\<exists>w. (\<exists>r \<in> set (db_outbox db). ob_id r = i \<and> ob_claimed_by r = Some w) \<and>
    ((\<exists>applied now. c = CallComplete w i applied now) \<or> (\<exists>err. c = CallFail w i err None))"
proof -
  have kept: "ob_id ` set (db_outbox db) \<subseteq> ob_id ` set (db_outbox (run_call c db)) \<or>
    (\<exists>w j a now. c = CallComplete w j a now) \<or> (\<exists>w j err retry. c = CallFail w j err retry)"
  proof (cases c)
    case (CallClaim w req now)
    then show ?thesis by (simp add: claim_outbox_def run_tx_def Let_def ids_update_where take_row_def)
  next
    case (CallSyncSilences snap now)
    obtain db' ds where f: "fold (sync_one (suppression_map snap) now) (sync_candidates (suppression_map snap)
        (db\<lparr>db_silences := sync_links snap now (db_silences db)\<rparr>)) (db\<lparr>db_silences := sync_links snap now (db_silences db)\<rparr>, []) = (db', ds)"
      by fastforce
    from sync_fold_frame [OF f] f CallSyncSilences show ?thesis by (simp add: sync_silences_def run_tx_def Let_def)
  next
    case (CallDecision d)
    then show ?thesis using grows_run [OF decision_grows] by (simp add: apply_decision_def)
  next
    case (CallEnqueue items at)
    have "grows (tx_each (\<lambda>i. enqueue i at) items)" by (intro grows_each enqueue_grows)
    with CallEnqueue show ?thesis using grows_run by (simp add: enqueue_effects_def)
  next
    case (CallReclaim older now)
    then show ?thesis by (simp add: reclaim_expired_def run_tx_def ids_update_where)
  qed (use ingest_frame(2) reply_frame(2) mark_frame(2) card_update_frame(2) frames_run [OF acknowledge_frames(2)]
      frames_run [OF write_silence_frames(3)]
    in \<open>auto simp: acknowledge_def orphan_notification_def set_notification_state_def move_state_def record_silence_def\<close>)
  with assms consider w j a now where "c = CallComplete w j a now" | w j err retry where "c = CallFail w j err retry"
    by blast
  then show ?thesis
  proof cases
    case 1
    with settle_keeps_others [of i db w j a now] assms show ?thesis by auto
  next
    case 2
    with fail_keeps_others [of i db w j err retry] assms show ?thesis by auto
  qed
qed

theorem queued_until_settled_witness:
  "\<exists>w. \<exists>r \<in> set (db_outbox claimed_db). ob_id r = 1 \<and> ob_claimed_by r = Some w"
proof -
  have "db_outbox (run_call (CallFail ''w1'' 1 [] None) claimed_db) = []"
    by (simp add: fail_outbox_def run_tx_def tx_bind_def take_claim_def disk_claim take_row_def delete_item_def disk_item_def)
  then show ?thesis
    using queued_until_settled [of 1 claimed_db "CallFail ''w1'' 1 [] None"] by (auto simp: disk_claim disk_item_def)
qed

text \<open>
  Enqueueing always leaves a pending item that carries the new effect and runs no later than asked; it adds
  at most one item, and it leaves alone every item that is already claimed, that is about another card, or that
  is of another kind: a fold reaches only pending work of the same kind for the same card.
\<close>

theorem enqueue_folds_per_card:
  "\<exists>db'. enqueue item at db = Inr ((), db') \<and>
     set (filter (\<lambda>r. \<not> (ob_claimed_at r = None \<and> effect_kind (ob_effect r) = effect_kind (no_effect item) \<and>
       effect_notification (ob_effect r) = effect_notification (no_effect item))) (db_outbox db)) \<subseteq> set (db_outbox db') \<and>
     length (db_outbox db') \<le> Suc (length (db_outbox db)) \<and>
     (\<exists>r \<in> set (db_outbox db'). ob_claimed_at r = None \<and> ob_effect r = no_effect item \<and> ob_not_before r \<le> no_not_before item) \<and>
     db_cards db' = db_cards db"
proof -
  obtain db' where e: "enqueue item at db = Inr ((), db')" using enqueue_total by blast
  have "set (filter (\<lambda>r. \<not> (ob_claimed_at r = None \<and> effect_kind (ob_effect r) = effect_kind (no_effect item) \<and>
      effect_notification (ob_effect r) = effect_notification (no_effect item))) (db_outbox db)) \<subseteq> set (db_outbox db')"
    using enqueue_outbox(2) [OF e] by auto
  with e enqueue_outbox(1,3,4) [OF e] show ?thesis by blast
qed

text \<open>
  Completing an item is one step: the item leaves the queue and nothing else does, and the card it was about
  keeps everything the worker did not report, takes what it did, and no other card changes.
\<close>

theorem complete_settles:
  assumes "complete_outbox w i applied now db = (Inr (), db')"
  shows "db_outbox db' = filter (\<lambda>r. ob_id r \<noteq> i) (db_outbox db) \<and>
    (\<exists>r. find (\<lambda>r. ob_id r = i) (db_outbox db) = Some r \<and> ob_claimed_by r = Some w \<and>
      db_cards db' = (case effect_notification (ob_effect r) of None \<Rightarrow> db_cards db
        | Some c \<Rightarrow> update_where (\<lambda>n. n_id n = c) (apply_row applied now) (db_cards db)))"
  by (rule complete_effect [OF assms])

definition posted_as :: applied_effect where "posted_as = no_applied\<lparr>ae_message_id := Some 900\<rparr>"

theorem complete_settles_witness:
  "\<exists>db'. complete_outbox ''w1'' 1 posted_as 7 claimed_db = (Inr (), db') \<and> db_outbox db' = [] \<and>
     map n_message_id (db_cards db') = [Some 900]"
proof -
  have cards: "db_cards claimed_db = [disk_card]"
  proof -
    have "outbox_ok disk_db" using disk_db_ok by (simp add: db_ok_def)
    from claim_outbox_eq [OF this] show ?thesis by (simp add: claimed_db_def disk_apply)
  qed
  have msg: "n_message_id (apply_row posted_as 7 disk_card) = Some 900"
    by (simp add: apply_row_def posted_as_def coalesce_def)
  have quiet: "settle_silence (PostCard 1 True) posted_as 7 = tx_ret ()" by (simp add: settle_silence_def fun_eq_iff)
  have upd: "update_card 1 (apply_row posted_as 7) claimed_db = Inr ((), claimed_db\<lparr>db_cards := [apply_row posted_as 7 disk_card]\<rparr>)"
    by (simp add: update_card_def cards affected_def update_where_def write_cards_def keys_unique_def messages_unique_def
        List.map_filter_simps msg)
  have take: "take_claim ''w1'' 1 claimed_db = Inr (PostCard 1 True, claimed_db)"
    by (simp add: take_claim_def disk_claim take_row_def disk_item_def)
  obtain db' where 1: "complete_outbox ''w1'' 1 posted_as 7 claimed_db = (Inr (), db')"
    by (simp add: complete_outbox_def run_tx_def tx_bind_def take apply_to_card_def upd quiet tx_ret_def delete_item_def)
  from complete_settles [OF 1] show ?thesis
    by (auto simp: 1 cards disk_claim disk_item_def take_row_def update_where_def msg)
qed

section \<open>Acknowledgements\<close>

text \<open>
  The first to acknowledge an alert holds it: when nobody does, the command takes it and moves every card of
  the alert along the acknowledge edge; when somebody does, a second acknowledgement changes nothing and answers
  with the holder it lost to.
\<close>

theorem acknowledge_first_wins:
  assumes "cards_ok db" "\<not> ac_revoke c"
  shows "case holder_row (ac_fingerprint c) db of
      None \<Rightarrow> \<exists>out db'. acknowledge c db = (Inr out, db') \<and> ao_changed out \<and> ao_holder out = Some (ac_user_id c) \<and>
        map_option ak_user_id (holder_row (ac_fingerprint c) db') = Some (ac_user_id c) \<and>
        db_cards db' = map (\<lambda>n. if n \<in> set (read_cards_for (ac_fingerprint c) db)
          then (case next_state (n_state n) TAcknowledged True of None \<Rightarrow> n | Some s \<Rightarrow> moved s (ac_at c) n) else n) (db_cards db)
    | Some r \<Rightarrow> \<exists>out. acknowledge c db = (Inr out, db) \<and> \<not> ao_changed out \<and> ao_holder out = Some (ak_user_id r)"
proof (cases "holder_row (ac_fingerprint c) db")
  case None
  from acknowledge_takes [OF assms(1) None assms(2)] obtain out db' r where 1:
    "acknowledge c db = (Inr out, db')" "ao_changed out" "ao_holder out = Some (ac_user_id c)"
    "db_cards db' = map (\<lambda>n. if n \<in> set (read_cards_for (ac_fingerprint c) db)
      then acked_row TAcknowledged True (ac_at c) n else n) (db_cards db)"
    "holder_row (ac_fingerprint c) db' = Some r" "ak_user_id r = ac_user_id c" by blast
  have "acked_row TAcknowledged True (ac_at c) =
      (\<lambda>n. case next_state (n_state n) TAcknowledged True of None \<Rightarrow> n | Some s \<Rightarrow> moved s (ac_at c) n)"
    by (simp add: fun_eq_iff acked_row_def)
  with 1 show ?thesis by (simp add: None)
next
  case (Some r)
  then show ?thesis using acknowledge_loses [OF Some assms(2)] by auto
qed

definition alice_acks :: ack_command where
  "alice_acks = \<lparr>ac_fingerprint = fp_a, ac_user_id = 77, ac_kind = Ack, ac_note = None, ac_revoke = False, ac_at = 6\<rparr>"

theorem acknowledge_first_wins_witness:
  "\<exists>out db'. acknowledge alice_acks disk_db = (Inr out, db') \<and> ao_changed out \<and> map n_state (db_cards db') = [Acked]"
  using acknowledge_first_wins [of disk_db alice_acks] disk_db_ok
  by (auto simp: db_ok_def alice_acks_def holder_row_def disk_apply read_cards_for_def next_state_def)

section \<open>Alerts and silences\<close>


definition disk_batch :: ingest_batch where
  "disk_batch = \<lparr>ib_source = SWebhook, ib_group_key = None, ib_truncated = 0, ib_alerts = [disk_alert], ib_received_at = 3\<rparr>"


text \<open>
  C36: After a silence sync every stored alert carries exactly the ids of the silences that are active in the
  snapshot and suppress it, sorted and once each, whatever its row said before.
\<close>

theorem sync_leaves_what_is_in_force:
  assumes "alerts_ok db" "r \<in> set (db_alerts (snd (sync_silences snap now db)))"
  shows "set (al_silenced_by (ar_alert r)) = {i. \<exists>s \<in> set snap. ss_state s = SilenceActive \<and> ss_am_id s = i \<and>
      al_fingerprint (ar_alert r) \<in> set (ss_suppresses s)} \<and>
    sorted (al_silenced_by (ar_alert r)) \<and> distinct (al_silenced_by (ar_alert r))"
  unfolding sync_silences_exact [OF assms]
  using strict_sorted_dedup [of "sort (in_force_ids snap (al_fingerprint (ar_alert r)))"]
  by (auto simp: in_force_ids_iff strict_sorted_iff)


lemma sync_keeps_fps:
  "map (\<lambda>r. al_fingerprint (ar_alert r)) (db_alerts (snd (sync_silences snap now db))) =
     map (\<lambda>r. al_fingerprint (ar_alert r)) (db_alerts db)"
proof -
  have "fold (sync_one m now) rs (d, ds) = (d', ds') \<Longrightarrow>
      map (\<lambda>r. al_fingerprint (ar_alert r)) (db_alerts d') = map (\<lambda>r. al_fingerprint (ar_alert r)) (db_alerts d)" for m rs d ds d' ds'
  proof (induction rs arbitrary: d ds)
    case (Cons r rs)
    obtain d1 ds1 where 1: "sync_one m now r (d, ds) = (d1, ds1)" by fastforce
    with Cons.prems have "fold (sync_one m now) rs (d1, ds1) = (d', ds')" by simp
    from Cons.IH [OF this] sync_one_alerts(1) [OF 1] show ?case by simp
  qed simp
  from this [of "suppression_map snap"] show ?thesis
    by (auto simp: sync_silences_def run_tx_def Let_def split: prod.splits)
qed

definition stored_db :: db where "stored_db = snd (ingest_batch 1800 True disk_batch empty_db)"

definition disk_silence :: silence_state where
  "disk_silence = \<lparr>ss_am_id = ''s1'', ss_suppresses = [fp_a], ss_state = SilenceActive, ss_ends_at = 99, ss_observed_at = 4\<rparr>"

lemma disk_group: "al_group_key disk_alert = None"
  by (simp add: disk_alert_def)

lemma stored_fps: "map (\<lambda>r. al_fingerprint (ar_alert r)) (db_alerts stored_db) = [fp_a]"
  by (simp add: stored_db_def ingest_batch_def run_tx_def tx_bind_def tx_ret_def ingest_one_def disk_batch_def empty_db_def
      read_alert_def Let_def classify_def upsert_alert_def affected_def append_event_def batch_alert_def carry_over_def disk_group)

theorem sync_leaves_what_is_in_force_witness:
  "\<exists>r \<in> set (db_alerts (snd (sync_silences [disk_silence] 4 stored_db))). set (al_silenced_by (ar_alert r)) = {''s1''}"
proof -
  have ok: "alerts_ok stored_db" using ingest_db_ok [OF empty_db_ok] by (simp add: stored_db_def db_ok_def)
  let ?db = "snd (sync_silences [disk_silence] 4 stored_db)"
  have "map (\<lambda>r. al_fingerprint (ar_alert r)) (db_alerts ?db) = [fp_a]"
    using sync_keeps_fps [of "[disk_silence]" 4 stored_db] stored_fps by simp
  then obtain r where r: "r \<in> set (db_alerts ?db)" "al_fingerprint (ar_alert r) = fp_a" by auto
  with sync_leaves_what_is_in_force [OF ok r(1)] show ?thesis by (auto simp: disk_silence_def)
qed

end
