(* ===== verification/Sqlite_Routing.thy ===== *)
theory Sqlite_Routing
  imports Store_Types Engine_Routing Sqlite_Db
begin

text \<open>
  The routing tables of the SQLite backend (\<open>store/routing.rs\<close>): routes, ignore rules, subscriptions and cached forum
  tags. No transaction of the store touches these tables and the others of \<open>Sqlite_Db\<close> together, so they are a record
  of their own. A row keeps the matcher expression as text and a read compiles it again: the compiled set of a stored
  row is ignored and replaced by \<open>decode_route\<close> and its like. Auto-increment keys are the next unused id.
\<close>

section \<open>Tables\<close>

record routing_tables =
  rb_routes :: "route list"
  rb_next_route :: route_id
  rb_ignores :: "ignore_rule list"
  rb_next_ignore :: ignore_id
  rb_subscriptions :: "subscription list"
  rb_next_subscription :: subscription_id
  rb_tags :: "forum_tag list"

definition no_routing :: routing_tables where
  "no_routing = \<lparr>rb_routes = [], rb_next_route = 1, rb_ignores = [], rb_next_ignore = 1, rb_subscriptions = [],
     rb_next_subscription = 1, rb_tags = []\<rparr>"

definition ROUTE_NAME_INDEX :: string where
  "ROUTE_NAME_INDEX = ''UNIQUE constraint failed: routes.guild_id, routes.name''"

definition TAG_NAME_INDEX :: string where
  "TAG_NAME_INDEX = ''UNIQUE constraint failed: forum_tags.channel_id, forum_tags.tag_name''"

section \<open>Reading rows\<close>

definition decode_matchers :: "regex_engine \<Rightarrow> string \<Rightarrow> string \<Rightarrow> store_error + matcher_set" where
  "decode_matchers rx source kind = (case parse_matchers rx source of
     Inl e \<Rightarrow> Inl (Decode kind (core_error_str e)) | Inr ms \<Rightarrow> Inr ms)"

definition decode_route :: "regex_engine \<Rightarrow> route \<Rightarrow> store_error + route" where
  "decode_route rx r = (case decode_matchers rx (rt_matcher_source r) ''route matchers'' of
     Inl e \<Rightarrow> Inl e | Inr ms \<Rightarrow> Inr (r\<lparr>rt_matchers := ms\<rparr>))"

definition decode_ignore :: "regex_engine \<Rightarrow> ignore_rule \<Rightarrow> store_error + ignore_rule" where
  "decode_ignore rx r = (case decode_matchers rx (ig_matcher_source r) ''ignore matchers'' of
     Inl e \<Rightarrow> Inl e | Inr ms \<Rightarrow> Inr (r\<lparr>ig_matchers := ms\<rparr>))"

definition decode_subscription :: "regex_engine \<Rightarrow> subscription \<Rightarrow> store_error + subscription" where
  "decode_subscription rx s = (case decode_matchers rx (su_matcher_source s) ''subscription matchers'' of
     Inl e \<Rightarrow> Inl e | Inr ms \<Rightarrow> Inr (s\<lparr>su_matchers := ms\<rparr>))"

fun decode_all :: "('r \<Rightarrow> store_error + 'a) \<Rightarrow> 'r list \<Rightarrow> store_error + 'a list" where
  "decode_all f [] = Inr []"
| "decode_all f (r # rs) = (case f r of Inl e \<Rightarrow> Inl e
     | Inr x \<Rightarrow> (case decode_all f rs of Inl e \<Rightarrow> Inl e | Inr xs \<Rightarrow> Inr (x # xs)))"

definition read_routes :: "regex_engine \<Rightarrow> routing_tables \<Rightarrow> store_error + route list" where
  "read_routes rx t = decode_all (decode_route rx) (sort_key (\<lambda>r. (rt_priority r, rt_id r)) (rb_routes t))"

definition active_ignores :: "regex_engine \<Rightarrow> guild_id \<Rightarrow> time \<Rightarrow> routing_tables \<Rightarrow> store_error + ignore_rule list" where
  "active_ignores rx guild now t = decode_all (decode_ignore rx) (sort_key ig_id
     (filter (\<lambda>r. ig_guild_id r = guild \<and> ig_revoked_at r = None \<and>
       (ig_expires_at r = None \<or> now < the (ig_expires_at r))) (rb_ignores t)))"

definition read_subscriptions :: "regex_engine \<Rightarrow> routing_tables \<Rightarrow> store_error + subscription list" where
  "read_subscriptions rx t = decode_all (decode_subscription rx) (sort_key su_id (rb_subscriptions t))"

definition read_forum_tags :: "channel_id \<Rightarrow> routing_tables \<Rightarrow> forum_tag list" where
  "read_forum_tags channel t = sort_key ft_name (filter (\<lambda>g. ft_channel_id g = channel) (rb_tags t))"

section \<open>Ignore rules\<close>

definition upsert_ignore :: "ignore_rule \<Rightarrow> routing_tables \<Rightarrow> (store_error + ignore_id) \<times> routing_tables" where
  "upsert_ignore rule t = (if ig_id rule = 0
     then (Inr (rb_next_ignore t), t\<lparr>rb_ignores := rb_ignores t @ [rule\<lparr>ig_id := rb_next_ignore t\<rparr>],
       rb_next_ignore := rb_next_ignore t + 1\<rparr>)
     else (Inr (ig_id rule), t\<lparr>rb_ignores := update_where (\<lambda>r. ig_id r = ig_id rule)
       (\<lambda>r. rule\<lparr>ig_created_by := ig_created_by r, ig_created_at := ig_created_at r\<rparr>) (rb_ignores t)\<rparr>))"

definition revoke_ignore :: "ignore_id \<Rightarrow> guild_id \<Rightarrow> time \<Rightarrow> routing_tables \<Rightarrow> (store_error + unit) \<times> routing_tables" where
  "revoke_ignore i guild now t =
     (let live = (\<lambda>r. ig_id r = i \<and> ig_guild_id r = guild \<and> ig_revoked_at r = None) in
      if affected live (rb_ignores t) = 0 then (Inl (NotFound ''ignore rule'' (show_int i)), t)
      else (Inr (), t\<lparr>rb_ignores := update_where live (\<lambda>r. r\<lparr>ig_revoked_at := Some now\<rparr>) (rb_ignores t)\<rparr>))"

section \<open>Routes\<close>

text \<open>A write checks the unique index on (guild, name), which the statement would violate.\<close>

definition names_unique :: "route list \<Rightarrow> bool" where
  "names_unique rs \<longleftrightarrow> distinct (map (\<lambda>r. (rt_guild_id r, rt_name r)) rs)"

definition write_routes :: "route list \<Rightarrow> route_id \<Rightarrow> routing_tables \<Rightarrow> (store_error + route_id) \<times> routing_tables" where
  "write_routes rs i t = (if names_unique rs then (Inr i, t\<lparr>rb_routes := rs\<rparr>) else (Inl (Conflict ROUTE_NAME_INDEX), t))"

text \<open>The columns \<open>ON CONFLICT (guild_id, name) DO UPDATE\<close> takes from the declared route.\<close>

definition redeclare :: "route \<Rightarrow> route \<Rightarrow> route" where
  "redeclare route r = r\<lparr>rt_matcher_source := rt_matcher_source route, rt_matchers := rt_matchers route,
     rt_min_severity := rt_min_severity route, rt_target := rt_target route, rt_group_strategy := rt_group_strategy route,
     rt_mentions := rt_mentions route, rt_escalation := rt_escalation route, rt_priority := rt_priority route,
     rt_continue_to_next := rt_continue_to_next route, rt_source := rt_source route, rt_enabled := rt_enabled route\<rparr>"

definition same_name :: "route \<Rightarrow> route \<Rightarrow> bool" where
  "same_name route r \<longleftrightarrow> rt_guild_id r = rt_guild_id route \<and> rt_name r = rt_name route"

definition insert_route :: "route \<Rightarrow> routing_tables \<Rightarrow> (store_error + route_id) \<times> routing_tables" where
  "insert_route route t = (case write_routes (rb_routes t @ [route\<lparr>rt_id := rb_next_route t\<rparr>]) (rb_next_route t) t of
     (Inl e, t') \<Rightarrow> (Inl e, t') | (Inr i, t') \<Rightarrow> (Inr i, t'\<lparr>rb_next_route := rb_next_route t + 1\<rparr>))"

definition upsert_route :: "route \<Rightarrow> routing_tables \<Rightarrow> (store_error + route_id) \<times> routing_tables" where
  "upsert_route route t = (if rt_id route \<noteq> 0
     then write_routes (update_where (\<lambda>r. rt_id r = rt_id route) (\<lambda>r. route\<lparr>rt_created_at := rt_created_at r\<rparr>)
       (rb_routes t)) (rt_id route) t
     else if rt_source route = RouteConfig
     then (case find (same_name route) (rb_routes t) of
         Some old \<Rightarrow> (Inr (rt_id old), t\<lparr>rb_routes := update_where (same_name route) (redeclare route) (rb_routes t)\<rparr>)
       | None \<Rightarrow> insert_route route t)
     else insert_route route t)"

definition disable_missing_config_routes :: "string list \<Rightarrow> routing_tables \<Rightarrow> nat \<times> routing_tables" where
  "disable_missing_config_routes keep t =
     (let gone = (\<lambda>r. rt_source r = RouteConfig \<and> rt_enabled r \<and> rt_name r \<notin> set keep)
      in (affected gone (rb_routes t), t\<lparr>rb_routes := update_where gone (\<lambda>r. r\<lparr>rt_enabled := False\<rparr>) (rb_routes t)\<rparr>))"

section \<open>Subscriptions\<close>

definition upsert_subscription ::
  "subscription \<Rightarrow> routing_tables \<Rightarrow> (store_error + subscription_id) \<times> routing_tables" where
  "upsert_subscription s t = (if su_id s = 0
     then (Inr (rb_next_subscription t), t\<lparr>rb_subscriptions := rb_subscriptions t @ [s\<lparr>su_id := rb_next_subscription t\<rparr>],
       rb_next_subscription := rb_next_subscription t + 1\<rparr>)
     else let own = (\<lambda>r. su_id r = su_id s \<and> su_user_id r = su_user_id s) in
       if affected own (rb_subscriptions t) = 0 then (Inl (NotFound ''subscription'' (show_int (su_id s))), t)
       else (Inr (su_id s), t\<lparr>rb_subscriptions := update_where own (\<lambda>r. r\<lparr>su_matcher_source := su_matcher_source s,
         su_matchers := su_matchers s, su_min_severity := su_min_severity s\<rparr>) (rb_subscriptions t)\<rparr>))"

definition remove_subscription ::
  "subscription_id \<Rightarrow> user_id \<Rightarrow> routing_tables \<Rightarrow> (store_error + unit) \<times> routing_tables" where
  "remove_subscription i user t =
     (let own = (\<lambda>r. su_id r = i \<and> su_user_id r = user) in
      if affected own (rb_subscriptions t) = 0 then (Inl (NotFound ''subscription'' (show_int i)), t)
      else (Inr (), t\<lparr>rb_subscriptions := filter (\<lambda>r. \<not> own r) (rb_subscriptions t)\<rparr>))"

section \<open>Forum tags\<close>

definition sync_forum_tags :: "channel_id \<Rightarrow> forum_tag list \<Rightarrow> routing_tables \<Rightarrow> (store_error + unit) \<times> routing_tables" where
  "sync_forum_tags channel tags t = (if distinct (map ft_name tags)
     then (Inr (), t\<lparr>rb_tags := filter (\<lambda>g. ft_channel_id g \<noteq> channel) (rb_tags t) @
       map (\<lambda>g. g\<lparr>ft_channel_id := channel\<rparr>) tags\<rparr>)
     else (Inl (Conflict TAG_NAME_INDEX), t))"

section \<open>The snapshot of the tables\<close>

definition snapshot_of :: "regex_engine \<Rightarrow> time \<Rightarrow> routing_tables \<Rightarrow> store_error + routing_snapshot" where
  "snapshot_of rx now t = load_snapshot (read_routes rx t) (\<lambda>guild. active_ignores rx guild now t)
     (\<lambda>channel. Inr (read_forum_tags channel t)) (read_subscriptions rx t)"

end
