(* ===== verification/Engine_Config.thy ===== *)
theory Engine_Config
  imports Sqlite_Routing
begin

text \<open>
  The routes of the configuration file: their records (\<open>config/src/routes.rs\<close>) with the defaults a missing key takes,
  their conversion into stored routes (\<open>engine/src/routing.rs\<close>, \<open>route_from_config\<close>) and the synchronisation of the
  routing tables on start (\<open>sync_routes\<close> of the binary). The enums the file and the store share one for one are the
  store's own datatypes, except the severity, whose conversion the code names.
\<close>

section \<open>The file\<close>

datatype config_severity = ConfigInfo | ConfigWarning | ConfigCritical

datatype target_kind = KindText | KindForum | KindThread | KindDm

record config_mentions =
  cm_roles :: "role_id list"
  cm_users :: "user_id list"
  cm_min_severity :: "config_severity option"

definition default_mentions :: config_mentions where
  "default_mentions = \<lparr>cm_roles = [], cm_users = [], cm_min_severity = Some ConfigCritical\<rparr>"

record config_escalation =
  ce_after_secs :: "nat option"
  ce_roles :: "role_id list"
  ce_users :: "user_id list"

definition default_escalation :: config_escalation where
  "default_escalation = \<lparr>ce_after_secs = None, ce_roles = [], ce_users = []\<rparr>"

definition default_state_tags :: state_tags where
  "default_state_tags = \<lparr>st_firing = ''firing'', st_acked = ''acked'', st_silenced = ''silenced'', st_resolved = ''resolved''\<rparr>"

record target_policy =
  tg_thread_when :: thread_trigger
  tg_thread_kind :: thread_kind
  tg_title_template :: string
  tg_manage_tags :: bool
  tg_state_tags :: state_tags
  tg_severity_tags :: bool
  tg_label_tags :: "string list"
  tg_default_tag :: string
  tg_auto_archive_minutes :: "nat option"
  tg_archive_on_resolve :: bool
  tg_lock_on_resolve :: bool
  tg_pin_min_severity :: "config_severity option"
  tg_max_pinned :: nat
  tg_bump_on_state_change :: bool

definition default_target_policy :: target_policy where
  "default_target_policy = \<lparr>tg_thread_when = Never, tg_thread_kind = PublicThread,
     tg_title_template = ''{{ labels.alertname }}'', tg_manage_tags = False, tg_state_tags = default_state_tags,
     tg_severity_tags = True, tg_label_tags = [], tg_default_tag = [], tg_auto_archive_minutes = None,
     tg_archive_on_resolve = True, tg_lock_on_resolve = False, tg_pin_min_severity = Some ConfigCritical,
     tg_max_pinned = 1, tg_bump_on_state_change = True\<rparr>"

record config_target =
  ct_kind :: target_kind
  ct_id :: "64 word"
  ct_policy :: target_policy

definition default_target :: config_target where
  "default_target = \<lparr>ct_kind = KindText, ct_id = 0, ct_policy = default_target_policy\<rparr>"

record route_config =
  rc_name :: string
  rc_guild_id :: guild_id
  rc_matchers :: string
  rc_min_severity :: "config_severity option"
  rc_target :: config_target
  rc_group_strategy :: group_strategy
  rc_mentions :: config_mentions
  rc_escalation :: config_escalation
  rc_priority :: int
  rc_continue_to_next :: bool
  rc_enabled :: bool

definition default_route_config :: route_config where
  "default_route_config = \<lparr>rc_name = [], rc_guild_id = 0, rc_matchers = [], rc_min_severity = None,
     rc_target = default_target, rc_group_strategy = PerAlert, rc_mentions = default_mentions,
     rc_escalation = default_escalation, rc_priority = 100, rc_continue_to_next = False, rc_enabled = True\<rparr>"

section \<open>Conversion\<close>

record route_defaults =
  rd_archive_after_minutes :: nat

fun severity_from_config :: "config_severity \<Rightarrow> severity" where
  "severity_from_config ConfigInfo = Info"
| "severity_from_config ConfigWarning = Warning"
| "severity_from_config ConfigCritical = Critical"

definition thread_policy_from_config :: "target_policy \<Rightarrow> route_defaults \<Rightarrow> thread_policy" where
  "thread_policy_from_config p d = \<lparr>tp_when = tg_thread_when p, tp_kind = tg_thread_kind p,
     tp_archive_after_minutes = (case tg_auto_archive_minutes p of Some m \<Rightarrow> m | None \<Rightarrow> rd_archive_after_minutes d)\<rparr>"

definition forum_policy_from_config :: "target_policy \<Rightarrow> route_defaults \<Rightarrow> forum_policy" where
  "forum_policy_from_config p d = \<lparr>fp_title_template = tg_title_template p, fp_manage_tags = tg_manage_tags p,
     fp_state_tags = tg_state_tags p, fp_severity_tags = tg_severity_tags p, fp_label_tags = take 3 (tg_label_tags p),
     fp_default_tag = (if tg_default_tag p = [] then None else Some (tg_default_tag p)),
     fp_auto_archive_minutes = (case tg_auto_archive_minutes p of Some m \<Rightarrow> m | None \<Rightarrow> rd_archive_after_minutes d),
     fp_archive_on_resolve = tg_archive_on_resolve p, fp_lock_on_resolve = tg_lock_on_resolve p,
     fp_pin_min_severity = map_option severity_from_config (tg_pin_min_severity p), fp_max_pinned = tg_max_pinned p,
     fp_bump_on_state_change = tg_bump_on_state_change p\<rparr>"

definition target_from_config :: "route_config \<Rightarrow> route_defaults \<Rightarrow> route_target" where
  "target_from_config c d = (let t = rc_target c in case ct_kind t of
     KindText \<Rightarrow> TextTarget (ct_id t) (thread_policy_from_config (ct_policy t) d)
   | KindForum \<Rightarrow> ForumTarget (ct_id t) (forum_policy_from_config (ct_policy t) d)
   | KindThread \<Rightarrow> ThreadTarget (ct_id t)
   | KindDm \<Rightarrow> DmTarget (ct_id t))"

definition escalation_from_config :: "route_config \<Rightarrow> escalation option" where
  "escalation_from_config c = (let e = rc_escalation c in case ce_after_secs e of None \<Rightarrow> None
   | Some secs \<Rightarrow>
       let (roles, users) = (if ce_roles e = [] \<and> ce_users e = []
             then (cm_roles (rc_mentions c), cm_users (rc_mentions c)) else (ce_roles e, ce_users e));
           policy = \<lparr>es_after_secs = secs, es_roles = roles, es_users = users\<rparr>
       in if escalation_empty policy then None else Some policy)"

definition route_from_config ::
  "regex_engine \<Rightarrow> route_config \<Rightarrow> route_id \<Rightarrow> route_defaults \<Rightarrow> time \<Rightarrow> core_error + route" where
  "route_from_config rx c i d now = (case parse_matchers rx (rc_matchers c) of Inl e \<Rightarrow> Inl e
   | Inr ms \<Rightarrow> Inr \<lparr>rt_id = i, rt_guild_id = rc_guild_id c, rt_name = rc_name c, rt_matcher_source = rc_matchers c,
       rt_matchers = ms, rt_min_severity = map_option severity_from_config (rc_min_severity c),
       rt_target = target_from_config c d, rt_group_strategy = rc_group_strategy c,
       rt_mentions = \<lparr>mn_roles = cm_roles (rc_mentions c), mn_users = cm_users (rc_mentions c),
         mn_min_severity = map_option severity_from_config (cm_min_severity (rc_mentions c))\<rparr>,
       rt_escalation = escalation_from_config c, rt_priority = rc_priority c,
       rt_continue_to_next = rc_continue_to_next c, rt_source = RouteConfig, rt_enabled = rc_enabled c,
       rt_created_by = None, rt_created_at = now\<rparr>)"

section \<open>Synchronising on start\<close>

datatype start_error =
    BadRoute string core_error
  | CannotStore string store_error
  | NoSnapshot store_error

fun store_routes ::
  "regex_engine \<Rightarrow> route_defaults \<Rightarrow> time \<Rightarrow> route_config list \<Rightarrow> routing_tables \<Rightarrow>
   (start_error + unit) \<times> routing_tables" where
  "store_routes rx d now [] t = (Inr (), t)"
| "store_routes rx d now (c # cs) t = (case route_from_config rx c 0 d now of
     Inl e \<Rightarrow> (Inl (BadRoute (rc_name c) e), t)
   | Inr built \<Rightarrow> (case upsert_route (built\<lparr>rt_source := RouteConfig\<rparr>) t of
       (Inl e, t') \<Rightarrow> (Inl (CannotStore (rc_name c) e), t')
     | (Inr _, t') \<Rightarrow> store_routes rx d now cs t'))"

definition sync_routes ::
  "regex_engine \<Rightarrow> route_defaults \<Rightarrow> time \<Rightarrow> route_config list \<Rightarrow> routing_tables \<Rightarrow>
   (start_error + routing_snapshot) \<times> routing_tables" where
  "sync_routes rx d now cs t = (case store_routes rx d now cs t of
     (Inl e, t') \<Rightarrow> (Inl e, t')
   | (Inr _, t') \<Rightarrow>
       let t'' = snd (disable_missing_config_routes (map rc_name cs) t')
       in (case snapshot_of rx now t'' of Inl e \<Rightarrow> (Inl (NoSnapshot e), t'') | Inr sn \<Rightarrow> (Inr sn, t'')))"

end
