(* ===== verification/Routing_Facts.thy ===== *)
theory Routing_Facts
  imports Engine_Config
begin

text \<open>
  What the routing tables promise: their keys stay unique under every operation (the locale \<open>keyed_rows\<close>, interpreted
  on routes, ignore rules and subscriptions), the outcome of synchronising the file's routes, and its idempotence.
\<close>

section \<open>Rows under an auto-increment key\<close>

locale keyed_rows =
  fixes rid :: "'r \<Rightarrow> int" and with_id :: "int \<Rightarrow> 'r \<Rightarrow> 'r"
  assumes rid_with_id: "rid (with_id i r) = i"
begin

definition rows_ok :: "'r list \<Rightarrow> int \<Rightarrow> bool" where
  "rows_ok rows next_id \<longleftrightarrow> distinct (map rid rows) \<and> (\<forall>r \<in> set rows. 0 < rid r \<and> rid r < next_id) \<and> 0 < next_id"

lemma ok_nil: "0 < i \<Longrightarrow> rows_ok [] i"
  by (simp add: rows_ok_def)

lemma ok_insert: "rows_ok rows i \<Longrightarrow> rows_ok (rows @ [with_id i r]) (i + 1)"
  by (auto simp: rows_ok_def rid_with_id)

lemma ok_update: "rows_ok rows i \<Longrightarrow> (\<And>r. P r \<Longrightarrow> rid (f r) = rid r) \<Longrightarrow> rows_ok (update_where P f rows) i"
  by (auto simp: rows_ok_def map_update_where set_update_where)

lemma ok_filter: "rows_ok rows i \<Longrightarrow> rows_ok (filter P rows) i"
  by (auto simp: rows_ok_def distinct_map_filter)

end

interpretation route_rows: keyed_rows rt_id "\<lambda>i r. r\<lparr>rt_id := i\<rparr>"
  by unfold_locales simp

interpretation ignore_rows: keyed_rows ig_id "\<lambda>i r. r\<lparr>ig_id := i\<rparr>"
  by unfold_locales simp

interpretation subscription_rows: keyed_rows su_id "\<lambda>i s. s\<lparr>su_id := i\<rparr>"
  by unfold_locales simp

definition routing_ok :: "routing_tables \<Rightarrow> bool" where
  "routing_ok t \<longleftrightarrow> route_rows.rows_ok (rb_routes t) (rb_next_route t) \<and> names_unique (rb_routes t) \<and>
     ignore_rows.rows_ok (rb_ignores t) (rb_next_ignore t) \<and>
     subscription_rows.rows_ok (rb_subscriptions t) (rb_next_subscription t) \<and>
     distinct (map (\<lambda>g. (ft_channel_id g, ft_name g)) (rb_tags t))"

lemma no_routing_ok [simp]: "routing_ok no_routing"
  by (simp add: routing_ok_def no_routing_def route_rows.ok_nil ignore_rows.ok_nil subscription_rows.ok_nil names_unique_def)

lemma upsert_ignore_ok: "routing_ok t \<Longrightarrow> routing_ok (snd (upsert_ignore r t))"
  by (auto simp: routing_ok_def upsert_ignore_def intro: ignore_rows.ok_insert intro!: ignore_rows.ok_update)

lemma revoke_ignore_ok: "routing_ok t \<Longrightarrow> routing_ok (snd (revoke_ignore i g now t))"
  by (auto simp: routing_ok_def revoke_ignore_def Let_def intro!: ignore_rows.ok_update)

lemma upsert_subscription_ok: "routing_ok t \<Longrightarrow> routing_ok (snd (upsert_subscription s t))"
  by (auto simp: routing_ok_def upsert_subscription_def Let_def intro: subscription_rows.ok_insert
      intro!: subscription_rows.ok_update)

lemma remove_subscription_ok: "routing_ok t \<Longrightarrow> routing_ok (snd (remove_subscription i u t))"
  by (auto simp: routing_ok_def remove_subscription_def Let_def intro: subscription_rows.ok_filter)

lemma synced_tags_distinct:
  assumes "distinct (map (\<lambda>g. (ft_channel_id g, ft_name g)) old)" "distinct (map ft_name tags)"
  shows "distinct (map (\<lambda>g. (ft_channel_id g, ft_name g))
    (filter (\<lambda>g. ft_channel_id g \<noteq> c) old @ map (\<lambda>g. g\<lparr>ft_channel_id := c\<rparr>) tags))"
proof -
  have eq: "map (\<lambda>g. (ft_channel_id g, ft_name g)) (map (\<lambda>g. g\<lparr>ft_channel_id := c\<rparr>) tags) = map (Pair c) (map ft_name tags)"
    by (induction tags) simp_all
  have "distinct (map (Pair c) (map ft_name tags))"
    using assms(2) by (subst distinct_map) (simp add: inj_on_def)
  with distinct_map_filter [OF assms(1)] show ?thesis
    unfolding map_append distinct_append eq by auto
qed

lemma sync_forum_tags_ok: "routing_ok t \<Longrightarrow> routing_ok (snd (sync_forum_tags c tags t))"
  using synced_tags_distinct [of "rb_tags t" tags c]
  by (simp add: routing_ok_def sync_forum_tags_def del: map_append distinct_append map_map)

lemma names_unique_update:
  "(\<And>r. P r \<Longrightarrow> rt_guild_id (f r) = rt_guild_id r \<and> rt_name (f r) = rt_name r) \<Longrightarrow>
   names_unique (update_where P f rs) = names_unique rs"
  unfolding names_unique_def by (subst map_update_where) auto

lemma redeclare_keeps [simp]:
  "rt_id (redeclare b r) = rt_id r" "rt_guild_id (redeclare b r) = rt_guild_id r" "rt_name (redeclare b r) = rt_name r"
  "rt_source (redeclare b r) = rt_source b" "rt_enabled (redeclare b r) = rt_enabled b"
  "redeclare b (redeclare b r) = redeclare b r"
  by (simp_all add: redeclare_def)

lemma write_routes_ok:
  "routing_ok t \<Longrightarrow> route_rows.rows_ok rs (rb_next_route t) \<Longrightarrow> routing_ok (snd (write_routes rs i t))"
  by (simp add: write_routes_def routing_ok_def)

lemma insert_route_ok: "routing_ok t \<Longrightarrow> routing_ok (snd (insert_route r t))"
  by (auto simp: insert_route_def write_routes_def routing_ok_def dest: route_rows.ok_insert)

lemma upsert_route_ok: "routing_ok t \<Longrightarrow> routing_ok (snd (upsert_route r t))"
  unfolding upsert_route_def
  by (auto intro!: insert_route_ok write_routes_ok route_rows.ok_update split: option.split)
    (auto simp: routing_ok_def names_unique_update intro!: route_rows.ok_update)

lemma disable_missing_ok: "routing_ok t \<Longrightarrow> routing_ok (snd (disable_missing_config_routes keep t))"
  by (auto simp: disable_missing_config_routes_def routing_ok_def Let_def names_unique_update intro!: route_rows.ok_update)

section \<open>Synchronising the file\<close>

text \<open>A row declares a configured route when it has its name and every column a redeclaration would write.\<close>

definition declares :: "route \<Rightarrow> route \<Rightarrow> bool" where
  "declares built r \<longleftrightarrow> same_name built r \<and> redeclare built r = r"

lemma same_name_keeps [simp]: "same_name b (redeclare b' r) = same_name b r" "same_name b (r\<lparr>rt_id := i\<rparr>) = same_name b r"
  "same_name b b"
  by (simp_all add: same_name_def)

lemma find_same_name:
  "find (same_name b) rs = Some r \<Longrightarrow> r \<in> set rs \<and> same_name b r"
  "find (same_name b) rs = None \<Longrightarrow> r \<in> set rs \<Longrightarrow> \<not> same_name b r"
  by (auto simp: find_Some_iff find_None_iff)

lemma unique_same_name:
  "names_unique rs \<Longrightarrow> r \<in> set rs \<Longrightarrow> r' \<in> set rs \<Longrightarrow> same_name b r \<Longrightarrow> same_name b r' \<Longrightarrow> r = r'"
  unfolding names_unique_def same_name_def by (metis (mono_tags, lifting) distinct_map inj_on_def)

lemma upsert_declared:
  assumes u: "names_unique (rb_routes t)" and b: "rt_id b = 0" "rt_source b = RouteConfig"
  obtains i t' where "upsert_route b t = (Inr i, t')" "names_unique (rb_routes t')" "\<exists>r \<in> set (rb_routes t'). declares b r"
    "\<And>r. \<not> same_name b r \<Longrightarrow> r \<in> set (rb_routes t') \<longleftrightarrow> r \<in> set (rb_routes t)"
proof (cases "find (same_name b) (rb_routes t)")
  case None
  then have fresh: "\<not> same_name b r" if "r \<in> set (rb_routes t)" for r using find_same_name(2) that by blast
  let ?rs = "rb_routes t @ [b\<lparr>rt_id := rb_next_route t\<rparr>]"
  have "names_unique ?rs" using u fresh [unfolded same_name_def] by (fastforce simp: names_unique_def)
  then have "upsert_route b t = (Inr (rb_next_route t), t\<lparr>rb_routes := ?rs, rb_next_route := rb_next_route t + 1\<rparr>)"
    using b None by (simp add: upsert_route_def insert_route_def write_routes_def)
  moreover have "declares b (b\<lparr>rt_id := rb_next_route t\<rparr>)" by (simp add: declares_def same_name_def redeclare_def)
  ultimately show thesis using \<open>names_unique ?rs\<close> by (auto intro!: that [where i = "rb_next_route t"
      and t' = "t\<lparr>rb_routes := ?rs, rb_next_route := rb_next_route t + 1\<rparr>"])
next
  case (Some old)
  let ?rs = "update_where (same_name b) (redeclare b) (rb_routes t)"
  have "upsert_route b t = (Inr (rt_id old), t\<lparr>rb_routes := ?rs\<rparr>)" using b Some by (simp add: upsert_route_def)
  moreover have "names_unique ?rs" using u by (subst names_unique_update) simp_all
  moreover have "\<exists>r \<in> set ?rs. declares b r"
  proof (rule bexI [where x = "redeclare b old"])
    show "redeclare b old \<in> set ?rs"
      using find_same_name(1) [OF Some] by (auto simp: set_update_where intro!: rev_image_eqI [of old])
  qed (use find_same_name(1) [OF Some] in \<open>simp add: declares_def\<close>)
  ultimately show thesis by (auto simp: set_update_where intro!: that [where i = "rt_id old" and t' = "t\<lparr>rb_routes := ?rs\<rparr>"])
qed

text \<open>The rows of a name nobody declares, and those just declared, stay as they are.\<close>

lemma store_routes_declared:
  assumes "store_routes rx d now cs t = (Inr (), t')" "names_unique (rb_routes t)"
    "distinct (map (\<lambda>c. (rc_guild_id c, rc_name c)) cs)"
  shows "names_unique (rb_routes t') \<and>
    (\<forall>c \<in> set cs. \<exists>b. route_from_config rx c 0 d now = Inr b \<and> (\<exists>r \<in> set (rb_routes t'). declares b r)) \<and>
    (\<forall>r. (rt_guild_id r, rt_name r) \<notin> (\<lambda>c. (rc_guild_id c, rc_name c)) ` set cs \<longrightarrow>
       (r \<in> set (rb_routes t') \<longleftrightarrow> r \<in> set (rb_routes t)))"
  using assms
proof (induction cs arbitrary: t)
  case Nil
  then show ?case by simp
next
  case (Cons c cs)
  then obtain b where b: "route_from_config rx c 0 d now = Inr b" by (cases "route_from_config rx c 0 d now") auto
  then have bs: "rt_id b = 0" "rt_source b = RouteConfig" "rt_guild_id b = rc_guild_id c" "rt_name b = rc_name c"
    by (auto simp: route_from_config_def split: sum.splits)
  then have beq: "b\<lparr>rt_source := RouteConfig\<rparr> = b" by simp
  obtain i t1 where up: "upsert_route b t = (Inr i, t1)" "names_unique (rb_routes t1)" "\<exists>r \<in> set (rb_routes t1). declares b r"
    and others: "\<And>r. \<not> same_name b r \<Longrightarrow> r \<in> set (rb_routes t1) \<longleftrightarrow> r \<in> set (rb_routes t)"
    using upsert_declared [OF Cons.prems(2) bs(1,2)] by blast
  have rest: "store_routes rx d now cs t1 = (Inr (), t')" using Cons.prems(1) by (simp add: b beq up(1))
  note ih = Cons.IH [OF rest up(2)]
  from Cons.prems(3) have d: "distinct (map (\<lambda>c. (rc_guild_id c, rc_name c)) cs)"
    "(rc_guild_id c, rc_name c) \<notin> (\<lambda>c. (rc_guild_id c, rc_name c)) ` set cs" by simp_all
  from up(3) obtain r where r: "r \<in> set (rb_routes t1)" "declares b r" by blast
  with bs d(2) have "r \<in> set (rb_routes t')" using ih [OF d(1)] by (auto simp: declares_def same_name_def)
  with r(2) b ih [OF d(1)] others bs show ?case by (auto simp: same_name_def)
qed

lemma store_routes_again:
  assumes "\<forall>c \<in> set cs. \<exists>b. route_from_config rx c 0 d now = Inr b \<and> (\<exists>r \<in> set (rb_routes t). declares b r)"
    "names_unique (rb_routes t)"
  shows "store_routes rx d later cs t = (Inr (), t)"
  using assms(1)
proof (induction cs)
  case Nil
  show ?case by simp
next
  case (Cons c cs)
  then obtain b r where b: "route_from_config rx c 0 d now = Inr b" and r: "r \<in> set (rb_routes t)" "declares b r" by auto
  define b' where "b' = b\<lparr>rt_created_at := later\<rparr>"
  have b': "route_from_config rx c 0 d later = Inr b'"
    using b by (auto simp: route_from_config_def b'_def split: sum.splits)
  have same: "same_name b' = same_name b" "redeclare b' = redeclare b"
    by (auto simp: b'_def same_name_def redeclare_def fun_eq_iff)
  have src: "b'\<lparr>rt_source := RouteConfig\<rparr> = b'" "rt_id b' = 0" "rt_source b' = RouteConfig"
    using b by (auto simp: route_from_config_def b'_def split: sum.splits)
  obtain old where old: "find (same_name b) (rb_routes t) = Some old"
    using r find_same_name(2) by (cases "find (same_name b) (rb_routes t)") (auto simp: declares_def)
  have "update_where (same_name b) (redeclare b) (rb_routes t) = rb_routes t"
    unfolding update_where_def
  proof (rule map_idI)
    fix q assume "q \<in> set (rb_routes t)"
    with unique_same_name [OF assms(2)] r show "(if same_name b q then redeclare b q else q) = q"
      by (auto simp: declares_def)
  qed
  then have "upsert_route b' t = (Inr (rt_id old), t)" using src old by (simp add: upsert_route_def same)
  with Cons show ?case by (simp add: b' src(1))
qed

end
