(* ===== verification/Properties_Routing.thy ===== *)
theory Properties_Routing
  imports Routing_Facts Fixtures
begin

text \<open>What the routing tables promise, under any sequence of operations and after the file's routes are synchronised.\<close>

section \<open>Any history\<close>

datatype routing_call =
    CallUpsertRoute route
  | CallDisableMissing "string list"
  | CallUpsertIgnore ignore_rule
  | CallRevokeIgnore ignore_id guild_id time
  | CallUpsertSubscription subscription
  | CallRemoveSubscription subscription_id user_id
  | CallSyncTags channel_id "forum_tag list"

fun run_routing_call :: "routing_call \<Rightarrow> routing_tables \<Rightarrow> routing_tables" where
  "run_routing_call (CallUpsertRoute r) t = snd (upsert_route r t)"
| "run_routing_call (CallDisableMissing keep) t = snd (disable_missing_config_routes keep t)"
| "run_routing_call (CallUpsertIgnore r) t = snd (upsert_ignore r t)"
| "run_routing_call (CallRevokeIgnore i g now) t = snd (revoke_ignore i g now t)"
| "run_routing_call (CallUpsertSubscription s) t = snd (upsert_subscription s t)"
| "run_routing_call (CallRemoveSubscription i u) t = snd (remove_subscription i u t)"
| "run_routing_call (CallSyncTags c tags) t = snd (sync_forum_tags c tags t)"

lemma run_routing_call_ok: "routing_ok t \<Longrightarrow> routing_ok (run_routing_call c t)"
  by (cases c) (simp_all add: upsert_route_ok disable_missing_ok upsert_ignore_ok revoke_ignore_ok
      upsert_subscription_ok remove_subscription_ok sync_forum_tags_ok)

lemma routing_history_ok: "routing_ok t \<Longrightarrow> routing_ok (fold run_routing_call cs t)"
  by (induction cs arbitrary: t) (simp_all add: run_routing_call_ok)

text \<open>
  Whatever commands, tag syncs and restarts do to the routing tables, in any order, no two routes of a guild share a
  name, no two routes share an id, and no forum caches two tags of one name; so a name always finds at most one.
\<close>

theorem routing_keys_unique:
  "distinct (map (\<lambda>r. (rt_guild_id r, rt_name r)) (rb_routes (fold run_routing_call cs no_routing))) \<and>
   distinct (map rt_id (rb_routes (fold run_routing_call cs no_routing))) \<and>
   distinct (map ft_name (read_forum_tags channel (fold run_routing_call cs no_routing)))"
proof -
  let ?t = "fold run_routing_call cs no_routing"
  have ok: "routing_ok ?t" by (simp add: routing_history_ok)
  then have "distinct (map (\<lambda>g. (ft_channel_id g, ft_name g)) (rb_tags ?t))" by (simp add: routing_ok_def)
  then have "inj_on (\<lambda>g. (ft_channel_id g, ft_name g)) (set (rb_tags ?t))" "distinct (rb_tags ?t)"
    by (simp_all add: distinct_map)
  then have "distinct (map ft_name (read_forum_tags channel ?t))"
    by (auto simp: read_forum_tags_def distinct_map inj_on_def)
  with ok show ?thesis by (simp add: routing_ok_def names_unique_def route_rows.rows_ok_def)
qed

section \<open>Synchronising the file\<close>


definition disk_config :: route_config where
  "disk_config = default_route_config\<lparr>rc_name := ''disk'', rc_guild_id := 10, rc_target := default_target\<lparr>ct_id := 7\<rparr>\<rparr>"

definition file_defaults :: route_defaults where "file_defaults = \<lparr>rd_archive_after_minutes = 1440\<rparr>"





text \<open>
  A declaration is recognised by name alone when routes are switched off: a file that moves a route to another guild
  leaves the old guild's route enabled, and both deliver.
\<close>

lemma moved_route_stays_enabled:
  "map (\<lambda>r. (rt_guild_id r, rt_enabled r)) (rb_routes (snd (sync_routes literal_regex file_defaults 2
     [disk_config\<lparr>rc_guild_id := 11\<rparr>] (snd (sync_routes literal_regex file_defaults 1 [disk_config] no_routing))))) =
   [(10, True), (11, True)]"
  by code_simp

end
