(* ===== verification/Result_State.thy ===== *)
theory Result_State
  imports Main
begin

text \<open>
  Handlers that change a state and may stop with an error: the state they reached stays, the error ends the rest. The
  worker and the commands are written with these four operations; an \<open>await\<close> followed by \<open>?\<close> is \<open>act_bind\<close>.
\<close>

type_synonym ('s, 'e, 'a) action = "'s \<Rightarrow> ('e + 'a) \<times> 's"

definition act_ret :: "'a \<Rightarrow> ('s, 'e, 'a) action" where
  "act_ret x = (\<lambda>s. (Inr x, s))"

definition act_fail :: "'e \<Rightarrow> ('s, 'e, 'a) action" where
  "act_fail f = (\<lambda>s. (Inl f, s))"

definition act_bind :: "('s, 'e, 'a) action \<Rightarrow> ('a \<Rightarrow> ('s, 'e, 'b) action) \<Rightarrow> ('s, 'e, 'b) action" where
  "act_bind m f = (\<lambda>s. case m s of (Inl e, s') \<Rightarrow> (Inl e, s') | (Inr x, s') \<Rightarrow> f x s')"

definition some_or :: "'e \<Rightarrow> 'a option \<Rightarrow> ('s, 'e, 'a) action" where
  "some_or f x = (case x of None \<Rightarrow> act_fail f | Some y \<Rightarrow> act_ret y)"

lemma act_simps [simp]:
  "act_ret x s = (Inr x, s)" "act_fail f s = (Inl f, s)" "snd (act_bind m g s) = (case m s of (Inl e, s') \<Rightarrow> s' | (Inr x, s') \<Rightarrow> snd (g x s'))"
  by (auto simp: act_ret_def act_fail_def act_bind_def split: prod.splits sum.splits)

text \<open>A relation between the states before and after that every step keeps is kept by a whole handler.\<close>

locale step_relation =
  fixes rel :: "'s \<Rightarrow> 's \<Rightarrow> bool"
  assumes rel_refl: "rel s s" and rel_trans: "rel s t \<Longrightarrow> rel t u \<Longrightarrow> rel s u"
begin

definition follows :: "('s, 'e, 'a) action \<Rightarrow> bool" where
  "follows m \<longleftrightarrow> (\<forall>s. rel s (snd (m s)))"

lemma followsI: "(\<And>s. rel s (snd (m s))) \<Longrightarrow> follows m"
  by (simp add: follows_def)

lemma followsD: "follows m \<Longrightarrow> rel s (snd (m s))"
  by (simp add: follows_def)

lemma follows_ret: "follows (act_ret x)" and follows_fail: "follows (act_fail f)"
  by (simp_all add: follows_def rel_refl)

lemma follows_bind: "follows m \<Longrightarrow> (\<And>x. follows (g x)) \<Longrightarrow> follows (act_bind m g)"
  unfolding follows_def by (auto split: prod.splits sum.splits) (metis snd_conv, metis snd_conv rel_trans)

lemma follows_if: "(b \<Longrightarrow> follows m) \<Longrightarrow> (\<not> b \<Longrightarrow> follows m') \<Longrightarrow> follows (if b then m else m')"
  by simp

lemma follows_read: "(\<And>s. snd (m s) = s) \<Longrightarrow> follows m"
  by (simp add: follows_def rel_refl)

lemma follows_some_or: "follows (some_or f x)"
  by (simp add: some_or_def follows_ret follows_fail split: option.split)

end

end
