(* ===== verification/Engine_Ports.thy ===== *)
theory Engine_Ports
  imports Runtime_Service Store_Types
begin

text \<open>
  The services the engine calls (\<open>engine/src/ports/sink.rs\<close> and \<open>alertmanager.rs\<close>): what a card shows, where it goes,
  what Discord and Alertmanager fail with, and the two interfaces themselves. The services are outside the repository:
  an interface is a record of functions on a world of any type, each of which answers or fails and leaves a new world.
\<close>

section \<open>What a card shows\<close>

record digest_notice =
  dn_cards :: nat
  dn_threshold :: nat
  dn_window_secs :: int

record previous_card =
  pv_guild :: guild_id
  pv_channel :: channel_id
  pv_message :: message_id

record silence_summary =
  sy_am_id :: string
  sy_ends_at :: time
  sy_created_by :: string

datatype mention = RoleMention role_id | UserMention user_id

record card_data =
  cd_notification :: notification_id
  cd_alert :: alert
  cd_state :: notification_state
  cd_route_name :: string
  cd_acknowledged_by :: "user_id option"
  cd_acknowledged_at :: "time option"
  cd_reply_count :: nat
  cd_flap_count :: nat
  cd_first_seen_at :: time
  cd_silence :: "silence_summary option"
  cd_ignore_reason :: "string option"
  cd_mentions :: "mention list"
  cd_digest :: "digest_notice option"
  cd_previous :: "previous_card option"
  cd_rendered_at :: time

definition cd_severity :: "card_data \<Rightarrow> severity" where
  "cd_severity d = alert_severity (cd_alert d)"

record card_target =
  tt_guild :: guild_id
  tt_target :: route_target
  tt_title :: string
  tt_tags :: "tag_id list"

record posted_message =
  pm_message :: message_id
  pm_thread :: "channel_id option"

definition posted_plain :: "message_id \<Rightarrow> posted_message" where
  "posted_plain m = \<lparr>pm_message = m, pm_thread = None\<rparr>"

text \<open>Discord makes a forum post's id its first message's id.\<close>

definition posted_forum :: "channel_id \<Rightarrow> posted_message" where
  "posted_forum post = \<lparr>pm_message = post, pm_thread = Some post\<rparr>"

record message_ref =
  mr_channel :: channel_id
  mr_message :: message_id

record post_flags =
  pf_archived :: bool
  pf_locked :: bool
  pf_auto_archive_minutes :: nat

record tag_spec =
  ts_name :: string
  ts_moderated :: bool

section \<open>Discord\<close>

datatype sink_error =
    UnknownMessage
  | MissingPermissions string
  | RateLimited nat
  | ThreadArchived
  | ThreadLocked
  | UnknownTag
  | TagBudgetExceeded
  | PinLimitReached
  | WrongChannelType string
  | Transient string

fun sink_error_str :: "sink_error \<Rightarrow> string" where
  "sink_error_str UnknownMessage = ''message no longer exists''"
| "sink_error_str (MissingPermissions detail) = ''missing permission: '' @ detail"
| "sink_error_str (RateLimited ms) = ''rate limited, retry in '' @ show_nat ms @ ''ms''"
| "sink_error_str ThreadArchived = ''thread is archived''"
| "sink_error_str ThreadLocked = ''thread is locked''"
| "sink_error_str UnknownTag = ''unknown forum tag''"
| "sink_error_str TagBudgetExceeded = ''forum tag budget exhausted''"
| "sink_error_str PinLimitReached = ''the channel'' @ [CHR 0x27] @ ''s pinned posts are at Discord'' @ [CHR 0x27] @ ''s limit''"
| "sink_error_str (WrongChannelType expected) = ''channel is not a '' @ expected @ '' channel''"
| "sink_error_str (Transient detail) = ''discord request failed: '' @ detail"

fun sink_is_retryable :: "sink_error \<Rightarrow> bool" where
  "sink_is_retryable (RateLimited _) = True"
| "sink_is_retryable (Transient _) = True"
| "sink_is_retryable ThreadArchived = True"
| "sink_is_retryable _ = False"

fun retry_after_ms :: "sink_error \<Rightarrow> nat option" where
  "retry_after_ms (RateLimited ms) = Some ms"
| "retry_after_ms _ = None"

type_synonym ('w, 'a) call = "'w \<Rightarrow> (sink_error + 'a) \<times> 'w"

record 'w discord_sink =
  dk_post_card :: "card_target \<Rightarrow> card_data \<Rightarrow> ('w, posted_message) call"
  dk_create_forum_post :: "card_target \<Rightarrow> card_data \<Rightarrow> ('w, posted_message) call"
  dk_edit_card :: "message_ref \<Rightarrow> card_data \<Rightarrow> ('w, unit) call"
  dk_open_thread :: "message_ref \<Rightarrow> string \<Rightarrow> ('w, channel_id) call"
  dk_post_thread_note :: "channel_id \<Rightarrow> string \<Rightarrow> ('w, unit) call"
  dk_post_escalation :: "channel_id \<Rightarrow> mention list \<Rightarrow> string \<Rightarrow> ('w, unit) call"
  dk_disable_components :: "message_ref \<Rightarrow> ('w, unit) call"
  dk_set_post_tags :: "channel_id \<Rightarrow> tag_id list \<Rightarrow> ('w, unit) call"
  dk_set_post_flags :: "channel_id \<Rightarrow> post_flags \<Rightarrow> ('w, unit) call"
  dk_set_post_pinned :: "channel_id \<Rightarrow> bool \<Rightarrow> ('w, unit) call"
  dk_forum_tags :: "channel_id \<Rightarrow> ('w, forum_tag list) call"
  dk_ensure_forum_tags :: "channel_id \<Rightarrow> tag_spec list \<Rightarrow> ('w, forum_tag list) call"

section \<open>Alertmanager\<close>

fun am_error_str :: "am_error \<Rightarrow> string" where
  "am_error_str (AmUnreachable detail) = ''no Alertmanager endpoint reachable: '' @ detail"
| "am_error_str (AmTimeout ms) = ''Alertmanager timed out after '' @ show_nat ms @ ''ms''"
| "am_error_str (AmStatus status body) = ''Alertmanager returned '' @ show_nat status @ '': '' @ body"
| "am_error_str (AmDecode detail) = ''cannot decode Alertmanager response: '' @ detail"
| "am_error_str (AmConfig detail) = ''Alertmanager client configuration is invalid: '' @ detail"

record silence_request =
  sq_id :: "string option"
  sq_matchers :: matcher_set
  sq_starts_at :: time
  sq_ends_at :: time
  sq_created_by :: string
  sq_comment :: string

fun am_is_unavailable :: "am_error \<Rightarrow> bool" where
  "am_is_unavailable (AmUnreachable _) = True"
| "am_is_unavailable (AmTimeout _) = True"
| "am_is_unavailable (AmStatus status _) = (500 \<le> status)"
| "am_is_unavailable _ = False"

record alert_filter =
  af_active :: bool
  af_silenced :: bool
  af_inhibited :: bool
  af_unprocessed :: bool
  af_matchers :: "string list"

definition everything :: alert_filter where
  "everything = \<lparr>af_active = True, af_silenced = True, af_inhibited = True, af_unprocessed = True, af_matchers = []\<rparr>"

definition filter_matching :: "string \<Rightarrow> alert_filter" where
  "filter_matching expression = everything\<lparr>af_matchers := [expression]\<rparr>"

record am_status =
  ams_version :: string
  ams_uptime :: "time option"
  ams_peers :: "string list"
  ams_cluster_ready :: bool
  ams_config_hash :: "string option"

record am_receiver =
  arc_name :: string

record 'w alertmanager =
  am_list_alerts :: "alert_filter \<Rightarrow> 'w \<Rightarrow> (am_error + alert list) \<times> 'w"
  am_list_silences :: "string list \<Rightarrow> 'w \<Rightarrow> (am_error + silence_record list) \<times> 'w"
  am_upsert_silence :: "silence_request \<Rightarrow> 'w \<Rightarrow> (am_error + string) \<times> 'w"
  am_expire_silence :: "string \<Rightarrow> 'w \<Rightarrow> (am_error + unit) \<times> 'w"
  am_server_status :: "'w \<Rightarrow> (am_error + am_status) \<times> 'w"
  am_receivers :: "'w \<Rightarrow> (am_error + am_receiver list) \<times> 'w"

end
