(* ===== verification/Runtime_Cards.thy ===== *)
theory Runtime_Cards
  imports Engine_Ports
begin

text \<open>
  Reading a card back out of the database, whole, so the sink can draw it (\<open>runtime/src/cards.rs\<close>). The renderer
  (\<open>discord/src/render.rs\<close>) is a parameter: the hash of what it draws and the two titles. The two readings of the clock
  in \<open>assemble\<close> are one instant, and a read of the store does not fail.
\<close>

record renderer =
  rn_hash :: "card_data \<Rightarrow> string"
  rn_name :: "card_data \<Rightarrow> string"
  rn_forum_title :: "card_data \<Rightarrow> string \<Rightarrow> string"

record assembled =
  as_target :: card_target
  as_data :: card_data
  as_card :: notification

definition digest_notice_for :: "storm_state \<Rightarrow> route \<Rightarrow> digest_notice option" where
  "digest_notice_for storm route = (if is_storming storm route
     then Some \<lparr>dn_cards = storm_count storm (rt_id route), dn_threshold = threshold_for storm route,
       dn_window_secs = num_seconds (sm_window storm)\<rparr>
     else None)"

definition previous_card_for :: "db \<Rightarrow> notification_id option \<Rightarrow> previous_card option" where
  "previous_card_for db i = (case Option.bind i (\<lambda>i. notification_by_id i db) of None \<Rightarrow> None
   | Some cd \<Rightarrow> (case n_message_id cd of None \<Rightarrow> None
     | Some m \<Rightarrow> Some \<lparr>pv_guild = n_guild_id cd,
         pv_channel = (case n_thread_id cd of Some t \<Rightarrow> t | None \<Rightarrow> n_channel_id cd), pv_message = m\<rparr>))"

definition silence_for :: "db \<Rightarrow> string list \<Rightarrow> silence_summary option" where
  "silence_for db ids = (if ids = [] then None
     else map_option (\<lambda>l. \<lparr>sy_am_id = sl_am_id l, sy_ends_at = sl_ends_at l, sy_created_by = sl_created_by l\<rparr>)
       (find (\<lambda>l. sl_am_id l \<in> set ids) (silences False db)))"

definition mentions_for :: "route \<Rightarrow> mention list" where
  "mentions_for route = map RoleMention (mn_roles (rt_mentions route)) @ map UserMention (mn_users (rt_mentions route))"

definition assemble_data ::
  "routing_snapshot \<Rightarrow> storm_state \<Rightarrow> db \<Rightarrow> time \<Rightarrow> notification \<Rightarrow> route \<Rightarrow> alert_record \<Rightarrow> bool \<Rightarrow> card_data" where
  "assemble_data sn storm db now cd route record mention =
     (let held = acknowledgement (n_fingerprint cd) db in
      \<lparr>cd_notification = n_id cd, cd_alert = ar_alert record, cd_state = n_state cd, cd_route_name = rt_name route,
       cd_acknowledged_by = map_option ak_user_id held, cd_acknowledged_at = map_option ak_created_at held,
       cd_reply_count = n_reply_count cd, cd_flap_count = ar_flap_count record, cd_first_seen_at = ar_first_seen_at record,
       cd_silence = silence_for db (al_silenced_by (ar_alert record)),
       cd_ignore_reason = map_option ig_reason
         (ignore_for sn (n_guild_id cd) (n_channel_id cd) (al_labels (ar_alert record)) now),
       cd_mentions = (if mention then mentions_for route else []), cd_digest = digest_notice_for storm route,
       cd_previous = previous_card_for db (n_supersedes cd), cd_rendered_at = now\<rparr>)"

definition assemble_target :: "renderer \<Rightarrow> routing_snapshot \<Rightarrow> notification \<Rightarrow> route \<Rightarrow> card_data \<Rightarrow> card_target" where
  "assemble_target rn sn cd route d =
     \<lparr>tt_guild = n_guild_id cd, tt_target = rt_target route,
      tt_title = (case rt_target route of ForumTarget _ policy \<Rightarrow> rn_forum_title rn d (fp_title_template policy)
        | _ \<Rightarrow> rn_name rn d),
      tt_tags = (case rt_target route of
          ForumTarget channel policy \<Rightarrow> desired_tags sn channel policy (n_state cd) (cd_severity d) (al_labels (cd_alert d))
        | _ \<Rightarrow> [])\<rparr>"

definition assemble ::
  "renderer \<Rightarrow> routing_snapshot \<Rightarrow> storm_state \<Rightarrow> time \<Rightarrow> notification_id \<Rightarrow> bool \<Rightarrow> db \<Rightarrow> assembled option" where
  "assemble rn sn storm now i mention db = (case notification_by_id i db of None \<Rightarrow> None
   | Some cd \<Rightarrow> (case route_by_id sn (n_route_id cd) of None \<Rightarrow> None
   | Some route \<Rightarrow> (case read_alert (n_fingerprint cd) db of None \<Rightarrow> None
   | Some record \<Rightarrow>
       let d = assemble_data sn storm db now cd route record mention
       in Some \<lparr>as_target = assemble_target rn sn cd route d, as_data = d, as_card = cd\<rparr>)))"

lemma assemble_Some:
  assumes "assemble rn sn storm now i mention db = Some a"
  shows "notification_by_id i db = Some (as_card a)" "n_id (as_card a) = i"
    "\<exists>route. route_by_id sn (n_route_id (as_card a)) = Some route \<and> tt_target (as_target a) = rt_target route"
    "cd_state (as_data a) = n_state (as_card a)" "cd_notification (as_data a) = i"
    "\<not> mention \<Longrightarrow> cd_mentions (as_data a) = []"
  using assms by (auto simp: assemble_def assemble_data_def assemble_target_def Let_def notification_by_id_def find_Some_iff
      split: option.splits)

end
