(* ===== verification/Runtime_Dispatch.thy ===== *)
theory Runtime_Dispatch
  imports Result_State Runtime_Cards Sqlite_Routing
begin

text \<open>
  The workers that turn queued effects into Discord and Alertmanager calls (\<open>runtime/src/dispatch.rs\<close>). A worker's state
  is what it shares with the process (the pipeline with its tables, the routing tables, the published snapshot), the
  label tags it failed to create, and the world its services live in. A step of an effect is a function of that state
  that answers or fails with what becomes of the item. The instants a handler reads are given by a clock: 0 to 2 for the
  assemblies of a card, 3 to release a deleted card, 4 for the tag back-off, 5 and 6 for the two rebuilt snapshots,
  7 to settle the item, 8 and 9 for a notice. Reads of the store do not fail; metrics and log lines are not modelled.
\<close>

unbundle bit_operations_syntax

section \<open>What becomes of an effect that did not succeed\<close>

datatype failure = Retry string int | Drop string | Blocked string

definition from_sink :: "sink_error \<Rightarrow> failure" where
  "from_sink e = (let detail = sink_error_str e in case retry_after_ms e of
     Some ms \<Rightarrow> Retry detail (max (int (ms div 1000)) 1)
   | None \<Rightarrow> if sink_is_retryable e then Retry detail 5
       else (case e of MissingPermissions _ \<Rightarrow> Blocked detail | WrongChannelType _ \<Rightarrow> Blocked detail | _ \<Rightarrow> Drop detail))"

definition from_am :: "am_error \<Rightarrow> failure" where
  "from_am e = (if am_is_retryable e then Retry (am_error_str e) 10 else Drop (am_error_str e))"

definition MAX_BACKOFF_SECS :: int where "MAX_BACKOFF_SECS = 300"

definition MAX_ATTEMPTS :: nat where "MAX_ATTEMPTS = 10"

definition REOPENED_AUTO_ARCHIVE_MINUTES :: nat where "REOPENED_AUTO_ARCHIVE_MINUTES = 10080"

definition TAG_RETRY_AFTER :: duration where "TAG_RETRY_AFTER = seconds 600"

text \<open>\<open>1_i64.checked_shl(n)\<close> for an \<open>n\<close> of at most 20 is the power of two.\<close>

definition backoff_secs :: "nat \<Rightarrow> int" where
  "backoff_secs attempts = min (2 ^ min attempts 20) MAX_BACKOFF_SECS"

section \<open>The worker\<close>

record 'w collaborators =
  co_sink :: "'w discord_sink"
  co_am :: "'w alertmanager"
  co_renderer :: renderer
  co_config :: service_config
  co_regex :: regex_engine
  co_worker :: worker_id
  co_lane :: "lane_assignment option"
  co_lease_secs :: nat
  co_batch :: nat

type_synonym tag_backoff = "channel_id \<times> string \<Rightarrow> time option"

record 'w worker =
  wk_pl :: pipeline
  wk_tables :: routing_tables
  wk_routing :: routing_snapshot
  wk_failed :: tag_backoff
  wk_world :: 'w

abbreviation wk_db :: "'w worker \<Rightarrow> db" where
  "wk_db s \<equiv> pl_db (wk_pl s)"

definition with_db :: "db \<Rightarrow> 'w worker \<Rightarrow> 'w worker" where
  "with_db db s = s\<lparr>wk_pl := (wk_pl s)\<lparr>pl_db := db\<rparr>\<rparr>"

type_synonym ('w, 'a) act = "('w worker, failure, 'a) action"

text \<open>A call to Discord, its error still a value; and one whose error decides the item's fate.\<close>

definition act_call :: "('w, 'a) call \<Rightarrow> ('w, sink_error + 'a) act" where
  "act_call c = (\<lambda>s. let (r, w) = c (wk_world s) in (Inr r, s\<lparr>wk_world := w\<rparr>))"

definition or_fail :: "sink_error + 'a \<Rightarrow> ('w, 'a) act" where
  "or_fail r = (case r of Inl e \<Rightarrow> act_fail (from_sink e) | Inr x \<Rightarrow> act_ret x)"

section \<open>Archived threads\<close>

definition reopening :: "'w discord_sink \<Rightarrow> channel_id \<Rightarrow> ('w, 'a) call \<Rightarrow> ('w, 'a \<times> bool) call" where
  "reopening sk thread c w = (case c w of
     (Inl ThreadArchived, w1) \<Rightarrow>
       (case dk_set_post_flags sk thread \<lparr>pf_archived = False, pf_locked = False,
            pf_auto_archive_minutes = REOPENED_AUTO_ARCHIVE_MINUTES\<rparr> w1 of
          (Inl e, w2) \<Rightarrow> (Inl e, w2)
        | (Inr _, w2) \<Rightarrow> (case c w2 of (Inl e, w3) \<Rightarrow> (Inl e, w3) | (Inr x, w3) \<Rightarrow> (Inr (x, True), w3)))
   | (Inl e, w1) \<Rightarrow> (Inl e, w1)
   | (Inr x, w1) \<Rightarrow> (Inr (x, False), w1))"

definition then_some :: "bool \<Rightarrow> 'a \<Rightarrow> 'a option" where
  "then_some b x = (if b then Some x else None)"

section \<open>Label tags\<close>

definition missing_label_tags :: "routing_snapshot \<Rightarrow> channel_id \<Rightarrow> forum_policy \<Rightarrow> labels \<Rightarrow> tag_spec list" where
  "missing_label_tags sn channel policy ls = fold (\<lambda>name missing.
     if tag_id sn channel name = None \<and> name \<notin> ts_name ` set missing
     then missing @ [\<lparr>ts_name = name, ts_moderated = False\<rparr>] else missing) (label_tag_names policy ls) []"

definition live_failures :: "time \<Rightarrow> tag_backoff \<Rightarrow> tag_backoff" where
  "live_failures now failed = (\<lambda>k. case failed k of None \<Rightarrow> None
     | Some at \<Rightarrow> if max (now - at) 0 < TAG_RETRY_AFTER then Some at else None)"

definition retain_due :: "channel_id \<Rightarrow> tag_spec list \<Rightarrow> tag_backoff \<Rightarrow> tag_spec list" where
  "retain_due channel specs failed = filter (\<lambda>sp. failed (channel, ts_name sp) = None) specs"

definition record_failures :: "channel_id \<Rightarrow> tag_spec list \<Rightarrow> time \<Rightarrow> tag_backoff \<Rightarrow> tag_backoff" where
  "record_failures channel specs now failed =
     fold (\<lambda>sp failed. failed((channel, ts_name sp) \<mapsto> now)) specs failed"

definition adopt_forum_tags ::
  "'w collaborators \<Rightarrow> channel_id \<Rightarrow> forum_tag list \<Rightarrow> time \<Rightarrow> 'w worker \<Rightarrow> bool \<times> 'w worker" where
  "adopt_forum_tags co channel tags now s = (case sync_forum_tags channel tags (wk_tables s) of
     (Inl _, t) \<Rightarrow> (False, s\<lparr>wk_tables := t\<rparr>)
   | (Inr _, t) \<Rightarrow> (case snapshot_of (co_regex co) now t of
       Inl _ \<Rightarrow> (False, s\<lparr>wk_tables := t\<rparr>)
     | Inr sn \<Rightarrow> (True, s\<lparr>wk_tables := t, wk_routing := sn\<rparr>)))"

definition resync_forum_tags :: "'w collaborators \<Rightarrow> route_target \<Rightarrow> time \<Rightarrow> 'w worker \<Rightarrow> bool \<times> 'w worker" where
  "resync_forum_tags co target now s = (case target of
     ForumTarget channel _ \<Rightarrow> (case dk_forum_tags (co_sink co) channel (wk_world s) of
         (Inl _, w) \<Rightarrow> (False, s\<lparr>wk_world := w\<rparr>)
       | (Inr tags, w) \<Rightarrow> adopt_forum_tags co channel tags now (s\<lparr>wk_world := w\<rparr>))
   | _ \<Rightarrow> (False, s))"

text \<open>The label tags a post asks Discord for: missing from the snapshot, and not refused within the window.\<close>

definition tags_to_create :: "channel_id \<Rightarrow> forum_policy \<Rightarrow> labels \<Rightarrow> time \<Rightarrow> 'w worker \<Rightarrow> tag_spec list" where
  "tags_to_create channel policy ls instant s =
     retain_due channel (missing_label_tags (wk_routing s) channel policy ls) (live_failures instant (wk_failed s))"

definition create_label_tags :: "'w collaborators \<Rightarrow> assembled \<Rightarrow> time \<Rightarrow> time \<Rightarrow> 'w worker \<Rightarrow> bool \<times> 'w worker" where
  "create_label_tags co a instant now s = (case tt_target (as_target a) of
     ForumTarget channel policy \<Rightarrow>
       if \<not> fp_manage_tags policy then (False, s)
       else let failed = live_failures instant (wk_failed s);
              missing = tags_to_create channel policy (al_labels (cd_alert (as_data a))) instant s;
              s1 = s\<lparr>wk_failed := failed\<rparr>
         in if missing = [] then (False, s1)
            else (case dk_ensure_forum_tags (co_sink co) channel missing (wk_world s) of
              (Inl _, w) \<Rightarrow> (False, s1\<lparr>wk_world := w, wk_failed := record_failures channel missing instant failed\<rparr>)
            | (Inr tags, w) \<Rightarrow>
                let created = filter (\<lambda>sp. ts_name sp \<in> ft_name ` set tags) missing;
                    refused = filter (\<lambda>sp. ts_name sp \<notin> ft_name ` set tags) missing;
                    s2 = s1\<lparr>wk_world := w, wk_failed := record_failures channel refused instant failed\<rparr>
                in if created = [] then (False, s2) else adopt_forum_tags co channel tags now s2)
   | _ \<Rightarrow> (False, s))"

section \<open>Reading a card\<close>

definition GONE :: failure where "GONE = Drop ''the card is gone''"

definition NOT_DRAWN :: failure where "NOT_DRAWN = Drop ''the card can no longer be drawn''"

definition NOT_POSTED :: failure where "NOT_POSTED = Drop ''the card has not been posted yet''"

definition NO_THREAD :: failure where "NO_THREAD = Drop ''the card has no thread''"

definition fetch_card :: "notification_id \<Rightarrow> ('w, notification) act" where
  "fetch_card i = (\<lambda>s. some_or GONE (notification_by_id i (wk_db s)) s)"

definition fetch_thread :: "notification_id \<Rightarrow> ('w, channel_id) act" where
  "fetch_thread i = act_bind (fetch_card i) (\<lambda>cd. some_or NO_THREAD (n_thread_id cd))"

definition card_channel :: "notification \<Rightarrow> channel_id" where
  "card_channel cd = (case n_thread_id cd of Some t \<Rightarrow> t | None \<Rightarrow> n_channel_id cd)"

definition fetch_message :: "notification_id \<Rightarrow> ('w, message_ref) act" where
  "fetch_message i = act_bind (fetch_card i) (\<lambda>cd. act_bind (some_or NOT_POSTED (n_message_id cd)) (\<lambda>m.
     act_ret \<lparr>mr_channel = card_channel cd, mr_message = m\<rparr>))"

definition drawn :: "'w collaborators \<Rightarrow> notification_id \<Rightarrow> bool \<Rightarrow> time \<Rightarrow> ('w, assembled) act" where
  "drawn co i mention now = (\<lambda>s. some_or NOT_DRAWN
     (assemble (co_renderer co) (wk_routing s) (pl_storm (wk_pl s)) now i mention (wk_db s)) s)"

section \<open>Pins\<close>

definition has_pin_room :: "nat \<Rightarrow> nat \<Rightarrow> bool" where
  "has_pin_room pinned max_pinned \<longleftrightarrow> pinned < max_pinned"

definition born_pinned :: "route_target \<Rightarrow> notification_state \<Rightarrow> severity \<Rightarrow> bool" where
  "born_pinned target state sev = (case target of
     ForumTarget _ policy \<Rightarrow> wants_pin state \<and> (case fp_pin_min_severity policy of None \<Rightarrow> False | Some floor \<Rightarrow> floor \<le> sev)
   | _ \<Rightarrow> False)"

definition pin_allowed :: "notification \<Rightarrow> 'w worker \<Rightarrow> bool" where
  "pin_allowed cd s = (case map_option rt_target (route_by_id (wk_routing s) (n_route_id cd)) of
     Some (ForumTarget _ policy) \<Rightarrow> has_pin_room (pinned_posts (n_channel_id cd) (wk_db s)) (fp_max_pinned policy)
   | _ \<Rightarrow> True)"

definition try_pin :: "'w collaborators \<Rightarrow> notification \<Rightarrow> channel_id \<Rightarrow> bool \<Rightarrow> ('w, bool option) act" where
  "try_pin co cd thread pinned = (\<lambda>s. if pinned \<and> \<not> pin_allowed cd s then (Inr None, s)
     else act_bind (act_call (dk_set_post_pinned (co_sink co) thread pinned))
       (\<lambda>r. act_ret (case r of Inl _ \<Rightarrow> None | Inr _ \<Rightarrow> Some pinned)) s)"

definition set_pin :: "'w collaborators \<Rightarrow> notification_id \<Rightarrow> bool \<Rightarrow> ('w, applied_effect) act" where
  "set_pin co i pinned = act_bind (fetch_card i) (\<lambda>cd. act_bind (some_or NO_THREAD (n_thread_id cd)) (\<lambda>thread.
     act_bind (try_pin co cd thread pinned) (\<lambda>p. act_ret (no_applied\<lparr>ae_pinned := p\<rparr>))))"

section \<open>Posting\<close>

definition tag_bytes :: "tag_id \<Rightarrow> string" where
  "tag_bytes t = map (\<lambda>i. char_of (unat (drop_bit (8 * i) t) mod 256)) [7, 6, 5, 4, 3, 2, 1, 0]"

definition tags_hash :: "tag_id list \<Rightarrow> string" where
  "tags_hash tags = hex16 (fold (\<lambda>t h. fnv1a h (tag_bytes t)) tags FNV_OFFSET)"

definition publish :: "'w collaborators \<Rightarrow> assembled \<Rightarrow> ('w, posted_message) call" where
  "publish co a = (if is_forum (tt_target (as_target a)) then dk_create_forum_post (co_sink co) (as_target a) (as_data a)
     else dk_post_card (co_sink co) (as_target a) (as_data a))"

definition lift_flag :: "('w worker \<Rightarrow> bool \<times> 'w worker) \<Rightarrow> ('w, bool) act" where
  "lift_flag f = (\<lambda>s. let (b, s') = f s in (Inr b, s'))"

text \<open>The first publication, and the second after a forum whose tags were reloaded.\<close>

definition publish_twice ::
  "'w collaborators \<Rightarrow> notification_id \<Rightarrow> bool \<Rightarrow> clock \<Rightarrow> assembled \<Rightarrow> ('w, assembled \<times> posted_message) act" where
  "publish_twice co i mention k a = act_bind (act_call (publish co a)) (\<lambda>r.
     act_bind (if r = Inl UnknownTag then lift_flag (resync_forum_tags co (tt_target (as_target a)) (k 6)) else act_ret False)
       (\<lambda>resynced. if resynced
         then act_bind (drawn co i mention (k 2)) (\<lambda>again. act_bind (act_call (publish co again)) (\<lambda>r'.
           act_bind (or_fail r') (\<lambda>p. act_ret (again, p))))
         else act_bind (or_fail r) (\<lambda>p. act_ret (a, p))))"

definition posted_effect :: "'w collaborators \<Rightarrow> assembled \<Rightarrow> posted_message \<Rightarrow> bool option \<Rightarrow> applied_effect" where
  "posted_effect co a p pinned = no_applied\<lparr>ae_message_id := Some (pm_message p), ae_thread_id := pm_thread p,
     ae_render_hash := Some (rn_hash (co_renderer co) (as_data a)), ae_applied_tags := Some (tt_tags (as_target a)),
     ae_tags_hash := Some (tags_hash (tt_tags (as_target a))), ae_pinned := pinned\<rparr>"

definition post :: "'w collaborators \<Rightarrow> notification_id \<Rightarrow> bool \<Rightarrow> clock \<Rightarrow> ('w, applied_effect) act" where
  "post co i mention k = act_bind (drawn co i mention (k 0)) (\<lambda>a0.
     if is_posted (as_card a0) then act_fail (Drop ''the card is already posted'')
     else act_bind (lift_flag (create_label_tags co a0 (k 4) (k 5))) (\<lambda>created.
       act_bind (if created then drawn co i mention (k 1) else act_ret a0) (\<lambda>a1.
       act_bind (publish_twice co i mention k a1) (\<lambda>(a, p).
       act_bind (case pm_thread p of
           Some thread \<Rightarrow> if born_pinned (tt_target (as_target a)) (cd_state (as_data a)) (cd_severity (as_data a))
             then try_pin co (as_card a) thread True else act_ret None
         | None \<Rightarrow> act_ret None) (\<lambda>pinned.
       act_ret (posted_effect co a p pinned))))))"

section \<open>Redrawing\<close>

text \<open>
  The edit both \<open>edit\<close> and \<open>resync\<close> make: the card's message, its thread reopened when Discord archived it; a message
  that was deleted releases the row.
\<close>

definition release :: "notification_id \<Rightarrow> time \<Rightarrow> ('w, unit) act" where
  "release i now = (\<lambda>s. (Inr (), with_db (snd (orphan_notification i now (wk_db s))) s))"

definition redraw :: "'w collaborators \<Rightarrow> notification_id \<Rightarrow> clock \<Rightarrow> assembled \<Rightarrow> message_id \<Rightarrow> ('w, bool) act" where
  "redraw co i k a m =
     (let ref = \<lparr>mr_channel = card_channel (as_card a), mr_message = m\<rparr>
      in act_bind (act_call (reopening (co_sink co) (mr_channel ref) (dk_edit_card (co_sink co) ref (as_data a)))) (\<lambda>r.
         case r of
           Inr (_, reopened) \<Rightarrow> act_ret reopened
         | Inl UnknownMessage \<Rightarrow> act_bind (release i (k 3)) (\<lambda>_. act_fail (Drop ''the message was deleted''))
         | Inl e \<Rightarrow> act_fail (from_sink e)))"

definition edit :: "'w collaborators \<Rightarrow> notification_id \<Rightarrow> clock \<Rightarrow> ('w, applied_effect) act" where
  "edit co i k = act_bind (drawn co i False (k 0)) (\<lambda>a. act_bind (some_or NOT_POSTED (n_message_id (as_card a))) (\<lambda>m.
     let h = rn_hash (co_renderer co) (as_data a)
     in if \<not> needs_edit (as_card a) h then act_ret no_applied
        else act_bind (redraw co i k a m) (\<lambda>reopened.
          act_ret (no_applied\<lparr>ae_render_hash := Some h, ae_archived := then_some reopened False\<rparr>))))"

definition resync :: "'w collaborators \<Rightarrow> notification_id \<Rightarrow> clock \<Rightarrow> ('w, applied_effect) act" where
  "resync co i k = act_bind (drawn co i False (k 0)) (\<lambda>a. act_bind (some_or NOT_POSTED (n_message_id (as_card a))) (\<lambda>m.
     act_bind (redraw co i k a m) (\<lambda>reopened.
       let applied = no_applied\<lparr>ae_render_hash := Some (rn_hash (co_renderer co) (as_data a)),
             ae_archived := then_some reopened False\<rparr>;
           tags = tt_tags (as_target a)
       in if is_forum (tt_target (as_target a))
          then (case n_thread_id (as_card a) of
              None \<Rightarrow> act_ret applied
            | Some thread \<Rightarrow>
                act_bind (act_call (reopening (co_sink co) thread (dk_set_post_tags (co_sink co) thread tags))) (\<lambda>r.
                act_bind (or_fail r) (\<lambda>(_, retagged).
                act_ret (applied\<lparr>ae_tags_hash := Some (tags_hash tags), ae_applied_tags := Some tags,
                  ae_archived := then_some (reopened \<or> retagged) False\<rparr>))))
          else act_ret applied)))"

section \<open>Tags\<close>

definition apply_tags ::
  "'w collaborators \<Rightarrow> assembled \<Rightarrow> channel_id \<Rightarrow> ('w, sink_error + applied_effect option) act" where
  "apply_tags co a thread =
     (let tags = tt_tags (as_target a); h = tags_hash tags
      in if \<not> needs_tag_update (as_card a) h then act_ret (Inr None)
         else act_bind (act_call (reopening (co_sink co) thread (dk_set_post_tags (co_sink co) thread tags))) (\<lambda>r.
           act_ret (case r of Inl e \<Rightarrow> Inl e
             | Inr (_, reopened) \<Rightarrow> Inr (Some (no_applied\<lparr>ae_applied_tags := Some tags, ae_tags_hash := Some h,
                 ae_archived := then_some reopened False\<rparr>)))))"

definition wanted_tags :: "'w collaborators \<Rightarrow> notification_id \<Rightarrow> clock \<Rightarrow> ('w, assembled) act" where
  "wanted_tags co i k = act_bind (drawn co i False (k 0)) (\<lambda>a. act_bind (lift_flag (create_label_tags co a (k 4) (k 5))) (\<lambda>created.
     if created then drawn co i False (k 1) else act_ret a))"

definition retag :: "'w collaborators \<Rightarrow> notification_id \<Rightarrow> clock \<Rightarrow> ('w, applied_effect) act" where
  "retag co i k = act_bind (wanted_tags co i k) (\<lambda>a. act_bind (some_or NO_THREAD (n_thread_id (as_card a))) (\<lambda>thread.
     act_bind (apply_tags co a thread) (\<lambda>outcome.
     act_bind (if outcome = Inl UnknownTag then lift_flag (resync_forum_tags co (tt_target (as_target a)) (k 6)) else act_ret False)
       (\<lambda>resynced.
     act_bind (if resynced then act_bind (drawn co i False (k 2)) (\<lambda>again. apply_tags co again thread) else act_ret outcome)
       (\<lambda>final. act_bind (or_fail final) (\<lambda>applied.
     act_ret (case applied of None \<Rightarrow> no_applied | Some e \<Rightarrow> e)))))))"

section \<open>Notes, flags, escalations, silences\<close>

text \<open>A call on a card's thread whose only trace is whether the thread had to be reopened.\<close>

definition reopened_effect :: "sink_error + unit \<times> bool \<Rightarrow> ('w, applied_effect) act" where
  "reopened_effect r = act_bind (or_fail r) (\<lambda>(_, reopened). act_ret (no_applied\<lparr>ae_archived := then_some reopened False\<rparr>))"

definition open_thread :: "'w collaborators \<Rightarrow> notification_id \<Rightarrow> string \<Rightarrow> ('w, applied_effect) act" where
  "open_thread co i name = act_bind (fetch_message i) (\<lambda>ref. act_bind (act_call (dk_open_thread (co_sink co) ref name)) (\<lambda>r.
     act_bind (or_fail r) (\<lambda>thread. act_ret (no_applied\<lparr>ae_thread_id := Some thread\<rparr>))))"

definition thread_note :: "'w collaborators \<Rightarrow> notification_id \<Rightarrow> string \<Rightarrow> ('w, applied_effect) act" where
  "thread_note co i txt = act_bind (fetch_thread i) (\<lambda>thread.
     act_bind (act_call (reopening (co_sink co) thread (dk_post_thread_note (co_sink co) thread txt))) reopened_effect)"

definition stale_flags :: "notification \<Rightarrow> notification_state option \<Rightarrow> bool" where
  "stale_flags cd planned_for = (case planned_for of None \<Rightarrow> False
     | Some planned \<Rightarrow> holds_thread_open planned \<noteq> holds_thread_open (n_state cd))"

definition set_flags ::
  "'w collaborators \<Rightarrow> notification_id \<Rightarrow> bool \<Rightarrow> bool \<Rightarrow> nat \<Rightarrow> notification_state option \<Rightarrow> ('w, applied_effect) act" where
  "set_flags co i archived locked minutes planned_for = act_bind (fetch_card i) (\<lambda>cd.
     if stale_flags cd planned_for then act_ret no_applied
     else act_bind (some_or NO_THREAD (n_thread_id cd)) (\<lambda>thread.
       act_bind (act_call (dk_set_post_flags (co_sink co) thread
         \<lparr>pf_archived = archived, pf_locked = locked, pf_auto_archive_minutes = minutes\<rparr>)) (\<lambda>r.
       act_bind (or_fail r) (\<lambda>_. act_ret (no_applied\<lparr>ae_archived := Some archived\<rparr>)))))"

definition disable_components :: "'w collaborators \<Rightarrow> notification_id \<Rightarrow> ('w, applied_effect) act" where
  "disable_components co i = act_bind (fetch_message i) (\<lambda>ref.
     act_bind (act_call (reopening (co_sink co) (mr_channel ref) (dk_disable_components (co_sink co) ref))) reopened_effect)"

definition escalation_text :: "notification \<Rightarrow> string" where
  "escalation_text cd = ''Still firing and unacknowledged since <t:'' @ show_int (timestamp (n_created_at cd)) @ '':R>.''"

definition escalate_card ::
  "'w collaborators \<Rightarrow> notification_id \<Rightarrow> role_id list \<Rightarrow> user_id list \<Rightarrow> ('w, applied_effect) act" where
  "escalate_card co i roles users = act_bind (fetch_card i) (\<lambda>cd.
     if n_state cd \<noteq> Firing then act_fail (Drop ''the card was answered before its escalation ran'')
     else act_bind (act_call (reopening (co_sink co) (card_channel cd) (dk_post_escalation (co_sink co) (card_channel cd)
         (map RoleMention roles @ map UserMention users) (escalation_text cd)))) reopened_effect)"

definition create_silence :: "'w collaborators \<Rightarrow> silence_effect \<Rightarrow> ('w, applied_effect) act" where
  "create_silence co rq = (case parse_matchers (co_regex co) (sf_matchers rq) of
     Inl e \<Rightarrow> act_fail (Drop (''the silence'' @ [CHR 0x27] @ ''s matchers no longer parse: '' @ core_error_str e))
   | Inr ms \<Rightarrow> (\<lambda>s. case am_upsert_silence (co_am co) \<lparr>sq_id = sf_am_id rq, sq_matchers = ms, sq_starts_at = sf_starts_at rq,
         sq_ends_at = sf_ends_at rq, sq_created_by = sf_created_by rq, sq_comment = sf_comment rq\<rparr> (wk_world s) of
       (Inl e, w) \<Rightarrow> (Inl (from_am e), s\<lparr>wk_world := w\<rparr>)
     | (Inr am_id, w) \<Rightarrow> (Inr (no_applied\<lparr>ae_am_silence_id := Some am_id\<rparr>), s\<lparr>wk_world := w\<rparr>)))"

definition expire_silence :: "'w collaborators \<Rightarrow> string \<Rightarrow> ('w, applied_effect) act" where
  "expire_silence co am_id = (\<lambda>s. case am_expire_silence (co_am co) am_id (wk_world s) of
     (Inl e, w) \<Rightarrow> (Inl (from_am e), s\<lparr>wk_world := w\<rparr>)
   | (Inr _, w) \<Rightarrow> (Inr no_applied, s\<lparr>wk_world := w\<rparr>))"

definition admin_notice :: "'w collaborators \<Rightarrow> channel_id \<Rightarrow> string \<Rightarrow> ('w, applied_effect) act" where
  "admin_notice co channel txt = act_bind (act_call (dk_post_thread_note (co_sink co) channel txt)) (\<lambda>r.
     act_bind (or_fail r) (\<lambda>_. act_ret no_applied))"

section \<open>One item\<close>

fun apply_effect :: "'w collaborators \<Rightarrow> clock \<Rightarrow> effect \<Rightarrow> ('w, applied_effect) act" where
  "apply_effect co k (PostCard i mention) = post co i mention k"
| "apply_effect co k (EditCard i) = edit co i k"
| "apply_effect co k (ResyncCard i) = resync co i k"
| "apply_effect co k (OpenThread i name) = open_thread co i name"
| "apply_effect co k (ThreadNote i txt) = thread_note co i txt"
| "apply_effect co k (SetTags i _) = retag co i k"
| "apply_effect co k (SetFlags i archived locked minutes planned) = set_flags co i archived locked minutes planned"
| "apply_effect co k (SetPinned i pinned) = set_pin co i pinned"
| "apply_effect co k (DisableComponents i) = disable_components co i"
| "apply_effect co k (Escalate i roles users) = escalate_card co i roles users"
| "apply_effect co k (AdminNotice channel txt) = admin_notice co channel txt"
| "apply_effect co k (CreateSilence rq) = create_silence co rq"
| "apply_effect co k (ExpireSilence am_id) = expire_silence co am_id"

definition route_health_text :: "string \<Rightarrow> string \<Rightarrow> string" where
  "route_health_text name reason = ''Route '' @ quoted name @ '' is not delivering: '' @ reason @
     ''. Cards for it are being dropped until this is fixed.''"

definition report_route_health :: "'w collaborators \<Rightarrow> clock \<Rightarrow> outbox_item \<Rightarrow> string \<Rightarrow> 'w worker \<Rightarrow> 'w worker" where
  "report_route_health co k item reason s =
     (case Option.bind (effect_notification (ob_effect item)) (\<lambda>i. notification_by_id i (wk_db s)) of
        None \<Rightarrow> s
      | Some cd \<Rightarrow>
          let name = (case route_by_id (wk_routing s) (n_route_id cd) of
                Some route \<Rightarrow> rt_name route | None \<Rightarrow> show_int (n_route_id cd))
          in s\<lparr>wk_pl := say_once (co_config co) (''route-health:'' @ show_int (n_route_id cd))
               (route_health_text name reason) (k 8) (k 9) (wk_pl s)\<rparr>)"

definition settle_failed :: "'w collaborators \<Rightarrow> outbox_item \<Rightarrow> string \<Rightarrow> time option \<Rightarrow> 'w worker \<Rightarrow> 'w worker" where
  "settle_failed co item reason retry s = with_db (snd (fail_outbox (co_worker co) (ob_id item) reason retry (wk_db s))) s"

definition retry_at :: "outbox_item \<Rightarrow> int \<Rightarrow> time \<Rightarrow> time" where
  "retry_at item after now = now + seconds (max after (backoff_secs (ob_attempts item)))"

definition settle :: "'w collaborators \<Rightarrow> clock \<Rightarrow> outbox_item \<Rightarrow> failure + applied_effect \<Rightarrow> 'w worker \<Rightarrow> 'w worker" where
  "settle co k item outcome s = (case outcome of
     Inr applied \<Rightarrow> with_db (snd (complete_outbox (co_worker co) (ob_id item) applied (k 7) (wk_db s))) s
   | Inl (Drop reason) \<Rightarrow> settle_failed co item reason None s
   | Inl (Blocked reason) \<Rightarrow> settle_failed co item reason None (report_route_health co k item reason s)
   | Inl (Retry detail after) \<Rightarrow>
       if MAX_ATTEMPTS \<le> ob_attempts item
       then settle_failed co item detail None (report_route_health co k item detail s)
       else settle_failed co item detail (Some (retry_at item after (k 7))) s)"

definition handle :: "'w collaborators \<Rightarrow> clock \<Rightarrow> outbox_item \<Rightarrow> 'w worker \<Rightarrow> 'w worker" where
  "handle co k item s = (let (outcome, s') = apply_effect co k (ob_effect item) s in settle co k item outcome s')"

section \<open>The loop\<close>

text \<open>
  One turn of a worker's loop: it claims a batch and handles every item of it, also when shutdown is asked for on the
  way. A turn that finds nothing waits and changes nothing. The instants of the \<open>n\<close>th item are \<open>ks n\<close>.
\<close>

fun handle_all :: "'w collaborators \<Rightarrow> (nat \<Rightarrow> clock) \<Rightarrow> outbox_item list \<Rightarrow> 'w worker \<Rightarrow> 'w worker" where
  "handle_all co ks [] s = s"
| "handle_all co ks (item # items) s = handle_all co (\<lambda>n. ks (Suc n)) items (handle co (ks 0) item s)"

definition work_request :: "'w collaborators \<Rightarrow> claim_request" where
  "work_request co = \<lparr>cr_lane = co_lane co, cr_lease_secs = co_lease_secs co, cr_limit = co_batch co\<rparr>"

definition turn :: "'w collaborators \<Rightarrow> time \<Rightarrow> (nat \<Rightarrow> clock) \<Rightarrow> 'w worker \<Rightarrow> 'w worker" where
  "turn co now ks s = (case claim_outbox (co_worker co) (work_request co) now (wk_db s) of
     (Inl _, db) \<Rightarrow> with_db db s
   | (Inr items, db) \<Rightarrow> handle_all co ks items (with_db db s))"

end
