(* ===== verification/Dispatch_Facts.thy ===== *)
theory Dispatch_Facts
  imports Runtime_Dispatch Routing_Facts Service_Facts
begin

text \<open>
  What a worker does to the state it shares. A relation between states that the primitive steps of an effect satisfy is
  satisfied by every effect (the locale \<open>worker_relation\<close>, interpreted on four relations); from them: an effect
  leaves the queue alone, keeps the routing tables' invariant, and changes the store only by releasing deleted cards.
\<close>

section \<open>Relations every effect satisfies\<close>

locale worker_relation = step_relation R for R :: "'w worker \<Rightarrow> 'w worker \<Rightarrow> bool" +
  assumes world: "R s (s\<lparr>wk_world := w\<rparr>)"
    and failures: "R s (s\<lparr>wk_failed := f\<rparr>)"
    and released: "R s (with_db (snd (orphan_notification i now (wk_db s))) s)"
    and adopted: "R s (snd (adopt_forum_tags co channel tags now s))"
begin

lemma follows_or_fail: "follows (or_fail r)"
  by (simp add: or_fail_def follows_ret follows_fail split: sum.split)

lemma follows_call: "follows (act_call c)"
  by (rule followsI) (simp add: act_call_def world split: prod.split)

lemma follows_drawn: "follows (drawn co i mention now)"
  by (rule follows_read) (simp add: drawn_def some_or_def split: option.split)

lemma follows_fetch: "follows (fetch_card i)"
  by (rule follows_read) (simp add: fetch_card_def some_or_def split: option.split)

lemma follows_release: "follows (release i now)"
  by (rule followsI) (simp add: release_def released)

lemma updated: "R s (s\<lparr>wk_world := w, wk_failed := f\<rparr>)"
  using rel_trans [OF world failures] by blast

lemma adopted_from:
  "adopt_forum_tags co channel tags now (s\<lparr>wk_world := w\<rparr>) = (b, t) \<Longrightarrow> R s t"
  "adopt_forum_tags co channel tags now (s\<lparr>wk_world := w, wk_failed := f\<rparr>) = (b, t) \<Longrightarrow> R s t"
  using rel_trans [OF world adopted] rel_trans [OF updated adopted] by (metis snd_conv)+

lemma follows_resync: "follows (lift_flag (resync_forum_tags co target now))"
  by (rule followsI) (auto simp: lift_flag_def resync_forum_tags_def rel_refl world split: prod.split sum.split route_target.split
      intro: adopted_from)

lemma follows_create: "follows (lift_flag (create_label_tags co a instant now))"
  by (rule followsI) (auto simp: lift_flag_def create_label_tags_def Let_def rel_refl failures updated
      split: prod.split sum.split route_target.split intro: adopted_from)

lemmas follows_rules = follows_ret follows_fail follows_some_or follows_or_fail follows_call follows_drawn follows_fetch
  follows_release follows_resync follows_create

lemma follows_try_pin: "follows (try_pin co cd thread pinned)"
proof (rule followsI)
  fix s
  have "follows (act_bind (act_call (dk_set_post_pinned (co_sink co) thread pinned))
      (\<lambda>r. act_ret (case r of Inl _ \<Rightarrow> None | Inr _ \<Rightarrow> Some pinned)))"
    by (intro follows_bind follows_rules)
  from followsD [OF this, of s] show "R s (snd (try_pin co cd thread pinned s))"
    by (simp add: try_pin_def rel_refl del: act_simps)
qed

lemma follows_publish: "follows (publish_twice co i mention k a)"
  unfolding publish_twice_def by (intro follows_bind follows_rules follows_if)

lemma follows_post: "follows (post co i mention k)"
  unfolding post_def
  by (intro follows_bind follows_rules follows_if follows_publish)
    (auto intro!: follows_bind follows_rules follows_if follows_try_pin split: option.split prod.split)

lemma follows_redraw: "follows (redraw co i k a m)"
  unfolding redraw_def Let_def
  by (intro follows_bind follows_rules) (auto intro!: follows_bind follows_rules split: sum.split sink_error.split)

lemma follows_edit: "follows (edit co i k)"
  unfolding edit_def Let_def by (intro follows_bind follows_rules follows_if follows_redraw)

lemma follows_resync_card: "follows (resync co i k)"
  unfolding resync_def Let_def
  by (intro follows_bind follows_rules follows_redraw)
    (auto intro!: follows_bind follows_rules split: option.split prod.split)

lemma follows_apply_tags: "follows (apply_tags co a thread)"
  unfolding apply_tags_def Let_def by (intro follows_bind follows_rules follows_if)

lemma follows_retag: "follows (retag co i k)"
  unfolding retag_def wanted_tags_def
  by (intro follows_bind follows_rules follows_if follows_apply_tags)

lemma follows_reopened: "follows (reopened_effect r)"
  unfolding reopened_effect_def by (intro follows_bind follows_rules) (auto intro: follows_rules split: prod.split)

lemma follows_silence: "follows (create_silence co rq)" "follows (expire_silence co am_id)"
  by (auto intro!: followsI simp: create_silence_def expire_silence_def rel_refl world split: sum.split prod.split)

theorem apply_effect_follows: "follows (apply_effect co k e)"
proof (cases e)
  case (SetFlags i archived locked minutes planned)
  show ?thesis unfolding SetFlags apply_effect.simps set_flags_def by (intro follows_bind follows_rules follows_if)
next
  case (Escalate i roles users)
  show ?thesis unfolding Escalate apply_effect.simps escalate_card_def
    by (intro follows_bind follows_rules follows_if follows_reopened)
qed (auto simp only: apply_effect.simps open_thread_def thread_note_def set_pin_def disable_components_def admin_notice_def
    fetch_message_def fetch_thread_def
    intro!: follows_post follows_edit follows_resync_card follows_retag follows_silence
      follows_bind follows_rules follows_reopened follows_try_pin)

end

section \<open>The queue, the tables, the process\<close>

lemma with_db_simps [simp]:
  "wk_db (with_db db s) = db" "wk_tables (with_db db s) = wk_tables s" "wk_routing (with_db db s) = wk_routing s"
  "wk_failed (with_db db s) = wk_failed s" "wk_world (with_db db s) = wk_world s"
  "wk_pl (with_db db s) = (wk_pl s)\<lparr>pl_db := db\<rparr>" "with_db (wk_db s) s = s"
  by (simp_all add: with_db_def)

lemma orphan_outbox [simp]: "db_outbox (snd (orphan_notification i now db)) = db_outbox db"
  by (auto simp: orphan_notification_def run_tx_def split: sum.split prod.split dest!: update_cardD)

lemma adopt_pl [simp]: "wk_pl (snd (adopt_forum_tags co channel tags now s)) = wk_pl s"
  by (auto simp: adopt_forum_tags_def split: sum.split prod.split)

interpretation queue_kept: worker_relation "\<lambda>s t. db_outbox (wk_db t) = db_outbox (wk_db s)"
  by unfold_locales simp_all

interpretation keys_kept: worker_relation "\<lambda>s t. routing_ok (wk_tables s) \<longrightarrow> routing_ok (wk_tables t)"
proof unfold_locales
  fix s :: "'w worker" and co :: "'w collaborators" and channel tags now
  show "routing_ok (wk_tables s) \<longrightarrow> routing_ok (wk_tables (snd (adopt_forum_tags co channel tags now s)))"
    using sync_forum_tags_ok [of "wk_tables s" channel tags]
    by (auto simp: adopt_forum_tags_def split: sum.split prod.split)
qed simp_all

lemma orphan_ids: "map n_id (db_cards (snd (orphan_notification i now db))) = map n_id (db_cards db)"
proof -
  have "map n_id (update_where (\<lambda>n. n_id n = i) (orphan_row now) (db_cards db)) = map n_id (db_cards db)"
    by (rule map_update_where) (simp add: orphan_row_def)
  then show ?thesis
    by (auto simp: orphan_notification_def run_tx_def split: sum.split prod.split dest!: update_cardD)
qed

interpretation ids_kept: worker_relation "\<lambda>s t. map n_id (db_cards (wk_db t)) = map n_id (db_cards (wk_db s))"
  by unfold_locales (simp_all add: orphan_ids)

definition pipeline_run :: "from_timestamp \<Rightarrow> service_config \<Rightarrow> pipeline \<Rightarrow> pipeline \<Rightarrow> bool" where
  "pipeline_run from_ts cf = (pipeline_step from_ts cf)\<^sup>*\<^sup>*"

lemma run_refl [simp]: "pipeline_run from_ts cf pl pl"
  by (simp add: pipeline_run_def)

lemma run_trans: "pipeline_run from_ts cf p q \<Longrightarrow> pipeline_run from_ts cf q r \<Longrightarrow> pipeline_run from_ts cf p r"
  by (simp add: pipeline_run_def)

lemma run_call_step: "call_ok c \<Longrightarrow> pipeline_run from_ts cf pl (pl\<lparr>pl_db := run_call c (pl_db pl)\<rparr>)"
  unfolding pipeline_run_def by (rule r_into_rtranclp) (rule pipeline_step.call)

lemma run_notice_step: "pipeline_run from_ts cf pl (say_once cf key txt due at pl)"
  unfolding pipeline_run_def by (rule r_into_rtranclp) (rule pipeline_step.notice)

interpretation process: worker_relation "\<lambda>s t. pipeline_run from_ts cf (wk_pl s) (wk_pl t)"
proof unfold_locales
  fix s :: "'w worker" and i now
  show "pipeline_run from_ts cf (wk_pl s) (wk_pl (with_db (snd (orphan_notification i now (wk_db s))) s))"
    using run_call_step [of "CallOrphan i now" from_ts cf "wk_pl s"] by simp
qed (auto intro: run_trans)

lemma apply_effect_outbox: "db_outbox (wk_db (snd (apply_effect co k e s))) = db_outbox (wk_db s)"
  using queue_kept.followsD [OF queue_kept.apply_effect_follows] by blast

lemma apply_effect_runs: "pipeline_run from_ts cf (wk_pl s) (wk_pl (snd (apply_effect co k e s)))"
  using process.followsD [OF process.apply_effect_follows] by blast

lemma apply_effect_routing: "routing_ok (wk_tables s) \<Longrightarrow> routing_ok (wk_tables (snd (apply_effect co k e s)))"
  using keys_kept.followsD [OF keys_kept.apply_effect_follows] by blast

section \<open>Settling an item\<close>

lemma settle_failed_runs: "pipeline_run from_ts cf (wk_pl s) (wk_pl (settle_failed co item reason retry s))"
  using run_call_step [of "CallFail (co_worker co) (ob_id item) reason retry" from_ts cf "wk_pl s"]
  by (simp add: settle_failed_def)

lemma report_runs: "pipeline_run from_ts (co_config co) (wk_pl s) (wk_pl (report_route_health co k item reason s))"
  by (auto simp: report_route_health_def Let_def run_notice_step split: option.split)

lemma settle_runs: "pipeline_run from_ts (co_config co) (wk_pl s) (wk_pl (settle co k item outcome s))"
proof -
  have complete: "pipeline_run from_ts (co_config co) (wk_pl s)
      (wk_pl (with_db (snd (complete_outbox (co_worker co) (ob_id item) applied (k 7) (wk_db s))) s))" for applied
    using run_call_step [of "CallComplete (co_worker co) (ob_id item) applied (k 7)" from_ts "co_config co" "wk_pl s"] by simp
  show ?thesis
    using complete settle_failed_runs run_trans [OF report_runs settle_failed_runs]
    by (auto simp: settle_def split: sum.split failure.split)
qed

lemma handle_runs: "pipeline_run from_ts (co_config co) (wk_pl s) (wk_pl (handle co k item s))"
proof -
  obtain outcome t where e: "apply_effect co k (ob_effect item) s = (outcome, t)" by fastforce
  then have "pipeline_run from_ts (co_config co) (wk_pl s) (wk_pl t)"
    using apply_effect_runs [of from_ts "co_config co" s co k "ob_effect item"] by simp
  from run_trans [OF this settle_runs] show ?thesis by (simp add: handle_def e)
qed

lemma handle_all_runs: "pipeline_run from_ts (co_config co) (wk_pl s) (wk_pl (handle_all co ks items s))"
  by (induction items arbitrary: ks s) (auto intro: run_trans [OF handle_runs])

lemma turn_runs: "pipeline_run from_ts (co_config co) (wk_pl s) (wk_pl (turn co now ks s))"
proof -
  obtain r db where c: "claim_outbox (co_worker co) (work_request co) now (wk_db s) = (r, db)" by fastforce
  then have "pipeline_run from_ts (co_config co) (wk_pl s) (wk_pl (with_db db s))"
    using run_call_step [of "CallClaim (co_worker co) (work_request co) now" from_ts "co_config co" "wk_pl s"] by simp
  with c show ?thesis
    by (cases r) (auto simp: turn_def intro!: run_trans [OF _ handle_all_runs] simp del: with_db_simps(6))
qed

lemma reachable_run: "reachable from_ts cf counter storm pl \<Longrightarrow> pipeline_run from_ts cf pl pl' \<Longrightarrow> reachable from_ts cf counter storm pl'"
  by (simp add: reachable_def pipeline_run_def)

section \<open>What settling does to the queue\<close>

lemma find_by_key: "distinct (map f xs) \<Longrightarrow> x \<in> set xs \<Longrightarrow> find (\<lambda>y. f y = f x) xs = Some x"
  by (induction xs) (auto simp: image_iff)

lemma find_in_append: "find P (xs @ ys) = (case find P xs of None \<Rightarrow> find P ys | Some x \<Rightarrow> Some x)"
  by (induction xs) auto

lemma find_item:
  "outbox_ok db \<Longrightarrow> r \<in> set (db_outbox db) \<Longrightarrow> find (\<lambda>q. ob_id q = ob_id r) (db_outbox db) = Some r"
  by (rule find_by_key) (auto simp: outbox_ok_def)

lemma fail_held:
  assumes "find (\<lambda>r. ob_id r = i) (db_outbox db) = Some r" "ob_claimed_by r = Some w"
  shows "db_outbox (snd (fail_outbox w i err retry db)) = (case retry of
      None \<Rightarrow> filter (\<lambda>r. ob_id r \<noteq> i) (db_outbox db)
    | Some t \<Rightarrow> update_where (\<lambda>r. ob_id r = i)
        (\<lambda>r. r\<lparr>ob_claimed_by := None, ob_claimed_at := None, ob_not_before := t, ob_last_error := Some err\<rparr>) (db_outbox db))"
  using assms by (simp add: fail_outbox_def run_tx_def tx_bind_def take_claim_def delete_item_def split: option.split)

lemma say_outbox: "\<exists>ns. db_outbox (pl_db (say_once cf key txt due at pl)) = db_outbox (pl_db pl) @ ns"
  by (auto simp: say_once_def say_def enqueue_effects_def run_tx_def tx_bind_def enqueue_def outbox_now_def insert_item_def
      tx_ret_def split: option.split)

lemma report_outbox: "\<exists>ns. db_outbox (wk_db (report_route_health co k item reason s)) = db_outbox (wk_db s) @ ns"
  using say_outbox by (auto simp: report_route_health_def Let_def split: option.split)

text \<open>A claimed item given up leaves the queue, and nothing else does.\<close>

lemma given_up:
  assumes ok: "outbox_ok (wk_db s)" and r: "item \<in> set (db_outbox (wk_db s))" "ob_claimed_by item = Some (co_worker co)"
    and t: "\<exists>ns. db_outbox (wk_db t) = db_outbox (wk_db s) @ ns"
  shows "ob_id item \<notin> ob_id ` set (db_outbox (wk_db (settle_failed co item reason None t)))"
    "q \<in> set (db_outbox (wk_db s)) \<Longrightarrow> ob_id q \<noteq> ob_id item \<Longrightarrow>
       q \<in> set (db_outbox (wk_db (settle_failed co item reason None t)))"
proof -
  from t obtain ns where t: "db_outbox (wk_db t) = db_outbox (wk_db s) @ ns" by blast
  from find_item [OF ok r(1)] have "find (\<lambda>q. ob_id q = ob_id item) (db_outbox (wk_db t)) = Some item"
    by (simp add: t find_in_append)
  from fail_held [OF this r(2)] have eq: "db_outbox (wk_db (settle_failed co item reason None t)) =
      filter (\<lambda>r. ob_id r \<noteq> ob_id item) (db_outbox (wk_db s) @ ns)" by (simp add: settle_failed_def t)
  show "ob_id item \<notin> ob_id ` set (db_outbox (wk_db (settle_failed co item reason None t)))" unfolding eq by auto
  show "q \<in> set (db_outbox (wk_db s)) \<Longrightarrow> ob_id q \<noteq> ob_id item \<Longrightarrow>
      q \<in> set (db_outbox (wk_db (settle_failed co item reason None t)))" unfolding eq by simp
qed

text \<open>A claimed item released for another attempt stays, unclaimed, and so does everything else.\<close>

lemma released_for_retry:
  assumes ok: "outbox_ok (wk_db s)" and r: "item \<in> set (db_outbox (wk_db s))" "ob_claimed_by item = Some (co_worker co)"
    and t: "db_outbox (wk_db t) = db_outbox (wk_db s)"
  shows "item\<lparr>ob_claimed_by := None, ob_claimed_at := None, ob_not_before := at, ob_last_error := Some detail\<rparr> \<in>
      set (db_outbox (wk_db (settle_failed co item detail (Some at) t)))"
    "q \<in> set (db_outbox (wk_db s)) \<Longrightarrow> ob_id q \<noteq> ob_id item \<Longrightarrow>
       q \<in> set (db_outbox (wk_db (settle_failed co item detail (Some at) t)))"
proof -
  from fail_held [of "ob_id item" "wk_db t" item "co_worker co" detail "Some at"] find_item [OF ok r(1)] t r(2)
  have eq: "db_outbox (wk_db (settle_failed co item detail (Some at) t)) = update_where (\<lambda>r. ob_id r = ob_id item)
      (\<lambda>r. r\<lparr>ob_claimed_by := None, ob_claimed_at := None, ob_not_before := at, ob_last_error := Some detail\<rparr>)
      (db_outbox (wk_db s))" by (simp add: settle_failed_def)
  show "item\<lparr>ob_claimed_by := None, ob_claimed_at := None, ob_not_before := at, ob_last_error := Some detail\<rparr> \<in>
      set (db_outbox (wk_db (settle_failed co item detail (Some at) t)))"
    unfolding eq set_update_where using r(1) by (auto intro: rev_image_eqI)
  show "q \<in> set (db_outbox (wk_db s)) \<Longrightarrow> ob_id q \<noteq> ob_id item \<Longrightarrow>
       q \<in> set (db_outbox (wk_db (settle_failed co item detail (Some at) t)))"
    unfolding eq set_update_where by (auto intro: rev_image_eqI)
qed

lemma retry_waits:
  "now + seconds wait \<le> retry_at item wait now" "now + seconds (backoff_secs (ob_attempts item)) \<le> retry_at item wait now"
  by (simp_all add: retry_at_def seconds_def)

text \<open>A completion the store refuses leaves the queue as it is.\<close>

lemma completed:
  assumes "complete_outbox w i applied now db = (r, db')"
  shows "case r of Inl _ \<Rightarrow> db' = db | Inr _ \<Rightarrow> db_outbox db' = filter (\<lambda>q. ob_id q \<noteq> i) (db_outbox db)"
  using assms complete_removes [of w i applied now db db']
  by (cases r) (auto simp: complete_outbox_def dest: run_tx_Inl)

section \<open>Effects whose subject has moved on\<close>

lemma find_card: "notification_by_id i db = Some cd \<Longrightarrow> n_id cd = i \<and> cd \<in> set (db_cards db)"
  by (auto simp: notification_by_id_def dest: find_SomeD)

lemma drawn_cases:
  "fst (drawn co i mention now s) = (case assemble (co_renderer co) (wk_routing s) (pl_storm (wk_pl s)) now i mention (wk_db s) of
     None \<Rightarrow> Inl NOT_DRAWN | Some a \<Rightarrow> Inr a)" "snd (drawn co i mention now s) = s"
  by (simp_all add: drawn_def some_or_def split: option.split)

lemma drawn_eq: "drawn co i mention now s = (case assemble (co_renderer co) (wk_routing s) (pl_storm (wk_pl s)) now i mention (wk_db s) of
     None \<Rightarrow> (Inl NOT_DRAWN, s) | Some a \<Rightarrow> (Inr a, s))"
  by (simp add: drawn_def some_or_def split: option.split)

lemma post_posted:
  assumes "notification_by_id i (wk_db s) = Some cd" "is_posted cd"
  shows "\<exists>reason. post co i mention k s = (Inl (Drop reason), s)"
  using assms assemble_Some(1) [of "co_renderer co" "wk_routing s" "pl_storm (wk_pl s)" "k 0" i mention "wk_db s"]
  by (auto simp: post_def act_bind_def drawn_eq NOT_DRAWN_def split: option.split)

lemma flags_stale:
  assumes "notification_by_id i (wk_db s) = Some cd" "stale_flags cd planned"
  shows "set_flags co i archived locked minutes planned s = (Inr no_applied, s)"
  using assms by (simp add: set_flags_def act_bind_def fetch_card_def some_or_def)

lemma escalation_answered:
  assumes "notification_by_id i (wk_db s) = Some cd" "n_state cd \<noteq> Firing"
  shows "\<exists>reason. escalate_card co i roles users s = (Inl (Drop reason), s)"
  using assms by (simp add: escalate_card_def act_bind_def fetch_card_def some_or_def)

lemma edit_unchanged:
  assumes "assemble (co_renderer co) (wk_routing s) (pl_storm (wk_pl s)) (k 0) i False (wk_db s) = Some a"
    "n_render_hash (as_card a) = Some (rn_hash (co_renderer co) (as_data a))" "is_posted (as_card a)"
  shows "edit co i k s = (Inr no_applied, s)"
  using assms by (auto simp: edit_def act_bind_def drawn_eq some_or_def needs_edit_def is_posted_def Let_def)


section \<open>Posting\<close>

lemma act_bind_Inr: "act_bind m g s = (Inr y, u) \<longleftrightarrow> (\<exists>x t. m s = (Inr x, t) \<and> g x t = (Inr y, u))"
  by (auto simp: act_bind_def split: prod.splits sum.splits)

lemma by_id_iff: "notification_by_id i db \<noteq> None \<longleftrightarrow> i \<in> set (map n_id (db_cards db))"
  by (auto simp: notification_by_id_def find_None_iff)

text \<open>A post that goes through has a message to report, and its card still has a row.\<close>

lemma post_reports:
  assumes "post co i mention k s = (Inr applied, t)"
  shows "ae_message_id applied \<noteq> None" "notification_by_id i (wk_db t) \<noteq> None"
proof -
  from assms show "ae_message_id applied \<noteq> None"
    by (auto simp: post_def act_bind_Inr posted_effect_def split: if_splits prod.splits)
  from assms obtain a where "drawn co i mention (k 0) s = (Inr a, s)"
    using drawn_cases(2) [of co i mention "k 0" s] by (auto simp: post_def act_bind_Inr)
  then have "notification_by_id i (wk_db s) \<noteq> None"
    using assemble_Some(1) [of "co_renderer co" "wk_routing s" "pl_storm (wk_pl s)" "k 0" i mention "wk_db s" a]
    by (simp add: drawn_eq split: option.splits)
  moreover have "map n_id (db_cards (wk_db t)) = map n_id (db_cards (wk_db s))"
    using ids_kept.followsD [OF ids_kept.follows_post, of co i mention k s] assms by simp
  ultimately show "notification_by_id i (wk_db t) \<noteq> None" unfolding by_id_iff by simp
qed

lemma posted_row:
  assumes "notification_by_id i db \<noteq> None" "ae_message_id applied \<noteq> None"
    "db_cards db' = update_where (\<lambda>n. n_id n = i) (apply_row applied now) (db_cards db)"
  shows "\<exists>cd. notification_by_id i db' = Some cd \<and> is_posted cd"
proof -
  have ids: "map n_id (db_cards db') = map n_id (db_cards db)"
    unfolding assms(3) by (rule map_update_where) (simp add: apply_row_def)
  with assms(1) have "notification_by_id i db' \<noteq> None" unfolding by_id_iff by simp
  then obtain cd where cd: "notification_by_id i db' = Some cd" by blast
  from find_card [OF this] have "n_id cd = i" "cd \<in> set (db_cards db')" by simp_all
  then obtain n where "cd = (if n_id n = i then apply_row applied now n else n)"
    unfolding assms(3) set_update_where by blast
  with \<open>n_id cd = i\<close> have "cd = apply_row applied now n" by (metis (full_types))
  then have "is_posted cd" using assms(2) by (auto simp: is_posted_def apply_row_def coalesce_def)
  with cd show ?thesis by blast
qed

end
