(* ===== verification/Properties_Dispatch.thy ===== *)
theory Properties_Dispatch
  imports Dispatch_Facts Fixtures
begin

text \<open>
  What the workers promise: what becomes of every claimed item, that nothing is said twice or about a card that moved on,
  that a deleted card can be posted again, the waits between attempts, and the back-off of label tags. The witnesses run a
  worker whose world counts the requests it makes.
\<close>

section \<open>A counting world\<close>

definition counted :: "'a \<Rightarrow> (nat, 'a) call" where
  "counted x n = (Inr x, n + 1)"

definition counting_sink :: "nat discord_sink" where
  "counting_sink = \<lparr>dk_post_card = (\<lambda>_ _. counted (posted_plain 900)), dk_create_forum_post = (\<lambda>_ _. counted (posted_forum 900)),
     dk_edit_card = (\<lambda>_ _. counted ()), dk_open_thread = (\<lambda>_ _. counted 901), dk_post_thread_note = (\<lambda>_ _. counted ()),
     dk_post_escalation = (\<lambda>_ _ _. counted ()), dk_disable_components = (\<lambda>_. counted ()), dk_set_post_tags = (\<lambda>_ _. counted ()),
     dk_set_post_flags = (\<lambda>_ _. counted ()), dk_set_post_pinned = (\<lambda>_ _. counted ()), dk_forum_tags = (\<lambda>_. counted []),
     dk_ensure_forum_tags = (\<lambda>_ _. counted [])\<rparr>"

definition refusing_sink :: "sink_error \<Rightarrow> nat discord_sink" where
  "refusing_sink e = counting_sink\<lparr>dk_post_card := (\<lambda>_ _ n. (Inl e, n + 1)), dk_edit_card := (\<lambda>_ _ n. (Inl e, n + 1)),
     dk_ensure_forum_tags := (\<lambda>_ _ n. (Inl e, n + 1))\<rparr>"

definition plain_renderer :: renderer where
  "plain_renderer = \<lparr>rn_hash = (\<lambda>d. state_str (cd_state d)), rn_name = (\<lambda>_. ''card''), rn_forum_title = (\<lambda>_ t. t)\<rparr>"

definition plain_service :: service_config where
  "plain_service = \<lparr>cf_settings = default_settings, cf_regroup = seconds 1800, cf_persist_events = True, cf_admin = Some 3,
     cf_lease = seconds 30, cf_deadman = seconds 600\<rparr>"

definition counting_am :: "nat alertmanager" where
  "counting_am = \<lparr>am_list_alerts = (\<lambda>_ n. (Inr [], n + 1)), am_list_silences = (\<lambda>_ n. (Inr [], n + 1)),
     am_upsert_silence = (\<lambda>_ n. (Inr ''s'', n + 1)), am_expire_silence = (\<lambda>_ n. (Inr (), n + 1)),
     am_server_status = (\<lambda>n. (Inl (AmTimeout 10), n + 1)), am_receivers = (\<lambda>n. (Inr [], n + 1))\<rparr>"

definition worker_of :: "nat discord_sink \<Rightarrow> nat collaborators" where
  "worker_of sk = \<lparr>co_sink = sk, co_am = counting_am,
     co_renderer = plain_renderer, co_config = plain_service, co_regex = literal_regex, co_worker = ''w1'', co_lane = None,
     co_lease_secs = 30, co_batch = 8\<rparr>"

definition idle_worker :: "db \<Rightarrow> routing_snapshot \<Rightarrow> nat worker" where
  "idle_worker db sn = \<lparr>wk_pl = start_pipeline db (new_counter 10 10 (seconds 60)) quiet, wk_tables = no_routing,
     wk_routing = sn, wk_failed = (\<lambda>_. None), wk_world = 0\<rparr>"

lemma idle_worker_simps [simp]:
  "wk_world (idle_worker db sn) = 0" "wk_db (idle_worker db sn) = db" "wk_routing (idle_worker db sn) = sn"
  by (simp_all add: idle_worker_def start_pipeline_def)

text \<open>A database holding one card, in a state, posted or not, and one item about it that the worker holds.\<close>

definition card_in :: "notification_state \<Rightarrow> message_id option \<Rightarrow> notification" where
  "card_in st m = disk_card\<lparr>n_state := st, n_message_id := m\<rparr>"

definition held_item :: "effect \<Rightarrow> nat \<Rightarrow> outbox_item" where
  "held_item e attempts = \<lparr>ob_id = 1, ob_lane = key_lane (per_alert fp_a) OUTBOX_LANES, ob_effect = e,
     ob_dedupe_key = per_alert fp_a, ob_not_before = 0, ob_attempts = attempts, ob_claimed_by = Some ''w1'',
     ob_claimed_at = Some 0, ob_last_error = None, ob_created_at = 0\<rparr>"

definition desk :: "notification \<Rightarrow> outbox_item \<Rightarrow> db" where
  "desk cd item = empty_db\<lparr>db_cards := [cd], db_next_card := 2, db_outbox := [item], db_next_item := 2\<rparr>"


section \<open>What becomes of a claimed item\<close>




section \<open>Nothing is said twice, or about a card that moved on\<close>



text \<open>
  C18: A card is posted once: after a worker has posted it and the store recorded what Discord answered, no redelivered
  post of that card, by any worker, under any routing or whatever Discord would answer, makes another request.
\<close>

theorem posted_once:
  assumes ok: "outbox_ok (wk_db s)" and item: "item \<in> set (db_outbox (wk_db s))" "ob_effect item = PostCard i mention"
    and run: "apply_effect co k (PostCard i mention) s = (Inr applied, t)"
    and recorded: "fst (complete_outbox (co_worker co) (ob_id item) applied (k 7) (wk_db t)) = Inr ()"
    and later: "wk_db u = wk_db (handle co k item s)"
  shows "\<exists>reason. apply_effect co' k' (PostCard i mention') u = (Inl (Drop reason), u)"
proof -
  obtain db' where c: "complete_outbox (co_worker co) (ob_id item) applied (k 7) (wk_db t) = (Inr (), db')"
    using recorded by (metis prod.collapse)
  have u: "wk_db u = db'" using later run item(2) c by (simp add: handle_def settle_def)
  have same: "db_outbox (wk_db t) = db_outbox (wk_db s)"
    using apply_effect_outbox [of co k "PostCard i mention" s] run by simp
  from find_item [OF ok item(1)] complete_effect [OF c] same item(2)
  have cards: "db_cards db' = update_where (\<lambda>n. n_id n = i) (apply_row applied (k 7)) (db_cards (wk_db t))" by auto
  from run have "post co i mention k s = (Inr applied, t)" by simp
  from posted_row [OF post_reports(2) [OF this] post_reports(1) [OF this] cards] u
  obtain cd where "notification_by_id i (wk_db u) = Some cd" "is_posted cd" by auto
  from post_posted [OF this] show ?thesis by simp
qed

definition full_desk :: "notification \<Rightarrow> outbox_item \<Rightarrow> db" where
  "full_desk cd item = (desk cd item)\<lparr>db_alerts := [\<lparr>ar_alert = disk_alert, ar_labels_hash = labels_hash disk_labels,
     ar_first_seen_at = 0, ar_last_seen_at = 0, ar_resolved_at = None, ar_flap_count = 0, ar_updated_at = 0\<rparr>]\<rparr>"

lemma full_desk_ok: "outbox_ok (full_desk cd (held_item e n))" "held_item e n \<in> set (db_outbox (full_desk cd (held_item e n)))"
  by (simp_all add: full_desk_def outbox_ok_def item_ok_def desk_def held_item_def)

lemma desk_assembles:
  "\<exists>a. assemble rn text_snapshot storm now 1 mention (full_desk (card_in st m) item) = Some a \<and> as_card a = card_in st m \<and>
     tt_target (as_target a) = text_target"
  by (simp add: assemble_def full_desk_def desk_def notification_by_id_def card_in_def text_snapshot_def new_snapshot_def
      route_by_id_def disk_card_def new_row_def read_alert_def Let_def assemble_target_def)

lemma text_post:
  assumes "assemble (co_renderer co) (wk_routing s) (pl_storm (wk_pl s)) (k 0) i mention (wk_db s) = Some a"
    "\<not> is_posted (as_card a)" "tt_target (as_target a) = text_target" "co_sink co = counting_sink"
  shows "post co i mention k s = (Inr (posted_effect co a (posted_plain 900) None), s\<lparr>wk_world := Suc (wk_world s)\<rparr>)"
  using assms by (simp add: post_def act_bind_def drawn_eq lift_flag_def create_label_tags_def text_target_def
      publish_twice_def act_call_def publish_def counting_sink_def counted_def posted_plain_def or_fail_def)

lemma desk_completes:
  "fst (complete_outbox ''w1'' 1 applied now (full_desk (card_in st None) (held_item (PostCard 1 mention) n))) = Inr ()"
  by (simp add: complete_outbox_def run_tx_def tx_bind_def take_claim_def full_desk_def desk_def held_item_def empty_db_def
      apply_to_card_def update_card_def affected_def card_in_def update_where_def write_cards_def keys_unique_def
      messages_unique_def List.map_filter_simps settle_silence_def tx_ret_def delete_item_def split: option.split)

theorem posted_once_witness:
  "\<exists>s reason. wk_world s = 1 \<and> apply_effect (worker_of counting_sink) (\<lambda>_. 9) (PostCard 1 False) s = (Inl (Drop reason), s)"
proof -
  let ?item = "held_item (PostCard 1 True) 1" and ?co = "worker_of counting_sink"
  let ?s = "idle_worker (full_desk (card_in Firing None) ?item) text_snapshot"
  have db: "wk_db ?s = full_desk (card_in Firing None) ?item" "wk_routing ?s = text_snapshot" "wk_world ?s = 0"
    by (simp_all add: idle_worker_def start_pipeline_def)
  obtain a where a: "assemble (co_renderer ?co) (wk_routing ?s) (pl_storm (wk_pl ?s)) 5 1 True (wk_db ?s) = Some a"
    "as_card a = card_in Firing None" "tt_target (as_target a) = text_target"
    using desk_assembles db by metis
  have run: "apply_effect ?co (\<lambda>_. 5) (PostCard 1 True) ?s =
      (Inr (posted_effect ?co a (posted_plain 900) None), ?s\<lparr>wk_world := Suc (wk_world ?s)\<rparr>)"
    using text_post [of ?co ?s "\<lambda>_. 5"] a by (simp add: worker_of_def is_posted_def card_in_def)
  have ok: "outbox_ok (wk_db ?s)" and mem: "?item \<in> set (db_outbox (wk_db ?s))" "ob_effect ?item = PostCard 1 True"
    unfolding db by (simp_all add: full_desk_ok) (simp add: held_item_def)
  have rec: "fst (complete_outbox (co_worker ?co) (ob_id ?item) (posted_effect ?co a (posted_plain 900) None) 5
      (wk_db (?s\<lparr>wk_world := Suc (wk_world ?s)\<rparr>))) = Inr ()"
  proof -
    have "wk_db (?s\<lparr>wk_world := Suc (wk_world ?s)\<rparr>) = full_desk (card_in Firing None) ?item" "co_worker ?co = ''w1''" "ob_id ?item = 1"
      using db(1) by (simp_all add: worker_of_def held_item_def)
    then show ?thesis using desk_completes by simp
  qed
  define u where "u = handle ?co (\<lambda>_. 5) ?item ?s"
  have "wk_world u = 1" unfolding u_def handle_def mem(2) run by (simp add: settle_def db(3))
  with posted_once [OF ok mem run rec, of u ?co "\<lambda>_. 9" False] show ?thesis by (auto simp: u_def)
qed

section \<open>Deleted cards\<close>

text \<open>
  C19: A card somebody deleted does not stay lost: when Discord answers an edit, or a repair, with an unknown message, the
  row is released, so no card holds its channel and key any more and the next change to its alert posts a fresh one; the
  item itself leaves the queue instead of being retried.
\<close>

theorem deleted_card_is_released:
  assumes ok: "cards_ok (wk_db s)" and drawn: "assemble (co_renderer co) (wk_routing s) (pl_storm (wk_pl s)) (k 0) i False (wk_db s) = Some a"
    and card: "n_message_id (as_card a) = Some m" "key_retirement (n_dedupe_key (as_card a)) = None"
    and gone: "fst (reopening (co_sink co) (card_channel (as_card a))
      (dk_edit_card (co_sink co) \<lparr>mr_channel = card_channel (as_card a), mr_message = m\<rparr> (as_data a)) (wk_world s)) = Inl UnknownMessage"
    and changed: "n_render_hash (as_card a) \<noteq> Some (rn_hash (co_renderer co) (as_data a))"
    and e: "e \<in> {EditCard i, ResyncCard i}"
  shows "\<exists>reason t. apply_effect co k e s = (Inl (Drop reason), t) \<and>
    notification_for (n_dedupe_key (as_card a)) (n_channel_id (as_card a)) (wk_db t) = None"
proof -
  from assemble_Some(1,2) [OF drawn] have "as_card a \<in> set (db_cards (wk_db s))" "n_id (as_card a) = i"
    using find_card by blast+
  from orphan_releases [OF ok this(1) card(2), of "k 3"] this(2)
  obtain db' where db': "orphan_notification i (k 3) (wk_db s) = (Inr (), db')"
    "notification_for (n_dedupe_key (as_card a)) (n_channel_id (as_card a)) db' = None" by auto
  obtain w where w: "reopening (co_sink co) (card_channel (as_card a))
      (dk_edit_card (co_sink co) \<lparr>mr_channel = card_channel (as_card a), mr_message = m\<rparr> (as_data a)) (wk_world s) =
      (Inl UnknownMessage, w)" using gone by (metis prod.collapse)
  have "redraw co i k a m s = (Inl (Drop ''the message was deleted''), with_db db' (s\<lparr>wk_world := w\<rparr>))"
    using db' by (simp add: redraw_def act_bind_def act_call_def w release_def)
  then show ?thesis
    using e drawn card(1) changed db'(2)
    by (auto simp: edit_def resync_def act_bind_def drawn_eq some_or_def needs_edit_def Let_def)
qed

lemma full_desk_cards_ok: "cards_ok (full_desk (card_in Firing (Some 900)) item)"
  by (simp add: cards_ok_def full_desk_def desk_def card_in_def card_ok_def keys_unique_def messages_unique_def
      List.map_filter_simps acks_ok_def empty_db_def live_key_owned)

theorem deleted_card_is_released_witness:
  "\<exists>reason t. apply_effect (worker_of (refusing_sink UnknownMessage)) (\<lambda>_. 5) (EditCard 1)
     (idle_worker (full_desk (card_in Firing (Some 900)) (held_item (EditCard 1) 1)) text_snapshot) = (Inl (Drop reason), t) \<and>
   notification_for (per_alert fp_a) 7 (wk_db t) = None"
proof -
  let ?co = "worker_of (refusing_sink UnknownMessage)"
  let ?s = "idle_worker (full_desk (card_in Firing (Some 900)) (held_item (EditCard 1) 1)) text_snapshot"
  have db: "wk_db ?s = full_desk (card_in Firing (Some 900)) (held_item (EditCard 1) 1)" "wk_routing ?s = text_snapshot"
    by (simp_all add: idle_worker_def start_pipeline_def)
  obtain a where a: "assemble (co_renderer ?co) (wk_routing ?s) (pl_storm (wk_pl ?s)) 5 1 False (wk_db ?s) = Some a"
    "as_card a = card_in Firing (Some 900)"
    using desk_assembles db by metis
  have gone: "fst (reopening (co_sink ?co) c (dk_edit_card (co_sink ?co) r d) w) = Inl UnknownMessage" for c r d w
    by (simp add: reopening_def worker_of_def refusing_sink_def)
  have ok: "cards_ok (wk_db ?s)" unfolding db by (rule full_desk_cards_ok)
  from deleted_card_is_released [where k = "\<lambda>_. 5", OF ok a(1) _ _ gone, of 900 "EditCard 1"] a(2)
  show ?thesis by (simp add: card_in_def disk_card_def new_row_def)
qed

section \<open>Waiting\<close>

lemma backoff_bounds: "1 \<le> backoff_secs n" "backoff_secs n \<le> MAX_BACKOFF_SECS"
  by (simp_all add: backoff_secs_def MAX_BACKOFF_SECS_def)

text \<open>
  The waits between attempts: one more attempt never shortens the wait, which is at least a second and at most five
  minutes unless Discord names a longer one; a rate limit's own delay is kept to within the second the code rounds it
  down by.
\<close>

theorem retry_schedule:
  assumes "n \<le> n'"
  shows "backoff_secs n \<le> backoff_secs n' \<and> 1 \<le> backoff_secs n \<and> backoff_secs n' \<le> MAX_BACKOFF_SECS \<and>
    (\<exists>detail wait. from_sink (RateLimited ms) = Retry detail wait \<and> 1 \<le> wait \<and>
       int ms - 1000 < 1000 * wait \<and> wait \<le> max 1 (int ms div 1000))"
proof -
  have "(2::int) ^ min n 20 \<le> 2 ^ min n' 20" using assms by (intro power_increasing) auto
  then have mono: "backoff_secs n \<le> backoff_secs n'" unfolding backoff_secs_def by (rule min.mono) simp
  have "ms mod 1000 < 1000" "ms = 1000 * (ms div 1000) + ms mod 1000" by simp_all
  then have near: "int ms - 1000 < 1000 * int (ms div 1000)" by linarith
  have "from_sink (RateLimited ms) = Retry (sink_error_str (RateLimited ms)) (max (int (ms div 1000)) 1)"
    by (simp add: from_sink_def Let_def)
  moreover have "int ms - 1000 < 1000 * max (int (ms div 1000)) 1" using near by linarith
  moreover have "max (int (ms div 1000)) 1 \<le> max 1 (int ms div 1000)" by (simp add: zdiv_int)
  ultimately show ?thesis using mono backoff_bounds by (metis max.cobounded2)
qed

theorem retry_schedule_witness:
  "backoff_secs 3 \<le> backoff_secs 9 \<and> from_sink (RateLimited 2500) = Retry (sink_error_str (RateLimited 2500)) 2"
  using retry_schedule [of 3 9 2500] by (simp add: from_sink_def)

text \<open>
  A forum that refuses a label tag is not asked for it again for ten minutes: the tags a worker was refused are in no
  request it makes for that forum within the window, whichever card and policy ask.
\<close>

lemma record_failures_at: "sp \<in> set specs \<Longrightarrow> record_failures channel specs now failed (channel, ts_name sp) = Some now"
proof -
  have keep: "f (channel, name) = Some now \<Longrightarrow> record_failures channel qs now f (channel, name) = Some now" for name f qs
    by (induction qs arbitrary: f) (auto simp: record_failures_def)
  show "sp \<in> set specs \<Longrightarrow> record_failures channel specs now failed (channel, ts_name sp) = Some now"
  proof (induction specs arbitrary: failed)
    case (Cons q specs)
    then show ?case using keep by (auto simp: record_failures_def)
  qed simp
qed

theorem refused_tags_back_off:
  assumes target: "tt_target (as_target a) = ForumTarget channel policy" "ls = al_labels (cd_alert (as_data a))"
    and refused: "dk_ensure_forum_tags (co_sink co) channel (tags_to_create channel policy ls t s) (wk_world s) = (Inl e, w)"
      "create_label_tags co a t now s = (created, s1)"
    and window: "t \<le> t'" "t' - t < TAG_RETRY_AFTER" and managed: "fp_manage_tags policy"
  shows "\<not> created \<and>
    ts_name ` set (tags_to_create channel policy ls t s) \<inter> ts_name ` set (tags_to_create channel policy' ls' t' s1) = {}"
proof (cases "tags_to_create channel policy ls t s = []")
  case True
  then show ?thesis using target refused managed by (simp add: create_label_tags_def Let_def)
next
  case False
  then have s1: "\<not> created" "wk_failed s1 =
      record_failures channel (tags_to_create channel policy ls t s) t (live_failures t (wk_failed s))"
    using target refused managed by (auto simp: create_label_tags_def Let_def)
  have "live_failures t' (wk_failed s1) (channel, ts_name sp) = Some t" if "sp \<in> set (tags_to_create channel policy ls t s)" for sp
    using record_failures_at [OF that] window by (simp add: s1(2) live_failures_def)
  then have "ts_name sp \<noteq> ts_name sq" if "sp \<in> set (tags_to_create channel policy ls t s)"
      "sq \<in> set (tags_to_create channel policy' ls' t' s1)" for sp sq
    using that by (fastforce simp: tags_to_create_def [of channel policy'] retain_due_def)
  with s1(1) show ?thesis by blast
qed

definition team_policy :: forum_policy where
  "team_policy = post_policy\<lparr>fp_manage_tags := True, fp_label_tags := [''alertname'']\<rparr>"

theorem refused_tags_back_off_witness:
  "\<exists>s. wk_world s = (1 :: nat) \<and> ''Disk'' \<notin> ts_name ` set (tags_to_create 8 team_policy disk_labels (seconds 300) s)"
proof -
  let ?co = "worker_of (refusing_sink TagBudgetExceeded)" and ?s = "idle_worker empty_db text_snapshot"
  define a where "a = \<lparr>as_target = \<lparr>tt_guild = 10, tt_target = ForumTarget 8 team_policy, tt_title = [], tt_tags = []\<rparr>,
    as_data = assemble_data text_snapshot quiet empty_db 0 disk_card text_route
      \<lparr>ar_alert = disk_alert, ar_labels_hash = labels_hash disk_labels, ar_first_seen_at = 0, ar_last_seen_at = 0,
       ar_resolved_at = None, ar_flap_count = 0, ar_updated_at = 0\<rparr> False, as_card = disk_card\<rparr>"
  have names: "label_tag_names team_policy disk_labels = [''Disk'']" by code_simp
  have want: "tags_to_create 8 team_policy disk_labels 0 ?s = [\<lparr>ts_name = ''Disk'', ts_moderated = False\<rparr>]"
    by (simp add: tags_to_create_def missing_label_tags_def names retain_due_def live_failures_def idle_worker_def
        text_snapshot_def new_snapshot_def tag_id_def)
  have target: "tt_target (as_target a) = ForumTarget 8 team_policy" "disk_labels = al_labels (cd_alert (as_data a))"
    by (simp_all add: a_def assemble_data_def Let_def)
  have refused: "dk_ensure_forum_tags (co_sink ?co) 8 (tags_to_create 8 team_policy disk_labels 0 ?s) (wk_world ?s) =
      (Inl TagBudgetExceeded, 1)" by (simp add: worker_of_def refusing_sink_def)
  obtain created s1 where run: "create_label_tags ?co a 0 0 ?s = (created, s1)" by fastforce
  have managed: "fp_manage_tags team_policy" by (simp add: team_policy_def)
  from run have "wk_world s1 = 1"
    unfolding create_label_tags_def target(1) target(2) [symmetric] Let_def
    using refused managed by (auto simp: want)
  moreover from refused_tags_back_off [OF target refused run _ _ managed, of "seconds 300" team_policy disk_labels]
  have "''Disk'' \<notin> ts_name ` set (tags_to_create 8 team_policy disk_labels (seconds 300) s1)"
    by (auto simp: want TAG_RETRY_AFTER_def seconds_def)
  ultimately show ?thesis by blast
qed

section \<open>The worker in the running process\<close>



end
