(* ===== verification/Discord_Text.thy ===== *)
theory Discord_Text
  imports Store_Types
begin

text \<open>
  Text the Discord crate works with: the operations of \<open>str\<close> it uses beyond \<open>Strings\<close>, the characters outside ASCII its
  answers contain (as UTF-8 bytes), and the parts of a message it builds (\<open>serenity\<close>'s builders, as records of
  what they were given).
\<close>

section \<open>Splitting and numbers\<close>

text \<open>\<open>str::splitn\<close> on one character: at most \<open>n\<close> parts, the last one unsplit.\<close>

fun splitn :: "nat \<Rightarrow> char \<Rightarrow> string \<Rightarrow> string list" where
  "splitn 0 d s = []"
| "splitn (Suc n) d s = (if n = 0 then [s] else case split_once d s of None \<Rightarrow> [s] | Some (a, b) \<Rightarrow> a # splitn n d b)"

lemma split_once_None [simp]: "d \<notin> set s \<Longrightarrow> split_once d s = None"
  by (induction s) auto

text \<open>\<open>u32::from_str\<close> and \<open>u64::from_str\<close>: an optional plus sign, at least one digit, a value in range.\<close>

definition parse_unsigned :: "nat \<Rightarrow> string \<Rightarrow> nat option" where
  "parse_unsigned bound s = (case parse_nat (case s of c # cs \<Rightarrow> if c = CHR ''+'' then cs else s | [] \<Rightarrow> []) of
     None \<Rightarrow> None | Some n \<Rightarrow> if n < bound then Some n else None)"

definition parse_u32 :: "string \<Rightarrow> nat option" where "parse_u32 = parse_unsigned (u32_max + 1)"

definition parse_u64 :: "string \<Rightarrow> 64 word option" where
  "parse_u64 s = map_option of_nat (parse_unsigned (2 ^ 64) s)"

lemma parse_unsigned_show_nat: "n < bound \<Longrightarrow> parse_unsigned bound (show_nat n) = Some n"
proof -
  assume n: "n < bound"
  obtain c cs where c: "show_nat n = c # cs" by (cases "show_nat n") auto
  then have "is_digit c" using show_nat_digits [of c n] by simp
  then have "c \<noteq> CHR ''+''" by auto
  moreover have "parse_nat (c # cs) = Some n" using parse_nat_show_nat [of n] c by simp
  ultimately show ?thesis using n c by (simp add: parse_unsigned_def)
qed

lemma show_nat_notin: "\<not> is_digit c \<Longrightarrow> c \<notin> set (show_nat n)"
  using show_nat_digits by blast

definition contains :: "string \<Rightarrow> string \<Rightarrow> bool" where
  "contains p s \<longleftrightarrow> find_sub p s \<noteq> None"

definition eq_ignore_ascii_case :: "string \<Rightarrow> string \<Rightarrow> bool" where
  "eq_ignore_ascii_case a b \<longleftrightarrow> ascii_lower a = ascii_lower b"

text \<open>\<open>str::to_uppercase\<close> of an ASCII word.\<close>

definition ascii_upper :: "string \<Rightarrow> string" where
  "ascii_upper = map (\<lambda>c. let n = (of_char c :: nat) in if 97 \<le> n \<and> n \<le> 122 then char_of (n - 32) else c)"

section \<open>Characters\<close>

definition NEWLINE :: string where "NEWLINE = [CHR 0x0A]"
definition EM_DASH :: string where "EM_DASH = [CHR 0xE2, CHR 0x80, CHR 0x94]"
definition EN_DASH :: string where "EN_DASH = [CHR 0xE2, CHR 0x80, CHR 0x93]"
definition ELLIPSIS :: string where "ELLIPSIS = [CHR 0xE2, CHR 0x80, CHR 0xA6]"
definition MIDDLE_DOT :: string where "MIDDLE_DOT = [CHR 0xC2, CHR 0xB7]"
definition TIMES_SIGN :: string where "TIMES_SIGN = [CHR 0xC3, CHR 0x97]"
definition ARROW :: string where "ARROW = [CHR 0xE2, CHR 0x86, CHR 0x92]"
definition APOSTROPHE :: string where "APOSTROPHE = [CHR 0x27]"

definition dot_sep :: string where "dot_sep = '' '' @ MIDDLE_DOT @ '' ''"

text \<open>\<open>str::is_char_boundary\<close>, and the largest boundary at or below an index.\<close>

definition is_char_boundary :: "string \<Rightarrow> nat \<Rightarrow> bool" where
  "is_char_boundary s n \<longleftrightarrow> n = 0 \<or> n = length s \<or> n < length s \<and> \<not> is_cont (s ! n)"

fun boundary_below :: "string \<Rightarrow> nat \<Rightarrow> nat" where
  "boundary_below s 0 = 0"
| "boundary_below s (Suc n) = (if is_char_boundary s (Suc n) then Suc n else boundary_below s n)"

lemma boundary_below_le: "boundary_below s n \<le> n" "is_char_boundary s (boundary_below s n)"
  by (induction n) (auto simp: is_char_boundary_def)

definition truncated :: "string \<Rightarrow> nat \<Rightarrow> string" where
  "truncated s limit = (if length s \<le> limit then s
     else take (boundary_below s (limit - length ELLIPSIS)) s @ ELLIPSIS)"

lemma length_truncated: "3 \<le> limit \<Longrightarrow> length (truncated s limit) \<le> limit"
  using boundary_below_le(1) [of s "limit - length ELLIPSIS"] by (auto simp: truncated_def ELLIPSIS_def)

section \<open>Messages\<close>

text \<open>A Discord relative timestamp.\<close>

definition relative :: "time \<Rightarrow> string" where
  "relative at = ''<t:'' @ show_int (timestamp at) @ '':R>''"

definition mention_user :: "user_id \<Rightarrow> string" where
  "mention_user u = ''<@'' @ show_nat (unat u) @ ''>''"

definition mention_channel :: "channel_id \<Rightarrow> string" where
  "mention_channel c = ''<#'' @ show_nat (unat c) @ ''>''"

record embed =
  em_title :: "string option"
  em_description :: "string option"
  em_colour :: "nat option"
  em_fields :: "(string \<times> string \<times> bool) list"
  em_footer :: "string option"
  em_timestamp :: "time option"

definition new_embed :: embed where
  "new_embed = \<lparr>em_title = None, em_description = None, em_colour = None, em_fields = [], em_footer = None, em_timestamp = None\<rparr>"

definition add_field :: "string \<Rightarrow> string \<Rightarrow> bool \<Rightarrow> embed \<Rightarrow> embed" where
  "add_field name content inl e = e\<lparr>em_fields := em_fields e @ [(name, content, inl)]\<rparr>"

text \<open>An interactive button (identifier, label, style, disabled), a link button (address, label), a select menu (identifier, placeholder, options).\<close>

datatype button_style = Primary | Secondary | Success

datatype button = IdButton string string button_style bool | LinkButton string string

datatype action_row =
    Buttons "button list"
  | SelectMenu string string "(string \<times> string) list"

end
