(* ===== verification/Discord_Links.thy ===== *)
theory Discord_Links
  imports Discord_Text Store_Types
begin

text \<open>
  The link buttons of a card (\<open>discord/src/links.rs\<close>) and the two filters their templates use (\<open>template.rs\<close>). The
  template engine and the URL parser are third-party: a template either compiles or does not, and rendering it against
  a context gives text or fails; a URL parses to its scheme, its host and its canonical text. Instants near the ends of
  chrono's range are not modelled.
\<close>

section \<open>Filters\<close>

definition is_ascii_alphanumeric :: "char \<Rightarrow> bool" where
  "is_ascii_alphanumeric c \<longleftrightarrow> is_digit c \<or> is_alpha c"

definition upper_hex_digit :: "nat \<Rightarrow> char" where
  "upper_hex_digit d = (if d < 10 then char_of (48 + d) else char_of (55 + d))"

definition is_unreserved :: "char \<Rightarrow> bool" where
  "is_unreserved c \<longleftrightarrow> is_ascii_alphanumeric c \<or> c \<in> {CHR ''-'', CHR ''_'', CHR ''.'', CHR ''~''}"

definition urlencode :: "string \<Rightarrow> string" where
  "urlencode s = concat (map (\<lambda>c. if is_unreserved c then [c]
     else [CHR 0x25, upper_hex_digit (of_char c div 16), upper_hex_digit (of_char c mod 16)]) s)"

definition MARKDOWN :: "char set" where
  "MARKDOWN = {CHR 0x5C, CHR ''*'', CHR ''_'', CHR ''~'', CHR 0x60, CHR ''|'', CHR ''>'', CHR ''#'', CHR ''-'', CHR ''['', CHR '']'',
     CHR ''('', CHR '')'', CHR '':''}"

definition mdescape :: "string \<Rightarrow> string" where
  "mdescape s = concat (map (\<lambda>c. if c \<in> MARKDOWN then [CHR 0x5C, c] else [c]) s)"

section \<open>Templates and URLs\<close>

definition timestamp_millis :: "time \<Rightarrow> int" where
  "timestamp_millis t = t div 1000"

definition opt_json :: "('a \<Rightarrow> json) \<Rightarrow> 'a option \<Rightarrow> json" where
  "opt_json f x = (case x of None \<Rightarrow> JNull | Some y \<Rightarrow> f y)"

definition texts_json :: "(string \<times> string) list \<Rightarrow> json" where
  "texts_json kvs = JObj (map (\<lambda>(k, v). (k, JStr v)) kvs)"

definition template_context :: "alert \<Rightarrow> (string \<times> string) list \<Rightarrow> (int \<times> int) option \<Rightarrow> time \<Rightarrow> json" where
  "template_context a bases window now = JObj (
     [(''alert'', JObj [
        (''fingerprint'', JStr (fp_str (al_fingerprint a))), (''name'', JStr (alert_name a)),
        (''severity'', JStr (severity_str (alert_severity a))), (''status'', JStr (alert_status_str (al_status a))),
        (''generator_url'', opt_json JStr (al_generator_url a)), (''starts_at'', JTime (al_starts_at a)),
        (''ends_at'', opt_json JTime (al_ends_at a))]),
      (''labels'', texts_json (map (\<lambda>(n, v). (name_str n, v)) (al_labels a))), (''annotations'', texts_json (al_annotations a)),
      (''links'', texts_json bases), (''now_ms'', JInt (timestamp_millis now))] @
     (case window of None \<Rightarrow> [] | Some (from_ms, to_ms) \<Rightarrow>
       [(''window'', JObj [(''from_ms'', JInt from_ms), (''to_ms'', JInt to_ms)])]))"

record template_env =
  te_compile :: "string \<Rightarrow> string option"
  te_render :: "string \<Rightarrow> json \<Rightarrow> string option"

record parsed_url =
  pu_scheme :: string
  pu_host :: "string option"
  pu_text :: string

type_synonym url_parser = "string \<Rightarrow> parsed_url option"

section \<open>Compiling the configuration\<close>

record link_button =
  lb_label :: string
  lb_url :: string
  lb_when :: "string option"

record links_config =
  lc_prometheus_base :: "string option"
  lc_grafana_base :: "string option"
  lc_allowed_hosts :: "string list"
  lc_window_lead_secs :: nat
  lc_window_trail_secs :: nat
  lc_buttons :: "link_button list"

definition default_links :: links_config where
  "default_links = \<lparr>lc_prometheus_base = None, lc_grafana_base = None, lc_allowed_hosts = [],
     lc_window_lead_secs = 900, lc_window_trail_secs = 300, lc_buttons = []\<rparr>"

datatype link_error = BadTemplate string string | Unfiltered string string

record link_renderer =
  lk_buttons :: "link_button list"
  lk_allowed_hosts :: "string list"
  lk_lead :: duration
  lk_trail :: duration
  lk_bases :: "(string \<times> string) list"

text \<open>\<open>expression.rsplit('|').next()\<close>: what follows the last bar.\<close>

definition after_last :: "char \<Rightarrow> string \<Rightarrow> string" where
  "after_last d s = rev (takeWhile (\<lambda>c. c \<noteq> d) (rev s))"

definition is_encoded :: "string \<Rightarrow> bool" where
  "is_encoded expression \<longleftrightarrow> trim (after_last (CHR ''|'') expression) = ''urlencode''"

function check_encoded :: "string \<Rightarrow> string \<Rightarrow> link_error + unit" where
  "check_encoded label rest = (case find_sub ''{{'' rest of None \<Rightarrow> Inr ()
   | Some start \<Rightarrow> (let after = drop (start + 2) rest in case find_sub ''}}'' after of None \<Rightarrow> Inr ()
     | Some stop \<Rightarrow>
         let expression = trim (take stop after)
         in if \<not> is_encoded expression \<and> \<not> starts_with ''links.'' expression
            then Inl (Unfiltered label expression)
            else check_encoded label (drop (stop + 2) after)))"
  by pat_completeness auto
termination
proof (relation "measure (\<lambda>(l, r). length r)", goal_cases)
  case (2 label rest start after stop expression)
  from 2(1) find_sub_Some [of "''{{''" rest start] obtain r where r: "rest = take start rest @ ''{{'' @ r" by auto
  have "length rest = length (take start rest @ ''{{'' @ r)" using r by simp
  then have "2 \<le> length rest" by simp
  then show ?case unfolding 2(2) by simp
qed simp

declare check_encoded.simps [simp del]

definition guard_template :: "string \<Rightarrow> string" where
  "guard_template cond = ''{% if '' @ cond @ '' %}1{% endif %}''"

definition trimmed :: "string \<Rightarrow> string" where
  "trimmed base = rev (dropWhile (\<lambda>c. c = CHR ''/'') (rev base))"

text \<open>The clamp of a configured number of seconds, and chrono's duration of it: \<open>None\<close> is its panic.\<close>

definition clamp_seconds :: "nat \<Rightarrow> int" where
  "clamp_seconds n = (if int n \<le> I64_MAX then int n else I64_MAX div 1000)"

definition link_duration :: "nat \<Rightarrow> duration option" where
  "link_duration n = duration_seconds (clamp_seconds n)"

fun compile_buttons :: "template_env \<Rightarrow> link_button list \<Rightarrow> link_error + unit" where
  "compile_buttons env [] = Inr ()"
| "compile_buttons env (b # bs) = (case check_encoded (lb_label b) (lb_url b) of Inl e \<Rightarrow> Inl e
   | Inr _ \<Rightarrow> (case te_compile env (lb_url b) of Some detail \<Rightarrow> Inl (BadTemplate (lb_label b) detail)
   | None \<Rightarrow> (case Option.bind (lb_when b) (\<lambda>w. te_compile env (guard_template w)) of
       Some detail \<Rightarrow> Inl (BadTemplate (lb_label b) detail)
     | None \<Rightarrow> compile_buttons env bs)))"

definition link_bases :: "links_config \<Rightarrow> (string \<times> string) list" where
  "link_bases c = (case lc_prometheus_base c of Some b \<Rightarrow> [(''prometheus_base'', trimmed b)] | None \<Rightarrow> []) @
     (case lc_grafana_base c of Some b \<Rightarrow> [(''grafana_base'', trimmed b)] | None \<Rightarrow> [])"

definition new_link_renderer :: "template_env \<Rightarrow> links_config \<Rightarrow> (link_error + link_renderer) option" where
  "new_link_renderer env c = (case compile_buttons env (lc_buttons c) of Inl e \<Rightarrow> Some (Inl e)
   | Inr _ \<Rightarrow> (case (link_duration (lc_window_lead_secs c), link_duration (lc_window_trail_secs c)) of
       (Some lead, Some trail) \<Rightarrow> Some (Inr \<lparr>lk_buttons = lc_buttons c, lk_allowed_hosts = map ascii_lower (lc_allowed_hosts c),
         lk_lead = lead, lk_trail = trail, lk_bases = link_bases c\<rparr>)
     | _ \<Rightarrow> None))"

section \<open>Rendering\<close>

record rendered_link =
  rl_label :: string
  rl_url :: string

definition link_window :: "link_renderer \<Rightarrow> alert \<Rightarrow> time \<Rightarrow> int \<times> int" where
  "link_window lk a now = (timestamp_millis (al_starts_at a - lk_lead lk),
     timestamp_millis ((case al_ends_at a of Some t \<Rightarrow> t | None \<Rightarrow> now) + lk_trail lk))"

definition validate_url :: "link_renderer \<Rightarrow> url_parser \<Rightarrow> string \<Rightarrow> string + string" where
  "validate_url lk parse rendered = (case parse rendered of None \<Rightarrow> Inl ''the rendered URL does not parse''
   | Some url \<Rightarrow> if pu_scheme url \<notin> {''http'', ''https''} then Inl ''the scheme is neither http nor https''
     else (case pu_host url of None \<Rightarrow> Inl ''the URL has no host''
       | Some host \<Rightarrow> if ascii_lower host \<notin> set (lk_allowed_hosts lk) then Inl ''the host is not in links.allowed_hosts''
           else Inr (pu_text url)))"

definition link_context :: "link_renderer \<Rightarrow> alert \<Rightarrow> time \<Rightarrow> json" where
  "link_context lk a now = template_context a (lk_bases lk) (Some (link_window lk a now)) now"

definition render_button ::
  "template_env \<Rightarrow> url_parser \<Rightarrow> link_renderer \<Rightarrow> json \<Rightarrow> link_button \<Rightarrow> rendered_link option" where
  "render_button env parse lk ctx b =
     (if (case lb_when b of None \<Rightarrow> False | Some w \<Rightarrow> te_render env (guard_template w) ctx \<noteq> Some ''1'') then None
      else (case te_render env (lb_url b) ctx of None \<Rightarrow> None
        | Some url \<Rightarrow> (case validate_url lk parse url of Inl _ \<Rightarrow> None
          | Inr u \<Rightarrow> Some \<lparr>rl_label = lb_label b, rl_url = u\<rparr>)))"

definition render_links ::
  "template_env \<Rightarrow> url_parser \<Rightarrow> link_renderer \<Rightarrow> alert \<Rightarrow> time \<Rightarrow> rendered_link list" where
  "render_links env parse lk a now =
     List.map_filter (render_button env parse lk (link_context lk a now)) (lk_buttons lk)"

section \<open>What a button may point at\<close>

definition allowed_url :: "link_renderer \<Rightarrow> url_parser \<Rightarrow> string \<Rightarrow> bool" where
  "allowed_url lk parse u \<longleftrightarrow> (\<exists>raw url host. parse raw = Some url \<and> u = pu_text url \<and> pu_scheme url \<in> {''http'', ''https''} \<and>
     pu_host url = Some host \<and> ascii_lower host \<in> set (lk_allowed_hosts lk))"

lemma validate_url_allowed: "validate_url lk parse raw = Inr u \<Longrightarrow> allowed_url lk parse u"
  unfolding allowed_url_def by (rule exI [of _ raw]) (auto simp: validate_url_def split: option.splits if_splits)

lemma render_button_allowed: "render_button env parse lk ctx b = Some l \<Longrightarrow> allowed_url lk parse (rl_url l)"
  by (auto simp: render_button_def split: option.splits if_splits sum.splits dest: validate_url_allowed)

lemma render_links_mem: "l \<in> set (render_links env parse lk a now) \<longleftrightarrow>
    (\<exists>b \<in> set (lk_buttons lk). render_button env parse lk (link_context lk a now) b = Some l)"
  by (force simp: render_links_def List.map_filter_def image_iff)

lemma render_links_allowed: "rl_url ` set (render_links env parse lk a now) \<subseteq> {u. allowed_url lk parse u}"
  by (auto simp: render_links_mem render_button_allowed)

lemma urlencode_chars: "set (urlencode s) \<subseteq> {c. is_unreserved c} \<union> {CHR 0x25}"
proof -
  have hex: "is_unreserved (upper_hex_digit d)" if "d < 16" for d
    using that by (auto simp: upper_hex_digit_def is_unreserved_def is_ascii_alphanumeric_def is_digit_def is_alpha_def Let_def)
  have "(of_char c :: nat) div 16 < 16" for c :: char
    using nat_of_char_less_256 [of c] by (simp add: less_mult_imp_div_less del: nat_of_char_less_256)
  then show ?thesis unfolding urlencode_def by (auto intro: hex)
qed

end
