(* ===== verification/Discord_Custom_Id.thy ===== *)
theory Discord_Custom_Id
  imports Discord_Text
begin

text \<open>
  The codec behind every button and select (\<open>discord/src/custom_id.rs\<close>): a version, an action word, the card's key in
  Crockford base 32 and an optional argument, separated by colons, in at most a hundred bytes.
\<close>

definition MAX_CUSTOM_ID :: nat where "MAX_CUSTOM_ID = 100"

definition VERSION :: string where "VERSION = ''v1''"

definition ALPHABET :: string where "ALPHABET = ''0123456789ABCDEFGHJKMNPQRSTVWXYZ''"

datatype action = ActAck | ActUnack | ActSilenceMenu | ActSilenceFor | ActIgnoreMenu | ActIgnoreFor | ActDetails | ActPage

definition action_str :: "action \<Rightarrow> string" where
  "action_str a = (case a of ActAck \<Rightarrow> ''ak'' | ActUnack \<Rightarrow> ''uk'' | ActSilenceMenu \<Rightarrow> ''sm'' | ActSilenceFor \<Rightarrow> ''sf''
     | ActIgnoreMenu \<Rightarrow> ''im'' | ActIgnoreFor \<Rightarrow> ''if'' | ActDetails \<Rightarrow> ''dt'' | ActPage \<Rightarrow> ''pg'')"

definition parse_action :: "string \<Rightarrow> action option" where
  "parse_action s = map_of [(''ak'', ActAck), (''uk'', ActUnack), (''sm'', ActSilenceMenu), (''sf'', ActSilenceFor),
     (''im'', ActIgnoreMenu), (''if'', ActIgnoreFor), (''dt'', ActDetails), (''pg'', ActPage)] s"

record custom_id =
  ci_action :: action
  ci_entity :: notification_id
  ci_argument :: "string option"

definition new_custom_id :: "action \<Rightarrow> notification_id \<Rightarrow> custom_id" where
  "new_custom_id a i = \<lparr>ci_action = a, ci_entity = i, ci_argument = None\<rparr>"

definition with_argument :: "action \<Rightarrow> notification_id \<Rightarrow> string \<Rightarrow> custom_id" where
  "with_argument a i arg = \<lparr>ci_action = a, ci_entity = i, ci_argument = Some arg\<rparr>"

datatype custom_id_error = OldVersion string | Malformed string | TooLong nat

fun custom_id_error_str :: "custom_id_error \<Rightarrow> string" where
  "custom_id_error_str (OldVersion found) = ''this control was made by an older version of the bot ('' @ quoted found @ '')''"
| "custom_id_error_str (Malformed detail) = ''malformed control identifier: '' @ detail"
| "custom_id_error_str (TooLong len) =
     ''control identifier is '' @ show_nat len @ '' bytes, over the '' @ show_nat MAX_CUSTOM_ID @ ''-byte limit''"

section \<open>Base 32\<close>

fun base32_digits :: "nat \<Rightarrow> string" where
  "base32_digits v = (if v = 0 then [] else base32_digits (v div 32) @ [ALPHABET ! (v mod 32)])"

declare base32_digits.simps [simp del]

definition encode_base32 :: "64 word \<Rightarrow> string" where
  "encode_base32 w = (if w = 0 then ''0'' else base32_digits (unat w))"

fun position :: "'a \<Rightarrow> 'a list \<Rightarrow> nat option" where
  "position x [] = None"
| "position x (y # ys) = (if x = y then Some 0 else map_option Suc (position x ys))"

definition checked_mul_add :: "nat \<Rightarrow> nat \<Rightarrow> nat option" where
  "checked_mul_add v d = (if v * 32 < 2 ^ 64 \<and> v * 32 + d < 2 ^ 64 then Some (v * 32 + d) else None)"

fun base32_value :: "nat \<Rightarrow> string \<Rightarrow> nat option" where
  "base32_value v [] = Some v"
| "base32_value v (b # bs) = (case position b ALPHABET of None \<Rightarrow> None
     | Some d \<Rightarrow> (case checked_mul_add v d of None \<Rightarrow> None | Some v' \<Rightarrow> base32_value v' bs))"

definition decode_base32 :: "string \<Rightarrow> 64 word option" where
  "decode_base32 raw = (if raw = [] \<or> 13 < length raw then None else map_option of_nat (base32_value 0 raw))"

section \<open>Identifiers\<close>

text \<open>\<open>i64::cast_unsigned\<close> and \<open>u64::cast_signed\<close>.\<close>

definition display_custom_id :: "custom_id \<Rightarrow> string" where
  "display_custom_id c = VERSION @ '':'' @ action_str (ci_action c) @ '':'' @ encode_base32 (word_of_int (ci_entity c)) @
     (case ci_argument c of None \<Rightarrow> [] | Some arg \<Rightarrow> '':'' @ arg)"

definition encode_custom_id :: "custom_id \<Rightarrow> custom_id_error + string" where
  "encode_custom_id c =
     (if (case ci_argument c of Some arg \<Rightarrow> CHR '':'' \<in> set arg | None \<Rightarrow> False)
      then Inl (Malformed ''the argument contains the separator'')
      else let rendered = display_custom_id c
        in if MAX_CUSTOM_ID < length rendered then Inl (TooLong (length rendered)) else Inr rendered)"

definition nth_part :: "nat \<Rightarrow> 'a list \<Rightarrow> 'a option" where
  "nth_part n xs = (if n < length xs then Some (xs ! n) else None)"

definition decode_custom_id :: "string \<Rightarrow> custom_id_error + custom_id" where
  "decode_custom_id raw = (let parts = splitn 4 (CHR '':'') raw;
       version = (case nth_part 0 parts of Some v \<Rightarrow> v | None \<Rightarrow> [])
     in if version \<noteq> VERSION then Inl (OldVersion version)
        else (case Option.bind (nth_part 1 parts) parse_action of
            None \<Rightarrow> Inl (Malformed ''the action is not one this build knows'')
          | Some action \<Rightarrow> (case Option.bind (nth_part 2 parts) decode_base32 of
              None \<Rightarrow> Inl (Malformed ''the entity is not a base-32 key'')
            | Some entity \<Rightarrow> Inr \<lparr>ci_action = action, ci_entity = sint entity, ci_argument = nth_part 3 parts\<rparr>)))"

section \<open>Round trips\<close>

lemma parse_action_str [simp]: "parse_action (action_str a) = Some a"
  by (cases a) (simp_all add: parse_action_def action_str_def)

lemma position_nth: "distinct xs \<Longrightarrow> i < length xs \<Longrightarrow> position (xs ! i) xs = Some i"
proof (induction xs arbitrary: i)
  case (Cons x xs)
  then show ?case by (cases i) auto
qed simp

lemma position_mem: "position x xs = None \<longleftrightarrow> x \<notin> set xs"
  by (induction xs) auto

lemma alphabet: "distinct ALPHABET" "length ALPHABET = 32" "CHR '':'' \<notin> set ALPHABET"
  by (simp_all add: ALPHABET_def)

lemma base32_value_append:
  "base32_value v (s @ t) = Option.bind (base32_value v s) (\<lambda>u. base32_value u t)"
  by (induction s arbitrary: v) (auto split: option.splits)

lemma base32_value_digits: "n < 2 ^ 64 \<Longrightarrow> base32_value 0 (base32_digits n) = Some n"
proof (induction n rule: base32_digits.induct)
  case (1 n)
  show ?case
  proof (cases "n = 0")
    case True
    then show ?thesis by (subst base32_digits.simps) simp
  next
    case False
    have "n div 32 \<le> n" by (rule div_le_dividend)
    with 1 False have "base32_value 0 (base32_digits (n div 32)) = Some (n div 32)" by simp
    moreover have "position (ALPHABET ! (n mod 32)) ALPHABET = Some (n mod 32)"
      by (rule position_nth) (simp_all add: alphabet)
    moreover have "checked_mul_add (n div 32) (n mod 32) = Some n"
    proof -
      have "n div 32 * 32 + n mod 32 = n" by (rule div_mult_mod_eq)
      moreover from this have "n div 32 * 32 < 2 ^ 64" using 1(2) by linarith
      ultimately show ?thesis using 1(2) by (simp add: checked_mul_add_def)
    qed
    ultimately show ?thesis using False by (subst base32_digits.simps) (simp add: base32_value_append)
  qed
qed

lemma length_base32_digits: "n < 32 ^ k \<Longrightarrow> length (base32_digits n) \<le> k"
proof (induction k arbitrary: n)
  case 0
  then show ?case by (subst base32_digits.simps) simp
next
  case (Suc k)
  then have "n div 32 < 32 ^ k" by (simp add: less_mult_imp_div_less mult.commute)
  with Suc.IH [of "n div 32"] show ?case by (subst base32_digits.simps) simp
qed

lemma set_base32_digits: "set (base32_digits n) \<subseteq> set ALPHABET"
proof (induction n rule: base32_digits.induct)
  case (1 n)
  have "n mod 32 < length ALPHABET" by (simp add: alphabet)
  then have "ALPHABET ! (n mod 32) \<in> set ALPHABET" by (rule nth_mem)
  with 1 show ?case by (subst base32_digits.simps) auto
qed

lemma base32_digits_Nil: "base32_digits n = [] \<longleftrightarrow> n = 0"
  by (subst base32_digits.simps) simp

lemma encode_base32_ok:
  "decode_base32 (encode_base32 w) = Some w" "CHR '':'' \<notin> set (encode_base32 w)" "length (encode_base32 w) \<le> 13"
proof -
  have bound: "unat w < 2 ^ 64" using unsigned_less [of w] by simp
  then have "unat w < 32 ^ 13" by simp
  then have len: "length (base32_digits (unat w)) \<le> 13" by (rule length_base32_digits)
  show "length (encode_base32 w) \<le> 13" using len by (simp add: encode_base32_def)
  show "CHR '':'' \<notin> set (encode_base32 w)"
    using set_base32_digits [of "unat w"] alphabet(3) by (auto simp: encode_base32_def)
  show "decode_base32 (encode_base32 w) = Some w"
  proof (cases "w = 0")
    case True
    then show ?thesis by (simp add: encode_base32_def decode_base32_def ALPHABET_def checked_mul_add_def)
  next
    case False
    then have "base32_digits (unat w) \<noteq> []" by (simp add: base32_digits_Nil unat_eq_0)
    with False len base32_value_digits [OF bound] show ?thesis
      by (simp add: encode_base32_def decode_base32_def)
  qed
qed

lemma action_str_simps: "length (action_str a) = 2" "CHR '':'' \<notin> set (action_str a)"
  by (cases a; simp add: action_str_def)+

lemma splitn_display:
  "splitn 4 (CHR '':'') (display_custom_id c) = [VERSION, action_str (ci_action c), encode_base32 (word_of_int (ci_entity c))] @
     (case ci_argument c of None \<Rightarrow> [] | Some arg \<Rightarrow> [arg])"
proof -
  have 1: "split_once (CHR '':'') (VERSION @ CHR '':'' # s) = Some (VERSION, s)" for s
    by (rule split_once_append) (simp add: VERSION_def)
  note 2 = split_once_append [OF action_str_simps(2) [of "ci_action c"]]
  note 3 = split_once_append [OF encode_base32_ok(2) [of "word_of_int (ci_entity c)"]]
  show ?thesis
    by (cases "ci_argument c") (simp_all add: display_custom_id_def eval_nat_numeral 1 2 3 encode_base32_ok(2))
qed

lemma decode_display:
  assumes "- (2 ^ 63) \<le> ci_entity c" "ci_entity c < 2 ^ 63"
  shows "decode_custom_id (display_custom_id c) = Inr c"
proof -
  have "sint (word_of_int (ci_entity c) :: 64 word) = ci_entity c"
    using assms by (simp add: sint_sbintrunc' signed_take_bit_int_eq_self)
  then show ?thesis
    by (cases "ci_argument c"; cases c)
      (simp_all add: decode_custom_id_def splitn_display Let_def nth_part_def encode_base32_ok(1))
qed

lemma length_display:
  "length (display_custom_id c) \<le> 19 + (case ci_argument c of None \<Rightarrow> 0 | Some arg \<Rightarrow> Suc (length arg))"
  using encode_base32_ok(3) [of "word_of_int (ci_entity c)"]
  by (simp add: display_custom_id_def VERSION_def action_str_simps(1) split: option.split)

lemma encode_custom_id_Inr_iff:
  "encode_custom_id c = Inr s \<longleftrightarrow> s = display_custom_id c \<and> length s \<le> MAX_CUSTOM_ID \<and>
     (\<forall>arg. ci_argument c = Some arg \<longrightarrow> CHR '':'' \<notin> set arg)"
  by (auto simp: encode_custom_id_def Let_def split: option.splits if_splits)

end
