(* ===== verification/Discord_Render.thy ===== *)
theory Discord_Render
  imports Discord_Links Discord_Custom_Id Runtime_Cards
begin

text \<open>
  Turning one alert into one card inside Discord's limits (\<open>discord/src/render.rs\<close>). Discord counts UTF-16 code units:
  two for a character of four bytes, one for any other. Key labels are valid label names where they produce a field, so
  the upper case of their first letter is ASCII's.
\<close>

section \<open>Limits\<close>

definition EMBED_BUDGET :: nat where "EMBED_BUDGET = 6000"
definition TITLE_LIMIT :: nat where "TITLE_LIMIT = 256"
definition DESCRIPTION_LIMIT :: nat where "DESCRIPTION_LIMIT = 4096"
definition FIELD_LIMIT :: nat where "FIELD_LIMIT = 1024"
definition FIELD_COUNT_LIMIT :: nat where "FIELD_COUNT_LIMIT = 25"
definition ROW_LIMIT :: nat where "ROW_LIMIT = 5"
definition NAME_LIMIT :: nat where "NAME_LIMIT = 100"

text \<open>\<open>char::len_utf16\<close>, \<open>discord_len\<close> and \<open>truncate\<close>.\<close>

definition utf16_len :: "string \<Rightarrow> nat" where
  "utf16_len ch = (if length ch = 4 then 2 else 1)"

definition chars_len :: "string list \<Rightarrow> nat" where
  "chars_len cs = sum_list (map utf16_len cs)"

definition discord_len :: "string \<Rightarrow> nat" where
  "discord_len s = chars_len (utf8_chars s)"

fun take_units :: "nat \<Rightarrow> string list \<Rightarrow> string list" where
  "take_units n [] = []"
| "take_units n (c # cs) = (if utf16_len c \<le> n then c # take_units (n - utf16_len c) cs else [])"

definition truncate_units :: "string \<Rightarrow> nat \<Rightarrow> string" where
  "truncate_units s limit = (if discord_len s \<le> limit then s
     else concat (take_units (limit - utf16_len ELLIPSIS) (utf8_chars s)) @ ELLIPSIS)"

section \<open>Pieces\<close>

record render_config =
  rd_debounce_secs :: nat
  rd_description_budget :: nat
  rd_key_labels :: "string list"
  rd_thread_archive_after_minutes :: nat
  rd_show_fingerprint :: bool

definition default_render :: render_config where
  "default_render = \<lparr>rd_debounce_secs = 3, rd_description_budget = 1500,
     rd_key_labels = [''namespace'', ''instance'', ''job''], rd_thread_archive_after_minutes = 1440, rd_show_fingerprint = True\<rparr>"

definition filled :: "string option \<Rightarrow> string option" where
  "filled v = (case v of Some s \<Rightarrow> if s = [] then None else Some s | None \<Rightarrow> None)"

definition severity_tag :: "card_data \<Rightarrow> string" where
  "severity_tag d = ''['' @ ascii_upper (severity_str (cd_severity d)) @ ''] '' @ alert_name (cd_alert d)"

definition card_name :: "render_config \<Rightarrow> card_data \<Rightarrow> string" where
  "card_name c d = truncate_units
     (case find_map (\<lambda>l. filled (labels_get (al_labels (cd_alert d)) l)) (rd_key_labels c) of
        Some key \<Rightarrow> severity_tag d @ '' '' @ EM_DASH @ '' '' @ key
      | None \<Rightarrow> severity_tag d) NAME_LIMIT"

definition forum_title :: "template_env \<Rightarrow> render_config \<Rightarrow> card_data \<Rightarrow> string \<Rightarrow> string" where
  "forum_title env c d template = (case te_render env template (template_context (cd_alert d) [] None (cd_rendered_at d)) of
     Some title \<Rightarrow> if trim title \<noteq> [] then truncate_units (trim title) NAME_LIMIT else card_name c d
   | None \<Rightarrow> card_name c d)"

definition annotation :: "card_data \<Rightarrow> string \<Rightarrow> string option" where
  "annotation d key = bt_get (al_annotations (cd_alert d)) key"

definition MORE_MARKER :: string where
  "MORE_MARKER = NEWLINE @ ELLIPSIS @ '' '' @ quoted ''/alerts show'' @ '' for all''"

definition prose :: "card_data \<Rightarrow> string" where
  "prose d = (let text = (case annotation d ''summary'' of Some s \<Rightarrow> s | None \<Rightarrow> [])
     in case annotation d ''description'' of None \<Rightarrow> text
        | Some t \<Rightarrow> (if text \<noteq> [] then text @ NEWLINE @ NEWLINE else text) @ t)"

definition card_description :: "render_config \<Rightarrow> card_data \<Rightarrow> string" where
  "card_description c d = (let text = prose d; budget = min (rd_description_budget c) DESCRIPTION_LIMIT
     in if budget < discord_len text then truncate_units text (budget - 24) @ MORE_MARKER else text)"

fun card_status_line :: "card_data \<Rightarrow> string" where
  "card_status_line d = (case cd_state d of
     Firing \<Rightarrow> ''Firing '' @ EM_DASH @ '' nobody has taken this yet''
   | Acked \<Rightarrow> (case (cd_acknowledged_by d, cd_acknowledged_at d) of
       (Some user, Some at) \<Rightarrow> ''Acknowledged by '' @ mention_user user @ '' '' @ relative at
     | (Some user, None) \<Rightarrow> ''Acknowledged by '' @ mention_user user
     | _ \<Rightarrow> ''Acknowledged'')
   | Silenced \<Rightarrow> ''Silenced in Alertmanager '' @ EM_DASH @ '' every receiver is quiet''
   | Ignored \<Rightarrow> ''Ignored here '' @ EM_DASH @ '' Alertmanager is still notifying everyone else''
   | Resolved \<Rightarrow> (case al_ends_at (cd_alert d) of Some ends \<Rightarrow> ''Resolved '' @ relative ends | None \<Rightarrow> ''Resolved'')
   | Orphaned \<Rightarrow> ''This card no longer matches anything in Discord'')"

definition message_url :: "previous_card \<Rightarrow> string" where
  "message_url p = ''https://discord.com/channels/'' @ (if pv_guild p = 0 then ''@me'' else show_nat (unat (pv_guild p))) @ ''/'' @
     show_nat (unat (pv_channel p)) @ ''/'' @ show_nat (unat (pv_message p))"

fun title_case :: "string \<Rightarrow> string" where
  "title_case [] = []"
| "title_case (c # cs) = ascii_upper [c] @ cs"

type_synonym field = "string \<times> string \<times> bool"

definition opt_field :: "'a option \<Rightarrow> ('a \<Rightarrow> field) \<Rightarrow> field list" where
  "opt_field x f = (case x of Some y \<Rightarrow> [f y] | None \<Rightarrow> [])"

definition digest_text :: "digest_notice \<Rightarrow> string" where
  "digest_text n = ''This route posted '' @ show_nat (dn_cards n) @ '' cards in '' @ show_int (dn_window_secs n) @
     ''s, past its threshold of '' @ show_nat (dn_threshold n) @ ''. One rolling card per window until the rate drops.''"

definition card_fields :: "render_config \<Rightarrow> card_data \<Rightarrow> field list" where
  "card_fields c d =
     [(''Status'', card_status_line d, False), (''Since'', relative (al_starts_at (cd_alert d)), True)] @
     (if 0 < cd_flap_count d then [(''Flapped'', TIMES_SIGN @ show_nat (cd_flap_count d) @ '' '' @ EM_DASH @ '' first seen '' @
        relative (cd_first_seen_at d), True)] else []) @
     opt_field (cd_previous d) (\<lambda>p. (''Previous card'', message_url p, False)) @
     opt_field (cd_digest d) (\<lambda>n. (''Digest'', truncate_units (digest_text n) FIELD_LIMIT, False)) @
     List.map_filter (\<lambda>l. map_option (\<lambda>v. (title_case l, truncate_units v FIELD_LIMIT, True))
       (filled (labels_get (al_labels (cd_alert d)) l))) (rd_key_labels c) @
     opt_field (annotation d ''value'') (\<lambda>v. (''Value'', truncate_units v FIELD_LIMIT, True)) @
     opt_field (cd_silence d) (\<lambda>s. (''Silenced by'', quoted (sy_am_id s) @ '' by '' @ sy_created_by s @ '' until '' @
       relative (sy_ends_at s), False)) @
     (if al_inhibited_by (cd_alert d) = [] then []
      else [(''Inhibited by'', truncate_units (join '', '' (al_inhibited_by (cd_alert d))) FIELD_LIMIT, False)]) @
     opt_field (cd_ignore_reason d) (\<lambda>r. (''Ignored'', truncate_units
       (r @ '' '' @ EM_DASH @ '' Alertmanager is still notifying every other receiver'') FIELD_LIMIT, False))"

definition card_footer :: "render_config \<Rightarrow> card_data \<Rightarrow> string" where
  "card_footer c d = ''route '' @ cd_route_name d @
     (if rd_show_fingerprint c then dot_sep @ fp_short (al_fingerprint (cd_alert d)) else []) @
     (if 0 < cd_reply_count d then dot_sep @ show_nat (cd_reply_count d) @ '' replies'' else [])"

definition colour :: "card_data \<Rightarrow> nat" where
  "colour d = (case cd_state d of Acked \<Rightarrow> 0x3399FF | Silenced \<Rightarrow> 0x8A63D2 | Ignored \<Rightarrow> 0x777A7E | Resolved \<Rightarrow> 0x2EA043
     | Orphaned \<Rightarrow> 0x3A3D41
     | Firing \<Rightarrow> (case cd_severity d of Critical \<Rightarrow> 0xD92D20 | Warning \<Rightarrow> 0xE09B00 | Info \<Rightarrow> 0x64748B))"

definition mention_text :: "mention list \<Rightarrow> string" where
  "mention_text ms = join '' '' (map (\<lambda>m. case m of RoleMention r \<Rightarrow> ''<@&'' @ show_nat (unat r) @ ''>''
     | UserMention u \<Rightarrow> mention_user u) ms)"

section \<open>Controls\<close>

definition card_button :: "action \<Rightarrow> card_data \<Rightarrow> string \<Rightarrow> button_style \<Rightarrow> button" where
  "card_button a d label style = IdButton (case encode_custom_id (new_custom_id a (cd_notification d)) of
     Inr i \<Rightarrow> i | Inl _ \<Rightarrow> action_str a @ '':overflow'') label style False"

definition card_actions :: "card_data \<Rightarrow> button list" where
  "card_actions d =
     (let silence = card_button ActSilenceMenu d (''Silence'' @ ELLIPSIS) Secondary;
          details = card_button ActDetails d ''Details'' Secondary
      in case cd_state d of
        Firing \<Rightarrow> [card_button ActAck d ''Acknowledge'' Primary, silence,
          card_button ActIgnoreMenu d (''Ignore'' @ ELLIPSIS) Secondary, details]
      | Acked \<Rightarrow> [card_button ActUnack d ''Unacknowledge'' Secondary, silence, details]
      | Silenced \<Rightarrow> [details] | Ignored \<Rightarrow> [details]
      | Resolved \<Rightarrow> [IdButton ''resolved'' ''Resolved'' Success True]
      | Orphaned \<Rightarrow> [])"

definition button_row :: "button list \<Rightarrow> action_row list" where
  "button_row bs = (if bs = [] then [] else [Buttons bs])"

definition card_components :: "card_data \<Rightarrow> rendered_link list \<Rightarrow> action_row list" where
  "card_components d links = button_row (take ROW_LIMIT (card_actions d)) @
     button_row (map (\<lambda>l. LinkButton (rl_url l) (truncate_units (rl_label l) 80)) (take ROW_LIMIT links))"

section \<open>Fitting the budget\<close>

definition field_len :: "field \<Rightarrow> nat" where
  "field_len f = discord_len (fst f) + discord_len (fst (snd f))"

definition fields_len :: "field list \<Rightarrow> nat" where
  "fields_len fs = sum_list (map field_len fs)"

definition fixed_len :: "string \<Rightarrow> string \<Rightarrow> string \<Rightarrow> nat" where
  "fixed_len title description footer = discord_len title + discord_len description + discord_len footer"

text \<open>The loop that pops fields from the end.\<close>

function fit_fields :: "nat \<Rightarrow> field list \<Rightarrow> field list" where
  "fit_fields fixed fs = (if FIELD_COUNT_LIMIT < length fs \<or> (EMBED_BUDGET < fixed + fields_len fs \<and> fs \<noteq> [])
     then fit_fields fixed (butlast fs) else fs)"
  by pat_completeness auto
termination
  by (relation "measure (\<lambda>(fixed, fs). length fs)") (auto simp: FIELD_COUNT_LIMIT_def)

declare fit_fields.simps [simp del]

definition TRUNCATED_FIELD :: field where
  "TRUNCATED_FIELD = (''Truncated'',
     ''Some fields did not fit '' @ EM_DASH @ '' '' @ quoted ''/alerts show'' @ '' has all of them'', False)"

definition budget_fields :: "string \<Rightarrow> string \<Rightarrow> string \<Rightarrow> field list \<Rightarrow> field list" where
  "budget_fields title description footer fs =
     (let fit = fit_fields (fixed_len title description footer) fs
      in if length fit < length fs \<and> length fit < FIELD_COUNT_LIMIT then fit @ [TRUNCATED_FIELD] else fit)"

section \<open>The card and its hash\<close>

definition hash_write :: "string \<Rightarrow> 64 word \<Rightarrow> 64 word" where
  "hash_write s h = fnv1a h (s @ [CHR 0x00])"

definition be_bytes :: "nat \<Rightarrow> string" where
  "be_bytes n = map (\<lambda>i. char_of (n div 256 ^ i mod 256)) [3, 2, 1, 0]"

definition card_hash ::
  "card_data \<Rightarrow> string \<Rightarrow> string \<Rightarrow> string \<Rightarrow> field list \<Rightarrow> rendered_link list \<Rightarrow> string" where
  "card_hash d title description footer fs links = hex16
     (fold (\<lambda>l h. hash_write (rl_url l) (hash_write (rl_label l) h)) links
       (fold (\<lambda>f h. hash_write (fst (snd f)) (hash_write (fst f) h)) fs
         (hash_write (be_bytes (colour d)) (hash_write footer (hash_write description (hash_write title
           (hash_write (state_str (cd_state d)) FNV_OFFSET)))))))"

record rendered_card =
  rc_embed :: embed
  rc_components :: "action_row list"
  rc_content :: string
  rc_title :: string
  rc_hash :: string

record drawing =
  dr_config :: render_config
  dr_links :: link_renderer
  dr_env :: template_env
  dr_urls :: url_parser

definition draw_links :: "drawing \<Rightarrow> alert \<Rightarrow> time \<Rightarrow> rendered_link list" where
  "draw_links r a now = render_links (dr_env r) (dr_urls r) (dr_links r) a now"

definition render_card :: "drawing \<Rightarrow> card_data \<Rightarrow> rendered_card" where
  "render_card r d =
     (let c = dr_config r; name = card_name c d; links = draw_links r (cd_alert d) (cd_rendered_at d);
          description = card_description c d; title = truncate_units name TITLE_LIMIT; footer = card_footer c d;
          fs = budget_fields title description footer (card_fields c d)
      in \<lparr>rc_embed = \<lparr>em_title = Some title, em_description = (if description = [] then None else Some description),
             em_colour = Some (colour d), em_fields = fs, em_footer = Some footer, em_timestamp = Some (cd_rendered_at d)\<rparr>,
          rc_components = card_components d links, rc_content = mention_text (cd_mentions d), rc_title = name,
          rc_hash = card_hash d title description footer fs links\<rparr>)"

text \<open>What the worker asks of a renderer, on this one.\<close>

definition card_renderer :: "drawing \<Rightarrow> renderer" where
  "card_renderer r = \<lparr>rn_hash = (\<lambda>d. rc_hash (render_card r d)), rn_name = card_name (dr_config r),
     rn_forum_title = forum_title (dr_env r) (dr_config r)\<rparr>"

end
