(* ===== verification/Discord_Views.thy ===== *)
theory Discord_Views
  imports Discord_Render Sqlite_Alerts Sqlite_Cards
begin

text \<open>
  The views a command or a button answers with, and the parsers they share (\<open>discord/src/commands/views.rs\<close>): the list
  filter and its packing into a page button, references and durations as an operator types them, the detail view and the
  page controls. Arithmetic on \<open>u32\<close> wraps, as the release profile compiles it.
\<close>

definition RESOLVE_SCAN :: nat where "RESOLVE_SCAN = 250"

definition PAGE_SIZE :: nat where "PAGE_SIZE = 10"

section \<open>The list filter\<close>

record list_filter =
  lf_state :: "notification_state option"
  lf_severity :: "severity option"
  lf_matchers :: string
  lf_limit :: nat

definition filter_query :: "regex_engine \<Rightarrow> list_filter \<Rightarrow> nat \<Rightarrow> core_error + alert_query" where
  "filter_query rx f offset = (case parse_matchers rx (lf_matchers f) of Inl e \<Rightarrow> Inl e
   | Inr ms \<Rightarrow> Inr \<lparr>aq_statuses = [], aq_min_severity = lf_severity f,
       aq_matchers = map (\<lambda>m. \<lparr>qm_name = name_str (m_name m), qm_op = m_op m, qm_value = m_value m\<rparr>) ms,
       aq_notification_state = lf_state f, aq_offset = offset, aq_limit = min (max (lf_limit f) 1) 25\<rparr>)"

definition or_dash :: "('a \<Rightarrow> string) \<Rightarrow> 'a option \<Rightarrow> string" where
  "or_dash f x = (case x of None \<Rightarrow> ''-'' | Some y \<Rightarrow> f y)"

definition pack :: "list_filter \<Rightarrow> nat \<Rightarrow> string" where
  "pack f offset = show_nat offset @ ''.'' @ show_nat (lf_limit f) @ ''.'' @ or_dash state_str (lf_state f) @ ''.'' @
     or_dash severity_str (lf_severity f) @ ''.'' @ lf_matchers f"

definition state_from :: "string \<Rightarrow> notification_state option" where
  "state_from = map_of [(''firing'', Firing), (''acked'', Acked), (''silenced'', Silenced), (''ignored'', Ignored),
     (''resolved'', Resolved), (''orphaned'', Orphaned)]"

definition severity_from :: "string \<Rightarrow> severity option" where
  "severity_from = map_of [(''critical'', Critical), (''warning'', Warning), (''info'', Info)]"

definition unpack :: "string \<Rightarrow> (list_filter \<times> nat) option" where
  "unpack raw = (let parts = splitn 5 (CHR ''.'') raw in
     case Option.bind (nth_part 0 parts) parse_u32 of None \<Rightarrow> None
   | Some offset \<Rightarrow> (case Option.bind (nth_part 1 parts) parse_u32 of None \<Rightarrow> None
   | Some limit \<Rightarrow> (case nth_part 2 parts of None \<Rightarrow> None
   | Some state \<Rightarrow> (case nth_part 3 parts of None \<Rightarrow> None
   | Some severity \<Rightarrow> Some (\<lparr>lf_state = state_from state, lf_severity = severity_from severity,
       lf_matchers = (case nth_part 4 parts of Some m \<Rightarrow> m | None \<Rightarrow> []), lf_limit = limit\<rparr>, offset)))))"

section \<open>References\<close>

datatype resolve_error = UnknownReference | Ambiguous "string list" | ReadFailed string

fun resolve_error_str :: "resolve_error \<Rightarrow> string" where
  "resolve_error_str UnknownReference = ''no alert matches that reference. Use the short fingerprint from a card'' @
     APOSTROPHE @ ''s footer, or the alert name.''"
| "resolve_error_str (Ambiguous candidates) = ''that reference matches '' @ show_nat (length candidates) @ '' alerts: '' @
     join '', '' candidates @ ''. Use one of those fingerprints.''"
| "resolve_error_str (ReadFailed detail) = ''cannot read the alert: '' @ detail"

definition any_alert :: alert_query where
  "any_alert = \<lparr>aq_statuses = [], aq_min_severity = None, aq_matchers = [], aq_notification_state = None, aq_offset = 0,
     aq_limit = RESOLVE_SCAN\<rparr>"

definition named_by :: "string \<Rightarrow> alert_record \<Rightarrow> bool" where
  "named_by reference r \<longleftrightarrow> starts_with reference (fp_str (al_fingerprint (ar_alert r))) \<or>
     ascii_lower (alert_name (ar_alert r)) = ascii_lower reference"

definition by_fingerprint :: "string \<Rightarrow> db \<Rightarrow> alert_record option" where
  "by_fingerprint reference db = (case new_fingerprint reference of Inl _ \<Rightarrow> None | Inr f \<Rightarrow> read_alert f db)"

definition by_card :: "string \<Rightarrow> db \<Rightarrow> alert_record option" where
  "by_card reference db = Option.bind (parse_i64 reference) (\<lambda>i. Option.bind (notification_by_id i db)
     (\<lambda>cd. read_alert (n_fingerprint cd) db))"

definition by_scan :: "regex_engine \<Rightarrow> string \<Rightarrow> db \<Rightarrow> resolve_error + alert_record" where
  "by_scan rx reference db = (case query_alerts rx core_error_str any_alert db of Inl e \<Rightarrow> Inl (ReadFailed (store_error_str e))
   | Inr page \<Rightarrow> (case filter (named_by reference) (pg_items page) of [] \<Rightarrow> Inl UnknownReference
     | [r] \<Rightarrow> Inr r
     | matched \<Rightarrow> Inl (Ambiguous (map (\<lambda>r. fp_short (al_fingerprint (ar_alert r))) (take 5 matched)))))"

definition resolve_reference :: "regex_engine \<Rightarrow> string \<Rightarrow> db \<Rightarrow> resolve_error + alert_record" where
  "resolve_reference rx raw db = (let reference = trim raw in
     case by_fingerprint reference db of Some r \<Rightarrow> Inr r
   | None \<Rightarrow> (case by_card reference db of Some r \<Rightarrow> Inr r | None \<Rightarrow> by_scan rx reference db))"

section \<open>Durations\<close>

text \<open>
  \<open>Duration::minutes\<close> and its relatives panic outside chrono's range, and so does adding a duration to an instant that
  takes it past chrono's last one. The process aborts on a panic; \<open>None\<close> is that outcome.
\<close>

definition MAX_INSTANT :: time where "MAX_INSTANT = 8210266876799999999"

definition instant_after :: "time \<Rightarrow> duration \<Rightarrow> time option" where
  "instant_after t d = (if t + d \<le> MAX_INSTANT then Some (t + d) else None)"

definition unit_seconds :: "string \<Rightarrow> int option" where
  "unit_seconds = map_of [('''', 60), (''m'', 60), (''min'', 60), (''mins'', 60), (''s'', 1), (''sec'', 1), (''secs'', 1),
     (''h'', 3600), (''hr'', 3600), (''hrs'', 3600), (''d'', 86400), (''day'', 86400), (''days'', 86400),
     (''w'', 604800), (''week'', 604800), (''weeks'', 604800)]"

definition parse_duration :: "string \<Rightarrow> (string + duration) option" where
  "parse_duration s = (let raw = trim s; digits = takeWhile is_digit raw; unit = trim (dropWhile is_digit raw) in
     case parse_i64 digits of None \<Rightarrow> Some (Inl (quoted raw @ '' is not a duration; try '' @ quoted ''30m'' @ '', '' @ quoted ''2h'' @ '' or '' @ quoted ''1d''))
   | Some n \<Rightarrow> (case unit_seconds unit of
       None \<Rightarrow> Some (Inl (quoted unit @ '' is not a unit; try '' @ quoted ''m'' @ '', '' @ quoted ''h'' @ '', '' @ quoted ''d'' @ '' or '' @ quoted ''w''))
     | Some u \<Rightarrow> (case duration_seconds (n * u) of None \<Rightarrow> None
       | Some d \<Rightarrow> Some (if d \<le> 0 then Inl ''a duration has to be positive'' else Inr d))))"

section \<open>The detail view\<close>

definition CODE_FENCE :: string where "CODE_FENCE = [CHR 0x60, CHR 0x60, CHR 0x60]"

definition detail_status :: "alert \<Rightarrow> notification_state option \<Rightarrow> ack_row option \<Rightarrow> string" where
  "detail_status a state held = (case held of
     Some h \<Rightarrow> ''Acknowledged by '' @ mention_user (ak_user_id h) @ '' '' @ relative (ak_created_at h)
   | None \<Rightarrow> (case state of Some s \<Rightarrow> state_str s | None \<Rightarrow> alert_status_str (al_status a)))"

definition label_block :: "alert \<Rightarrow> string" where
  "label_block a = CODE_FENCE @ NEWLINE @
     concat (map (\<lambda>(n, v). name_str n @ ''='' @ v @ NEWLINE) (al_labels a)) @ CODE_FENCE"

definition annotation_block :: "alert \<Rightarrow> string" where
  "annotation_block a = (if al_annotations a = [] then []
     else CODE_FENCE @ NEWLINE @ concat (map (\<lambda>(n, v). n @ '': '' @ v @ NEWLINE) (al_annotations a)) @ CODE_FENCE)"

definition code_list :: "string list \<Rightarrow> string" where
  "code_list vs = join '', '' (map quoted vs)"

definition detail_title :: "alert \<Rightarrow> string" where
  "detail_title a = ''['' @ ascii_upper (severity_str (alert_severity a)) @ ''] '' @ alert_name a"

definition detail_fields :: "alert_record \<Rightarrow> ack_row option \<Rightarrow> notification_state option \<Rightarrow> field list" where
  "detail_fields r held state = (let a = ar_alert r in
     [(''Status'', detail_status a state held, True), (''Since'', relative (al_starts_at a), True),
      (''First seen'', relative (ar_first_seen_at r), True)] @
     (if 0 < ar_flap_count r then [(''Flapped'', TIMES_SIGN @ show_nat (ar_flap_count r), True)] else []) @
     opt_field (al_ends_at a) (\<lambda>t. (''Ended'', relative t, True)) @
     (if al_silenced_by a = [] then [] else [(''Silenced by'', code_list (al_silenced_by a), False)]) @
     (if al_inhibited_by a = [] then [] else [(''Inhibited by'', code_list (al_inhibited_by a), False)]) @
     [(''Labels'', truncated (label_block a) 1024, False)] @
     (if annotation_block a = [] then [] else [(''Annotations'', truncated (annotation_block a) 1024, False)]))"

definition detail_embed :: "alert_record \<Rightarrow> ack_row option \<Rightarrow> notification_state option \<Rightarrow> time \<Rightarrow> embed" where
  "detail_embed r held state now = (let a = ar_alert r in
     \<lparr>em_title = Some (truncated (detail_title a) 256),
      em_description = map_option (\<lambda>s. truncated s 4096) (bt_get (al_annotations a) ''summary''), em_colour = None,
      em_fields = detail_fields r held state,
      em_footer = Some (fp_short (al_fingerprint a) @ dot_sep @ am_state_str (al_am_state a)), em_timestamp = Some now\<rparr>)"

definition link_row :: "drawing \<Rightarrow> alert \<Rightarrow> time \<Rightarrow> action_row option" where
  "link_row dr a now = (case draw_links dr a now of [] \<Rightarrow> None
   | links \<Rightarrow> Some (Buttons (map (\<lambda>l. LinkButton (rl_url l) (truncated (rl_label l) 80)) (take 5 links))))"

section \<open>Pages\<close>

definition wrap_u32 :: "nat \<Rightarrow> nat" where "wrap_u32 n = n mod (u32_max + 1)"

definition page_button :: "list_filter \<Rightarrow> nat \<Rightarrow> string \<Rightarrow> button option" where
  "page_button f offset label = (case encode_custom_id (with_argument ActPage 0 (pack f offset)) of
     Inl _ \<Rightarrow> None | Inr i \<Rightarrow> Some (IdButton i label Secondary False))"

text \<open>\<open>None\<close> is the code's \<open>?\<close> on a control that does not fit, which drops the whole row.\<close>

definition page_buttons :: "list_filter \<Rightarrow> nat \<Rightarrow> nat \<Rightarrow> button list option" where
  "page_buttons f offset listed = (let ahead = wrap_u32 (offset + lf_limit f);
       back = (if 0 < offset then map_option (\<lambda>b. [b]) (page_button f (offset - lf_limit f) ''Previous'') else Some [])
     in case back of None \<Rightarrow> None
      | Some bs \<Rightarrow> if ahead < listed then map_option (\<lambda>b. bs @ [b]) (page_button f ahead ''Next'') else Some bs)"

definition page_row :: "list_filter \<Rightarrow> nat \<Rightarrow> nat \<Rightarrow> action_row option" where
  "page_row f offset listed = (case page_buttons f offset listed of None \<Rightarrow> None
   | Some [] \<Rightarrow> None | Some bs \<Rightarrow> Some (Buttons bs))"

definition list_line :: "alert_record \<Rightarrow> string" where
  "list_line r = (let a = ar_alert r in
     quoted (fp_short (al_fingerprint a)) @ '' **'' @ alert_name a @ ''** '' @ EM_DASH @ '' '' @
     severity_str (alert_severity a) @ dot_sep @ relative (al_starts_at a))"

definition page_embed :: "nat \<Rightarrow> alert_record page \<Rightarrow> embed" where
  "page_embed offset page = new_embed\<lparr>em_title := Some ''Alerts'',
     em_description := Some (truncated (join NEWLINE (map list_line (pg_items page))) 4096),
     em_footer := Some (show_nat (wrap_u32 (offset + 1)) @ EN_DASH @ show_nat (page_end page) @ '' of '' @ show_nat (pg_total page))\<rparr>"

end
