(* ===== verification/Discord_Capability.thy ===== *)
theory Discord_Capability
  imports Discord_Text
begin

text \<open>
  Who may do what (\<open>discord/src/capability.rs\<close>, and the section of the configuration it is compiled from,
  \<open>config/src/discord.rs\<close>): four ordered levels, a list of grants for each, and the rule that a grant at a level is a
  grant at every level below it.
\<close>

datatype capability = View | Operate | Silence | Admin

instantiation capability :: linorder
begin

definition capability_rank :: "capability \<Rightarrow> nat" where
  "capability_rank c = (case c of View \<Rightarrow> 0 | Operate \<Rightarrow> 1 | Silence \<Rightarrow> 2 | Admin \<Rightarrow> 3)"

definition less_eq_capability :: "capability \<Rightarrow> capability \<Rightarrow> bool" where
  "less_eq_capability a b \<longleftrightarrow> capability_rank a \<le> capability_rank b"

definition less_capability :: "capability \<Rightarrow> capability \<Rightarrow> bool" where
  "less_capability a b \<longleftrightarrow> capability_rank a < capability_rank b"

instance
  by standard (auto simp: less_eq_capability_def less_capability_def capability_rank_def split: capability.splits)

end

definition capability_str :: "capability \<Rightarrow> string" where
  "capability_str c = (case c of View \<Rightarrow> ''view'' | Operate \<Rightarrow> ''operate'' | Silence \<Rightarrow> ''silence'' | Admin \<Rightarrow> ''admin'')"

record capabilities_config =
  cc_view :: "string list"
  cc_operate :: "string list"
  cc_silence :: "string list"
  cc_admin :: "string list"

definition default_capabilities :: capabilities_config where
  "default_capabilities = \<lparr>cc_view = [''@everyone''], cc_operate = [], cc_silence = [], cc_admin = []\<rparr>"

datatype grant = Everyone | RoleGrant role_id | NamedGrant string

definition parse_grant :: "string \<Rightarrow> grant" where
  "parse_grant entry = (let entry = trim entry in
     if eq_ignore_ascii_case entry ''@everyone'' then Everyone
     else let name = (case strip_prefix ''role:'' entry of Some n \<Rightarrow> n | None \<Rightarrow> entry)
       in case parse_u64 name of None \<Rightarrow> NamedGrant name | Some i \<Rightarrow> RoleGrant i)"

fun describe_grant :: "grant \<Rightarrow> string" where
  "describe_grant Everyone = ''@everyone''"
| "describe_grant (RoleGrant i) = ''<@&'' @ show_nat (unat i) @ ''>''"
| "describe_grant (NamedGrant name) = ''role '' @ quoted name"

record capability_map =
  cm_view :: "grant list"
  cm_operate :: "grant list"
  cm_silence :: "grant list"
  cm_admin :: "grant list"

definition new_capability_map :: "capabilities_config \<Rightarrow> capability_map" where
  "new_capability_map c = \<lparr>cm_view = map parse_grant (cc_view c), cm_operate = map parse_grant (cc_operate c),
     cm_silence = map parse_grant (cc_silence c), cm_admin = map parse_grant (cc_admin c)\<rparr>"

fun grants_at :: "capability_map \<Rightarrow> capability \<Rightarrow> grant list" where
  "grants_at m View = cm_view m"
| "grants_at m Operate = cm_operate m"
| "grants_at m Silence = cm_silence m"
| "grants_at m Admin = cm_admin m"

fun grant_holds :: "role_id list \<Rightarrow> string list \<Rightarrow> grant \<Rightarrow> bool" where
  "grant_holds roles names Everyone = True"
| "grant_holds roles names (RoleGrant i) = (i \<in> set roles)"
| "grant_holds roles names (NamedGrant name) = (\<exists>held \<in> set names. eq_ignore_ascii_case held name)"

definition granted :: "capability_map \<Rightarrow> capability \<Rightarrow> role_id list \<Rightarrow> string list \<Rightarrow> bool" where
  "granted m c roles names \<longleftrightarrow> (\<exists>g \<in> set (grants_at m c). grant_holds roles names g)"

definition allows :: "capability_map \<Rightarrow> capability \<Rightarrow> role_id list \<Rightarrow> string list \<Rightarrow> bool" where
  "allows m c roles names \<longleftrightarrow>
     (\<exists>level \<in> set (filter (\<lambda>level. c \<le> level) [View, Operate, Silence, Admin]). granted m level roles names)"

definition describe_capabilities :: "capability_map \<Rightarrow> string" where
  "describe_capabilities m = join NEWLINE (map (\<lambda>(c, grants). quoted (capability_str c) @ '' '' @ EM_DASH @ '' '' @
     (if grants = [] then ''nobody'' else join '', '' (map describe_grant grants)))
     [(View, cm_view m), (Operate, cm_operate m), (Silence, cm_silence m), (Admin, cm_admin m)])"

lemma allows_iff: "allows m c roles names \<longleftrightarrow> (\<exists>level \<ge> c. granted m level roles names)"
proof -
  have "level \<in> set [View, Operate, Silence, Admin]" for level by (cases level) auto
  then show ?thesis unfolding allows_def by (simp only: set_filter) blast
qed

lemma allows_mono: "allows m c roles names \<Longrightarrow> c' \<le> c \<Longrightarrow> allows m c' roles names"
  unfolding allows_iff using order_trans by blast

end
