(* ===== verification/Discord_Bot.thy ===== *)
theory Discord_Bot
  imports Result_State Discord_Views Discord_Capability Engine_Config Sqlite_System
begin

text \<open>
  The state the gateway's handlers share with the pipeline, the mutations a person can ask for and the gateway's own
  events (\<open>discord/src/bot.rs\<close>, \<open>actions.rs\<close>). A handler is an action of \<open>Result_State\<close>: it stops with a refusal the
  caller is told, or because the process aborted on a panic (the release profile aborts). A clock gives the instants a
  handler reads, by the order of the readings. Discord and Alertmanager are functions on a world.
\<close>

section \<open>State and errors\<close>

datatype command_error = DeniedError capability | BadRequest string | FailedError string

fun command_error_str :: "command_error \<Rightarrow> string" where
  "command_error_str (DeniedError c) = ''you need the '' @ quoted (capability_str c) @ '' capability to do that''"
| "command_error_str (BadRequest s) = s"
| "command_error_str (FailedError s) = s"

fun command_error_result :: "command_error \<Rightarrow> audit_result" where
  "command_error_result (DeniedError _) = AuditDenied"
| "command_error_result (BadRequest _) = AuditError"
| "command_error_result (FailedError _) = AuditError"

datatype stop = Refused command_error | Aborted

record response =
  rs_text :: "string option"
  rs_embed :: "embed option"
  rs_rows :: "action_row list"
  rs_subject :: "string option"
  rs_detail :: json

definition empty_response :: response where
  "empty_response = \<lparr>rs_text = None, rs_embed = None, rs_rows = [], rs_subject = None, rs_detail = JNull\<rparr>"

definition text_response :: "string \<Rightarrow> response" where
  "text_response t = empty_response\<lparr>rs_text := Some t\<rparr>"

definition embed_response :: "embed \<Rightarrow> response" where
  "embed_response e = empty_response\<lparr>rs_embed := Some e\<rparr>"

definition with_rows :: "action_row list \<Rightarrow> response \<Rightarrow> response" where
  "with_rows rows r = r\<lparr>rs_rows := rows\<rparr>"

definition with_row :: "action_row option \<Rightarrow> response \<Rightarrow> response" where
  "with_row row r = r\<lparr>rs_rows := rs_rows r @ (case row of None \<Rightarrow> [] | Some x \<Rightarrow> [x])\<rparr>"

definition about :: "string \<Rightarrow> response \<Rightarrow> response" where
  "about subject r = r\<lparr>rs_subject := Some subject\<rparr>"

definition detailed :: "json \<Rightarrow> response \<Rightarrow> response" where
  "detailed detail r = r\<lparr>rs_detail := detail\<rparr>"

record reply =
  rp_content :: "string option"
  rp_embed :: "embed option"
  rp_rows :: "action_row list"

definition edit_response :: "response \<Rightarrow> reply" where
  "edit_response r = (case (rs_text r, rs_embed r) of
     (t, Some e) \<Rightarrow> \<lparr>rp_content = Some (case t of Some x \<Rightarrow> x | None \<Rightarrow> []), rp_embed = Some e, rp_rows = rs_rows r\<rparr>
   | (Some t, None) \<Rightarrow> \<lparr>rp_content = Some t, rp_embed = None, rp_rows = rs_rows r\<rparr>
   | (None, None) \<Rightarrow> \<lparr>rp_content = Some ''Done.'', rp_embed = None, rp_rows = rs_rows r\<rparr>)"

record 'w bot =
  bt_db :: db
  bt_tables :: routing_tables
  bt_routing :: routing_snapshot
  bt_world :: 'w

record 'w bot_context =
  bc_am :: "'w alertmanager"
  bc_sink :: "'w discord_sink"
  bc_drawing :: drawing
  bc_regex :: regex_engine
  bc_defaults :: route_defaults
  bc_decisions :: decision_settings
  bc_capabilities :: capability_map
  bc_defer :: "'w \<Rightarrow> bool \<times> 'w"
  bc_answer :: "reply \<Rightarrow> 'w \<Rightarrow> 'w"

type_synonym ('w, 'a) handler = "'w bot \<Rightarrow> (stop + 'a) \<times> 'w bot"

section \<open>Steps\<close>

definition refuse :: "command_error \<Rightarrow> ('w, 'a) handler" where
  "refuse e = act_fail (Refused e)"

definition look :: "('w bot \<Rightarrow> 'a) \<Rightarrow> ('w, 'a) handler" where
  "look f = (\<lambda>s. (Inr (f s), s))"

definition on_db :: "(db \<Rightarrow> 'a \<times> db) \<Rightarrow> ('w, 'a) handler" where
  "on_db f = (\<lambda>s. let (r, db) = f (bt_db s) in (Inr r, s\<lparr>bt_db := db\<rparr>))"

definition on_tables :: "(routing_tables \<Rightarrow> 'a \<times> routing_tables) \<Rightarrow> ('w, 'a) handler" where
  "on_tables f = (\<lambda>s. let (r, t) = f (bt_tables s) in (Inr r, s\<lparr>bt_tables := t\<rparr>))"

definition on_world :: "('w \<Rightarrow> 'a \<times> 'w) \<Rightarrow> ('w, 'a) handler" where
  "on_world f = (\<lambda>s. let (r, w) = f (bt_world s) in (Inr r, s\<lparr>bt_world := w\<rparr>))"

text \<open>\<open>map_err(\<dots>)?\<close>, \<open>ok_or_else(\<dots>)?\<close>, and a value whose computation may panic.\<close>

definition or_refuse :: "('e \<Rightarrow> command_error) \<Rightarrow> 'e + 'a \<Rightarrow> ('w, 'a) handler" where
  "or_refuse f r = (case r of Inl e \<Rightarrow> refuse (f e) | Inr x \<Rightarrow> act_ret x)"

abbreviation or_failed :: "store_error + 'a \<Rightarrow> ('w, 'a) handler" where
  "or_failed \<equiv> or_refuse (\<lambda>e. FailedError (store_error_str e))"

abbreviation am_or_failed :: "am_error + 'a \<Rightarrow> ('w, 'a) handler" where
  "am_or_failed \<equiv> or_refuse (\<lambda>e. FailedError (am_error_str e))"

abbreviation or_bad :: "core_error + 'a \<Rightarrow> ('w, 'a) handler" where
  "or_bad \<equiv> or_refuse (\<lambda>e. BadRequest (core_error_str e))"

definition some_or_bad :: "string \<Rightarrow> 'a option \<Rightarrow> ('w, 'a) handler" where
  "some_or_bad msg x = some_or (Refused (BadRequest msg)) x"

definition or_abort :: "'a option \<Rightarrow> ('w, 'a) handler" where
  "or_abort x = some_or Aborted x"

definition duration_of :: "string \<Rightarrow> ('w, duration) handler" where
  "duration_of raw = act_bind (or_abort (parse_duration raw)) (or_refuse BadRequest)"

section \<open>The shared operations\<close>

definition bot_audit :: "audit_entry \<Rightarrow> ('w, unit) handler" where
  "bot_audit e = act_bind (on_db (append_audit e)) (\<lambda>_. act_ret ())"

definition bot_enqueue :: "new_outbox_item list \<Rightarrow> time \<Rightarrow> ('w, store_error + unit) handler" where
  "bot_enqueue items now = (if items = [] then act_ret (Inr ()) else on_db (enqueue_effects items now))"

definition re_render :: "notification list \<Rightarrow> clock \<Rightarrow> ('w, unit) handler" where
  "re_render cards k = act_bind
     (bot_enqueue (map (\<lambda>cd. outbox_now (EditCard (n_id cd)) (n_dedupe_key cd) (k 0)) cards) (k 1)) (\<lambda>_. act_ret ())"

definition refresh_routing :: "'w bot_context \<Rightarrow> time \<Rightarrow> ('w, unit) handler" where
  "refresh_routing bc now = (\<lambda>s. case snapshot_of (bc_regex bc) now (bt_tables s) of
     Inl _ \<Rightarrow> (Inr (), s) | Inr sn \<Rightarrow> (Inr (), s\<lparr>bt_routing := sn\<rparr>))"

text \<open>The readings of a clock after the first \<open>n\<close>.\<close>

definition later :: "clock \<Rightarrow> nat \<Rightarrow> clock" where
  "later k n = (\<lambda>i. k (n + i))"

section \<open>Actions\<close>

definition acknowledge_alert ::
  "fingerprint \<Rightarrow> user_id \<Rightarrow> ack_kind \<Rightarrow> string option \<Rightarrow> bool \<Rightarrow> clock \<Rightarrow> ('w, store_error + ack_outcome) handler" where
  "acknowledge_alert f user kind text revoke k = act_bind
     (on_db (acknowledge \<lparr>ac_fingerprint = f, ac_user_id = user, ac_kind = kind, ac_note = text, ac_revoke = revoke, ac_at = k 0\<rparr>))
     (\<lambda>r. case r of Inl e \<Rightarrow> act_ret (Inl e)
      | Inr out \<Rightarrow> if ao_changed out then act_bind (re_render (ao_cards out) (later k 1)) (\<lambda>_. act_ret (Inr out))
          else act_ret (Inr out))"

record silence_ask =
  sa_matchers :: string
  sa_duration :: duration
  sa_created_by :: string
  sa_comment :: string
  sa_actor :: user_id
  sa_origin :: "string option"
  sa_key :: dedupe_key

definition silence_request_of :: "silence_ask \<Rightarrow> time \<Rightarrow> time \<Rightarrow> silence_effect" where
  "silence_request_of q starts ends = \<lparr>sf_am_id = None, sf_matchers = sa_matchers q, sf_starts_at = starts,
     sf_ends_at = ends, sf_created_by = sa_created_by q, sf_comment = sa_comment q, sf_discord_user_id = Some (sa_actor q),
     sf_origin_message = sa_origin q\<rparr>"

definition queue_silence :: "silence_ask \<Rightarrow> clock \<Rightarrow> ('w, store_error + time) handler" where
  "queue_silence q k = act_bind (or_abort (instant_after (k 0) (sa_duration q))) (\<lambda>ends.
     act_bind (bot_enqueue [outbox_now (CreateSilence (silence_request_of q (k 0) ends)) (sa_key q) (k 0)] (k 1))
       (\<lambda>r. act_ret (map_sum id (\<lambda>_. ends) r)))"

record new_ignore =
  ni_guild :: guild_id
  ni_channel :: "channel_id option"
  ni_matchers :: string
  ni_reason :: string
  ni_actor :: user_id
  ni_expires_at :: "time option"

definition ignore_rule_of :: "new_ignore \<Rightarrow> matcher_set \<Rightarrow> time \<Rightarrow> ignore_rule" where
  "ignore_rule_of q ms now = \<lparr>ig_id = 0, ig_scope = (if ni_channel q = None then IgnoreGuild else IgnoreChannel),
     ig_guild_id = ni_guild q, ig_channel_id = ni_channel q, ig_matcher_source = ni_matchers q, ig_matchers = ms,
     ig_reason = ni_reason q, ig_created_by = ni_actor q, ig_created_at = now, ig_expires_at = ni_expires_at q,
     ig_revoked_at = None\<rparr>"

definition add_ignore :: "'w bot_context \<Rightarrow> new_ignore \<Rightarrow> clock \<Rightarrow> ('w, store_error + ignore_id) handler" where
  "add_ignore bc q k = (case parse_matchers (bc_regex bc) (ni_matchers q) of
     Inl e \<Rightarrow> act_ret (Inl (Decode ''matcher expression'' (core_error_str e)))
   | Inr ms \<Rightarrow> act_bind (on_tables (upsert_ignore (ignore_rule_of q ms (k 0)))) (\<lambda>r. case r of Inl e \<Rightarrow> act_ret (Inl e)
       | Inr i \<Rightarrow> act_bind (refresh_routing bc (k 1)) (\<lambda>_. act_ret (Inr i))))"

definition silence_key :: "alert_record option \<Rightarrow> dedupe_key" where
  "silence_key r = (case r of Some x \<Rightarrow> per_alert (al_fingerprint (ar_alert x)) | None \<Rightarrow> DedupeKey ''silence'')"

section \<open>Events\<close>

text \<open>A message in any channel; \<open>author_bot\<close> tells the bots' own.\<close>

definition on_message :: "channel_id \<Rightarrow> user_id \<Rightarrow> bool \<Rightarrow> clock \<Rightarrow> ('w, unit) handler" where
  "on_message channel author author_bot k = (if author_bot then act_ret ()
     else act_bind (on_db (record_reply \<lparr>tr_thread_id = channel, tr_author_id = author, tr_at = k 0\<rparr>))
       (\<lambda>r. case r of Inr (Some cd) \<Rightarrow> re_render [cd] (later k 1) | _ \<Rightarrow> act_ret ()))"

definition policy_tags :: "forum_policy \<Rightarrow> tag_spec list" where
  "policy_tags p = (let st = fp_state_tags p;
       names = [st_firing st, st_acked st, st_silenced st, st_resolved st] @
         (if fp_severity_tags p then map severity_str [Critical, Warning, Info] else []) @
         (case fp_default_tag p of Some d \<Rightarrow> [d] | None \<Rightarrow> [])
     in map (\<lambda>n. \<lparr>ts_name = n, ts_moderated = False\<rparr>) (remdups_adj (sort (filter (\<lambda>n. n \<noteq> []) names))))"

definition read_tags :: "'w bot_context \<Rightarrow> channel_id \<Rightarrow> forum_policy \<Rightarrow> ('w, forum_tag list) call" where
  "read_tags bc channel p = (if fp_manage_tags p then dk_ensure_forum_tags (bc_sink bc) channel (policy_tags p)
     else dk_forum_tags (bc_sink bc) channel)"

fun cache_tags :: "'w bot_context \<Rightarrow> route list \<Rightarrow> bool \<Rightarrow> ('w, bool) handler" where
  "cache_tags bc [] changed = act_ret changed"
| "cache_tags bc (r # rs) changed = (case rt_target r of
     ForumTarget channel p \<Rightarrow> act_bind (on_world (read_tags bc channel p)) (\<lambda>answer. case answer of
         Inl _ \<Rightarrow> cache_tags bc rs changed
       | Inr tags \<Rightarrow> act_bind (on_tables (sync_forum_tags channel tags)) (\<lambda>r. case r of
           Inl _ \<Rightarrow> cache_tags bc rs changed | Inr _ \<Rightarrow> cache_tags bc rs True))
   | _ \<Rightarrow> cache_tags bc rs changed)"

definition on_ready :: "'w bot_context \<Rightarrow> time \<Rightarrow> ('w, unit) handler" where
  "on_ready bc now = act_bind (look (\<lambda>s. sn_routes (bt_routing s))) (\<lambda>routes.
     act_bind (cache_tags bc routes False) (\<lambda>changed. if changed then refresh_routing bc now else act_ret ()))"

end
