(* ===== verification/Discord_Components.thy ===== *)
theory Discord_Components
  imports Discord_Bot
begin

text \<open>
  The buttons and selects on a card (\<open>discord/src/components.rs\<close>): what an interaction carries, the handler of each
  control, and the dispatcher that defers, decodes, checks the capability, acts, writes the audit row and answers.
\<close>

section \<open>Interactions\<close>

text \<open>The roles of the guild as the cache holds them, when it does.\<close>

record interaction =
  in_user :: user_id
  in_user_name :: string
  in_guild :: "guild_id option"
  in_channel :: channel_id
  in_member :: "role_id list option"
  in_cached_roles :: "(role_id \<times> string) list option"

record press = interaction +
  in_custom_id :: string
  in_values :: "string list option"
  in_message_link :: string

definition member_roles :: "('z) interaction_scheme \<Rightarrow> role_id list \<times> string list" where
  "member_roles i = (case in_member i of None \<Rightarrow> ([], [])
   | Some roles \<Rightarrow> (roles, case (in_guild i, in_cached_roles i) of
       (Some _, Some known) \<Rightarrow> List.map_filter (map_of known) roles
     | _ \<Rightarrow> []))"

definition permitted :: "'w bot_context \<Rightarrow> ('z) interaction_scheme \<Rightarrow> capability \<Rightarrow> bool" where
  "permitted bc i c = (let (roles, names) = member_roles i in allows (bc_capabilities bc) c roles names)"

definition provenance :: "('z) interaction_scheme \<Rightarrow> string" where
  "provenance i = ''discord:'' @ in_user_name i @ '' ('' @ show_nat (unat (in_user i)) @ '')''"

definition error_detail :: "command_error \<Rightarrow> json" where
  "error_detail e = JObj [(''error'', JStr (command_error_str e))]"

definition DURATIONS :: "(string \<times> string) list" where
  "DURATIONS = [(''30m'', ''30 minutes''), (''1h'', ''1 hour''), (''4h'', ''4 hours''), (''12h'', ''12 hours''),
     (''1d'', ''1 day''), (''7d'', ''7 days'')]"

section \<open>Controls\<close>

fun needed :: "action \<Rightarrow> capability" where
  "needed ActDetails = View"
| "needed ActPage = View"
| "needed ActAck = Operate"
| "needed ActUnack = Operate"
| "needed ActIgnoreMenu = Operate"
| "needed ActIgnoreFor = Operate"
| "needed ActSilenceMenu = Silence"
| "needed ActSilenceFor = Silence"

definition control_card :: "custom_id \<Rightarrow> ('w, notification) handler" where
  "control_card c = act_bind (look (\<lambda>s. notification_by_id (ci_entity c) (bt_db s)))
     (some_or_bad (''that card is no longer in the database. Use '' @ quoted ''/alerts show'' @ ''.''))"

definition control_alert :: "notification \<Rightarrow> ('w, alert_record) handler" where
  "control_alert cd = act_bind (look (\<lambda>s. read_alert (n_fingerprint cd) (bt_db s)))
     (some_or_bad ''that alert is no longer in the database'')"

definition ack_text :: "bool \<Rightarrow> ack_outcome \<Rightarrow> string \<Rightarrow> string \<Rightarrow> string" where
  "ack_text revoke out taken lost = (if revoke
     then (if ao_changed out then ''Released. The card is back to firing.'' else ''Nobody was holding that alert.'')
     else if ao_changed out then taken
     else case ao_holder out of Some h \<Rightarrow> mention_user h @ lost | None \<Rightarrow> ''That alert could not be taken.'')"

definition ack_detail :: "bool \<Rightarrow> ack_outcome \<Rightarrow> json" where
  "ack_detail revoke out = JObj [(''changed'', JBool (ao_changed out)), (''revoke'', JBool revoke)]"

definition press_ack :: "press \<Rightarrow> custom_id \<Rightarrow> bool \<Rightarrow> clock \<Rightarrow> ('w, response) handler" where
  "press_ack i c revoke k = act_bind (control_card c) (\<lambda>cd.
     act_bind (acknowledge_alert (n_fingerprint cd) (in_user i) Ack None revoke k) (\<lambda>r. act_bind (or_failed r) (\<lambda>out.
       act_ret (detailed (ack_detail revoke out) (about (fp_str (n_fingerprint cd))
         (text_response (ack_text revoke out ''Taken. The card is updating.'' '' got there first.'')))))))"

definition picker :: "custom_id \<Rightarrow> action \<Rightarrow> string \<Rightarrow> response" where
  "picker c a prompt = (case encode_custom_id (new_custom_id a (ci_entity c)) of
     Inl _ \<Rightarrow> text_response ''That control is from an older version of the bot.''
   | Inr i \<Rightarrow> with_rows [SelectMenu i ''Pick a duration'' (map (\<lambda>(v, label). (label, v)) DURATIONS)] (text_response prompt))"

definition chosen :: "press \<Rightarrow> custom_id \<Rightarrow> ('w, string) handler" where
  "chosen i c = (case in_values i of Some (v # _) \<Rightarrow> act_ret v
   | _ \<Rightarrow> some_or_bad ''that control carried no duration'' (ci_argument c))"

definition until_detail :: "time \<Rightarrow> json" where
  "until_detail t = JObj [(''until'', JTime t)]"

definition card_silence :: "press \<Rightarrow> alert_record \<Rightarrow> duration \<Rightarrow> silence_ask" where
  "card_silence i r d = \<lparr>sa_matchers = matchers_of (ar_alert r), sa_duration = d, sa_created_by = provenance i,
     sa_comment = ''silenced from the card for '' @ alert_name (ar_alert r) @ '' by '' @ in_user_name i,
     sa_actor = in_user i, sa_origin = Some (in_message_link i), sa_key = silence_key (Some r)\<rparr>"

definition press_silence :: "press \<Rightarrow> custom_id \<Rightarrow> clock \<Rightarrow> ('w, response) handler" where
  "press_silence i c k = act_bind (control_card c) (\<lambda>cd. act_bind (chosen i c) (\<lambda>raw. act_bind (duration_of raw) (\<lambda>d.
     act_bind (control_alert cd) (\<lambda>r. act_bind (queue_silence (card_silence i r d) k) (\<lambda>q. act_bind (or_failed q) (\<lambda>ends.
       act_ret (detailed (until_detail ends) (about (fp_str (n_fingerprint cd)) (text_response
         (''Alertmanager will stay quiet about this until '' @ relative ends @
          ''. Every receiver is affected, not just Discord.''))))))))))"

definition card_ignore :: "press \<Rightarrow> notification \<Rightarrow> alert_record \<Rightarrow> time \<Rightarrow> new_ignore" where
  "card_ignore i cd r expires = \<lparr>ni_guild = n_guild_id cd, ni_channel = Some (in_channel i),
     ni_matchers = matchers_of (ar_alert r), ni_reason = ''muted from the card by '' @ in_user_name i,
     ni_actor = in_user i, ni_expires_at = Some expires\<rparr>"

definition press_ignore :: "'w bot_context \<Rightarrow> press \<Rightarrow> custom_id \<Rightarrow> clock \<Rightarrow> ('w, response) handler" where
  "press_ignore bc i c k = act_bind (control_card c) (\<lambda>cd. act_bind (chosen i c) (\<lambda>raw. act_bind (duration_of raw) (\<lambda>d.
     act_bind (control_alert cd) (\<lambda>r. act_bind (or_abort (instant_after (k 0) d)) (\<lambda>expires.
       act_bind (add_ignore bc (card_ignore i cd r expires) (later k 1)) (\<lambda>q. act_bind (or_failed q) (\<lambda>rule.
         act_ret (detailed (JObj [(''ignore'', JInt rule)]) (about (fp_str (n_fingerprint cd)) (text_response
           (''Rule '' @ quoted (show_int rule) @ '': this channel stays quiet about it until '' @ relative expires @
            ''. Alertmanager keeps notifying every other receiver.'')))))))))))"

definition press_details :: "'w bot_context \<Rightarrow> custom_id \<Rightarrow> clock \<Rightarrow> ('w, response) handler" where
  "press_details bc c k = act_bind (control_card c) (\<lambda>cd. act_bind (control_alert cd) (\<lambda>r.
     act_bind (look (\<lambda>s. acknowledgement (n_fingerprint cd) (bt_db s))) (\<lambda>held.
       act_ret (about (fp_str (n_fingerprint cd)) (with_row (link_row (bc_drawing bc) (ar_alert r) (k 1))
         (embed_response (detail_embed r held (Some (n_state cd)) (k 0))))))))"

definition press_page :: "'w bot_context \<Rightarrow> custom_id \<Rightarrow> ('w, response) handler" where
  "press_page bc c = act_bind (some_or_bad (''That control is from an older version of the bot. Run '' @
       quoted ''/alerts list'' @ '' again.'') (unpack (case ci_argument c of Some a \<Rightarrow> a | None \<Rightarrow> []))) (\<lambda>(f, offset).
     act_bind (or_bad (filter_query (bc_regex bc) f offset)) (\<lambda>q.
       act_bind (look (\<lambda>s. query_alerts (bc_regex bc) core_error_str q (bt_db s))) (\<lambda>p. act_bind (or_failed p) (\<lambda>page.
         act_ret (if pg_items page = [] then text_response ''That page is empty now.''
           else with_row (page_row f offset (pg_total page)) (embed_response (page_embed offset page)))))))"

section \<open>Dispatch\<close>

definition silence_prompt :: string where
  "silence_prompt = ''How long should Alertmanager stay quiet about this? Every receiver stops, not just Discord.''"

definition ignore_prompt :: string where
  "ignore_prompt = ''How long should Discord stay quiet about this? Alertmanager keeps notifying every other receiver.''"

definition run_control :: "'w bot_context \<Rightarrow> press \<Rightarrow> custom_id \<Rightarrow> clock \<Rightarrow> ('w, response) handler" where
  "run_control bc i c k = (case ci_action c of
     ActAck \<Rightarrow> press_ack i c False k
   | ActUnack \<Rightarrow> press_ack i c True k
   | ActSilenceMenu \<Rightarrow> act_ret (picker c ActSilenceFor silence_prompt)
   | ActIgnoreMenu \<Rightarrow> act_ret (picker c ActIgnoreFor ignore_prompt)
   | ActSilenceFor \<Rightarrow> press_silence i c k
   | ActIgnoreFor \<Rightarrow> press_ignore bc i c k
   | ActDetails \<Rightarrow> press_details bc c k
   | ActPage \<Rightarrow> press_page bc c)"

fun explain_control :: "custom_id_error \<Rightarrow> string" where
  "explain_control (OldVersion _) = ''That control is from an older version of the bot. Use '' @ quoted ''/alerts show'' @ '' instead.''"
| "explain_control e = ''That control could not be read: '' @ custom_id_error_str e"

definition send_answer :: "'w bot_context \<Rightarrow> response \<Rightarrow> ('w, unit) handler" where
  "send_answer bc r = on_world (\<lambda>w. ((), bc_answer bc (edit_response r) w))"

text \<open>What both dispatchers do with an outcome; \<open>refused\<close> is the subject of a refusal's audit row.\<close>

definition outcome_entry ::
  "('z) interaction_scheme \<Rightarrow> string \<Rightarrow> string option \<Rightarrow> command_error + response \<Rightarrow> time \<Rightarrow> audit_entry" where
  "outcome_entry i act refused out now = (case out of
     Inr r \<Rightarrow> \<lparr>au_actor = Some (in_user i), au_guild_id = in_guild i, au_action = act, au_subject = rs_subject r,
       au_detail = rs_detail r, au_result = AuditOk, au_at = now\<rparr>
   | Inl e \<Rightarrow> \<lparr>au_actor = Some (in_user i), au_guild_id = in_guild i, au_action = act, au_subject = refused,
       au_detail = error_detail e, au_result = command_error_result e, au_at = now\<rparr>)"

definition outcome_response :: "command_error + response \<Rightarrow> response" where
  "outcome_response out = (case out of Inr r \<Rightarrow> r | Inl e \<Rightarrow> text_response (command_error_str e))"

text \<open>A handler's refusal as a value; an abort stays a stop.\<close>

definition caught :: "('w, 'a) handler \<Rightarrow> ('w, command_error + 'a) handler" where
  "caught m = (\<lambda>s. case m s of (Inr x, s') \<Rightarrow> (Inr (Inr x), s') | (Inl (Refused e), s') \<Rightarrow> (Inr (Inl e), s')
     | (Inl Aborted, s') \<Rightarrow> (Inl Aborted, s'))"

definition guarded :: "'w bot_context \<Rightarrow> ('z) interaction_scheme \<Rightarrow> capability \<Rightarrow> ('w, 'a) handler \<Rightarrow> ('w, 'a) handler" where
  "guarded bc i c m = (if permitted bc i c then m else refuse (DeniedError c))"

definition conclude ::
  "'w bot_context \<Rightarrow> ('z) interaction_scheme \<Rightarrow> string \<Rightarrow> string option \<Rightarrow> time \<Rightarrow> ('w, response) handler \<Rightarrow> ('w, unit) handler" where
  "conclude bc i act refused now m = act_bind (caught m) (\<lambda>out.
     act_bind (bot_audit (outcome_entry i act refused out now)) (\<lambda>_. send_answer bc (outcome_response out)))"

definition dispatch_press :: "'w bot_context \<Rightarrow> press \<Rightarrow> clock \<Rightarrow> ('w, unit) handler" where
  "dispatch_press bc i k = act_bind (on_world (bc_defer bc)) (\<lambda>deferred. if \<not> deferred then act_ret ()
     else case decode_custom_id (in_custom_id i) of
       Inl e \<Rightarrow> send_answer bc (text_response (explain_control e))
     | Inr c \<Rightarrow> conclude bc i (''component.'' @ action_str (ci_action c)) (Some (show_int (ci_entity c))) (k 9)
         (guarded bc i (needed (ci_action c)) (run_control bc i c k)))"

end
