(* ===== verification/Discord_Commands.thy ===== *)
theory Discord_Commands
  imports Discord_Components
begin

text \<open>
  The slash commands that read and change alerts, silences, ignore rules and subscriptions (\<open>discord/src/commands\<close>:
  \<open>mod.rs\<close>'s option helpers, \<open>alerts.rs\<close>, \<open>silences.rs\<close>, \<open>ignores.rs\<close>, \<open>subscriptions.rs\<close>): one definition per
  subcommand. The command definitions Discord is given are data for its client and are not modelled.
\<close>

section \<open>Options\<close>

datatype option_value =
    OptString string
  | OptInteger int
  | OptBoolean bool
  | OptUser user_id
  | OptChannel channel_id
  | OptRole role_id
  | SubCommand "(string \<times> option_value) list"
  | SubCommandGroup "(string \<times> option_value) list"
  | OptOther

type_synonym options = "(string \<times> option_value) list"

record command = interaction +
  in_command :: string
  in_options :: options

definition string_of :: "options \<Rightarrow> string \<Rightarrow> string option" where
  "string_of os n = (case map_of os n of Some (OptString v) \<Rightarrow> Some v | _ \<Rightarrow> None)"

definition integer_of :: "options \<Rightarrow> string \<Rightarrow> int option" where
  "integer_of os n = (case map_of os n of Some (OptInteger v) \<Rightarrow> Some v | _ \<Rightarrow> None)"

definition boolean_of :: "options \<Rightarrow> string \<Rightarrow> bool option" where
  "boolean_of os n = (case map_of os n of Some (OptBoolean v) \<Rightarrow> Some v | _ \<Rightarrow> None)"

definition user_of :: "options \<Rightarrow> string \<Rightarrow> user_id option" where
  "user_of os n = (case map_of os n of Some (OptUser v) \<Rightarrow> Some v | _ \<Rightarrow> None)"

definition channel_of :: "options \<Rightarrow> string \<Rightarrow> channel_id option" where
  "channel_of os n = (case map_of os n of Some (OptChannel v) \<Rightarrow> Some v | _ \<Rightarrow> None)"

definition role_of :: "options \<Rightarrow> string \<Rightarrow> role_id option" where
  "role_of os n = (case map_of os n of Some (OptRole v) \<Rightarrow> Some v | _ \<Rightarrow> None)"

definition or_empty :: "string option \<Rightarrow> string" where
  "or_empty x = (case x of Some s \<Rightarrow> s | None \<Rightarrow> [])"

definition subcommand :: "command \<Rightarrow> (string \<times> options) option" where
  "subcommand i = (case in_options i of
     (n, SubCommand os) # _ \<Rightarrow> Some (n, os)
   | (n, SubCommandGroup os) # _ \<Rightarrow> Some (n, os)
   | _ \<Rightarrow> None)"

definition require :: "'w bot_context \<Rightarrow> ('z) interaction_scheme \<Rightarrow> capability \<Rightarrow> ('w, unit) handler" where
  "require bc i c = (if permitted bc i c then act_ret () else refuse (DeniedError c))"

definition require_guild :: "('z) interaction_scheme \<Rightarrow> ('w, guild_id) handler" where
  "require_guild i = some_or_bad ''that command only works inside a server'' (in_guild i)"

definition needs_subcommand :: "string \<Rightarrow> string" where
  "needs_subcommand c = quoted (''/'' @ c) @ '' needs a subcommand''"

definition older_subcommand :: "string \<Rightarrow> string \<Rightarrow> string" where
  "older_subcommand c n = quoted (''/'' @ c @ '' '' @ n) @ '' belongs to an older version of the bot''"

definition resolved :: "'w bot_context \<Rightarrow> string \<Rightarrow> ('w, alert_record) handler" where
  "resolved bc reference = act_bind (look (\<lambda>s. resolve_reference (bc_regex bc) reference (bt_db s)))
     (or_refuse (\<lambda>e. BadRequest (resolve_error_str e)))"

definition record_text :: "alert_record \<Rightarrow> string" where
  "record_text r = fp_str (al_fingerprint (ar_alert r))"

section \<open>Alerts\<close>

definition list_filter_of :: "options \<Rightarrow> list_filter" where
  "list_filter_of os = \<lparr>lf_state = Option.bind (string_of os ''state'') state_from,
     lf_severity = Option.bind (string_of os ''severity'') severity_from, lf_matchers = or_empty (string_of os ''matcher''),
     lf_limit = (case integer_of os ''limit'' of Some n \<Rightarrow> if 0 \<le> n \<and> n \<le> int u32_max then nat n else PAGE_SIZE | None \<Rightarrow> PAGE_SIZE)\<rparr>"

definition alerts_page :: "'w bot_context \<Rightarrow> list_filter \<Rightarrow> nat \<Rightarrow> ('w, response) handler" where
  "alerts_page bc f offset = act_bind (or_bad (filter_query (bc_regex bc) f offset)) (\<lambda>q.
     act_bind (look (\<lambda>s. query_alerts (bc_regex bc) core_error_str q (bt_db s))) (\<lambda>p. act_bind (or_failed p) (\<lambda>page.
       act_ret (if pg_total page = 0 then text_response ''No alert matches that filter.''
         else with_row (page_row f offset (pg_total page)) (embed_response (page_embed offset page))))))"

definition alerts_show :: "'w bot_context \<Rightarrow> options \<Rightarrow> clock \<Rightarrow> ('w, response) handler" where
  "alerts_show bc os k = act_bind (resolved bc (or_empty (string_of os ''ref''))) (\<lambda>r.
     act_bind (look (\<lambda>s. acknowledgement (al_fingerprint (ar_alert r)) (bt_db s))) (\<lambda>held.
       act_ret (about (record_text r) (with_row (link_row (bc_drawing bc) (ar_alert r) (k 1))
         (embed_response (detail_embed r held None (k 0)))))))"

definition alerts_ack :: "'w bot_context \<Rightarrow> command \<Rightarrow> options \<Rightarrow> bool \<Rightarrow> clock \<Rightarrow> ('w, response) handler" where
  "alerts_ack bc i os revoke k = act_bind (require bc i Operate) (\<lambda>_. act_bind (resolved bc (or_empty (string_of os ''ref''))) (\<lambda>r.
     act_bind (acknowledge_alert (al_fingerprint (ar_alert r)) (in_user i) Ack (string_of os ''note'') revoke k) (\<lambda>a.
       act_bind (or_failed a) (\<lambda>out. act_ret (detailed (ack_detail revoke out) (about (record_text r)
         (text_response (ack_text revoke out (''Taken. '' @ show_nat (length (ao_cards out)) @ '' card(s) updated.'')
           '' already has that one.''))))))))"

definition alerts_assign :: "'w bot_context \<Rightarrow> command \<Rightarrow> options \<Rightarrow> clock \<Rightarrow> ('w, response) handler" where
  "alerts_assign bc i os k = act_bind (require bc i Operate) (\<lambda>_.
     act_bind (some_or_bad (quoted ''/alerts assign'' @ '' needs somebody to assign it to'') (user_of os ''user'')) (\<lambda>assignee.
     act_bind (resolved bc (or_empty (string_of os ''ref''))) (\<lambda>r. let f = al_fingerprint (ar_alert r) in
     act_bind (acknowledge_alert f (in_user i) Handover None True k) (\<lambda>a. act_bind (or_failed a) (\<lambda>_.
     act_bind (acknowledge_alert f assignee Handover (Some (''handed over by '' @ mention_user (in_user i))) False (later k 3))
       (\<lambda>b. act_bind (or_failed b) (\<lambda>out.
         if \<not> ao_changed out then refuse (FailedError ''the handover did not take; try again'')
         else act_ret (detailed (JObj [(''assignee'', JInt (int (unat assignee)))]) (about (record_text r)
           (text_response (mention_user assignee @ '' now has '' @ quoted (alert_name (ar_alert r)) @ ''.'')))))))))))"

definition run_alerts :: "'w bot_context \<Rightarrow> command \<Rightarrow> clock \<Rightarrow> ('w, response) handler" where
  "run_alerts bc i k = (case subcommand i of None \<Rightarrow> refuse (BadRequest (needs_subcommand ''alerts''))
   | Some (n, os) \<Rightarrow>
       if n = ''list'' then alerts_page bc (list_filter_of os) 0
       else if n = ''show'' then alerts_show bc os k
       else if n = ''ack'' then alerts_ack bc i os False k
       else if n = ''unack'' then alerts_ack bc i os True k
       else if n = ''assign'' then alerts_assign bc i os k
       else refuse (BadRequest (older_subcommand ''alerts'' n)))"

section \<open>Silences\<close>

definition SILENCES_SHOWN :: nat where "SILENCES_SHOWN = 15"

definition looks_like_matchers :: "string \<Rightarrow> bool" where
  "looks_like_matchers target \<longleftrightarrow> CHR ''='' \<in> set target \<or> contains ''!~'' target"

text \<open>The expression, the lane and the audit subject of a target.\<close>

definition silence_target :: "'w bot_context \<Rightarrow> string \<Rightarrow> ('w, string \<times> dedupe_key \<times> string) handler" where
  "silence_target bc target = (if looks_like_matchers target
     then act_bind (or_bad (parse_matchers (bc_regex bc) target)) (\<lambda>_. act_ret (target, silence_key None, target))
     else act_bind (resolved bc target) (\<lambda>r. act_ret (matchers_of (ar_alert r), silence_key (Some r), record_text r)))"

definition silences_create :: "'w bot_context \<Rightarrow> command \<Rightarrow> options \<Rightarrow> clock \<Rightarrow> ('w, response) handler" where
  "silences_create bc i os k = act_bind (require bc i Silence) (\<lambda>_. act_bind (duration_of (or_empty (string_of os ''duration''))) (\<lambda>d.
     act_bind (silence_target bc (or_empty (string_of os ''target''))) (\<lambda>(matchers, key, subject).
     act_bind (queue_silence \<lparr>sa_matchers = matchers, sa_duration = d, sa_created_by = provenance i,
         sa_comment = or_empty (string_of os ''comment''), sa_actor = in_user i, sa_origin = None, sa_key = key\<rparr> k) (\<lambda>q.
     act_bind (or_failed q) (\<lambda>ends. act_ret (detailed (JObj [(''matchers'', JStr matchers), (''until'', JTime ends)]) (about subject
       (text_response (''Silencing '' @ quoted (truncated matchers 200) @ '' until '' @ relative ends @ ''.'')))))))))"

definition silence_author :: "silence_link list \<Rightarrow> silence_record \<Rightarrow> string" where
  "silence_author known sil = (case Option.bind (find (\<lambda>l. sl_am_id l = sr_id sil) known) sl_discord_user_id of
     Some u \<Rightarrow> mention_user u | None \<Rightarrow> sr_created_by sil)"

definition set_display :: "matcher_set \<Rightarrow> string" where
  "set_display ms = join '', '' (map matcher_display ms)"

definition silence_line :: "silence_link list \<Rightarrow> silence_record \<Rightarrow> string" where
  "silence_line known sil = quoted (sr_id sil) @ '' '' @ EM_DASH @ '' '' @ truncated (set_display (sr_matchers sil)) 120 @
     dot_sep @ ''expires '' @ relative (sr_ends_at sil) @ dot_sep @ silence_author known sil"

definition listed_silences :: "string \<Rightarrow> silence_record list \<Rightarrow> silence_record list" where
  "listed_silences wanted sils = take SILENCES_SHOWN (filter (\<lambda>sil. is_in_force (sr_state sil) \<and>
     (wanted = [] \<or> contains wanted (set_display (sr_matchers sil)))) sils)"

text \<open>\<open>%H:%M UTC\<close>.\<close>

definition two_digits :: "int \<Rightarrow> string" where
  "two_digits n = (if n < 10 then ''0'' else []) @ show_int n"

definition clock_text :: "time \<Rightarrow> string" where
  "clock_text t = (let s = timestamp t mod 86400 in two_digits (s div 3600) @ '':'' @ two_digits (s mod 3600 div 60) @ '' UTC'')"

definition silences_list :: "'w bot_context \<Rightarrow> options \<Rightarrow> clock \<Rightarrow> ('w, response) handler" where
  "silences_list bc os k = act_bind (on_world (am_list_silences (bc_am bc) [])) (\<lambda>a. act_bind (am_or_failed a) (\<lambda>sils.
     act_bind (look (\<lambda>s. silences False (bt_db s))) (\<lambda>known.
       let shown = listed_silences (or_empty (string_of os ''matcher'')) sils; lines = map (silence_line known) shown in
       act_ret (if lines = [] then text_response ''No silence is in force.''
         else embed_response (new_embed\<lparr>em_title := Some ''Active silences'',
           em_description := Some (truncated (join NEWLINE lines) 4096),
           em_footer := Some (show_nat (length lines) @ '' shown'' @ dot_sep @ ''as at '' @ clock_text (k 0))\<rparr>)))))"

definition silences_extend :: "'w bot_context \<Rightarrow> command \<Rightarrow> options \<Rightarrow> clock \<Rightarrow> ('w, response) handler" where
  "silences_extend bc i os k = act_bind (require bc i Silence) (\<lambda>_. let wanted = or_empty (string_of os ''id'') in
     act_bind (duration_of (or_empty (string_of os ''duration''))) (\<lambda>d.
     act_bind (on_world (am_list_silences (bc_am bc) [])) (\<lambda>a. act_bind (am_or_failed a) (\<lambda>sils.
     act_bind (some_or_bad (''Alertmanager has no silence '' @ quoted wanted) (find (\<lambda>s. sr_id s = wanted) sils)) (\<lambda>sil.
     act_bind (or_abort (instant_after (k 0) d)) (\<lambda>ends.
     act_bind (on_world (am_upsert_silence (bc_am bc) \<lparr>sq_id = Some (sr_id sil), sq_matchers = sr_matchers sil,
         sq_starts_at = sr_starts_at sil, sq_ends_at = ends, sq_created_by = provenance i,
         sq_comment = sr_comment sil @ '' (extended from Discord)''\<rparr>)) (\<lambda>u. act_bind (am_or_failed u) (\<lambda>_.
       act_ret (detailed (until_detail ends) (about wanted
         (text_response (quoted wanted @ '' now expires '' @ relative ends @ ''.'')))))))))))) "

definition silences_expire :: "'w bot_context \<Rightarrow> command \<Rightarrow> options \<Rightarrow> clock \<Rightarrow> ('w, response) handler" where
  "silences_expire bc i os k = act_bind (require bc i Silence) (\<lambda>_. let wanted = or_empty (string_of os ''id'') in
     if wanted = [] then refuse (BadRequest (quoted ''/silence expire'' @ '' needs a silence id''))
     else act_bind (bot_enqueue [outbox_now (ExpireSilence wanted) (silence_key None) (k 0)] (k 1)) (\<lambda>q. act_bind (or_failed q) (\<lambda>_.
       act_ret (about wanted (text_response (''Expiring '' @ quoted wanted @ ''.''))))))"

definition run_silences :: "'w bot_context \<Rightarrow> command \<Rightarrow> clock \<Rightarrow> ('w, response) handler" where
  "run_silences bc i k = (case subcommand i of None \<Rightarrow> refuse (BadRequest (needs_subcommand ''silence''))
   | Some (n, os) \<Rightarrow>
       if n = ''create'' then silences_create bc i os k
       else if n = ''list'' then silences_list bc os k
       else if n = ''extend'' then silences_extend bc i os k
       else if n = ''expire'' then silences_expire bc i os k
       else refuse (BadRequest (older_subcommand ''silence'' n)))"

end
