(* ===== verification/Discord_Routing.thy ===== *)
theory Discord_Routing
  imports Discord_Commands
begin

text \<open>
  The slash commands over the routing tables (\<open>discord/src/commands\<close>: \<open>ignores.rs\<close>, \<open>subscriptions.rs\<close>, \<open>routes.rs\<close>).
  What they list is read from the published snapshot or the tables; what they write is followed by a new snapshot.
\<close>

section \<open>Ignore rules\<close>

definition RULES_SHOWN :: nat where "RULES_SHOWN = 20"

definition ignore_expiry :: "options \<Rightarrow> time \<Rightarrow> ('w, time option) handler" where
  "ignore_expiry os now = (case string_of os ''duration'' of None \<Rightarrow> act_ret None
   | Some raw \<Rightarrow> act_bind (duration_of raw) (\<lambda>d. act_bind (or_abort (instant_after now d)) (\<lambda>t. act_ret (Some t))))"

definition ignores_add :: "'w bot_context \<Rightarrow> command \<Rightarrow> options \<Rightarrow> clock \<Rightarrow> ('w, response) handler" where
  "ignores_add bc i os k = act_bind (require bc i Operate) (\<lambda>_. act_bind (require_guild i) (\<lambda>guild.
     let matchers = or_empty (string_of os ''matchers''); reason = or_empty (string_of os ''reason'') in
     act_bind (or_bad (parse_matchers (bc_regex bc) matchers)) (\<lambda>_. act_bind (ignore_expiry os (k 0)) (\<lambda>expires.
     act_bind (add_ignore bc \<lparr>ni_guild = guild,
         ni_channel = (if boolean_of os ''here'' = Some True then Some (in_channel i) else None), ni_matchers = matchers,
         ni_reason = reason, ni_actor = in_user i, ni_expires_at = expires\<rparr> (later k 1)) (\<lambda>a. act_bind (or_failed a) (\<lambda>rule.
       act_ret (detailed (JObj [(''matchers'', JStr matchers), (''reason'', JStr reason)]) (about (show_int rule) (text_response
         (''Rule '' @ quoted (show_int rule) @ '' added: Discord stays quiet about '' @ quoted (truncated matchers 200) @ '' '' @
          (case expires of None \<Rightarrow> ''until it is revoked'' | Some t \<Rightarrow> ''until '' @ relative t) @
          ''. Alertmanager still notifies every other receiver.''))))))))))"

definition ignore_line :: "ignore_rule \<Rightarrow> string" where
  "ignore_line r = quoted (show_int (ig_id r)) @ '' '' @ EM_DASH @ '' '' @ truncated (ig_matcher_source r) 100 @ dot_sep @
     (case ig_channel_id r of None \<Rightarrow> ''server'' | Some c \<Rightarrow> mention_channel c) @ dot_sep @
     (case ig_expires_at r of None \<Rightarrow> ''no expiry'' | Some t \<Rightarrow> ''expires '' @ relative t) @ dot_sep @
     mention_user (ig_created_by r) @ NEWLINE @ ''> '' @ truncated (ig_reason r) 150"

definition ignores_list :: "'w bot_context \<Rightarrow> command \<Rightarrow> clock \<Rightarrow> ('w, response) handler" where
  "ignores_list bc i k = act_bind (require_guild i) (\<lambda>guild.
     act_bind (look (\<lambda>s. active_ignores (bc_regex bc) guild (k 0) (bt_tables s))) (\<lambda>a. act_bind (or_failed a) (\<lambda>rules.
       act_ret (if rules = [] then text_response ''Nothing is being ignored here.''
         else embed_response (new_embed\<lparr>em_title := Some ''Ignore rules'',
           em_description := Some (truncated (join NEWLINE (map ignore_line (take RULES_SHOWN rules))) 4096),
           em_footer := Some ''An ignore mutes Discord only. Alertmanager keeps notifying every other receiver.''\<rparr>)))))"

definition ignores_remove :: "'w bot_context \<Rightarrow> command \<Rightarrow> options \<Rightarrow> clock \<Rightarrow> ('w, response) handler" where
  "ignores_remove bc i os k = act_bind (require bc i Operate) (\<lambda>_. act_bind (require_guild i) (\<lambda>guild.
     act_bind (some_or_bad (quoted ''/ignore remove'' @ '' needs a rule id'') (integer_of os ''id'')) (\<lambda>rule.
     act_bind (on_tables (revoke_ignore rule guild (k 0))) (\<lambda>a.
     act_bind (or_refuse (\<lambda>e. BadRequest (store_error_str e)) a) (\<lambda>_. act_bind (refresh_routing bc (k 1)) (\<lambda>_.
       act_ret (about (show_int rule) (text_response (''Rule '' @ quoted (show_int rule) @ '' revoked.''))))))))) "

definition run_ignores :: "'w bot_context \<Rightarrow> command \<Rightarrow> clock \<Rightarrow> ('w, response) handler" where
  "run_ignores bc i k = (case subcommand i of None \<Rightarrow> refuse (BadRequest (needs_subcommand ''ignore''))
   | Some (n, os) \<Rightarrow>
       if n = ''add'' then ignores_add bc i os k
       else if n = ''list'' then ignores_list bc i k
       else if n = ''remove'' then ignores_remove bc i os k
       else refuse (BadRequest (older_subcommand ''ignore'' n)))"

section \<open>Subscriptions\<close>

definition SUBSCRIPTIONS_SHOWN :: nat where "SUBSCRIPTIONS_SHOWN = 20"

definition too_wide :: string where
  "too_wide = ''a subscription to everything would forward every alert in the deployment; narrow it with at least one matcher''"

definition subscribe_add :: "'w bot_context \<Rightarrow> command \<Rightarrow> options \<Rightarrow> clock \<Rightarrow> ('w, response) handler" where
  "subscribe_add bc i os k = (let expression = or_empty (string_of os ''matchers'');
       severity = Option.bind (string_of os ''severity'') severity_from in
     act_bind (or_bad (parse_matchers (bc_regex bc) expression)) (\<lambda>ms.
     if ms = [] then refuse (BadRequest too_wide)
     else act_bind (on_tables (upsert_subscription \<lparr>su_id = 0, su_user_id = in_user i, su_matcher_source = expression,
         su_matchers = ms, su_min_severity = severity, su_created_at = k 0\<rparr>)) (\<lambda>a. act_bind (or_failed a) (\<lambda>sub.
     act_bind (refresh_routing bc (k 1)) (\<lambda>_.
       act_ret (detailed (JObj [(''matchers'', JStr expression)]) (about (show_int sub) (text_response
         (''Subscription '' @ quoted (show_int sub) @ '': you will get a direct message for '' @ quoted (truncated expression 200) @
          (case severity of None \<Rightarrow> [] | Some s \<Rightarrow> '' at '' @ quoted (severity_str s) @ '' or above'') @
          ''. The bot has to be able to message you, so allow direct messages from server members.'')))))))))"

definition subscription_line :: "subscription \<Rightarrow> string" where
  "subscription_line u = quoted (show_int (su_id u)) @ '' '' @ EM_DASH @ '' '' @ truncated (su_matcher_source u) 100 @ dot_sep @
     (case su_min_severity u of None \<Rightarrow> ''any severity'' | Some s \<Rightarrow> severity_str s @ '' or above'') @ dot_sep @
     ''since '' @ relative (su_created_at u)"

definition subscribe_list :: "'w bot_context \<Rightarrow> command \<Rightarrow> ('w, response) handler" where
  "subscribe_list bc i = act_bind (look (\<lambda>s. read_subscriptions (bc_regex bc) (bt_tables s))) (\<lambda>a. act_bind (or_failed a) (\<lambda>subs.
     let mine = take SUBSCRIPTIONS_SHOWN (filter (\<lambda>u. su_user_id u = in_user i) subs) in
     act_ret (if mine = [] then text_response (''You have no subscriptions. '' @ quoted ''/subscribe add'' @ '' starts one.'')
       else embed_response (new_embed\<lparr>em_title := Some ''Your subscriptions'',
         em_description := Some (truncated (join NEWLINE (map subscription_line mine)) 4096),
         em_footer := Some ''A subscription is additive: it never replaces what a channel route already delivers.''\<rparr>))))"

definition subscribe_remove :: "'w bot_context \<Rightarrow> command \<Rightarrow> options \<Rightarrow> clock \<Rightarrow> ('w, response) handler" where
  "subscribe_remove bc i os k = act_bind
     (some_or_bad (quoted ''/subscribe remove'' @ '' needs a subscription id'') (integer_of os ''id'')) (\<lambda>sub.
     act_bind (on_tables (remove_subscription sub (in_user i))) (\<lambda>a.
     act_bind (or_refuse (\<lambda>_. BadRequest (''you have no subscription '' @ quoted (show_int sub))) a) (\<lambda>_.
     act_bind (refresh_routing bc (k 0)) (\<lambda>_.
       act_ret (about (show_int sub) (text_response (''Subscription '' @ quoted (show_int sub) @ '' removed.'')))))))"

definition run_subscriptions :: "'w bot_context \<Rightarrow> command \<Rightarrow> clock \<Rightarrow> ('w, response) handler" where
  "run_subscriptions bc i k = (case subcommand i of None \<Rightarrow> refuse (BadRequest (needs_subcommand ''subscribe''))
   | Some (n, os) \<Rightarrow>
       if n = ''add'' then subscribe_add bc i os k
       else if n = ''list'' then subscribe_list bc i
       else if n = ''remove'' then subscribe_remove bc i os k
       else refuse (BadRequest (older_subcommand ''subscribe'' n)))"

section \<open>Routes\<close>

definition ROUTES_LISTED :: nat where "ROUTES_LISTED = 20"

definition config_severity_from :: "string \<Rightarrow> config_severity option" where
  "config_severity_from = map_of [(''critical'', ConfigCritical), (''warning'', ConfigWarning), (''info'', ConfigInfo)]"

definition kind_of :: "string option \<Rightarrow> target_kind" where
  "kind_of w = (if w = Some ''forum'' then KindForum else if w = Some ''thread'' then KindThread else KindText)"

definition asked_route :: "guild_id \<Rightarrow> channel_id \<Rightarrow> options \<Rightarrow> route_config" where
  "asked_route guild channel os = default_route_config\<lparr>rc_name := or_empty (string_of os ''name''), rc_guild_id := guild,
     rc_matchers := or_empty (string_of os ''matchers''),
     rc_min_severity := Option.bind (string_of os ''severity'') config_severity_from,
     rc_target := \<lparr>ct_kind = kind_of (string_of os ''kind''), ct_id = channel, ct_policy = default_target_policy\<rparr>,
     rc_mentions := default_mentions\<lparr>cm_roles := (case role_of os ''mention'' of Some r \<Rightarrow> [r] | None \<Rightarrow> [])\<rparr>,
     rc_priority := (case integer_of os ''priority'' of
        Some p \<Rightarrow> if - (2 ^ 31) \<le> p \<and> p \<le> I32_MAX then p else 100 | None \<Rightarrow> 100)\<rparr>"

definition routes_add :: "'w bot_context \<Rightarrow> command \<Rightarrow> options \<Rightarrow> clock \<Rightarrow> ('w, response) handler" where
  "routes_add bc i os k = act_bind (require_guild i) (\<lambda>guild.
     let name = or_empty (string_of os ''name''); matchers = or_empty (string_of os ''matchers'') in
     act_bind (some_or_bad (quoted ''/route add'' @ '' needs a channel'') (channel_of os ''channel'')) (\<lambda>channel.
     act_bind (or_bad (route_from_config (bc_regex bc) (asked_route guild channel os) 0 (bc_defaults bc) (k 0))) (\<lambda>built.
     act_bind (on_tables (upsert_route (built\<lparr>rt_source := RouteDiscord, rt_created_by := Some (in_user i)\<rparr>))) (\<lambda>a.
     act_bind (or_refuse (\<lambda>e. BadRequest (store_error_str e)) a) (\<lambda>route. act_bind (refresh_routing bc (k 1)) (\<lambda>_.
       act_ret (detailed (JObj [(''channel'', JInt (int (unat channel))), (''matchers'', JStr matchers)]) (about name (text_response
         (''Route '' @ quoted name @ '' (id '' @ quoted (show_int route) @ '') now delivers '' @ quoted (truncated matchers 200) @
          '' to '' @ mention_channel channel @ ''.'')))))))))) "

fun describe_target :: "route_target \<Rightarrow> string" where
  "describe_target (TextTarget c _) = mention_channel c"
| "describe_target (ForumTarget c _) = ''forum '' @ mention_channel c"
| "describe_target (ThreadTarget t) = ''thread '' @ mention_channel t"
| "describe_target (DmTarget u) = ''a direct message to '' @ mention_user u"

definition route_line :: "route \<Rightarrow> string" where
  "route_line r = quoted (show_int (rt_id r)) @ '' **'' @ rt_name r @ ''** '' @ EM_DASH @ '' '' @ truncated (rt_matcher_source r) 80 @
     '' '' @ ARROW @ '' '' @ describe_target (rt_target r) @ dot_sep @ ''priority '' @ show_int (rt_priority r) @ dot_sep @
     route_source_str (rt_source r) @ (if rt_enabled r then [] else dot_sep @ ''disabled'')"

definition routes_list :: "routing_snapshot \<Rightarrow> response" where
  "routes_list sn = (if sn_routes sn = [] then text_response ''No route is configured, so no alert reaches Discord.''
     else embed_response (new_embed\<lparr>em_title := Some ''Routes'',
       em_description := Some (truncated (join NEWLINE (map route_line (take ROUTES_LISTED (sn_routes sn)))) 4096),
       em_footer := Some ''Routes from the configuration file cannot be changed from Discord.''\<rparr>))"

definition routes_remove :: "'w bot_context \<Rightarrow> command \<Rightarrow> options \<Rightarrow> clock \<Rightarrow> ('w, response) handler" where
  "routes_remove bc i os k = act_bind (require_guild i) (\<lambda>guild. let name = or_empty (string_of os ''name'') in
     act_bind (look (\<lambda>s. find (\<lambda>r. rt_name r = name \<and> rt_guild_id r = guild) (sn_routes (bt_routing s)))) (\<lambda>found.
     act_bind (some_or_bad (''no route called '' @ quoted name @ '' in this server'') found) (\<lambda>r.
     if \<not> is_mutable_from_discord (rt_source r)
     then refuse (BadRequest (quoted name @ '' is declared in the configuration file. Remove it there, so the deployment stays reproducible from its manifests.''))
     else act_bind (on_tables (upsert_route (r\<lparr>rt_enabled := False\<rparr>))) (\<lambda>a. act_bind (or_failed a) (\<lambda>_.
       act_bind (refresh_routing bc (k 0)) (\<lambda>_.
       act_ret (about name (text_response (''Route '' @ quoted name @ '' is off. The cards it created keep their history.'')))))))))"

section \<open>Testing a sample\<close>

fun sample_labels :: "matcher list \<Rightarrow> labels \<Rightarrow> command_error + labels" where
  "sample_labels [] ls = Inr ls"
| "sample_labels (m # ms) ls = (if m_op m \<noteq> OpEqual
     then Inl (BadRequest (''a sample is a label set, so '' @ quoted (name_str (m_name m)) @ '' has to use '' @ quoted ''=''))
     else case new_label_name (name_str (m_name m)) of Inl e \<Rightarrow> Inl (BadRequest (core_error_str e))
     | Inr n \<Rightarrow> (case labels_insert ls n (m_value m) of Inl e \<Rightarrow> Inl (BadRequest (core_error_str e))
       | Inr ls' \<Rightarrow> sample_labels ms ls'))"

definition parse_sample :: "regex_engine \<Rightarrow> string \<Rightarrow> command_error + labels" where
  "parse_sample rx sample = (case parse_matchers rx sample of Inl e \<Rightarrow> Inl (BadRequest (core_error_str e))
   | Inr ms \<Rightarrow> (case sample_labels ms [] of Inl e \<Rightarrow> Inl e
     | Inr ls \<Rightarrow> if ls = [] then Inl (BadRequest (''a sample needs at least one label, such as '' @ quoted ''alertname=Foo''))
         else Inr ls))"

definition why_not :: "route \<Rightarrow> labels \<Rightarrow> severity \<Rightarrow> string" where
  "why_not r ls s = (if \<not> rt_enabled r then ''disabled''
     else if \<not> set_matches (rt_matchers r) ls then ''matchers '' @ quoted (truncated (rt_matcher_source r) 80) @ '' do not match''
     else case rt_min_severity r of
       Some floor \<Rightarrow> if s < floor then ''needs at least '' @ quoted (severity_str floor) else ''matches, but was not reached''
     | None \<Rightarrow> ''matches, but was not reached'')"

definition forum_checks :: "routing_snapshot \<Rightarrow> channel_id \<Rightarrow> forum_policy \<Rightarrow> string list" where
  "forum_checks sn channel p = (let known = tag_count sn channel; st = fp_state_tags p;
       missing = filter (\<lambda>n. tag_id sn channel n = None) ([st_firing st, st_acked st, st_silenced st, st_resolved st] @
         (case fp_default_tag p of Some d \<Rightarrow> [d] | None \<Rightarrow> []))
     in if known = 0 then [''- **no forum tags are cached** for this channel; either it is not a forum, or the bot cannot read it'']
        else (if missing = [] then ''- every state tag resolves ('' @ show_nat known @ '' tags cached)''
              else ''- **missing tags**: '' @ join '', '' missing @ ''. Posts get the ones that resolve and no more.'') #
          (if trim (fp_title_template p) = [] then [''- the title template is empty, so posts take the thread name: '' @
             quoted ''[SEVERITY] alertname''] else []))"

definition winner_lines :: "routing_snapshot \<Rightarrow> labels \<Rightarrow> severity \<Rightarrow> time \<Rightarrow> route \<Rightarrow> string list" where
  "winner_lines sn ls s now r =
     ['''', ''**'' @ rt_name r @ ''** '' @ ARROW @ '' '' @ describe_target (rt_target r) @ '' (priority '' @ show_int (rt_priority r) @ '')'',
      ''- matched '' @ quoted (truncated (rt_matcher_source r) 100)] @
     (case Option.bind (target_channel (rt_target r)) (\<lambda>c. ignore_for sn (rt_guild_id r) c ls now) of None \<Rightarrow> []
      | Some rule \<Rightarrow> [''- **muted** by ignore rule '' @ quoted (show_int (ig_id rule)) @ '': '' @ truncated (ig_reason rule) 120]) @
     (if mentions_at r s then [''- would mention the route'' @ APOSTROPHE @ ''s roles on a first firing''] else []) @
     (case rt_target r of ForumTarget c p \<Rightarrow> forum_checks sn c p | _ \<Rightarrow> [])"

definition test_lines :: "routing_snapshot \<Rightarrow> labels \<Rightarrow> severity \<Rightarrow> time \<Rightarrow> string list" where
  "test_lines sn ls s now = (''Severity read as **'' @ severity_str s @ ''** from the label set.'') #
     (case resolve sn ls s of
        [] \<Rightarrow> ['''', ''**No route matches.** These alerts would reach no channel.''] @
          map (\<lambda>r. ''- '' @ quoted (rt_name r) @ '' '' @ EM_DASH @ '' '' @ why_not r ls s) (sn_routes sn)
      | winners \<Rightarrow> concat (map (winner_lines sn ls s now) winners))"

definition routes_test :: "'w bot_context \<Rightarrow> options \<Rightarrow> clock \<Rightarrow> ('w, response) handler" where
  "routes_test bc os k = (let sample = or_empty (string_of os ''sample'') in
     act_bind (or_refuse id (parse_sample (bc_regex bc) sample)) (\<lambda>ls. act_bind (look bt_routing) (\<lambda>sn.
       act_ret (about sample (embed_response (new_embed\<lparr>em_title := Some ''Route test'',
         em_description := Some (truncated (join NEWLINE (test_lines sn ls (severity_from_labels ls) (k 0))) 4096),
         em_footer := Some (truncated sample 2048)\<rparr>)))))) "

definition run_routes :: "'w bot_context \<Rightarrow> command \<Rightarrow> clock \<Rightarrow> ('w, response) handler" where
  "run_routes bc i k = (case subcommand i of None \<Rightarrow> refuse (BadRequest (needs_subcommand ''route''))
   | Some (n, os) \<Rightarrow>
       if n = ''add'' then routes_add bc i os k
       else if n = ''list'' then look (\<lambda>s. routes_list (bt_routing s))
       else if n = ''remove'' then routes_remove bc i os k
       else if n = ''test'' then routes_test bc os k
       else refuse (BadRequest (older_subcommand ''route'' n)))"

end
