(* ===== verification/Engine_Explain.thy ===== *)
theory Engine_Explain
  imports Decide_Facts
begin

text \<open>
  Why two cards are two cards (\<open>engine/src/explain.rs\<close>): the first reason, in the order the decision would separate two
  alerts. The result of \<open>/debug merge\<close> is written from it.
\<close>

record card_facts =
  fc_card :: notification
  fc_alert :: "alert option"
  fc_route :: "route option"

datatype key_strategy = StrategyPerAlert | StrategyPerGroup | StrategyDigest | StrategyStormDigest | StrategyUnrecognised

record label_difference =
  ld_name :: string
  ld_first :: "string option"
  ld_second :: "string option"

datatype separation =
    SameCard
  | DifferentChannels channel_id channel_id
  | Replaced notification_id notification_id
  | Retired notification_id retirement
  | DifferentStrategies key_strategy key_strategy
  | DifferentIdentities "label_difference list"
  | KeyedBeforePolicy
  | DifferentGroups "label_difference list"
  | DifferentDigestRoutes
  | DifferentDigestWindows time time
  | AlertUnknown
  | Unexplained

fun strategy_of :: "key_scope \<Rightarrow> route option \<Rightarrow> key_strategy" where
  "strategy_of (ScopeAlert _) r = StrategyPerAlert"
| "strategy_of (ScopeGroup _) r = StrategyPerGroup"
| "strategy_of (ScopeDigest _ _) r = (case r of
     Some route \<Rightarrow> if rt_group_strategy route \<noteq> Digest then StrategyStormDigest else StrategyDigest
   | None \<Rightarrow> StrategyDigest)"
| "strategy_of Unrecognised r = StrategyUnrecognised"

definition label_differences :: "alert \<Rightarrow> alert \<Rightarrow> label_difference list" where
  "label_differences a b = List.map_filter (\<lambda>n.
     let left = labels_get (al_labels a) n; right = labels_get (al_labels b) n
     in if left \<noteq> right then Some \<lparr>ld_name = n, ld_first = left, ld_second = right\<rparr> else None)
     (remdups_adj (sort (map (\<lambda>(n, v). name_str n) (al_labels a @ al_labels b))))"

definition first_retired :: "notification list \<Rightarrow> separation option" where
  "first_retired cards = find_map (\<lambda>c. map_option (Retired (n_id c)) (key_retirement (n_dedupe_key c))) cards"

definition separate_identities :: "identity_policy \<Rightarrow> alert option \<Rightarrow> alert option \<Rightarrow> separation" where
  "separate_identities p a b = (case (a, b) of
     (Some l, Some r) \<Rightarrow> if alert_identity p l = alert_identity p r then KeyedBeforePolicy
       else DifferentIdentities (filter (\<lambda>d. \<not> policy_ignores p (ld_name d)) (label_differences l r))
   | _ \<Rightarrow> AlertUnknown)"

definition group_differences :: "alert option \<Rightarrow> alert option \<Rightarrow> label_difference list" where
  "group_differences a b = (case (a, b) of (Some l, Some r) \<Rightarrow> label_differences l r | _ \<Rightarrow> [])"

definition separate_strategies :: "key_strategy \<Rightarrow> key_strategy \<Rightarrow> separation" where
  "separate_strategies l r = (if l = r then Unexplained else DifferentStrategies l r)"

definition separate_keys ::
  "identity_policy \<Rightarrow> key_scope \<Rightarrow> card_facts \<Rightarrow> key_scope \<Rightarrow> card_facts \<Rightarrow> separation" where
  "separate_keys p l first r second = (case (l, r) of
     (ScopeAlert _, ScopeAlert _) \<Rightarrow> separate_identities p (fc_alert first) (fc_alert second)
   | (ScopeGroup x, ScopeGroup y) \<Rightarrow>
       if x \<noteq> y then DifferentGroups (group_differences (fc_alert first) (fc_alert second))
       else separate_strategies (strategy_of l (fc_route first)) (strategy_of r (fc_route second))
   | (ScopeDigest route window, ScopeDigest route' window') \<Rightarrow>
       if route \<noteq> route' then DifferentDigestRoutes
       else if window \<noteq> window' then DifferentDigestWindows window window' else Unexplained
   | _ \<Rightarrow> separate_strategies (strategy_of l (fc_route first)) (strategy_of r (fc_route second)))"

definition explain_separation ::
  "(int \<Rightarrow> time option) \<Rightarrow> card_facts \<Rightarrow> card_facts \<Rightarrow> decision_settings \<Rightarrow> separation" where
  "explain_separation from_ts first second ds = (let a = fc_card first; b = fc_card second in
     if n_id a = n_id b then SameCard
     else if n_channel_id a \<noteq> n_channel_id b then DifferentChannels (n_channel_id a) (n_channel_id b)
     else if n_supersedes b = Some (n_id a) then Replaced (n_id a) (n_id b)
     else if n_supersedes a = Some (n_id b) then Replaced (n_id b) (n_id a)
     else case first_retired [a, b] of Some s \<Rightarrow> s
       | None \<Rightarrow> separate_keys (ds_identity ds) (key_scope from_ts (n_dedupe_key a)) first
           (key_scope from_ts (n_dedupe_key b)) second)"

section \<open>What the answers mean\<close>

lemma label_differences_mem:
  "d \<in> set (label_differences a b) \<longleftrightarrow>
     ld_first d = labels_get (al_labels a) (ld_name d) \<and> ld_second d = labels_get (al_labels b) (ld_name d) \<and>
     ld_first d \<noteq> ld_second d \<and> ld_name d \<in> (\<lambda>(n, v). name_str n) ` (set (al_labels a) \<union> set (al_labels b))"
  by (cases d) (force simp: label_differences_def List.map_filter_def Let_def)

end
