(* ===== verification/Discord_Reports.thy ===== *)
theory Discord_Reports
  imports Discord_Routing Engine_Explain
begin

text \<open>
  The commands that report or repair (\<open>discord/src/commands\<close>: \<open>cards.rs\<close>, \<open>status.rs\<close>, \<open>debug.rs\<close>). The answer of
  \<open>/debug merge\<close> is written from \<open>Engine_Explain\<close>.
\<close>

section \<open>Resynchronising forum cards\<close>

definition RESYNC_LIMIT :: nat where "RESYNC_LIMIT = 1000"

definition ROUTES_SHOWN :: nat where "ROUTES_SHOWN = 10"

definition resync_targets :: "routing_snapshot \<Rightarrow> guild_id \<Rightarrow> string option \<Rightarrow> route list" where
  "resync_targets sn guild named = filter (\<lambda>r. case named of None \<Rightarrow> True | Some n \<Rightarrow> rt_name r = n)
     (filter (\<lambda>r. rt_guild_id r = guild \<and> is_forum (rt_target r)) (sn_routes sn))"

definition hit_ceiling :: "notification list \<Rightarrow> bool" where
  "hit_ceiling cards \<longleftrightarrow> RESYNC_LIMIT \<le> length cards"

definition route_list :: "route list \<Rightarrow> string" where
  "route_list rs = (let names = join '', '' (map (\<lambda>r. quoted (rt_name r)) (take ROUTES_SHOWN rs)) in
     if ROUTES_SHOWN < length rs then names @ '' and '' @ show_nat (length rs - ROUTES_SHOWN) @ '' more'' else names)"

definition subject_of :: "route list \<Rightarrow> string" where
  "subject_of rs = (case rs of [r] \<Rightarrow> rt_name r | _ \<Rightarrow> show_nat (length rs) @ '' forum routes'')"

definition resync_summary :: "route list \<Rightarrow> notification list \<Rightarrow> embed" where
  "resync_summary rs cards = add_field ''Routes'' (truncated (route_list rs) 1024) False (new_embed\<lparr>
     em_title := Some ''Forum resync'',
     em_description := Some (truncated (join NEWLINE (
       [''Queued a redraw and a re-tag of **'' @ show_nat (length cards) @ ''** live '' @
          (if length cards = 1 then ''card'' else ''cards'') @ ''.'', [],
        ''Each one is sent whatever the database believes about it, so a post that drifted out of line comes back into it. They go out through the queue an alert transition uses and are paced by it; '' @
          quoted ''/status bot'' @ '' shows how far it has left to go.''] @
       (if hit_ceiling cards then [[], ''**This run stopped at its ceiling of '' @ show_nat RESYNC_LIMIT @
          '' cards**, oldest first. Run it again once the queue has drained to reach the rest.''] else []))) 4096),
     em_footer := Some ''Resolved and orphaned cards are left alone: reopening a settled post says nothing new.''\<rparr>)"

definition resync_item :: "time \<Rightarrow> notification \<Rightarrow> new_outbox_item" where
  "resync_item now cd = outbox_now (ResyncCard (n_id cd)) (n_dedupe_key cd) now"

definition cards_resync :: "command \<Rightarrow> options \<Rightarrow> clock \<Rightarrow> ('w, response) handler" where
  "cards_resync i os k = act_bind (require_guild i) (\<lambda>guild. let named = string_of os ''route'' in
     act_bind (look (\<lambda>s. resync_targets (bt_routing s) guild named)) (\<lambda>targets.
     if targets = [] then refuse (BadRequest (case named of
         Some n \<Rightarrow> ''no forum route called '' @ quoted n @ '' in this server''
       | None \<Rightarrow> ''no route in this server delivers to a forum, so there is nothing to resync''))
     else act_bind (look (\<lambda>s. live_cards (map rt_id targets) RESYNC_LIMIT (bt_db s))) (\<lambda>cards. let subject = subject_of targets in
     if cards = [] then act_ret (about subject (text_response (''Nothing to resync: '' @ subject @ '' has no live cards.'')))
     else act_bind (bot_enqueue (map (resync_item (k 0)) cards) (k 1)) (\<lambda>a. act_bind (or_failed a) (\<lambda>_.
       act_ret (detailed (JObj [(''routes'', JList (map (\<lambda>r. JStr (rt_name r)) targets)), (''cards'', JInt (int (length cards))),
           (''truncated'', JBool (hit_ceiling cards))]) (about subject (embed_response (resync_summary targets cards)))))))))"

definition run_cards :: "command \<Rightarrow> clock \<Rightarrow> ('w, response) handler" where
  "run_cards i k = (case subcommand i of None \<Rightarrow> refuse (BadRequest (needs_subcommand ''cards''))
   | Some (n, os) \<Rightarrow> if n = ''resync'' then cards_resync i os k else refuse (BadRequest (older_subcommand ''cards'' n)))"

section \<open>Status\<close>

definition status_embed :: "am_status \<Rightarrow> nat \<Rightarrow> embed" where
  "status_embed st receivers = new_embed\<lparr>em_title := Some ''Alertmanager'',
     em_fields := [(''Version'', quoted (ams_version st), True),
       (''Cluster'', if ams_cluster_ready st then ''settled'' else ''**not settled**'', True),
       (''Receivers'', show_nat receivers, True)] @
       opt_field (ams_uptime st) (\<lambda>t. (''Started'', relative t, True)) @
       (if ams_peers st = [] then [] else [(''Peers'', truncated (join '', '' (ams_peers st)) 1024, False)]),
     em_footer := map_option (\<lambda>h. ''config '' @ h) (ams_config_hash st)\<rparr>"

definition status_alertmanager :: "'w bot_context \<Rightarrow> ('w, response) handler" where
  "status_alertmanager bc = act_bind (on_world (am_server_status (bc_am bc))) (\<lambda>a. act_bind (am_or_failed a) (\<lambda>st.
     act_bind (on_world (am_receivers (bc_am bc))) (\<lambda>r.
       act_ret (embed_response (status_embed st (case r of Inr rs \<Rightarrow> length rs | Inl _ \<Rightarrow> 0))))))"

definition queue_breakdown :: "(string \<times> nat) list \<Rightarrow> string" where
  "queue_breakdown depths = (if depths = [] then ''empty'' else join '', '' (map (\<lambda>(kind, depth). kind @ '': '' @ show_nat depth) depths))"

text \<open>The database of the model is always reachable.\<close>

definition status_bot :: "clock \<Rightarrow> ('w, response) handler" where
  "status_bot k = act_bind (look (\<lambda>s. outbox_depth (bt_db s))) (\<lambda>depths. act_bind (look bt_routing) (\<lambda>sn.
     act_ret (embed_response (new_embed\<lparr>em_title := Some ''Bot'',
       em_fields := [(''Database'', ''reachable'', True), (''Routes'', show_nat (length (sn_routes sn)), True),
         (''Queued effects'', show_nat (sum_list (map snd depths)), True),
         (''Queue by kind'', truncated (queue_breakdown depths) 1024, False)],
       em_footer := Some (''as at '' @ clock_text (k 0))\<rparr>))))"

fun config_target_text :: "route_target \<Rightarrow> string" where
  "config_target_text (TextTarget c _) = mention_channel c"
| "config_target_text (ForumTarget c _) = ''forum '' @ mention_channel c"
| "config_target_text (ThreadTarget t) = ''thread '' @ mention_channel t"
| "config_target_text (DmTarget u) = ''DM '' @ mention_user u"

definition config_routes :: "route list \<Rightarrow> string" where
  "config_routes rs = (if rs = [] then ''none'' else join NEWLINE (map (\<lambda>r. quoted (rt_name r) @ '' '' @
     truncated (rt_matcher_source r) 60 @ '' '' @ ARROW @ '' '' @ config_target_text (rt_target r)) (take 15 rs)))"

definition status_config :: "'w bot_context \<Rightarrow> command \<Rightarrow> ('w, response) handler" where
  "status_config bc i = act_bind (require bc i Admin) (\<lambda>_. act_bind (look bt_routing) (\<lambda>sn.
     act_ret (embed_response (new_embed\<lparr>em_title := Some ''Effective configuration'',
       em_fields := [(''Routes'', truncated (config_routes (sn_routes sn)) 1024, False),
         (''Capabilities'', truncated (describe_capabilities (bc_capabilities bc)) 1024, False)],
       em_footer := Some ''Secrets are never shown here. The full reference is in docs/config.md.''\<rparr>))))"

definition run_status :: "'w bot_context \<Rightarrow> command \<Rightarrow> clock \<Rightarrow> ('w, response) handler" where
  "run_status bc i k = (case map_option fst (subcommand i) of None \<Rightarrow> refuse (BadRequest (needs_subcommand ''status''))
   | Some n \<Rightarrow>
       if n = ''alertmanager'' then status_alertmanager bc
       else if n = ''bot'' then status_bot k
       else if n = ''config'' then status_config bc i
       else refuse (BadRequest (older_subcommand ''status'' n)))"

end
