(* ===== verification/Discord_Debug.thy ===== *)
theory Discord_Debug
  imports Discord_Reports
begin

text \<open>
  \<open>/debug merge\<close> (\<open>discord/src/commands/debug.rs\<close>): why two posts are two posts, in words.
\<close>

section \<open>The two posts\<close>

definition LABELS_SHOWN :: nat where "LABELS_SHOWN = 15"

record side =
  sd_thread :: channel_id
  sd_card :: notification
  sd_alert :: "alert option"

record explanation =
  ex_first :: side
  ex_second :: side
  ex_first_route :: "route option"
  ex_second_route :: "route option"
  ex_regroup_window :: duration
  ex_digest_window :: duration

record explained =
  wd_verdict :: string
  wd_reason :: string
  wd_fix :: "string option"

definition words :: "string \<Rightarrow> string \<Rightarrow> string option \<Rightarrow> explained" where
  "words verdict reason fix = \<lparr>wd_verdict = verdict, wd_reason = reason, wd_fix = fix\<rparr>"

definition route_text :: "route option \<Rightarrow> string" where
  "route_text r = (case r of None \<Rightarrow> ''*(deleted route)*'' | Some x \<Rightarrow> quoted (rt_name x))"

definition minutes_text :: "duration \<Rightarrow> string" where
  "minutes_text w = (if num_minutes w = 1 then ''1 minute'' else show_int (num_minutes w) @ '' minutes'')"

definition post_of :: "explanation \<Rightarrow> notification_id \<Rightarrow> string" where
  "post_of x i = mention_channel (if i = n_id (sd_card (ex_first x)) then sd_thread (ex_first x) else sd_thread (ex_second x))"

section \<open>Words\<close>

definition words_channels :: "explanation \<Rightarrow> channel_id \<Rightarrow> channel_id \<Rightarrow> explained" where
  "words_channels x first second = words ''They are in different forums.''
     (mention_channel (sd_thread (ex_first x)) @ '' is in '' @ mention_channel first @ '' and '' @
      mention_channel (sd_thread (ex_second x)) @ '' is in '' @ mention_channel second @
      ''. The bot only looks for an existing post inside the forum an alert is being sent to, so alerts sent to two forums always get two posts.'')
     (Some (''If these alerts belong together, point routes '' @ route_text (ex_first_route x) @ '' and '' @
        route_text (ex_second_route x) @ '' at the same forum.''))"

definition words_replaced :: "explanation \<Rightarrow> notification_id \<Rightarrow> notification_id \<Rightarrow> explained" where
  "words_replaced x older newer = (let window = minutes_text (ex_regroup_window x) in
     words ''The newer post replaced the older one.''
       (''The alert resolved, stayed resolved for longer than the regroup window ('' @ window @
        ''), and then fired again. Past that window a returning alert is treated as a new incident: it gets a fresh post, '' @
        post_of x newer @ '', which links back to '' @ post_of x older @ '', instead of reopening the old one.'')
       (Some (''If an alert coming back after '' @ window @ '' should reopen its old post, raise '' @
         quoted ''engine.regroup_window_secs'' @ ''.'')))"

definition words_retired :: "explanation \<Rightarrow> notification_id \<Rightarrow> retirement \<Rightarrow> explained" where
  "words_retired x i why = (let post = post_of x i in case why of
     RetSuperseded \<Rightarrow> words ''One post was replaced by a later one.''
       (post @ '' was closed out when its alert came back after the regroup window ('' @ minutes_text (ex_regroup_window x) @
        ''). A newer post took over from it, and every later change goes there, so nothing can be merged into '' @ post @ '' any more.'')
       None
   | RetOrphaned \<Rightarrow> words ''The bot lost track of one post.''
       (''The message that started '' @ post @
        '' was deleted, so the bot stopped updating that post and opens a fresh one the next time the alert changes.'')
       (Some ''Archive alert posts rather than deleting their first message.''))"

definition strategy_text :: "explanation \<Rightarrow> key_strategy \<Rightarrow> route option \<Rightarrow> string" where
  "strategy_text x st r = (case st of
     StrategyPerAlert \<Rightarrow> ''one post per alert''
   | StrategyPerGroup \<Rightarrow> ''one post per Alertmanager group''
   | StrategyDigest \<Rightarrow> ''a digest collecting '' @ minutes_text (ex_digest_window x) @ '' of alerts''
   | StrategyStormDigest \<Rightarrow> ''a storm digest: route '' @ route_text r @
       '' was receiving more alerts than its storm threshold allows, so new alerts were collected into one post until it calmed down''
   | StrategyUnrecognised \<Rightarrow> ''grouped in a way this version does not recognise'')"

definition storm_fix :: string where
  "storm_fix = ''Nothing, unless storms are frequent: a storm digest ends on its own once the route is quiet again. If they are, raise '' @
     quoted ''engine.storm.threshold'' @ '' or '' @ quoted ''engine.storm.forum_threshold'' @ ''.''"

definition words_strategies :: "explanation \<Rightarrow> key_strategy \<Rightarrow> key_strategy \<Rightarrow> explained" where
  "words_strategies x first second = words ''They were grouped in different ways.''
     (mention_channel (sd_thread (ex_first x)) @ '' is '' @ strategy_text x first (ex_first_route x) @ '', and '' @
      mention_channel (sd_thread (ex_second x)) @ '' is '' @ strategy_text x second (ex_second_route x) @
      ''. Posts grouped in different ways are never merged with each other.'')
     (if StrategyStormDigest \<in> {first, second} then Some storm_fix else None)"

definition name_list :: "label_difference list \<Rightarrow> string" where
  "name_list ds = (let names = map (\<lambda>d. quoted (ld_name d)) ds in case names of [] \<Rightarrow> [] | [one] \<Rightarrow> one
     | _ \<Rightarrow> join '', '' (butlast names) @ '' and '' @ last names)"

definition words_identities :: "label_difference list \<Rightarrow> explained" where
  "words_identities ds =
     (if ds = [] then words ''They are different alerts.''
        ''Each post follows one alert, and these two alerts have different identities, although no label the bot counts differs between them.''
        None
      else if \<exists>d \<in> set ds. ld_name d = ''alertname'' then words ''They come from different alert rules.''
        (''Each post follows one alert, and these two are raised by different rules: their '' @ quoted ''alertname'' @
         '' differs. Alerts from different rules are never merged.'') None
      else let names = name_list ds in words ''They are different alerts.''
        (''Each post follows one alert, and an alert is told apart from another by its labels. These two differ in '' @ names @
         '', so the bot treats them as two separate alerts.'')
        (Some (''If '' @ names @ '' changes without the problem changing (a pod name after a restart, for example), add it to '' @
          quoted ''engine.dedupe_ignore_labels'' @
          ''. Alerts that differ only in ignored labels share one post. Posts that are already open keep their current grouping.'')))"

definition words_for :: "explanation \<Rightarrow> separation \<Rightarrow> explained" where
  "words_for x sep = (let a = mention_channel (sd_thread (ex_first x)); b = mention_channel (sd_thread (ex_second x)) in case sep of
     SameCard \<Rightarrow> words ''These are the same post.'' (a @ '' and '' @ b @ '' are one card, so there is nothing to merge.'') None
   | DifferentChannels c d \<Rightarrow> words_channels x c d
   | Replaced older newer \<Rightarrow> words_replaced x older newer
   | Retired i why \<Rightarrow> words_retired x i why
   | DifferentStrategies s t \<Rightarrow> words_strategies x s t
   | DifferentIdentities ds \<Rightarrow> words_identities ds
   | KeyedBeforePolicy \<Rightarrow> words ''They were opened before the current settings.''
       (''Under today'' @ APOSTROPHE @ ''s '' @ quoted ''engine.dedupe_ignore_labels'' @
        '' these two alerts would share one post, but both posts were opened before that setting covered the labels they differ in. An open post keeps the grouping it was opened with, so these two stay apart until they resolve.'')
       (Some ''Nothing. The next time these alerts fire they will share one post.'')
   | DifferentGroups _ \<Rightarrow> words ''Alertmanager put them in different groups.''
       (''Route '' @ route_text (ex_first_route x) @
        '' opens one post per Alertmanager group, and Alertmanager grouped these alerts separately. Which labels form a group is set by '' @
        quoted ''group_by'' @ '' in Alertmanager'' @ APOSTROPHE @ ''s own configuration, not by this bot.'')
       (Some (''Remove the labels that should not split the group from '' @ quoted ''group_by'' @ '' on the matching Alertmanager route.''))
   | DifferentDigestRoutes \<Rightarrow> words ''They are digests from different routes.''
       (a @ '' collects alerts for route '' @ route_text (ex_first_route x) @ '' and '' @ b @ '' for route '' @
        route_text (ex_second_route x) @ ''. Each route keeps its own digest.'') None
   | DifferentDigestWindows t u \<Rightarrow> words ''They are digests for different time windows.''
       (''A digest post collects '' @ minutes_text (ex_digest_window x) @ '' of alerts and the next window opens a new one. '' @ a @
        '' covers the window starting '' @ relative t @ '' and '' @ b @ '' the one starting '' @ relative u @ ''.'') None
   | AlertUnknown \<Rightarrow> words ''The bot can no longer compare them.''
       ''Each post follows one alert, and whether two alerts are the same is decided by their labels. The alert behind at least one of these posts has been removed from the database by retention, so its labels are gone.''
       None
   | Unexplained \<Rightarrow> words ''Nothing explains this.''
       ''None of the things the bot uses to choose a post separates these two. That should not happen; please report it with the card keys below.''
       None)"

section \<open>The answer\<close>

definition differences_of :: "separation \<Rightarrow> label_difference list option" where
  "differences_of sep = (case sep of
     DifferentIdentities ds \<Rightarrow> if ds \<noteq> [] then Some ds else None
   | DifferentGroups ds \<Rightarrow> if ds \<noteq> [] then Some ds else None
   | _ \<Rightarrow> None)"

definition label_value :: "string option \<Rightarrow> string" where
  "label_value v = (case v of None \<Rightarrow> ''*not set*'' | Some s \<Rightarrow> quoted s)"

definition label_table :: "label_difference list \<Rightarrow> string" where
  "label_table ds = join NEWLINE (map (\<lambda>d. quoted (ld_name d) @ '': '' @ label_value (ld_first d) @ '' vs '' @ label_value (ld_second d))
     (take LABELS_SHOWN ds) @ (if LABELS_SHOWN < length ds then [''and '' @ show_nat (length ds - LABELS_SHOWN) @ '' more''] else []))"

definition side_summary :: "side \<Rightarrow> route option \<Rightarrow> string" where
  "side_summary sd r = truncated (mention_channel (sd_thread sd) @ NEWLINE @ ''Route: '' @ route_text r @ NEWLINE @ ''Alert: '' @
     (case Option.bind (sd_alert sd) (\<lambda>a. alertname (al_labels a)) of None \<Rightarrow> ''unknown'' | Some n \<Rightarrow> quoted n) @ NEWLINE @
     ''State: '' @ state_str (n_state (sd_card sd)) @ NEWLINE @ ''Opened '' @ relative (n_created_at (sd_card sd))) 1024"

definition merge_embed :: "explanation \<Rightarrow> separation \<Rightarrow> embed" where
  "merge_embed x sep = (let w = words_for x sep;
       description = ''**'' @ wd_verdict w @ ''**'' @ NEWLINE @ NEWLINE @ wd_reason w @
         (case wd_fix w of None \<Rightarrow> [] | Some f \<Rightarrow> NEWLINE @ NEWLINE @ ''**What to change:** '' @ f)
     in new_embed\<lparr>em_title := Some ''Why these posts were not merged'', em_description := Some (truncated description 4096),
       em_fields := opt_field (differences_of sep) (\<lambda>ds. (''Labels that differ'', truncated (label_table ds) 1024, False)) @
         [(''First post'', side_summary (ex_first x) (ex_first_route x), True),
          (''Second post'', side_summary (ex_second x) (ex_second_route x), True)],
       em_footer := Some (''Card keys: '' @ key_str (n_dedupe_key (sd_card (ex_first x))) @ '' | '' @
         key_str (n_dedupe_key (sd_card (ex_second x))))\<rparr>)"

definition reason_code :: "separation \<Rightarrow> string" where
  "reason_code sep = (case sep of SameCard \<Rightarrow> ''same_card'' | DifferentChannels _ _ \<Rightarrow> ''different_channels''
   | Replaced _ _ \<Rightarrow> ''replaced'' | Retired _ _ \<Rightarrow> ''retired'' | DifferentStrategies _ _ \<Rightarrow> ''different_strategies''
   | DifferentIdentities _ \<Rightarrow> ''different_identities'' | KeyedBeforePolicy \<Rightarrow> ''keyed_before_policy''
   | DifferentGroups _ \<Rightarrow> ''different_groups'' | DifferentDigestRoutes \<Rightarrow> ''different_digest_routes''
   | DifferentDigestWindows _ _ \<Rightarrow> ''different_digest_windows'' | AlertUnknown \<Rightarrow> ''alert_unknown'' | Unexplained \<Rightarrow> ''unexplained'')"

definition read_side :: "guild_id \<Rightarrow> channel_id \<Rightarrow> ('w, side) handler" where
  "read_side guild thread = act_bind (look (\<lambda>s. case notification_for_thread thread (bt_db s) of
       Some cd \<Rightarrow> if n_guild_id cd = guild then Some cd else None | None \<Rightarrow> None)) (\<lambda>found.
     act_bind (some_or_bad (mention_channel thread @ '' is not an alert post this bot opened in this server'') found) (\<lambda>cd.
     act_bind (look (\<lambda>s. map_option ar_alert (read_alert (n_fingerprint cd) (bt_db s)))) (\<lambda>a.
       act_ret \<lparr>sd_thread = thread, sd_card = cd, sd_alert = a\<rparr>)))"

definition side_facts :: "routing_snapshot \<Rightarrow> side \<Rightarrow> card_facts" where
  "side_facts sn sd = \<lparr>fc_card = sd_card sd, fc_alert = sd_alert sd, fc_route = route_by_id sn (n_route_id (sd_card sd))\<rparr>"

definition debug_merge :: "'w bot_context \<Rightarrow> from_timestamp \<Rightarrow> command \<Rightarrow> options \<Rightarrow> ('w, response) handler" where
  "debug_merge bc from_ts i os = act_bind (require_guild i) (\<lambda>guild.
     case (channel_of os ''first'', channel_of os ''second'') of
       (Some first, Some second) \<Rightarrow> act_bind (read_side guild first) (\<lambda>x. act_bind (read_side guild second) (\<lambda>y.
         act_bind (look bt_routing) (\<lambda>sn.
           let sep = explain_separation from_ts (side_facts sn x) (side_facts sn y) (bc_decisions bc);
               ex = \<lparr>ex_first = x, ex_second = y, ex_first_route = fc_route (side_facts sn x),
                 ex_second_route = fc_route (side_facts sn y), ex_regroup_window = ds_regroup_window (bc_decisions bc),
                 ex_digest_window = ds_digest_window (bc_decisions bc)\<rparr>
           in act_ret (detailed (JObj [(''first'', JInt (n_id (sd_card x))), (''second'', JInt (n_id (sd_card y))),
               (''reason'', JStr (reason_code sep))])
             (about (show_nat (unat first) @ '' / '' @ show_nat (unat second)) (embed_response (merge_embed ex sep)))))))
     | _ \<Rightarrow> refuse (BadRequest (quoted ''/debug merge'' @ '' needs two posts'')))"

definition run_debug :: "'w bot_context \<Rightarrow> from_timestamp \<Rightarrow> command \<Rightarrow> ('w, response) handler" where
  "run_debug bc from_ts i = (case subcommand i of None \<Rightarrow> refuse (BadRequest (needs_subcommand ''debug''))
   | Some (n, os) \<Rightarrow> if n = ''merge'' then debug_merge bc from_ts i os else refuse (BadRequest (older_subcommand ''debug'' n)))"

section \<open>Dispatch\<close>

text \<open>
  The dispatcher of the slash commands (\<open>discord/src/commands/mod.rs\<close>), and the gateway as a step relation: what one
  event makes of the state (\<open>bot.rs\<close>, the event handler).
\<close>

section \<open>Every command\<close>

datatype slash_command = CmdAlerts | CmdSilences | CmdIgnores | CmdRoutes | CmdSubscriptions | CmdStatus | CmdCards | CmdDebug

definition REGISTRY :: "slash_command list" where
  "REGISTRY = [CmdAlerts, CmdSilences, CmdIgnores, CmdRoutes, CmdSubscriptions, CmdStatus, CmdCards, CmdDebug]"

definition command_name :: "slash_command \<Rightarrow> string" where
  "command_name c = (case c of CmdAlerts \<Rightarrow> ''alerts'' | CmdSilences \<Rightarrow> ''silence'' | CmdIgnores \<Rightarrow> ''ignore''
   | CmdRoutes \<Rightarrow> ''route'' | CmdSubscriptions \<Rightarrow> ''subscribe'' | CmdStatus \<Rightarrow> ''status'' | CmdCards \<Rightarrow> ''cards''
   | CmdDebug \<Rightarrow> ''debug'')"

definition command_capability :: "slash_command \<Rightarrow> capability" where
  "command_capability c = (if c \<in> {CmdRoutes, CmdCards} then Admin else View)"

definition run_command ::
  "'w bot_context \<Rightarrow> from_timestamp \<Rightarrow> slash_command \<Rightarrow> command \<Rightarrow> clock \<Rightarrow> ('w, response) handler" where
  "run_command bc from_ts c i k = (case c of
     CmdAlerts \<Rightarrow> run_alerts bc i k | CmdSilences \<Rightarrow> run_silences bc i k | CmdIgnores \<Rightarrow> run_ignores bc i k
   | CmdRoutes \<Rightarrow> run_routes bc i k | CmdSubscriptions \<Rightarrow> run_subscriptions bc i k | CmdStatus \<Rightarrow> run_status bc i k
   | CmdCards \<Rightarrow> run_cards i k | CmdDebug \<Rightarrow> run_debug bc from_ts i)"

definition audited_action :: "slash_command \<Rightarrow> command \<Rightarrow> string" where
  "audited_action c i = command_name c @ ''.'' @ (case subcommand i of None \<Rightarrow> [] | Some (n, _) \<Rightarrow> n)"

definition dispatch_command :: "'w bot_context \<Rightarrow> from_timestamp \<Rightarrow> command \<Rightarrow> clock \<Rightarrow> ('w, unit) handler" where
  "dispatch_command bc from_ts i k = act_bind (on_world (bc_defer bc)) (\<lambda>deferred. if \<not> deferred then act_ret ()
     else case find (\<lambda>c. command_name c = in_command i) REGISTRY of
       None \<Rightarrow> send_answer bc (text_response ''That command belongs to an older version of the bot.'')
     | Some c \<Rightarrow> conclude bc i (audited_action c i) None (k 9)
         (guarded bc i (command_capability c) (run_command bc from_ts c i k)))"

section \<open>The gateway\<close>

inductive gateway_step :: "'w bot_context \<Rightarrow> from_timestamp \<Rightarrow> 'w bot \<Rightarrow> 'w bot \<Rightarrow> bool" for bc from_ts where
  pressed: "gateway_step bc from_ts s (snd (dispatch_press bc i k s))"
| commanded: "gateway_step bc from_ts s (snd (dispatch_command bc from_ts i k s))"
| message: "gateway_step bc from_ts s (snd (on_message channel author author_bot k s))"
| ready: "gateway_step bc from_ts s (snd (on_ready bc now s))"

inductive_cases gateway_stepE: "gateway_step bc from_ts s t"

end
