(* ===== verification/Discord_Facts.thy ===== *)
theory Discord_Facts
  imports Discord_Debug Routing_Facts Service_Facts
begin

text \<open>
  What the gateway does to the state it shares. The relations that reading handlers keep are the locale \<open>bot_relation\<close>;
  those the writing ones keep too are \<open>bot_writes\<close>. From them: an interaction is a run of the store's calls, keeps the
  routing tables' invariant, and lets a caller change only what the capability they hold allows.
\<close>

section \<open>Reading handlers\<close>

locale bot_relation = step_relation R for R :: "'w bot \<Rightarrow> 'w bot \<Rightarrow> bool" +
  assumes world: "R s (s\<lparr>bt_world := w\<rparr>)"
    and published: "R s (s\<lparr>bt_routing := sn\<rparr>)"
begin

lemma follows_refuse: "follows (refuse e)"
  by (simp add: refuse_def follows_fail)

lemma follows_look: "follows (look f)"
  by (rule follows_read) (simp add: look_def)

lemma follows_on_world: "follows (on_world f)"
  by (rule followsI) (simp add: on_world_def world split: prod.split)

lemma follows_or_refuse: "follows (or_refuse f r)"
  by (simp add: or_refuse_def follows_ret follows_refuse split: sum.split)

lemma follows_values: "follows (some_or_bad msg x)" "follows (or_abort x)"
  by (simp_all add: some_or_bad_def or_abort_def follows_some_or)

lemma follows_duration_of: "follows (duration_of raw)"
  unfolding duration_of_def by (intro follows_bind follows_values follows_or_refuse)

lemma follows_refresh: "follows (refresh_routing bc now)"
  by (rule followsI) (simp add: refresh_routing_def rel_refl published split: sum.split)

lemma follows_require: "follows (require bc i c)" "follows (require_guild i)"
  by (simp_all add: require_def require_guild_def follows_ret follows_refuse follows_values)

lemmas reads = follows_ret follows_fail follows_refuse follows_look follows_on_world follows_or_refuse follows_values
  follows_duration_of follows_refresh follows_require

lemma follows_resolved: "follows (resolved bc reference)"
  unfolding resolved_def by (intro follows_bind reads)

lemma follows_control: "follows (control_card c)" "follows (control_alert cd)" "follows (chosen i c)"
  unfolding control_card_def control_alert_def chosen_def
  by (intro follows_bind reads, intro follows_bind reads, auto intro: reads split: option.split list.split)

lemma follows_send: "follows (send_answer bc r)"
  unfolding send_answer_def by (rule follows_on_world)

lemma follows_caught: "follows m \<Longrightarrow> follows (caught m)"
proof (rule followsI)
  fix s
  assume "follows m"
  then have "R s (snd (m s))" by (rule followsD)
  then show "R s (snd (caught m s))" by (auto simp: caught_def split: prod.split sum.split stop.split)
qed

lemma follows_guarded: "(permitted bc i c \<Longrightarrow> follows m) \<Longrightarrow> follows (guarded bc i c m)"
  by (simp add: guarded_def follows_refuse)

lemma follows_alerts_read: "follows (alerts_page bc f offset)" "follows (alerts_show bc os k)"
  unfolding alerts_page_def alerts_show_def by (intro follows_bind reads follows_resolved)+

lemma follows_silences_list: "follows (silences_list bc os k)"
  unfolding silences_list_def Let_def by (intro follows_bind reads)

lemma follows_lists: "follows (ignores_list bc i k)" "follows (subscribe_list bc i)" "follows (routes_test bc os k)"
  unfolding ignores_list_def subscribe_list_def routes_test_def Let_def by (intro follows_bind reads)+

lemma follows_status: "follows (run_status bc i k)"
  unfolding run_status_def status_alertmanager_def status_bot_def status_config_def
  by (auto intro!: follows_bind reads split: option.split)

lemma follows_side: "follows (read_side guild thread)"
  unfolding read_side_def by (intro follows_bind reads)

lemma follows_debug: "follows (run_debug bc from_ts i)"
  unfolding run_debug_def debug_merge_def Let_def
  by (auto intro!: follows_bind reads follows_side split: option.split)

lemma follows_press_reads: "follows (press_details bc c k)" "follows (press_page bc c)"
  unfolding press_details_def press_page_def by (auto intro!: follows_bind reads follows_control)

end

section \<open>Writing handlers\<close>

text \<open>
  What the writes keep may depend on the capability the caller holds: \<open>may c\<close> says they hold \<open>c\<close>, \<open>user\<close> who they are.
\<close>

locale bot_writes = bot_relation R for R :: "'w bot \<Rightarrow> 'w bot \<Rightarrow> bool" +
  fixes may :: "capability \<Rightarrow> bool" and user :: user_id
  assumes acknowledged: "may Operate \<Longrightarrow> R s (s\<lparr>bt_db := snd (acknowledge a (bt_db s))\<rparr>)"
    and queued: "may c \<Longrightarrow> c \<noteq> View \<Longrightarrow> R s (s\<lparr>bt_db := snd (enqueue_effects items now (bt_db s))\<rparr>)"
    and ignored: "may Operate \<Longrightarrow> R s (s\<lparr>bt_tables := snd (upsert_ignore g (bt_tables s))\<rparr>)"
    and revoked: "may Operate \<Longrightarrow> R s (s\<lparr>bt_tables := snd (revoke_ignore j guild now (bt_tables s))\<rparr>)"
    and subscribed: "su_user_id u = user \<Longrightarrow> su_id u = 0 \<Longrightarrow> R s (s\<lparr>bt_tables := snd (upsert_subscription u (bt_tables s))\<rparr>)"
    and unsubscribed: "R s (s\<lparr>bt_tables := snd (remove_subscription j user (bt_tables s))\<rparr>)"
    and routed: "may Admin \<Longrightarrow> R s (s\<lparr>bt_tables := snd (upsert_route r (bt_tables s))\<rparr>)"
begin

lemma on_db_follows: "(\<And>s. R s (s\<lparr>bt_db := snd (f (bt_db s))\<rparr>)) \<Longrightarrow> follows (on_db f)"
  by (rule followsI) (simp add: on_db_def split_beta Let_def)

lemma on_tables_follows: "(\<And>s. R s (s\<lparr>bt_tables := snd (f (bt_tables s))\<rparr>)) \<Longrightarrow> follows (on_tables f)"
  by (rule followsI) (simp add: on_tables_def split_beta Let_def)

lemma follows_enqueue: "may c \<Longrightarrow> c \<noteq> View \<Longrightarrow> follows (bot_enqueue items now)"
  unfolding bot_enqueue_def by (auto intro!: reads on_db_follows queued)

lemma follows_re_render: "may c \<Longrightarrow> c \<noteq> View \<Longrightarrow> follows (re_render cards k)"
  unfolding re_render_def by (intro follows_bind reads follows_enqueue)

lemma follows_acknowledge: "may Operate \<Longrightarrow> follows (acknowledge_alert f u kind txt revoke k)"
  unfolding acknowledge_alert_def
  by (auto intro!: follows_bind reads on_db_follows acknowledged follows_re_render [of Operate] split: sum.split)

lemma follows_queue_silence: "may c \<Longrightarrow> c \<noteq> View \<Longrightarrow> follows (queue_silence q k)"
  unfolding queue_silence_def by (intro follows_bind reads follows_enqueue)

lemma follows_add_ignore: "may Operate \<Longrightarrow> follows (add_ignore bc q k)"
  unfolding add_ignore_def by (auto intro!: follows_bind reads on_tables_follows ignored split: sum.split)

lemmas writes = reads follows_enqueue follows_re_render follows_acknowledge follows_queue_silence follows_add_ignore
  follows_control follows_resolved

lemma follows_required:
  assumes "permitted bc i c \<Longrightarrow> follows m"
  shows "follows (act_bind (require bc i c) (\<lambda>_. m))"
  using assms by (auto simp: require_def act_bind_def act_ret_def refuse_def act_fail_def follows_def rel_refl)

end

text \<open>A caller whose permissions \<open>may\<close> covers.\<close>

definition covers :: "(capability \<Rightarrow> bool) \<Rightarrow> user_id \<Rightarrow> 'w bot_context \<Rightarrow> ('z) interaction_scheme \<Rightarrow> bool" where
  "covers may user bc i \<longleftrightarrow> in_user i = user \<and> (\<forall>c. permitted bc i c \<longrightarrow> may c)"

lemma coversD: "covers may user bc i \<Longrightarrow> permitted bc i c \<Longrightarrow> may c" "covers may user bc i \<Longrightarrow> in_user i = user"
  by (auto simp: covers_def)

context bot_writes
begin

lemma follows_run_control:
  assumes "covers may user bc i" "permitted bc i (needed (ci_action c))"
  shows "follows (run_control bc i c k)"
proof -
  have "may (needed (ci_action c))" using assms by (rule coversD)
  then show ?thesis
    by (cases "ci_action c")
      (auto simp: run_control_def press_ack_def press_silence_def press_ignore_def intro!: follows_bind writes follows_press_reads
        intro: follows_queue_silence [of Silence])
qed

lemma follows_run_alerts: "covers may user bc i \<Longrightarrow> follows (run_alerts bc i k)"
  unfolding run_alerts_def alerts_ack_def alerts_assign_def Let_def
  by (auto intro!: follows_required follows_bind writes follows_alerts_read dest: coversD split: option.split)

lemma follows_silences:
  assumes "covers may user bc i"
  shows "follows (silences_create bc i os k)" "follows (silences_extend bc i os k)" "follows (silences_expire bc i os k)"
  unfolding silences_create_def silence_target_def silences_extend_def silences_expire_def Let_def split_beta
  by (intro follows_required follows_bind follows_if writes follows_queue_silence [of Silence] follows_enqueue [of Silence]
      coversD(1) [OF assms]; simp)+

lemma follows_run_silences: "covers may user bc i \<Longrightarrow> follows (run_silences bc i k)"
  by (auto simp: run_silences_def intro!: reads follows_silences follows_silences_list split: option.split)

lemma follows_expiry: "follows (ignore_expiry os now)"
  unfolding ignore_expiry_def by (auto intro!: follows_bind reads split: option.split)

lemma follows_ignores:
  assumes "covers may user bc i"
  shows "follows (ignores_add bc i os k)" "follows (ignores_remove bc i os k)"
  unfolding ignores_add_def ignores_remove_def Let_def
  by (intro follows_required follows_bind writes follows_expiry on_tables_follows revoked coversD(1) [OF assms], assumption+)+

lemma follows_run_ignores: "covers may user bc i \<Longrightarrow> follows (run_ignores bc i k)"
  by (auto simp: run_ignores_def intro!: reads follows_ignores follows_lists split: option.split)

lemma follows_subscriptions:
  assumes "covers may user bc i"
  shows "follows (subscribe_add bc i os k)" "follows (subscribe_remove bc i os k)"
  unfolding subscribe_add_def subscribe_remove_def Let_def coversD(2) [OF assms]
  by (intro follows_bind follows_if writes on_tables_follows subscribed unsubscribed; simp)+

lemma follows_run_subscriptions: "covers may user bc i \<Longrightarrow> follows (run_subscriptions bc i k)"
  by (auto simp: run_subscriptions_def intro!: reads follows_subscriptions follows_lists split: option.split)

lemma follows_routes:
  assumes "may Admin"
  shows "follows (routes_add bc i os k)" "follows (routes_remove bc i os k)"
  unfolding routes_add_def routes_remove_def Let_def
  by (intro follows_bind follows_if writes on_tables_follows routed assms)+

lemma follows_run_routes: "may Admin \<Longrightarrow> follows (run_routes bc i k)"
  by (auto simp: run_routes_def intro!: reads follows_routes follows_lists split: option.split)

lemma follows_run_cards: "may Admin \<Longrightarrow> follows (run_cards i k)"
  unfolding run_cards_def cards_resync_def Let_def
  by (auto intro!: follows_bind reads follows_enqueue [of Admin] split: option.split)

lemma follows_run_command:
  assumes "covers may user bc i" "permitted bc i (command_capability c)"
  shows "follows (run_command bc from_ts c i k)"
proof -
  have "may (command_capability c)" using assms by (rule coversD)
  with assms(1) show ?thesis
    by (cases c) (auto simp: run_command_def command_capability_def intro: follows_run_alerts follows_run_silences
      follows_run_ignores follows_run_subscriptions follows_run_routes follows_run_cards follows_status follows_debug)
qed

end

text \<open>With the audit row, a whole interaction.\<close>

locale bot_dispatch = bot_writes R may user for R :: "'w bot \<Rightarrow> 'w bot \<Rightarrow> bool" and may and user +
  assumes audited: "R s (s\<lparr>bt_db := snd (append_audit e (bt_db s))\<rparr>)"
begin

lemma follows_audit: "follows (bot_audit e)"
  unfolding bot_audit_def by (intro follows_bind reads on_db_follows audited)

lemma follows_conclude: "follows m \<Longrightarrow> follows (conclude bc i act refused now m)"
  unfolding conclude_def by (intro follows_bind follows_caught follows_audit follows_send)

lemma follows_dispatch_press: "covers may user bc i \<Longrightarrow> follows (dispatch_press bc i k)"
  unfolding dispatch_press_def
  by (auto intro!: follows_bind reads follows_conclude follows_guarded follows_run_control follows_send split: sum.split)

lemma follows_dispatch_command: "covers may user bc i \<Longrightarrow> follows (dispatch_command bc from_ts i k)"
  unfolding dispatch_command_def
  by (auto intro!: follows_bind reads follows_conclude follows_guarded follows_run_command follows_send split: option.split)

end

text \<open>The gateway's own events, which act for nobody.\<close>

locale bot_events = bot_dispatch R may user for R :: "'w bot \<Rightarrow> 'w bot \<Rightarrow> bool" and may and user +
  assumes may: "may Operate"
    and replied: "R s (s\<lparr>bt_db := snd (record_reply r (bt_db s))\<rparr>)"
    and tagged: "R s (s\<lparr>bt_tables := snd (sync_forum_tags c tags (bt_tables s))\<rparr>)"
begin

lemma follows_on_message: "follows (on_message channel author author_bot k)"
  unfolding on_message_def
  by (auto intro!: follows_bind reads on_db_follows replied follows_re_render [OF may] split: sum.split option.split)

lemma follows_cache_tags: "follows (cache_tags bc rs changed)"
  by (induction rs arbitrary: changed)
    (auto intro!: follows_bind reads on_tables_follows tagged split: sum.split route_target.split)

lemma follows_on_ready: "follows (on_ready bc now)"
  unfolding on_ready_def by (auto intro!: follows_bind reads follows_cache_tags)

end

end
