(* ===== verification/Gateway_Facts.thy ===== *)
theory Gateway_Facts
  imports Discord_Facts Dispatch_Facts
begin

text \<open>
  The relations the gateway's handlers keep, each an interpretation of the locales of \<open>Discord_Facts\<close>: an event is a run of
  the process's own steps and keeps the routing tables' invariant; a caller changes what their capabilities allow; and
  what one interaction appends to the audit log.
\<close>

section \<open>Every event is a run of the process\<close>

definition bot_advances :: "from_timestamp \<Rightarrow> service_config \<Rightarrow> 'w bot \<Rightarrow> 'w bot \<Rightarrow> bool" where
  "bot_advances from_ts cf s t \<longleftrightarrow> (\<forall>pl. pipeline_run from_ts cf (pl\<lparr>pl_db := bt_db s\<rparr>) (pl\<lparr>pl_db := bt_db t\<rparr>)) \<and>
     (routing_ok (bt_tables s) \<longrightarrow> routing_ok (bt_tables t))"

lemma advance_call:
  "call_ok c \<Longrightarrow> run_call c (bt_db s) = db \<Longrightarrow> bot_advances from_ts cf s (s\<lparr>bt_db := db\<rparr>)"
  unfolding bot_advances_def using run_call_step [of c from_ts cf "pl\<lparr>pl_db := bt_db s\<rparr>" for pl] by auto

lemma advance_tables:
  "(routing_ok (bt_tables s) \<Longrightarrow> routing_ok t) \<Longrightarrow> bot_advances from_ts cf s (s\<lparr>bt_tables := t\<rparr>)"
  by (simp add: bot_advances_def)

interpretation advances: bot_events "bot_advances from_ts cf" "\<lambda>_. True" user
proof unfold_locales
  fix s t u :: "'w bot"
  show "bot_advances from_ts cf s t \<Longrightarrow> bot_advances from_ts cf t u \<Longrightarrow> bot_advances from_ts cf s u"
    unfolding bot_advances_def by (blast intro: run_trans)
  show "bot_advances from_ts cf s (s\<lparr>bt_db := snd (append_audit e (bt_db s))\<rparr>)" for e
    by (rule advance_call [of "CallAudit e"]) simp_all
  show "bot_advances from_ts cf s (s\<lparr>bt_db := snd (acknowledge a (bt_db s))\<rparr>)" for a
    by (rule advance_call [of "CallAcknowledge a"]) simp_all
  show "bot_advances from_ts cf s (s\<lparr>bt_db := snd (enqueue_effects items now (bt_db s))\<rparr>)" for items now
    by (rule advance_call [of "CallEnqueue items now"]) simp_all
  show "bot_advances from_ts cf s (s\<lparr>bt_db := snd (record_reply r (bt_db s))\<rparr>)" for r
    by (rule advance_call [of "CallReply r"]) simp_all
qed (auto simp: bot_advances_def intro!: advance_tables upsert_ignore_ok revoke_ignore_ok upsert_subscription_ok
    remove_subscription_ok upsert_route_ok sync_forum_tags_ok)

lemma gateway_step_advances: "gateway_step bc from_ts s t \<Longrightarrow> bot_advances from_ts' cf s t"
proof (erule gateway_stepE)
  fix i k
  assume "t = snd (dispatch_press bc i k s)"
  then show ?thesis
    using advances.followsD [OF advances.follows_dispatch_press [of "in_user i" bc i]]
    by (simp add: covers_def)
next
  fix i k
  assume "t = snd (dispatch_command bc from_ts i k s)"
  then show ?thesis
    using advances.followsD [OF advances.follows_dispatch_command [of "in_user i" bc i]]
    by (simp add: covers_def)
qed (auto intro: advances.followsD advances.follows_on_message advances.follows_on_ready)

section \<open>Frames\<close>

definition side_tables :: "db \<Rightarrow> (alert_record list \<times> event_row list) \<times> silence_link list \<times> audit_entry list" where
  "side_tables db = (alert_tables db, db_silences db, db_audit db)"

lemma side_cards: "side_tables (db\<lparr>db_cards := ns\<rparr>) = side_tables db"
  by (simp add: side_tables_def)

lemma acknowledge_frames_side: "frames side_tables (acknowledge_tx c)"
proof (rule acknowledge_frame)
  have up: "frames side_tables (update_card i f)" for i f
    by (auto intro!: framesI dest!: update_cardD simp: side_cards)
  show "frames side_tables (ack_card t a at n)" for t a at n
    unfolding ack_card_def by (auto split: option.split simp: move_state_def intro!: frames_bind up frames_ret)
  show "frames side_tables (write_ack c)"
    by (auto intro!: framesI simp: write_ack_def Let_def side_tables_def split: if_splits)
qed

lemma enqueue_audit: "enqueue item at db = Inr (x, db') \<Longrightarrow> db_audit db' = db_audit db"
  by (auto simp: enqueue_def insert_item_def Let_def split: option.splits if_splits)

lemma call_side:
  "side_tables (snd (acknowledge a db)) = side_tables db" "side_tables (snd (enqueue_effects items at db)) = side_tables db"
proof -
  show "side_tables (snd (acknowledge a db)) = side_tables db"
    unfolding acknowledge_def by (rule frames_run [OF acknowledge_frames_side])
  have "frames side_tables (enqueue it at)" for it
    by (rule framesI) (simp add: side_tables_def enqueue_outbox(7-9) enqueue_audit)
  then show "side_tables (snd (enqueue_effects items at db)) = side_tables db"
    unfolding enqueue_effects_def by (intro frames_run frames_each)
qed

lemma enqueue_cards: "card_tables (snd (enqueue_effects items at db)) = card_tables db"
  unfolding enqueue_effects_def by (intro frames_run frames_each enqueue_frames)

lemma acknowledge_queue: "queue_tables (snd (acknowledge a db)) = queue_tables db"
  unfolding acknowledge_def by (rule frames_run [OF acknowledge_frames(2)])

section \<open>What a caller can change\<close>

text \<open>\<open>may\<close> says which capabilities the caller holds; everything else of the store stays as it was.\<close>

definition within_rights :: "(capability \<Rightarrow> bool) \<Rightarrow> user_id \<Rightarrow> 'w bot \<Rightarrow> 'w bot \<Rightarrow> bool" where
  "within_rights may user s t \<longleftrightarrow>
     (let db = bt_db s; db' = bt_db t; tb = bt_tables s; tb' = bt_tables t in
      db_alerts db' = db_alerts db \<and> db_events db' = db_events db \<and> db_silences db' = db_silences db \<and> rb_tags tb' = rb_tags tb \<and>
      filter (\<lambda>u. su_user_id u \<noteq> user) (rb_subscriptions tb') = filter (\<lambda>u. su_user_id u \<noteq> user) (rb_subscriptions tb) \<and>
      (may Operate \<or> db_cards db' = db_cards db \<and> db_acks db' = db_acks db \<and> rb_ignores tb' = rb_ignores tb) \<and>
      (may Operate \<or> may Silence \<or> may Admin \<or> db_outbox db' = db_outbox db) \<and>
      (may Admin \<or> rb_routes tb' = rb_routes tb))"

lemma own_subscriptions_only:
  "su_user_id u = user \<Longrightarrow> su_id u = 0 \<Longrightarrow> filter (\<lambda>r. su_user_id r \<noteq> user) (rb_subscriptions (snd (upsert_subscription u t))) =
     filter (\<lambda>r. su_user_id r \<noteq> user) (rb_subscriptions t)"
  "filter (\<lambda>r. su_user_id r \<noteq> user) (rb_subscriptions (snd (remove_subscription j user t))) =
     filter (\<lambda>r. su_user_id r \<noteq> user) (rb_subscriptions t)"
  by (auto simp: upsert_subscription_def remove_subscription_def Let_def filter_filter intro!: filter_cong)

lemma routing_frames:
  "rb_tags (snd (upsert_subscription u t)) = rb_tags t" "rb_ignores (snd (upsert_subscription u t)) = rb_ignores t"
  "rb_routes (snd (upsert_subscription u t)) = rb_routes t" "rb_tags (snd (remove_subscription j user t)) = rb_tags t"
  "rb_ignores (snd (remove_subscription j user t)) = rb_ignores t" "rb_routes (snd (remove_subscription j user t)) = rb_routes t"
  "rb_tags (snd (upsert_ignore g t)) = rb_tags t" "rb_subscriptions (snd (upsert_ignore g t)) = rb_subscriptions t"
  "rb_routes (snd (upsert_ignore g t)) = rb_routes t" "rb_tags (snd (revoke_ignore l guild now t)) = rb_tags t"
  "rb_subscriptions (snd (revoke_ignore l guild now t)) = rb_subscriptions t" "rb_routes (snd (revoke_ignore l guild now t)) = rb_routes t"
  "rb_tags (snd (upsert_route r t)) = rb_tags t" "rb_subscriptions (snd (upsert_route r t)) = rb_subscriptions t"
  "rb_ignores (snd (upsert_route r t)) = rb_ignores t"
  by (auto simp: upsert_subscription_def remove_subscription_def upsert_ignore_def revoke_ignore_def upsert_route_def
      insert_route_def write_routes_def Let_def split: option.split sum.split prod.split)

interpretation rights: bot_dispatch "within_rights may user" may user
proof unfold_locales
  fix s :: "'w bot"
  show "may c \<Longrightarrow> c \<noteq> View \<Longrightarrow> within_rights may user s (s\<lparr>bt_db := snd (enqueue_effects items now (bt_db s))\<rparr>)" for c items now
    using call_side(2) [of items now "bt_db s"] enqueue_cards [of items now "bt_db s"]
    by (cases c) (simp_all add: within_rights_def Let_def side_tables_def)
  show "may Operate \<Longrightarrow> within_rights may user s (s\<lparr>bt_db := snd (acknowledge a (bt_db s))\<rparr>)" for a
    using call_side(1) [of a "bt_db s"] by (simp add: within_rights_def Let_def side_tables_def)
next
  fix s t u :: "'w bot"
  show "within_rights may user s t \<Longrightarrow> within_rights may user t u \<Longrightarrow> within_rights may user s u"
    by (cases "may Operate"; cases "may Silence"; cases "may Admin") (simp_all add: within_rights_def Let_def)
next
  fix s :: "'w bot"
  show "within_rights may user s (s\<lparr>bt_db := snd (append_audit e (bt_db s))\<rparr>)" for e
    by (simp add: within_rights_def Let_def append_audit_def run_tx_def)
qed (auto simp: within_rights_def Let_def own_subscriptions_only routing_frames)

section \<open>One audit row\<close>

interpretation unaudited: bot_writes "\<lambda>s t. db_audit (bt_db t) = db_audit (bt_db s)" "\<lambda>_. True" user
proof unfold_locales
  fix s :: "'w bot"
  show "db_audit (bt_db (s\<lparr>bt_db := snd (acknowledge a (bt_db s))\<rparr>)) = db_audit (bt_db s)" for a
    using call_side(1) [of a "bt_db s"] by (simp add: side_tables_def)
  show "db_audit (bt_db (s\<lparr>bt_db := snd (enqueue_effects items now (bt_db s))\<rparr>)) = db_audit (bt_db s)" for items now
    using call_side(2) [of items now "bt_db s"] by (simp add: side_tables_def)
qed simp_all

text \<open>What a dispatcher makes of the outcome of its handler.\<close>

definition concluded :: "'w bot_context \<Rightarrow> audit_entry \<Rightarrow> response \<Rightarrow> 'w bot \<Rightarrow> 'w bot" where
  "concluded bc e r s = s\<lparr>bt_db := (bt_db s)\<lparr>db_audit := db_audit (bt_db s) @ [e]\<rparr>, bt_world := bc_answer bc (edit_response r) (bt_world s)\<rparr>"

lemma concluded_simps [simp]:
  "db_audit (bt_db (concluded bc e r s)) = db_audit (bt_db s) @ [e]" "bt_tables (concluded bc e r s) = bt_tables s"
  "db_outbox (bt_db (concluded bc e r s)) = db_outbox (bt_db s)" "db_cards (bt_db (concluded bc e r s)) = db_cards (bt_db s)"
  "db_acks (bt_db (concluded bc e r s)) = db_acks (bt_db s)"
  by (simp_all add: concluded_def)

lemma conclude_run:
  "conclude bc i act refused now m s = (case m s of
     (Inr r, s') \<Rightarrow> (Inr (), concluded bc (outcome_entry i act refused (Inr r) now) r s')
   | (Inl (Refused e), s') \<Rightarrow> (Inr (), concluded bc (outcome_entry i act refused (Inl e) now) (text_response (command_error_str e)) s')
   | (Inl Aborted, s') \<Rightarrow> (Inl Aborted, s'))"
  by (auto simp: conclude_def caught_def act_bind_def bot_audit_def on_db_def on_world_def act_ret_def append_audit_def run_tx_def
      send_answer_def outcome_response_def concluded_def split: prod.split sum.split stop.split)

lemma deferred_run:
  "bc_defer bc (bt_world s) = (True, w) \<Longrightarrow>
   act_bind (on_world (bc_defer bc)) (\<lambda>deferred. if \<not> deferred then act_ret () else m) s = m (s\<lparr>bt_world := w\<rparr>)"
  by (simp add: act_bind_def on_world_def)

lemma guarded_run: "guarded bc i c m s = (if permitted bc i c then m s else (Inl (Refused (DeniedError c)), s))"
  by (simp add: guarded_def refuse_def)

lemma press_audit:
  "permitted bc i (needed (ci_action c)) \<Longrightarrow> db_audit (bt_db (snd (run_control bc i c k s))) = db_audit (bt_db s)"
  using unaudited.followsD [OF unaudited.follows_run_control [of "in_user i" bc i c k]] by (simp add: covers_def)

lemma command_audit:
  "permitted bc i (command_capability c) \<Longrightarrow> db_audit (bt_db (snd (run_command bc from_ts c i k s))) = db_audit (bt_db s)"
  using unaudited.followsD [OF unaudited.follows_run_command [of "in_user i" bc i c from_ts k]] by (simp add: covers_def)

section \<open>The buttons' writes\<close>

lemma edit_survives:
  assumes "enqueue item at db = Inr (x, db')" "r \<in> set (db_outbox db)" "ob_claimed_at r = None" "ob_effect r = EditCard i"
  shows "\<exists>r \<in> set (db_outbox db'). ob_claimed_at r = None \<and> ob_effect r = EditCard i"
proof (cases "no_effect item = EditCard i")
  case True
  with enqueue_outbox(1) [OF assms(1)] show ?thesis by auto
next
  case False
  then have "effect_notification (ob_effect r) \<noteq> effect_notification (no_effect item) \<or> effect_kind (ob_effect r) \<noteq> effect_kind (no_effect item)"
    using assms(4) by (cases "no_effect item") auto
  with enqueue_outbox(2) [OF assms(1,2)] assms(3,4) show ?thesis by blast
qed

definition edits :: "time \<Rightarrow> notification list \<Rightarrow> new_outbox_item list" where
  "edits at cards = map (\<lambda>cd. outbox_now (EditCard (n_id cd)) (n_dedupe_key cd) at) cards"

lemma edits_queued:
  assumes "tx_each (\<lambda>item. enqueue item at) (edits due cards) db = Inr (x, db')"
    "n \<in> n_id ` set cards \<or> (\<exists>r \<in> set (db_outbox db). ob_claimed_at r = None \<and> ob_effect r = EditCard n)"
  shows "\<exists>r \<in> set (db_outbox db'). ob_claimed_at r = None \<and> ob_effect r = EditCard n"
  using assms
proof (induction cards arbitrary: db)
  case Nil
  then show ?case by (simp add: edits_def tx_ret_def)
next
  case (Cons cd cards)
  let ?item = "outbox_now (EditCard (n_id cd)) (n_dedupe_key cd) due"
  obtain db1 where 1: "enqueue ?item at db = Inr ((), db1)" using enqueue_total by blast
  with Cons.prems(1) have rest: "tx_each (\<lambda>item. enqueue item at) (edits due cards) db1 = Inr (x, db')"
    by (simp add: edits_def tx_bind_def)
  have "n = n_id cd \<Longrightarrow> \<exists>r \<in> set (db_outbox db1). ob_claimed_at r = None \<and> ob_effect r = EditCard n"
    using enqueue_outbox(1) [OF 1] by (auto simp: outbox_now_def)
  then show ?case using Cons.IH [OF rest] Cons.prems(2) edit_survives [OF 1] by auto
qed

lemma enqueue_edits:
  "n \<in> set cards \<Longrightarrow> \<exists>r \<in> set (db_outbox (snd (enqueue_effects (edits due cards) at db))). ob_claimed_at r = None \<and> ob_effect r = EditCard (n_id n)"
proof -
  assume n: "n \<in> set cards"
  obtain db' where "tx_each (\<lambda>item. enqueue item at) (edits due cards) db = Inr ((), db')" using enqueue_each_total by blast
  with edits_queued [OF this, of "n_id n"] n show ?thesis by (simp add: enqueue_effects_def run_tx_def)
qed

lemma re_render_run: "re_render cards k s = (Inr (), s\<lparr>bt_db := snd (enqueue_effects (edits (k 0) cards) (k 1) (bt_db s))\<rparr>)"
  by (simp add: re_render_def bot_enqueue_def act_bind_def on_db_def edits_def enqueue_effects_def run_tx_def tx_ret_def
      split: prod.split sum.split)

lemma acknowledge_alert_run:
  "acknowledge \<lparr>ac_fingerprint = f, ac_user_id = u, ac_kind = kind, ac_note = txt, ac_revoke = revoke, ac_at = k 0\<rparr> (bt_db s) = (Inr out, db) \<Longrightarrow>
   acknowledge_alert f u kind txt revoke k s = (Inr (Inr out), s\<lparr>bt_db :=
     if ao_changed out then snd (enqueue_effects (edits (k 1) (ao_cards out)) (k 2) db) else db\<rparr>)"
  by (simp add: acknowledge_alert_def act_bind_def on_db_def re_render_run later_def numeral_2_eq_2)

lemma press_ack_run:
  assumes "notification_by_id (ci_entity c) (bt_db s) = Some cd"
    "acknowledge \<lparr>ac_fingerprint = n_fingerprint cd, ac_user_id = in_user i, ac_kind = Ack, ac_note = None, ac_revoke = revoke,
       ac_at = k 0\<rparr> (bt_db s) = (Inr out, db)"
  shows "press_ack i c revoke k s = (Inr (detailed (ack_detail revoke out) (about (fp_str (n_fingerprint cd))
      (text_response (ack_text revoke out ''Taken. The card is updating.'' '' got there first.'')))),
    s\<lparr>bt_db := if ao_changed out then snd (enqueue_effects (edits (k 1) (ao_cards out)) (k 2) db) else db\<rparr>)"
  using acknowledge_alert_run [where k = k and s = s, OF assms(2)] assms(1)
  by (simp add: press_ack_def control_card_def act_bind_def look_def some_or_bad_def some_or_def or_refuse_def act_ret_def)

lemma press_run:
  assumes "decode_custom_id (in_custom_id i) = Inr c" "permitted bc i (needed (ci_action c))" "bc_defer bc (bt_world s) = (True, w)"
    "run_control bc i c k (s\<lparr>bt_world := w\<rparr>) = (Inr r, t)"
  shows "dispatch_press bc i k s = (Inr (), concluded bc (outcome_entry i (''component.'' @ action_str (ci_action c))
    (Some (show_int (ci_entity c))) (Inr r) (k 9)) r t)"
  using assms by (simp add: dispatch_press_def deferred_run [OF assms(3)] conclude_run guarded_run)

lemma create_silence_queued:
  "\<exists>item. db_outbox (snd (enqueue_effects [outbox_now (CreateSilence rq) key due] at db)) = db_outbox db @ [item] \<and>
     ob_effect item = CreateSilence rq"
  by (simp add: enqueue_effects_def run_tx_def tx_bind_def tx_ret_def enqueue_def insert_item_def outbox_now_def)

lemma press_silence_run:
  assumes "notification_by_id (ci_entity c) (bt_db s) = Some cd" "in_values i = Some (v # vs)" "parse_duration v = Some (Inr d)"
    "read_alert (n_fingerprint cd) (bt_db s) = Some r" "instant_after (k 0) d = Some ends"
  shows "\<exists>resp. press_silence i c k s = (Inr resp, s\<lparr>bt_db := snd (enqueue_effects
      [outbox_now (CreateSilence (silence_request_of (card_silence i r d) (k 0) ends)) (silence_key (Some r)) (k 0)] (k 1) (bt_db s))\<rparr>)"
  using assms
  by (simp add: press_silence_def control_card_def control_alert_def chosen_def act_bind_def look_def some_or_bad_def some_or_def
      or_refuse_def or_abort_def duration_of_def queue_silence_def bot_enqueue_def on_db_def act_ret_def enqueue_effects_def run_tx_def
      tx_bind_def tx_ret_def enqueue_def insert_item_def outbox_now_def card_silence_def)

end
