(* ===== verification/Properties_Discord.thy ===== *)
theory Properties_Discord
  imports Gateway_Facts Properties_Store Properties_Dispatch
begin

text \<open>
  What the gateway promises: who may change what, the audit row of every interaction, that its writes are the process's
  own, and what the buttons of a card do to the store.
\<close>

section \<open>A gateway for the witnesses\<close>

definition bare_env :: template_env where
  "bare_env = \<lparr>te_compile = (\<lambda>_. None), te_render = (\<lambda>_ _. None)\<rparr>"

definition bare_drawing :: drawing where
  "bare_drawing = \<lparr>dr_config = default_render, dr_links = \<lparr>lk_buttons = [], lk_allowed_hosts = [], lk_lead = 0, lk_trail = 0,
     lk_bases = []\<rparr>, dr_env = bare_env, dr_urls = (\<lambda>_. None)\<rparr>"

text \<open>Everybody looks, role 5 acts on alerts and role 6 silences them too.\<close>

definition operators :: capability_map where
  "operators = \<lparr>cm_view = [Everyone], cm_operate = [RoleGrant 5], cm_silence = [RoleGrant 6], cm_admin = []\<rparr>"

definition desk_bot :: "nat bot_context" where
  "desk_bot = \<lparr>bc_am = counting_am, bc_sink = counting_sink, bc_drawing = bare_drawing, bc_regex = literal_regex,
     bc_defaults = \<lparr>rd_archive_after_minutes = 1440\<rparr>, bc_decisions = default_settings,
     bc_capabilities = operators, bc_defer = (\<lambda>n. (True, n + 1)), bc_answer = (\<lambda>_ n. n + 1)\<rparr>"

definition bot_over :: "db \<Rightarrow> nat bot" where
  "bot_over db = \<lparr>bt_db = db, bt_tables = no_routing, bt_routing = text_snapshot, bt_world = 0\<rparr>"

definition press_by :: "user_id \<Rightarrow> role_id list \<Rightarrow> string \<Rightarrow> press" where
  "press_by u roles control = \<lparr>in_user = u, in_user_name = ''ada'', in_guild = Some 1, in_channel = 7, in_member = Some roles,
     in_cached_roles = None, in_custom_id = control, in_values = None, in_message_link = ''link''\<rparr>"

definition typed_by :: "user_id \<Rightarrow> role_id list \<Rightarrow> string \<Rightarrow> options \<Rightarrow> command" where
  "typed_by u roles name os = \<lparr>in_user = u, in_user_name = ''ada'', in_guild = Some 1, in_channel = 7, in_member = Some roles,
     in_cached_roles = None, in_command = name, in_options = os\<rparr>"

lemma desk_permits:
  "permitted desk_bot (press_by u roles control) Operate \<longleftrightarrow> 5 \<in> set roles \<or> 6 \<in> set roles"
  "permitted desk_bot (press_by u roles control) Silence \<longleftrightarrow> 6 \<in> set roles"
  "permitted desk_bot (typed_by u roles name os) View"
  by (simp_all add: permitted_def member_roles_def press_by_def typed_by_def desk_bot_def operators_def allows_def granted_def
      less_eq_capability_def capability_rank_def)
section \<open>Who may change what\<close>

text \<open>
  Somebody without the capability a button needs changes nothing by pressing it: the one thing written is a denied
  row in the audit log, under their name, and the answer tells them what they lack.
\<close>

theorem refused_press_changes_nothing:
  assumes "decode_custom_id (in_custom_id i) = Inr c" "\<not> permitted bc i (needed (ci_action c))" "bc_defer bc (bt_world s) = (True, w)"
  shows "dispatch_press bc i k s = (Inr (), s\<lparr>
    bt_db := (bt_db s)\<lparr>db_audit := db_audit (bt_db s) @ [\<lparr>au_actor = Some (in_user i), au_guild_id = in_guild i,
      au_action = ''component.'' @ action_str (ci_action c), au_subject = Some (show_int (ci_entity c)),
      au_detail = JObj [(''error'', JStr (command_error_str (DeniedError (needed (ci_action c)))))], au_result = AuditDenied,
      au_at = k 9\<rparr>]\<rparr>,
    bt_world := bc_answer bc \<lparr>rp_content = Some (command_error_str (DeniedError (needed (ci_action c)))), rp_embed = None,
      rp_rows = []\<rparr> w\<rparr>)"
  using assms(1,2)
  by (simp add: dispatch_press_def deferred_run [OF assms(3)] conclude_run guarded_run concluded_def outcome_entry_def
      error_detail_def text_response_def empty_response_def edit_response_def)

definition control :: "action \<Rightarrow> string" where
  "control a = display_custom_id (new_custom_id a 1)"

lemma decode_control: "decode_custom_id (control a) = Inr (new_custom_id a 1)"
  unfolding control_def by (rule decode_display) (simp_all add: new_custom_id_def)

theorem refused_press_changes_nothing_witness:
  "bt_db (snd (dispatch_press desk_bot (press_by 9 [] (control ActAck)) (\<lambda>_. 3) (bot_over disk_db))) =
     disk_db\<lparr>db_audit := db_audit disk_db @ [\<lparr>au_actor = Some 9, au_guild_id = Some 1, au_action = ''component.ak'',
       au_subject = Some (show_int 1), au_detail = JObj [(''error'', JStr (command_error_str (DeniedError Operate)))],
       au_result = AuditDenied, au_at = 3\<rparr>]\<rparr>"
  using refused_press_changes_nothing [where bc = desk_bot and i = "press_by 9 [] (control ActAck)" and c = "new_custom_id ActAck 1"
      and s = "bot_over disk_db" and w = 1 and k = "\<lambda>_. 3"] desk_permits(1) [of 9 "[]"] decode_control [of ActAck]
  by (simp add: press_by_def bot_over_def action_str_def new_custom_id_def desk_bot_def)


section \<open>What an interaction leaves behind\<close>

text \<open>
  C20: Every command that is answered leaves exactly one row in the audit log, whatever it did: an ok row with the subject
  and the detail of its answer, a denied row when the caller lacks a capability, an error row with what it was refused
  for otherwise. Only a command during which the process aborts leaves none.
\<close>

theorem command_leaves_one_row:
  assumes "find (\<lambda>c. command_name c = in_command i) REGISTRY = Some c" "bc_defer bc (bt_world s) = (True, w)"
    and run: "guarded bc i (command_capability c) (run_command bc from_ts c i k) (s\<lparr>bt_world := w\<rparr>) = (out, u)"
    and dispatched: "dispatch_command bc from_ts i k s = (answered, t)"
  defines "row \<equiv> \<lparr>au_actor = Some (in_user i), au_guild_id = in_guild i, au_action = audited_action c i, au_subject = None,
      au_detail = JNull, au_result = AuditOk, au_at = k 9\<rparr>"
  shows "case out of
      Inr r \<Rightarrow> answered = Inr () \<and>
        db_audit (bt_db t) = db_audit (bt_db s) @ [row\<lparr>au_subject := rs_subject r, au_detail := rs_detail r\<rparr>]
    | Inl (Refused e) \<Rightarrow> answered = Inr () \<and> db_audit (bt_db t) = db_audit (bt_db s) @
        [row\<lparr>au_detail := JObj [(''error'', JStr (command_error_str e))],
          au_result := (case e of DeniedError _ \<Rightarrow> AuditDenied | _ \<Rightarrow> AuditError)\<rparr>]
    | Inl Aborted \<Rightarrow> answered = Inl Aborted \<and> db_audit (bt_db t) = db_audit (bt_db s)"
proof -
  have log: "db_audit (bt_db u) = db_audit (bt_db s)"
  proof (cases "permitted bc i (command_capability c)")
    case True
    with run have "u = snd (run_command bc from_ts c i k (s\<lparr>bt_world := w\<rparr>))" by (simp add: guarded_run)
    then show ?thesis using command_audit [OF True, where s = "s\<lparr>bt_world := w\<rparr>"] by simp
  next
    case False
    with run show ?thesis by (auto simp: guarded_run)
  qed
  have "(answered, t) = conclude bc i (audited_action c i) None (k 9) (guarded bc i (command_capability c) (run_command bc from_ts c i k))
      (s\<lparr>bt_world := w\<rparr>)"
    using dispatched assms(1) by (simp add: dispatch_command_def deferred_run [OF assms(2)])
  with run log show ?thesis
    by (auto simp: conclude_run outcome_entry_def error_detail_def row_def split: sum.split stop.split command_error.split)
qed

theorem command_leaves_one_row_witness:
  "db_audit (bt_db (snd (dispatch_command desk_bot (\<lambda>_. None) (typed_by 9 [] ''status'' []) (\<lambda>_. 3) (bot_over disk_db)))) =
     db_audit disk_db @ [\<lparr>au_actor = Some 9, au_guild_id = Some 1, au_action = ''status.'', au_subject = None,
       au_detail = JObj [(''error'', JStr (needs_subcommand ''status''))], au_result = AuditError, au_at = 3\<rparr>]"
proof -
  let ?i = "typed_by 9 [] ''status'' []" and ?s = "bot_over disk_db"
  have known: "find (\<lambda>c. command_name c = in_command ?i) REGISTRY = Some CmdStatus"
    by (simp add: REGISTRY_def typed_by_def command_name_def)
  have run: "guarded desk_bot ?i (command_capability CmdStatus) (run_command desk_bot (\<lambda>_. None) CmdStatus ?i (\<lambda>_. 3)) (?s\<lparr>bt_world := 1\<rparr>) =
      (Inl (Refused (BadRequest (needs_subcommand ''status''))), ?s\<lparr>bt_world := 1\<rparr>)"
    using desk_permits(3) by (simp add: guarded_run command_capability_def run_command_def run_status_def subcommand_def typed_by_def refuse_def)
  obtain a t where d: "dispatch_command desk_bot (\<lambda>_. None) ?i (\<lambda>_. 3) ?s = (a, t)" by fastforce
  from command_leaves_one_row [OF known _ run d] d show ?thesis
    by (simp add: desk_bot_def bot_over_def typed_by_def audited_action_def command_name_def subcommand_def)
qed



section \<open>The buttons of a card\<close>

text \<open>
  C21: The acknowledge button is first come, first served, end to end. If nobody holds the alert, the press gives it to
  whoever pressed, moves every card of the alert along the acknowledge edge and leaves an edit of each of those
  cards waiting in the queue. If somebody holds it, the press writes nothing but its audit row, and the answer names
  the holder.
\<close>

theorem ack_button_first_wins:
  assumes press: "decode_custom_id (in_custom_id i) = Inr c" "ci_action c = ActAck" "permitted bc i Operate"
      "bc_defer bc (bt_world s) = (True, w)" "notification_by_id (ci_entity c) (bt_db s) = Some cd"
    and ok: "cards_ok (bt_db s)" and run: "dispatch_press bc i k s = (answered, t)"
  defines "mine \<equiv> read_cards_for (n_fingerprint cd) (bt_db s)"
  shows "answered = Inr () \<and> (case holder_row (n_fingerprint cd) (bt_db s) of
      Some r \<Rightarrow> bt_world t = bc_answer bc \<lparr>rp_content = Some (mention_user (ak_user_id r) @ '' got there first.''), rp_embed = None,
          rp_rows = []\<rparr> w \<and> bt_tables t = bt_tables s \<and>
        (\<exists>row. au_result row = AuditOk \<and> bt_db t = (bt_db s)\<lparr>db_audit := db_audit (bt_db s) @ [row]\<rparr>)
    | None \<Rightarrow> map_option ak_user_id (holder_row (n_fingerprint cd) (bt_db t)) = Some (in_user i) \<and>
        db_cards (bt_db t) = map (\<lambda>n. if n \<in> set mine then acked_row TAcknowledged True (k 0) n else n) (db_cards (bt_db s)) \<and>
        (\<forall>n \<in> set mine. \<exists>item \<in> set (db_outbox (bt_db t)). ob_effect item = EditCard (n_id n) \<and> ob_claimed_at item = None))"
proof -
  let ?f = "n_fingerprint cd" and ?s = "s\<lparr>bt_world := w\<rparr>"
  let ?ask = "\<lparr>ac_fingerprint = ?f, ac_user_id = in_user i, ac_kind = Ack, ac_note = None, ac_revoke = False, ac_at = k 0\<rparr>"
  have need: "permitted bc i (needed (ci_action c))" using press(2,3) by simp
  note step = press_ack_run [where i = i and c = c and revoke = False and k = k and s = ?s]
  note whole = press_run [OF press(1) need press(4)]
  show ?thesis
  proof (cases "holder_row ?f (bt_db s)")
    case (Some r)
    define out where "out = \<lparr>ao_changed = False, ao_holder = Some (ak_user_id r), ao_acknowledged_at = Some (ak_created_at r),
      ao_cards = mine\<rparr>"
    define resp where "resp = detailed (ack_detail False out) (about (fp_str ?f)
      (text_response (ack_text False out ''Taken. The card is updating.'' '' got there first.'')))"
    have "acknowledge ?ask (bt_db s) = (Inr out, bt_db s)" using acknowledge_loses [of ?ask "bt_db s" r] Some by (simp add: out_def mine_def)
    with step [of cd out "bt_db s"] press(2,5) have "run_control bc i c k ?s = (Inr resp, ?s)"
      by (simp add: run_control_def resp_def out_def)
    from whole [OF this] run have t: "answered = Inr ()" "t = concluded bc (outcome_entry i (''component.'' @ action_str (ci_action c))
        (Some (show_int (ci_entity c))) (Inr resp) (k 9)) resp ?s" by simp_all
    have "edit_response resp = \<lparr>rp_content = Some (mention_user (ak_user_id r) @ '' got there first.''), rp_embed = None, rp_rows = []\<rparr>"
      by (simp add: resp_def out_def edit_response_def ack_text_def detailed_def about_def text_response_def empty_response_def)
    with t Some show ?thesis by (auto simp: concluded_def outcome_entry_def intro!: exI)
  next
    case None
    then have free: "holder_row (ac_fingerprint ?ask) (bt_db s) = None" by simp
    from acknowledge_takes [OF ok free] obtain out db r where
      a: "acknowledge ?ask (bt_db s) = (Inr out, db)" "ao_changed out"
        "db_cards db = map (\<lambda>n. if n \<in> set mine then acked_row TAcknowledged True (k 0) n else n) (db_cards (bt_db s))"
        "map n_id (ao_cards out) = map n_id mine" "holder_row ?f db = Some r" "ak_user_id r = in_user i"
      unfolding mine_def by auto
    define db' where "db' = snd (enqueue_effects (edits (k 1) (ao_cards out)) (k 2) db)"
    have t: "answered = Inr ()" "db_outbox (bt_db t) = db_outbox db'" "db_cards (bt_db t) = db_cards db'" "db_acks (bt_db t) = db_acks db'"
      using step [of cd out db] a(1,2) press(2,5) whole run by (auto simp: run_control_def db'_def)
    have kept: "db_cards db' = db_cards db" "db_acks db' = db_acks db"
      using enqueue_cards [of "edits (k 1) (ao_cards out)" "k 2" db] by (simp_all add: db'_def)
    have "\<exists>item \<in> set (db_outbox db'). ob_effect item = EditCard (n_id n) \<and> ob_claimed_at item = None" if "n \<in> set mine" for n
    proof -
      from that a(4) have "n_id n \<in> set (map n_id (ao_cards out))" by simp
      then obtain m where "m \<in> set (ao_cards out)" "n_id m = n_id n" by auto
      with enqueue_edits [of m "ao_cards out" "k 1" "k 2" db] show ?thesis by (auto simp: db'_def)
    qed
    with t kept a(3,5,6) None show ?thesis by (simp add: holder_row_def)
  qed
qed

theorem ack_button_first_wins_witness:
  "map_option ak_user_id (holder_row fp_a (bt_db (snd (dispatch_press desk_bot (press_by 9 [5] (control ActAck)) (\<lambda>_. 3)
     (bot_over disk_db))))) = Some 9"
proof -
  let ?i = "press_by 9 [5] (control ActAck)" and ?s = "bot_over disk_db"
  obtain a t where d: "dispatch_press desk_bot ?i (\<lambda>_. 3) ?s = (a, t)" by fastforce
  have cd: "\<exists>cd. notification_by_id 1 (bt_db ?s) = Some cd \<and> n_fingerprint cd = fp_a"
    by (simp add: bot_over_def disk_apply notification_by_id_def)
  then obtain cd where cd: "notification_by_id (ci_entity (new_custom_id ActAck 1)) (bt_db ?s) = Some cd" "n_fingerprint cd = fp_a"
    by (auto simp: new_custom_id_def)
  have free: "holder_row fp_a (bt_db ?s) = None" by (simp add: bot_over_def disk_apply holder_row_def)
  show ?thesis
    using ack_button_first_wins [OF _ _ _ _ cd(1) _ d, where w = 1] decode_control [of ActAck] desk_permits(1) [of 9 "[5]"] disk_db_ok d cd(2) free
    by (simp add: press_by_def new_custom_id_def db_ok_def bot_over_def desk_bot_def)
qed

text \<open>
  C22: Silencing from a card queues exactly one thing: a request whose matcher expression parses back to matchers that
  accept just the label sets carrying every label of the alert, in force from the press for the time picked, in the
  presser's name. No card moves until Alertmanager reports the silence back.
\<close>

theorem silence_button_covers_the_alert:
  assumes press: "decode_custom_id (in_custom_id i) = Inr c" "ci_action c = ActSilenceFor" "permitted bc i Silence"
      "bc_defer bc (bt_world s) = (True, w)" "notification_by_id (ci_entity c) (bt_db s) = Some cd"
    and picked: "in_values i = Some (v # vs)" "parse_duration v = Some (Inr d)" "k 0 + d \<le> MAX_INSTANT"
    and alert: "read_alert (n_fingerprint cd) (bt_db s) = Some r" "list_all part_ok (al_labels (ar_alert r))"
    and run: "dispatch_press bc i k s = (answered, t)"
  shows "answered = Inr () \<and> db_cards (bt_db t) = db_cards (bt_db s) \<and> (\<exists>item rq ms.
    db_outbox (bt_db t) = db_outbox (bt_db s) @ [item] \<and> ob_effect item = CreateSilence rq \<and>
    sf_starts_at rq = k 0 \<and> sf_ends_at rq = k 0 + d \<and> sf_discord_user_id rq = Some (in_user i) \<and>
    parse_matchers (bc_regex bc) (sf_matchers rq) = Inr ms \<and>
    (\<forall>ls. set_matches ms ls \<longleftrightarrow> list_all (\<lambda>(n, x). get_or_empty ls (name_str n) = x) (al_labels (ar_alert r))))"
proof -
  define rq where "rq = silence_request_of (card_silence i r d) (k 0) (k 0 + d)"
  define db where "db = snd (enqueue_effects [outbox_now (CreateSilence rq) (silence_key (Some r)) (k 0)] (k 1) (bt_db s))"
  have ends: "instant_after (k 0) d = Some (k 0 + d)" using picked(3) by (simp add: instant_after_def)
  obtain resp where "run_control bc i c k (s\<lparr>bt_world := w\<rparr>) = (Inr resp, s\<lparr>bt_world := w, bt_db := db\<rparr>)"
    using press_silence_run [of c "s\<lparr>bt_world := w\<rparr>" cd i v vs d r k, OF _ picked(1,2) _ ends] press(2,5) alert(1)
    by (auto simp: run_control_def db_def rq_def)
  from press_run [OF press(1) _ press(4) this] press(2,3) run
  have t: "answered = Inr ()" "db_cards (bt_db t) = db_cards db" "db_outbox (bt_db t) = db_outbox db" by auto
  have "\<exists>ms. parse_matchers (bc_regex bc) (sf_matchers rq) = Inr ms \<and>
      (\<forall>ls. set_matches ms ls \<longleftrightarrow> list_all (\<lambda>(n, x). get_or_empty ls (name_str n) = x) (al_labels (ar_alert r)))"
    using parse_matchers_of [OF alert(2), of "bc_regex bc"]
    by (auto simp: rq_def silence_request_of_def card_silence_def set_matches_def matcher_matches_def list_all_iff)
  moreover have "sf_starts_at rq = k 0" "sf_ends_at rq = k 0 + d" "sf_discord_user_id rq = Some (in_user i)"
    by (simp_all add: rq_def silence_request_of_def card_silence_def)
  ultimately show ?thesis
    using t enqueue_cards [of _ "k 1" "bt_db s"] create_silence_queued [of rq "silence_key (Some r)" "k 0" "k 1" "bt_db s"]
    by (fastforce simp: db_def)
qed

definition alert_db :: db where
  "alert_db = disk_db\<lparr>db_alerts := [\<lparr>ar_alert = disk_alert, ar_labels_hash = labels_hash disk_labels, ar_first_seen_at = 0,
     ar_last_seen_at = 0, ar_resolved_at = None, ar_flap_count = 0, ar_updated_at = 0\<rparr>]\<rparr>"

theorem silence_button_covers_the_alert_witness:
  "\<exists>item rq. db_outbox (bt_db (snd (dispatch_press desk_bot ((press_by 9 [6] (control ActSilenceFor))\<lparr>in_values := Some [''1h'']\<rparr>)
     (\<lambda>_. 3) (bot_over alert_db)))) = db_outbox disk_db @ [item] \<and> ob_effect item = CreateSilence rq \<and> sf_ends_at rq = 3 + seconds 3600"
proof -
  let ?i = "(press_by 9 [6] (control ActSilenceFor))\<lparr>in_values := Some [''1h'']\<rparr>" and ?s = "bot_over alert_db"
  obtain a t where d: "dispatch_press desk_bot ?i (\<lambda>_. 3) ?s = (a, t)" by fastforce
  have hour: "parse_duration ''1h'' = Some (Inr (seconds 3600))" by code_simp
  have cd: "notification_by_id (ci_entity (new_custom_id ActSilenceFor 1)) (bt_db ?s) = Some disk_card"
    by (simp add: bot_over_def alert_db_def disk_apply notification_by_id_def new_custom_id_def disk_card_def new_row_def)
  have labels: "list_all part_ok disk_labels" by (simp add: disk_labels_def part_ok_def label_name_ok_def) code_simp
  have al: "read_alert (n_fingerprint disk_card) (bt_db ?s) = Some (hd (db_alerts alert_db))"
    by (simp add: bot_over_def alert_db_def read_alert_def disk_card_def new_row_def disk_alert_def)
  show ?thesis
    using silence_button_covers_the_alert [OF _ _ _ _ cd _ hour _ al _ d, where w = 1] decode_control [of ActSilenceFor]
      desk_permits(2) [of 9 "[6]"] labels d
    by (force simp: press_by_def new_custom_id_def bot_over_def desk_bot_def alert_db_def disk_alert_def permitted_def member_roles_def
        MAX_INSTANT_def seconds_def)
qed

section \<open>Routes\<close>

text \<open>
  A route's name stays taken for ever: while any row of the server has it, enabled or not, adding a route of that name
  from Discord is refused and changes nothing. Removing a route from Discord only disables its row, so the name of a
  removed route cannot be used again.
\<close>

theorem route_name_stays_taken:
  assumes asked: "in_guild i = Some guild" "channel_of os ''channel'' = Some channel"
      "route_from_config (bc_regex bc) (asked_route guild channel os) 0 (bc_defaults bc) (k 0) = Inr built"
    and taken: "old \<in> set (rb_routes (bt_tables s))" "rt_guild_id old = guild" "rt_name old = or_empty (string_of os ''name'')"
      "routing_ok (bt_tables s)"
  shows "routes_add bc i os k s = (Inl (Refused (BadRequest (store_error_str (Conflict ROUTE_NAME_INDEX)))), s) \<and>
    (\<exists>row \<in> set (rb_routes (snd (upsert_route (old\<lparr>rt_enabled := False\<rparr>) (bt_tables s)))). rt_guild_id row = guild \<and> rt_name row = rt_name old)"
proof
  have b: "rt_id built = 0" "rt_guild_id built = guild" "rt_name built = rt_name old"
    using asked(3) taken(3) by (auto simp: route_from_config_def asked_route_def split: sum.splits)
  have clash: "\<not> names_unique (rb_routes (bt_tables s) @ [r])" if "rt_guild_id r = guild" "rt_name r = rt_name old" for r
    using taken that by (force simp: names_unique_def image_iff)
  have "upsert_route (built\<lparr>rt_source := RouteDiscord, rt_created_by := Some (in_user i)\<rparr>) (bt_tables s) =
      (Inl (Conflict ROUTE_NAME_INDEX), bt_tables s)"
    using b clash by (simp add: upsert_route_def insert_route_def write_routes_def)
  with asked show "routes_add bc i os k s = (Inl (Refused (BadRequest (store_error_str (Conflict ROUTE_NAME_INDEX)))), s)"
    by (simp add: routes_add_def require_guild_def some_or_bad_def some_or_def act_bind_def or_refuse_def act_ret_def on_tables_def
        refuse_def act_fail_def Let_def)
  have "rt_id old \<noteq> 0" using taken(1,4) by (auto simp: routing_ok_def route_rows.rows_ok_def)
  define f where "f r = old\<lparr>rt_enabled := False, rt_created_at := rt_created_at r\<rparr>" for r :: route
  have "f old \<in> set (update_where (\<lambda>r. rt_id r = rt_id old) f (rb_routes (bt_tables s)))"
    unfolding set_update_where using taken(1) by (intro rev_image_eqI [of old]) simp_all
  moreover have f: "rt_guild_id (f old) = guild" "rt_name (f old) = rt_name old" using taken(2) by (simp_all add: f_def)
  moreover have "rb_routes (snd (upsert_route (old\<lparr>rt_enabled := False\<rparr>) (bt_tables s))) \<in>
      {rb_routes (bt_tables s), update_where (\<lambda>r. rt_id r = rt_id old) f (rb_routes (bt_tables s))}"
    using \<open>rt_id old \<noteq> 0\<close> by (simp add: upsert_route_def write_routes_def f_def [abs_def])
  ultimately have "f old \<in> set (rb_routes (snd (upsert_route (old\<lparr>rt_enabled := False\<rparr>) (bt_tables s)))) \<or>
      old \<in> set (rb_routes (snd (upsert_route (old\<lparr>rt_enabled := False\<rparr>) (bt_tables s))))"
    using taken(1) by (metis insert_iff singletonD)
  then show "\<exists>row \<in> set (rb_routes (snd (upsert_route (old\<lparr>rt_enabled := False\<rparr>) (bt_tables s)))). rt_guild_id row = guild \<and> rt_name row = rt_name old"
    using taken(2) f by blast
qed

definition named_tables :: routing_tables where
  "named_tables = no_routing\<lparr>rb_routes := [text_route\<lparr>rt_enabled := False\<rparr>], rb_next_route := 2\<rparr>"

definition named_options :: options where
  "named_options = [(''name'', OptString (rt_name text_route)), (''channel'', OptChannel 7)]"

theorem route_name_stays_taken_witness:
  "fst (routes_add desk_bot ((typed_by 9 [] ''route'' [])\<lparr>in_guild := Some (rt_guild_id text_route)\<rparr>) named_options (\<lambda>_. 3)
     ((bot_over empty_db)\<lparr>bt_tables := named_tables\<rparr>)) = Inl (Refused (BadRequest (store_error_str (Conflict ROUTE_NAME_INDEX))))"
proof -
  let ?s = "(bot_over empty_db)\<lparr>bt_tables := named_tables\<rparr>" and ?old = "text_route\<lparr>rt_enabled := False\<rparr>"
  have ok: "routing_ok named_tables"
    by (simp add: named_tables_def no_routing_def routing_ok_def route_rows.rows_ok_def ignore_rows.rows_ok_def subscription_rows.rows_ok_def
        names_unique_def text_route_def)
  have parses: "parse_matchers (bc_regex desk_bot) (rc_matchers (asked_route (rt_guild_id text_route) 7 named_options)) = Inr []"
    by (simp add: asked_route_def named_options_def string_of_def or_empty_def desk_bot_def parse_matchers_def split_top_level_def
        trim_def strip_prefix_def Let_def)
  obtain built where "route_from_config (bc_regex desk_bot) (asked_route (rt_guild_id text_route) 7 named_options) 0 (bc_defaults desk_bot) 3 = Inr built"
    using parses by (auto simp: route_from_config_def)
  then show ?thesis
    using route_name_stays_taken [where s = ?s and old = ?old and bc = desk_bot and os = named_options and k = "\<lambda>_. 3"
        and i = "(typed_by 9 [] ''route'' [])\<lparr>in_guild := Some (rt_guild_id text_route)\<rparr>"] ok
    by (simp add: typed_by_def named_options_def channel_of_def string_of_def or_empty_def named_tables_def)
qed

end
