(* ===== verification/Discord_Sink.thy ===== *)
theory Discord_Sink
  imports Discord_Render
begin

text \<open>
  The sink over Discord's HTTP interface (\<open>discord/src/sink.rs\<close> and \<open>error.rs\<close>): each operation the worker asks for is
  one or two requests, and each failure one of the outcomes the worker knows. The HTTP client is a parameter, a record
  of requests on a world; the cards are those of \<open>Discord_Render\<close>. The library's id types refuse zero by panicking,
  which is not modelled. Lemmas: which tags a post gets, and that a message can ping nobody its card does not name.
\<close>

section \<open>Requests\<close>

record allowed_mentions =
  aw_everyone :: bool
  aw_roles :: "role_id list"
  aw_users :: "user_id list"

definition no_mentions :: allowed_mentions where
  "no_mentions = \<lparr>aw_everyone = False, aw_roles = [], aw_users = []\<rparr>"

record new_message =
  nm_content :: "string option"
  nm_embed :: "embed option"
  nm_components :: "action_row list option"
  nm_allowed :: allowed_mentions

record message_edit =
  me_embed :: "embed option"
  me_components :: "action_row list option"

datatype archive_window = OneHour | OneDay | ThreeDays | OneWeek

record forum_post =
  fo_title :: string
  fo_message :: new_message
  fo_window :: archive_window
  fo_tags :: "tag_id list"

record thread_edit =
  th_tags :: "tag_id list option"
  th_archived :: "bool option"
  th_locked :: "bool option"
  th_window :: "archive_window option"

definition untouched_thread :: thread_edit where
  "untouched_thread = \<lparr>th_tags = None, th_archived = None, th_locked = None, th_window = None\<rparr>"

record channel_tag =
  ch_name :: string
  ch_id :: tag_id
  ch_moderated :: bool

text \<open>A response Discord gave with a status that is not a success, or any other failure of the library.\<close>

datatype http_problem = Unsuccessful nat int string | OtherProblem string

type_synonym ('w, 'a) discord_request = "'w \<Rightarrow> (http_problem + 'a) \<times> 'w"

record 'w discord_http =
  dh_send_message :: "channel_id \<Rightarrow> new_message \<Rightarrow> ('w, message_id) discord_request"
  dh_create_dm :: "user_id \<Rightarrow> ('w, channel_id) discord_request"
  dh_create_forum_post :: "channel_id \<Rightarrow> forum_post \<Rightarrow> ('w, channel_id) discord_request"
  dh_edit_message :: "channel_id \<Rightarrow> message_id \<Rightarrow> message_edit \<Rightarrow> ('w, unit) discord_request"
  dh_thread_from_message :: "channel_id \<Rightarrow> message_id \<Rightarrow> string \<Rightarrow> ('w, channel_id) discord_request"
  dh_edit_thread :: "channel_id \<Rightarrow> thread_edit \<Rightarrow> ('w, unit) discord_request"
  dh_edit_flags :: "channel_id \<Rightarrow> bool \<Rightarrow> ('w, unit) discord_request"
  dh_edit_tags :: "channel_id \<Rightarrow> (string \<times> bool) list \<Rightarrow> ('w, unit) discord_request"
  dh_channel_tags :: "channel_id \<Rightarrow> ('w, channel_tag list option) discord_request"
  dh_utc :: "'w \<Rightarrow> time \<times> 'w"

section \<open>Failures\<close>

definition UNKNOWN_MESSAGE :: int where "UNKNOWN_MESSAGE = 10008"
definition UNKNOWN_CHANNEL :: int where "UNKNOWN_CHANNEL = 10003"
definition MISSING_PERMISSIONS :: int where "MISSING_PERMISSIONS = 50013"
definition MISSING_ACCESS :: int where "MISSING_ACCESS = 50001"
definition WRONG_CHANNEL_TYPE :: int where "WRONG_CHANNEL_TYPE = 50024"
definition THREAD_LOCKED :: int where "THREAD_LOCKED = 50083"
definition INVALID_FORM_BODY :: int where "INVALID_FORM_BODY = 50035"
definition MAX_PINNED_THREADS :: int where "MAX_PINNED_THREADS = 30047"
definition DEFAULT_RETRY_MS :: nat where "DEFAULT_RETRY_MS = 1000"

definition str_contains :: "string \<Rightarrow> string \<Rightarrow> bool" where
  "str_contains s part \<longleftrightarrow> find_sub part s \<noteq> None"

fun sink_error_of :: "string \<Rightarrow> http_problem \<Rightarrow> sink_error" where
  "sink_error_of expected (OtherProblem text) = Transient text"
| "sink_error_of expected (Unsuccessful status code message) =
     (if status = 429 then RateLimited DEFAULT_RETRY_MS
      else if code \<in> {UNKNOWN_MESSAGE, UNKNOWN_CHANNEL} then UnknownMessage
      else if code \<in> {MISSING_PERMISSIONS, MISSING_ACCESS} then MissingPermissions message
      else if code = WRONG_CHANNEL_TYPE then WrongChannelType expected
      else if code = THREAD_LOCKED then
        (if str_contains (ascii_lower message) ''archiv'' then ThreadArchived else ThreadLocked)
      else if code = MAX_PINNED_THREADS then PinLimitReached
      else if code = INVALID_FORM_BODY \<and> str_contains message ''applied_tags'' then UnknownTag
      else if code = INVALID_FORM_BODY \<and> str_contains message ''available_tags'' then TagBudgetExceeded
      else Transient (message @ '' ('' @ show_int code @ '')''))"

text \<open>A request whose answer becomes the operation's.\<close>

definition requested :: "string \<Rightarrow> ('a \<Rightarrow> 'b) \<Rightarrow> ('w, 'a) discord_request \<Rightarrow> ('w, 'b) call" where
  "requested expected f m = (\<lambda>w. case m w of (r, w') \<Rightarrow> (map_sum (sink_error_of expected) f r, w'))"

section \<open>Messages\<close>

definition CHANNEL_TAG_LIMIT :: nat where "CHANNEL_TAG_LIMIT = 20"
definition TAG_CREATION_CEILING :: nat where "TAG_CREATION_CEILING = 18"
definition POST_TAG_LIMIT :: nat where "POST_TAG_LIMIT = 5"

definition mentioned_roles :: "mention list \<Rightarrow> role_id list" where
  "mentioned_roles ms = List.map_filter (\<lambda>m. case m of RoleMention r \<Rightarrow> Some r | UserMention _ \<Rightarrow> None) ms"

definition mentioned_users :: "mention list \<Rightarrow> user_id list" where
  "mentioned_users ms = List.map_filter (\<lambda>m. case m of UserMention u \<Rightarrow> Some u | RoleMention _ \<Rightarrow> None) ms"

definition allowed :: "card_data \<Rightarrow> allowed_mentions" where
  "allowed d = \<lparr>aw_everyone = False, aw_roles = mentioned_roles (cd_mentions d), aw_users = mentioned_users (cd_mentions d)\<rparr>"

definition sink_message :: "drawing \<Rightarrow> card_data \<Rightarrow> new_message" where
  "sink_message dr d = (let rendered = render_card dr d in
     \<lparr>nm_content = (if rc_content rendered = [] then None else Some (rc_content rendered)), nm_embed = Some (rc_embed rendered),
      nm_components = Some (rc_components rendered), nm_allowed = allowed d\<rparr>)"

definition auto_archive :: "nat \<Rightarrow> archive_window" where
  "auto_archive minutes = (if minutes \<le> 60 then OneHour else if minutes \<le> 1440 then OneDay
     else if minutes \<le> 4320 then ThreeDays else OneWeek)"

fun gather_tags :: "tag_id list \<Rightarrow> tag_id list \<Rightarrow> tag_id list" where
  "gather_tags seen [] = seen"
| "gather_tags seen (tag # tags) = (let seen' = (if tag \<in> set seen then seen else seen @ [tag]) in
     if length seen' = POST_TAG_LIMIT then seen' else gather_tags seen' tags)"

definition tag_ids :: "tag_id list \<Rightarrow> tag_id list" where
  "tag_ids tags = gather_tags [] tags"

section \<open>Operations\<close>

definition sink_post_card :: "'w discord_http \<Rightarrow> drawing \<Rightarrow> card_target \<Rightarrow> card_data \<Rightarrow> ('w, posted_message) call" where
  "sink_post_card dh dr target d = (let message = sink_message dr d in case tt_target target of
     TextTarget i _ \<Rightarrow> requested ''text'' posted_plain (dh_send_message dh i message)
   | ThreadTarget thread \<Rightarrow> requested ''thread'' posted_plain (dh_send_message dh thread message)
   | DmTarget user \<Rightarrow> (\<lambda>w. case dh_create_dm dh user w of
         (Inl e, w') \<Rightarrow> (Inl (sink_error_of ''direct message'' e), w')
       | (Inr dm, w') \<Rightarrow> requested ''direct message'' posted_plain (dh_send_message dh dm message) w')
   | ForumTarget _ _ \<Rightarrow> Pair (Inl (WrongChannelType ''text'')))"

definition sink_create_forum_post :: "'w discord_http \<Rightarrow> drawing \<Rightarrow> card_target \<Rightarrow> card_data \<Rightarrow> ('w, posted_message) call" where
  "sink_create_forum_post dh dr target d = (case tt_target target of
     ForumTarget forum policy \<Rightarrow> requested ''forum'' posted_forum (dh_create_forum_post dh forum
       \<lparr>fo_title = tt_title target, fo_message = sink_message dr d,
        fo_window = (if holds_thread_open (cd_state d) then OneWeek else auto_archive (fp_auto_archive_minutes policy)),
        fo_tags = tag_ids (tt_tags target)\<rparr>)
   | _ \<Rightarrow> Pair (Inl (WrongChannelType ''forum'')))"

definition sink_edit_card :: "'w discord_http \<Rightarrow> drawing \<Rightarrow> message_ref \<Rightarrow> card_data \<Rightarrow> ('w, unit) call" where
  "sink_edit_card dh dr m d = requested ''text'' id (dh_edit_message dh (mr_channel m) (mr_message m)
     \<lparr>me_embed = Some (rc_embed (render_card dr d)), me_components = Some (rc_components (render_card dr d))\<rparr>)"

definition sink_open_thread :: "'w discord_http \<Rightarrow> message_ref \<Rightarrow> string \<Rightarrow> ('w, channel_id) call" where
  "sink_open_thread dh m name = requested ''text'' id (dh_thread_from_message dh (mr_channel m) (mr_message m) name)"

definition plain_text :: "string \<Rightarrow> allowed_mentions \<Rightarrow> new_message" where
  "plain_text text aw = \<lparr>nm_content = Some text, nm_embed = None, nm_components = None, nm_allowed = aw\<rparr>"

definition sink_post_thread_note :: "'w discord_http \<Rightarrow> channel_id \<Rightarrow> string \<Rightarrow> ('w, unit) call" where
  "sink_post_thread_note dh thread text = requested ''thread'' (\<lambda>_. ()) (dh_send_message dh thread (plain_text text no_mentions))"

text \<open>The builder's \<open>roles\<close> and \<open>users\<close> replace the list they were given before.\<close>

definition escalation_allowed :: "mention list \<Rightarrow> allowed_mentions" where
  "escalation_allowed ms = fold (\<lambda>m aw. case m of RoleMention r \<Rightarrow> aw\<lparr>aw_roles := [r]\<rparr> | UserMention u \<Rightarrow> aw\<lparr>aw_users := [u]\<rparr>)
     ms no_mentions"

definition sink_post_escalation :: "'w discord_http \<Rightarrow> channel_id \<Rightarrow> mention list \<Rightarrow> string \<Rightarrow> ('w, unit) call" where
  "sink_post_escalation dh target ms text =
     (let prefix' = mention_text ms; content = (if prefix' = [] then text else prefix' @ '' '' @ text)
      in requested ''thread'' (\<lambda>_. ()) (dh_send_message dh target (plain_text content (escalation_allowed ms))))"

definition sink_disable_components :: "'w discord_http \<Rightarrow> message_ref \<Rightarrow> ('w, unit) call" where
  "sink_disable_components dh m = requested ''text'' id (dh_edit_message dh (mr_channel m) (mr_message m)
     \<lparr>me_embed = None, me_components = Some []\<rparr>)"

definition sink_set_post_tags :: "'w discord_http \<Rightarrow> channel_id \<Rightarrow> tag_id list \<Rightarrow> ('w, unit) call" where
  "sink_set_post_tags dh thread tags = requested ''forum'' id (dh_edit_thread dh thread (untouched_thread\<lparr>th_tags := Some (tag_ids tags)\<rparr>))"

definition sink_set_post_flags :: "'w discord_http \<Rightarrow> channel_id \<Rightarrow> post_flags \<Rightarrow> ('w, unit) call" where
  "sink_set_post_flags dh thread flags = requested ''forum'' id (dh_edit_thread dh thread
     (untouched_thread\<lparr>th_archived := Some (pf_archived flags), th_locked := Some (pf_locked flags),
       th_window := Some (auto_archive (pf_auto_archive_minutes flags))\<rparr>))"

definition sink_set_post_pinned :: "'w discord_http \<Rightarrow> channel_id \<Rightarrow> bool \<Rightarrow> ('w, unit) call" where
  "sink_set_post_pinned dh thread pinned = requested ''forum'' id (dh_edit_flags dh thread pinned)"

section \<open>Forum tags\<close>

text \<open>Each tag is stamped with a clock reading of its own.\<close>

fun stamp_tags :: "'w discord_http \<Rightarrow> channel_id \<Rightarrow> channel_tag list \<Rightarrow> 'w \<Rightarrow> forum_tag list \<times> 'w" where
  "stamp_tags dh forum [] w = ([], w)"
| "stamp_tags dh forum (tag # tags) w = (let (now, w1) = dh_utc dh w; (rest, w2) = stamp_tags dh forum tags w1 in
     (\<lparr>ft_channel_id = forum, ft_name = ch_name tag, ft_id = ch_id tag, ft_moderated = ch_moderated tag, ft_synced_at = now\<rparr> # rest, w2))"

definition sink_forum_tags :: "'w discord_http \<Rightarrow> channel_id \<Rightarrow> ('w, forum_tag list) call" where
  "sink_forum_tags dh forum = (\<lambda>w. case dh_channel_tags dh forum w of
     (Inl e, w') \<Rightarrow> (Inl (sink_error_of ''forum'' e), w')
   | (Inr None, w') \<Rightarrow> (Inl (WrongChannelType ''forum''), w')
   | (Inr (Some tags), w') \<Rightarrow> let (stamped, w'') = stamp_tags dh forum tags w' in (Inr stamped, w''))"

fun add_missing :: "(string \<times> bool) list \<Rightarrow> tag_spec list \<Rightarrow> (string \<times> bool) list" where
  "add_missing tags [] = tags"
| "add_missing tags (spec # specs) = (if CHANNEL_TAG_LIMIT \<le> length tags then tags
     else add_missing (tags @ [(ts_name spec, False)]) specs)"

definition missing_tags :: "forum_tag list \<Rightarrow> tag_spec list \<Rightarrow> tag_spec list" where
  "missing_tags existing want = filter (\<lambda>spec. \<not> list_ex (\<lambda>tag. ft_name tag = ts_name spec) existing) want"

definition wanted_tags :: "forum_tag list \<Rightarrow> tag_spec list \<Rightarrow> (string \<times> bool) list" where
  "wanted_tags existing want = add_missing (map (\<lambda>tag. (ft_name tag, ft_moderated tag)) existing) (missing_tags existing want)"

definition sink_ensure_forum_tags :: "'w discord_http \<Rightarrow> channel_id \<Rightarrow> tag_spec list \<Rightarrow> ('w, forum_tag list) call" where
  "sink_ensure_forum_tags dh forum want = (\<lambda>w. case sink_forum_tags dh forum w of
     (Inl e, w1) \<Rightarrow> (Inl e, w1)
   | (Inr existing, w1) \<Rightarrow>
       if missing_tags existing want = [] then (Inr existing, w1)
       else if TAG_CREATION_CEILING \<le> length existing then (Inr existing, w1)
       else case dh_edit_tags dh forum (wanted_tags existing want) w1 of
           (Inr _, w2) \<Rightarrow> sink_forum_tags dh forum w2
         | (Inl e, w2) \<Rightarrow> (Inr existing, w2))"

section \<open>The sink\<close>

definition serenity_sink :: "'w discord_http \<Rightarrow> drawing \<Rightarrow> 'w discord_sink" where
  "serenity_sink dh dr = \<lparr>dk_post_card = sink_post_card dh dr, dk_create_forum_post = sink_create_forum_post dh dr,
     dk_edit_card = sink_edit_card dh dr, dk_open_thread = sink_open_thread dh, dk_post_thread_note = sink_post_thread_note dh,
     dk_post_escalation = sink_post_escalation dh, dk_disable_components = sink_disable_components dh,
     dk_set_post_tags = sink_set_post_tags dh, dk_set_post_flags = sink_set_post_flags dh, dk_set_post_pinned = sink_set_post_pinned dh,
     dk_forum_tags = sink_forum_tags dh, dk_ensure_forum_tags = sink_ensure_forum_tags dh\<rparr>"

section \<open>Tags\<close>

text \<open>The reference: the first occurrences, in order, and of them the first five.\<close>

fun firsts :: "'a list \<Rightarrow> 'a list" where
  "firsts [] = []"
| "firsts (x # xs) = x # filter (\<lambda>y. y \<noteq> x) (firsts xs)"

lemma set_firsts [simp]: "set (firsts xs) = set xs"
  by (induction xs) auto

lemma distinct_firsts: "distinct (firsts xs)"
  by (induction xs) auto

lemma gather_tags_firsts:
  "length seen < POST_TAG_LIMIT \<Longrightarrow>
   gather_tags seen tags = take POST_TAG_LIMIT (seen @ filter (\<lambda>t. t \<notin> set seen) (firsts tags))"
proof (induction seen tags rule: gather_tags.induct)
  case (2 seen tag tags)
  show ?case
  proof (cases "tag \<in> set seen")
    case True
    have same: "(\<lambda>t. t \<noteq> tag \<and> t \<notin> set seen) = (\<lambda>t. t \<notin> set seen)" using True by auto
    from 2 True show ?thesis by (simp add: same)
  next
    case False
    show ?thesis
    proof (cases "length (seen @ [tag]) = POST_TAG_LIMIT")
      case True
      then have "POST_TAG_LIMIT - length seen = Suc 0" by simp
      with True False show ?thesis by simp
    next
      case longer: False
      with 2(2) have "length (seen @ [tag]) < POST_TAG_LIMIT" by simp
      with 2(1) [of "seen @ [tag]"] False longer show ?thesis by (simp add: conj_commute)
    qed
  qed
qed simp

lemma tag_ids_firsts: "tag_ids tags = take POST_TAG_LIMIT (firsts tags)"
  using gather_tags_firsts [of "[]" tags] by (simp add: tag_ids_def POST_TAG_LIMIT_def)

lemma add_missing_extends: "\<exists>more. add_missing tags specs = tags @ map (\<lambda>s. (ts_name s, False)) more \<and> set more \<subseteq> set specs"
proof (induction tags specs rule: add_missing.induct)
  case (2 tags spec specs)
  show ?case
  proof (cases "CHANNEL_TAG_LIMIT \<le> length tags")
    case False
    with 2 obtain more where "add_missing tags (spec # specs) = (tags @ [(ts_name spec, False)]) @ map (\<lambda>s. (ts_name s, False)) more"
      "set more \<subseteq> set specs" by auto
    then show ?thesis by (intro exI [of _ "spec # more"]) auto
  qed (auto intro: exI [of _ "[]"])
qed simp

lemma add_missing_length: "length (add_missing tags specs) \<le> max (length tags) CHANNEL_TAG_LIMIT"
  by (induction tags specs rule: add_missing.induct) (auto simp: max_def split: if_splits)

section \<open>Mentions\<close>

text \<open>
  A client that refuses what a set of mentions does not cover. An operation that behaves over it as it does over the
  plain client never asks Discord for more.
\<close>

definition covered :: "mention list \<Rightarrow> allowed_mentions \<Rightarrow> bool" where
  "covered ms aw \<longleftrightarrow> \<not> aw_everyone aw \<and> list_all (\<lambda>r. RoleMention r \<in> set ms) (aw_roles aw) \<and>
     list_all (\<lambda>u. UserMention u \<in> set ms) (aw_users aw)"

definition watched :: "mention list \<Rightarrow> 'w discord_http \<Rightarrow> 'w discord_http" where
  "watched ms dh = dh\<lparr>
     dh_send_message := (\<lambda>i m. if covered ms (nm_allowed m) then dh_send_message dh i m else Pair (Inl (OtherProblem ''refused''))),
     dh_create_forum_post := (\<lambda>i p. if covered ms (nm_allowed (fo_message p)) then dh_create_forum_post dh i p
        else Pair (Inl (OtherProblem ''refused'')))\<rparr>"

lemma mentioned_covered: "list_all (\<lambda>r. RoleMention r \<in> set ms) (mentioned_roles ms)" "list_all (\<lambda>u. UserMention u \<in> set ms) (mentioned_users ms)"
  by (auto simp: mentioned_roles_def mentioned_users_def list_all_iff List.map_filter_def split: mention.splits)

lemma allowed_covered: "covered (cd_mentions d) (allowed d)"
  by (simp add: covered_def allowed_def mentioned_covered)

lemma no_mentions_covered: "covered ms no_mentions"
  by (simp add: covered_def no_mentions_def)

lemma escalation_covered: "covered ms (escalation_allowed ms)"
proof -
  have "covered ms aw \<Longrightarrow> set ms' \<subseteq> set ms \<Longrightarrow>
      covered ms (fold (\<lambda>m aw. case m of RoleMention r \<Rightarrow> aw\<lparr>aw_roles := [r]\<rparr> | UserMention u \<Rightarrow> aw\<lparr>aw_users := [u]\<rparr>) ms' aw)" for ms' aw
    by (induction ms' arbitrary: aw) (auto simp: covered_def split: mention.split)
  from this [OF no_mentions_covered] show ?thesis by (simp add: escalation_allowed_def)
qed

lemma escalation_one_each: "length (aw_roles (escalation_allowed ms)) \<le> 1 \<and> length (aw_users (escalation_allowed ms)) \<le> 1"
proof -
  have "length (aw_roles aw) \<le> 1 \<and> length (aw_users aw) \<le> 1 \<Longrightarrow>
      length (aw_roles (fold (\<lambda>m aw. case m of RoleMention r \<Rightarrow> aw\<lparr>aw_roles := [r]\<rparr> | UserMention u \<Rightarrow> aw\<lparr>aw_users := [u]\<rparr>) ms aw)) \<le> 1 \<and>
      length (aw_users (fold (\<lambda>m aw. case m of RoleMention r \<Rightarrow> aw\<lparr>aw_roles := [r]\<rparr> | UserMention u \<Rightarrow> aw\<lparr>aw_users := [u]\<rparr>) ms aw)) \<le> 1" for aw
    by (induction ms arbitrary: aw) (auto split: mention.split)
  from this [of no_mentions] show ?thesis by (simp add: escalation_allowed_def no_mentions_def)
qed

lemma sink_message_allowed [simp]: "nm_allowed (sink_message dr d) = allowed d"
  by (simp add: sink_message_def Let_def)

lemma watched_simps [simp]: "dh_create_dm (watched ms dh) = dh_create_dm dh" "dh_edit_message (watched ms dh) = dh_edit_message dh"
  "covered ms (nm_allowed m) \<Longrightarrow> dh_send_message (watched ms dh) i m = dh_send_message dh i m"
  "covered ms (nm_allowed (fo_message p)) \<Longrightarrow> dh_create_forum_post (watched ms dh) i p = dh_create_forum_post dh i p"
  by (simp_all add: watched_def)

lemma post_card_watched: "sink_post_card (watched (cd_mentions d) dh) dr target d = sink_post_card dh dr target d"
  by (auto simp: sink_post_card_def Let_def allowed_covered fun_eq_iff split: route_target.split prod.split sum.split)

end
