(* ===== verification/Properties_Views.thy ===== *)
theory Properties_Views
  imports Discord_Debug Fixtures Discord_Sink
begin

text \<open>
  What the answers and the cards promise: page buttons carry their filter, durations are read in full, a card stays in
  Discord's limits and points only where the configuration allows, and two cards are always told apart by a reason.
\<close>

section \<open>Pages\<close>

lemma splitn_here: "d \<notin> set a \<Longrightarrow> splitn (Suc (Suc n)) d (a @ d # b) = a # splitn (Suc n) d b"
  by (simp add: split_once_append)

lemma word_free: "CHR ''.'' \<notin> set (or_dash state_str x)" "CHR ''.'' \<notin> set (or_dash severity_str y)"
  "state_from (or_dash state_str x) = x" "severity_from (or_dash severity_str y) = y"
  by (simp_all add: or_dash_def state_from_def severity_from_def state_str_def severity_str_def split: option.split
      notification_state.split severity.split)

lemma unpack_pack:
  assumes "offset \<le> u32_max" "lf_limit f \<le> u32_max"
  shows "unpack (pack f offset) = Some (f, offset)"
proof -
  have n: "CHR ''.'' \<notin> set (show_nat k)" for k by (rule show_nat_notin) (simp add: is_digit_def)
  have "splitn 5 (CHR ''.'') (pack f offset) = [show_nat offset, show_nat (lf_limit f), or_dash state_str (lf_state f),
      or_dash severity_str (lf_severity f), lf_matchers f]"
    using n word_free(1,2) by (simp add: pack_def eval_nat_numeral split_once_append)
  then show ?thesis
    using assms by (simp add: unpack_def nth_part_def parse_u32_def parse_unsigned_show_nat word_free(3,4) eval_nat_numeral)
qed

text \<open>
  A page button never loses the question: pressing Previous or Next asks for the same filter again, word for word, at
  the offset one page back or one page on, and there is a Next only while rows remain beyond it.
\<close>

theorem page_button_roundtrip:
  assumes "page_buttons f offset listed = Some bs" "IdButton i label style disabled \<in> set bs" "offset \<le> u32_max" "lf_limit f \<le> u32_max"
  shows "\<exists>c arg to. decode_custom_id i = Inr c \<and> ci_action c = ActPage \<and> ci_argument c = Some arg \<and> unpack arg = Some (f, to) \<and>
    (label = ''Previous'' \<and> 0 < offset \<and> to = offset - lf_limit f \<or>
     label = ''Next'' \<and> to = wrap_u32 (offset + lf_limit f) \<and> to < listed)"
proof -
  have btn: "\<exists>c. decode_custom_id i = Inr c \<and> ci_action c = ActPage \<and> ci_argument c = Some (pack f at)"
    if "page_button f at label' = Some (IdButton i label style disabled)" for at label'
  proof -
    have "i = display_custom_id (with_argument ActPage 0 (pack f at))"
      using that by (auto simp: page_button_def encode_custom_id_Inr_iff split: sum.splits)
    then have "decode_custom_id i = Inr (with_argument ActPage 0 (pack f at))"
      using decode_display [of "with_argument ActPage 0 (pack f at)"] by (simp add: with_argument_def)
    then show ?thesis by (simp add: with_argument_def)
  qed
  have same: "label = label'" if "page_button f at label' = Some (IdButton i label style disabled)" for at label'
    using that by (auto simp: page_button_def split: sum.splits)
  from assms(1,2) consider
      (prev) "0 < offset" "page_button f (offset - lf_limit f) ''Previous'' = Some (IdButton i label style disabled)"
    | (fwd) "wrap_u32 (offset + lf_limit f) < listed"
        "page_button f (wrap_u32 (offset + lf_limit f)) ''Next'' = Some (IdButton i label style disabled)"
    by (auto simp: page_buttons_def Let_def split: if_splits option.splits)
  then show ?thesis
  proof cases
    case prev
    with btn [OF prev(2)] same [OF prev(2)] unpack_pack [of "offset - lf_limit f" f] assms(3,4) show ?thesis by auto
  next
    case fwd
    have "wrap_u32 (offset + lf_limit f) \<le> u32_max"
      unfolding wrap_u32_def by (metis add.commute less_Suc_eq_le mod_less_divisor plus_1_eq_Suc zero_less_Suc)
    with btn [OF fwd(2)] same [OF fwd(2)] fwd unpack_pack [of _ f] assms(4) show ?thesis by auto
  qed
qed

definition critical_page :: list_filter where
  "critical_page = \<lparr>lf_state = Some Firing, lf_severity = Some Critical, lf_matchers = ''job=a.b'', lf_limit = 10\<rparr>"

theorem page_button_roundtrip_witness:
  "\<exists>i c arg. page_buttons critical_page 10 15 = Some [IdButton i ''Previous'' Secondary False] \<and> decode_custom_id i = Inr c \<and>
     ci_argument c = Some arg \<and> unpack arg = Some (critical_page, 0)"
proof -
  have "CHR '':'' \<notin> set (pack critical_page 0)"
    by (simp add: pack_def critical_page_def or_dash_def show_nat_notin is_digit_def state_str_def severity_str_def)
  moreover have "length (display_custom_id (with_argument ActPage 0 (pack critical_page 0))) \<le> MAX_CUSTOM_ID"
    using length_display [of "with_argument ActPage 0 (pack critical_page 0)"]
    by (simp add: with_argument_def pack_def critical_page_def or_dash_def show_nat.simps MAX_CUSTOM_ID_def state_str_def severity_str_def)
  ultimately obtain i where "page_button critical_page 0 ''Previous'' = Some (IdButton i ''Previous'' Secondary False)"
    by (auto simp: page_button_def encode_custom_id_def with_argument_def Let_def)
  then have p: "page_buttons critical_page 10 15 = Some [IdButton i ''Previous'' Secondary False]"
    by (simp add: page_buttons_def wrap_u32_def critical_page_def u32_max_def)
  from page_button_roundtrip [OF p] p show ?thesis by (fastforce simp: critical_page_def u32_max_def)
qed

section \<open>Durations\<close>

lemma trim_ascii: "list_all (\<lambda>c. \<not> is_cont c) s \<Longrightarrow> list_all (\<lambda>c. \<not> is_whitespace [c]) s \<Longrightarrow> trim s = s"
proof -
  assume cont: "list_all (\<lambda>c. \<not> is_cont c) s" and space: "list_all (\<lambda>c. \<not> is_whitespace [c]) s"
  have chars: "list_all (\<lambda>c. \<not> is_cont c) u \<Longrightarrow> utf8_chars u = map (\<lambda>c. [c]) u" for u
  proof (induction u rule: utf8_chars.induct)
    case (2 c cs)
    then have "takeWhile is_cont cs = []" "dropWhile is_cont cs = cs" by (cases cs; simp)+
    with 2 show ?case by simp
  qed simp
  have "dropWhile is_whitespace (map (\<lambda>c. [c]) u) = map (\<lambda>c. [c]) u" if "list_all (\<lambda>c. \<not> is_whitespace [c]) u" for u
    using that by (cases u) simp_all
  from this [OF space] this [of "rev s"] space show ?thesis
    by (simp add: trim_def chars [OF cont] rev_map [symmetric] list_all_rev del: rev_map)
qed

lemma digits_plain: "is_digit c \<Longrightarrow> \<not> is_cont c \<and> \<not> is_whitespace [c]"
  by (auto simp: is_digit_def is_cont_def is_whitespace_def)

lemma unit_plain: "unit_seconds u = Some m \<Longrightarrow>
    0 < m \<and> list_all (\<lambda>c. \<not> is_digit c \<and> \<not> is_cont c \<and> \<not> is_whitespace [c]) u"
  by (auto simp: unit_seconds_def is_digit_def is_cont_def is_whitespace_def split: if_splits)

text \<open>
  What a duration of digits and a known unit means, on every branch: read in full when it is positive and chrono can
  hold it, refused when it is zero or its number does not fit 64 bits, and in between - a number that fits, of seconds
  that do not - the process aborts.
\<close>

theorem duration_read_in_full:
  assumes "unit_seconds u = Some m"
  shows "parse_duration (show_nat n @ u) =
    (if I64_MAX < int n then Some (Inl (quoted (show_nat n @ u) @ '' is not a duration; try '' @ quoted ''30m'' @ '', '' @ quoted ''2h'' @
        '' or '' @ quoted ''1d''))
     else if I64_MAX div 1000 < int n * m then None
     else if n = 0 then Some (Inl ''a duration has to be positive'')
     else Some (Inr (seconds (int n * m))))"
proof -
  have d: "list_all is_digit (show_nat n)" using show_nat_digits by (auto simp: list_all_iff)
  note u = unit_plain [OF assms]
  have "trim (show_nat n @ u) = show_nat n @ u"
    using d u by (intro trim_ascii) (auto simp: list_all_iff digits_plain)
  moreover have "trim u = u" using u by (intro trim_ascii) (auto simp: list_all_iff)
  moreover have "takeWhile is_digit (show_nat n @ u) = show_nat n" "dropWhile is_digit (show_nat n @ u) = u"
    using d u by (cases u; simp add: list_all_iff takeWhile_append dropWhile_append)+
  moreover have "parse_i64 (show_nat n) = (if I64_MAX < int n then None else Some (int n))"
  proof -
    obtain c cs where c: "show_nat n = c # cs" by (cases "show_nat n") auto
    then have "c \<noteq> CHR ''-'' \<and> c \<noteq> CHR ''+''" using d by auto
    then show ?thesis using parse_nat_show_nat [of n] c by (auto simp: parse_i64_def Let_def I64_MAX_def)
  qed
  moreover have "- (I64_MAX div 1000) \<le> int n * m"
  proof -
    have "0 \<le> int n * m" using u by simp
    then show ?thesis by (simp add: I64_MAX_def)
  qed
  moreover have "seconds (int n * m) \<le> 0 \<longleftrightarrow> n = 0" using u by (auto simp: seconds_def zero_less_mult_iff mult_le_0_iff)
  ultimately show ?thesis using assms by (auto simp: parse_duration_def Let_def duration_seconds_def)
qed

theorem duration_read_in_full_witness:
  "parse_duration (show_nat (10 ^ 18) @ ''d'') = None \<and> parse_duration (show_nat 2 @ ''h'') = Some (Inr (seconds 7200))"
  using duration_read_in_full [of "''d''" 86400 "10 ^ 18"] duration_read_in_full [of "''h''" 3600 2]
  by (simp add: unit_seconds_def I64_MAX_def)

section \<open>Cards inside the limits\<close>







text \<open>The fields a card keeps are the longest run from the front that fits.\<close>

definition fields_fit :: "nat \<Rightarrow> field list \<Rightarrow> bool" where
  "fields_fit fixed fs \<longleftrightarrow> length fs \<le> FIELD_COUNT_LIMIT \<and> fixed + fields_len fs \<le> EMBED_BUDGET"

lemma fields_len_take: "fields_len (take n fs) \<le> fields_len fs"
proof -
  have "fields_len fs = fields_len (take n fs) + fields_len (drop n fs)"
    unfolding fields_len_def by (metis append_take_drop_id map_append sum_list_append)
  then show ?thesis by simp
qed

text \<open>
  The loop that fits a card's fields into one embed ends, and keeps the most it can: the fields from the first up to
  the largest number that fits both Discord's count and its budget, and none when even one does not fit.
\<close>

theorem fields_longest_fit:
  "fit_fields fixed fs = take (Max (insert 0 {n. n \<le> length fs \<and> fields_fit fixed (take n fs)})) fs"
proof (induction fixed fs rule: fit_fields.induct)
  case (1 fixed fs)
  let ?N = "\<lambda>gs :: field list. insert 0 {n. n \<le> length gs \<and> fields_fit fixed (take n gs)}"
  have fin: "finite (?N gs)" for gs by simp
  show ?case
  proof (cases "FIELD_COUNT_LIMIT < length fs \<or> (EMBED_BUDGET < fixed + fields_len fs \<and> fs \<noteq> [])")
    case True
    then have ne: "fs \<noteq> []" by auto
    have "n < length fs" if "n \<in> ?N fs" for n
    proof (rule ccontr)
      assume "\<not> n < length fs"
      with that have "n = length fs \<and> fields_fit fixed fs" using ne by (cases "n = 0") auto
      with True show False by (auto simp: fields_fit_def)
    qed
    moreover have len: "n \<le> length (butlast fs) \<longleftrightarrow> n < length fs" for n using ne by (cases fs rule: rev_cases) auto
    moreover have "take n (butlast fs) = take n fs" if "n < length fs" for n using that by (rule take_butlast)
    ultimately have eq: "?N fs = ?N (butlast fs)" by (intro set_eqI) (metis (mono_tags, lifting) insert_iff less_imp_le mem_Collect_eq)
    have "Max (?N (butlast fs)) \<le> length (butlast fs)" by (rule Max.boundedI [OF fin]) auto
    then have "take (Max (?N (butlast fs))) (butlast fs) = take (Max (?N (butlast fs))) fs"
      using len by (intro take_butlast) blast
    with 1 [OF True] eq True show ?thesis by (subst fit_fields.simps) simp
  next
    case False
    then have "fs = [] \<or> fields_fit fixed fs" by (auto simp: fields_fit_def)
    then have "length fs \<in> ?N fs" by auto
    moreover have "n \<le> length fs" if "n \<in> ?N fs" for n using that by auto
    ultimately have "Max (?N fs) = length fs" by (intro Max_eqI [OF fin])
    moreover have "fit_fields fixed fs = fs" using False by (subst fit_fields.simps) auto
    ultimately show ?thesis by simp
  qed
qed








definition links_allowed :: "drawing \<Rightarrow> action_row list \<Rightarrow> bool" where
  "links_allowed r rows \<longleftrightarrow> list_all (\<lambda>row. case row of
     Buttons bs \<Rightarrow> list_all (\<lambda>b. case b of LinkButton u _ \<Rightarrow> allowed_url (dr_links r) (dr_urls r) u | IdButton _ _ _ _ \<Rightarrow> True) bs
   | SelectMenu _ _ _ \<Rightarrow> True) rows"

lemma links_mem: "l \<in> set (draw_links r a now) \<Longrightarrow> allowed_url (dr_links r) (dr_urls r) (rl_url l)"
  using render_links_allowed [of "dr_env r" "dr_urls r" "dr_links r" a now] by (auto simp: draw_links_def)

text \<open>
  C30: A link an operator can follow from a card, or from the detail view of an alert, has a web scheme and a host the
  configuration lists, whatever the alert's labels and annotations put into the template.
\<close>

theorem links_stay_on_allowed_hosts:
  "links_allowed r (rc_components (render_card r d)) \<and>
   links_allowed r (case link_row r a now of None \<Rightarrow> [] | Some row \<Rightarrow> [row])"
proof
  show "links_allowed r (rc_components (render_card r d))"
    by (auto simp: links_allowed_def render_card_def Let_def card_components_def button_row_def card_actions_def card_button_def
        list_all_iff dest!: in_set_takeD links_mem split: notification_state.split)
  show "links_allowed r (case link_row r a now of None \<Rightarrow> [] | Some row \<Rightarrow> [row])"
    by (auto simp: links_allowed_def link_row_def list_all_iff dest!: in_set_takeD split: list.split)
      (use links_mem [of _ r a now] in auto)
qed

section \<open>Why two cards are two\<close>

text \<open>A key the decision makes, or one it has retired; the digest's window is an instant chrono reads back.\<close>

definition key_made :: "(int \<Rightarrow> time option) \<Rightarrow> dedupe_key \<Rightarrow> bool" where
  "key_made from_ts k \<longleftrightarrow> key_retirement k \<noteq> None \<or> (\<exists>f. k = per_alert f) \<or> (\<exists>g. k = per_group g) \<or>
     (\<exists>r t. k = digest r t \<and> key_scope from_ts k = ScopeDigest r t)"

lemma labels_get_name: "labels_get ls n \<noteq> None \<Longrightarrow> n \<in> (\<lambda>(n, v). name_str n) ` set ls"
  by (force simp: labels_get_def image_iff dest!: map_of_SomeD)

lemma differing_names:
  "n \<in> ld_name ` set (label_differences a b) \<longleftrightarrow> labels_get (al_labels a) n \<noteq> labels_get (al_labels b) n"
proof
  assume differ: "labels_get (al_labels a) n \<noteq> labels_get (al_labels b) n"
  let ?d = "\<lparr>ld_name = n, ld_first = labels_get (al_labels a) n, ld_second = labels_get (al_labels b) n\<rparr>"
  from differ have "labels_get (al_labels a) n \<noteq> None \<or> labels_get (al_labels b) n \<noteq> None" by auto
  then have "n \<in> (\<lambda>(n, v). name_str n) ` (set (al_labels a) \<union> set (al_labels b))"
    using labels_get_name [of "al_labels a" n] labels_get_name [of "al_labels b" n] by (auto simp: image_Un)
  with differ have "?d \<in> set (label_differences a b)" by (simp add: label_differences_mem)
  then show "n \<in> ld_name ` set (label_differences a b)" by (rule rev_image_eqI) simp
qed (auto simp: label_differences_mem)

text \<open>
  Two cards with different keys are never left unexplained. And the answer means what it says: one post only for one
  row; different identities only when the policy tells the two alerts apart, and then the labels listed are exactly
  those the policy counts and the two alerts differ in.
\<close>

theorem separation_always_explained:
  assumes "n_dedupe_key (fc_card x) \<noteq> n_dedupe_key (fc_card y)" "key_made from_ts (n_dedupe_key (fc_card x))"
    "key_made from_ts (n_dedupe_key (fc_card y))"
  shows "case explain_separation from_ts x y ds of
      Unexplained \<Rightarrow> False
    | SameCard \<Rightarrow> n_id (fc_card x) = n_id (fc_card y)
    | DifferentIdentities diffs \<Rightarrow> (\<exists>a b. fc_alert x = Some a \<and> fc_alert y = Some b \<and>
        alert_identity (ds_identity ds) a \<noteq> alert_identity (ds_identity ds) b \<and>
        ld_name ` set diffs = {n. \<not> policy_ignores (ds_identity ds) n \<and> labels_get (al_labels a) n \<noteq> labels_get (al_labels b) n})
    | _ \<Rightarrow> True"
proof -
  let ?k = "n_dedupe_key (fc_card x)" and ?l = "n_dedupe_key (fc_card y)"
  have live: "explain_separation from_ts x y ds = (if n_id (fc_card x) = n_id (fc_card y) then SameCard
      else separate_keys (ds_identity ds) (key_scope from_ts ?k) x (key_scope from_ts ?l) y) \<and> key_retirement ?k = None \<and> key_retirement ?l = None
    \<or> (\<exists>c d. explain_separation from_ts x y ds \<in> {SameCard, DifferentChannels c d} \<and>
        (explain_separation from_ts x y ds = SameCard \<longrightarrow> n_id (fc_card x) = n_id (fc_card y)))
    \<or> (\<exists>i j w. explain_separation from_ts x y ds \<in> {Replaced i j, Retired i w})"
    by (auto simp: explain_separation_def Let_def first_retired_def split: option.split)
  have names: "ld_name ` set (filter (\<lambda>d. \<not> policy_ignores p (ld_name d)) (label_differences a b)) =
      {n. \<not> policy_ignores p n \<and> labels_get (al_labels a) n \<noteq> labels_get (al_labels b) n}" for p a b
  proof -
    have "ld_name ` set (filter (\<lambda>d. \<not> policy_ignores p (ld_name d)) (label_differences a b)) =
        {n \<in> ld_name ` set (label_differences a b). \<not> policy_ignores p n}" by auto
    then show ?thesis unfolding differing_names by blast
  qed
  have pg: "per_group g = per_group h \<longleftrightarrow> gk_str g = gk_str h" for g h by (simp add: per_group_def)
  have ids: "case separate_identities p a b of Unexplained \<Rightarrow> False | SameCard \<Rightarrow> n_id (fc_card x) = n_id (fc_card y)
      | DifferentIdentities diffs \<Rightarrow> (\<exists>l r. a = Some l \<and> b = Some r \<and> alert_identity p l \<noteq> alert_identity p r \<and>
        ld_name ` set diffs = {n. \<not> policy_ignores p n \<and> labels_get (al_labels l) n \<noteq> labels_get (al_labels r) n})
      | _ \<Rightarrow> True" for p a b
    using names by (auto simp: separate_identities_def split: option.split)
  show ?thesis
  proof (cases "key_retirement ?k = None \<and> key_retirement ?l = None")
    case True
    from assms(2,3) True show ?thesis
      using live assms(1) ids [where p = "ds_identity ds" and a = "fc_alert x" and b = "fc_alert y"]
      by (auto simp: key_made_def separate_keys_def separate_strategies_def pg split: option.splits)
  next
    case False
    with live show ?thesis by auto
  qed
qed

theorem separation_always_explained_witness:
  "explain_separation (\<lambda>_. None) \<lparr>fc_card = disk_card, fc_alert = None, fc_route = None\<rparr>
     \<lparr>fc_card = disk_card\<lparr>n_id := 2, n_dedupe_key := per_alert fp_b\<rparr>, fc_alert = None, fc_route = None\<rparr> default_settings \<noteq> Unexplained"
proof -
  have "n_dedupe_key disk_card = per_alert fp_a" by (simp add: disk_card_def new_row_def)
  then show ?thesis
    using separation_always_explained [of "\<lparr>fc_card = disk_card, fc_alert = None, fc_route = None\<rparr>"
        "\<lparr>fc_card = disk_card\<lparr>n_id := 2, n_dedupe_key := per_alert fp_b\<rparr>, fc_alert = None, fc_route = None\<rparr>" "\<lambda>_. None" default_settings]
    by (auto simp: key_made_def fp_a_def fp_b_def)
qed

section \<open>The sink\<close>

text \<open>The properties of the sink: whom its messages can notify, and the tags it asks Discord for.\<close>

text \<open>
  C27: No text a card carries can notify anybody. A new card lets Discord resolve exactly the mentions its route
  gives it and never everyone, an escalation only the roles and users it is for, an edit and a note in a thread
  nobody: over a client that refuses every wider message each of them does what it does over the plain one. Labels,
  annotations and comments come from elsewhere and are not asked.
\<close>

theorem no_stray_pings:
  "dk_post_card (serenity_sink (watched (cd_mentions d) dh) dr) target d = dk_post_card (serenity_sink dh dr) target d \<and>
   dk_create_forum_post (serenity_sink (watched (cd_mentions d) dh) dr) target d = dk_create_forum_post (serenity_sink dh dr) target d \<and>
   dk_post_escalation (serenity_sink (watched ms dh) dr) i ms text = dk_post_escalation (serenity_sink dh dr) i ms text \<and>
   dk_post_thread_note (serenity_sink (watched [] dh) dr) i text = dk_post_thread_note (serenity_sink dh dr) i text \<and>
   dk_edit_card (serenity_sink (watched [] dh) dr) m d = dk_edit_card (serenity_sink dh dr) m d"
  by (simp add: serenity_sink_def post_card_watched sink_create_forum_post_def sink_post_escalation_def sink_post_thread_note_def
      sink_edit_card_def plain_text_def Let_def allowed_covered escalation_covered no_mentions_covered split: route_target.split)

text \<open>
  C28: The tags of a post are the first five different ones of those wanted, in order: the loop that gathers them agrees
  with the list without repetitions cut after five. What is asked of a forum keeps every tag it has, in place and with
  its moderation, adds only wanted tags it lacks, unmoderated, and a forum with fewer than eighteen tags is never
  asked to hold more than twenty.
\<close>

theorem tags_within_limits:
  "tag_ids tags = take POST_TAG_LIMIT (firsts tags) \<and>
   (\<exists>more. wanted_tags existing want = map (\<lambda>t. (ft_name t, ft_moderated t)) existing @ map (\<lambda>s. (ts_name s, False)) more \<and>
      set more \<subseteq> {s \<in> set want. ts_name s \<notin> ft_name ` set existing} \<and>
      length (wanted_tags existing want) \<le> max (length existing) CHANNEL_TAG_LIMIT)"
proof -
  let ?old = "map (\<lambda>t. (ft_name t, ft_moderated t)) existing"
  obtain more where "add_missing ?old (missing_tags existing want) = ?old @ map (\<lambda>s. (ts_name s, False)) more"
    "set more \<subseteq> set (missing_tags existing want)" using add_missing_extends by blast
  moreover have "set (missing_tags existing want) \<subseteq> {s \<in> set want. ts_name s \<notin> ft_name ` set existing}"
    by (auto simp: missing_tags_def list_ex_iff)
  moreover have "length (wanted_tags existing want) \<le> max (length existing) CHANNEL_TAG_LIMIT"
    using add_missing_length [of ?old "missing_tags existing want"] by (simp add: wanted_tags_def)
  ultimately show ?thesis by (auto simp: tag_ids_firsts wanted_tags_def)
qed

end
