(* ===== verification/Properties_Retention.thy ===== *)
theory Properties_Retention
  imports Properties_Store
begin

text \<open>What the retention pass deletes, and that enough passes leave nothing expired behind.\<close>

section \<open>What is left of a table\<close>

definition expired_cards :: "retention_policy \<Rightarrow> time \<Rightarrow> db \<Rightarrow> notification list" where
  "expired_cards p now db = filter (settled_before (now - rp_resolved p)) (db_cards db)"

definition expired_alerts :: "retention_policy \<Rightarrow> time \<Rightarrow> db \<Rightarrow> alert_record list" where
  "expired_alerts p now db = filter (resolved_before (now - rp_resolved p)) (db_alerts db)"

definition expired_events :: "retention_policy \<Rightarrow> time \<Rightarrow> db \<Rightarrow> event_row list" where
  "expired_events p now db = filter (\<lambda>e. ev_received_at e < now - rp_events p) (db_events db)"

definition expired_audit :: "retention_policy \<Rightarrow> time \<Rightarrow> db \<Rightarrow> audit_entry list" where
  "expired_audit p now db = filter (\<lambda>e. au_at e < now - rp_audit p) (db_audit db)"

lemmas expired_defs = expired_cards_def expired_alerts_def expired_events_def expired_audit_def

definition clean :: "retention_policy \<Rightarrow> time \<Rightarrow> db \<Rightarrow> bool" where
  "clean p now db \<longleftrightarrow> expired_cards p now db = [] \<and> expired_alerts p now db = [] \<and> expired_events p now db = [] \<and>
     expired_audit p now db = []"

definition pass :: "retention_policy \<Rightarrow> time \<Rightarrow> db \<Rightarrow> db" where
  "pass p now db = snd (prune p now db)"

lemma pass_tables:
  "db_cards (pass p now db) = snd (delete_rows (settled_before (now - rp_resolved p)) n_id (rp_batch_limit p) (db_cards db))"
  "db_alerts (pass p now db) = snd (delete_rows (resolved_before (now - rp_resolved p)) row_fingerprint (rp_batch_limit p) (db_alerts db))"
  "db_audit (pass p now db) = snd (delete_first (\<lambda>e. au_at e < now - rp_audit p) (rp_batch_limit p) (db_audit db))"
  "db_events (pass p now db) = filter (\<lambda>e. ev_fingerprint e \<in> row_fingerprint ` set (db_alerts (pass p now db)) \<or>
       ev_fingerprint e \<notin> row_fingerprint ` set (db_alerts db))
     (snd (delete_first (\<lambda>e. ev_received_at e < now - rp_events p) (rp_batch_limit p) (db_events db)))"
  "db_outbox (pass p now db) = db_outbox db" "db_acks (pass p now db) = db_acks db" "db_silences (pass p now db) = db_silences db"
  by (simp_all add: pass_def prune_def prune_tx_def run_tx_def Let_def split_beta)

lemma keys_of_rows: "db_ok db \<Longrightarrow> distinct (map n_id (db_cards db)) \<and> distinct (map row_fingerprint (db_alerts db))"
  by (simp add: db_ok_def cards_ok_def alerts_ok_def row_fingerprint_def [abs_def])

lemma pass_counts:
  assumes "db_ok db"
  shows "length (expired_cards p now (pass p now db)) = length (expired_cards p now db) - rp_batch_limit p"
    "length (expired_alerts p now (pass p now db)) = length (expired_alerts p now db) - rp_batch_limit p"
    "length (expired_events p now (pass p now db)) \<le> length (expired_events p now db) - rp_batch_limit p"
    "length (expired_audit p now (pass p now db)) = length (expired_audit p now db) - rp_batch_limit p"
proof -
  note k = keys_of_rows [OF assms]
  show "length (expired_cards p now (pass p now db)) = length (expired_cards p now db) - rp_batch_limit p"
    "length (expired_alerts p now (pass p now db)) = length (expired_alerts p now db) - rp_batch_limit p"
    "length (expired_audit p now (pass p now db)) = length (expired_audit p now db) - rp_batch_limit p"
    unfolding expired_defs pass_tables using left_delete_rows k left_delete_first by blast+
  have "length (filter P (filter Q xs)) \<le> length (filter P xs)" for P Q :: "event_row \<Rightarrow> bool" and xs
    by (induction xs) auto
  then show "length (expired_events p now (pass p now db)) \<le> length (expired_events p now db) - rp_batch_limit p"
    unfolding expired_defs pass_tables by (rule order_trans) (simp add: left_delete_first)
qed

lemma prune_report:
  assumes "db_ok db"
  obtains report where "prune p now db = (Inr report, pass p now db)"
    "pr_more report \<longleftrightarrow> rp_batch_limit p \<le> length (expired_cards p now db) \<or> rp_batch_limit p \<le> length (expired_alerts p now db) \<or>
       rp_batch_limit p \<le> length (expired_events p now db) \<or> rp_batch_limit p \<le> length (expired_audit p now db)"
proof -
  note k = keys_of_rows [OF assms]
  have "\<exists>report. prune p now db = (Inr report, pass p now db) \<and> pr_more report = (\<exists>k \<in> {length (expired_cards p now db),
      length (expired_alerts p now db), length (expired_events p now db), length (expired_audit p now db)}. rp_batch_limit p \<le> k)"
    using delete_rows_unique(2) [OF conjunct1 [OF k]] delete_rows_unique(2) [OF conjunct2 [OF k]]
    by (auto simp: prune_def prune_tx_def run_tx_def pass_def Let_def split_beta fst_delete_first expired_defs)
  then show thesis by (auto intro: that)
qed

definition short_policy :: retention_policy where
  "short_policy = \<lparr>rp_events = 1, rp_resolved = 1, rp_audit = 1, rp_batch_limit = 5\<rparr>"

lemma filter_at_most: "length xs \<le> n \<Longrightarrow> length (filter P xs) \<le> n"
  by (rule order_trans [OF length_filter_le])

section \<open>The pass\<close>

text \<open>
  C31: Retention deletes nothing that is not past its age: every row a pass removes is a resolved card or alert old enough,
  an event or audit entry old enough, or an event of an alert that went with it. A card that is not resolved, the
  queue, the acknowledgements and the silences are never touched.
\<close>

theorem prune_deletes_only_expired:
  assumes "db_ok db"
  shows "set (db_cards db) - set (db_cards (snd (prune p now db))) \<subseteq> {n. n_state n = Resolved \<and> n_updated_at n < now - rp_resolved p} \<and>
   set (db_alerts db) - set (db_alerts (snd (prune p now db))) \<subseteq>
     {r. al_status (ar_alert r) = AResolved \<and> (\<exists>t < now - rp_resolved p. ar_resolved_at r = Some t)} \<and>
   set (db_audit db) - set (db_audit (snd (prune p now db))) \<subseteq> {e. au_at e < now - rp_audit p} \<and>
   set (db_events db) - set (db_events (snd (prune p now db))) \<subseteq>
     {e. ev_received_at e < now - rp_events p} \<union>
     {e. ev_fingerprint e \<in> row_fingerprint ` (set (db_alerts db) - set (db_alerts (snd (prune p now db))))} \<and>
   db_outbox (snd (prune p now db)) = db_outbox db \<and> db_acks (snd (prune p now db)) = db_acks db \<and>
   db_silences (snd (prune p now db)) = db_silences db"
proof -
  note k = keys_of_rows [OF assms]
  have cards: "set (db_cards db) - set (db_cards (pass p now db)) \<subseteq> {n. n_state n = Resolved \<and> n_updated_at n < now - rp_resolved p}"
    using delete_rows_unique(1) [OF conjunct1 [OF k]] by (auto simp: pass_tables settled_before_def dest!: first_rows_sub)
  have alerts: "set (db_alerts db) - set (db_alerts (pass p now db)) \<subseteq>
      {r. al_status (ar_alert r) = AResolved \<and> (\<exists>t < now - rp_resolved p. ar_resolved_at r = Some t)}"
    using delete_rows_unique(1) [OF conjunct2 [OF k]]
    by (auto simp: pass_tables resolved_before_def dest!: first_rows_sub split: option.splits)
  have audit: "set (db_audit db) - set (db_audit (pass p now db)) \<subseteq> {e. au_at e < now - rp_audit p}"
  proof
    fix e
    assume "e \<in> set (db_audit db) - set (db_audit (pass p now db))"
    with delete_first_keeps [of "\<lambda>e. au_at e < now - rp_audit p" e "db_audit db" "rp_batch_limit p"]
    show "e \<in> {e. au_at e < now - rp_audit p}" by (auto simp: pass_tables(3))
  qed
  have events: "set (db_events db) - set (db_events (pass p now db)) \<subseteq> {e. ev_received_at e < now - rp_events p} \<union>
      {e. ev_fingerprint e \<in> row_fingerprint ` (set (db_alerts db) - set (db_alerts (pass p now db)))}"
  proof
    fix e
    assume e: "e \<in> set (db_events db) - set (db_events (pass p now db))"
    show "e \<in> {e. ev_received_at e < now - rp_events p} \<union>
      {e. ev_fingerprint e \<in> row_fingerprint ` (set (db_alerts db) - set (db_alerts (pass p now db)))}"
    proof (cases "ev_received_at e < now - rp_events p")
      case False
      with e have "e \<in> set (snd (delete_first (\<lambda>e. ev_received_at e < now - rp_events p) (rp_batch_limit p) (db_events db)))"
        using delete_first_keeps [of "\<lambda>e. ev_received_at e < now - rp_events p" e] by simp
      with e have "ev_fingerprint e \<notin> row_fingerprint ` set (db_alerts (pass p now db))" "ev_fingerprint e \<in> row_fingerprint ` set (db_alerts db)"
        by (auto simp: pass_tables(4))
      then show ?thesis by auto
    qed simp
  qed
  from cards alerts audit events show ?thesis using pass_tables(5-7) [of p now db] by (simp add: pass_def)
qed

theorem prune_deletes_only_expired_witness:
  "disk_card \<in> set (db_cards (snd (prune short_policy 9 disk_db)))"
proof (rule ccontr)
  assume "disk_card \<notin> set (db_cards (snd (prune short_policy 9 disk_db)))"
  then have "disk_card \<in> set (db_cards disk_db) - set (db_cards (snd (prune short_policy 9 disk_db)))" by (simp add: disk_apply)
  from subsetD [OF conjunct1 [OF prune_deletes_only_expired [OF disk_db_ok, of short_policy 9]] this] show False
    by (simp add: disk_card_def new_row_def)
qed

text \<open>
  C32: Retention ends: a pass that does not report more has left nothing expired, and however much has expired, as many
  passes as batches it takes for the largest table leave nothing.
\<close>

theorem pruning_finishes:
  assumes ok: "db_ok db" and limit: "0 < rp_batch_limit p"
  shows "(case prune p now db of (Inr report, db') \<Rightarrow> pr_more report \<or> clean p now db' | (Inl _, _) \<Rightarrow> False) \<and>
    clean p now ((pass p now ^^ Max {length (db_cards db), length (db_alerts db), length (db_events db), length (db_audit db)}) db)"
proof
  have emptied: "clean p now (pass p now db)" if "length (expired_cards p now db) \<le> rp_batch_limit p"
      "length (expired_alerts p now db) \<le> rp_batch_limit p" "length (expired_events p now db) \<le> rp_batch_limit p"
      "length (expired_audit p now db) \<le> rp_batch_limit p"
    using pass_counts [OF ok, of p now] that by (simp add: clean_def)
  obtain report where "prune p now db = (Inr report, pass p now db)"
    "pr_more report \<longleftrightarrow> rp_batch_limit p \<le> length (expired_cards p now db) \<or> rp_batch_limit p \<le> length (expired_alerts p now db) \<or>
       rp_batch_limit p \<le> length (expired_events p now db) \<or> rp_batch_limit p \<le> length (expired_audit p now db)"
    by (rule prune_report [OF ok])
  with emptied show "case prune p now db of (Inr report, db') \<Rightarrow> pr_more report \<or> clean p now db' | (Inl _, _) \<Rightarrow> False"
    by auto
next
  let ?left = "\<lambda>db n. length (expired_cards p now db) \<le> n \<and> length (expired_alerts p now db) \<le> n \<and>
     length (expired_events p now db) \<le> n \<and> length (expired_audit p now db) \<le> n"
  have passes: "db_ok db \<Longrightarrow> ?left db n \<Longrightarrow> clean p now ((pass p now ^^ n) db)" for n db
  proof (induction n arbitrary: db)
    case 0
    then show ?case by (simp add: clean_def)
  next
    case (Suc n)
    have "db_ok (pass p now db)" using Suc.prems(1) by (simp add: pass_def prune_db_ok)
    moreover have "?left (pass p now db) n" using pass_counts [OF Suc.prems(1), of p now] Suc.prems(2) limit by auto
    ultimately have "clean p now ((pass p now ^^ n) (pass p now db))" by (rule Suc.IH)
    then show ?case by (simp add: funpow_swap1)
  qed
  show "clean p now ((pass p now ^^ Max {length (db_cards db), length (db_alerts db), length (db_events db), length (db_audit db)}) db)"
    by (rule passes [OF ok]) (unfold expired_defs, intro conjI filter_at_most Max_ge, simp_all)
qed

theorem pruning_finishes_witness:
  "clean short_policy 9 ((pass short_policy 9 ^^ Max {length (db_cards disk_db), length (db_alerts disk_db), length (db_events disk_db),
     length (db_audit disk_db)}) disk_db)"
  using pruning_finishes [OF disk_db_ok, of short_policy 9] by (simp add: short_policy_def)

end
