(* ===== verification/Am_Model.thy ===== *)
theory Am_Model
  imports Engine_Ports
begin

text \<open>
  Alertmanager's documents (\<open>am/src/model.rs\<close> and \<open>webhook.rs\<close>) and their conversion to and from the domain: alerts of
  the poll and of the webhook, silences, matchers, the server's status. JSON itself is not modelled: a document is the
  record \<open>serde\<close> fills. A map of strings is the list of its entries in the order of its keys. Lemmas: what comes out of
  a conversion is well-formed, and a silence comes back from the wire with the matchers it was sent with.
\<close>

section \<open>What a document can be wrong about\<close>

datatype wire_error = UnsupportedWebhookVersion string | Domain core_error

fun wire_error_str :: "wire_error \<Rightarrow> string" where
  "wire_error_str (UnsupportedWebhookVersion version) =
     ''webhook payload declares version '' @ quoted version @ '', and only version '' @ quoted ''4'' @ '' is understood''"
| "wire_error_str (Domain e) = core_error_str e"

definition am_error_of_wire :: "wire_error \<Rightarrow> am_error" where
  "am_error_of_wire e = AmDecode (wire_error_str e)"

type_synonym string_map = "(string \<times> string) list"

text \<open>Converting a list stops at its first element that fails.\<close>

fun convert_all :: "('a \<Rightarrow> 'e + 'b) \<Rightarrow> 'a list \<Rightarrow> 'e + 'b list" where
  "convert_all f [] = Inr []"
| "convert_all f (x # xs) = (case f x of Inl e \<Rightarrow> Inl e
     | Inr y \<Rightarrow> (case convert_all f xs of Inl e \<Rightarrow> Inl e | Inr ys \<Rightarrow> Inr (y # ys)))"

lemma convert_all_Inr_iff: "convert_all f xs = Inr ys \<longleftrightarrow> list_all2 (\<lambda>x y. f x = Inr y) xs ys"
proof (induction xs arbitrary: ys)
  case (Cons x xs)
  show ?case by (cases "f x"; cases "convert_all f xs"; cases ys) (auto simp: Cons.IH [symmetric])
qed auto

lemma convert_all_InlD:
  "convert_all f xs = Inl e \<Longrightarrow> \<exists>as x bs. xs = as @ x # bs \<and> f x = Inl e \<and> (\<forall>a \<in> set as. \<exists>y. f a = Inr y)"
proof (induction xs)
  case (Cons x xs)
  show ?case
  proof (cases "f x")
    case (Inl e')
    with Cons.prems show ?thesis by (intro exI [of _ "[]"]) auto
  next
    case (Inr y)
    with Cons.prems have "convert_all f xs = Inl e" by (auto split: sum.splits)
    from Cons.IH [OF this] obtain as z bs
      where "xs = as @ z # bs" "f z = Inl e" "\<forall>a \<in> set as. \<exists>y. f a = Inr y" by blast
    with Inr show ?thesis by (intro exI [of _ "x # as"] exI [of _ z] exI [of _ bs]) auto
  qed
qed simp

section \<open>Labels and annotations\<close>

fun insert_wire :: "labels \<Rightarrow> string_map \<Rightarrow> core_error + labels" where
  "insert_wire ls [] = Inr ls"
| "insert_wire ls ((n, v) # raw) = (case new_label_name n of Inl e \<Rightarrow> Inl e
     | Inr name \<Rightarrow> (case labels_insert ls name v of Inl e \<Rightarrow> Inl e | Inr ls' \<Rightarrow> insert_wire ls' raw))"

definition labels_from_wire :: "string_map \<Rightarrow> wire_error + labels" where
  "labels_from_wire raw = map_sum Domain id (insert_wire [] raw)"

definition annotations_from_wire :: "string_map \<Rightarrow> annotations" where
  "annotations_from_wire raw = bt_collect raw"

definition fingerprint_from_wire :: "string \<Rightarrow> wire_error + fingerprint" where
  "fingerprint_from_wire s = map_sum Domain id (new_fingerprint s)"

text \<open>A set of labels reads back every pair of the document and nothing else.\<close>

lemma insert_wire_wf: "labels_wf ls \<Longrightarrow> insert_wire ls raw = Inr ls' \<Longrightarrow> labels_wf ls'"
proof (induction ls raw rule: insert_wire.induct)
  case (2 ls m v raw)
  from "2.prems" obtain ls1 where ok: "label_name_ok m" and ins: "labels_insert ls (LabelName m) v = Inr ls1"
    and rest: "insert_wire ls1 raw = Inr ls'"
    by (auto simp: new_label_name_def split: sum.splits if_splits)
  with "2.IH" [of "LabelName m" ls1] "2.prems"(1) labels_insert_wf(1) [OF "2.prems"(1) _ ins] show ?case
    by (simp add: new_label_name_def)
qed simp

lemma insert_wire_get:
  "labels_wf ls \<Longrightarrow> distinct (map fst raw) \<Longrightarrow> insert_wire ls raw = Inr ls' \<Longrightarrow>
   labels_get ls' n = (case map_of raw n of Some v \<Rightarrow> Some v | None \<Rightarrow> labels_get ls n)"
proof (induction ls raw rule: insert_wire.induct)
  case (2 ls m v raw)
  from "2.prems" obtain ls1 where ok: "label_name_ok m" and ins: "labels_insert ls (LabelName m) v = Inr ls1"
    and rest: "insert_wire ls1 raw = Inr ls'"
    by (auto simp: new_label_name_def split: sum.splits if_splits)
  note step = labels_insert_wf [OF "2.prems"(1) _ ins]
  have "labels_get ls' n = (case map_of raw n of Some v \<Rightarrow> Some v | None \<Rightarrow> labels_get ls1 n)"
    using "2.IH" [of "LabelName m" ls1] ok ins rest "2.prems" step(1) by (simp add: new_label_name_def)
  moreover have "map_of raw m = None" using "2.prems"(2) by (simp add: map_of_eq_None_iff)
  ultimately show ?case using step(2,3) ok by (cases "n = m") (simp_all split: option.split)
qed simp

lemma labels_from_wire_wf:
  assumes "labels_from_wire raw = Inr ls" "distinct (map fst raw)"
  shows "labels_wf ls" "labels_get ls n = map_of raw n"
proof -
  have ins: "insert_wire [] raw = Inr ls"
    using assms(1) by (cases "insert_wire [] raw") (auto simp: labels_from_wire_def)
  have "labels_wf []" by (simp add: labels_wf_def)
  from insert_wire_wf [OF this ins] show "labels_wf ls" .
  from insert_wire_get [OF \<open>labels_wf []\<close> assms(2) ins] show "labels_get ls n = map_of raw n"
    by (simp add: labels_get_def split: option.splits)
qed

section \<open>Alerts of the poll\<close>

record wire_alert_status =
  was_state :: am_state
  was_silenced_by :: "string list"
  was_inhibited_by :: "string list"

record gettable_alert =
  ga_fingerprint :: string
  ga_labels :: string_map
  ga_annotations :: string_map
  ga_starts_at :: time
  ga_ends_at :: "time option"
  ga_generator_url :: "string option"
  ga_status :: wire_alert_status

definition opt_filter :: "('a \<Rightarrow> bool) \<Rightarrow> 'a option \<Rightarrow> 'a option" where
  "opt_filter P x = (case x of Some y \<Rightarrow> if P y then Some y else None | None \<Rightarrow> None)"

lemma opt_filter_Some [simp]: "opt_filter P x = Some y \<longleftrightarrow> x = Some y \<and> P y"
  by (auto simp: opt_filter_def split: option.splits if_splits)

definition gettable_into_core :: "time \<Rightarrow> gettable_alert \<Rightarrow> wire_error + alert" where
  "gettable_into_core now w =
     (let ended = opt_filter (\<lambda>ends_at. ends_at \<le> now) (ga_ends_at w) in
      case fingerprint_from_wire (ga_fingerprint w) of Inl e \<Rightarrow> Inl e
      | Inr fp \<Rightarrow> (case labels_from_wire (ga_labels w) of Inl e \<Rightarrow> Inl e
        | Inr ls \<Rightarrow> Inr \<lparr>al_fingerprint = fp, al_labels = ls, al_annotations = annotations_from_wire (ga_annotations w),
            al_starts_at = ga_starts_at w, al_ends_at = ended,
            al_generator_url = opt_filter (\<lambda>url. url \<noteq> []) (ga_generator_url w),
            al_status = (if ended \<noteq> None then AResolved else AFiring), al_am_state = was_state (ga_status w),
            al_silenced_by = was_silenced_by (ga_status w), al_inhibited_by = was_inhibited_by (ga_status w),
            al_group_key = None\<rparr>))"

section \<open>Alerts of the webhook\<close>

definition WEBHOOK_VERSION :: string where "WEBHOOK_VERSION = ''4''"

record webhook_alert =
  wa_status :: alert_status
  wa_labels :: string_map
  wa_annotations :: string_map
  wa_starts_at :: time
  wa_ends_at :: time
  wa_generator_url :: string
  wa_fingerprint :: string

record webhook_payload =
  wp_version :: string
  wp_group_key :: string
  wp_truncated_alerts :: nat
  wp_status :: alert_status
  wp_receiver :: string
  wp_group_labels :: string_map
  wp_common_labels :: string_map
  wp_common_annotations :: string_map
  wp_external_url :: string
  wp_alerts :: "webhook_alert list"

definition ensure_supported :: "webhook_payload \<Rightarrow> wire_error + unit" where
  "ensure_supported p = (if wp_version p = WEBHOOK_VERSION then Inr () else Inl (UnsupportedWebhookVersion (wp_version p)))"

definition payload_is_truncated :: "webhook_payload \<Rightarrow> bool" where
  "payload_is_truncated p \<longleftrightarrow> 0 < wp_truncated_alerts p"

definition end_time :: "time \<Rightarrow> time option" where
  "end_time ends_at = (if 0 < ends_at then Some ends_at else None)"

definition webhook_into_core :: "group_key \<Rightarrow> webhook_alert \<Rightarrow> wire_error + alert" where
  "webhook_into_core g w = (case fingerprint_from_wire (wa_fingerprint w) of Inl e \<Rightarrow> Inl e
     | Inr fp \<Rightarrow> (case labels_from_wire (wa_labels w) of Inl e \<Rightarrow> Inl e
       | Inr ls \<Rightarrow> Inr \<lparr>al_fingerprint = fp, al_labels = ls, al_annotations = annotations_from_wire (wa_annotations w),
           al_starts_at = wa_starts_at w, al_ends_at = end_time (wa_ends_at w),
           al_generator_url = (if wa_generator_url w = [] then None else Some (wa_generator_url w)),
           al_status = wa_status w, al_am_state = AmActive, al_silenced_by = [], al_inhibited_by = [],
           al_group_key = Some g\<rparr>))"

definition into_alerts :: "webhook_payload \<Rightarrow> wire_error + alert list" where
  "into_alerts p = (case ensure_supported p of Inl e \<Rightarrow> Inl e
     | Inr _ \<Rightarrow> convert_all (webhook_into_core (GroupKey (wp_group_key p))) (wp_alerts p))"

section \<open>Silences\<close>

record wire_matcher =
  wm_name :: string
  wm_value :: string
  wm_is_regex :: bool
  wm_is_equal :: bool

definition from_matcher :: "matcher \<Rightarrow> wire_matcher" where
  "from_matcher m = \<lparr>wm_name = name_str (m_name m), wm_value = m_value m, wm_is_regex = op_is_regex (m_op m),
     wm_is_equal = op_is_equal (m_op m)\<rparr>"

fun wire_op :: "bool \<Rightarrow> bool \<Rightarrow> match_op" where
  "wire_op False True = OpEqual"
| "wire_op False False = OpNotEqual"
| "wire_op True True = OpRegexMatch"
| "wire_op True False = OpRegexNotMatch"

definition to_matcher :: "regex_engine \<Rightarrow> wire_matcher \<Rightarrow> wire_error + matcher" where
  "to_matcher rx w = (case new_label_name (wm_name w) of Inl e \<Rightarrow> Inl (Domain e)
     | Inr n \<Rightarrow> map_sum Domain id (new_matcher rx n (wire_op (wm_is_regex w) (wm_is_equal w)) (wm_value w)))"

record gettable_silence =
  gs_id :: string
  gs_matchers :: "wire_matcher list"
  gs_starts_at :: time
  gs_ends_at :: time
  gs_updated_at :: time
  gs_created_by :: string
  gs_comment :: string
  gs_state :: silence_lifecycle

definition into_record :: "regex_engine \<Rightarrow> gettable_silence \<Rightarrow> wire_error + silence_record" where
  "into_record rx s = (case convert_all (to_matcher rx) (gs_matchers s) of Inl e \<Rightarrow> Inl e
     | Inr ms \<Rightarrow> Inr \<lparr>sr_id = gs_id s, sr_matchers = ms, sr_starts_at = gs_starts_at s, sr_ends_at = gs_ends_at s,
         sr_updated_at = gs_updated_at s, sr_created_by = gs_created_by s, sr_comment = gs_comment s, sr_state = gs_state s\<rparr>)"

record postable_silence =
  ps_id :: "string option"
  ps_matchers :: "wire_matcher list"
  ps_starts_at :: time
  ps_ends_at :: time
  ps_created_by :: string
  ps_comment :: string

definition from_request :: "silence_request \<Rightarrow> postable_silence" where
  "from_request r = \<lparr>ps_id = sq_id r, ps_matchers = map from_matcher (sq_matchers r), ps_starts_at = sq_starts_at r,
     ps_ends_at = sq_ends_at r, ps_created_by = sq_created_by r, ps_comment = sq_comment r\<rparr>"

record silence_created =
  sc_silence_id :: string

section \<open>The server's status\<close>

record cluster_status =
  cs_status :: string
  cs_peers :: "string list"

record alertmanager_status =
  as_cluster :: cluster_status
  as_version :: string
  as_config :: "string option"
  as_uptime :: "time option"

definition config_digest :: "string \<Rightarrow> string" where
  "config_digest text = hex16 (fnv1a FNV_OFFSET text)"

definition into_status :: "alertmanager_status \<Rightarrow> am_status" where
  "into_status s = \<lparr>ams_version = as_version s, ams_uptime = as_uptime s, ams_peers = cs_peers (as_cluster s),
     ams_cluster_ready = (cs_status (as_cluster s) \<noteq> ''settling''), ams_config_hash = map_option config_digest (as_config s)\<rparr>"

record wire_receiver =
  wr_name :: string

definition receiver_of_wire :: "wire_receiver \<Rightarrow> am_receiver" where
  "receiver_of_wire r = \<lparr>arc_name = wr_name r\<rparr>"

section \<open>What a conversion guarantees\<close>

text \<open>A well-formed alert: what the type of the fields alone does not say.\<close>

definition alert_wf :: "alert \<Rightarrow> bool" where
  "alert_wf a \<longleftrightarrow> fingerprint_ok (fp_str (al_fingerprint a)) \<and> labels_wf (al_labels a) \<and> bt_wf (al_annotations a) \<and>
     al_generator_url a \<noteq> Some []"

lemma fingerprint_from_wire_ok [dest]: "fingerprint_from_wire s = Inr fp \<Longrightarrow> fingerprint_ok (fp_str fp) \<and> fp_str fp = s"
  by (auto simp: fingerprint_from_wire_def new_fingerprint_def split: if_splits)

lemma labels_from_wire_ok [dest]: "labels_from_wire raw = Inr ls \<Longrightarrow> labels_wf ls"
  using insert_wire_wf [of "[]" raw ls] by (cases "insert_wire [] raw") (simp_all add: labels_from_wire_def labels_wf_def)

lemma gettable_wf:
  assumes "gettable_into_core now w = Inr a"
  shows "alert_wf a" "al_status a = AResolved \<longleftrightarrow> (\<exists>t. ga_ends_at w = Some t \<and> t \<le> now)"
    "al_ends_at a \<noteq> None \<longleftrightarrow> al_status a = AResolved" "fp_str (al_fingerprint a) = ga_fingerprint w"
  using assms by (auto simp: gettable_into_core_def alert_wf_def annotations_from_wire_def opt_filter_def Let_def
      split: sum.splits option.splits if_splits)

lemma webhook_wf:
  assumes "webhook_into_core g w = Inr a"
  shows "alert_wf a" "al_group_key a = Some g" "al_status a = wa_status w" "al_am_state a = AmActive"
    "fp_str (al_fingerprint a) = wa_fingerprint w"
  using assms by (auto simp: webhook_into_core_def alert_wf_def annotations_from_wire_def split: sum.splits if_splits)

lemma into_alerts_wf: "into_alerts p = Inr as \<Longrightarrow> a \<in> set as \<Longrightarrow> alert_wf a"
  by (auto simp: into_alerts_def convert_all_Inr_iff list_all2_conv_all_nth in_set_conv_nth split: sum.splits dest: webhook_wf(1))

section \<open>Matchers over the wire\<close>

definition matcher_ok :: "regex_engine \<Rightarrow> matcher \<Rightarrow> bool" where
  "matcher_ok rx m \<longleftrightarrow> label_name_ok (name_str (m_name m)) \<and> new_matcher rx (m_name m) (m_op m) (m_value m) = Inr m"

lemma wire_op_of_op [simp]: "wire_op (op_is_regex o') (op_is_equal o') = o'"
  by (cases o') (simp_all add: op_is_regex_def op_is_equal_def)

lemma to_matcher_from_matcher: "matcher_ok rx m \<Longrightarrow> to_matcher rx (from_matcher m) = Inr m"
  by (simp add: matcher_ok_def to_matcher_def from_matcher_def new_label_name_def)

lemma to_matcher_ok: "to_matcher rx w = Inr m \<Longrightarrow> matcher_ok rx m"
  by (auto simp: to_matcher_def matcher_ok_def new_label_name_def new_matcher_def split: sum.splits if_splits)

lemma new_matcher_ok: "label_name_ok (name_str n) \<Longrightarrow> new_matcher rx n o' v = Inr m \<Longrightarrow> matcher_ok rx m"
  by (auto simp: matcher_ok_def new_matcher_def split: sum.splits if_splits)

lemma parse_matcher_ok: "parse_matcher rx part = Inr m \<Longrightarrow> matcher_ok rx m"
  by (auto simp: parse_matcher_def new_label_name_def Let_def split: option.splits sum.splits if_splits
      elim!: new_matcher_ok [rotated])

lemma parse_parts_ok: "parse_parts rx ps = Inr ms \<Longrightarrow> list_all (matcher_ok rx) ms"
  by (induction ps arbitrary: ms) (auto simp: Let_def parse_matcher_ok split: if_splits sum.splits)

lemma parse_matchers_ok: "parse_matchers rx e = Inr ms \<Longrightarrow> list_all (matcher_ok rx) ms"
  by (auto simp: parse_matchers_def Let_def dest: parse_parts_ok)

lemma convert_all_inverse: "list_all (\<lambda>x. f (g x) = Inr x) xs \<Longrightarrow> convert_all f (map g xs) = Inr xs"
  by (induction xs) auto

lemma silence_over_the_wire:
  assumes "list_all (matcher_ok rx) (sq_matchers r)" "gs_matchers s = ps_matchers (from_request r)"
  shows "into_record rx s = Inr \<lparr>sr_id = gs_id s, sr_matchers = sq_matchers r, sr_starts_at = gs_starts_at s, sr_ends_at = gs_ends_at s,
     sr_updated_at = gs_updated_at s, sr_created_by = gs_created_by s, sr_comment = gs_comment s, sr_state = gs_state s\<rparr>"
proof -
  have "list_all (\<lambda>m. to_matcher rx (from_matcher m) = Inr m) (sq_matchers r)"
    using assms(1) by (auto simp: list_all_iff to_matcher_from_matcher)
  from convert_all_inverse [where f = "to_matcher rx" and g = from_matcher, OF this] show ?thesis by (simp add: into_record_def assms(2) from_request_def)
qed

end
