(* ===== verification/Ingest_Router.thy ===== *)
theory Ingest_Router
  imports Am_Model
begin

text \<open>
  The listener Alertmanager posts to (\<open>ingest/src/router.rs\<close>, \<open>service.rs\<close>, \<open>app.rs\<close>): the bearer check, the webhook
  handler with the counter each request ends under, the probes. HTTP itself is not modelled: a request is its
  authorisation header, when it is visible text, and its body; the JSON decoder is a parameter. The body limit, the
  timeout and the routes are layers of the HTTP library. The service behind the handler is \<open>ingest\<close> of the pipeline.
\<close>

section \<open>Configuration\<close>

record ingest_config =
  in_webhook_path :: string
  in_webhook_token :: "string option"
  in_body_limit_bytes :: nat
  in_request_timeout_secs :: nat
  in_max_concurrent_requests :: nat
  in_shutdown_drain_secs :: nat

definition default_ingest :: ingest_config where
  "default_ingest = \<lparr>in_webhook_path = ''/webhook'', in_webhook_token = None, in_body_limit_bytes = 1024 * 1024,
     in_request_timeout_secs = 10, in_max_concurrent_requests = 64, in_shutdown_drain_secs = 10\<rparr>"

definition routable_path :: "string \<Rightarrow> string" where
  "routable_path configured = (if strip_prefix ''/'' configured \<noteq> None then configured else ''/'' @ configured)"

text \<open>The listener's state: its section of the configuration, the age a poll may have, whether there is a metrics handle.\<close>

record app_state =
  ap_ingest :: ingest_config
  ap_max_poll_age :: nat
  ap_metrics :: bool

definition app_from_config :: "ingest_config \<Rightarrow> nat \<Rightarrow> bool \<Rightarrow> bool \<Rightarrow> app_state" where
  "app_from_config cf reconcile_interval_secs metrics_enabled has_handle =
     \<lparr>ap_ingest = cf, ap_max_poll_age = min (reconcile_interval_secs * 2) (2 ^ 64 - 1), ap_metrics = (has_handle \<and> metrics_enabled)\<rparr>"

section \<open>Readiness\<close>

definition CHECK_STORE :: string where "CHECK_STORE = ''store''"
definition CHECK_GATEWAY :: string where "CHECK_GATEWAY = ''gateway''"
definition CHECK_ALERTMANAGER :: string where "CHECK_ALERTMANAGER = ''alertmanager_poll''"

record readiness =
  rd_store_reachable :: bool
  rd_gateway_connected :: bool
  rd_last_poll_age :: "nat option"

definition failures :: "nat \<Rightarrow> readiness \<Rightarrow> string list" where
  "failures max_poll_age r =
     (if rd_store_reachable r then [] else [CHECK_STORE]) @ (if rd_gateway_connected r then [] else [CHECK_GATEWAY]) @
     (if (case rd_last_poll_age r of None \<Rightarrow> True | Some age \<Rightarrow> max_poll_age < age) then [CHECK_ALERTMANAGER] else [])"

definition is_ready :: "nat \<Rightarrow> readiness \<Rightarrow> bool" where
  "is_ready max_poll_age r \<longleftrightarrow> failures max_poll_age r = []"

definition service_readiness :: "bool \<Rightarrow> bool \<Rightarrow> time \<Rightarrow> pipeline \<Rightarrow> readiness" where
  "service_readiness healthy connected now pl =
     \<lparr>rd_store_reachable = healthy, rd_gateway_connected = connected, rd_last_poll_age = last_poll_age now pl\<rparr>"

section \<open>Answers\<close>

datatype answer_body = NoBody | AcceptedBody nat nat | ErrorBody string | ReadinessBody string "string list" | Exposition string

record answer =
  an_status :: nat
  an_body :: answer_body

definition RESULT_ACCEPTED :: string where "RESULT_ACCEPTED = ''accepted''"
definition RESULT_UNAUTHORIZED :: string where "RESULT_UNAUTHORIZED = ''unauthorized''"
definition RESULT_MALFORMED :: string where "RESULT_MALFORMED = ''malformed''"
definition RESULT_BAD_VERSION :: string where "RESULT_BAD_VERSION = ''bad_version''"
definition RESULT_INVALID_ALERT :: string where "RESULT_INVALID_ALERT = ''invalid_alert''"
definition RESULT_UNAVAILABLE :: string where "RESULT_UNAVAILABLE = ''unavailable''"
definition RESULT_REJECTED :: string where "RESULT_REJECTED = ''rejected''"
definition RESULT_ERROR :: string where "RESULT_ERROR = ''error''"

lemmas result_defs = RESULT_ACCEPTED_def RESULT_UNAUTHORIZED_def RESULT_MALFORMED_def RESULT_BAD_VERSION_def
  RESULT_INVALID_ALERT_def RESULT_UNAVAILABLE_def RESULT_REJECTED_def RESULT_ERROR_def

text \<open>An answer and the result the request is counted under.\<close>

definition refuse_request :: "string \<Rightarrow> nat \<Rightarrow> string \<Rightarrow> string \<times> answer" where
  "refuse_request result status detail = (result, \<lparr>an_status = status, an_body = ErrorBody detail\<rparr>)"

fun service_error_str :: "service_error \<Rightarrow> string" where
  "service_error_str (Unavailable e) = ''the ingest path is unavailable: '' @ store_error_str e"
| "service_error_str (Rejected detail) = ''the batch was rejected: '' @ detail"
| "service_error_str (Internal e) = ''the ingest path failed: '' @ store_error_str e"

fun refused_batch :: "service_error \<Rightarrow> string \<times> answer" where
  "refused_batch (Unavailable e) = refuse_request RESULT_UNAVAILABLE 503 (service_error_str (Unavailable e))"
| "refused_batch (Rejected detail) = refuse_request RESULT_REJECTED 400 (service_error_str (Rejected detail))"
| "refused_batch (Internal e) = refuse_request RESULT_ERROR 500 (service_error_str (Internal e))"

section \<open>The webhook\<close>

type_synonym payload_decoder = "string \<Rightarrow> string + webhook_payload"

definition webhook_batch :: "webhook_payload \<Rightarrow> alert list \<Rightarrow> time \<Rightarrow> ingest_batch" where
  "webhook_batch p as received_at = \<lparr>ib_source = SWebhook, ib_group_key = Some (GroupKey (wp_group_key p)),
     ib_truncated = wp_truncated_alerts p, ib_alerts = as, ib_received_at = received_at\<rparr>"

definition ingest_webhook ::
  "payload_decoder \<Rightarrow> from_timestamp \<Rightarrow> service_config \<Rightarrow> routing_snapshot \<Rightarrow> string \<Rightarrow> clock \<Rightarrow> pipeline \<Rightarrow>
   (string \<times> answer) \<times> pipeline" where
  "ingest_webhook from_json from_ts cf sn body clock pl = (case from_json body of
     Inl e \<Rightarrow> (refuse_request RESULT_MALFORMED 400 e, pl)
   | Inr p \<Rightarrow> (case ensure_supported p of
       Inl e \<Rightarrow> (refuse_request RESULT_BAD_VERSION 400 (wire_error_str e), pl)
     | Inr _ \<Rightarrow> (case into_alerts p of
         Inl e \<Rightarrow> (refuse_request RESULT_INVALID_ALERT 400 (wire_error_str e), pl)
       | Inr as \<Rightarrow> (case ingest from_ts cf sn (webhook_batch p as (clock 0)) (clock 1) pl of
           (Inr accepted, pl') \<Rightarrow>
             ((RESULT_ACCEPTED, \<lparr>an_status = 200, an_body = AcceptedBody (ia_accepted accepted) (ia_duplicates accepted)\<rparr>), pl')
         | (Inl e, pl') \<Rightarrow> (refused_batch e, pl')))))"

section \<open>The bearer check\<close>

definition trim_start :: "string \<Rightarrow> string" where
  "trim_start s = concat (dropWhile is_whitespace (utf8_chars s))"

definition bearer_token :: "string option \<Rightarrow> string option" where
  "bearer_token authorization = (case Option.bind authorization (split_once (CHR '' '')) of
     None \<Rightarrow> None
   | Some (scheme, token) \<Rightarrow> if ascii_lower scheme = ''bearer'' then Some (trim_start token) else None)"

definition token_matches :: "string \<Rightarrow> string \<Rightarrow> bool" where
  "token_matches expected presented \<longleftrightarrow> expected = presented"

definition require_bearer ::
  "app_state \<Rightarrow> string option \<Rightarrow> (pipeline \<Rightarrow> (string \<times> answer) \<times> pipeline) \<Rightarrow> pipeline \<Rightarrow> (string \<times> answer) \<times> pipeline" where
  "require_bearer ap authorization next' pl = (case in_webhook_token (ap_ingest ap) of
     None \<Rightarrow> next' pl
   | Some expected \<Rightarrow> (case bearer_token authorization of
       None \<Rightarrow> ((RESULT_UNAUTHORIZED, \<lparr>an_status = 401, an_body = NoBody\<rparr>), pl)
     | Some token \<Rightarrow> if token_matches expected token then next' pl
         else ((RESULT_UNAUTHORIZED, \<lparr>an_status = 401, an_body = NoBody\<rparr>), pl)))"

definition serve_webhook ::
  "app_state \<Rightarrow> payload_decoder \<Rightarrow> from_timestamp \<Rightarrow> service_config \<Rightarrow> routing_snapshot \<Rightarrow> string option \<Rightarrow> string \<Rightarrow> clock \<Rightarrow>
   pipeline \<Rightarrow> (string \<times> answer) \<times> pipeline" where
  "serve_webhook ap from_json from_ts cf sn authorization body clock =
     require_bearer ap authorization (ingest_webhook from_json from_ts cf sn body clock)"

section \<open>Probes\<close>

definition healthz :: answer where
  "healthz = \<lparr>an_status = 200, an_body = NoBody\<rparr>"

definition readyz :: "app_state \<Rightarrow> readiness \<Rightarrow> answer" where
  "readyz ap r = (let failed = failures (ap_max_poll_age ap) r in
     if failed = [] then \<lparr>an_status = 200, an_body = ReadinessBody ''ready'' failed\<rparr>
     else \<lparr>an_status = 503, an_body = ReadinessBody ''not ready'' failed\<rparr>)"

definition render_metrics :: "app_state \<Rightarrow> string \<Rightarrow> answer" where
  "render_metrics ap rendered =
     (if ap_metrics ap then \<lparr>an_status = 200, an_body = Exposition rendered\<rparr> else \<lparr>an_status = 404, an_body = NoBody\<rparr>)"

section \<open>What a request can do\<close>

definition authorised :: "app_state \<Rightarrow> string option \<Rightarrow> bool" where
  "authorised ap authorization \<longleftrightarrow> (case in_webhook_token (ap_ingest ap) of None \<Rightarrow> True
     | Some expected \<Rightarrow> bearer_token authorization = Some expected)"

lemma serve_refused: "\<not> authorised ap au \<Longrightarrow>
    serve_webhook ap from_json from_ts cf sn au body clock pl = ((RESULT_UNAUTHORIZED, \<lparr>an_status = 401, an_body = NoBody\<rparr>), pl)"
  by (auto simp: authorised_def serve_webhook_def require_bearer_def token_matches_def split: option.splits)

lemma serve_authorised: "authorised ap au \<Longrightarrow>
    serve_webhook ap from_json from_ts cf sn au body clock = ingest_webhook from_json from_ts cf sn body clock"
  by (auto simp: authorised_def serve_webhook_def require_bearer_def token_matches_def split: option.splits)

lemma ready_iff: "is_ready age r \<longleftrightarrow> rd_store_reachable r \<and> rd_gateway_connected r \<and>
    (\<exists>a. rd_last_poll_age r = Some a \<and> a \<le> age)"
  by (auto simp: is_ready_def failures_def split: option.splits)

end
