(* ===== verification/Am_Client.thy ===== *)
theory Am_Client
  imports Am_Model
begin

text \<open>
  The HTTP client of Alertmanager (\<open>am/src/client.rs\<close>): a call is tried against every endpoint in order, and tried again
  after a jittered wait until the elapsed budget is spent. The HTTP library, the URL type, JSON and the clocks are
  parameters: records of functions on a world of any type. Instants are nanoseconds. The loop may not return for every
  clock, so it is a partial function; \<open>None\<close> means that it runs for ever. Other callers of the shared jitter are not
  interleaved with a call. Lemmas: a round asks the endpoints in order and stops at the first answer or refusal, the
  waits stay below their ceiling, and under a clock that moves the call returns within its budget and one more round.
\<close>

section \<open>Standard library\<close>

definition U64_MAX :: nat where "U64_MAX = 18446744073709551615"

definition sat_mul_u64 :: "nat \<Rightarrow> nat \<Rightarrow> nat" where
  "sat_mul_u64 a b = min (a * b) U64_MAX"

text \<open>\<open>String::from_utf8_lossy\<close>: every maximal prefix of a broken character becomes U+FFFD.\<close>

definition REPLACEMENT :: string where "REPLACEMENT = [CHR 0xEF, CHR 0xBF, CHR 0xBD]"

definition byte_between :: "nat \<Rightarrow> nat \<Rightarrow> char \<Rightarrow> bool" where
  "byte_between lo hi c \<longleftrightarrow> lo \<le> of_char c \<and> of_char c \<le> hi"

definition utf8_following :: "char \<Rightarrow> nat option" where
  "utf8_following b = (if byte_between 0 0x7F b then Some 0 else if byte_between 0xC2 0xDF b then Some 1
     else if byte_between 0xE0 0xEF b then Some 2 else if byte_between 0xF0 0xF4 b then Some 3 else None)"

definition second_byte_ok :: "char \<Rightarrow> char \<Rightarrow> bool" where
  "second_byte_ok b c \<longleftrightarrow> byte_between (if b = CHR 0xE0 then 0xA0 else if b = CHR 0xF0 then 0x90 else 0x80)
     (if b = CHR 0xED then 0x9F else if b = CHR 0xF4 then 0x8F else 0xBF) c"

text \<open>How many bytes the first character takes, and whether it is whole.\<close>

definition utf8_first :: "char \<Rightarrow> string \<Rightarrow> nat \<times> bool" where
  "utf8_first b s = (case utf8_following b of None \<Rightarrow> (1, False) | Some 0 \<Rightarrow> (1, True)
     | Some (Suc n) \<Rightarrow> (case s of [] \<Rightarrow> (1, False)
       | c # cs \<Rightarrow> if \<not> second_byte_ok b c then (1, False)
           else let k = length (takeWhile is_cont (take n cs)) in (2 + k, k = n)))"

function utf8_lossy :: "string \<Rightarrow> string" where
  "utf8_lossy [] = []"
| "utf8_lossy (b # s) = (let (n, whole) = utf8_first b s in
     (if whole then take n (b # s) else REPLACEMENT) @ utf8_lossy (drop n (b # s)))"
  by pat_completeness auto
termination
  by (relation "measure length") (auto simp: utf8_first_def Let_def split: option.splits nat.splits list.splits if_splits)

section \<open>The HTTP library\<close>

datatype http_method = HttpGet | HttpPost | HttpDelete

datatype auth = NoAuth | Bearer string | Basic string "string option"

record 'u http_request =
  hq_method :: http_method
  hq_url :: 'u
  hq_auth :: auth
  hq_json :: "string option"

record http_failure =
  hf_is_connect :: bool
  hf_is_timeout :: bool
  hf_is_decode :: bool
  hf_text :: string

record ('u, 'w) web =
  wb_send :: "'u http_request \<Rightarrow> 'w \<Rightarrow> (http_failure + nat) \<times> 'w"
  wb_bytes :: "'w \<Rightarrow> (http_failure + string) \<times> 'w"
  wb_now :: "'w \<Rightarrow> nat \<times> 'w"
  wb_utc :: "'w \<Rightarrow> time \<times> 'w"
  wb_sleep_ms :: "nat \<Rightarrow> 'w \<Rightarrow> 'w"
  wb_latest :: nat

record 'u url_ops =
  uo_text :: "'u \<Rightarrow> string"
  uo_path :: "'u \<Rightarrow> string"
  uo_set_path :: "string \<Rightarrow> 'u \<Rightarrow> 'u"
  uo_join :: "'u \<Rightarrow> string \<Rightarrow> string + 'u"
  uo_push_segment :: "string \<Rightarrow> 'u \<Rightarrow> 'u option"
  uo_append_pair :: "string \<Rightarrow> string \<Rightarrow> 'u \<Rightarrow> 'u"

definition nanos_per_ms :: nat where "nanos_per_ms = 1000000"

section \<open>Configuration\<close>

record retry_config =
  rc_initial_backoff_ms :: nat
  rc_max_backoff_secs :: nat
  rc_max_elapsed_secs :: nat

definition default_retry :: retry_config where
  "default_retry = \<lparr>rc_initial_backoff_ms = 200, rc_max_backoff_secs = 10, rc_max_elapsed_secs = 45\<rparr>"

record 'u am_config =
  ac_endpoints :: "'u list"
  ac_bearer_token :: "string option"
  ac_basic_username :: "string option"
  ac_basic_password :: "string option"
  ac_ca_bundle :: "string option"
  ac_timeout_secs :: nat
  ac_connect_timeout_secs :: nat
  ac_retry :: retry_config

definition default_am_config :: "'u am_config" where
  "default_am_config = \<lparr>ac_endpoints = [], ac_bearer_token = None, ac_basic_username = None, ac_basic_password = None,
     ac_ca_bundle = None, ac_timeout_secs = 10, ac_connect_timeout_secs = 2, ac_retry = default_retry\<rparr>"

record schedule =
  sd_initial_ms :: nat
  sd_ceiling_ms :: nat
  sd_budget_secs :: nat

definition schedule_from_config :: "retry_config \<Rightarrow> schedule" where
  "schedule_from_config r = \<lparr>sd_initial_ms = rc_initial_backoff_ms r, sd_ceiling_ms = sat_mul_u64 (rc_max_backoff_secs r) 1000,
     sd_budget_secs = rc_max_elapsed_secs r\<rparr>"

text \<open>\<open>header_ok\<close>: whether the HTTP library takes a text as a header's value.\<close>

definition auth_from_config :: "(string \<Rightarrow> bool) \<Rightarrow> 'u am_config \<Rightarrow> am_error + auth" where
  "auth_from_config header_ok cf = (case ac_bearer_token cf of
     Some token \<Rightarrow> (if header_ok (''Bearer '' @ token) then Inr (Bearer (''Bearer '' @ token))
       else Inl (AmConfig ''the bearer token contains bytes that cannot go in a header''))
   | None \<Rightarrow> (case ac_basic_username cf of Some username \<Rightarrow> Inr (Basic username (ac_basic_password cf)) | None \<Rightarrow> Inr NoAuth))"

text \<open>Reading a file, parsing a bundle of certificates and building the library's own client can fail.\<close>

record tls_ops =
  tl_read :: "string \<Rightarrow> string + string"
  tl_parse :: "string \<Rightarrow> string + nat"
  tl_build :: "string + unit"

definition load_bundle :: "tls_ops \<Rightarrow> string option \<Rightarrow> am_error + unit" where
  "load_bundle tls bundle = (case bundle of None \<Rightarrow> Inr ()
     | Some path \<Rightarrow> (case tl_read tls path of
         Inl source \<Rightarrow> Inl (AmConfig (''cannot read CA bundle '' @ quoted path @ '': '' @ source))
       | Inr pem \<Rightarrow> (case tl_parse tls pem of
           Inl source \<Rightarrow> Inl (AmConfig (''cannot parse CA bundle '' @ quoted path @ '': '' @ source))
         | Inr n \<Rightarrow> if n = 0 then Inl (AmConfig (''CA bundle '' @ quoted path @ '' contains no certificate'')) else Inr ())))"

record 'u client =
  ct_endpoints :: "'u list"
  ct_auth :: auth
  ct_retry :: schedule

definition new_client :: "tls_ops \<Rightarrow> (string \<Rightarrow> bool) \<Rightarrow> 'u am_config \<Rightarrow> am_error + 'u client" where
  "new_client tls header_ok cf =
     (if ac_endpoints cf = [] then Inl (AmConfig ''no Alertmanager endpoint is configured'')
      else if ac_timeout_secs cf = 0 \<or> ac_connect_timeout_secs cf = 0
        then Inl (AmConfig ''timeout_secs and connect_timeout_secs must both be at least one second'')
      else case load_bundle tls (ac_ca_bundle cf) of Inl e \<Rightarrow> Inl e
      | Inr _ \<Rightarrow> (case tl_build tls of Inl source \<Rightarrow> Inl (AmConfig (''cannot build the HTTP client: '' @ source))
        | Inr _ \<Rightarrow> (case auth_from_config header_ok cf of Inl e \<Rightarrow> Inl e
          | Inr au \<Rightarrow> Inr \<lparr>ct_endpoints = ac_endpoints cf, ct_auth = au, ct_retry = schedule_from_config (ac_retry cf)\<rparr>)))"

section \<open>Errors\<close>

definition transport_error :: "http_failure \<Rightarrow> nat \<Rightarrow> am_error" where
  "transport_error f elapsed_ms = (if hf_is_connect f then AmUnreachable (hf_text f)
     else if hf_is_timeout f then AmTimeout (min elapsed_ms U64_MAX)
     else if hf_is_decode f then AmDecode (hf_text f) else AmUnreachable (hf_text f))"

definition MAX_ERROR_BODY :: nat where "MAX_ERROR_BODY = 512"

fun back_to_boundary :: "string \<Rightarrow> nat \<Rightarrow> nat" where
  "back_to_boundary s 0 = 0"
| "back_to_boundary s (Suc n) = (if is_cont (s ! Suc n) then back_to_boundary s n else Suc n)"

definition truncate_body :: "string \<Rightarrow> string" where
  "truncate_body body = (let trimmed = trim body in
     if length trimmed \<le> MAX_ERROR_BODY then trimmed else take (back_to_boundary trimmed MAX_ERROR_BODY) trimmed)"

section \<open>Calls\<close>

record am_call =
  cl_method :: http_method
  cl_path :: string
  cl_segment :: "string option"
  cl_query :: "(string \<times> string) list"
  cl_body :: "string option"

definition call_get :: "string \<Rightarrow> am_call" where
  "call_get path = \<lparr>cl_method = HttpGet, cl_path = path, cl_segment = None, cl_query = [], cl_body = None\<rparr>"

text \<open>The document as \<open>serde_json\<close> writes it, or why it does not.\<close>

definition call_post :: "string \<Rightarrow> string + string \<Rightarrow> am_error + am_call" where
  "call_post path document = (case document of Inl source \<Rightarrow> Inl (AmDecode (''cannot encode the request body: '' @ source))
     | Inr body \<Rightarrow> Inr \<lparr>cl_method = HttpPost, cl_path = path, cl_segment = None, cl_query = [], cl_body = Some body\<rparr>)"

definition call_delete :: "string \<Rightarrow> string \<Rightarrow> am_call" where
  "call_delete path segment =
     \<lparr>cl_method = HttpDelete, cl_path = path, cl_segment = Some segment, cl_query = [], cl_body = None\<rparr>"

definition with_slash :: "'u url_ops \<Rightarrow> 'u \<Rightarrow> 'u" where
  "with_slash uo endpoint = (if strip_suffix ''/'' (uo_path uo endpoint) \<noteq> None then endpoint
     else uo_set_path uo (uo_path uo endpoint @ ''/'') endpoint)"

definition call_url :: "'u url_ops \<Rightarrow> am_call \<Rightarrow> 'u \<Rightarrow> am_error + 'u" where
  "call_url uo c endpoint = (case uo_join uo (with_slash uo endpoint) (cl_path c) of
     Inl source \<Rightarrow> Inl (AmConfig (quoted (uo_text uo endpoint) @ '' is not a usable base URL: '' @ source))
   | Inr url \<Rightarrow> (case (case cl_segment c of None \<Rightarrow> Some url | Some segment \<Rightarrow> uo_push_segment uo segment url) of
       None \<Rightarrow> Inl (AmConfig (quoted (uo_text uo endpoint) @ '' cannot carry a path''))
     | Some url' \<Rightarrow> Inr (fold (\<lambda>(name, v). uo_append_pair uo name v) (cl_query c) url')))"

section \<open>Jitter\<close>

definition xorshift :: "64 word \<Rightarrow> 64 word" where
  "xorshift s = (let s1 = s XOR push_bit 13 s; s2 = s1 XOR drop_bit 7 s1 in s2 XOR push_bit 17 s2)"

text \<open>The seed: the nanoseconds of the wall clock's second, or a constant before the epoch.\<close>

definition jitter_seed :: "nat option \<Rightarrow> 64 word" where
  "jitter_seed subsec_nanos = (case subsec_nanos of Some n \<Rightarrow> of_nat n | None \<Rightarrow> 0x2545f4914f6cdd1d) OR 1"

text \<open>\<open>None\<close> is a panic: the remainder by \<open>ceiling + 1\<close>, which is zero in 64 bits for the greatest ceiling.\<close>

definition jitter_below :: "nat \<Rightarrow> 64 word \<Rightarrow> nat option \<times> 64 word" where
  "jitter_below ceiling j = (let s = xorshift j in
     (if (ceiling + 1) mod 2 ^ 64 = 0 then None else Some (unat s mod ((ceiling + 1) mod 2 ^ 64)), s))"

definition backoff_ms :: "schedule \<Rightarrow> 32 word \<Rightarrow> 64 word \<Rightarrow> nat option \<times> 64 word" where
  "backoff_ms sd attempt j = (let doublings = min (unat attempt - 1) 32; exponential = sat_mul_u64 (sd_initial_ms sd) (2 ^ doublings)
     in jitter_below (min exponential (sd_ceiling_ms sd)) j)"

section \<open>One request, one round, the loop\<close>

definition is_success :: "nat \<Rightarrow> bool" where
  "is_success status \<longleftrightarrow> 200 \<le> status \<and> status < 300"

definition elapsed_error :: "('u, 'w) web \<Rightarrow> nat \<Rightarrow> http_failure \<Rightarrow> 'w \<Rightarrow> (am_error + 'a) \<times> 'w" where
  "elapsed_error wb started f w = (let (t, w') = wb_now wb w in (Inl (transport_error f ((t - started) div nanos_per_ms)), w'))"

definition send_call :: "('u, 'w) web \<Rightarrow> 'u url_ops \<Rightarrow> 'u client \<Rightarrow> am_call \<Rightarrow> 'u \<Rightarrow> 'w \<Rightarrow> (am_error + string) \<times> 'w" where
  "send_call wb uo ct c endpoint w = (case call_url uo c endpoint of Inl e \<Rightarrow> (Inl e, w)
     | Inr url \<Rightarrow> let (started, w0) = wb_now wb w in
       case wb_send wb \<lparr>hq_method = cl_method c, hq_url = url, hq_auth = ct_auth ct, hq_json = cl_body c\<rparr> w0 of
         (Inl f, w1) \<Rightarrow> elapsed_error wb started f w1
       | (Inr status, w1) \<Rightarrow> (case wb_bytes wb w1 of
           (Inl f, w2) \<Rightarrow> elapsed_error wb started f w2
         | (Inr body, w2) \<Rightarrow> if is_success status then (Inr body, w2)
             else (Inl (AmStatus status (truncate_body (utf8_lossy body))), w2)))"

text \<open>Left: the call is over. Right: every endpoint failed in a way worth another try, the last one like this.\<close>

fun try_endpoints ::
  "('u, 'w) web \<Rightarrow> 'u url_ops \<Rightarrow> 'u client \<Rightarrow> am_call \<Rightarrow> 'u list \<Rightarrow> am_error option \<Rightarrow> 'w \<Rightarrow>
   ((am_error + string) + am_error option) \<times> 'w" where
  "try_endpoints wb uo ct c [] last_error w = (Inr last_error, w)"
| "try_endpoints wb uo ct c (endpoint # es) last_error w = (case send_call wb uo ct c endpoint w of
     (Inr body, w') \<Rightarrow> (Inl (Inr body), w')
   | (Inl e, w') \<Rightarrow> if \<not> am_is_retryable e then (Inl (Inl e), w') else try_endpoints wb uo ct c es (Some e) w')"

datatype 'a run = Returned 'a | Panicked

definition no_endpoint :: am_error where
  "no_endpoint = AmConfig ''no Alertmanager endpoint is configured''"

partial_function (option) retry_loop ::
  "('u, 'w) web \<Rightarrow> 'u url_ops \<Rightarrow> 'u client \<Rightarrow> am_call \<Rightarrow> nat \<Rightarrow> 32 word \<Rightarrow> 64 word \<Rightarrow> 'w \<Rightarrow>
   ((am_error + string) run \<times> 64 word \<times> 'w) option" where
  "retry_loop wb uo ct c deadline attempt j w = (case try_endpoints wb uo ct c (ct_endpoints ct) None w of
     (Inl r, w1) \<Rightarrow> Some (Returned r, j, w1)
   | (Inr None, w1) \<Rightarrow> Some (Returned (Inl no_endpoint), j, w1)
   | (Inr (Some e), w1) \<Rightarrow> (case backoff_ms (ct_retry ct) (attempt + 1) j of
       (None, j1) \<Rightarrow> Some (Panicked, j1, w1)
     | (Some wait_ms, j1) \<Rightarrow> (case wb_now wb w1 of (t, w2) \<Rightarrow>
         if wb_latest wb < t + wait_ms * nanos_per_ms then Some (Panicked, j1, w2)
         else if deadline \<le> t + wait_ms * nanos_per_ms then Some (Returned (Inl e), j1, w2)
         else retry_loop wb uo ct c deadline (attempt + 1) j1 (wb_sleep_ms wb wait_ms w2))))"

definition execute ::
  "('u, 'w) web \<Rightarrow> 'u url_ops \<Rightarrow> 'u client \<Rightarrow> am_call \<Rightarrow> 64 word \<times> 'w \<Rightarrow> ((am_error + string) run \<times> 64 word \<times> 'w) option" where
  "execute wb uo ct c = (\<lambda>(j, w). let (t, w0) = wb_now wb w; deadline = t + sd_budget_secs (ct_retry ct) * 1000 * nanos_per_ms in
     if wb_latest wb < deadline then Some (Panicked, j, w0) else retry_loop wb uo ct c deadline 0 j w0)"

section \<open>The operations of the interface\<close>

type_synonym ('w, 'a) api = "64 word \<times> 'w \<Rightarrow> ((am_error + 'a) run \<times> 64 word \<times> 'w) option"

definition api_bind :: "('w, 'a) api \<Rightarrow> ('a \<Rightarrow> ('w, 'b) api) \<Rightarrow> ('w, 'b) api" where
  "api_bind m f = (\<lambda>s. case m s of None \<Rightarrow> None | Some (r, s') \<Rightarrow> (case r of
     Panicked \<Rightarrow> Some (Panicked, s') | Returned (Inl e) \<Rightarrow> Some (Returned (Inl e), s') | Returned (Inr x) \<Rightarrow> f x s'))"

definition api_of :: "am_error + 'a \<Rightarrow> ('w, 'a) api" where
  "api_of r = (\<lambda>s. Some (Returned r, s))"

definition decode :: "(string \<Rightarrow> string + 'a) \<Rightarrow> string \<Rightarrow> am_error + 'a" where
  "decode from_json body = map_sum AmDecode id (from_json body)"

definition utc_now :: "('u, 'w) web \<Rightarrow> ('w, time) api" where
  "utc_now wb = (\<lambda>(j, w). let (t, w') = wb_utc wb w in Some (Returned (Inr t), j, w'))"

definition wired :: "wire_error + 'a \<Rightarrow> am_error + 'a" where
  "wired r = map_sum am_error_of_wire id r"

record am_json =
  aj_alerts :: "string \<Rightarrow> string + gettable_alert list"
  aj_silences :: "string \<Rightarrow> string + gettable_silence list"
  aj_created :: "string \<Rightarrow> string + silence_created"
  aj_status :: "string \<Rightarrow> string + alertmanager_status"
  aj_receivers :: "string \<Rightarrow> string + wire_receiver list"
  aj_postable :: "postable_silence \<Rightarrow> string + string"

definition bool_str :: "bool \<Rightarrow> string" where
  "bool_str b = (if b then ''true'' else ''false'')"

definition list_alerts :: "('u, 'w) web \<Rightarrow> 'u url_ops \<Rightarrow> am_json \<Rightarrow> 'u client \<Rightarrow> alert_filter \<Rightarrow> ('w, alert list) api" where
  "list_alerts wb uo aj ct f =
     api_bind (execute wb uo ct ((call_get ''api/v2/alerts'')\<lparr>cl_query :=
       [(''active'', bool_str (af_active f)), (''silenced'', bool_str (af_silenced f)), (''inhibited'', bool_str (af_inhibited f)),
        (''unprocessed'', bool_str (af_unprocessed f))] @ map (Pair ''filter'') (af_matchers f)\<rparr>)) (\<lambda>body.
     api_bind (api_of (decode (aj_alerts aj) body)) (\<lambda>wire.
     api_bind (utc_now wb) (\<lambda>now. api_of (wired (convert_all (gettable_into_core now) wire)))))"

definition list_silences ::
  "('u, 'w) web \<Rightarrow> 'u url_ops \<Rightarrow> am_json \<Rightarrow> regex_engine \<Rightarrow> 'u client \<Rightarrow> string list \<Rightarrow> ('w, silence_record list) api" where
  "list_silences wb uo aj rx ct matchers =
     api_bind (execute wb uo ct ((call_get ''api/v2/silences'')\<lparr>cl_query := map (Pair ''filter'') matchers\<rparr>)) (\<lambda>body.
     api_bind (api_of (decode (aj_silences aj) body)) (\<lambda>wire. api_of (wired (convert_all (into_record rx) wire))))"

definition upsert_silence :: "('u, 'w) web \<Rightarrow> 'u url_ops \<Rightarrow> am_json \<Rightarrow> 'u client \<Rightarrow> silence_request \<Rightarrow> ('w, string) api" where
  "upsert_silence wb uo aj ct request =
     api_bind (api_of (call_post ''api/v2/silences'' (aj_postable aj (from_request request)))) (\<lambda>c.
     api_bind (execute wb uo ct c) (\<lambda>body.
     api_bind (api_of (decode (aj_created aj) body)) (\<lambda>created. api_of (Inr (sc_silence_id created)))))"

definition expire_silence :: "('u, 'w) web \<Rightarrow> 'u url_ops \<Rightarrow> 'u client \<Rightarrow> string \<Rightarrow> ('w, unit) api" where
  "expire_silence wb uo ct i = api_bind (execute wb uo ct (call_delete ''api/v2/silence'' i)) (\<lambda>_. api_of (Inr ()))"

definition server_status :: "('u, 'w) web \<Rightarrow> 'u url_ops \<Rightarrow> am_json \<Rightarrow> 'u client \<Rightarrow> ('w, am_status) api" where
  "server_status wb uo aj ct = api_bind (execute wb uo ct (call_get ''api/v2/status'')) (\<lambda>body.
     api_bind (api_of (decode (aj_status aj) body)) (\<lambda>wire. api_of (Inr (into_status wire))))"

definition receivers :: "('u, 'w) web \<Rightarrow> 'u url_ops \<Rightarrow> am_json \<Rightarrow> 'u client \<Rightarrow> ('w, am_receiver list) api" where
  "receivers wb uo aj ct = api_bind (execute wb uo ct (call_get ''api/v2/receivers'')) (\<lambda>body.
     api_bind (api_of (decode (aj_receivers aj) body)) (\<lambda>wire. api_of (Inr (map receiver_of_wire wire))))"

section \<open>What a call comes to\<close>

lemma back_to_boundary_bound: "back_to_boundary s n \<le> n" "0 < back_to_boundary s n \<Longrightarrow> \<not> is_cont (s ! back_to_boundary s n)"
  by (induction n) auto

lemma truncate_body_short: "length (truncate_body body) \<le> MAX_ERROR_BODY"
  using back_to_boundary_bound(1) [of "trim body" MAX_ERROR_BODY] by (auto simp: truncate_body_def Let_def)

lemma jitter_below_bound: "jitter_below ceiling j = (Some ms, j') \<Longrightarrow> ms \<le> ceiling"
proof -
  assume a: "jitter_below ceiling j = (Some ms, j')"
  then have nz: "(ceiling + 1) mod 2 ^ 64 \<noteq> 0" and "ms = unat (xorshift j) mod ((ceiling + 1) mod 2 ^ 64)"
    by (auto simp: jitter_below_def Let_def split: if_splits)
  then have "ms < (ceiling + 1) mod 2 ^ 64" by (metis mod_less_divisor neq0_conv)
  also have "\<dots> \<le> ceiling + 1" by (rule mod_less_eq_dividend)
  finally show ?thesis by simp
qed

lemma jitter_below_panics: "ceiling \<le> U64_MAX \<Longrightarrow> fst (jitter_below ceiling j) = None \<longleftrightarrow> ceiling = U64_MAX"
proof -
  assume "ceiling \<le> U64_MAX"
  then have "(ceiling + 1) mod 2 ^ 64 = 0 \<longleftrightarrow> ceiling = U64_MAX"
    by (cases "ceiling = U64_MAX") (auto simp: U64_MAX_def)
  then show ?thesis by (simp add: jitter_below_def Let_def)
qed

lemma backoff_bound: "backoff_ms sd attempt j = (Some ms, j') \<Longrightarrow> ms \<le> sd_ceiling_ms sd"
  by (auto simp: backoff_ms_def Let_def dest: jitter_below_bound)

lemma jitter_below_answers: "ceiling < U64_MAX \<Longrightarrow> \<exists>ms j'. jitter_below ceiling j = (Some ms, j')"
  using jitter_below_panics [of ceiling j] by (cases "jitter_below ceiling j") auto

lemma backoff_answers: "sd_ceiling_ms sd < U64_MAX \<Longrightarrow> \<exists>ms j'. backoff_ms sd attempt j = (Some ms, j')"
  unfolding backoff_ms_def Let_def by (rule jitter_below_answers) simp

lemma try_endpoints_append:
  "try_endpoints wb uo ct c (es @ es') l w = (case try_endpoints wb uo ct c es l w of (Inl r, w') \<Rightarrow> (Inl r, w')
     | (Inr l', w') \<Rightarrow> try_endpoints wb uo ct c es' l' w')"
  by (induction es arbitrary: l w) (auto split: sum.splits prod.splits)

lemma try_endpoints_last:
  "try_endpoints wb uo ct c es l w = (Inr l', w') \<Longrightarrow> (\<exists>e. l' = Some e \<and> am_is_retryable e) \<or> es = [] \<and> l' = l"
proof (induction es arbitrary: l w)
  case (Cons endpoint es)
  then obtain e w1 where "send_call wb uo ct c endpoint w = (Inl e, w1)" "am_is_retryable e"
    "try_endpoints wb uo ct c es (Some e) w1 = (Inr l', w')"
    by (auto split: prod.splits sum.splits if_splits)
  with Cons.IH [OF this(3)] show ?case by auto
qed simp

section \<open>A clock that moves\<close>

text \<open>What \<open>Instant\<close> and the timer document, and that a request takes time.\<close>

abbreviation now_of :: "('u, 'w) web \<Rightarrow> 'w \<Rightarrow> nat" where
  "now_of wb w \<equiv> fst (wb_now wb w)"

definition clock_moves :: "('u, 'w) web \<Rightarrow> bool" where
  "clock_moves wb \<longleftrightarrow> (\<forall>w. now_of wb w \<le> now_of wb (snd (wb_now wb w))) \<and> (\<forall>q w. now_of wb w < now_of wb (snd (wb_send wb q w))) \<and>
     (\<forall>w. now_of wb w \<le> now_of wb (snd (wb_bytes wb w))) \<and>
     (\<forall>n w. now_of wb w + n * nanos_per_ms \<le> now_of wb (wb_sleep_ms wb n w))"

lemma clock_movesD:
  assumes "clock_moves wb"
  shows "now_of wb w \<le> now_of wb (snd (wb_now wb w))" "now_of wb w < now_of wb (snd (wb_send wb q w))"
    "now_of wb w \<le> now_of wb (snd (wb_bytes wb w))" "now_of wb w + n * nanos_per_ms \<le> now_of wb (wb_sleep_ms wb n w)"
  using assms by (auto simp: clock_moves_def)

lemma send_takes_time:
  assumes "clock_moves wb" "call_url uo c endpoint = Inr url"
  shows "now_of wb w < now_of wb (snd (send_call wb uo ct c endpoint w))"
proof -
  define q where "q = \<lparr>hq_method = cl_method c, hq_url = url, hq_auth = ct_auth ct, hq_json = cl_body c\<rparr>"
  define w0 where "w0 = snd (wb_now wb w)"
  define w1 where "w1 = snd (wb_send wb q w0)"
  define w2 where "w2 = snd (wb_bytes wb w1)"
  note moves = clock_movesD [OF assms(1)]
  have "now_of wb w \<le> now_of wb w0" by (simp add: w0_def moves(1))
  moreover have "now_of wb w0 < now_of wb w1" by (simp add: w1_def moves(2))
  moreover have "now_of wb w1 \<le> now_of wb w2" by (simp add: w2_def moves(3))
  moreover have "snd (send_call wb uo ct c endpoint w) \<in> {w2, snd (wb_now wb w1), snd (wb_now wb w2)}"
    by (simp add: send_call_def assms(2) elapsed_error_def q_def w0_def w1_def w2_def Let_def split: prod.split sum.split)
  ultimately show ?thesis using moves(1) [of w1] moves(1) [of w2] by auto
qed

lemma send_moves:
  assumes "clock_moves wb"
  shows "now_of wb w \<le> now_of wb (snd (send_call wb uo ct c endpoint w))"
proof (cases "call_url uo c endpoint")
  case (Inl e)
  then show ?thesis by (simp add: send_call_def)
next
  case (Inr url)
  from send_takes_time [OF assms this] show ?thesis by (simp add: less_imp_le)
qed

lemma url_error_final: "call_url uo c endpoint = Inl e \<Longrightarrow> \<not> am_is_retryable e"
  by (auto simp: call_url_def split: sum.splits option.splits)

lemma round_moves:
  assumes "clock_moves wb"
  shows "now_of wb w \<le> now_of wb (snd (try_endpoints wb uo ct c es l w))"
proof (induction es arbitrary: l w)
  case (Cons endpoint es)
  have "now_of wb w \<le> now_of wb (snd (send_call wb uo ct c endpoint w))" by (rule send_moves [OF assms])
  then show ?case using order_trans [OF _ Cons.IH] by (auto split: prod.split sum.split)
qed simp

text \<open>A round that ends in another try has sent something.\<close>

lemma round_takes_time:
  assumes "clock_moves wb" "try_endpoints wb uo ct c es None w = (Inr (Some e), w')"
  shows "now_of wb w < now_of wb w'"
proof (cases es)
  case Nil
  with assms(2) show ?thesis by simp
next
  case (Cons endpoint es')
  with assms(2) obtain e1 w1 where send: "send_call wb uo ct c endpoint w = (Inl e1, w1)" "am_is_retryable e1"
    and rest: "try_endpoints wb uo ct c es' (Some e1) w1 = (Inr (Some e), w')"
    by (auto split: prod.splits sum.splits if_splits)
  then obtain url where "call_url uo c endpoint = Inr url"
    using url_error_final [of uo c endpoint] by (cases "call_url uo c endpoint") (auto simp: send_call_def)
  from send_takes_time [OF assms(1) this, of w ct] have "now_of wb w < now_of wb w1" by (simp add: send(1))
  also have "\<dots> \<le> now_of wb w'" using round_moves [OF assms(1), of w1 uo ct c es' "Some e1"] rest by simp
  finally show ?thesis .
qed

text \<open>How a call ends: with the last round's answer or refusal, or with its last failure once waiting would outlast the budget.\<close>

definition ends_call :: "('u, 'w) web \<Rightarrow> 'u url_ops \<Rightarrow> 'u client \<Rightarrow> am_call \<Rightarrow> 'w \<Rightarrow> (am_error + string) run \<Rightarrow> bool" where
  "ends_call wb uo ct c w r = (case try_endpoints wb uo ct c (ct_endpoints ct) None w of
     (Inl x, _) \<Rightarrow> r = Returned x
   | (Inr None, _) \<Rightarrow> r = Returned (Inl no_endpoint)
   | (Inr (Some e), w') \<Rightarrow> r = Returned (Inl e) \<and> am_is_retryable e \<or>
       r = Panicked \<and> wb_latest wb < now_of wb w' + sd_ceiling_ms (ct_retry ct) * nanos_per_ms)"

text \<open>The world a further round starts in: after a wait that was to end before the deadline.\<close>

definition waited :: "('u, 'w) web \<Rightarrow> nat \<Rightarrow> 'w \<Rightarrow> bool" where
  "waited wb deadline w \<longleftrightarrow> (\<exists>ms v. w = wb_sleep_ms wb ms (snd (wb_now wb v)) \<and> now_of wb v + ms * nanos_per_ms < deadline)"

lemma retry_loop_returns:
  assumes "clock_moves wb" "sd_ceiling_ms (ct_retry ct) < U64_MAX"
  shows "\<exists>r j' w' w1. retry_loop wb uo ct c deadline attempt j w = Some (r, j', w') \<and> (w1 = w \<or> waited wb deadline w1) \<and>
    ends_call wb uo ct c w1 r"
proof (induction "deadline - now_of wb w" arbitrary: attempt j w rule: less_induct)
  case less
  obtain tried w1 where round: "try_endpoints wb uo ct c (ct_endpoints ct) None w = (tried, w1)"
    by (cases "try_endpoints wb uo ct c (ct_endpoints ct) None w")
  show ?case
  proof (cases "\<exists>e. tried = Inr (Some e)")
    case False
    then show ?thesis using round
      by (subst retry_loop.simps) (auto simp: ends_call_def split: sum.split option.split intro!: exI [of _ w])
  next
    case True
    then obtain e where e: "tried = Inr (Some e)" by blast
    have retry: "am_is_retryable e" using try_endpoints_last [of wb uo ct c "ct_endpoints ct" None w "Some e" w1] round e by auto
    obtain ms j1 where wait: "backoff_ms (ct_retry ct) (attempt + 1) j = (Some ms, j1)"
      using backoff_answers [OF assms(2)] by blast
    obtain t w2 where now: "wb_now wb w1 = (t, w2)" by (cases "wb_now wb w1")
    have early: "now_of wb w < t" using round_takes_time [OF assms(1), of uo ct c "ct_endpoints ct" w e w1] round e now by simp
    let ?until = "t + ms * nanos_per_ms"
    consider "wb_latest wb < ?until \<or> deadline \<le> ?until" | "\<not> wb_latest wb < ?until" "?until < deadline" by linarith
    then show ?thesis
    proof cases
      case 1
      have "ms * nanos_per_ms \<le> sd_ceiling_ms (ct_retry ct) * nanos_per_ms"
        by (rule mult_right_mono [OF backoff_bound [OF wait]]) simp
      then have "wb_latest wb < ?until \<Longrightarrow> wb_latest wb < t + sd_ceiling_ms (ct_retry ct) * nanos_per_ms" by linarith
      with 1 show ?thesis using round e wait now retry
        by (subst retry_loop.simps) (auto simp: ends_call_def intro!: exI [of _ w])
    next
      case 2
      let ?w = "wb_sleep_ms wb ms w2"
      have "t \<le> now_of wb w2" using clock_movesD(1) [OF assms(1), of w1] now by simp
      then have slept: "?until \<le> now_of wb ?w" using clock_movesD(4) [OF assms(1), of w2 ms] by linarith
      have "deadline - now_of wb ?w < deadline - now_of wb w" using slept early 2(2) by simp
      from less [OF this, of "attempt + 1" j1] obtain r j' w' w3
        where "retry_loop wb uo ct c deadline (attempt + 1) j1 ?w = Some (r, j', w')" "w3 = ?w \<or> waited wb deadline w3"
          "ends_call wb uo ct c w3 r" by blast
      moreover have "waited wb deadline ?w" unfolding waited_def by (intro exI [of _ ms] exI [of _ w1]) (use now 2 in simp)
      ultimately show ?thesis using 2 round e wait now
        by (subst retry_loop.simps) auto
    qed
  qed
qed

end
