(* ===== verification/Wire_Facts.thy ===== *)
theory Wire_Facts
  imports Service_Facts Ingest_Router Am_Client
begin

text \<open>
  The types of the stored alerts. The process learns of alerts from documents only: the webhook's and the poll's. The
  relation \<open>wire_step\<close> is the running process with its alerts taken from documents; whatever the conversion guarantees of
  an alert, and the store's own bookkeeping does not touch, holds of every stored alert. The locale states that once
  for any such property of alerts.
\<close>

section \<open>Properties the store's bookkeeping keeps\<close>

text \<open>The alerts a call brings.\<close>

fun call_alerts :: "store_call \<Rightarrow> alert list" where
  "call_alerts (CallIngest rg ps b) = ib_alerts b"
| "call_alerts _ = []"

text \<open>
  The store changes three things of an alert it holds: the group key it carries over, the silences a sync finds and the
  resolution the reconciler decides on.
\<close>

locale alert_property =
  fixes ok :: "alert \<Rightarrow> bool"
  assumes grouped: "ok a \<Longrightarrow> ok (a\<lparr>al_group_key := g\<rparr>)"
    and silenced: "ok a \<Longrightarrow> ok (a\<lparr>al_silenced_by := ids, al_am_state := m\<rparr>)"
    and settled: "ok a \<Longrightarrow> ok (a\<lparr>al_status := s, al_ends_at := e\<rparr>)"
begin

definition rows_ok :: "db \<Rightarrow> bool" where
  "rows_ok db \<longleftrightarrow> (\<forall>r \<in> set (db_alerts db). ok (ar_alert r))"

lemma rows_okD: "rows_ok db \<Longrightarrow> r \<in> set (db_alerts db) \<Longrightarrow> ok (ar_alert r)"
  by (simp add: rows_ok_def)

lemma rows_frame: "alert_tables db' = alert_tables db \<Longrightarrow> rows_ok db' = rows_ok db"
  by (simp add: rows_ok_def)

lemma incoming_ok: "ok a \<Longrightarrow> ok (carry_over p (batch_alert b a))"
  by (auto simp: carry_over_def batch_alert_def split: option.splits intro: grouped)

lemma one_ok:
  assumes "ingest_one rg ps b a out db = Inr (out', db')" "rows_ok db" "ok a"
  shows "rows_ok db'"
proof -
  let ?p = "read_alert (al_fingerprint a) db"
  let ?a = "carry_over ?p (batch_alert b a)"
  show ?thesis
  proof (cases "classify ?p ?a (ib_received_at b) rg")
    case None
    with assms(1) have "touch_alert (al_fingerprint ?a) (ib_received_at b) db = Inr ((), db')"
      by (auto simp: ingest_one_def Let_def tx_bind_Inr_iff)
    with assms(2) show ?thesis by (auto simp: touch_alert_def rows_ok_def set_update_where)
  next
    case (Some tn)
    with assms(1) obtain x y db1 where 1: "upsert_alert ?a tn (ib_received_at b) db = Inr (x, db1)"
      "(if ps then append_event ?a ?p tn (ib_source b) (ib_received_at b) else tx_ret ()) db1 = Inr (y, db')"
      by (auto simp: ingest_one_def Let_def tx_bind_Inr_iff)
    have "db_alerts db' = db_alerts db1" using 1(2) append_event_frame by (cases ps) fastforce+
    moreover have "rows_ok db1" using 1(1) assms(2) incoming_ok [OF assms(3), of ?p b]
      by (auto simp: upsert_alert_def rows_ok_def set_update_where Let_def split: if_splits)
    ultimately show ?thesis by (simp add: rows_ok_def)
  qed
qed

lemma all_ok: "ingest_all rg ps b as out db = Inr (out', db') \<Longrightarrow> rows_ok db \<Longrightarrow> \<forall>a \<in> set as. ok a \<Longrightarrow> rows_ok db'"
  by (induction as arbitrary: out db) (auto simp: tx_bind_Inr_iff dest: one_ok)

lemma batch_ok: "rows_ok db \<Longrightarrow> \<forall>a \<in> set (ib_alerts b). ok a \<Longrightarrow> rows_ok (snd (ingest_batch rg ps b db))"
  using all_ok [of rg ps b "ib_alerts b" "\<lparr>io_deltas = [], io_duplicates = 0\<rparr>" db]
  by (auto simp: ingest_batch_def run_tx_def split: sum.splits)

lemma deltas_ok: "rows_ok (pl_db (snd (apply_deltas from_ts cf sn deltas now pl))) = rows_ok (pl_db pl)"
  by (rule rows_frame) (rule apply_deltas_alerts)

lemma sync_fold_ok: "fold (sync_one desired now) rs (db, ds) = (db', ds') \<Longrightarrow> rows_ok db \<Longrightarrow> rows_ok db'"
proof (induction rs arbitrary: db ds)
  case (Cons r rs)
  obtain db1 ds1 where 1: "sync_one desired now r (db, ds) = (db1, ds1)" by fastforce
  with Cons.prems(2) have "rows_ok db1"
    by (auto simp: sync_one_def Let_def rows_ok_def set_update_where silenced split: if_splits)
  with Cons.IH [of db1 ds1] Cons.prems(1) 1 show ?case by simp
qed simp

lemma sync_ok: "rows_ok db \<Longrightarrow> rows_ok (snd (sync_silences snap now db))"
proof -
  assume ok: "rows_ok db"
  let ?db1 = "db\<lparr>db_silences := sync_links snap now (db_silences db)\<rparr>"
  obtain db' ds where 1: "fold (sync_one (suppression_map snap) now) (sync_candidates (suppression_map snap) ?db1) (?db1, []) = (db', ds)"
    by fastforce
  have "rows_ok ?db1" using ok by (simp add: rows_ok_def)
  from sync_fold_ok [OF 1 this] show ?thesis using 1 by (simp add: sync_silences_def run_tx_def Let_def)
qed

lemma prune_ok: "rows_ok db \<Longrightarrow> rows_ok (snd (prune p now db))"
  using set_delete_rows [of "resolved_before (now - rp_resolved p)" row_fingerprint "rp_batch_limit p" "db_alerts db"]
  by (auto simp: prune_def prune_tx_def run_tx_def Let_def rows_ok_def split_beta)

lemma call_rows_ok:
  assumes "rows_ok db" "\<forall>a \<in> set (call_alerts c). ok a"
  shows "rows_ok (run_call c db)"
proof (cases c)
  case (CallIngest rg ps b)
  with assms show ?thesis by (simp add: batch_ok)
next
  case (CallDecision d)
  have "alert_tables (snd (apply_decision d db)) = alert_tables db"
    unfolding apply_decision_def by (rule frames_run [OF apply_decision_alerts])
  from rows_frame [OF this] CallDecision assms(1) show ?thesis by simp
next
  case (CallAcknowledge a)
  have "alert_tables (snd (acknowledge a db)) = alert_tables db"
    unfolding acknowledge_def by (rule frames_run [OF acknowledge_frames(1)])
  from rows_frame [OF this] CallAcknowledge assms(1) show ?thesis by simp
next
  case (CallEnqueue items at)
  have "alert_tables (snd (enqueue_effects items at db)) = alert_tables db"
    unfolding enqueue_effects_def by (intro frames_run frames_each enqueue_frames)
  from rows_frame [OF this] CallEnqueue assms(1) show ?thesis by simp
next
  case (CallClaim w req now)
  from rows_frame [OF claim_frame(1)] CallClaim assms(1) show ?thesis by simp
next
  case (CallComplete w i a now)
  from rows_frame [OF complete_alerts] CallComplete assms(1) show ?thesis by simp
next
  case (CallFail w i err retry)
  from rows_frame [OF fail_frame(1)] CallFail assms(1) show ?thesis by simp
next
  case (CallReclaim older now)
  from rows_frame [OF reclaim_frame(1)] CallReclaim assms(1) show ?thesis by simp
next
  case (CallReply r)
  from rows_frame [OF reply_frame(1)] CallReply assms(1) show ?thesis by simp
next
  case (CallOrphan i now)
  then show ?thesis using assms(1) rows_frame [OF card_update_frame(1)] by (auto simp: orphan_notification_def)
next
  case (CallSetState i s now)
  then show ?thesis using assms(1) rows_frame [OF card_update_frame(1)] by (auto simp: set_notification_state_def move_state_def)
next
  case (CallEscalated i at)
  from rows_frame [OF mark_frame(1)] CallEscalated assms(1) show ?thesis by simp
next
  case (CallSyncSilences snap now)
  with assms(1) show ?thesis by (simp add: sync_ok)
next
  case (CallRecordSilence l)
  have "alert_tables (snd (record_silence l db)) = alert_tables db"
    unfolding record_silence_def by (rule frames_run [OF write_silence_frames(1)])
  from rows_frame [OF this] CallRecordSilence assms(1) show ?thesis by simp
next
  case (CallAudit entry)
  with assms(1) show ?thesis by (simp add: append_audit_def run_tx_def rows_ok_def)
next
  case (CallPrune p now)
  with assms(1) show ?thesis by (simp add: prune_ok)
qed

lemma ingest_rows_ok: "rows_ok (pl_db pl) \<Longrightarrow> \<forall>a \<in> set (ib_alerts b). ok a \<Longrightarrow> rows_ok (pl_db (snd (ingest from_ts cf sn b now pl)))"
proof -
  assume ok: "rows_ok (pl_db pl)" "\<forall>a \<in> set (ib_alerts b). ok a"
  obtain out db' where 1: "ingest_batch (cf_regroup cf) (cf_persist_events cf) b (pl_db pl) = (Inr out, db')"
    using ingest_batch_total by blast
  with batch_ok [OF ok] have "rows_ok db'" by (metis snd_conv)
  then have "rows_ok (pl_db (snd (apply_deltas from_ts cf sn (io_deltas out) now (pl\<lparr>pl_last_webhook := timestamp (ib_received_at b), pl_db := db'\<rparr>))))"
    by (simp add: deltas_ok)
  then show ?thesis using 1 by (auto simp: ingest_def Let_def split: prod.split sum.split)
qed

lemma say_rows_ok: "rows_ok (pl_db (say cf text due at pl)) = rows_ok (pl_db pl)"
proof (cases "cf_admin cf")
  case (Some channel)
  have "alert_tables (snd (enqueue_effects items at db)) = alert_tables db" for items db
    unfolding enqueue_effects_def by (intro frames_run frames_each enqueue_frames)
  from rows_frame [OF this] show ?thesis by (simp add: say_def Some)
qed (simp add: say_def)

lemma say_once_rows_ok: "rows_ok (pl_db (say_once cf key text due at pl)) = rows_ok (pl_db pl)"
  by (simp add: say_once_def say_rows_ok)

lemma deadman_rows_ok: "rows_ok (pl_db (check_deadman from_ts cf up now due at pl)) = rows_ok (pl_db pl)"
  by (simp add: check_deadman_def say_once_rows_ok)

lemma reconcile_batch_rows_ok:
  "rows_ok (pl_db pl) \<Longrightarrow> \<forall>a \<in> set as. ok a \<Longrightarrow> rows_ok (pl_db (reconcile_batch from_ts cf sn as started at pl))"
  using batch_ok [of "pl_db pl" "new_batch SReconciler as started" "cf_regroup cf" "cf_persist_events cf"]
    rows_frame [OF reconcile_batch_alerts [of from_ts cf sn as started at pl]] by simp

lemma resolve_missing_rows_ok:
  assumes "rows_ok (pl_db pl)"
  shows "rows_ok (pl_db (snd (resolve_missing from_ts cf sn present now at pl)))"
proof (cases "missing_since from_ts present pl = []")
  case True
  then show ?thesis using assms by (simp add: resolve_missing_none)
next
  case False
  then obtain out db' where 1:
    "ingest_batch (cf_regroup cf) (cf_persist_events cf) (resolving_batch from_ts present now pl) (pl_db pl) = (Inr out, db')"
    "resolve_missing from_ts cf sn present now at pl = apply_deltas from_ts cf sn (io_deltas out) at (pl\<lparr>pl_db := db'\<rparr>)"
    by (rule resolve_missing_some)
  have "set (missing_since from_ts present pl) \<subseteq> set (db_alerts (pl_db pl))"
    by (auto simp: missing_since_def firing_not_in_def split: option.splits if_splits)
  then have "\<forall>a \<in> set (ib_alerts (resolving_batch from_ts present now pl)). ok a"
    using rows_okD [OF assms] by (auto simp: as_resolved_def intro!: settled)
  from batch_ok [OF assms this, of "cf_regroup cf" "cf_persist_events cf"] 1 show ?thesis by (simp add: deltas_ok)
qed

lemma reconcile_rows_ok:
  assumes "rows_ok (pl_db pl)" "\<And>as. answer = Inr as \<Longrightarrow> \<forall>a \<in> set as. ok a"
  shows "rows_ok (pl_db (snd (reconcile from_ts cf sn answer clock pl)))"
proof (cases answer)
  case (Inl e)
  with assms(1) show ?thesis by (simp add: reconcile_def deadman_rows_ok)
next
  case (Inr as)
  with assms show ?thesis
    by (simp add: reconcile_def Let_def move_polls_def resolve_missing_rows_ok reconcile_batch_rows_ok deadman_rows_ok)
qed

lemma sync_service_rows_ok: "rows_ok (pl_db pl) \<Longrightarrow> rows_ok (pl_db (snd (sync_service from_ts cf sn sils answer clock pl)))"
proof (cases "\<exists>ss as. sils = Inr ss \<and> answer = Inr as")
  case True
  then obtain ss as where 1: "sils = Inr ss" "answer = Inr as" by blast
  assume "rows_ok (pl_db pl)"
  then have "rows_ok (snd (sync_silences snap now (pl_db pl)))" for snap now by (rule sync_ok)
  from this [of "map (observed_silence as (clock 0)) ss" "clock 0"] show ?thesis
    by (auto simp: sync_service_def 1 deltas_ok split: prod.split sum.split)
next
  case False
  then show "rows_ok (pl_db pl) \<Longrightarrow> ?thesis" by (auto simp: sync_service_def split: sum.split)
qed

lemma escalate_cards_alerts: "alert_tables (snd (escalate_cards sn now cds n db)) = alert_tables db"
proof (induction sn now cds n db rule: escalate_cards.induct)
  case (2 sn now cd cds n db)
  have q: "alert_tables (snd (enqueue_effects items at db)) = alert_tables db" for items at db
    unfolding enqueue_effects_def by (intro frames_run frames_each enqueue_frames)
  show ?case
  proof (cases "overdue_policy sn now cd")
    case None
    then show ?thesis using 2(1) by simp
  next
    case (Some policy)
    obtain m db1 where 1: "mark_escalated (n_id cd) now db = (m, db1)" by fastforce
    obtain r db2 where e: "enqueue_effects [outbox_now (Escalate (n_id cd) (es_roles policy) (es_users policy)) (n_dedupe_key cd) now] now db1 = (r, db2)"
      by fastforce
    have "alert_tables db1 = alert_tables db" using mark_frame(1) [of "n_id cd" now db] 1 by simp
    moreover have "alert_tables db2 = alert_tables db1" using q [of _ now db1] e by (metis snd_conv)
    ultimately show ?thesis using 2(2,3) Some 1 e by (auto split: sum.split bool.split)
  qed
qed simp

lemma escalate_rows_ok: "rows_ok (snd (escalate earliest sn now db)) = rows_ok db"
proof (rule rows_frame)
  show "alert_tables (snd (escalate earliest sn now db)) = alert_tables db"
    using escalate_cards_alerts by (auto simp: escalate_def Let_def split: prod.split) (metis prod.inject snd_conv)+
qed

end

text \<open>What a document guarantees is such a property.\<close>

interpretation typed: alert_property alert_wf
  by unfold_locales (simp_all add: alert_wf_def)

section \<open>The process fed by documents\<close>

inductive wire_step :: "from_timestamp \<Rightarrow> service_config \<Rightarrow> pipeline \<Rightarrow> pipeline \<Rightarrow> bool"
  for from_ts cf where
  request: "wire_step from_ts cf pl (snd (serve_webhook ap from_json from_ts cf sn authorization body clock pl))"
| poll: "wire_step from_ts cf pl (snd (reconcile from_ts cf sn (wired (convert_all (gettable_into_core at) docs)) clock pl))"
| missed: "wire_step from_ts cf pl (snd (reconcile from_ts cf sn (Inl e) clock pl))"
| sync: "wire_step from_ts cf pl (snd (sync_service from_ts cf sn sils answer clock pl))"
| sweep: "wire_step from_ts cf pl (pl\<lparr>pl_db := snd (escalate earliest sn now (pl_db pl))\<rparr>)"
| janitor: "wire_step from_ts cf pl (pl\<lparr>pl_db := snd (reclaim_leases cf now (pl_db pl))\<rparr>)"
| call: "call_ok c \<Longrightarrow> call_alerts c = [] \<Longrightarrow> wire_step from_ts cf pl (pl\<lparr>pl_db := run_call c (pl_db pl)\<rparr>)"
| notice: "wire_step from_ts cf pl (say_once cf key txt due at pl)"

inductive_cases wire_stepE: "wire_step from_ts cf pl pl'"

lemma serve_cases:
  "snd (serve_webhook ap from_json from_ts cf sn au body clock pl) = pl \<or>
   (\<exists>p as. into_alerts p = Inr as \<and>
      snd (serve_webhook ap from_json from_ts cf sn au body clock pl) = snd (ingest from_ts cf sn (webhook_batch p as (clock 0)) (clock 1) pl))"
proof (cases "authorised ap au")
  case False
  then show ?thesis by (simp add: serve_refused)
next
  case True
  then show ?thesis
    by (auto simp: serve_authorised ingest_webhook_def split: sum.split prod.split) (metis snd_conv)+
qed

text \<open>It is a run of the process of the service's theory.\<close>

lemma wire_step_pipeline: "wire_step from_ts cf pl pl' \<Longrightarrow> pl' = pl \<or> pipeline_step from_ts cf pl pl'"
proof (erule wire_stepE)
  fix ap from_json sn au body clock
  assume "pl' = snd (serve_webhook ap from_json from_ts cf sn au body clock pl)"
  with serve_cases [of ap from_json from_ts cf sn au body clock pl] show ?thesis by (auto intro: pipeline_step.webhook)
qed (auto intro: pipeline_step.intros)

lemma list_all2_all_set: "list_all2 P xs ys \<Longrightarrow> y \<in> set ys \<Longrightarrow> \<exists>x \<in> set xs. P x y"
  by (induction rule: list_all2_induct) auto

lemma wired_Inr: "wired (convert_all f docs) = Inr as \<Longrightarrow> \<forall>a \<in> set as. \<exists>d \<in> set docs. f d = Inr a"
  by (cases "convert_all f docs") (auto simp: wired_def convert_all_Inr_iff dest: list_all2_all_set)

lemma wire_step_typed:
  assumes "wire_step from_ts cf pl pl'" "typed.rows_ok (pl_db pl)"
  shows "typed.rows_ok (pl_db pl')"
  using assms(1)
proof (rule wire_stepE)
  fix ap from_json sn au body clock
  assume "pl' = snd (serve_webhook ap from_json from_ts cf sn au body clock pl)"
  with serve_cases [of ap from_json from_ts cf sn au body clock pl] assms(2) show ?thesis
    by (auto intro!: typed.ingest_rows_ok simp: webhook_batch_def into_alerts_wf)
next
  fix sn at docs clock
  assume "pl' = snd (reconcile from_ts cf sn (wired (convert_all (gettable_into_core at) docs)) clock pl)"
  then show ?thesis
    using typed.reconcile_rows_ok [OF assms(2)] by (metis wired_Inr gettable_wf(1))
next
  fix now
  assume "pl' = pl\<lparr>pl_db := snd (reclaim_leases cf now (pl_db pl))\<rparr>"
  then show ?thesis using assms(2) typed.rows_frame [OF reclaim_frame(1)] by (simp add: reclaim_leases_def)
qed (use assms(2) in \<open>auto simp: typed.say_once_rows_ok typed.escalate_rows_ok intro: typed.reconcile_rows_ok
    typed.sync_service_rows_ok typed.call_rows_ok\<close>)

definition wire_reachable :: "from_timestamp \<Rightarrow> service_config \<Rightarrow> storm_counter \<Rightarrow> storm_state \<Rightarrow> pipeline \<Rightarrow> bool" where
  "wire_reachable from_ts cf counter storm pl \<longleftrightarrow> (wire_step from_ts cf)\<^sup>*\<^sup>* (start_pipeline empty_db counter storm) pl"

lemma wire_reachable_reachable: "wire_reachable from_ts cf counter storm pl \<Longrightarrow> reachable from_ts cf counter storm pl"
  unfolding wire_reachable_def reachable_def
proof (induction rule: rtranclp_induct)
  case (step pl pl')
  with wire_step_pipeline [OF step(2)] show ?case by (auto intro: rtranclp.rtrancl_into_rtrancl)
qed simp

lemma wire_reachable_typed: "wire_reachable from_ts cf counter storm pl \<Longrightarrow> typed.rows_ok (pl_db pl)"
  unfolding wire_reachable_def
proof (induction rule: rtranclp_induct)
  case base
  show ?case by (simp add: start_pipeline_def empty_db_def typed.rows_ok_def)
qed (rule wire_step_typed)

section \<open>What a delivery leaves\<close>

definition rows_held :: "db \<Rightarrow> fingerprint set" where
  "rows_held db = (\<lambda>r. al_fingerprint (ar_alert r)) ` set (db_alerts db)"

lemma rows_held_iff: "f \<in> rows_held db \<longleftrightarrow> read_alert f db \<noteq> None"
  unfolding rows_held_def using read_alert_None_iff [of f db] by auto

lemma ingest_all_held:
  "ingest_all rg ps b as out db = Inr (out', db') \<Longrightarrow> rows_held db \<union> al_fingerprint ` set as \<subseteq> rows_held db'"
proof (induction as arbitrary: out db)
  case (Cons a as)
  then obtain out1 db1 where 1: "ingest_one rg ps b a out db = Inr (out1, db1)" "ingest_all rg ps b as out1 db1 = Inr (out', db')"
    by (auto simp: tx_bind_Inr_iff)
  have new: "al_fingerprint a \<in> rows_held db1" using ingest_one_stored(1) [OF 1(1)] by (auto simp: rows_held_iff stored_def)
  have "rows_held db \<subseteq> rows_held db1"
  proof
    fix g assume "g \<in> rows_held db"
    then show "g \<in> rows_held db1" using new ingest_one_stored(2) [OF 1(1), of g] by (cases "g = al_fingerprint a") (auto simp: rows_held_iff)
  qed
  with new Cons.IH [OF 1(2)] show ?case by auto
qed (simp add: tx_ret_def)

lemma ingest_answer:
  "\<exists>x pl'. ingest from_ts cf sn b now pl = (x, pl') \<and> (\<forall>e. x = Inl e \<longrightarrow> (\<exists>e'. e = Unavailable e')) \<and>
     pl_last_webhook pl' = timestamp (ib_received_at b) \<and> al_fingerprint ` set (ib_alerts b) \<subseteq> rows_held (pl_db pl')"
proof -
  let ?pl = "pl\<lparr>pl_last_webhook := timestamp (ib_received_at b)\<rparr>"
  obtain out db' where 1: "ingest_batch (cf_regroup cf) (cf_persist_events cf) b (pl_db pl) = (Inr out, db')"
    using ingest_batch_total by blast
  obtain r pl' where 2: "apply_deltas from_ts cf sn (io_deltas out) now (?pl\<lparr>pl_db := db'\<rparr>) = (r, pl')" by fastforce
  have "al_fingerprint ` set (ib_alerts b) \<subseteq> rows_held db'"
    using 1 ingest_all_held [of "cf_regroup cf" "cf_persist_events cf" b "ib_alerts b" _ "pl_db pl" out db']
    by (auto simp: ingest_batch_def run_tx_Inr_iff)
  moreover have "rows_held (pl_db pl') = rows_held db'"
    using apply_deltas_alerts [of from_ts cf sn "io_deltas out" now "?pl\<lparr>pl_db := db'\<rparr>"] 2 by (simp add: rows_held_def)
  moreover have "pl_last_webhook pl' = timestamp (ib_received_at b)"
    using apply_deltas_simps(4) [of from_ts cf sn "io_deltas out" now "?pl\<lparr>pl_db := db'\<rparr>"] 2 by simp
  ultimately show ?thesis using 1 2 by (cases r) (simp_all add: ingest_def Let_def)
qed

lemma into_alerts_supported: "into_alerts p = Inr as \<Longrightarrow> ensure_supported p = Inr ()"
  by (auto simp: into_alerts_def split: sum.splits)

end
