(* ===== verification/Sqlite_Rows.thy ===== *)
theory Sqlite_Rows
  imports Sqlite_Routing Am_Model
begin

text \<open>
  The rows as the SQLite backend binds and reads them (\<open>store-sqlite/src/convert.rs\<close> and the inserts of \<open>store/*.rs\<close>):
  text, integers and nulls. The other theories of the backend keep the records themselves in the tables; the lemmas
  here say that what is bound reads back as that record. The text of an instant (chrono) and of a JSON document
  (serde) are parameters, a writer and a reader each. \<open>Sqlite_Routing_Rows\<close> has the
  rows whose matchers a read compiles.
\<close>

section \<open>Columns\<close>

text \<open>A writer and the reader that goes with it; a reader says why it fails.\<close>

type_synonym 'a codec = "('a \<Rightarrow> string) \<times> (string \<Rightarrow> string + 'a)"

record codecs =
  cc_time :: "time codec"
  cc_labels :: "labels codec"
  cc_annotations :: "annotations codec"
  cc_strings :: "string list codec"
  cc_tags :: "tag_id list codec"
  cc_effect :: "effect codec"

definition and_then :: "'e + 'a \<Rightarrow> ('a \<Rightarrow> 'e + 'b) \<Rightarrow> 'e + 'b" where
  "and_then r f = (case r of Inl e \<Rightarrow> Inl e | Inr x \<Rightarrow> f x)"

lemma and_then_Inr [simp]: "and_then (Inr x) f = f x" "and_then (Inl e) f = Inl e"
  by (simp_all add: and_then_def)

definition encode_time :: "codecs \<Rightarrow> time \<Rightarrow> string" where
  "encode_time cc = fst (cc_time cc)"

definition encode_time_opt :: "codecs \<Rightarrow> time option \<Rightarrow> string option" where
  "encode_time_opt cc = map_option (encode_time cc)"

definition time_column :: "codecs \<Rightarrow> string \<Rightarrow> string \<Rightarrow> store_error + time" where
  "time_column cc raw kind = map_sum (Decode kind) id (snd (cc_time cc) raw)"

definition opt_column :: "('c \<Rightarrow> 'e + 'a) \<Rightarrow> 'c option \<Rightarrow> 'e + 'a option" where
  "opt_column f raw = (case raw of None \<Rightarrow> Inr None | Some c \<Rightarrow> map_sum id Some (f c))"

definition time_opt_column :: "codecs \<Rightarrow> string option \<Rightarrow> string \<Rightarrow> store_error + time option" where
  "time_opt_column cc raw kind = opt_column (\<lambda>c. time_column cc c kind) raw"

definition json_column :: "'a codec \<Rightarrow> string \<Rightarrow> string \<Rightarrow> store_error + 'a" where
  "json_column c raw kind = map_sum (Decode kind) id (snd c raw)"

definition parsed_column :: "(string \<Rightarrow> core_error + 'a) \<Rightarrow> string \<Rightarrow> string \<Rightarrow> store_error + 'a" where
  "parsed_column from_str raw kind = map_sum (\<lambda>e. Decode kind (core_error_str e)) id (from_str raw)"

definition count_column :: "int \<Rightarrow> nat" where
  "count_column raw = (if 0 \<le> raw \<and> raw \<le> int u32_max then nat raw else 0)"

definition flag_column :: "int \<Rightarrow> bool" where
  "flag_column raw \<longleftrightarrow> raw \<noteq> 0"

definition fingerprint_column :: "string \<Rightarrow> string \<Rightarrow> store_error + fingerprint" where
  "fingerprint_column raw kind = map_sum (\<lambda>e. Decode kind (core_error_str e)) id (new_fingerprint raw)"

section \<open>Alerts\<close>

record alert_row =
  aw_fingerprint :: string
  aw_labels_hash :: string
  aw_group_key :: "string option"
  aw_labels :: string
  aw_annotations :: string
  aw_starts_at :: string
  aw_ends_at :: "string option"
  aw_generator_url :: "string option"
  aw_status :: string
  aw_am_state :: string
  aw_silenced_by :: string
  aw_inhibited_by :: string
  aw_first_seen_at :: string
  aw_last_seen_at :: string
  aw_resolved_at :: "string option"
  aw_flap_count :: int
  aw_updated_at :: string

definition encode_alert :: "codecs \<Rightarrow> alert_record \<Rightarrow> alert_row" where
  "encode_alert cc r = (let a = ar_alert r in
     \<lparr>aw_fingerprint = fp_str (al_fingerprint a), aw_labels_hash = lh_str (ar_labels_hash r),
      aw_group_key = map_option gk_str (al_group_key a), aw_labels = fst (cc_labels cc) (al_labels a),
      aw_annotations = fst (cc_annotations cc) (al_annotations a), aw_starts_at = encode_time cc (al_starts_at a),
      aw_ends_at = encode_time_opt cc (al_ends_at a), aw_generator_url = al_generator_url a,
      aw_status = alert_status_str (al_status a), aw_am_state = am_state_str (al_am_state a),
      aw_silenced_by = fst (cc_strings cc) (al_silenced_by a), aw_inhibited_by = fst (cc_strings cc) (al_inhibited_by a),
      aw_first_seen_at = encode_time cc (ar_first_seen_at r), aw_last_seen_at = encode_time cc (ar_last_seen_at r),
      aw_resolved_at = encode_time_opt cc (ar_resolved_at r), aw_flap_count = int (ar_flap_count r),
      aw_updated_at = encode_time cc (ar_updated_at r)\<rparr>)"

definition decode_alert :: "codecs \<Rightarrow> alert_row \<Rightarrow> store_error + alert_record" where
  "decode_alert cc row =
     and_then (fingerprint_column (aw_fingerprint row) ''fingerprint'') (\<lambda>fp.
     and_then (json_column (cc_labels cc) (aw_labels row) ''labels'') (\<lambda>ls.
     and_then (json_column (cc_annotations cc) (aw_annotations row) ''annotations'') (\<lambda>anns.
     and_then (time_column cc (aw_starts_at row) ''starts_at'') (\<lambda>starts.
     and_then (time_opt_column cc (aw_ends_at row) ''ends_at'') (\<lambda>ends.
     and_then (parsed_column alert_status_from_str (aw_status row) ''status'') (\<lambda>status.
     and_then (parsed_column am_state_from_str (aw_am_state row) ''am_state'') (\<lambda>state.
     and_then (json_column (cc_strings cc) (aw_silenced_by row) ''silenced_by'') (\<lambda>silenced.
     and_then (json_column (cc_strings cc) (aw_inhibited_by row) ''inhibited_by'') (\<lambda>inhibited.
     and_then (time_column cc (aw_first_seen_at row) ''first_seen_at'') (\<lambda>first.
     and_then (time_column cc (aw_last_seen_at row) ''last_seen_at'') (\<lambda>last_seen.
     and_then (time_opt_column cc (aw_resolved_at row) ''resolved_at'') (\<lambda>resolved.
     and_then (time_column cc (aw_updated_at row) ''updated_at'') (\<lambda>updated.
     Inr \<lparr>ar_alert = \<lparr>al_fingerprint = fp, al_labels = ls, al_annotations = anns, al_starts_at = starts, al_ends_at = ends,
            al_generator_url = aw_generator_url row, al_status = status, al_am_state = state, al_silenced_by = silenced,
            al_inhibited_by = inhibited, al_group_key = map_option GroupKey (aw_group_key row)\<rparr>,
          ar_labels_hash = LabelsHash (aw_labels_hash row), ar_first_seen_at = first, ar_last_seen_at = last_seen,
          ar_resolved_at = resolved, ar_flap_count = count_column (aw_flap_count row), ar_updated_at = updated\<rparr>)))))))))))))"

section \<open>Cards\<close>

record notification_row =
  nr_id :: int
  nr_dedupe_key :: string
  nr_fingerprint :: string
  nr_route_id :: int
  nr_guild_id :: int
  nr_channel_id :: int
  nr_message_id :: "int option"
  nr_thread_id :: "int option"
  nr_state :: string
  nr_render_hash :: "string option"
  nr_applied_tags :: string
  nr_tags_hash :: "string option"
  nr_pinned :: int
  nr_archived :: int
  nr_responded_at :: "string option"
  nr_escalated_at :: "string option"
  nr_supersedes :: "int option"
  nr_resolved_at :: "string option"
  nr_reply_count :: int
  nr_created_at :: string
  nr_updated_at :: string

text \<open>What an insert binds, the columns it leaves out at their defaults.\<close>

definition inserted_card :: "codecs \<Rightarrow> notification_id \<Rightarrow> new_notification \<Rightarrow> notification_row" where
  "inserted_card cc i c = \<lparr>nr_id = i, nr_dedupe_key = key_str (nn_dedupe_key c), nr_fingerprint = fp_str (nn_fingerprint c),
     nr_route_id = nn_route_id c, nr_guild_id = to_db (nn_guild_id c), nr_channel_id = to_db (nn_channel_id c),
     nr_message_id = None, nr_thread_id = None, nr_state = state_str (nn_state c), nr_render_hash = None, nr_applied_tags = ''[]'',
     nr_tags_hash = None, nr_pinned = 0, nr_archived = 0, nr_responded_at = None, nr_escalated_at = None,
     nr_supersedes = nn_supersedes c, nr_resolved_at = None, nr_reply_count = 0, nr_created_at = encode_time cc (nn_created_at c),
     nr_updated_at = encode_time cc (nn_created_at c)\<rparr>"

definition decode_notification :: "codecs \<Rightarrow> notification_row \<Rightarrow> store_error + notification" where
  "decode_notification cc row =
     and_then (fingerprint_column (nr_fingerprint row) ''notification fingerprint'') (\<lambda>fp.
     and_then (parsed_column state_from_str (nr_state row) ''state'') (\<lambda>state.
     and_then (json_column (cc_tags cc) (nr_applied_tags row) ''applied_tags'') (\<lambda>tags.
     and_then (time_opt_column cc (nr_responded_at row) ''responded_at'') (\<lambda>responded.
     and_then (time_opt_column cc (nr_escalated_at row) ''escalated_at'') (\<lambda>escalated.
     and_then (time_opt_column cc (nr_resolved_at row) ''resolved_at'') (\<lambda>resolved.
     and_then (time_column cc (nr_created_at row) ''created_at'') (\<lambda>created.
     and_then (time_column cc (nr_updated_at row) ''updated_at'') (\<lambda>updated.
     Inr \<lparr>n_id = nr_id row, n_dedupe_key = DedupeKey (nr_dedupe_key row), n_fingerprint = fp, n_route_id = nr_route_id row,
       n_guild_id = from_db (nr_guild_id row), n_channel_id = from_db (nr_channel_id row),
       n_message_id = map_option from_db (nr_message_id row), n_thread_id = map_option from_db (nr_thread_id row),
       n_state = state, n_render_hash = nr_render_hash row, n_applied_tags = tags, n_tags_hash = nr_tags_hash row,
       n_pinned = flag_column (nr_pinned row), n_archived = flag_column (nr_archived row), n_responded_at = responded,
       n_escalated_at = escalated, n_supersedes = nr_supersedes row, n_resolved_at = resolved,
       n_reply_count = count_column (nr_reply_count row), n_created_at = created, n_updated_at = updated\<rparr>))))))))"

section \<open>The queue\<close>

record outbox_row =
  or_id :: int
  or_lane :: int
  or_dedupe_key :: string
  or_payload :: string
  or_not_before :: string
  or_attempts :: int
  or_claimed_by :: "string option"
  or_claimed_at :: "string option"
  or_last_error :: "string option"
  or_created_at :: string

definition inserted_item :: "codecs \<Rightarrow> outbox_id \<Rightarrow> new_outbox_item \<Rightarrow> time \<Rightarrow> outbox_row" where
  "inserted_item cc i item at = \<lparr>or_id = i, or_lane = int (key_lane (no_dedupe_key item) OUTBOX_LANES),
     or_dedupe_key = key_str (no_dedupe_key item), or_payload = fst (cc_effect cc) (no_effect item),
     or_not_before = encode_time cc (no_not_before item), or_attempts = 0, or_claimed_by = None, or_claimed_at = None,
     or_last_error = None, or_created_at = encode_time cc at\<rparr>"

definition lane_column :: "int \<Rightarrow> nat" where
  "lane_column raw = (if 0 \<le> raw \<and> raw < 65536 then nat raw else 0)"

definition decode_item :: "codecs \<Rightarrow> outbox_row \<Rightarrow> store_error + outbox_item" where
  "decode_item cc row =
     and_then (json_column (cc_effect cc) (or_payload row) ''payload'') (\<lambda>e.
     and_then (time_column cc (or_not_before row) ''not_before'') (\<lambda>not_before.
     and_then (time_opt_column cc (or_claimed_at row) ''claimed_at'') (\<lambda>claimed.
     and_then (time_column cc (or_created_at row) ''created_at'') (\<lambda>created.
     Inr \<lparr>ob_id = or_id row, ob_lane = lane_column (or_lane row), ob_effect = e, ob_dedupe_key = DedupeKey (or_dedupe_key row),
       ob_not_before = not_before, ob_attempts = count_column (or_attempts row), ob_claimed_by = or_claimed_by row,
       ob_claimed_at = claimed, ob_last_error = or_last_error row, ob_created_at = created\<rparr>))))"

section \<open>Silences, tags, acknowledgements\<close>

record silence_row =
  sw_am_id :: string
  sw_matchers :: string
  sw_starts_at :: string
  sw_ends_at :: string
  sw_created_by :: string
  sw_discord_user_id :: "int option"
  sw_origin_message :: "string option"
  sw_comment :: string
  sw_state :: string
  sw_synced_at :: string

definition encode_silence :: "codecs \<Rightarrow> silence_link \<Rightarrow> silence_row" where
  "encode_silence cc l = \<lparr>sw_am_id = sl_am_id l, sw_matchers = sl_matchers l, sw_starts_at = encode_time cc (sl_starts_at l),
     sw_ends_at = encode_time cc (sl_ends_at l), sw_created_by = sl_created_by l,
     sw_discord_user_id = map_option to_db (sl_discord_user_id l), sw_origin_message = sl_origin_message l,
     sw_comment = sl_comment l, sw_state = silence_lifecycle_str (sl_state l), sw_synced_at = encode_time cc (sl_synced_at l)\<rparr>"

definition decode_silence :: "codecs \<Rightarrow> silence_row \<Rightarrow> store_error + silence_link" where
  "decode_silence cc row =
     and_then (time_column cc (sw_starts_at row) ''starts_at'') (\<lambda>starts.
     and_then (time_column cc (sw_ends_at row) ''ends_at'') (\<lambda>ends.
     and_then (parsed_column silence_lifecycle_from_str (sw_state row) ''state'') (\<lambda>state.
     and_then (time_column cc (sw_synced_at row) ''synced_at'') (\<lambda>synced.
     Inr \<lparr>sl_am_id = sw_am_id row, sl_matchers = sw_matchers row, sl_starts_at = starts, sl_ends_at = ends,
       sl_created_by = sw_created_by row, sl_discord_user_id = map_option from_db (sw_discord_user_id row),
       sl_origin_message = sw_origin_message row, sl_comment = sw_comment row, sl_state = state, sl_synced_at = synced\<rparr>))))"

record forum_tag_row =
  tw_channel_id :: int
  tw_tag_name :: string
  tw_tag_id :: int
  tw_moderated :: int
  tw_synced_at :: string

definition encode_forum_tag :: "codecs \<Rightarrow> channel_id \<Rightarrow> forum_tag \<Rightarrow> forum_tag_row" where
  "encode_forum_tag cc channel t = \<lparr>tw_channel_id = to_db channel, tw_tag_name = ft_name t,
     tw_tag_id = to_db (ft_id t), tw_moderated = (if ft_moderated t then 1 else 0), tw_synced_at = encode_time cc (ft_synced_at t)\<rparr>"

definition decode_forum_tag :: "codecs \<Rightarrow> forum_tag_row \<Rightarrow> store_error + forum_tag" where
  "decode_forum_tag cc row = and_then (time_column cc (tw_synced_at row) ''synced_at'') (\<lambda>synced.
     Inr \<lparr>ft_channel_id = from_db (tw_channel_id row), ft_name = tw_tag_name row, ft_id = from_db (tw_tag_id row),
       ft_moderated = flag_column (tw_moderated row), ft_synced_at = synced\<rparr>)"

record acknowledgement_row =
  kw_user_id :: int
  kw_kind :: string
  kw_note :: "string option"
  kw_created_at :: string

definition inserted_ack :: "codecs \<Rightarrow> ack_command \<Rightarrow> acknowledgement_row" where
  "inserted_ack cc c = \<lparr>kw_user_id = to_db (ac_user_id c), kw_kind = ack_kind_str (ac_kind c), kw_note = ac_note c,
     kw_created_at = encode_time cc (ac_at c)\<rparr>"

text \<open>The columns of an acknowledgement a read asks for.\<close>

definition decode_ack :: "codecs \<Rightarrow> acknowledgement_row \<Rightarrow> store_error + user_id \<times> ack_kind \<times> string option \<times> time" where
  "decode_ack cc row = and_then (parsed_column ack_kind_from_str (kw_kind row) ''kind'') (\<lambda>kind.
     and_then (time_column cc (kw_created_at row) ''created_at'') (\<lambda>at.
     Inr (from_db (kw_user_id row), kind, kw_note row, at)))"

section \<open>Reading back what was bound\<close>

text \<open>What chrono and serde document of their writers and readers, at one value.\<close>

definition reads_back :: "'a codec \<Rightarrow> 'a \<Rightarrow> bool" where
  "reads_back c x \<longleftrightarrow> snd c (fst c x) = Inr x"

lemma time_column_encode: "reads_back (cc_time cc) t \<Longrightarrow> time_column cc (encode_time cc t) kind = Inr t"
  by (simp add: reads_back_def time_column_def encode_time_def)

lemma time_opt_column_encode: "pred_option (reads_back (cc_time cc)) t \<Longrightarrow> time_opt_column cc (encode_time_opt cc t) kind = Inr t"
  by (cases t) (simp_all add: time_opt_column_def opt_column_def encode_time_opt_def time_column_encode)

lemma json_column_encode: "reads_back c x \<Longrightarrow> json_column c (fst c x) kind = Inr x"
  by (simp add: reads_back_def json_column_def)

lemma fingerprint_column_encode: "fingerprint_ok (fp_str f) \<Longrightarrow> fingerprint_column (fp_str f) kind = Inr f"
  by (simp add: fingerprint_column_def new_fingerprint_def)

lemma parsed_column_encode:
  "parsed_column alert_status_from_str (alert_status_str s1) kind = Inr s1"
  "parsed_column am_state_from_str (am_state_str s2) kind = Inr s2"
  "parsed_column state_from_str (state_str s3) kind = Inr s3"
  "parsed_column silence_lifecycle_from_str (silence_lifecycle_str s4) kind = Inr s4"
  "parsed_column ack_kind_from_str (ack_kind_str s5) kind = Inr s5"
  by (simp_all add: parsed_column_def status_word.parse_print am_word.parse_print state_word.parse_print
      silence_word.parse_print ack_word.parse_print)

lemma count_column_encode: "n \<le> u32_max \<Longrightarrow> count_column (int n) = n"
  by (simp add: count_column_def)

lemma flag_column_encode: "flag_column (if b then 1 else 0) = b"
  by (simp add: flag_column_def)

lemmas column_encode = time_column_encode time_opt_column_encode json_column_encode fingerprint_column_encode
  parsed_column_encode count_column_encode flag_column_encode

text \<open>The instants of an alert's row.\<close>

definition alert_times :: "alert_record \<Rightarrow> time set" where
  "alert_times r = {al_starts_at (ar_alert r), ar_first_seen_at r, ar_last_seen_at r, ar_updated_at r} \<union>
     set_option (al_ends_at (ar_alert r)) \<union> set_option (ar_resolved_at r)"

definition alert_readable :: "codecs \<Rightarrow> alert_record \<Rightarrow> bool" where
  "alert_readable cc r \<longleftrightarrow> (\<forall>t \<in> alert_times r. reads_back (cc_time cc) t) \<and> reads_back (cc_labels cc) (al_labels (ar_alert r)) \<and>
     reads_back (cc_annotations cc) (al_annotations (ar_alert r)) \<and> reads_back (cc_strings cc) (al_silenced_by (ar_alert r)) \<and>
     reads_back (cc_strings cc) (al_inhibited_by (ar_alert r))"

lemma encode_alert_reads_back:
  assumes "alert_readable cc r" "fingerprint_ok (fp_str (al_fingerprint (ar_alert r)))" "ar_flap_count r \<le> u32_max"
  shows "decode_alert cc (encode_alert cc r) = Inr r"
proof -
  have t: "reads_back (cc_time cc) (al_starts_at (ar_alert r))" "reads_back (cc_time cc) (ar_first_seen_at r)"
    "reads_back (cc_time cc) (ar_last_seen_at r)" "reads_back (cc_time cc) (ar_updated_at r)"
    "pred_option (reads_back (cc_time cc)) (al_ends_at (ar_alert r))" "pred_option (reads_back (cc_time cc)) (ar_resolved_at r)"
    using assms(1) by (auto simp: alert_readable_def alert_times_def option.pred_set)
  have "map_option GroupKey (map_option gk_str g) = g" for g by (cases g) simp_all
  with t assms show ?thesis by (simp add: decode_alert_def encode_alert_def Let_def alert_readable_def column_encode)
qed

lemma inserted_card_reads_back:
  "reads_back (cc_time cc) (nn_created_at c) \<Longrightarrow> snd (cc_tags cc) ''[]'' = Inr [] \<Longrightarrow> fingerprint_ok (fp_str (nn_fingerprint c)) \<Longrightarrow>
   decode_notification cc (inserted_card cc i c) = Inr (new_row i c)"
  by (simp add: decode_notification_def inserted_card_def new_row_def column_encode json_column_def time_opt_column_def opt_column_def
      flag_column_def count_column_def)

lemma inserted_item_reads_back:
  assumes "reads_back (cc_effect cc) (no_effect item)" "reads_back (cc_time cc) (no_not_before item)" "reads_back (cc_time cc) at"
  shows "decode_item cc (inserted_item cc i item at) = Inr \<lparr>ob_id = i, ob_lane = key_lane (no_dedupe_key item) OUTBOX_LANES,
     ob_effect = no_effect item, ob_dedupe_key = no_dedupe_key item, ob_not_before = no_not_before item, ob_attempts = 0,
     ob_claimed_by = None, ob_claimed_at = None, ob_last_error = None, ob_created_at = at\<rparr>"
proof -
  have "key_lane (no_dedupe_key item) OUTBOX_LANES < 65536"
    using key_lane_less [of OUTBOX_LANES "no_dedupe_key item"] by (simp add: OUTBOX_LANES_def)
  with assms show ?thesis
    by (simp add: decode_item_def inserted_item_def column_encode time_opt_column_def opt_column_def lane_column_def count_column_def)
qed

lemma encode_silence_reads_back:
  assumes "reads_back (cc_time cc) (sl_starts_at l)" "reads_back (cc_time cc) (sl_ends_at l)" "reads_back (cc_time cc) (sl_synced_at l)"
  shows "decode_silence cc (encode_silence cc l) = Inr l"
proof -
  have "map_option from_db (map_option to_db u) = u" for u by (cases u) simp_all
  with assms show ?thesis by (simp add: decode_silence_def encode_silence_def column_encode)
qed

lemma encode_forum_tag_reads_back:
  "reads_back (cc_time cc) (ft_synced_at t) \<Longrightarrow> decode_forum_tag cc (encode_forum_tag cc channel t) = Inr (t\<lparr>ft_channel_id := channel\<rparr>)"
  by (simp add: decode_forum_tag_def encode_forum_tag_def column_encode)

lemma inserted_ack_reads_back:
  "reads_back (cc_time cc) (ac_at c) \<Longrightarrow> decode_ack cc (inserted_ack cc c) = Inr (ac_user_id c, ac_kind c, ac_note c, ac_at c)"
  by (simp add: decode_ack_def inserted_ack_def column_encode)

section \<open>Order\<close>

text \<open>
  The columns of instants are compared as text. A writer whose texts are ordered as the instants are, for instants of
  one width, makes the text order of the claim the order of the model.
\<close>

definition ordered_text :: "codecs \<Rightarrow> time set \<Rightarrow> bool" where
  "ordered_text cc ts \<longleftrightarrow> (\<forall>s \<in> ts. \<forall>t \<in> ts. encode_time cc s \<le> encode_time cc t \<longleftrightarrow> s \<le> t)"

lemma sort_key_cong_order:
  fixes f :: "'r \<Rightarrow> 'k::linorder" and g :: "'r \<Rightarrow> 'l::linorder"
  assumes "\<forall>r \<in> set rs. \<forall>q \<in> set rs. f r \<le> f q \<longleftrightarrow> g r \<le> g q"
  shows "sort_key f rs = sort_key g rs"
  using assms
proof (induction rs)
  case (Cons r rs)
  have "insort_key f r qs = insort_key g r qs" if "set qs \<subseteq> set rs" for qs
    using that Cons.prems by (induction qs) auto
  with Cons show ?case by simp
qed simp

lemma text_order_agrees:
  "ordered_text cc (ob_not_before ` set rows) \<Longrightarrow>
   sort_key (\<lambda>r. (encode_time cc (ob_not_before r), ob_id r)) rows = sort_key (\<lambda>r. (ob_not_before r, ob_id r)) rows"
  by (rule sort_key_cong_order) (auto simp: ordered_text_def less_eq_prod_def less_le_not_le)

lemma text_cutoff_agrees: "ordered_text cc {s, t} \<Longrightarrow> encode_time cc s < encode_time cc t \<longleftrightarrow> s < t"
  by (simp add: ordered_text_def less_le_not_le)

end
