(* ===== verification/Properties_Wire.thy ===== *)
theory Properties_Wire
  imports Wire_Facts Sqlite_Rows Fixtures
begin

text \<open>
  The properties of the edge towards Alertmanager: what is stored came out of a document that was checked, a silence
  comes back as it was sent, the client returns and does not insist, and the listener answers each request once.
\<close>

section \<open>Documents\<close>

definition wire_disk :: webhook_alert where
  "wire_disk = \<lparr>wa_status = AFiring, wa_labels = [(''alertname'', ''Disk'')], wa_annotations = [], wa_starts_at = 1, wa_ends_at = 0,
     wa_generator_url = [], wa_fingerprint = ''ab''\<rparr>"

definition wire_body :: webhook_payload where
  "wire_body = \<lparr>wp_version = ''4'', wp_group_key = ''g'', wp_truncated_alerts = 0, wp_status = AFiring, wp_receiver = ''discord'',
     wp_group_labels = [], wp_common_labels = [], wp_common_annotations = [], wp_external_url = [], wp_alerts = [wire_disk]\<rparr>"

definition wire_config :: service_config where
  "wire_config = \<lparr>cf_settings = default_settings, cf_regroup = seconds 1800, cf_persist_events = True, cf_admin = None,
     cf_lease = seconds 30, cf_deadman = seconds 600\<rparr>"

definition wire_app :: app_state where
  "wire_app = \<lparr>ap_ingest = default_ingest\<lparr>in_webhook_token := Some ''s3cret''\<rparr>, ap_max_poll_age = 60, ap_metrics = False\<rparr>"

definition wire_start :: pipeline where
  "wire_start = start_pipeline empty_db (new_counter 10 10 (seconds 60)) quiet"

definition wire_row :: alert_record where
  "wire_row = \<lparr>ar_alert = \<lparr>al_fingerprint = Fingerprint ''ab'', al_labels = [(LabelName ''alertname'', ''Disk'')], al_annotations = [],
       al_starts_at = 1, al_ends_at = None, al_generator_url = None, al_status = AFiring, al_am_state = AmActive,
       al_silenced_by = [], al_inhibited_by = [], al_group_key = Some (GroupKey ''g'')\<rparr>,
     ar_labels_hash = labels_hash [(LabelName ''alertname'', ''Disk'')], ar_first_seen_at = seconds 5, ar_last_seen_at = seconds 5,
     ar_resolved_at = None, ar_flap_count = 0, ar_updated_at = seconds 5\<rparr>"

definition wire_stored :: pipeline where
  "wire_stored = snd (serve_webhook wire_app (\<lambda>_. Inr wire_body) (\<lambda>_. None) wire_config text_snapshot (Some ''Bearer s3cret'') []
     (\<lambda>_. seconds 5) wire_start)"

text \<open>
  C2: Every alert the process stores is well-formed, whatever documents the webhook and the polls bring and whatever
  happens in between: its fingerprint is one to sixty-four lower-case hexadecimal digits, its labels are a map from
  valid label names to values within the limit, and its row carries the hash of those labels.
\<close>

theorem stored_alerts_well_formed:
  assumes "wire_reachable from_ts cf counter storm pl" "r \<in> set (db_alerts (pl_db pl))"
  shows "fingerprint_ok (fp_str (al_fingerprint (ar_alert r))) \<and> labels_wf (al_labels (ar_alert r)) \<and>
    bt_wf (al_annotations (ar_alert r)) \<and> ar_labels_hash r = labels_hash (al_labels (ar_alert r))"
  using typed.rows_okD [OF wire_reachable_typed [OF assms(1)] assms(2)]
    reachable_ok [OF wire_reachable_reachable [OF assms(1)]] assms(2)
  by (simp add: alert_wf_def db_ok_def alerts_ok_def)

lemma wire_disk_alert: "webhook_into_core g wire_disk = Inr \<lparr>al_fingerprint = Fingerprint ''ab'', al_labels = [(LabelName ''alertname'', ''Disk'')],
    al_annotations = [], al_starts_at = 1, al_ends_at = None, al_generator_url = None, al_status = AFiring, al_am_state = AmActive,
    al_silenced_by = [], al_inhibited_by = [], al_group_key = Some g\<rparr>"
  by (simp add: webhook_into_core_def wire_disk_def fingerprint_from_wire_def new_fingerprint_def fingerprint_ok_def is_lower_hex_def
      labels_from_wire_def new_label_name_def label_name_ok_def labels_insert_def MAX_LABEL_LEN_def is_label_byte_def is_alpha_def is_digit_def
      annotations_from_wire_def bt_collect_def end_time_def)

lemma lower_bearer: "ascii_lower ''Bearer'' = ''bearer''"
  by code_simp

lemma wire_authorised: "authorised wire_app (Some ''Bearer s3cret'')"
  by (simp add: authorised_def wire_app_def default_ingest_def bearer_token_def lower_bearer trim_start_def is_whitespace_def
      utf8_chars.simps is_cont_def)

lemma wire_stored_row: "db_alerts (pl_db wire_stored) = [wire_row]"
proof -
  have a: "into_alerts wire_body = Inr [ar_alert wire_row]"
    using wire_disk_alert by (simp add: into_alerts_def ensure_supported_def WEBHOOK_VERSION_def wire_body_def wire_row_def)
  let ?b = "webhook_batch wire_body [ar_alert wire_row] (seconds 5)"
  obtain out db' where 1: "ingest_batch (cf_regroup wire_config) (cf_persist_events wire_config) ?b empty_db = (Inr out, db')"
    using ingest_batch_total by blast
  have "db_alerts (snd (ingest_batch rg ps ?b empty_db)) = [wire_row]" for rg ps
    by (simp add: ingest_batch_def webhook_batch_def run_tx_def tx_bind_def tx_ret_def ingest_one_def empty_db_def read_alert_def Let_def
        classify_def upsert_alert_def affected_def append_event_def carry_over_def batch_alert_def wire_row_def resolved_at_def is_firing_def)
  with 1 have r: "db_alerts db' = [wire_row]" by (metis snd_conv)
  have "ensure_supported wire_body = Inr ()" by (simp add: ensure_supported_def WEBHOOK_VERSION_def wire_body_def)
  then have "pl_db wire_stored = pl_db (snd (ingest (\<lambda>_. None) wire_config text_snapshot ?b (seconds 5) wire_start))"
    using a by (auto simp: wire_stored_def serve_authorised [OF wire_authorised] ingest_webhook_def split: prod.split sum.split)
  moreover have "db_alerts (pl_db (snd (ingest (\<lambda>_. None) wire_config text_snapshot ?b (seconds 5) wire_start))) = db_alerts db'"
    using 1 apply_deltas_alerts by (auto simp: ingest_def Let_def wire_start_def start_pipeline_def split: prod.split sum.split)
      (metis prod.inject snd_conv pipeline.select_convs(1) pipeline.surjective pipeline.update_convs(1))+
  ultimately show ?thesis using r by simp
qed

theorem stored_alerts_well_formed_witness:
  "labels_wf (al_labels (ar_alert (hd (db_alerts (pl_db wire_stored)))))"
proof -
  have "wire_reachable (\<lambda>_. None) wire_config (new_counter 10 10 (seconds 60)) quiet wire_stored"
    unfolding wire_reachable_def wire_stored_def wire_start_def by (rule r_into_rtranclp) (rule wire_step.request)
  from stored_alerts_well_formed [OF this, of "hd (db_alerts (pl_db wire_stored))"] wire_stored_row show ?thesis by auto
qed

section \<open>Rows\<close>




section \<open>Silences\<close>

text \<open>
  A silence comes back from Alertmanager as it was sent: the matchers of an expression somebody typed, encoded as
  two booleans for the server and read back from any later list of silences, are the matchers that were typed, in the
  order they were typed, so the record suppresses exactly the alerts the expression names.
\<close>

theorem silence_over_the_wire_roundtrip:
  assumes "parse_matchers rx expression = Inr ms" "sq_matchers request = ms" "gs_matchers listed = ps_matchers (from_request request)"
  shows "\<exists>record. into_record rx listed = Inr record \<and> sr_matchers record = ms \<and> sr_id record = gs_id listed \<and>
    sr_state record = gs_state listed \<and> sr_ends_at record = gs_ends_at listed \<and>
    (\<forall>ls. set_matches (sr_matchers record) ls = set_matches ms ls)"
  using silence_over_the_wire [of rx request listed] parse_matchers_ok [OF assms(1)] assms(2,3) by simp

definition typed_request :: silence_request where
  "typed_request = \<lparr>sq_id = None, sq_matchers = [\<lparr>m_name = LabelName ''a'', m_op = OpNotEqual, m_value = ''b'', m_regex = None\<rparr>],
     sq_starts_at = 0, sq_ends_at = seconds 60, sq_created_by = ''dam'', sq_comment = ''x''\<rparr>"

definition listed_silence :: gettable_silence where
  "listed_silence = \<lparr>gs_id = ''s1'', gs_matchers = [\<lparr>wm_name = ''a'', wm_value = ''b'', wm_is_regex = False, wm_is_equal = False\<rparr>],
     gs_starts_at = 0, gs_ends_at = seconds 60, gs_updated_at = 0, gs_created_by = ''dam'', gs_comment = ''x'', gs_state = SilenceActive\<rparr>"

theorem silence_over_the_wire_roundtrip_witness:
  "\<exists>record. into_record (\<lambda>_. Inl []) listed_silence = Inr record \<and> sr_matchers record = sq_matchers typed_request"
proof -
  have "parse_matchers (\<lambda>_. Inl []) ''a!=b'' = Inr (sq_matchers typed_request)"
    by (simp add: parse_matchers_def trim_def is_whitespace_def utf8_chars.simps is_cont_def split_top_level_def parse_matcher_def
        find_operator_def OPERATORS_def List.map_filter_def USIZE_MAX_def op_str_def new_label_name_def label_name_ok_def
        MAX_LABEL_LEN_def is_label_byte_def is_alpha_def is_digit_def unquote_def new_matcher_def op_is_regex_def typed_request_def Let_def)
  moreover have "gs_matchers listed_silence = ps_matchers (from_request typed_request)"
    by (simp add: listed_silence_def typed_request_def from_request_def from_matcher_def op_is_regex_def op_is_equal_def)
  ultimately show ?thesis using silence_over_the_wire_roundtrip [OF _ refl, of "\<lambda>_. Inl []" "''a!=b''" typed_request listed_silence] by blast
qed

section \<open>The client\<close>

text \<open>
  C38: A call to Alertmanager returns. If a request takes time and the timer sleeps for at least as long as it is
  asked, the loop of attempts ends, and its answer is the answer of its last round over the endpoints: their first
  good body or refusal, or the last failure, once the next wait would outlast the budget. That round is the first one
  or starts after a wait that was to end within the budget. The one panic left is an instant past the end of the clock.
\<close>

theorem call_returns:
  assumes "clock_moves wb" "sd_ceiling_ms (ct_retry ct) < U64_MAX"
    "now_of wb w + sd_budget_secs (ct_retry ct) * 1000 * nanos_per_ms \<le> wb_latest wb"
  shows "\<exists>r j' w' last_round. execute wb uo ct c (j, w) = Some (r, j', w') \<and> ends_call wb uo ct c last_round r \<and>
    (last_round = snd (wb_now wb w) \<or>
      waited wb (now_of wb w + sd_budget_secs (ct_retry ct) * 1000 * nanos_per_ms) last_round)"
proof -
  obtain r j' w' w1 where "retry_loop wb uo ct c (now_of wb w + sd_budget_secs (ct_retry ct) * 1000 * nanos_per_ms) 0 j
      (snd (wb_now wb w)) = Some (r, j', w')"
    "w1 = snd (wb_now wb w) \<or> waited wb (now_of wb w + sd_budget_secs (ct_retry ct) * 1000 * nanos_per_ms) w1" "ends_call wb uo ct c w1 r"
    using retry_loop_returns [OF assms(1,2)] by blast
  then show ?thesis using assms(3) by (auto simp: execute_def Let_def split_beta)
qed

text \<open>A server that is down: every request fails after a millisecond.\<close>

definition down_web :: "(string, nat) web" where
  "down_web = \<lparr>wb_send = (\<lambda>_ t. (Inl \<lparr>hf_is_connect = True, hf_is_timeout = False, hf_is_decode = False, hf_text = ''refused''\<rparr>, t + nanos_per_ms)),
     wb_bytes = (\<lambda>t. (Inr [], t)), wb_now = (\<lambda>t. (t, t)), wb_utc = (\<lambda>t. (0, t)), wb_sleep_ms = (\<lambda>ms t. t + ms * nanos_per_ms),
     wb_latest = 2 ^ 63 * 1000 * nanos_per_ms\<rparr>"

definition text_urls :: "string url_ops" where
  "text_urls = \<lparr>uo_text = id, uo_path = (\<lambda>_. ''/''), uo_set_path = (\<lambda>_ u. u), uo_join = (\<lambda>u p. Inr (u @ p)),
     uo_push_segment = (\<lambda>s u. Some (u @ ''/'' @ s)), uo_append_pair = (\<lambda>n v u. u @ ''&'' @ n @ ''='' @ v)\<rparr>"

definition plain_client :: "string client" where
  "plain_client = \<lparr>ct_endpoints = [''a'', ''b''], ct_auth = NoAuth, ct_retry = schedule_from_config default_retry\<rparr>"

lemma plain_schedule: "sd_ceiling_ms (ct_retry plain_client) = 10000" "sd_budget_secs (ct_retry plain_client) = 45"
  by (simp_all add: plain_client_def schedule_from_config_def default_retry_def sat_mul_u64_def U64_MAX_def)

theorem call_returns_witness:
  "execute down_web text_urls plain_client (call_get ''api/v2/status'') (1, 0) \<noteq> None"
proof -
  have moves: "clock_moves down_web" by (simp add: clock_moves_def down_web_def nanos_per_ms_def)
  have "sd_ceiling_ms (ct_retry plain_client) < U64_MAX" by (simp add: plain_schedule U64_MAX_def)
  from call_returns [OF moves this, of 0 text_urls "call_get ''api/v2/status''" 1] show ?thesis
    by (auto simp: plain_schedule down_web_def nanos_per_ms_def)
qed

text \<open>
  The client never insists. When the endpoints before it fail in a way worth another try, the first endpoint that
  refuses a call, with a status below 500, an undecodable answer or a configuration that cannot work, ends it: its
  error is the call's error, no endpoint after it is asked and no wait follows. The first good body ends it likewise.
\<close>

theorem refusal_ends_call:
  assumes "ct_endpoints ct = before @ endpoint # after" "try_endpoints wb uo ct c before None (snd (wb_now wb w)) = (Inr failed, w1)"
    "send_call wb uo ct c endpoint w1 = (answer, w2)" "\<And>e. answer = Inl e \<Longrightarrow> \<not> am_is_retryable e"
    "now_of wb w + sd_budget_secs (ct_retry ct) * 1000 * nanos_per_ms \<le> wb_latest wb"
  shows "execute wb uo ct c (j, w) = Some (Returned answer, j, w2)"
proof -
  have "try_endpoints wb uo ct c (ct_endpoints ct) None (snd (wb_now wb w)) = (Inl answer, w2)"
    using assms(2-4) by (simp add: assms(1) try_endpoints_append split: sum.split)
  then show ?thesis using assms(5)
    by (auto simp: execute_def Let_def split_beta retry_loop.simps)
qed

text \<open>One server down, the next refusing the request.\<close>

definition bad_request_web :: "(string, nat) web" where
  "bad_request_web = down_web\<lparr>wb_send := (\<lambda>q t. if t = 0 then wb_send down_web q t else (Inr 400, t + nanos_per_ms))\<rparr>"

theorem refusal_ends_call_witness:
  "execute bad_request_web text_urls plain_client (call_get ''api/v2/status'') (1, 0) =
     Some (Returned (Inl (AmStatus 400 [])), 1, 2 * nanos_per_ms)"
proof (rule refusal_ends_call [where before = "[''a'']" and endpoint = "''b''" and after = "[]" and ?w1.0 = nanos_per_ms
      and failed = "Some (AmUnreachable ''refused'')"])
  show "ct_endpoints plain_client = [''a''] @ ''b'' # []" by (simp add: plain_client_def)
  show "try_endpoints bad_request_web text_urls plain_client (call_get ''api/v2/status'') [''a''] None (snd (wb_now bad_request_web 0)) =
      (Inr (Some (AmUnreachable ''refused'')), nanos_per_ms)"
    by (simp add: bad_request_web_def down_web_def send_call_def call_url_def call_get_def text_urls_def with_slash_def elapsed_error_def
        transport_error_def)
  show "send_call bad_request_web text_urls plain_client (call_get ''api/v2/status'') ''b'' nanos_per_ms = (Inl (AmStatus 400 []), 2 * nanos_per_ms)"
    by (simp add: bad_request_web_def down_web_def send_call_def call_url_def call_get_def text_urls_def with_slash_def
        nanos_per_ms_def is_success_def truncate_body_def trim_def utf8_chars.simps MAX_ERROR_BODY_def)
  show "now_of bad_request_web 0 + sd_budget_secs (ct_retry plain_client) * 1000 * nanos_per_ms \<le> wb_latest bad_request_web"
    by (simp add: plain_schedule bad_request_web_def down_web_def nanos_per_ms_def)
qed simp

section \<open>The listener\<close>

text \<open>
  C4: Each request gets one answer. Without the configured bearer token it is 401 and nothing changes, whatever the body is.
  With it, a body that is not a version 4 envelope, or one alert of which cannot be represented, is 400 and nothing
  changes either, not even the time of the last webhook the deadman looks at. Any other body is answered 200 or 503,
  and either way the delivery is noted and a row is held for every alert of it.
\<close>

theorem webhook_answer:
  "case serve_webhook ap from_json from_ts cf sn authorization body clock pl of ((result, answer), pl') \<Rightarrow>
     if \<not> authorised ap authorization then result = RESULT_UNAUTHORIZED \<and> an_status answer = 401 \<and> pl' = pl
     else (case from_json body of Inl e \<Rightarrow> result = RESULT_MALFORMED \<and> an_status answer = 400 \<and> pl' = pl
       | Inr p \<Rightarrow> (case into_alerts p of
           Inl e \<Rightarrow> result = (if wp_version p = ''4'' then RESULT_INVALID_ALERT else RESULT_BAD_VERSION) \<and>
             an_status answer = 400 \<and> pl' = pl
         | Inr as \<Rightarrow> (result, an_status answer) \<in> {(RESULT_ACCEPTED, 200), (RESULT_UNAVAILABLE, 503)} \<and>
             pl_last_webhook pl' = timestamp (clock 0) \<and>
             al_fingerprint ` set as \<subseteq> (\<lambda>r. al_fingerprint (ar_alert r)) ` set (db_alerts (pl_db pl'))))"
proof (cases "authorised ap authorization \<and> (\<exists>p as. from_json body = Inr p \<and> into_alerts p = Inr as)")
  case True
  then obtain p as where p: "from_json body = Inr p" "into_alerts p = Inr as" and auth: "authorised ap authorization" by blast
  obtain x pl' where "ingest from_ts cf sn (webhook_batch p as (clock 0)) (clock 1) pl = (x, pl')"
    "\<And>e. x = Inl e \<Longrightarrow> \<exists>e'. e = Unavailable e'" "pl_last_webhook pl' = timestamp (clock 0)" "al_fingerprint ` set as \<subseteq> rows_held (pl_db pl')"
    using ingest_answer [of from_ts cf sn "webhook_batch p as (clock 0)" "clock 1" pl] by (auto simp: webhook_batch_def)
  then show ?thesis using p auth into_alerts_supported [OF p(2)]
    by (cases x) (fastforce simp: serve_authorised ingest_webhook_def refuse_request_def rows_held_def)+
next
  case False
  then show ?thesis
    by (auto simp: serve_refused serve_authorised ingest_webhook_def refuse_request_def ensure_supported_def WEBHOOK_VERSION_def
        split: sum.split)
qed

end
