(* ===== verification/Store_Port.thy ===== *)
theory Store_Port
  imports Sqlite_System
begin

text \<open>
  The store as its clients see it (\<open>trait Store\<close> of \<open>store/src/lib.rs\<close>, without the methods of routing): a call that
  changes the state is a \<open>store_call\<close>, one that reads is a \<open>store_query\<close>, and every method answers with a
  \<open>store_answer\<close> or an error. The SQLite backend forwards each to the operation of its name.
\<close>

datatype store_query =
    QueryAlert fingerprint
  | QueryAlerts alert_query
  | QueryFiringNamed "string option"
  | QueryFiringNotIn "fingerprint list" time
  | QueryDepth
  | QueryAcknowledgement fingerprint
  | QueryNotificationFor dedupe_key channel_id
  | QueryNotificationForThread channel_id
  | QueryNotification notification_id
  | QueryLiveCards "route_id list" nat
  | QueryPinnedPosts channel_id
  | QueryPendingEscalations time nat
  | QuerySilences bool

datatype store_answer =
    AnswerUnit
  | AnswerOutcome ingest_outcome
  | AnswerRecord "alert_record option"
  | AnswerRecords "alert_record list"
  | AnswerPage "alert_record page"
  | AnswerIds "notification_id list"
  | AnswerItems "outbox_item list"
  | AnswerCount nat
  | AnswerDepth "(string \<times> nat) list"
  | AnswerAck ack_outcome
  | AnswerAcknowledgement "(user_id \<times> ack_kind \<times> string option \<times> time) option"
  | AnswerCard "notification option"
  | AnswerCards "notification list"
  | AnswerFlag bool
  | AnswerDeltas "alert_delta list"
  | AnswerLinks "silence_link list"
  | AnswerReport prune_report

definition answered :: "('a \<Rightarrow> store_answer) \<Rightarrow> (store_error + 'a) \<times> 's \<Rightarrow> (store_error + store_answer) \<times> 's" where
  "answered f = map_prod (map_sum id f) id"

abbreviation unit_answer :: "unit \<Rightarrow> store_answer" where
  "unit_answer \<equiv> \<lambda>_. AnswerUnit"

section \<open>The SQLite backend\<close>

fun sqlite_call :: "store_call \<Rightarrow> db \<Rightarrow> (store_error + store_answer) \<times> db" where
  "sqlite_call (CallIngest rg ps x) db = answered AnswerOutcome (ingest_batch rg ps x db)"
| "sqlite_call (CallDecision d) db = answered AnswerIds (apply_decision d db)"
| "sqlite_call (CallAcknowledge c) db = answered AnswerAck (acknowledge c db)"
| "sqlite_call (CallEnqueue items at) db = answered unit_answer (enqueue_effects items at db)"
| "sqlite_call (CallClaim w req now) db = answered AnswerItems (claim_outbox w req now db)"
| "sqlite_call (CallComplete w i a now) db = answered unit_answer (complete_outbox w i a now db)"
| "sqlite_call (CallFail w i err retry) db = answered unit_answer (fail_outbox w i err retry db)"
| "sqlite_call (CallReclaim older now) db = answered AnswerCount (reclaim_expired older now db)"
| "sqlite_call (CallReply r) db = answered AnswerCard (record_reply r db)"
| "sqlite_call (CallOrphan i now) db = answered unit_answer (orphan_notification i now db)"
| "sqlite_call (CallSetState i s now) db = answered unit_answer (set_notification_state i s now db)"
| "sqlite_call (CallEscalated i at) db = answered AnswerFlag (mark_escalated i at db)"
| "sqlite_call (CallSyncSilences snap now) db = answered AnswerDeltas (sync_silences snap now db)"
| "sqlite_call (CallRecordSilence link) db = answered unit_answer (record_silence link db)"
| "sqlite_call (CallAudit entry) db = answered unit_answer (append_audit entry db)"
| "sqlite_call (CallPrune p now) db = answered AnswerReport (prune p now db)"

lemma snd_answered [simp]: "snd (answered f p) = snd p"
  by (simp add: answered_def)

text \<open>The state a call leaves is the one histories are made of.\<close>

lemma snd_sqlite_call: "snd (sqlite_call c db) = run_call c db"
  by (cases c) simp_all

fun sqlite_query ::
  "regex_engine \<Rightarrow> (core_error \<Rightarrow> string) \<Rightarrow> store_query \<Rightarrow> db \<Rightarrow> store_error + store_answer" where
  "sqlite_query rx shows' (QueryAlert f) db = Inr (AnswerRecord (read_alert f db))"
| "sqlite_query rx shows' (QueryAlerts q) db = map_sum id AnswerPage (query_alerts rx shows' q db)"
| "sqlite_query rx shows' (QueryFiringNamed name) db = Inr (AnswerRecords (firing_alerts_named name db))"
| "sqlite_query rx shows' (QueryFiringNotIn present cutoff) db = Inr (AnswerRecords (firing_not_in present cutoff db))"
| "sqlite_query rx shows' QueryDepth db = Inr (AnswerDepth (outbox_depth db))"
| "sqlite_query rx shows' (QueryAcknowledgement f) db = Inr (AnswerAcknowledgement
     (map_option (\<lambda>a. (ak_user_id a, ak_kind a, ak_note a, ak_created_at a)) (acknowledgement f db)))"
| "sqlite_query rx shows' (QueryNotificationFor key channel) db = Inr (AnswerCard (notification_for key channel db))"
| "sqlite_query rx shows' (QueryNotificationForThread thread) db = Inr (AnswerCard (notification_for_thread thread db))"
| "sqlite_query rx shows' (QueryNotification i) db = Inr (AnswerCard (notification_by_id i db))"
| "sqlite_query rx shows' (QueryLiveCards routes limit) db = Inr (AnswerCards (live_cards routes limit db))"
| "sqlite_query rx shows' (QueryPinnedPosts channel) db = Inr (AnswerCount (pinned_posts channel db))"
| "sqlite_query rx shows' (QueryPendingEscalations before limit) db = Inr (AnswerCards (pending_escalations before limit db))"
| "sqlite_query rx shows' (QuerySilences active_only) db = Inr (AnswerLinks (silences active_only db))"

end
