(* ===== verification/Postgres_Rows.thy ===== *)
theory Postgres_Rows
  imports Sqlite_Rows Sqlite_System Result_State
begin

text \<open>
  The tables of the PostgreSQL backend, column by column as its migrations declare them, and the conversions of
  \<open>store-postgres/src/convert.rs\<close>. The dialect has instants, booleans and JSON documents of its own; enums are stored
  as their words, ids as 64-bit integers, counts as 32-bit ones. JSON documents are an abstract type with a writer and a
  reader for each type that is stored as one.
\<close>

section \<open>JSON documents and text order\<close>

type_synonym ('a, 'j) document = "('a \<Rightarrow> 'j) \<times> ('j \<Rightarrow> string + 'a)"

text \<open>
  \<open>jb_text\<close> is the operator \<open>->>\<close>, \<open>jb_nil\<close> the document \<open>[]\<close>, and \<open>jb_collate\<close> what the database sorts texts by.
\<close>

record 'j jsonb =
  jb_labels :: "(labels, 'j) document"
  jb_annotations :: "(annotations, 'j) document"
  jb_strings :: "(string list, 'j) document"
  jb_tags :: "(tag_id list, 'j) document"
  jb_effect :: "(effect, 'j) document"
  jb_payload :: "event_payload \<Rightarrow> 'j"
  jb_detail :: "json \<Rightarrow> 'j"
  jb_text :: "'j \<Rightarrow> string \<Rightarrow> string option"
  jb_nil :: 'j
  jb_collate :: "string \<Rightarrow> string"

section \<open>Rows\<close>

record 'j alert_tuple =
  at_fingerprint :: string
  at_labels_hash :: string
  at_group_key :: "string option"
  at_labels :: 'j
  at_annotations :: 'j
  at_starts_at :: time
  at_ends_at :: "time option"
  at_generator_url :: "string option"
  at_status :: string
  at_am_state :: string
  at_severity :: string
  at_silenced_by :: 'j
  at_inhibited_by :: 'j
  at_first_seen_at :: time
  at_last_seen_at :: time
  at_resolved_at :: "time option"
  at_flap_count :: int
  at_updated_at :: time

record 'j event_tuple =
  et_fingerprint :: string
  et_kind :: string
  et_source :: string
  et_starts_at :: time
  et_ends_at :: "time option"
  et_payload :: 'j
  et_received_at :: time

record 'j card_tuple =
  ct_id :: int
  ct_dedupe_key :: string
  ct_fingerprint :: string
  ct_route_id :: int
  ct_guild_id :: int
  ct_channel_id :: int
  ct_message_id :: "int option"
  ct_thread_id :: "int option"
  ct_state :: string
  ct_render_hash :: "string option"
  ct_applied_tags :: 'j
  ct_tags_hash :: "string option"
  ct_pinned :: bool
  ct_archived :: bool
  ct_responded_at :: "time option"
  ct_escalated_at :: "time option"
  ct_supersedes :: "int option"
  ct_resolved_at :: "time option"
  ct_reply_count :: int
  ct_created_at :: time
  ct_updated_at :: time

record 'j item_tuple =
  it_id :: int
  it_lane :: int
  it_kind :: string
  it_dedupe_key :: string
  it_notification_id :: "int option"
  it_payload :: 'j
  it_not_before :: time
  it_attempts :: int
  it_claimed_by :: "string option"
  it_claimed_at :: "time option"
  it_last_error :: "string option"
  it_created_at :: time

record ack_tuple =
  kt_fingerprint :: string
  kt_user_id :: int
  kt_kind :: string
  kt_note :: "string option"
  kt_created_at :: time
  kt_revoked_at :: "time option"

record silence_tuple =
  st_am_id :: string
  st_matchers :: string
  st_starts_at :: time
  st_ends_at :: time
  st_created_by :: string
  st_discord_user_id :: "int option"
  st_origin_message :: "string option"
  st_comment :: string
  st_state :: string
  st_synced_at :: time

record 'j audit_tuple =
  ut_actor :: "int option"
  ut_guild_id :: "int option"
  ut_action :: string
  ut_subject :: "string option"
  ut_detail :: 'j
  ut_result :: string
  ut_created_at :: time

record 'j tuples =
  pt_alerts :: "'j alert_tuple list"
  pt_events :: "'j event_tuple list"
  pt_cards :: "'j card_tuple list"
  pt_next_card :: int
  pt_outbox :: "'j item_tuple list"
  pt_next_item :: int
  pt_acks :: "ack_tuple list"
  pt_silences :: "silence_tuple list"
  pt_audit :: "'j audit_tuple list"

section \<open>Reading columns\<close>

definition doc_column :: "('a, 'j) document \<Rightarrow> 'j \<Rightarrow> string \<Rightarrow> store_error + 'a" where
  "doc_column c raw kind = map_sum (Decode kind) id (snd c raw)"

definition word_column :: "(string \<Rightarrow> core_error + 'a) \<Rightarrow> string \<Rightarrow> string \<Rightarrow> store_error + 'a" where
  "word_column parse raw kind = map_sum (\<lambda>e. Decode kind (core_error_str e)) id (parse raw)"

definition tally_column :: "int \<Rightarrow> nat" where
  "tally_column raw = (if 0 \<le> raw then nat raw else 0)"

definition hash_column :: "string \<Rightarrow> string \<Rightarrow> store_error + fingerprint" where
  "hash_column raw kind = map_sum (\<lambda>e. Decode kind (core_error_str e)) id (new_fingerprint raw)"

definition get_alert :: "'j jsonb \<Rightarrow> 'j alert_tuple \<Rightarrow> store_error + alert_record" where
  "get_alert jb row =
     and_then (hash_column (at_fingerprint row) ''fingerprint'') (\<lambda>fp.
     and_then (doc_column (jb_labels jb) (at_labels row) ''labels'') (\<lambda>ls.
     and_then (doc_column (jb_annotations jb) (at_annotations row) ''annotations'') (\<lambda>anns.
     and_then (word_column alert_status_from_str (at_status row) ''status'') (\<lambda>status.
     and_then (word_column am_state_from_str (at_am_state row) ''am_state'') (\<lambda>state.
     and_then (doc_column (jb_strings jb) (at_silenced_by row) ''silenced_by'') (\<lambda>silenced.
     and_then (doc_column (jb_strings jb) (at_inhibited_by row) ''inhibited_by'') (\<lambda>inhibited.
     Inr \<lparr>ar_alert = \<lparr>al_fingerprint = fp, al_labels = ls, al_annotations = anns, al_starts_at = at_starts_at row,
            al_ends_at = at_ends_at row, al_generator_url = at_generator_url row, al_status = status, al_am_state = state,
            al_silenced_by = silenced, al_inhibited_by = inhibited, al_group_key = map_option GroupKey (at_group_key row)\<rparr>,
          ar_labels_hash = LabelsHash (at_labels_hash row), ar_first_seen_at = at_first_seen_at row,
          ar_last_seen_at = at_last_seen_at row, ar_resolved_at = at_resolved_at row,
          ar_flap_count = tally_column (at_flap_count row), ar_updated_at = at_updated_at row\<rparr>)))))))"

definition get_card :: "'j jsonb \<Rightarrow> 'j card_tuple \<Rightarrow> store_error + notification" where
  "get_card jb row =
     and_then (hash_column (ct_fingerprint row) ''notification fingerprint'') (\<lambda>fp.
     and_then (word_column state_from_str (ct_state row) ''state'') (\<lambda>state.
     and_then (doc_column (jb_tags jb) (ct_applied_tags row) ''applied_tags'') (\<lambda>tags.
     Inr \<lparr>n_id = ct_id row, n_dedupe_key = DedupeKey (ct_dedupe_key row), n_fingerprint = fp, n_route_id = ct_route_id row,
       n_guild_id = from_db (ct_guild_id row), n_channel_id = from_db (ct_channel_id row),
       n_message_id = map_option from_db (ct_message_id row), n_thread_id = map_option from_db (ct_thread_id row),
       n_state = state, n_render_hash = ct_render_hash row, n_applied_tags = tags, n_tags_hash = ct_tags_hash row,
       n_pinned = ct_pinned row, n_archived = ct_archived row, n_responded_at = ct_responded_at row,
       n_escalated_at = ct_escalated_at row, n_supersedes = ct_supersedes row, n_resolved_at = ct_resolved_at row,
       n_reply_count = tally_column (ct_reply_count row), n_created_at = ct_created_at row, n_updated_at = ct_updated_at row\<rparr>)))"

definition get_item :: "'j jsonb \<Rightarrow> 'j item_tuple \<Rightarrow> store_error + outbox_item" where
  "get_item jb row =
     and_then (doc_column (jb_effect jb) (it_payload row) ''payload'') (\<lambda>e.
     Inr \<lparr>ob_id = it_id row, ob_lane = (if 0 \<le> it_lane row \<and> it_lane row < 65536 then nat (it_lane row) else 0),
       ob_effect = e, ob_dedupe_key = DedupeKey (it_dedupe_key row), ob_not_before = it_not_before row,
       ob_attempts = tally_column (it_attempts row), ob_claimed_by = it_claimed_by row, ob_claimed_at = it_claimed_at row,
       ob_last_error = it_last_error row, ob_created_at = it_created_at row\<rparr>)"

definition get_silence :: "silence_tuple \<Rightarrow> store_error + silence_link" where
  "get_silence row =
     and_then (word_column silence_lifecycle_from_str (st_state row) ''state'') (\<lambda>state.
     Inr \<lparr>sl_am_id = st_am_id row, sl_matchers = st_matchers row, sl_starts_at = st_starts_at row, sl_ends_at = st_ends_at row,
       sl_created_by = st_created_by row, sl_discord_user_id = map_option from_db (st_discord_user_id row),
       sl_origin_message = st_origin_message row, sl_comment = st_comment row, sl_state = state,
       sl_synced_at = st_synced_at row\<rparr>)"

definition get_ack :: "ack_tuple \<Rightarrow> store_error + user_id \<times> ack_kind \<times> string option \<times> time" where
  "get_ack row =
     and_then (word_column ack_kind_from_str (kt_kind row) ''kind'') (\<lambda>kind.
     Inr (from_db (kt_user_id row), kind, kt_note row, kt_created_at row))"

fun read_all :: "('r \<Rightarrow> store_error + 'a) \<Rightarrow> 'r list \<Rightarrow> store_error + 'a list" where
  "read_all f [] = Inr []"
| "read_all f (r # rs) = and_then (f r) (\<lambda>x. and_then (read_all f rs) (\<lambda>xs. Inr (x # xs)))"

section \<open>Transactions\<close>

text \<open>
  A transaction that fails leaves the tables as they were, but not the sequences the ids come from: PostgreSQL never
  takes a drawn number back.
\<close>

type_synonym ('j, 'a) pg = "('j tuples, store_error, 'a) action"

definition pg_commit :: "('j, 'a) pg \<Rightarrow> ('j, 'a) pg" where
  "pg_commit m = (\<lambda>s. case m s of
     (Inr x, s') \<Rightarrow> (Inr x, s')
   | (Inl e, s') \<Rightarrow> (Inl e, s\<lparr>pt_next_card := pt_next_card s', pt_next_item := pt_next_item s'\<rparr>))"

definition pg_read :: "('j tuples \<Rightarrow> store_error + 'a) \<Rightarrow> ('j, 'a) pg" where
  "pg_read f = (\<lambda>s. (f s, s))"

text \<open>A statement that changes rows answers with how many it changed.\<close>

definition pg_write :: "('j tuples \<Rightarrow> nat \<times> 'j tuples) \<Rightarrow> ('j, nat) pg" where
  "pg_write f = (\<lambda>s. case f s of (n, s') \<Rightarrow> (Inr n, s'))"

fun pg_each :: "('a \<Rightarrow> ('j, unit) pg) \<Rightarrow> 'a list \<Rightarrow> ('j, unit) pg" where
  "pg_each f [] = act_ret ()"
| "pg_each f (x # xs) = act_bind (f x) (\<lambda>_. pg_each f xs)"

fun pg_map :: "('a \<Rightarrow> ('j, 'b) pg) \<Rightarrow> 'a list \<Rightarrow> ('j, 'b list) pg" where
  "pg_map f [] = act_ret []"
| "pg_map f (x # xs) = act_bind (f x) (\<lambda>y. act_bind (pg_map f xs) (\<lambda>ys. act_ret (y # ys)))"

text \<open>The first row a query finds, if any (\<open>fetch_optional\<close>).\<close>

definition read_first :: "('r \<Rightarrow> store_error + 'a) \<Rightarrow> 'r option \<Rightarrow> store_error + 'a option" where
  "read_first f row = (case row of None \<Rightarrow> Inr None | Some r \<Rightarrow> map_sum id Some (f r))"

end
