(* ===== verification/Postgres_Outbox.thy ===== *)
theory Postgres_Outbox
  imports Postgres_Rows
begin

text \<open>
  The queue on the PostgreSQL backend (\<open>store-postgres/src/store/outbox.rs\<close>), statement by statement. A claim takes the
  ids other transactions have locked as an argument, which its \<open>FOR UPDATE SKIP LOCKED\<close> passes over.
\<close>

section \<open>Enqueueing\<close>

definition pg_fold_item :: "new_outbox_item \<Rightarrow> notification_id \<Rightarrow> 'j jsonb \<Rightarrow> ('j, nat) pg" where
  "pg_fold_item item n jb = pg_write (\<lambda>s.
     let pending = (\<lambda>r. it_claimed_at r = None \<and> it_kind r = effect_kind (no_effect item) \<and> it_notification_id r = Some n)
     in (affected pending (pt_outbox s), s\<lparr>pt_outbox := update_where pending
          (\<lambda>r. r\<lparr>it_payload := fst (jb_effect jb) (no_effect item), it_not_before := min (it_not_before r) (no_not_before item)\<rparr>)
          (pt_outbox s)\<rparr>))"

definition pg_insert_item :: "'j jsonb \<Rightarrow> new_outbox_item \<Rightarrow> time \<Rightarrow> ('j, nat) pg" where
  "pg_insert_item jb item at = pg_write (\<lambda>s.
     (1, s\<lparr>pt_outbox := pt_outbox s @ [\<lparr>it_id = pt_next_item s, it_lane = int (key_lane (no_dedupe_key item) OUTBOX_LANES),
        it_kind = effect_kind (no_effect item), it_dedupe_key = key_str (no_dedupe_key item),
        it_notification_id = effect_notification (no_effect item), it_payload = fst (jb_effect jb) (no_effect item),
        it_not_before = no_not_before item, it_attempts = 0, it_claimed_by = None, it_claimed_at = None, it_last_error = None,
        it_created_at = at\<rparr>], pt_next_item := pt_next_item s + 1\<rparr>))"

definition pg_enqueue :: "'j jsonb \<Rightarrow> time \<Rightarrow> new_outbox_item \<Rightarrow> ('j, unit) pg" where
  "pg_enqueue jb at item =
     act_bind (case effect_notification (no_effect item) of
         Some n \<Rightarrow> if is_coalescable (no_effect item) then pg_fold_item item n jb else act_ret 0
       | None \<Rightarrow> act_ret 0) (\<lambda>folded.
     if 0 < folded then act_ret () else act_bind (pg_insert_item jb item at) (\<lambda>_. act_ret ()))"

definition pg_enqueue_effects :: "'j jsonb \<Rightarrow> new_outbox_item list \<Rightarrow> time \<Rightarrow> ('j, unit) pg" where
  "pg_enqueue_effects jb items at = pg_commit (pg_each (pg_enqueue jb at) items)"

section \<open>Claiming\<close>

abbreviation tuple_order :: "'j item_tuple \<Rightarrow> time \<times> int" where
  "tuple_order r \<equiv> (it_not_before r, it_id r)"

definition pg_claimable :: "lane_assignment option \<Rightarrow> time \<Rightarrow> 'j item_tuple \<Rightarrow> bool" where
  "pg_claimable lane now r \<longleftrightarrow> it_claimed_at r = None \<and> it_not_before r \<le> now \<and>
     (case lane of Some l \<Rightarrow> it_lane r mod int (la_of l) = int (la_index l) | None \<Rightarrow> True)"

definition pg_claim_ids :: "int set \<Rightarrow> claim_request \<Rightarrow> time \<Rightarrow> 'j tuples \<Rightarrow> int list" where
  "pg_claim_ids locked req now s = map it_id (take (cr_limit req) (sort_key tuple_order
     (filter (\<lambda>r. pg_claimable (cr_lane req) now r \<and> it_id r \<notin> locked) (pt_outbox s))))"

definition pg_mark_claimed :: "worker_id \<Rightarrow> time \<Rightarrow> int list \<Rightarrow> ('j, nat) pg" where
  "pg_mark_claimed w now ids = pg_write (\<lambda>s. (affected (\<lambda>r. it_id r \<in> set ids) (pt_outbox s),
     s\<lparr>pt_outbox := update_where (\<lambda>r. it_id r \<in> set ids)
       (\<lambda>r. r\<lparr>it_claimed_by := Some w, it_claimed_at := Some now, it_attempts := it_attempts r + 1\<rparr>) (pt_outbox s)\<rparr>))"

definition pg_take_ids :: "'j jsonb \<Rightarrow> worker_id \<Rightarrow> time \<Rightarrow> int list \<Rightarrow> ('j, outbox_item list) pg" where
  "pg_take_ids jb w now ids = (if ids = [] then act_ret []
     else act_bind (pg_mark_claimed w now ids) (\<lambda>_.
       pg_read (\<lambda>s. read_all (get_item jb) (sort_key tuple_order (filter (\<lambda>r. it_id r \<in> set ids) (pt_outbox s))))))"

definition pg_claim_outbox :: "'j jsonb \<Rightarrow> int set \<Rightarrow> worker_id \<Rightarrow> claim_request \<Rightarrow> time \<Rightarrow> ('j, outbox_item list) pg" where
  "pg_claim_outbox jb locked w req now =
     pg_commit (act_bind (pg_read (\<lambda>s. Inr (pg_claim_ids locked req now s))) (pg_take_ids jb w now))"

section \<open>Settling\<close>

definition pg_take_claim :: "'j jsonb \<Rightarrow> worker_id \<Rightarrow> outbox_id \<Rightarrow> ('j, effect) pg" where
  "pg_take_claim jb w i = pg_read (\<lambda>s. case find (\<lambda>r. it_id r = i) (pt_outbox s) of
     None \<Rightarrow> Inl (LeaseLost i)
   | Some r \<Rightarrow> if it_claimed_by r \<noteq> Some w then Inl (LeaseLost i) else doc_column (jb_effect jb) (it_payload r) ''outbox effect'')"

text \<open>The unique index on (channel, key) and the one on the message, by the names PostgreSQL reports.\<close>

definition PG_KEY_INDEX :: string where "PG_KEY_INDEX = ''notifications_channel_id_dedupe_key_key''"
definition PG_MESSAGE_INDEX :: string where "PG_MESSAGE_INDEX = ''notifications_message''"

definition pg_write_cards :: "('j tuples \<Rightarrow> nat \<times> 'j card_tuple list) \<Rightarrow> ('j, nat) pg" where
  "pg_write_cards f = (\<lambda>s. case f s of (n, rows) \<Rightarrow>
     if n = 0 then (Inr 0, s)
     else if \<not> distinct (map (\<lambda>r. (ct_channel_id r, ct_dedupe_key r)) rows) then (Inl (Conflict PG_KEY_INDEX), s)
     else if \<not> distinct (List.map_filter ct_message_id rows) then (Inl (Conflict PG_MESSAGE_INDEX), s)
     else (Inr n, s\<lparr>pt_cards := rows\<rparr>))"

definition pg_update_cards :: "('j card_tuple \<Rightarrow> bool) \<Rightarrow> ('j card_tuple \<Rightarrow> 'j card_tuple) \<Rightarrow> ('j, nat) pg" where
  "pg_update_cards P f = pg_write_cards (\<lambda>s. (affected P (pt_cards s), update_where P f (pt_cards s)))"

text \<open>An update by id that must find its card.\<close>

definition pg_one_card :: "notification_id \<Rightarrow> ('j card_tuple \<Rightarrow> 'j card_tuple) \<Rightarrow> ('j, unit) pg" where
  "pg_one_card i f = act_bind (pg_update_cards (\<lambda>r. ct_id r = i) f) (\<lambda>n.
     if n = 0 then act_fail (no_such_notification i) else act_ret ())"

definition pg_apply_to_card :: "'j jsonb \<Rightarrow> notification_id \<Rightarrow> applied_effect \<Rightarrow> time \<Rightarrow> ('j, unit) pg" where
  "pg_apply_to_card jb i a now = pg_one_card i (\<lambda>r. r\<lparr>ct_updated_at := now,
     ct_message_id := coalesce (map_option to_db (ae_message_id a)) (ct_message_id r),
     ct_thread_id := coalesce (map_option to_db (ae_thread_id a)) (ct_thread_id r),
     ct_render_hash := coalesce (ae_render_hash a) (ct_render_hash r),
     ct_applied_tags := (case ae_applied_tags a of Some t \<Rightarrow> fst (jb_tags jb) t | None \<Rightarrow> ct_applied_tags r),
     ct_tags_hash := coalesce (ae_tags_hash a) (ct_tags_hash r),
     ct_pinned := (case ae_pinned a of Some p \<Rightarrow> p | None \<Rightarrow> ct_pinned r),
     ct_archived := (case ae_archived a of Some p \<Rightarrow> p | None \<Rightarrow> ct_archived r)\<rparr>)"

definition pg_write_silence :: "silence_link \<Rightarrow> ('j, nat) pg" where
  "pg_write_silence l = pg_write (\<lambda>s.
     let row = \<lparr>st_am_id = sl_am_id l, st_matchers = sl_matchers l, st_starts_at = sl_starts_at l, st_ends_at = sl_ends_at l,
           st_created_by = sl_created_by l, st_discord_user_id = map_option to_db (sl_discord_user_id l),
           st_origin_message = sl_origin_message l, st_comment = sl_comment l, st_state = silence_lifecycle_str (sl_state l),
           st_synced_at = sl_synced_at l\<rparr>;
         same = (\<lambda>r. st_am_id r = sl_am_id l)
     in (1, s\<lparr>pt_silences := (if list_ex same (pt_silences s)
          then update_where same (\<lambda>r. row\<lparr>st_am_id := st_am_id r\<rparr>) (pt_silences s) else pt_silences s @ [row])\<rparr>))"

definition pg_expire_silence :: "string \<Rightarrow> time \<Rightarrow> ('j, nat) pg" where
  "pg_expire_silence am_id now = pg_write (\<lambda>s. let same = (\<lambda>r. st_am_id r = am_id) in
     (affected same (pt_silences s), s\<lparr>pt_silences := update_where same
        (\<lambda>r. r\<lparr>st_state := ''expired'', st_synced_at := now\<rparr>) (pt_silences s)\<rparr>))"

definition pg_delete_item :: "outbox_id \<Rightarrow> ('j, nat) pg" where
  "pg_delete_item i = pg_write (\<lambda>s. (affected (\<lambda>r. it_id r = i) (pt_outbox s),
     s\<lparr>pt_outbox := filter (\<lambda>r. it_id r \<noteq> i) (pt_outbox s)\<rparr>))"

definition pg_settle_silence :: "effect \<Rightarrow> applied_effect \<Rightarrow> time \<Rightarrow> ('j, nat) pg" where
  "pg_settle_silence e a now = (case e of
     CreateSilence req \<Rightarrow> (case ae_am_silence_id a of
         Some am_id \<Rightarrow> pg_write_silence \<lparr>sl_am_id = am_id, sl_matchers = sf_matchers req, sl_starts_at = sf_starts_at req,
           sl_ends_at = sf_ends_at req, sl_created_by = sf_created_by req, sl_discord_user_id = sf_discord_user_id req,
           sl_origin_message = sf_origin_message req, sl_comment = sf_comment req, sl_state = SilenceActive, sl_synced_at = now\<rparr>
       | None \<Rightarrow> act_ret 0)
   | ExpireSilence am_id \<Rightarrow> pg_expire_silence am_id now
   | _ \<Rightarrow> act_ret 0)"

definition pg_complete_outbox :: "'j jsonb \<Rightarrow> worker_id \<Rightarrow> outbox_id \<Rightarrow> applied_effect \<Rightarrow> time \<Rightarrow> ('j, unit) pg" where
  "pg_complete_outbox jb w i a now = pg_commit
     (act_bind (pg_take_claim jb w i) (\<lambda>e.
      act_bind (case effect_notification e of Some n \<Rightarrow> pg_apply_to_card jb n a now | None \<Rightarrow> act_ret ()) (\<lambda>_.
      act_bind (pg_settle_silence e a now) (\<lambda>_.
      act_bind (pg_delete_item i) (\<lambda>_. act_ret ())))))"

definition pg_release_item :: "outbox_id \<Rightarrow> time \<Rightarrow> string \<Rightarrow> ('j, nat) pg" where
  "pg_release_item i t err = pg_write (\<lambda>s. (affected (\<lambda>r. it_id r = i) (pt_outbox s),
     s\<lparr>pt_outbox := update_where (\<lambda>r. it_id r = i) (\<lambda>r. r\<lparr>it_claimed_by := None, it_claimed_at := None,
       it_not_before := t, it_last_error := Some err\<rparr>) (pt_outbox s)\<rparr>))"

definition pg_fail_outbox :: "'j jsonb \<Rightarrow> worker_id \<Rightarrow> outbox_id \<Rightarrow> string \<Rightarrow> time option \<Rightarrow> ('j, unit) pg" where
  "pg_fail_outbox jb w i err retry_at = pg_commit
     (act_bind (pg_take_claim jb w i) (\<lambda>_.
      act_bind (case retry_at of Some t \<Rightarrow> pg_release_item i t err | None \<Rightarrow> pg_delete_item i) (\<lambda>_. act_ret ())))"

definition pg_reclaim_expired :: "time \<Rightarrow> time \<Rightarrow> ('j, nat) pg" where
  "pg_reclaim_expired older_than now = pg_write (\<lambda>s.
     let expired = (\<lambda>r. it_claimed_at r \<noteq> None \<and> the (it_claimed_at r) < older_than)
     in (affected expired (pt_outbox s), s\<lparr>pt_outbox := update_where expired
          (\<lambda>r. r\<lparr>it_claimed_by := None, it_claimed_at := None, it_not_before := now\<rparr>) (pt_outbox s)\<rparr>))"

text \<open>\<open>GROUP BY kind ORDER BY kind\<close>, in the order of the database.\<close>

definition pg_outbox_depth :: "'j jsonb \<Rightarrow> 'j tuples \<Rightarrow> (string \<times> nat) list" where
  "pg_outbox_depth jb s = (let pending = filter (\<lambda>r. it_claimed_at r = None) (pt_outbox s)
     in map (\<lambda>k. (k, affected (\<lambda>r. it_kind r = k) pending))
          (sort_key (jb_collate jb) (dedup (sort (map it_kind pending)))))"

end
