(* ===== verification/Postgres_Cards.thy ===== *)
theory Postgres_Cards
  imports Postgres_Outbox Sqlite_Cards
begin

text \<open>
  Cards and acknowledgements on the PostgreSQL backend (\<open>store-postgres/src/store/notifications.rs\<close>), statement by
  statement. A retired key is put together by the database, from the words of the statement, the id and the old key.
\<close>

section \<open>Applying a decision\<close>

text \<open>The sequence moves on before the index is asked.\<close>

definition pg_insert_notification :: "'j jsonb \<Rightarrow> new_notification \<Rightarrow> ('j, notification_id) pg" where
  "pg_insert_notification jb c = (\<lambda>s. let i = pt_next_card s in
     act_bind (pg_write_cards (\<lambda>s. (1, pt_cards s @ [\<lparr>ct_id = i, ct_dedupe_key = key_str (nn_dedupe_key c),
         ct_fingerprint = fp_str (nn_fingerprint c), ct_route_id = nn_route_id c, ct_guild_id = to_db (nn_guild_id c),
         ct_channel_id = to_db (nn_channel_id c), ct_message_id = None, ct_thread_id = None, ct_state = state_str (nn_state c),
         ct_render_hash = None, ct_applied_tags = jb_nil jb, ct_tags_hash = None, ct_pinned = False, ct_archived = False,
         ct_responded_at = None, ct_escalated_at = None, ct_supersedes = nn_supersedes c, ct_resolved_at = None,
         ct_reply_count = 0, ct_created_at = nn_created_at c, ct_updated_at = nn_created_at c\<rparr>])))
       (\<lambda>_. act_ret i) (s\<lparr>pt_next_card := i + 1\<rparr>))"

definition pg_set_card_alert :: "notification_id \<Rightarrow> fingerprint \<Rightarrow> time \<Rightarrow> ('j, unit) pg" where
  "pg_set_card_alert i f now = pg_one_card i (\<lambda>r. r\<lparr>ct_fingerprint := fp_str f, ct_updated_at := now\<rparr>)"

definition pg_retire_key :: "notification_id \<Rightarrow> dedupe_key \<Rightarrow> ('j, nat) pg" where
  "pg_retire_key i key = pg_update_cards (\<lambda>r. ct_id r = i \<and> ct_dedupe_key r = key_str key)
     (\<lambda>r. r\<lparr>ct_dedupe_key := ''superseded:'' @ show_int (ct_id r) @ '':'' @ ct_dedupe_key r\<rparr>)"

definition pg_move_state :: "notification_id \<Rightarrow> notification_state \<Rightarrow> time \<Rightarrow> ('j, unit) pg" where
  "pg_move_state i st now = pg_one_card i (\<lambda>r. r\<lparr>ct_state := state_str st, ct_updated_at := now,
     ct_resolved_at := (if state_str st = ''resolved'' then coalesce (ct_resolved_at r) (Some now) else None)\<rparr>)"

definition pg_new_card :: "'j jsonb \<Rightarrow> time \<Rightarrow> planned_card \<Rightarrow> ('j, notification_id) pg" where
  "pg_new_card jb at p =
     act_bind (case nn_supersedes (pc_card p) of
         Some replaced \<Rightarrow> pg_retire_key replaced (nn_dedupe_key (pc_card p)) | None \<Rightarrow> act_ret 0) (\<lambda>_.
     act_bind (pg_insert_notification jb (pc_card p)) (\<lambda>i.
     act_bind (pg_enqueue jb at \<lparr>no_effect = PostCard i (pc_mention p), no_dedupe_key = nn_dedupe_key (pc_card p),
        no_not_before = pc_not_before p\<rparr>) (\<lambda>_. act_ret i)))"

definition pg_update :: "'j jsonb \<Rightarrow> time \<Rightarrow> card_update \<Rightarrow> ('j, unit) pg" where
  "pg_update jb at u =
     act_bind (pg_set_card_alert (cu_id u) (cu_fingerprint u) at) (\<lambda>_.
     act_bind (case cu_state u of Some st \<Rightarrow> pg_move_state (cu_id u) st at | None \<Rightarrow> act_ret ()) (\<lambda>_.
     pg_each (pg_enqueue jb at) (cu_effects u)))"

definition pg_apply_decision :: "'j jsonb \<Rightarrow> decision \<Rightarrow> ('j, notification_id list) pg" where
  "pg_apply_decision jb d = pg_commit
     (act_bind (pg_map (pg_new_card jb (de_at d)) (de_new_cards d)) (\<lambda>created.
      act_bind (pg_each (pg_update jb (de_at d)) (de_updates d)) (\<lambda>_. act_ret created)))"

section \<open>Acknowledging\<close>

definition pg_standing :: "string \<Rightarrow> ack_tuple \<Rightarrow> bool" where
  "pg_standing f r \<longleftrightarrow> kt_fingerprint r = f \<and> kt_revoked_at r = None"

definition pg_revoke_ack :: "ack_command \<Rightarrow> ('j, nat) pg" where
  "pg_revoke_ack c = pg_write (\<lambda>s. let standing = pg_standing (fp_str (ac_fingerprint c)) in
     (affected standing (pt_acks s), s\<lparr>pt_acks := update_where standing (\<lambda>r. r\<lparr>kt_revoked_at := Some (ac_at c)\<rparr>) (pt_acks s)\<rparr>))"

text \<open>\<open>ON CONFLICT DO NOTHING\<close> on the index of standing acknowledgements.\<close>

definition pg_insert_ack :: "ack_command \<Rightarrow> ('j, nat) pg" where
  "pg_insert_ack c = pg_write (\<lambda>s.
     if list_ex (pg_standing (fp_str (ac_fingerprint c))) (pt_acks s) then (0, s)
     else (1, s\<lparr>pt_acks := pt_acks s @ [\<lparr>kt_fingerprint = fp_str (ac_fingerprint c), kt_user_id = to_db (ac_user_id c),
       kt_kind = ack_kind_str (ac_kind c), kt_note = ac_note c, kt_created_at = ac_at c, kt_revoked_at = None\<rparr>]\<rparr>))"

definition pg_cards_for :: "'j jsonb \<Rightarrow> fingerprint \<Rightarrow> ('j, notification list) pg" where
  "pg_cards_for jb f = pg_read (\<lambda>s. read_all (get_card jb) (sort_key ct_id (filter (\<lambda>r. ct_state r \<noteq> ''orphaned'' \<and>
     (ct_fingerprint r = fp_str f \<or> ct_dedupe_key r = key_str (per_alert f))) (pt_cards s))))"

definition pg_ack_card :: "trigger \<Rightarrow> bool \<Rightarrow> time \<Rightarrow> notification \<Rightarrow> ('j, notification) pg" where
  "pg_ack_card t acknowledged at n = (case next_state (n_state n) t acknowledged of
     None \<Rightarrow> act_ret n
   | Some st \<Rightarrow> act_bind (pg_move_state (n_id n) st at) (\<lambda>_. act_ret (n\<lparr>n_state := st, n_updated_at := at\<rparr>)))"

definition pg_acknowledge :: "'j jsonb \<Rightarrow> ack_command \<Rightarrow> ('j, ack_outcome) pg" where
  "pg_acknowledge jb c = pg_commit
     (act_bind (if ac_revoke c then pg_revoke_ack c else pg_insert_ack c) (\<lambda>n.
      act_bind (pg_read (\<lambda>s. Inr (find (pg_standing (fp_str (ac_fingerprint c))) (pt_acks s)))) (\<lambda>holder.
      act_bind (pg_cards_for jb (ac_fingerprint c)) (\<lambda>cards.
      act_bind (if 0 < n then pg_map (pg_ack_card (if ac_revoke c then TAckRevoked else TAcknowledged) (holder \<noteq> None) (ac_at c)) cards
          else act_ret cards) (\<lambda>cards'.
      act_ret \<lparr>ao_changed = 0 < n, ao_holder = map_option (\<lambda>r. from_db (kt_user_id r)) holder,
        ao_acknowledged_at = map_option kt_created_at holder, ao_cards = cards'\<rparr>)))))"

definition pg_acknowledgement :: "fingerprint \<Rightarrow> 'j tuples \<Rightarrow> store_error + (user_id \<times> ack_kind \<times> string option \<times> time) option" where
  "pg_acknowledgement f s = read_first get_ack (find (pg_standing (fp_str f)) (pt_acks s))"

section \<open>Replies, lookups, orphaning, escalation\<close>

definition pg_record_reply :: "'j jsonb \<Rightarrow> thread_reply \<Rightarrow> ('j, notification option) pg" where
  "pg_record_reply jb reply = pg_commit
     (act_bind (pg_read (\<lambda>s. read_first (get_card jb) (find (\<lambda>r. ct_thread_id r = Some (to_db (tr_thread_id reply))) (pt_cards s)))) (\<lambda>found.
      case found of
        None \<Rightarrow> act_ret None
      | Some n \<Rightarrow> act_bind (pg_update_cards (\<lambda>r. ct_id r = n_id n) (\<lambda>r. r\<lparr>ct_reply_count := ct_reply_count r + 1,
             ct_responded_at := coalesce (ct_responded_at r) (Some (tr_at reply)), ct_updated_at := tr_at reply\<rparr>)) (\<lambda>_.
          act_ret (if n_responded_at n = None
            then Some (n\<lparr>n_reply_count := sat_add_u32 (n_reply_count n) 1, n_updated_at := tr_at reply,
                   n_responded_at := Some (tr_at reply)\<rparr>)
            else None))))"

definition pg_notification_for :: "'j jsonb \<Rightarrow> dedupe_key \<Rightarrow> channel_id \<Rightarrow> 'j tuples \<Rightarrow> store_error + notification option" where
  "pg_notification_for jb key channel s =
     read_first (get_card jb) (find (\<lambda>r. ct_dedupe_key r = key_str key \<and> ct_channel_id r = to_db channel) (pt_cards s))"

definition pg_notification_for_thread :: "'j jsonb \<Rightarrow> channel_id \<Rightarrow> 'j tuples \<Rightarrow> store_error + notification option" where
  "pg_notification_for_thread jb thread s =
     read_first (get_card jb) (find (\<lambda>r. ct_thread_id r = Some (to_db thread)) (pt_cards s))"

definition pg_notification :: "'j jsonb \<Rightarrow> notification_id \<Rightarrow> 'j tuples \<Rightarrow> store_error + notification option" where
  "pg_notification jb i s = read_first (get_card jb) (find (\<lambda>r. ct_id r = i) (pt_cards s))"

definition pg_set_notification_state :: "notification_id \<Rightarrow> notification_state \<Rightarrow> time \<Rightarrow> ('j, unit) pg" where
  "pg_set_notification_state i st now = pg_commit (pg_move_state i st now)"

definition pg_orphan_notification :: "notification_id \<Rightarrow> time \<Rightarrow> ('j, unit) pg" where
  "pg_orphan_notification i now = pg_commit (pg_one_card i (\<lambda>r. r\<lparr>ct_state := ''orphaned'', ct_message_id := None, ct_pinned := False,
     ct_dedupe_key := ''orphaned:'' @ show_int (ct_id r) @ '':'' @ ct_dedupe_key r, ct_updated_at := now\<rparr>))"

definition pg_pinned_posts :: "channel_id \<Rightarrow> 'j tuples \<Rightarrow> nat" where
  "pg_pinned_posts channel s =
     (let n = affected (\<lambda>r. ct_channel_id r = to_db channel \<and> ct_pinned r) (pt_cards s) in if n \<le> u32_max then n else u32_max)"

abbreviation tuple_age :: "'j card_tuple \<Rightarrow> time \<times> int" where
  "tuple_age r \<equiv> (ct_created_at r, ct_id r)"

definition pg_live_cards :: "'j jsonb \<Rightarrow> route_id list \<Rightarrow> nat \<Rightarrow> 'j tuples \<Rightarrow> store_error + notification list" where
  "pg_live_cards jb routes limit s = (if routes = [] then Inr []
     else read_all (get_card jb) (take limit (sort_key tuple_age (filter (\<lambda>r. ct_message_id r \<noteq> None \<and>
       ct_state r \<notin> {''resolved'', ''orphaned''} \<and> ct_route_id r \<in> set routes) (pt_cards s)))))"

definition pg_pending_escalations :: "'j jsonb \<Rightarrow> time \<Rightarrow> nat \<Rightarrow> 'j tuples \<Rightarrow> store_error + notification list" where
  "pg_pending_escalations jb created_before limit s =
     read_all (get_card jb) (take limit (sort_key tuple_age (filter (\<lambda>r. ct_escalated_at r = None \<and> ct_message_id r \<noteq> None \<and>
       ct_state r = state_str Firing \<and> ct_created_at r \<le> created_before) (pt_cards s))))"

definition pg_mark_escalated :: "notification_id \<Rightarrow> time \<Rightarrow> ('j, bool) pg" where
  "pg_mark_escalated i at =
     act_bind (pg_update_cards (\<lambda>r. ct_id r = i \<and> ct_escalated_at r = None)
         (\<lambda>r. r\<lparr>ct_escalated_at := Some at, ct_updated_at := at\<rparr>)) (\<lambda>n.
     if 0 < n then act_ret True
     else act_bind (pg_read (\<lambda>s. Inr (list_ex (\<lambda>r. ct_id r = i) (pt_cards s)))) (\<lambda>exists.
       if exists then act_ret False else act_fail (no_such_notification i)))"

end
