(* ===== verification/Postgres_Alerts.thy ===== *)
theory Postgres_Alerts
  imports Postgres_Outbox Sqlite_Alerts
begin

text \<open>
  Alerts, events, silences, the audit log and retention on the PostgreSQL backend (\<open>store-postgres/src/store/alerts.rs\<close>
  and \<open>audit.rs\<close>), statement by statement. A query without \<open>ORDER BY\<close> is given in insertion order. The classification
  of a delivery, \<open>carry_over\<close> and \<open>suppression_map\<close> are shared with the other backend.
\<close>

section \<open>Rows\<close>

definition pg_read_alert :: "'j jsonb \<Rightarrow> fingerprint \<Rightarrow> 'j tuples \<Rightarrow> store_error + alert_record option" where
  "pg_read_alert jb f s = read_first (get_alert jb) (find (\<lambda>r. at_fingerprint r = fp_str f) (pt_alerts s))"

definition pg_touch_alert :: "fingerprint \<Rightarrow> time \<Rightarrow> ('j, nat) pg" where
  "pg_touch_alert f at = pg_write (\<lambda>s. let same = (\<lambda>r. at_fingerprint r = fp_str f) in
     (affected same (pt_alerts s), s\<lparr>pt_alerts := update_where same (\<lambda>r. r\<lparr>at_last_seen_at := at\<rparr>) (pt_alerts s)\<rparr>))"

text \<open>The row proposed for insertion, \<open>excluded\<close> in the conflict clause, which keeps the first sighting.\<close>

definition pg_excluded :: "'j jsonb \<Rightarrow> alert \<Rightarrow> transition \<Rightarrow> time \<Rightarrow> 'j alert_tuple" where
  "pg_excluded jb a tn at = \<lparr>at_fingerprint = fp_str (al_fingerprint a), at_labels_hash = lh_str (labels_hash (al_labels a)),
     at_group_key = map_option gk_str (al_group_key a), at_labels = fst (jb_labels jb) (al_labels a),
     at_annotations = fst (jb_annotations jb) (al_annotations a), at_starts_at = al_starts_at a, at_ends_at = al_ends_at a,
     at_generator_url = al_generator_url a, at_status = alert_status_str (al_status a), at_am_state = am_state_str (al_am_state a),
     at_severity = severity_str (alert_severity a), at_silenced_by = fst (jb_strings jb) (al_silenced_by a),
     at_inhibited_by = fst (jb_strings jb) (al_inhibited_by a), at_first_seen_at = tn_first_seen_at tn, at_last_seen_at = at,
     at_resolved_at = tn_resolved_at tn,
     at_flap_count = (if int (tn_flap_count tn) \<le> I32_MAX then int (tn_flap_count tn) else I32_MAX), at_updated_at = at\<rparr>"

definition pg_upsert_alert :: "'j jsonb \<Rightarrow> alert \<Rightarrow> transition \<Rightarrow> time \<Rightarrow> ('j, nat) pg" where
  "pg_upsert_alert jb a tn at = pg_write (\<lambda>s.
     let row = pg_excluded jb a tn at; same = (\<lambda>r. at_fingerprint r = at_fingerprint row)
     in (1, s\<lparr>pt_alerts := (if list_ex same (pt_alerts s)
          then update_where same (\<lambda>r. row\<lparr>at_first_seen_at := at_first_seen_at r\<rparr>) (pt_alerts s) else pt_alerts s @ [row])\<rparr>))"

definition pg_event_key :: "'j event_tuple \<Rightarrow> string \<times> string \<times> time \<times> time" where
  "pg_event_key r = (et_fingerprint r, et_kind r, et_starts_at r, (case et_ends_at r of Some t \<Rightarrow> t | None \<Rightarrow> 0))"

definition pg_append_event ::
  "'j jsonb \<Rightarrow> alert \<Rightarrow> alert_record option \<Rightarrow> transition \<Rightarrow> event_source \<Rightarrow> time \<Rightarrow> ('j, nat) pg" where
  "pg_append_event jb a previous tn source at =
     (let payload = (if tn_kind tn = EUpdated
            then UpdatedPayload (case previous of None \<Rightarrow> al_annotations a
               | Some p \<Rightarrow> changed_from (al_annotations a) (al_annotations (ar_alert p)))
            else TransitionPayload (al_status a) (al_am_state a) (alert_severity a) (al_silenced_by a));
          row = \<lparr>et_fingerprint = fp_str (al_fingerprint a), et_kind = event_kind_str (tn_kind tn),
            et_source = event_source_str source, et_starts_at = al_starts_at a, et_ends_at = al_ends_at a,
            et_payload = jb_payload jb payload, et_received_at = at\<rparr>
      in pg_write (\<lambda>s. if list_ex (\<lambda>r. pg_event_key r = pg_event_key row) (pt_events s) then (0, s)
           else (1, s\<lparr>pt_events := pt_events s @ [row]\<rparr>)))"

section \<open>Ingesting a batch\<close>

definition pg_ingest_one :: "'j jsonb \<Rightarrow> duration \<Rightarrow> bool \<Rightarrow> ingest_batch \<Rightarrow> alert \<Rightarrow> ingest_outcome \<Rightarrow> ('j, ingest_outcome) pg" where
  "pg_ingest_one jb regroup persist b incoming out =
     (let keyed = (if al_group_key incoming = None then incoming\<lparr>al_group_key := ib_group_key b\<rparr> else incoming) in
      act_bind (pg_read (pg_read_alert jb (al_fingerprint keyed))) (\<lambda>previous.
      let a = carry_over previous keyed in
      case classify previous a (ib_received_at b) regroup of
        None \<Rightarrow> act_bind (pg_touch_alert (al_fingerprint a) (ib_received_at b)) (\<lambda>_.
          act_ret (out\<lparr>io_duplicates := sat_add_u32 (io_duplicates out) 1\<rparr>))
      | Some tn \<Rightarrow> act_bind (pg_upsert_alert jb a tn (ib_received_at b)) (\<lambda>_.
          act_bind (if persist then pg_append_event jb a previous tn (ib_source b) (ib_received_at b) else act_ret 0) (\<lambda>_.
          act_ret (out\<lparr>io_deltas := io_deltas out @ [\<lparr>d_kind = tn_kind tn, d_source = ib_source b, d_alert = a,
            d_flap_count = tn_flap_count tn, d_observed_at = ib_received_at b\<rparr>]\<rparr>)))))"

fun pg_ingest_all :: "'j jsonb \<Rightarrow> duration \<Rightarrow> bool \<Rightarrow> ingest_batch \<Rightarrow> alert list \<Rightarrow> ingest_outcome \<Rightarrow> ('j, ingest_outcome) pg" where
  "pg_ingest_all jb regroup persist b [] out = act_ret out"
| "pg_ingest_all jb regroup persist b (a # as) out =
     act_bind (pg_ingest_one jb regroup persist b a out) (pg_ingest_all jb regroup persist b as)"

definition pg_ingest_batch :: "'j jsonb \<Rightarrow> duration \<Rightarrow> bool \<Rightarrow> ingest_batch \<Rightarrow> ('j, ingest_outcome) pg" where
  "pg_ingest_batch jb regroup persist b =
     pg_commit (pg_ingest_all jb regroup persist b (ib_alerts b) \<lparr>io_deltas = [], io_duplicates = 0\<rparr>)"

section \<open>Reads\<close>

text \<open>An absent label is compared as the empty text, a null parameter constrains nothing.\<close>

definition pg_admits :: "'j jsonb \<Rightarrow> sql_alert_filter \<Rightarrow> 'j tuples \<Rightarrow> 'j alert_tuple \<Rightarrow> bool" where
  "pg_admits jb f s r \<longleftrightarrow>
     (length (sq_statuses f) = 0 \<or> at_status r \<in> set (sq_statuses f)) \<and>
     (length (sq_severities f) = 0 \<or> at_severity r \<in> set (sq_severities f)) \<and>
     \<not> list_ex (\<lambda>(name, expected, equal).
         ((case jb_text jb (at_labels r) name of Some v \<Rightarrow> v | None \<Rightarrow> []) = expected) \<noteq> equal)
       (zip (sq_label_names f) (zip (sq_label_values f) (sq_label_equal f))) \<and>
     (case sq_notification_state f of None \<Rightarrow> True
      | Some st \<Rightarrow> list_ex (\<lambda>n. ct_dedupe_key n = ''a:'' @ at_fingerprint r \<and> ct_state n = st) (pt_cards s))"

definition pg_filtered :: "'j jsonb \<Rightarrow> sql_alert_filter \<Rightarrow> 'j tuples \<Rightarrow> 'j alert_tuple list" where
  "pg_filtered jb f s = sort_key (\<lambda>r. (- at_last_seen_at r, jb_collate jb (at_fingerprint r))) (filter (pg_admits jb f s) (pt_alerts s))"

definition pg_scan_alerts :: "'j jsonb \<Rightarrow> regex_engine \<Rightarrow> alert_query \<Rightarrow> 'j tuples \<Rightarrow> store_error + alert_record page" where
  "pg_scan_alerts jb rx q s =
     and_then (read_all (get_alert jb) (take IN_MEMORY_SCAN_LIMIT (pg_filtered jb (from_query rx q) s))) (\<lambda>rows.
     let matched = filter (\<lambda>r. matches_regex_matchers rx r q) rows
     in Inr \<lparr>pg_items = take (aq_limit q) (drop (aq_offset q) matched), pg_total = length matched,
          pg_offset = aq_offset q, pg_limit = aq_limit q\<rparr>)"

definition pg_query_alerts :: "'j jsonb \<Rightarrow> regex_engine \<Rightarrow> (core_error \<Rightarrow> string) \<Rightarrow> alert_query \<Rightarrow> 'j tuples \<Rightarrow> store_error + alert_record page" where
  "pg_query_alerts jb rx shows' q s = (case first_compile_error rx (aq_matchers q) of
     Some e \<Rightarrow> Inl (Decode ''query matcher'' (shows' e))
   | None \<Rightarrow> if needs_in_memory_filter q then pg_scan_alerts jb rx q s
       else let rows = pg_filtered jb (from_query rx q) s
         in and_then (read_all (get_alert jb) (take (aq_limit q) (drop (aq_offset q) rows))) (\<lambda>items.
            Inr \<lparr>pg_items = items, pg_total = length rows, pg_offset = aq_offset q, pg_limit = aq_limit q\<rparr>))"

definition pg_firing_alerts_named :: "'j jsonb \<Rightarrow> string option \<Rightarrow> 'j tuples \<Rightarrow> store_error + alert_record list" where
  "pg_firing_alerts_named jb name s = read_all (get_alert jb) (sort_key (\<lambda>r. jb_collate jb (at_fingerprint r))
     (filter (\<lambda>r. at_status r = ''firing'' \<and> (case name of Some n \<Rightarrow> jb_text jb (at_labels r) ''alertname'' = Some n
        | None \<Rightarrow> jb_text jb (at_labels r) ''alertname'' = None)) (pt_alerts s)))"

definition pg_firing_not_in :: "'j jsonb \<Rightarrow> fingerprint list \<Rightarrow> time \<Rightarrow> 'j tuples \<Rightarrow> store_error + alert_record list" where
  "pg_firing_not_in jb present cutoff s =
     and_then (read_all (get_alert jb) (filter (\<lambda>r. at_status r = ''firing'' \<and> at_last_seen_at r < cutoff) (pt_alerts s))) (\<lambda>rows.
     Inr (filter (\<lambda>r. fp_str (al_fingerprint (ar_alert r)) \<notin> fp_str ` set present) rows))"

section \<open>Silences\<close>

definition pg_record_silence :: "silence_link \<Rightarrow> ('j, unit) pg" where
  "pg_record_silence link = pg_commit (act_bind (pg_write_silence link) (\<lambda>_. act_ret ()))"

definition pg_sync_link :: "time \<Rightarrow> silence_state \<Rightarrow> ('j, unit) pg" where
  "pg_sync_link now sil = act_bind (pg_write (\<lambda>s. let same = (\<lambda>r. st_am_id r = ss_am_id sil) in
       (affected same (pt_silences s), s\<lparr>pt_silences := update_where same
          (\<lambda>r. r\<lparr>st_state := silence_lifecycle_str (ss_state sil), st_ends_at := ss_ends_at sil, st_synced_at := now\<rparr>)
          (pt_silences s)\<rparr>))) (\<lambda>_. act_ret ())"

fun pg_missing_candidates :: "'j jsonb \<Rightarrow> string list \<Rightarrow> fingerprint list \<Rightarrow> 'j tuples \<Rightarrow> store_error + alert_record list" where
  "pg_missing_candidates jb known [] s = Inr []"
| "pg_missing_candidates jb known (f # fs) s =
     and_then (if fp_str f \<in> set known then Inr None else pg_read_alert jb f s) (\<lambda>found.
     and_then (pg_missing_candidates jb known fs s) (\<lambda>rest.
     Inr (case found of Some r \<Rightarrow> r # rest | None \<Rightarrow> rest)))"

definition pg_candidates :: "'j jsonb \<Rightarrow> suppression \<Rightarrow> 'j tuples \<Rightarrow> store_error + alert_record list" where
  "pg_candidates jb desired s =
     and_then (read_all (get_alert jb) (filter (\<lambda>r. at_silenced_by r \<noteq> jb_nil jb) (pt_alerts s))) (\<lambda>stored.
     and_then (pg_missing_candidates jb (map (\<lambda>r. fp_str (al_fingerprint (ar_alert r))) stored) (map fst desired) s) (\<lambda>more.
     Inr (stored @ more)))"

definition pg_write_suppression :: "'j jsonb \<Rightarrow> time \<Rightarrow> alert \<Rightarrow> ('j, nat) pg" where
  "pg_write_suppression jb now a = pg_write (\<lambda>s. let same = (\<lambda>r. at_fingerprint r = fp_str (al_fingerprint a)) in
     (affected same (pt_alerts s), s\<lparr>pt_alerts := update_where same (\<lambda>r. r\<lparr>at_silenced_by := fst (jb_strings jb) (al_silenced_by a),
        at_am_state := am_state_str (al_am_state a), at_updated_at := now\<rparr>) (pt_alerts s)\<rparr>))"

definition pg_sync_one :: "'j jsonb \<Rightarrow> suppression \<Rightarrow> time \<Rightarrow> alert_record \<Rightarrow> alert_delta list \<Rightarrow> ('j, alert_delta list) pg" where
  "pg_sync_one jb desired now r deltas =
     (let ids = (case bt_get desired (al_fingerprint (ar_alert r)) of Some i \<Rightarrow> i | None \<Rightarrow> []) in
      if ids = al_silenced_by (ar_alert r) then act_ret deltas
      else let was = (al_silenced_by (ar_alert r) \<noteq> []); is' = (ids \<noteq> []);
             a = (ar_alert r)\<lparr>al_silenced_by := ids,
               al_am_state := (if is' \<or> al_inhibited_by (ar_alert r) \<noteq> [] then AmSuppressed else AmActive)\<rparr>
        in act_bind (pg_write_suppression jb now a) (\<lambda>_.
           act_ret (case (was, is') of
               (False, True) \<Rightarrow> deltas @ [\<lparr>d_kind = ESilenced, d_source = SReconciler, d_alert = a, d_flap_count = ar_flap_count r, d_observed_at = now\<rparr>]
             | (True, False) \<Rightarrow> deltas @ [\<lparr>d_kind = EUnsilenced, d_source = SReconciler, d_alert = a, d_flap_count = ar_flap_count r, d_observed_at = now\<rparr>]
             | _ \<Rightarrow> deltas)))"

fun pg_sync_all :: "'j jsonb \<Rightarrow> suppression \<Rightarrow> time \<Rightarrow> alert_record list \<Rightarrow> alert_delta list \<Rightarrow> ('j, alert_delta list) pg" where
  "pg_sync_all jb desired now [] deltas = act_ret deltas"
| "pg_sync_all jb desired now (r # rs) deltas = act_bind (pg_sync_one jb desired now r deltas) (pg_sync_all jb desired now rs)"

definition pg_sync_silences :: "'j jsonb \<Rightarrow> silence_state list \<Rightarrow> time \<Rightarrow> ('j, alert_delta list) pg" where
  "pg_sync_silences jb snap now = pg_commit
     (act_bind (pg_each (pg_sync_link now) snap) (\<lambda>_.
      act_bind (pg_read (pg_candidates jb (suppression_map snap))) (\<lambda>candidates.
      pg_sync_all jb (suppression_map snap) now candidates [])))"

definition pg_silences :: "bool \<Rightarrow> 'j tuples \<Rightarrow> store_error + silence_link list" where
  "pg_silences active_only s = read_all get_silence (sort_key (\<lambda>r. - st_starts_at r)
     (if active_only then filter (\<lambda>r. st_state r = ''active'') (pt_silences s) else pt_silences s))"

section \<open>The audit log and retention\<close>

definition pg_append_audit :: "'j jsonb \<Rightarrow> audit_entry \<Rightarrow> ('j, nat) pg" where
  "pg_append_audit jb e = pg_write (\<lambda>s. (1, s\<lparr>pt_audit := pt_audit s @ [\<lparr>ut_actor = map_option to_db (au_actor e),
     ut_guild_id = map_option to_db (au_guild_id e), ut_action = au_action e, ut_subject = au_subject e,
     ut_detail = jb_detail jb (au_detail e), ut_result = audit_result_str (au_result e), ut_created_at = au_at e\<rparr>]\<rparr>))"

text \<open>Rows of events and of the log lie in the order of their ids; deleting an alert deletes its events.\<close>

definition pg_prune_events :: "time \<Rightarrow> nat \<Rightarrow> ('j, nat) pg" where
  "pg_prune_events cutoff limit = pg_write (\<lambda>s. let (k, rows) = delete_first (\<lambda>r. et_received_at r < cutoff) limit (pt_events s)
     in (k, s\<lparr>pt_events := rows\<rparr>))"

definition pg_prune_cards :: "time \<Rightarrow> nat \<Rightarrow> ('j, nat) pg" where
  "pg_prune_cards cutoff limit = pg_write (\<lambda>s.
     let gone = map ct_id (take limit (sort_key ct_id (filter (\<lambda>r. ct_state r = ''resolved'' \<and> ct_updated_at r < cutoff) (pt_cards s))))
     in (affected (\<lambda>r. ct_id r \<in> set gone) (pt_cards s), s\<lparr>pt_cards := filter (\<lambda>r. ct_id r \<notin> set gone) (pt_cards s)\<rparr>))"

definition pg_prune_alerts :: "'j jsonb \<Rightarrow> time \<Rightarrow> nat \<Rightarrow> ('j, nat) pg" where
  "pg_prune_alerts jb cutoff limit = pg_write (\<lambda>s.
     let gone = map at_fingerprint (take limit (sort_key (\<lambda>r. jb_collate jb (at_fingerprint r))
           (filter (\<lambda>r. at_status r = ''resolved'' \<and> (case at_resolved_at r of Some t \<Rightarrow> t < cutoff | None \<Rightarrow> False)) (pt_alerts s))))
     in (affected (\<lambda>r. at_fingerprint r \<in> set gone) (pt_alerts s),
         s\<lparr>pt_alerts := filter (\<lambda>r. at_fingerprint r \<notin> set gone) (pt_alerts s),
           pt_events := filter (\<lambda>r. et_fingerprint r \<notin> set gone) (pt_events s)\<rparr>))"

definition pg_prune_audit :: "time \<Rightarrow> nat \<Rightarrow> ('j, nat) pg" where
  "pg_prune_audit cutoff limit = pg_write (\<lambda>s. let (k, rows) = delete_first (\<lambda>r. ut_created_at r < cutoff) limit (pt_audit s)
     in (k, s\<lparr>pt_audit := rows\<rparr>))"

definition pg_prune :: "'j jsonb \<Rightarrow> retention_policy \<Rightarrow> time \<Rightarrow> ('j, prune_report) pg" where
  "pg_prune jb p now = pg_commit
     (act_bind (pg_prune_events (now - rp_events p) (rp_batch_limit p)) (\<lambda>events.
      act_bind (pg_prune_cards (now - rp_resolved p) (rp_batch_limit p)) (\<lambda>cards.
      act_bind (pg_prune_alerts jb (now - rp_resolved p) (rp_batch_limit p)) (\<lambda>alerts.
      act_bind (pg_prune_audit (now - rp_audit p) (rp_batch_limit p)) (\<lambda>audit.
      act_ret \<lparr>pr_events = events, pr_alerts = alerts, pr_notifications = cards, pr_audit = audit,
        pr_more = list_ex (\<lambda>k. rp_batch_limit p \<le> k) [events, cards, alerts, audit]\<rparr>)))))"

end
