(* ===== verification/Postgres_Sim.thy ===== *)
theory Postgres_Sim
  imports Postgres_Cards Postgres_Alerts
begin

text \<open>
  The PostgreSQL backend against the SQLite one. \<open>put_db\<close> writes the records of \<open>Sqlite_Db\<close> as rows; a statement list
  over those rows simulates a transaction over the records when it answers the same and leaves the rows of what the
  other left, or fails with the same error, up to the name of an index. The relation is kept by sequencing, so each
  operation is a composition of the lemmas about its statements.
\<close>

section \<open>What a record is as a row\<close>

definition put_alert :: "'j jsonb \<Rightarrow> alert_record \<Rightarrow> 'j alert_tuple" where
  "put_alert jb r = (let a = ar_alert r in
     \<lparr>at_fingerprint = fp_str (al_fingerprint a), at_labels_hash = lh_str (ar_labels_hash r),
      at_group_key = map_option gk_str (al_group_key a), at_labels = fst (jb_labels jb) (al_labels a),
      at_annotations = fst (jb_annotations jb) (al_annotations a), at_starts_at = al_starts_at a, at_ends_at = al_ends_at a,
      at_generator_url = al_generator_url a, at_status = alert_status_str (al_status a), at_am_state = am_state_str (al_am_state a),
      at_severity = severity_str (alert_severity a), at_silenced_by = fst (jb_strings jb) (al_silenced_by a),
      at_inhibited_by = fst (jb_strings jb) (al_inhibited_by a), at_first_seen_at = ar_first_seen_at r,
      at_last_seen_at = ar_last_seen_at r, at_resolved_at = ar_resolved_at r,
      at_flap_count = min (int (ar_flap_count r)) I32_MAX, at_updated_at = ar_updated_at r\<rparr>)"

definition put_event :: "'j jsonb \<Rightarrow> event_row \<Rightarrow> 'j event_tuple" where
  "put_event jb e = \<lparr>et_fingerprint = fp_str (ev_fingerprint e), et_kind = event_kind_str (ev_kind e),
     et_source = event_source_str (ev_source e), et_starts_at = ev_starts_at e, et_ends_at = ev_ends_at e,
     et_payload = jb_payload jb (ev_payload e), et_received_at = ev_received_at e\<rparr>"

definition put_card :: "'j jsonb \<Rightarrow> notification \<Rightarrow> 'j card_tuple" where
  "put_card jb n = \<lparr>ct_id = n_id n, ct_dedupe_key = key_str (n_dedupe_key n), ct_fingerprint = fp_str (n_fingerprint n),
     ct_route_id = n_route_id n, ct_guild_id = to_db (n_guild_id n), ct_channel_id = to_db (n_channel_id n),
     ct_message_id = map_option to_db (n_message_id n), ct_thread_id = map_option to_db (n_thread_id n),
     ct_state = state_str (n_state n), ct_render_hash = n_render_hash n, ct_applied_tags = fst (jb_tags jb) (n_applied_tags n),
     ct_tags_hash = n_tags_hash n, ct_pinned = n_pinned n, ct_archived = n_archived n, ct_responded_at = n_responded_at n,
     ct_escalated_at = n_escalated_at n, ct_supersedes = n_supersedes n, ct_resolved_at = n_resolved_at n,
     ct_reply_count = int (n_reply_count n), ct_created_at = n_created_at n, ct_updated_at = n_updated_at n\<rparr>"

definition put_item :: "'j jsonb \<Rightarrow> outbox_item \<Rightarrow> 'j item_tuple" where
  "put_item jb r = \<lparr>it_id = ob_id r, it_lane = int (ob_lane r), it_kind = effect_kind (ob_effect r),
     it_dedupe_key = key_str (ob_dedupe_key r), it_notification_id = effect_notification (ob_effect r),
     it_payload = fst (jb_effect jb) (ob_effect r), it_not_before = ob_not_before r, it_attempts = int (ob_attempts r),
     it_claimed_by = ob_claimed_by r, it_claimed_at = ob_claimed_at r, it_last_error = ob_last_error r,
     it_created_at = ob_created_at r\<rparr>"

definition put_ack :: "ack_row \<Rightarrow> ack_tuple" where
  "put_ack a = \<lparr>kt_fingerprint = fp_str (ak_fingerprint a), kt_user_id = to_db (ak_user_id a), kt_kind = ack_kind_str (ak_kind a),
     kt_note = ak_note a, kt_created_at = ak_created_at a, kt_revoked_at = ak_revoked_at a\<rparr>"

definition put_silence :: "silence_link \<Rightarrow> silence_tuple" where
  "put_silence l = \<lparr>st_am_id = sl_am_id l, st_matchers = sl_matchers l, st_starts_at = sl_starts_at l, st_ends_at = sl_ends_at l,
     st_created_by = sl_created_by l, st_discord_user_id = map_option to_db (sl_discord_user_id l),
     st_origin_message = sl_origin_message l, st_comment = sl_comment l, st_state = silence_lifecycle_str (sl_state l),
     st_synced_at = sl_synced_at l\<rparr>"

definition put_audit :: "'j jsonb \<Rightarrow> audit_entry \<Rightarrow> 'j audit_tuple" where
  "put_audit jb e = \<lparr>ut_actor = map_option to_db (au_actor e), ut_guild_id = map_option to_db (au_guild_id e),
     ut_action = au_action e, ut_subject = au_subject e, ut_detail = jb_detail jb (au_detail e),
     ut_result = audit_result_str (au_result e), ut_created_at = au_at e\<rparr>"

definition put_db :: "'j jsonb \<Rightarrow> db \<Rightarrow> 'j tuples" where
  "put_db jb db = \<lparr>pt_alerts = map (put_alert jb) (db_alerts db), pt_events = map (put_event jb) (db_events db),
     pt_cards = map (put_card jb) (db_cards db), pt_next_card = db_next_card db,
     pt_outbox = map (put_item jb) (db_outbox db), pt_next_item = db_next_item db, pt_acks = map put_ack (db_acks db),
     pt_silences = map put_silence (db_silences db), pt_audit = map (put_audit jb) (db_audit db)\<rparr>"

section \<open>Reading back what was written\<close>

text \<open>
  What serde, PostgreSQL and its collations document: a document reads back as the value it was written from, \<open>->>\<close>
  finds a label's value, \<open>'[]'\<close> is the document of no strings and of no tags, and hexadecimal digits sort as their bytes.
\<close>

definition document_ok :: "('a, 'j) document \<Rightarrow> bool" where
  "document_ok c \<longleftrightarrow> (\<forall>x. snd c (fst c x) = Inr x)"

definition jsonb_ok :: "'j jsonb \<Rightarrow> bool" where
  "jsonb_ok jb \<longleftrightarrow> document_ok (jb_labels jb) \<and> document_ok (jb_annotations jb) \<and> document_ok (jb_strings jb) \<and>
     document_ok (jb_tags jb) \<and> document_ok (jb_effect jb) \<and> jb_nil jb = fst (jb_strings jb) [] \<and> jb_nil jb = fst (jb_tags jb) [] \<and>
     (\<forall>ls name. jb_text jb (fst (jb_labels jb) ls) name = labels_get ls name) \<and>
     (\<forall>f g. fingerprint_ok f \<and> fingerprint_ok g \<longrightarrow> (jb_collate jb f \<le> jb_collate jb g \<longleftrightarrow> Fingerprint f \<le> Fingerprint g))"

lemma doc_column_write: "document_ok c \<Longrightarrow> doc_column c (fst c x) kind = Inr x"
  by (simp add: document_ok_def doc_column_def)

lemma document_inject: "document_ok c \<Longrightarrow> fst c x = fst c y \<longleftrightarrow> x = y"
  by (metis document_ok_def sum.inject(2))

lemma word_column_write:
  "word_column alert_status_from_str (alert_status_str s1) kind = Inr s1"
  "word_column am_state_from_str (am_state_str s2) kind = Inr s2"
  "word_column state_from_str (state_str s3) kind = Inr s3"
  "word_column silence_lifecycle_from_str (silence_lifecycle_str s4) kind = Inr s4"
  "word_column ack_kind_from_str (ack_kind_str s5) kind = Inr s5"
  by (simp_all add: word_column_def status_word.parse_print am_word.parse_print state_word.parse_print
      silence_word.parse_print ack_word.parse_print)

lemma tally_column_int [simp]: "tally_column (int n) = n"
  by (simp add: tally_column_def)

lemma hash_column_write: "fingerprint_ok (fp_str f) \<Longrightarrow> hash_column (fp_str f) kind = Inr f"
  by (simp add: hash_column_def new_fingerprint_def)

lemma map_option_columns [simp]:
  "map_option from_db (map_option to_db x) = x" "map_option GroupKey (map_option gk_str g) = g" "LabelsHash (lh_str h) = h"
  by (cases x; simp) (cases g; simp)+

lemma read_written_alert:
  assumes "jsonb_ok jb" "fingerprint_ok (fp_str (al_fingerprint (ar_alert r)))" "int (ar_flap_count r) \<le> I32_MAX"
  shows "get_alert jb (put_alert jb r) = Inr r"
  using assms by (simp add: get_alert_def put_alert_def Let_def jsonb_ok_def hash_column_write doc_column_write
      word_column_write min_absorb1)

lemma read_written_card:
  assumes "jsonb_ok jb" "fingerprint_ok (fp_str (n_fingerprint n))"
  shows "get_card jb (put_card jb n) = Inr n"
  using assms by (simp add: get_card_def put_card_def jsonb_ok_def hash_column_write doc_column_write word_column_write)

lemma read_written_item: "jsonb_ok jb \<Longrightarrow> ob_lane r < 65536 \<Longrightarrow> get_item jb (put_item jb r) = Inr r"
  by (simp add: get_item_def put_item_def jsonb_ok_def doc_column_write)

lemma read_written_silence: "get_silence (put_silence l) = Inr l"
  by (simp add: get_silence_def put_silence_def word_column_write)

lemma read_written_ack: "get_ack (put_ack a) = Inr (ak_user_id a, ak_kind a, ak_note a, ak_created_at a)"
  by (simp add: get_ack_def put_ack_def word_column_write)

lemma read_all_written: "(\<And>x. x \<in> set xs \<Longrightarrow> f (w x) = Inr x) \<Longrightarrow> read_all f (map w xs) = Inr xs"
  by (induction xs) auto

section \<open>Tables of written rows\<close>

lemma affected_map: "(\<And>r. r \<in> set rs \<Longrightarrow> P (w r) = Q r) \<Longrightarrow> affected P (map w rs) = affected Q rs"
  by (induction rs) (auto simp: affected_def)

lemma update_where_put:
  "(\<And>r. r \<in> set rs \<Longrightarrow> P (w r) = Q r \<and> (Q r \<longrightarrow> f (w r) = w (g r))) \<Longrightarrow>
   update_where P f (map w rs) = map w (update_where Q g rs)"
  by (auto simp: update_where_def)

lemma find_put: "(\<And>r. r \<in> set rs \<Longrightarrow> P (w r) = Q r) \<Longrightarrow> find P (map w rs) = map_option w (find Q rs)"
  by (induction rs) auto

lemma filter_put: "(\<And>r. r \<in> set rs \<Longrightarrow> P (w r) = Q r) \<Longrightarrow> filter P (map w rs) = map w (filter Q rs)"
  by (induction rs) auto

lemma list_ex_put: "(\<And>r. r \<in> set rs \<Longrightarrow> P (w r) = Q r) \<Longrightarrow> list_ex P (map w rs) = list_ex Q rs"
  by (induction rs) auto

lemma insort_put:
  "(\<And>y. y \<in> set ys \<Longrightarrow> k (w x) \<le> k (w y) \<longleftrightarrow> h x \<le> h y) \<Longrightarrow> insort_key k (w x) (map w ys) = map w (insort_key h x ys)"
  by (induction ys) auto

lemma sort_put:
  "(\<And>x y. x \<in> set xs \<Longrightarrow> y \<in> set xs \<Longrightarrow> k (w x) \<le> k (w y) \<longleftrightarrow> h x \<le> h y) \<Longrightarrow>
   sort_key k (map w xs) = map w (sort_key h xs)"
proof (induction xs)
  case (Cons x xs)
  then have "sort_key k (map w xs) = map w (sort_key h xs)" by simp
  moreover have "insort_key k (w x) (map w (sort_key h xs)) = map w (insort_key h x (sort_key h xs))"
    by (rule insort_put) (use Cons.prems in simp)
  ultimately show ?case by simp
qed simp

lemma delete_first_put:
  "(\<And>r. r \<in> set rs \<Longrightarrow> P (w r) = Q r) \<Longrightarrow> delete_first P n (map w rs) = map_prod id (map w) (delete_first Q n rs)"
  by (induction rs arbitrary: n) (auto simp: Let_def split_beta)

lemma key_str_inject [simp]: "key_str k = key_str k' \<longleftrightarrow> k = k'"
  by (metis dedupe_key.expand)

lemma fp_str_inject [simp]: "fp_str f = fp_str g \<longleftrightarrow> f = g"
  by (metis fingerprint.expand)

lemma to_db_inject [simp]: "to_db x = to_db y \<longleftrightarrow> x = y"
  by (metis from_db_to_db)

lemma state_words:
  "state_str st = ''orphaned'' \<longleftrightarrow> st = Orphaned" "state_str st = ''resolved'' \<longleftrightarrow> st = Resolved"
  "alert_status_str a = ''firing'' \<longleftrightarrow> a = AFiring" "alert_status_str a = ''resolved'' \<longleftrightarrow> a = AResolved"
  "silence_lifecycle_str l = ''active'' \<longleftrightarrow> l = SilenceActive" "''expired'' = silence_lifecycle_str SilenceExpired"
  by (simp_all add: state_str_def alert_status_str_def silence_lifecycle_str_def
      split: notification_state.splits alert_status.splits silence_lifecycle.splits)

section \<open>Simulation\<close>

text \<open>
  What the types of the code guarantee of the stored values, with a bound on how often an alert has flapped, and what the
  two unique indexes guarantee of the cards.
\<close>

definition typed_rows :: "int \<Rightarrow> db \<Rightarrow> bool" where
  "typed_rows b db \<longleftrightarrow> b \<le> I32_MAX \<and>
     (\<forall>r \<in> set (db_alerts db). fingerprint_ok (fp_str (al_fingerprint (ar_alert r))) \<and> int (ar_flap_count r) \<le> b) \<and>
     (\<forall>n \<in> set (db_cards db). fingerprint_ok (fp_str (n_fingerprint n))) \<and> (\<forall>i \<in> set (db_outbox db). ob_lane i < 65536) \<and>
     keys_unique (db_cards db) \<and> messages_unique (db_cards db)"

fun pg_error :: "store_error \<Rightarrow> store_error" where
  "pg_error (Conflict c) = Conflict (if c = KEY_INDEX then PG_KEY_INDEX else if c = MESSAGE_INDEX then PG_MESSAGE_INDEX else c)"
| "pg_error e = e"

lemma pg_error_no_such [simp]: "pg_error (no_such_notification i) = no_such_notification i"
  by (simp add: no_such_notification_def)

fun agrees_with :: "'j jsonb \<Rightarrow> int \<Rightarrow> ('a \<Rightarrow> 'b \<Rightarrow> bool) \<Rightarrow> db \<Rightarrow> (store_error + 'a) \<times> 'j tuples \<Rightarrow> store_error + 'b \<times> db \<Rightarrow> bool" where
  "agrees_with jb c R db (r, s) (Inr (y, db')) \<longleftrightarrow> (\<exists>x. r = Inr x \<and> R x y) \<and> s = put_db jb db' \<and> typed_rows c db' \<and>
     db_next_card db \<le> db_next_card db' \<and> db_next_item db \<le> db_next_item db'"
| "agrees_with jb c R db (r, s) (Inl e) \<longleftrightarrow>
     r = Inl (pg_error e) \<and> db_next_card db \<le> pt_next_card s \<and> db_next_item db \<le> pt_next_item s"

definition sim :: "'j jsonb \<Rightarrow> int \<Rightarrow> int \<Rightarrow> ('a \<Rightarrow> 'b \<Rightarrow> bool) \<Rightarrow> ('j, 'a) pg \<Rightarrow> 'b tx \<Rightarrow> bool" where
  "sim jb b c R m m' \<longleftrightarrow> (\<forall>db. typed_rows b db \<longrightarrow> agrees_with jb c R db (m (put_db jb db)) (m' db))"

lemma simI: "(\<And>db. typed_rows b db \<Longrightarrow> agrees_with jb c R db (m (put_db jb db)) (m' db)) \<Longrightarrow> sim jb b c R m m'"
  by (simp add: sim_def)

lemma simD: "sim jb b c R m m' \<Longrightarrow> typed_rows b db \<Longrightarrow> agrees_with jb c R db (m (put_db jb db)) (m' db)"
  by (simp add: sim_def)

lemma agrees_Inl: "agrees_with jb c R db p (Inl e) \<longleftrightarrow>
    (\<exists>s. p = (Inl (pg_error e), s) \<and> db_next_card db \<le> pt_next_card s \<and> db_next_item db \<le> pt_next_item s)"
  by (cases p) auto

lemma agrees_Inr: "agrees_with jb c R db p (Inr (y, db')) \<longleftrightarrow> (\<exists>x. p = (Inr x, put_db jb db') \<and> R x y) \<and> typed_rows c db' \<and>
    db_next_card db \<le> db_next_card db' \<and> db_next_item db \<le> db_next_item db'"
  by (cases p) auto

lemma sim_ret: "R x y \<Longrightarrow> sim jb b b R (act_ret x) (tx_ret y)"
  by (simp add: sim_def tx_ret_def)

lemma sim_bind:
  assumes "sim jb b c R m m'" and "\<And>x y. R x y \<Longrightarrow> sim jb c d S (f x) (f' y)"
  shows "sim jb b d S (act_bind m f) (tx_bind m' f')"
proof (rule simI)
  fix db
  assume typed: "typed_rows b db"
  show "agrees_with jb d S db (act_bind m f (put_db jb db)) (tx_bind m' f' db)"
  proof (cases "m' db")
    case (Inl e)
    with simD [OF assms(1) typed] show ?thesis by (auto simp: agrees_Inl tx_bind_def act_bind_def)
  next
    case (Inr r)
    obtain y db1 where r: "r = (y, db1)" by fastforce
    with Inr simD [OF assms(1) typed] obtain x where x: "m (put_db jb db) = (Inr x, put_db jb db1)" "R x y" "typed_rows c db1"
      "db_next_card db \<le> db_next_card db1" "db_next_item db \<le> db_next_item db1" by (auto simp: agrees_Inr)
    have eq: "act_bind m f (put_db jb db) = f x (put_db jb db1)" "tx_bind m' f' db = f' y db1"
      using x(1) Inr r by (simp_all add: act_bind_def tx_bind_def)
    from simD [OF assms(2) [OF x(2)] x(3)] x(4,5) show ?thesis
      unfolding eq by (cases "f' y db1") (auto simp: agrees_Inl agrees_Inr)
  qed
qed

lemma sim_each: "(\<And>x. x \<in> set xs \<Longrightarrow> sim jb b b (\<lambda>_ _. True) (f x) (f' x)) \<Longrightarrow> sim jb b b (\<lambda>_ _. True) (pg_each f xs) (tx_each f' xs)"
  by (induction xs) (auto intro: sim_ret sim_bind)

lemma sim_map: "(\<And>x. x \<in> set xs \<Longrightarrow> sim jb b b (=) (f x) (f' x)) \<Longrightarrow> sim jb b b (=) (pg_map f xs) (tx_map f' xs)"
  by (induction xs) (auto intro!: sim_ret sim_bind)

lemma sim_read:
  assumes "\<And>db. typed_rows b db \<Longrightarrow> f (put_db jb db) = Inr (g db)" "\<And>db. typed_rows b db \<Longrightarrow> sim jb b c S (h (g db)) (k (g db))"
  shows "sim jb b c S (act_bind (pg_read f) h) (\<lambda>db. k (g db) db)"
proof (rule simI)
  fix db
  assume typed: "typed_rows b db"
  then have "act_bind (pg_read f) h (put_db jb db) = h (g db) (put_db jb db)"
    using assms(1) by (simp add: act_bind_def pg_read_def)
  with simD [OF assms(2) [OF typed] typed] show "agrees_with jb c S db (act_bind (pg_read f) h (put_db jb db)) (k (g db) db)" by simp
qed

lemma sim_write:
  assumes "\<And>db. typed_rows b db \<Longrightarrow> \<exists>n. f (put_db jb db) = (n, put_db jb (g db)) \<and> R n (y db)"
    "\<And>db. typed_rows b db \<Longrightarrow> typed_rows c (g db) \<and> db_next_card db \<le> db_next_card (g db) \<and> db_next_item db \<le> db_next_item (g db)"
  shows "sim jb b c R (pg_write f) (\<lambda>db. Inr (y db, g db))"
proof (rule simI)
  fix db
  assume typed: "typed_rows b db"
  from assms(1) [OF this] obtain n where "f (put_db jb db) = (n, put_db jb (g db))" "R n (y db)" by blast
  with assms(2) [OF typed] show "agrees_with jb c R db (pg_write f (put_db jb db)) (Inr (y db, g db))"
    by (simp add: agrees_Inr pg_write_def)
qed

lemma sim_weaken: "sim jb b c R m m' \<Longrightarrow> (\<And>x y. R x y \<Longrightarrow> S x y) \<Longrightarrow> sim jb b c S m m'"
proof (rule simI)
  fix db
  assume "sim jb b c R m m'" "\<And>x y. R x y \<Longrightarrow> S x y" "typed_rows b db"
  then show "agrees_with jb c S db (m (put_db jb db)) (m' db)"
    using simD [of jb b c R m m' db] by (cases "m' db") (auto simp: agrees_Inl agrees_Inr)
qed

text \<open>A commit: all that a failed transaction leaves is a sequence moved on.\<close>

definition with_ids :: "int \<Rightarrow> int \<Rightarrow> db \<Rightarrow> db" where
  "with_ids i j db = db\<lparr>db_next_card := i, db_next_item := j\<rparr>"

definition simulates :: "'j jsonb \<Rightarrow> int \<Rightarrow> ('a \<Rightarrow> 'b \<Rightarrow> bool) \<Rightarrow> (store_error + 'a) \<times> 'j tuples \<Rightarrow> (store_error + 'b) \<times> db \<Rightarrow> bool" where
  "simulates jb c R p q \<longleftrightarrow> typed_rows c (snd q) \<and> rel_sum (\<lambda>e e'. e = pg_error e') R (fst p) (fst q) \<and>
     (\<exists>i j. db_next_card (snd q) \<le> i \<and> db_next_item (snd q) \<le> j \<and> snd p = put_db jb (with_ids i j (snd q)))"

lemma with_ids_same: "with_ids (db_next_card db) (db_next_item db) db = db"
  by (simp add: with_ids_def)

lemma put_with_ids: "put_db jb (with_ids i j db) = (put_db jb db)\<lparr>pt_next_card := i, pt_next_item := j\<rparr>"
  by (simp add: put_db_def with_ids_def)

lemma typed_mono: "typed_rows b db \<Longrightarrow> b \<le> c \<Longrightarrow> c \<le> I32_MAX \<Longrightarrow> typed_rows c db"
  by (fastforce simp: typed_rows_def)

lemma sim_commit_grows:
  assumes "sim jb b c R m m'" "typed_rows b db" "b \<le> c" "c \<le> I32_MAX"
  shows "simulates jb c R (pg_commit m (put_db jb db)) (run_tx m' db)"
proof (cases "m' db")
  case (Inl e)
  from simD [OF assms(1,2)] Inl obtain s where
    "m (put_db jb db) = (Inl (pg_error e), s)" "db_next_card db \<le> pt_next_card s" "db_next_item db \<le> pt_next_item s"
    by (auto simp: agrees_Inl)
  with Inl typed_mono [OF assms(2-4)] show ?thesis by (auto simp: simulates_def pg_commit_def run_tx_def put_with_ids)
next
  case (Inr r)
  obtain y db' where r: "r = (y, db')" by fastforce
  from simD [OF assms(1,2)] Inr r obtain x where "m (put_db jb db) = (Inr x, put_db jb db')" "R x y" "typed_rows c db'"
    by (auto simp: agrees_Inr)
  moreover have "\<exists>i j. db_next_card db' \<le> i \<and> db_next_item db' \<le> j \<and> put_db jb db' = put_db jb (with_ids i j db')"
    by (rule exI [of _ "db_next_card db'"], rule exI [of _ "db_next_item db'"]) (simp add: with_ids_same)
  ultimately show ?thesis using Inr r by (simp add: simulates_def pg_commit_def run_tx_def)
qed

lemma sim_commit: "sim jb b b R m m' \<Longrightarrow> typed_rows b db \<Longrightarrow> simulates jb b R (pg_commit m (put_db jb db)) (run_tx m' db)"
  by (rule sim_commit_grows) (auto simp: typed_rows_def)

end
