(* ===== verification/Postgres_Facts.thy ===== *)
theory Postgres_Facts
  imports Postgres_Sim
begin

text \<open>
  Every operation of the PostgreSQL backend simulates the SQLite one: first the statements of the queue, of the cards and
  of the alerts, then the transactions made of them.
\<close>

section \<open>The queue\<close>

lemma put_simps [simp]:
  "pt_alerts (put_db jb db) = map (put_alert jb) (db_alerts db)" "pt_events (put_db jb db) = map (put_event jb) (db_events db)"
  "pt_cards (put_db jb db) = map (put_card jb) (db_cards db)" "pt_outbox (put_db jb db) = map (put_item jb) (db_outbox db)"
  "pt_acks (put_db jb db) = map put_ack (db_acks db)" "pt_silences (put_db jb db) = map put_silence (db_silences db)"
  "pt_audit (put_db jb db) = map (put_audit jb) (db_audit db)" "pt_next_card (put_db jb db) = db_next_card db"
  "pt_next_item (put_db jb db) = db_next_item db"
  by (simp_all add: put_db_def)

lemma put_updates [simp]:
  "(put_db jb db)\<lparr>pt_alerts := map (put_alert jb) as\<rparr> = put_db jb (db\<lparr>db_alerts := as\<rparr>)"
  "(put_db jb db)\<lparr>pt_events := map (put_event jb) es\<rparr> = put_db jb (db\<lparr>db_events := es\<rparr>)"
  "(put_db jb db)\<lparr>pt_cards := map (put_card jb) ns\<rparr> = put_db jb (db\<lparr>db_cards := ns\<rparr>)"
  "(put_db jb db)\<lparr>pt_outbox := map (put_item jb) is\<rparr> = put_db jb (db\<lparr>db_outbox := is\<rparr>)"
  "(put_db jb db)\<lparr>pt_acks := map put_ack ks\<rparr> = put_db jb (db\<lparr>db_acks := ks\<rparr>)"
  "(put_db jb db)\<lparr>pt_silences := map put_silence ls\<rparr> = put_db jb (db\<lparr>db_silences := ls\<rparr>)"
  "(put_db jb db)\<lparr>pt_audit := map (put_audit jb) us\<rparr> = put_db jb (db\<lparr>db_audit := us\<rparr>)"
  by (simp_all add: put_db_def)

lemma put_item_simps [simp]:
  "it_id (put_item jb r) = ob_id r" "it_lane (put_item jb r) = int (ob_lane r)" "it_kind (put_item jb r) = effect_kind (ob_effect r)"
  "it_notification_id (put_item jb r) = effect_notification (ob_effect r)" "it_not_before (put_item jb r) = ob_not_before r"
  "it_claimed_by (put_item jb r) = ob_claimed_by r" "it_claimed_at (put_item jb r) = ob_claimed_at r"
  "it_payload (put_item jb r) = fst (jb_effect jb) (ob_effect r)"
  by (simp_all add: put_item_def)

lemma typed_outbox: "typed_rows b db \<Longrightarrow> (\<And>i. i \<in> set is \<Longrightarrow> ob_lane i < 65536) \<Longrightarrow> typed_rows b (db\<lparr>db_outbox := is\<rparr>)"
  by (auto simp: typed_rows_def)

lemma typed_lane: "typed_rows b db \<Longrightarrow> r \<in> set (db_outbox db) \<Longrightarrow> ob_lane r < 65536"
  by (simp add: typed_rows_def)

lemma key_lane_bound: "key_lane k OUTBOX_LANES < 65536"
proof -
  have "key_lane k OUTBOX_LANES < 1024" by (simp add: key_lane_def OUTBOX_LANES_def)
  then show ?thesis by simp
qed

lemma put_update_items:
  assumes "\<And>r. r \<in> set (db_outbox db) \<Longrightarrow> P (put_item jb r) = Q r \<and> (Q r \<longrightarrow> f (put_item jb r) = put_item jb (g r))"
  shows "(put_db jb db)\<lparr>pt_outbox := update_where P f (map (put_item jb) (db_outbox db))\<rparr> =
    put_db jb (db\<lparr>db_outbox := update_where Q g (db_outbox db)\<rparr>)"
  using update_where_put [of "db_outbox db" P "put_item jb" Q f g] assms by simp

lemma typed_update_items:
  "typed_rows b db \<Longrightarrow> (\<And>r. ob_lane (g r) = ob_lane r) \<Longrightarrow> typed_rows b (db\<lparr>db_outbox := update_where Q g (db_outbox db)\<rparr>)"
  by (rule typed_outbox) (auto simp: set_update_where dest: typed_lane)

lemma fold_sim:
  assumes "typed_rows b db" "effect_notification (no_effect item) = Some n"
  shows "pg_fold_item item n jb (put_db jb db) = (Inr (affected (same_card_pending (no_effect item)) (db_outbox db)),
    put_db jb (db\<lparr>db_outbox := update_where (same_card_pending (no_effect item)) (fold_into item) (db_outbox db)\<rparr>))"
proof -
  let ?P = "\<lambda>r. it_claimed_at r = None \<and> it_kind r = effect_kind (no_effect item) \<and> it_notification_id r = Some n"
  have P: "?P (put_item jb r) = same_card_pending (no_effect item) r" for r
    using assms(2) by (auto simp: same_card_pending_def)
  have f: "(put_item jb r)\<lparr>it_payload := fst (jb_effect jb) (no_effect item), it_not_before := min (it_not_before (put_item jb r)) (no_not_before item)\<rparr>
      = put_item jb (fold_into item r)" if "same_card_pending (no_effect item) r" for r
    using that by (simp add: put_item_def fold_into_def same_card_pending_def)
  show ?thesis
    using put_update_items [of db ?P jb "same_card_pending (no_effect item)"
        "\<lambda>r. r\<lparr>it_payload := fst (jb_effect jb) (no_effect item), it_not_before := min (it_not_before r) (no_not_before item)\<rparr>" "fold_into item"]
      affected_map [of "db_outbox db" ?P "put_item jb" "same_card_pending (no_effect item)"] P f
    by (simp add: pg_fold_item_def pg_write_def Let_def)
qed

lemma insert_item_sim: "sim jb b b (\<lambda>_ _. True) (pg_insert_item jb item at) (insert_item item at)"
proof -
  let ?g = "\<lambda>db. db\<lparr>db_outbox := db_outbox db @ [\<lparr>ob_id = db_next_item db, ob_lane = key_lane (no_dedupe_key item) OUTBOX_LANES,
       ob_effect = no_effect item, ob_dedupe_key = no_dedupe_key item, ob_not_before = no_not_before item,
       ob_attempts = 0, ob_claimed_by = None, ob_claimed_at = None, ob_last_error = None, ob_created_at = at\<rparr>],
     db_next_item := db_next_item db + 1\<rparr>"
  have "sim jb b b (\<lambda>_ _. True) (pg_insert_item jb item at) (\<lambda>db. Inr ((), ?g db))"
    unfolding pg_insert_item_def
    by (rule sim_write) (auto simp: put_db_def put_item_def typed_rows_def key_lane_bound)
  then show ?thesis by (simp add: insert_item_def)
qed

lemma enqueue_sim: "sim jb b b (\<lambda>_ _. True) (pg_enqueue jb at item) (enqueue item at)"
proof (rule simI)
  fix db
  assume typed: "typed_rows b db"
  have ins: "agrees_with jb b (\<lambda>_ _. True) db (act_bind (pg_insert_item jb item at) (\<lambda>_. act_ret ()) (put_db jb db)) (insert_item item at db)"
  proof -
    have "sim jb b b (\<lambda>_ _. True) (act_bind (pg_insert_item jb item at) (\<lambda>_. act_ret ())) (tx_bind (insert_item item at) (\<lambda>_. tx_ret ()))"
      by (rule sim_bind [OF insert_item_sim]) (rule sim_ret, simp)
    from simD [OF this typed] show ?thesis by (simp add: tx_bind_def insert_item_def tx_ret_def)
  qed
  let ?e = "no_effect item"
  show "agrees_with jb b (\<lambda>_ _. True) db (pg_enqueue jb at item (put_db jb db)) (enqueue item at db)"
  proof (cases "is_coalescable ?e")
    case False
    then have "pg_enqueue jb at item (put_db jb db) = act_bind (pg_insert_item jb item at) (\<lambda>_. act_ret ()) (put_db jb db)"
      by (cases "effect_notification ?e") (simp_all add: pg_enqueue_def act_bind_def act_ret_def)
    with False ins show ?thesis by (simp add: enqueue_def)
  next
    case True
    then obtain n where n: "effect_notification ?e = Some n" using coalescable_names_card by blast
    show ?thesis
    proof (cases "affected (same_card_pending ?e) (db_outbox db) = 0")
      case none: True
      then have "update_where (same_card_pending ?e) (fold_into item) (db_outbox db) = db_outbox db"
        by (simp add: affected_0_iff update_where_none)
      with none fold_sim [OF typed n, of jb] n True
      have "pg_enqueue jb at item (put_db jb db) = act_bind (pg_insert_item jb item at) (\<lambda>_. act_ret ()) (put_db jb db)"
        by (simp add: pg_enqueue_def act_bind_def)
      with none ins show ?thesis by (simp add: enqueue_def)
    next
      case some: False
      have "pg_enqueue jb at item (put_db jb db) = (Inr (),
          put_db jb (db\<lparr>db_outbox := update_where (same_card_pending ?e) (fold_into item) (db_outbox db)\<rparr>))"
        using fold_sim [OF typed n, of jb] n True some by (simp add: pg_enqueue_def act_bind_def)
      moreover have "typed_rows b (db\<lparr>db_outbox := update_where (same_card_pending ?e) (fold_into item) (db_outbox db)\<rparr>)"
        by (rule typed_update_items [OF typed]) simp
      ultimately show ?thesis using some True n by (simp add: enqueue_def)
    qed
  qed
qed

lemma enqueue_effects_simulates:
  "typed_rows b db \<Longrightarrow> simulates jb b (\<lambda>_ _. True) (pg_enqueue_effects jb items at (put_db jb db)) (enqueue_effects items at db)"
  unfolding pg_enqueue_effects_def enqueue_effects_def by (intro sim_commit [of jb b] sim_each enqueue_sim)

text \<open>A single statement needs no transaction of its own, if it cannot fail.\<close>

lemma simulates_same: "typed_rows b db \<Longrightarrow> R x y \<Longrightarrow> simulates jb b R (Inr x, put_db jb db) (Inr y, db)"
  unfolding simulates_def fst_conv snd_conv
  by (intro conjI, assumption, simp, rule exI [of _ "db_next_card db"], rule exI [of _ "db_next_item db"]) (simp add: with_ids_same)

lemma simulates_one:
  "sim jb b b R m (\<lambda>db. Inr (y db, g db)) \<Longrightarrow> typed_rows b db \<Longrightarrow> simulates jb b R (m (put_db jb db)) (run_tx (\<lambda>db. Inr (y db, g db)) db)"
  using simD [of jb b b R m "\<lambda>db. Inr (y db, g db)" db] by (auto simp: run_tx_def agrees_Inr intro: simulates_same)

section \<open>Claiming and settling\<close>

lemma read_selected:
  assumes "\<And>r. r \<in> set rs \<Longrightarrow> get (w r) = Inr r" "\<And>r. r \<in> set rs \<Longrightarrow> P (w r) = Q r"
    and "\<And>x y. x \<in> set rs \<Longrightarrow> y \<in> set rs \<Longrightarrow> k (w x) \<le> k (w y) \<longleftrightarrow> h x \<le> h y"
  shows "read_all get (sort_key k (filter P (map w rs))) = Inr (sort_key h (filter Q rs))"
    "read_all get (take n (sort_key k (filter P (map w rs)))) = Inr (take n (sort_key h (filter Q rs)))"
    "read_all get (filter P (map w rs)) = Inr (filter Q rs)"
proof -
  have f: "filter P (map w rs) = map w (filter Q rs)" using assms(2) by (rule filter_put)
  have s: "sort_key k (map w (filter Q rs)) = map w (sort_key h (filter Q rs))"
    by (rule sort_put) (use assms(3) in auto)
  show "read_all get (sort_key k (filter P (map w rs))) = Inr (sort_key h (filter Q rs))"
    unfolding f s by (rule read_all_written) (use assms(1) in auto)
  show "read_all get (take n (sort_key k (filter P (map w rs)))) = Inr (take n (sort_key h (filter Q rs)))"
    unfolding f s take_map by (rule read_all_written) (use assms(1) in \<open>auto dest: in_set_takeD\<close>)
  show "read_all get (filter P (map w rs)) = Inr (filter Q rs)"
    unfolding f by (rule read_all_written) (use assms(1) in auto)
qed

lemma claimable_put: "pg_claimable lane now (put_item jb r) = claimable lane now r"
  by (auto simp: pg_claimable_def claimable_def simp flip: zmod_int split: option.split)

lemma claim_ids_put: "pg_claim_ids {} req now (put_db jb db) = claim_ids req now db"
proof -
  have "filter (\<lambda>r. pg_claimable (cr_lane req) now r \<and> it_id r \<notin> {}) (map (put_item jb) (db_outbox db)) =
      map (put_item jb) (filter (claimable (cr_lane req) now) (db_outbox db))"
    by (rule filter_put) (simp add: claimable_put)
  moreover have "sort_key tuple_order (map (put_item jb) rs) = map (put_item jb) (sort_key item_order rs)" for rs
    by (rule sort_put) simp
  ultimately show ?thesis by (simp add: pg_claim_ids_def claim_ids_def take_map comp_def)
qed

lemma take_ids_sim:
  assumes "jsonb_ok jb"
  shows "sim jb b b (=) (pg_take_ids jb w now ids) (\<lambda>db. if ids = [] then Inr ([], db)
     else let rows = update_where (\<lambda>r. ob_id r \<in> set ids) (take_row w now) (db_outbox db)
       in Inr (sort_key item_order (filter (\<lambda>r. ob_id r \<in> set ids) rows), db\<lparr>db_outbox := rows\<rparr>))"
proof (rule simI)
  fix db
  assume typed: "typed_rows b db"
  let ?rows = "update_where (\<lambda>r. ob_id r \<in> set ids) (take_row w now) (db_outbox db)"
  have upd: "update_where (\<lambda>r. it_id r \<in> set ids)
       (\<lambda>r. r\<lparr>it_claimed_by := Some w, it_claimed_at := Some now, it_attempts := it_attempts r + 1\<rparr>)
       (map (put_item jb) (db_outbox db)) = map (put_item jb) ?rows"
    by (rule update_where_put) (simp add: put_item_def take_row_def)
  have typed': "typed_rows b (db\<lparr>db_outbox := ?rows\<rparr>)"
    by (rule typed_update_items [OF typed]) (simp add: take_row_def)
  have "read_all (get_item jb) (sort_key tuple_order (filter (\<lambda>r. it_id r \<in> set ids) (map (put_item jb) ?rows))) =
      Inr (sort_key item_order (filter (\<lambda>r. ob_id r \<in> set ids) ?rows))"
    by (rule read_selected) (use typed_lane [OF typed'] assms in \<open>auto intro: read_written_item\<close>)
  with upd typed typed' show "agrees_with jb b (=) db (pg_take_ids jb w now ids (put_db jb db))
      (if ids = [] then Inr ([], db) else let rows = ?rows
       in Inr (sort_key item_order (filter (\<lambda>r. ob_id r \<in> set ids) rows), db\<lparr>db_outbox := rows\<rparr>))"
    by (auto simp: pg_take_ids_def act_bind_def pg_mark_claimed_def pg_write_def pg_read_def Let_def)
qed

lemma claim_outbox_simulates:
  "jsonb_ok jb \<Longrightarrow> typed_rows b db \<Longrightarrow>
   simulates jb b (=) (pg_claim_outbox jb {} w req now (put_db jb db)) (claim_outbox w req now db)"
  unfolding pg_claim_outbox_def claim_outbox_def
  unfolding Let_def [of "claim_ids req now _"]
  by (rule sim_commit [of jb b], rule sim_read [where g = "claim_ids req now"])
    (simp_all only: claim_ids_put take_ids_sim)

lemma take_claim_sim: "jsonb_ok jb \<Longrightarrow> sim jb b b (=) (pg_take_claim jb w i) (take_claim w i)"
proof (rule simI)
  fix db
  assume ok: "jsonb_ok jb" and typed: "typed_rows b db"
  have "find (\<lambda>r. it_id r = i) (map (put_item jb) (db_outbox db)) = map_option (put_item jb) (find (\<lambda>r. ob_id r = i) (db_outbox db))"
    by (rule find_put) simp
  with ok typed show "agrees_with jb b (=) db (pg_take_claim jb w i (put_db jb db)) (take_claim w i db)"
    by (cases "find (\<lambda>r. ob_id r = i) (db_outbox db)")
      (auto simp: pg_take_claim_def take_claim_def pg_read_def jsonb_ok_def doc_column_write)
qed

lemma delete_item_sim: "sim jb b b (\<lambda>_ _. True) (pg_delete_item i) (delete_item i)"
proof -
  have "filter (\<lambda>r. it_id r \<noteq> i) (map (put_item jb) rs) = map (put_item jb) (filter (\<lambda>r. ob_id r \<noteq> i) rs)" for rs
    by (rule filter_put) simp
  then show ?thesis unfolding pg_delete_item_def delete_item_def
    by (intro sim_write) (auto intro!: typed_outbox dest: typed_lane)
qed

section \<open>Writing cards\<close>

lemma put_card_simps [simp]:
  "ct_id (put_card jb n) = n_id n" "ct_dedupe_key (put_card jb n) = key_str (n_dedupe_key n)"
  "ct_fingerprint (put_card jb n) = fp_str (n_fingerprint n)" "ct_state (put_card jb n) = state_str (n_state n)"
  "ct_channel_id (put_card jb n) = to_db (n_channel_id n)" "ct_message_id (put_card jb n) = map_option to_db (n_message_id n)"
  "ct_thread_id (put_card jb n) = map_option to_db (n_thread_id n)" "ct_escalated_at (put_card jb n) = n_escalated_at n"
  "ct_created_at (put_card jb n) = n_created_at n" "ct_updated_at (put_card jb n) = n_updated_at n"
  "ct_route_id (put_card jb n) = n_route_id n" "ct_pinned (put_card jb n) = n_pinned n"
  by (simp_all add: put_card_def)

lemma distinct_injected: "inj f \<Longrightarrow> distinct (map f xs) \<longleftrightarrow> distinct xs"
  by (metis distinct_map inj_on_subset top_greatest)

lemma keys_put: "distinct (map (\<lambda>r. (ct_channel_id r, ct_dedupe_key r)) (map (put_card jb) ns)) \<longleftrightarrow> keys_unique ns"
proof -
  have "inj (map_prod to_db key_str)" by (auto intro!: injI)
  from distinct_injected [OF this, of "map card_key ns"]
  show ?thesis by (simp add: keys_unique_def card_key_def [abs_def] comp_def)
qed

lemma messages_put: "distinct (List.map_filter ct_message_id (map (put_card jb) ns)) \<longleftrightarrow> messages_unique ns"
proof -
  have "List.map_filter ct_message_id (map (put_card jb) ns) = map to_db (List.map_filter n_message_id ns)"
    by (induction ns) (simp_all add: List.map_filter_simps split: option.split)
  moreover have "inj to_db" by (auto intro!: injI)
  ultimately show ?thesis by (simp add: messages_unique_def distinct_injected)
qed

lemma typed_cards: "typed_rows b db \<Longrightarrow> keys_unique ns \<Longrightarrow> messages_unique ns \<Longrightarrow>
    (\<And>n. n \<in> set ns \<Longrightarrow> fingerprint_ok (fp_str (n_fingerprint n))) \<Longrightarrow> typed_rows b (db\<lparr>db_cards := ns\<rparr>)"
  by (auto simp: typed_rows_def)

lemma typed_card: "typed_rows b db \<Longrightarrow> n \<in> set (db_cards db) \<Longrightarrow> fingerprint_ok (fp_str (n_fingerprint n))"
  by (simp add: typed_rows_def)

lemma typed_unique: "typed_rows b db \<Longrightarrow> keys_unique (db_cards db) \<and> messages_unique (db_cards db)"
  by (simp add: typed_rows_def)

lemma write_cards_agrees:
  assumes "typed_rows b db" "f (put_db jb db) = (k, map (put_card jb) ns)" "k = 0 \<Longrightarrow> ns = db_cards db"
    and "\<And>n. n \<in> set ns \<Longrightarrow> fingerprint_ok (fp_str (n_fingerprint n))"
  shows "agrees_with jb b (\<lambda>x _. x = k) db (pg_write_cards f (put_db jb db)) (write_cards ns db)"
proof (cases "k = 0")
  case True
  with assms(1-3) typed_unique [OF assms(1)] show ?thesis by (simp add: pg_write_cards_def write_cards_def)
next
  case False
  then show ?thesis using assms(1,2) typed_cards [OF assms(1) _ _ assms(4), of ns] keys_put [of jb ns] messages_put [of jb ns]
    by (simp add: pg_write_cards_def write_cards_def KEY_INDEX_def MESSAGE_INDEX_def del: map_map)
qed

text \<open>An update of rows, and the one by id that must find its card.\<close>

lemma update_cards_agrees:
  assumes "typed_rows b db" "\<And>n. n \<in> set (db_cards db) \<Longrightarrow> P (put_card jb n) = Q n \<and> (Q n \<longrightarrow> f (put_card jb n) = put_card jb (g n))"
    and "\<And>n. fingerprint_ok (fp_str (n_fingerprint n)) \<Longrightarrow> fingerprint_ok (fp_str (n_fingerprint (g n)))"
  shows "agrees_with jb b (\<lambda>x _. x = affected Q (db_cards db)) db (pg_update_cards P f (put_db jb db))
    (write_cards (update_where Q g (db_cards db)) db)"
  unfolding pg_update_cards_def
proof (rule write_cards_agrees [OF assms(1)])
  show "(affected P (pt_cards (put_db jb db)), update_where P f (pt_cards (put_db jb db))) =
      (affected Q (db_cards db), map (put_card jb) (update_where Q g (db_cards db)))"
    using affected_map [of "db_cards db" P "put_card jb" Q] update_where_put [of "db_cards db" P "put_card jb" Q f g] assms(2) by simp
  show "update_where Q g (db_cards db) = db_cards db" if "affected Q (db_cards db) = 0"
    using that by (simp add: affected_0_iff update_where_none)
  show "fingerprint_ok (fp_str (n_fingerprint n))" if "n \<in> set (update_where Q g (db_cards db))" for n
    using that assms(3) typed_card [OF assms(1)] by (auto simp: set_update_where)
qed

lemma update_cards_sim:
  assumes "\<And>n. P (put_card jb n) = Q n" "\<And>n. Q n \<Longrightarrow> f (put_card jb n) = put_card jb (g n)"
    and "\<And>n. fingerprint_ok (fp_str (n_fingerprint n)) \<Longrightarrow> fingerprint_ok (fp_str (n_fingerprint (g n)))"
  shows "sim jb b b (\<lambda>_ _. True) (pg_update_cards P f) (\<lambda>db. write_cards (update_where Q g (db_cards db)) db)"
proof (rule simI)
  fix db
  assume "typed_rows b db"
  from update_cards_agrees [OF this, where P = P and Q = Q and f = f and g = g and jb = jb] assms
  show "agrees_with jb b (\<lambda>_ _. True) db (pg_update_cards P f (put_db jb db)) (write_cards (update_where Q g (db_cards db)) db)"
    by (cases "write_cards (update_where Q g (db_cards db)) db") (auto simp: agrees_Inl agrees_Inr)
qed

lemma one_card_sim:
  assumes "\<And>n. f (put_card jb n) = put_card jb (g n)"
    and "\<And>n. fingerprint_ok (fp_str (n_fingerprint n)) \<Longrightarrow> fingerprint_ok (fp_str (n_fingerprint (g n)))"
  shows "sim jb b b (\<lambda>_ _. True) (pg_one_card i f) (update_card i g)"
proof (rule simI)
  fix db
  assume typed: "typed_rows b db"
  let ?Q = "\<lambda>n. n_id n = i"
  have w: "agrees_with jb b (\<lambda>x _. x = affected ?Q (db_cards db)) db (pg_update_cards (\<lambda>r. ct_id r = i) f (put_db jb db))
      (write_cards (update_where ?Q g (db_cards db)) db)"
    by (rule update_cards_agrees [OF typed]) (simp_all add: assms)
  show "agrees_with jb b (\<lambda>_ _. True) db (pg_one_card i f (put_db jb db)) (update_card i g db)"
  proof (cases "affected ?Q (db_cards db) = 0")
    case True
    then have "update_where ?Q g (db_cards db) = db_cards db" by (simp add: affected_0_iff update_where_none)
    with w True typed_unique [OF typed] have "pg_update_cards (\<lambda>r. ct_id r = i) f (put_db jb db) = (Inr 0, put_db jb db)"
      by (auto simp: write_cards_def agrees_Inr)
    with True show ?thesis by (simp add: pg_one_card_def update_card_def act_bind_def)
  next
    case False
    with w show ?thesis
      by (cases "write_cards (update_where ?Q g (db_cards db)) db")
        (auto simp: pg_one_card_def update_card_def act_bind_def agrees_Inl agrees_Inr)
  qed
qed

lemma coalesce_put: "coalesce (map_option h x) (map_option h y) = map_option h (coalesce x y)"
  by (simp add: coalesce_def split: option.split)

lemma apply_to_card_sim: "sim jb b b (\<lambda>_ _. True) (pg_apply_to_card jb i a now) (apply_to_card i a now)"
  unfolding pg_apply_to_card_def apply_to_card_def
  by (rule one_card_sim) (simp_all add: put_card_def apply_row_def coalesce_put split: option.split)

section \<open>Completing and failing\<close>

lemma typed_silences [simp]: "typed_rows b (db\<lparr>db_silences := ls\<rparr>) = typed_rows b db"
  by (simp add: typed_rows_def)

lemma write_silence_sim: "sim jb b b (\<lambda>_ _. True) (pg_write_silence l) (write_silence l)"
proof -
  have row: "\<lparr>st_am_id = sl_am_id l, st_matchers = sl_matchers l, st_starts_at = sl_starts_at l, st_ends_at = sl_ends_at l,
      st_created_by = sl_created_by l, st_discord_user_id = map_option to_db (sl_discord_user_id l),
      st_origin_message = sl_origin_message l, st_comment = sl_comment l, st_state = silence_lifecycle_str (sl_state l),
      st_synced_at = sl_synced_at l\<rparr> = put_silence l" by (simp add: put_silence_def)
  have am: "st_am_id (put_silence x) = sl_am_id x" for x by (simp add: put_silence_def)
  have upd: "update_where (\<lambda>r. st_am_id r = sl_am_id l) (\<lambda>r. (put_silence l)\<lparr>st_am_id := st_am_id r\<rparr>) (map put_silence ls) =
      map put_silence (update_where (\<lambda>s. sl_am_id s = sl_am_id l) (\<lambda>_. l) ls)" for ls
    by (rule update_where_put) (simp add: put_silence_def)
  have ex: "list_ex (\<lambda>r. st_am_id r = sl_am_id l) (map put_silence ls) \<longleftrightarrow> affected (\<lambda>s. sl_am_id s = sl_am_id l) ls \<noteq> 0" for ls
    by (auto simp: affected_0_iff list_ex_iff am)
  have "sim jb b b (\<lambda>_ _. True) (pg_write_silence l) (\<lambda>db. Inr ((), db\<lparr>db_silences :=
      if affected (\<lambda>s. sl_am_id s = sl_am_id l) (db_silences db) = 0 then db_silences db @ [l]
      else update_where (\<lambda>s. sl_am_id s = sl_am_id l) (\<lambda>_. l) (db_silences db)\<rparr>))"
    unfolding pg_write_silence_def row Let_def
    by (rule sim_write) (auto simp: ex upd put_db_def)
  moreover have "write_silence l = (\<lambda>db. Inr ((), db\<lparr>db_silences :=
      if affected (\<lambda>s. sl_am_id s = sl_am_id l) (db_silences db) = 0 then db_silences db @ [l]
      else update_where (\<lambda>s. sl_am_id s = sl_am_id l) (\<lambda>_. l) (db_silences db)\<rparr>))"
    by (auto simp: write_silence_def)
  ultimately show ?thesis by simp
qed

lemma expire_silence_sim: "sim jb b b (\<lambda>_ _. True) (pg_expire_silence am_id now) (\<lambda>db. Inr ((), db\<lparr>db_silences :=
    update_where (\<lambda>s. sl_am_id s = am_id) (\<lambda>s. s\<lparr>sl_state := SilenceExpired, sl_synced_at := now\<rparr>) (db_silences db)\<rparr>))"
proof -
  have "update_where (\<lambda>r. st_am_id r = am_id) (\<lambda>r. r\<lparr>st_state := ''expired'', st_synced_at := now\<rparr>) (map put_silence ls) =
      map put_silence (update_where (\<lambda>s. sl_am_id s = am_id) (\<lambda>s. s\<lparr>sl_state := SilenceExpired, sl_synced_at := now\<rparr>) ls)" for ls
    by (rule update_where_put) (simp add: put_silence_def silence_lifecycle_str_def)
  then show ?thesis unfolding pg_expire_silence_def Let_def by (intro sim_write) simp_all
qed

lemma settle_silence_sim: "sim jb b b (\<lambda>_ _. True) (pg_settle_silence e a now) (settle_silence e a now)"
proof (cases e)
  case (CreateSilence req)
  then show ?thesis using write_silence_sim
    by (cases "ae_am_silence_id a") (auto simp: pg_settle_silence_def settle_silence_def silence_of_def intro: sim_ret)
next
  case (ExpireSilence am_id)
  then show ?thesis using expire_silence_sim by (simp add: pg_settle_silence_def settle_silence_def)
qed (simp_all add: pg_settle_silence_def settle_silence_def sim_ret)

lemma sim_unit: "sim jb b c (\<lambda>_ _. True) m m' \<Longrightarrow> sim jb b c (\<lambda>_ (_::unit). True) (act_bind m (\<lambda>_. act_ret ())) m'"
proof -
  assume "sim jb b c (\<lambda>_ _. True) m m'"
  then have "sim jb b c (\<lambda>_ _. True) (act_bind m (\<lambda>_. act_ret ())) (tx_bind m' (\<lambda>_. tx_ret ()))"
    by (rule sim_bind) (rule sim_ret, simp)
  moreover have "tx_bind m' (\<lambda>_. tx_ret ()) = m'" by (auto simp: tx_bind_def tx_ret_def split: sum.split)
  ultimately show ?thesis by simp
qed

lemma complete_outbox_simulates:
  assumes "jsonb_ok jb" "typed_rows b db"
  shows "simulates jb b (\<lambda>_ _. True) (pg_complete_outbox jb w i a now (put_db jb db)) (complete_outbox w i a now db)"
  unfolding pg_complete_outbox_def complete_outbox_def
proof (rule sim_commit [OF _ assms(2)], rule sim_bind [OF take_claim_sim [OF assms(1)]])
  fix e e' :: effect
  assume "e = e'"
  moreover have "sim jb b b (\<lambda>_ _. True) (case effect_notification e of None \<Rightarrow> act_ret () | Some n \<Rightarrow> pg_apply_to_card jb n a now)
      (case effect_notification e of None \<Rightarrow> tx_ret () | Some n \<Rightarrow> apply_to_card n a now)"
    by (auto intro: apply_to_card_sim sim_ret split: option.split)
  ultimately show "sim jb b b (\<lambda>_ _. True)
     (act_bind (case effect_notification e of None \<Rightarrow> act_ret () | Some n \<Rightarrow> pg_apply_to_card jb n a now)
       (\<lambda>_. act_bind (pg_settle_silence e a now) (\<lambda>_. act_bind (pg_delete_item i) (\<lambda>_. act_ret ()))))
     (tx_bind (case effect_notification e' of None \<Rightarrow> tx_ret () | Some n \<Rightarrow> apply_to_card n a now)
       (\<lambda>_. tx_bind (settle_silence e' a now) (\<lambda>_. delete_item i)))"
    by (auto intro!: sim_bind [OF _ sim_bind [OF settle_silence_sim sim_unit [OF delete_item_sim]]])
qed

lemma release_item_sim: "sim jb b b (\<lambda>_ _. True) (pg_release_item i t err) (\<lambda>db. Inr ((), db\<lparr>db_outbox :=
    update_where (\<lambda>r. ob_id r = i) (\<lambda>r. r\<lparr>ob_claimed_by := None, ob_claimed_at := None, ob_not_before := t,
      ob_last_error := Some err\<rparr>) (db_outbox db)\<rparr>))"
proof -
  have "update_where (\<lambda>r. it_id r = i) (\<lambda>r. r\<lparr>it_claimed_by := None, it_claimed_at := None, it_not_before := t,
        it_last_error := Some err\<rparr>) (map (put_item jb) rs) =
      map (put_item jb) (update_where (\<lambda>r. ob_id r = i) (\<lambda>r. r\<lparr>ob_claimed_by := None, ob_claimed_at := None,
        ob_not_before := t, ob_last_error := Some err\<rparr>) rs)" for rs
    by (rule update_where_put) (simp add: put_item_def)
  then show ?thesis unfolding pg_release_item_def by (intro sim_write) (simp_all add: typed_update_items)
qed

lemma fail_outbox_simulates:
  "jsonb_ok jb \<Longrightarrow> typed_rows b db \<Longrightarrow>
   simulates jb b (\<lambda>_ _. True) (pg_fail_outbox jb w i err retry (put_db jb db)) (fail_outbox w i err retry db)"
  unfolding pg_fail_outbox_def fail_outbox_def
  by (rule sim_commit [of jb b], rule sim_bind [OF take_claim_sim], assumption, cases retry)
    (auto intro: sim_unit release_item_sim delete_item_sim)

lemma reclaim_expired_simulates:
  assumes "typed_rows b db"
  shows "simulates jb b (=) (pg_reclaim_expired older now (put_db jb db)) (reclaim_expired older now db)"
proof -
  let ?P = "\<lambda>r. it_claimed_at r \<noteq> None \<and> the (it_claimed_at r) < older"
  have P: "?P (put_item jb r) = expired_claim older r" for r by (simp add: expired_claim_def split: option.split)
  have "update_where ?P (\<lambda>r. r\<lparr>it_claimed_by := None, it_claimed_at := None, it_not_before := now\<rparr>) (map (put_item jb) rs) =
      map (put_item jb) (update_where (expired_claim older)
        (\<lambda>r. r\<lparr>ob_claimed_by := None, ob_claimed_at := None, ob_not_before := now\<rparr>) rs)" for rs
    by (rule update_where_put) (use P in \<open>simp add: put_item_def\<close>)
  moreover have "affected ?P (map (put_item jb) rs) = affected (expired_claim older) rs" for rs
    by (rule affected_map) (rule P)
  ultimately have "sim jb b b (=) (pg_reclaim_expired older now) (\<lambda>db. Inr (affected (expired_claim older) (db_outbox db),
      db\<lparr>db_outbox := update_where (expired_claim older)
        (\<lambda>r. r\<lparr>ob_claimed_by := None, ob_claimed_at := None, ob_not_before := now\<rparr>) (db_outbox db)\<rparr>))"
    unfolding pg_reclaim_expired_def Let_def by (intro sim_write) (simp_all add: typed_update_items)
  from simulates_one [OF this assms] show ?thesis by (simp add: reclaim_expired_def)
qed

end
