(* ===== verification/Postgres_Card_Facts.thy ===== *)
theory Postgres_Card_Facts
  imports Postgres_Facts
begin

text \<open>
  The card operations of the PostgreSQL backend simulate those of the SQLite one: decisions, acknowledgements, replies,
  orphaning, escalations, and the lookups.
\<close>

section \<open>Decisions\<close>

text \<open>A fingerprint of the code is never anything but sixteen hexadecimal digits.\<close>

definition typed_decision :: "decision \<Rightarrow> bool" where
  "typed_decision d \<longleftrightarrow> (\<forall>p \<in> set (de_new_cards d). fingerprint_ok (fp_str (nn_fingerprint (pc_card p)))) \<and>
     (\<forall>u \<in> set (de_updates d). fingerprint_ok (fp_str (cu_fingerprint u)))"

lemma retire_key_sim: "sim jb b b (\<lambda>_ _. True) (pg_retire_key i key) (retire_key i key)"
  unfolding pg_retire_key_def retire_key_def
  by (rule update_cards_sim) (simp_all add: put_card_def superseded_key_def SUPERSEDED_PREFIX_def)

lemma insert_notification_sim:
  assumes "jsonb_ok jb" "fingerprint_ok (fp_str (nn_fingerprint c))"
  shows "sim jb b b (=) (pg_insert_notification jb c) (insert_notification c)"
proof (rule simI)
  fix db
  assume typed: "typed_rows b db"
  let ?i = "db_next_card db"
  let ?db = "db\<lparr>db_next_card := ?i + 1\<rparr>"
  let ?ns = "db_cards db @ [new_row ?i c]"
  let ?f = "\<lambda>s. (1, pt_cards s @ [put_card jb (new_row ?i c)])"
  have nil: "jb_nil jb = fst (jb_tags jb) []" using assms(1) unfolding jsonb_ok_def by blast
  have row: "\<lparr>ct_id = ?i, ct_dedupe_key = key_str (nn_dedupe_key c),
         ct_fingerprint = fp_str (nn_fingerprint c), ct_route_id = nn_route_id c, ct_guild_id = to_db (nn_guild_id c),
         ct_channel_id = to_db (nn_channel_id c), ct_message_id = None, ct_thread_id = None, ct_state = state_str (nn_state c),
         ct_render_hash = None, ct_applied_tags = jb_nil jb, ct_tags_hash = None, ct_pinned = False, ct_archived = False,
         ct_responded_at = None, ct_escalated_at = None, ct_supersedes = nn_supersedes c, ct_resolved_at = None,
         ct_reply_count = 0, ct_created_at = nn_created_at c, ct_updated_at = nn_created_at c\<rparr> = put_card jb (new_row ?i c)"
    using nil by (simp add: put_card_def new_row_def)
  have put: "(put_db jb db)\<lparr>pt_next_card := ?i + 1\<rparr> = put_db jb ?db" by (simp add: put_db_def)
  have typed': "typed_rows b ?db" using typed by (simp add: typed_rows_def)
  have w: "agrees_with jb b (\<lambda>x _. x = 1) ?db (pg_write_cards ?f (put_db jb ?db)) (write_cards ?ns ?db)"
    by (rule write_cards_agrees [OF typed']) (use typed_card [OF typed] assms(2) in \<open>auto simp: new_row_def\<close>)
  have ins: "insert_notification c db = (case write_cards ?ns ?db of Inl e \<Rightarrow> Inl e | Inr (_, db') \<Rightarrow> Inr (?i, db'))"
    by (simp add: insert_notification_def write_cards_def Let_def)
  have pg: "pg_insert_notification jb c (put_db jb db) =
      (case pg_write_cards ?f (put_db jb ?db) of (Inl e, s) \<Rightarrow> (Inl e, s) | (Inr n, s) \<Rightarrow> (Inr ?i, s))"
    by (simp add: pg_insert_notification_def act_bind_def act_ret_def row put Let_def split: prod.split sum.split)
  show "agrees_with jb b (=) db (pg_insert_notification jb c (put_db jb db)) (insert_notification c db)"
    unfolding ins pg using w by (cases "write_cards ?ns ?db") (auto simp: agrees_Inl agrees_Inr)
qed

lemma set_card_alert_sim:
  "fingerprint_ok (fp_str f) \<Longrightarrow> sim jb b b (\<lambda>_ _. True) (pg_set_card_alert i f now) (set_card_alert i f now)"
  unfolding pg_set_card_alert_def set_card_alert_def by (rule one_card_sim) (simp_all add: put_card_def)

lemma move_state_sim: "sim jb b b (\<lambda>_ _. True) (pg_move_state i st now) (move_state i st now)"
  unfolding pg_move_state_def move_state_def
  by (rule one_card_sim) (simp_all add: put_card_def moved_def state_words)

lemma new_card_sim:
  assumes "jsonb_ok jb" "fingerprint_ok (fp_str (nn_fingerprint (pc_card p)))"
  shows "sim jb b b (=) (pg_new_card jb at p) (apply_new_card at p)"
  unfolding pg_new_card_def apply_new_card_def
proof (rule sim_bind)
  show "sim jb b b (\<lambda>_ _. True)
      (case nn_supersedes (pc_card p) of None \<Rightarrow> act_ret 0 | Some r \<Rightarrow> pg_retire_key r (nn_dedupe_key (pc_card p)))
      (case nn_supersedes (pc_card p) of None \<Rightarrow> tx_ret () | Some r \<Rightarrow> retire_key r (nn_dedupe_key (pc_card p)))"
    by (auto intro: sim_ret retire_key_sim split: option.split)
  show "sim jb b b (=) (act_bind (pg_insert_notification jb (pc_card p)) (\<lambda>i.
       act_bind (pg_enqueue jb at \<lparr>no_effect = PostCard i (pc_mention p), no_dedupe_key = nn_dedupe_key (pc_card p),
          no_not_before = pc_not_before p\<rparr>) (\<lambda>_. act_ret i)))
     (tx_bind (insert_notification (pc_card p)) (\<lambda>i. tx_bind (enqueue (post_item i p) at) (\<lambda>_. tx_ret i)))"
    by (rule sim_bind [OF insert_notification_sim [OF assms]], simp only: post_item_def [symmetric],
        rule sim_bind [OF enqueue_sim], rule sim_ret, rule refl)
qed

lemma update_sim:
  assumes "fingerprint_ok (fp_str (cu_fingerprint u))"
  shows "sim jb b b (\<lambda>_ _. True) (pg_update jb at u) (apply_update at u)"
  unfolding pg_update_def apply_update_def
proof (rule sim_bind [OF set_card_alert_sim [OF assms]], rule sim_bind)
  show "sim jb b b (\<lambda>_ _. True) (case cu_state u of None \<Rightarrow> act_ret () | Some st \<Rightarrow> pg_move_state (cu_id u) st at)
      (case cu_state u of None \<Rightarrow> tx_ret () | Some st \<Rightarrow> move_state (cu_id u) st at)"
    by (auto intro: sim_ret move_state_sim split: option.split)
qed (intro sim_each enqueue_sim)

lemma apply_decision_simulates:
  assumes "jsonb_ok jb" "typed_rows b db" "typed_decision d"
  shows "simulates jb b (=) (pg_apply_decision jb d (put_db jb db)) (apply_decision d db)"
  unfolding pg_apply_decision_def apply_decision_def apply_decision_tx_def
proof (rule sim_commit [OF _ assms(2)], rule sim_bind)
  show "sim jb b b (=) (pg_map (pg_new_card jb (de_at d)) (de_new_cards d)) (tx_map (apply_new_card (de_at d)) (de_new_cards d))"
    by (rule sim_map, rule new_card_sim) (use assms in \<open>auto simp: typed_decision_def\<close>)
  show "sim jb b b (=) (act_bind (pg_each (pg_update jb (de_at d)) (de_updates d)) (\<lambda>_. act_ret x))
      (tx_bind (tx_each (apply_update (de_at d)) (de_updates d)) (\<lambda>_. tx_ret y))" if "x = y" for x y :: "notification_id list"
    using assms(3) that by (auto simp: typed_decision_def intro!: sim_bind [OF sim_each sim_ret] update_sim)
qed

section \<open>Acknowledgements\<close>

lemma standing_put: "pg_standing (fp_str f) (put_ack a) = active_ack f a"
  by (simp add: pg_standing_def active_ack_def put_ack_def)

lemma typed_acks [simp]: "typed_rows b (db\<lparr>db_acks := ks\<rparr>) = typed_rows b db"
  by (simp add: typed_rows_def)

lemma write_ack_sim:
  "sim jb b b (\<lambda>n changed. changed \<longleftrightarrow> 0 < n) (if ac_revoke c then pg_revoke_ack c else pg_insert_ack c) (write_ack c)"
proof (rule simI)
  fix db
  assume typed: "typed_rows b db"
  let ?f = "ac_fingerprint c"
  have n: "affected (pg_standing (fp_str ?f)) (map put_ack ks) = affected (active_ack ?f) ks" for ks
    by (rule affected_map) (rule standing_put)
  have upd: "update_where (pg_standing (fp_str ?f)) (\<lambda>r. r\<lparr>kt_revoked_at := Some (ac_at c)\<rparr>) (map put_ack ks) =
      map put_ack (update_where (active_ack ?f) (\<lambda>a. a\<lparr>ak_revoked_at := Some (ac_at c)\<rparr>) ks)" for ks
    by (rule update_where_put) (simp add: standing_put, simp add: put_ack_def)
  have ex: "list_ex (pg_standing (fp_str ?f)) (map put_ack ks) \<longleftrightarrow> 0 < affected (active_ack ?f) ks" for ks
    using affected_0_iff [of "active_ack ?f" ks] by (auto simp: list_ex_iff standing_put)
  have new: "\<lparr>kt_fingerprint = fp_str ?f, kt_user_id = to_db (ac_user_id c), kt_kind = ack_kind_str (ac_kind c),
      kt_note = ac_note c, kt_created_at = ac_at c, kt_revoked_at = None\<rparr> = put_ack \<lparr>ak_fingerprint = ?f,
      ak_user_id = ac_user_id c, ak_kind = ac_kind c, ak_note = ac_note c, ak_created_at = ac_at c, ak_revoked_at = None\<rparr>"
    by (simp add: put_ack_def)
  have app: "map put_ack ks @ [put_ack k] = map put_ack (ks @ [k])" for ks k by simp
  show "agrees_with jb b (\<lambda>n changed. changed \<longleftrightarrow> 0 < n) db
      ((if ac_revoke c then pg_revoke_ack c else pg_insert_ack c) (put_db jb db)) (write_ack c db)"
    using typed by (simp add: pg_revoke_ack_def pg_insert_ack_def write_ack_def pg_write_def Let_def n upd ex new app del: map_append)
qed

lemma cards_for_put:
  assumes "jsonb_ok jb" "typed_rows b db"
  shows "pg_cards_for jb f (put_db jb db) = (Inr (read_cards_for f db), put_db jb db)"
proof -
  have "read_all (get_card jb) (sort_key ct_id (filter (\<lambda>r. ct_state r \<noteq> ''orphaned'' \<and>
      (ct_fingerprint r = fp_str f \<or> ct_dedupe_key r = key_str (per_alert f))) (map (put_card jb) (db_cards db)))) =
    Inr (sort_key n_id (filter (\<lambda>n. n_state n \<noteq> Orphaned \<and> (n_fingerprint n = f \<or> n_dedupe_key n = per_alert f)) (db_cards db)))"
    by (rule read_selected) (use assms typed_card in \<open>auto simp: state_words intro: read_written_card\<close>)
  then show ?thesis by (simp add: pg_cards_for_def pg_read_def read_cards_for_def)
qed

lemma bind_cards_for: "jsonb_ok jb \<Longrightarrow> typed_rows b db \<Longrightarrow>
    act_bind (pg_cards_for jb f) h (put_db jb db) = h (read_cards_for f db) (put_db jb db)"
  by (simp add: act_bind_def cards_for_put)

lemma bind_read: "act_bind (pg_read (\<lambda>s. Inr (f s))) h s = h (f s) s"
  by (simp add: act_bind_def pg_read_def)

lemma ack_card_sim: "sim jb b b (=) (pg_ack_card t acked at n) (ack_card t acked at n)"
  unfolding pg_ack_card_def ack_card_def
  by (auto intro: sim_ret sim_bind [OF move_state_sim] split: option.split)

lemma acknowledge_simulates:
  assumes ok: "jsonb_ok jb" and typed: "typed_rows b db"
  shows "simulates jb b (=) (pg_acknowledge jb c (put_db jb db)) (acknowledge c db)"
  unfolding pg_acknowledge_def acknowledge_def acknowledge_tx_def
proof (rule sim_commit [OF _ typed], rule sim_bind [OF write_ack_sim], rule simI)
  fix n :: nat and changed :: bool and db1
  assume changed: "changed \<longleftrightarrow> 0 < n" and typed1: "typed_rows b db1"
  let ?f = "ac_fingerprint c"
  let ?holder = "holder_row ?f db1"
  let ?t = "if ac_revoke c then TAckRevoked else TAcknowledged"
  let ?out = "\<lambda>cards'. \<lparr>ao_changed = changed, ao_holder = map_option ak_user_id ?holder,
      ao_acknowledged_at = map_option ak_created_at ?holder, ao_cards = cards'\<rparr>"
  have find: "find (pg_standing (fp_str ?f)) (map put_ack (db_acks db1)) = map_option put_ack ?holder"
    unfolding holder_row_def by (rule find_put) (rule standing_put)
  have h: "map_option (\<lambda>r. from_db (kt_user_id r)) (map_option put_ack x) = map_option ak_user_id x"
    "map_option kt_created_at (map_option put_ack x) = map_option ak_created_at x" for x
    by (cases x; simp add: put_ack_def)+
  have "sim jb b b (=)
      (act_bind (if 0 < n then pg_map (pg_ack_card ?t (?holder \<noteq> None) (ac_at c)) (read_cards_for ?f db1) else act_ret (read_cards_for ?f db1))
        (\<lambda>cards'. act_ret (?out cards')))
      (tx_bind (if changed then tx_map (ack_card ?t (?holder \<noteq> None) (ac_at c)) (read_cards_for ?f db1) else tx_ret (read_cards_for ?f db1))
        (\<lambda>cards'. tx_ret (?out cards')))"
    by (rule sim_bind [where R = "(=)"]) (auto simp: changed intro: sim_map ack_card_sim sim_ret)
  from simD [OF this typed1] show "agrees_with jb b (=) db1
      (act_bind (pg_read (\<lambda>s. Inr (find (pg_standing (fp_str ?f)) (pt_acks s)))) (\<lambda>holder.
       act_bind (pg_cards_for jb ?f) (\<lambda>cards.
       act_bind (if 0 < n then pg_map (pg_ack_card ?t (holder \<noteq> None) (ac_at c)) cards else act_ret cards) (\<lambda>cards'.
       act_ret \<lparr>ao_changed = 0 < n, ao_holder = map_option (\<lambda>r. from_db (kt_user_id r)) holder,
         ao_acknowledged_at = map_option kt_created_at holder, ao_cards = cards'\<rparr>))) (put_db jb db1))
      (let holder = ?holder; trigger = ?t; cards = read_cards_for ?f db1
       in tx_bind (if changed then tx_map (ack_card trigger (holder \<noteq> None) (ac_at c)) cards else tx_ret cards)
         (\<lambda>cards'. tx_ret \<lparr>ao_changed = changed, ao_holder = map_option ak_user_id holder,
            ao_acknowledged_at = map_option ak_created_at holder, ao_cards = cards'\<rparr>) db1)"
    unfolding bind_read bind_cards_for [OF ok typed1] put_simps find h Let_def
    using changed by (simp only: Option.option.map_disc_iff)
qed

lemma acknowledgement_agrees: "pg_acknowledgement f (put_db jb db) =
    Inr (map_option (\<lambda>a. (ak_user_id a, ak_kind a, ak_note a, ak_created_at a)) (acknowledgement f db))"
proof -
  have "find (pg_standing (fp_str f)) (map put_ack (db_acks db)) = map_option put_ack (holder_row f db)"
    unfolding holder_row_def by (rule find_put) (rule standing_put)
  then show ?thesis
    by (cases "holder_row f db") (simp_all add: pg_acknowledgement_def acknowledgement_def read_first_def read_written_ack)
qed

section \<open>Lookups\<close>

lemma find_card_put:
  assumes "jsonb_ok jb" "typed_rows b db" "\<And>n. P (put_card jb n) = Q n"
  shows "read_first (get_card jb) (find P (pt_cards (put_db jb db))) = Inr (find Q (db_cards db))"
proof -
  have "find P (map (put_card jb) (db_cards db)) = map_option (put_card jb) (find Q (db_cards db))"
    by (rule find_put) (rule assms(3))
  then show ?thesis using read_written_card [OF assms(1)] typed_card [OF assms(2)]
    by (cases "find Q (db_cards db)") (auto simp: read_first_def dest!: find_SomeD)
qed

lemma to_db_Some [simp]: "map_option to_db x = Some (to_db y) \<longleftrightarrow> x = Some y"
  by (cases x) auto

lemma notification_lookups:
  assumes "jsonb_ok jb" "typed_rows b db"
  shows "pg_notification_for jb key channel (put_db jb db) = Inr (notification_for key channel db)"
    "pg_notification_for_thread jb thread (put_db jb db) = Inr (notification_for_thread thread db)"
    "pg_notification jb i (put_db jb db) = Inr (notification_by_id i db)"
  unfolding pg_notification_for_def notification_for_def pg_notification_for_thread_def notification_for_thread_def
    pg_notification_def notification_by_id_def
  by (rule find_card_put [OF assms]; simp)+

lemma pinned_posts_agrees: "pg_pinned_posts channel (put_db jb db) = pinned_posts channel db"
proof -
  have "affected (\<lambda>r. ct_channel_id r = to_db channel \<and> ct_pinned r) (map (put_card jb) (db_cards db)) =
      affected (\<lambda>n. n_channel_id n = channel \<and> n_pinned n) (db_cards db)"
    by (rule affected_map) simp
  then show ?thesis by (simp add: pg_pinned_posts_def pinned_posts_def min_def Let_def)
qed

lemma live_cards_agrees:
  assumes "jsonb_ok jb" "typed_rows b db"
  shows "pg_live_cards jb routes limit (put_db jb db) = Inr (live_cards routes limit db)"
proof -
  have "read_all (get_card jb) (take limit (sort_key tuple_age (filter (\<lambda>r. ct_message_id r \<noteq> None \<and>
       ct_state r \<notin> {''resolved'', ''orphaned''} \<and> ct_route_id r \<in> set routes) (map (put_card jb) (db_cards db))))) =
     Inr (take limit (sort_key age_order (filter (\<lambda>n. n_message_id n \<noteq> None \<and> n_state n \<notin> {Resolved, Orphaned} \<and>
       n_route_id n \<in> set routes) (db_cards db))))"
    by (rule read_selected) (use assms typed_card in \<open>auto simp: state_words intro: read_written_card\<close>)
  then show ?thesis by (simp add: pg_live_cards_def live_cards_def)
qed

lemma state_str_inject [simp]: "state_str s = state_str t \<longleftrightarrow> s = t"
  by (metis state_word.parse_print sum.inject(2))

lemma pending_escalations_agrees:
  assumes "jsonb_ok jb" "typed_rows b db"
  shows "pg_pending_escalations jb created_before limit (put_db jb db) = Inr (pending_escalations created_before limit db)"
proof -
  have "read_all (get_card jb) (take limit (sort_key tuple_age (filter (\<lambda>r. ct_escalated_at r = None \<and> ct_message_id r \<noteq> None \<and>
       ct_state r = state_str Firing \<and> ct_created_at r \<le> created_before) (map (put_card jb) (db_cards db))))) =
     Inr (take limit (sort_key age_order (filter (awaits_escalation created_before) (db_cards db))))"
    by (rule read_selected) (use assms typed_card in \<open>auto simp: awaits_escalation_def intro: read_written_card\<close>)
  then show ?thesis by (simp add: pg_pending_escalations_def pending_escalations_def)
qed

section \<open>Replies, orphaning, escalation\<close>

lemma record_reply_simulates:
  assumes "jsonb_ok jb" "typed_rows b db"
  shows "simulates jb b (=) (pg_record_reply jb reply (put_db jb db)) (record_reply reply db)"
  unfolding pg_record_reply_def record_reply_def
proof (rule sim_commit [OF _ assms(2)], rule simI)
  fix db
  assume typed: "typed_rows b db"
  let ?u = "\<lambda>n. pg_update_cards (\<lambda>r. ct_id r = n_id n) (\<lambda>r. r\<lparr>ct_reply_count := ct_reply_count r + 1,
             ct_responded_at := coalesce (ct_responded_at r) (Some (tr_at reply)), ct_updated_at := tr_at reply\<rparr>)"
  let ?rows = "\<lambda>n. update_where (\<lambda>m. n_id m = n_id n) (\<lambda>m. m\<lparr>n_reply_count := n_reply_count m + 1,
            n_responded_at := coalesce (n_responded_at m) (Some (tr_at reply)), n_updated_at := tr_at reply\<rparr>) (db_cards db)"
  let ?next = "\<lambda>n. if n_responded_at n = None then Some (n\<lparr>n_reply_count := sat_add_u32 (n_reply_count n) 1,
            n_updated_at := tr_at reply, n_responded_at := Some (tr_at reply)\<rparr>) else None"
  have w: "agrees_with jb b (\<lambda>_ _. True) db (?u n (put_db jb db)) (write_cards (?rows n) db)" for n
    by (rule simD [OF update_cards_sim typed]) (simp_all add: put_card_def)
  have found: "read_first (get_card jb) (find (\<lambda>r. ct_thread_id r = Some (to_db (tr_thread_id reply))) (pt_cards (put_db jb db))) =
        Inr (find (\<lambda>n. n_thread_id n = Some (tr_thread_id reply)) (db_cards db))"
    by (rule find_card_put [OF assms(1) typed]) simp
  have look: "act_bind (pg_read (\<lambda>s. read_first (get_card jb) (find (\<lambda>r. ct_thread_id r = Some (to_db (tr_thread_id reply))) (pt_cards s)))) h
      (put_db jb db) = h (find (\<lambda>n. n_thread_id n = Some (tr_thread_id reply)) (db_cards db)) (put_db jb db)"
    for h :: "notification option \<Rightarrow> ('a, notification option) pg"
    by (simp only: act_bind_def pg_read_def found prod.case sum.case)
  have some: "agrees_with jb b (=) db (act_bind (?u n) (\<lambda>_. act_ret x) (put_db jb db)) (tx_bind (write_cards (?rows n)) (\<lambda>_. tx_ret x) db)"
    for n and x :: "notification option"
    using w [of n] by (cases "write_cards (?rows n) db") (auto simp: agrees_Inl agrees_Inr act_bind_def tx_bind_def tx_ret_def)
  show "agrees_with jb b (=) db
     (act_bind (pg_read (\<lambda>s. read_first (get_card jb) (find (\<lambda>r. ct_thread_id r = Some (to_db (tr_thread_id reply))) (pt_cards s))))
       (\<lambda>found. case found of None \<Rightarrow> act_ret None | Some n \<Rightarrow> act_bind (?u n) (\<lambda>_. act_ret (?next n))) (put_db jb db))
     (case find (\<lambda>n. n_thread_id n = Some (tr_thread_id reply)) (db_cards db) of None \<Rightarrow> Inr (None, db)
      | Some n \<Rightarrow> tx_bind (write_cards (?rows n)) (\<lambda>_. tx_ret (?next n)) db)"
    unfolding look using typed
    by (cases "find (\<lambda>n. n_thread_id n = Some (tr_thread_id reply)) (db_cards db)") (simp, simp only: option.case, rule some)
qed

lemma set_notification_state_simulates:
  "typed_rows b db \<Longrightarrow> simulates jb b (\<lambda>_ _. True) (pg_set_notification_state i st now (put_db jb db)) (set_notification_state i st now db)"
  unfolding pg_set_notification_state_def set_notification_state_def by (rule sim_commit [OF move_state_sim])

lemma orphan_notification_simulates:
  "typed_rows b db \<Longrightarrow> simulates jb b (\<lambda>_ _. True) (pg_orphan_notification i now (put_db jb db)) (orphan_notification i now db)"
  unfolding pg_orphan_notification_def orphan_notification_def
  by (rule sim_commit [OF one_card_sim]) (simp_all add: put_card_def orphan_row_def orphaned_key_def ORPHANED_PREFIX_def state_str_def)

lemma simulates_fails: "typed_rows b db \<Longrightarrow> simulates jb b R (Inl (pg_error e), put_db jb db) (Inl e, db)"
  unfolding simulates_def fst_conv snd_conv
  by (intro conjI, assumption, simp, rule exI [of _ "db_next_card db"], rule exI [of _ "db_next_item db"]) (simp add: with_ids_same)

lemma map_filter_column: "List.map_filter f xs = map the (filter (\<lambda>x. x \<noteq> None) (map f xs))"
  by (induction xs) (simp_all add: List.map_filter_simps split: option.split)

lemma mark_escalated_simulates:
  assumes "typed_rows b db"
  shows "simulates jb b (=) (pg_mark_escalated i at (put_db jb db)) (mark_escalated i at db)"
proof -
  let ?Q = "\<lambda>n. n_id n = i \<and> n_escalated_at n = None"
  let ?g = "\<lambda>n. n\<lparr>n_escalated_at := Some at, n_updated_at := at\<rparr>"
  let ?rows = "update_where ?Q ?g (db_cards db)"
  let ?u = "pg_update_cards (\<lambda>r. ct_id r = i \<and> ct_escalated_at r = None) (\<lambda>r. r\<lparr>ct_escalated_at := Some at, ct_updated_at := at\<rparr>)"
  have w: "agrees_with jb b (\<lambda>x _. x = affected ?Q (db_cards db)) db (?u (put_db jb db)) (write_cards ?rows db)"
    by (rule update_cards_agrees [OF assms]) (simp_all add: put_card_def)
  have uniq: "keys_unique ?rows" "messages_unique ?rows"
  proof -
    have "map (\<lambda>n. (n_channel_id n, n_dedupe_key n)) ?rows = map (\<lambda>n. (n_channel_id n, n_dedupe_key n)) (db_cards db)"
      "map n_message_id ?rows = map n_message_id (db_cards db)" by (auto simp: update_where_def)
    with typed_unique [OF assms] show "keys_unique ?rows" "messages_unique ?rows"
      unfolding keys_unique_def messages_unique_def map_filter_column by simp_all
  qed
  with w have u: "?u (put_db jb db) = (Inr (affected ?Q (db_cards db)), put_db jb (db\<lparr>db_cards := ?rows\<rparr>))"
    by (simp add: write_cards_def agrees_Inr)
  have ex: "list_ex (\<lambda>r. ct_id r = i) (map (put_card jb) (db_cards db)) \<longleftrightarrow> notification_by_id i db \<noteq> None"
    by (auto simp: list_ex_iff notification_by_id_def find_None_iff)
  show ?thesis
  proof (cases "affected ?Q (db_cards db) = 0")
    case True
    then have "?rows = db_cards db" by (simp add: affected_0_iff update_where_none)
    then show ?thesis using u True ex
      using simulates_fails [OF assms, of jb "(=)" "no_such_notification i"]
      by (auto simp: pg_mark_escalated_def mark_escalated_def act_bind_def pg_read_def run_tx_def intro: simulates_same [OF assms])
  next
    case False
    moreover have "typed_rows b (db\<lparr>db_cards := ?rows\<rparr>)" using w uniq
      by (simp add: write_cards_def agrees_Inr)
    ultimately show ?thesis using u by (simp add: pg_mark_escalated_def mark_escalated_def act_bind_def run_tx_def simulates_same)
  qed
qed

text \<open>The same kinds with the same counts; in which order, the collation says.\<close>

lemma outbox_depth_agrees: "set (pg_outbox_depth jb (put_db jb db)) = set (outbox_depth db)"
proof -
  have f: "filter (\<lambda>r. it_claimed_at r = None) (map (put_item jb) rs) = map (put_item jb) (filter (\<lambda>r. ob_claimed_at r = None) rs)" for rs
    by (rule filter_put) simp
  have "affected (\<lambda>r. it_kind r = k) (map (put_item jb) rs) = length (filter (\<lambda>r. effect_kind (ob_effect r) = k) rs)" for k rs
    unfolding affected_def by (subst filter_put [where Q = "\<lambda>r. effect_kind (ob_effect r) = k"]) simp_all
  then show ?thesis by (auto simp: pg_outbox_depth_def outbox_depth_def Let_def f comp_def)
qed

end
