(* ===== verification/Postgres_Alert_Facts.thy ===== *)
theory Postgres_Alert_Facts
  imports Postgres_Facts
begin

text \<open>
  The alert operations of the PostgreSQL backend simulate those of the SQLite one: batches, queries, the silence sync, the
  audit log and retention.
\<close>

section \<open>Rows\<close>

lemma put_alert_simps [simp]:
  "at_fingerprint (put_alert jb r) = fp_str (al_fingerprint (ar_alert r))" "at_status (put_alert jb r) = alert_status_str (al_status (ar_alert r))"
  "at_severity (put_alert jb r) = severity_str (alert_severity (ar_alert r))" "at_labels (put_alert jb r) = fst (jb_labels jb) (al_labels (ar_alert r))"
  "at_last_seen_at (put_alert jb r) = ar_last_seen_at r" "at_resolved_at (put_alert jb r) = ar_resolved_at r"
  "at_silenced_by (put_alert jb r) = fst (jb_strings jb) (al_silenced_by (ar_alert r))"
  by (simp_all add: put_alert_def Let_def)

lemma typed_alert: "typed_rows b db \<Longrightarrow> r \<in> set (db_alerts db) \<Longrightarrow>
    fingerprint_ok (fp_str (al_fingerprint (ar_alert r))) \<and> int (ar_flap_count r) \<le> b \<and> b \<le> I32_MAX"
  by (simp add: typed_rows_def)

lemma typed_alerts: "typed_rows b db \<Longrightarrow> c \<le> I32_MAX \<Longrightarrow>
    (\<And>r. r \<in> set as \<Longrightarrow> fingerprint_ok (fp_str (al_fingerprint (ar_alert r))) \<and> int (ar_flap_count r) \<le> c) \<Longrightarrow>
    typed_rows c (db\<lparr>db_alerts := as\<rparr>)"
  by (auto simp: typed_rows_def)

lemma typed_events [simp]: "typed_rows b (db\<lparr>db_events := es\<rparr>) = typed_rows b db"
  by (simp add: typed_rows_def)

lemma typed_audit [simp]: "typed_rows b (db\<lparr>db_audit := us\<rparr>) = typed_rows b db"
  by (simp add: typed_rows_def)

lemma read_stored_alert: "jsonb_ok jb \<Longrightarrow> typed_rows b db \<Longrightarrow> r \<in> set (db_alerts db) \<Longrightarrow> get_alert jb (put_alert jb r) = Inr r"
  using typed_alert [of b db r] by (intro read_written_alert) auto

lemma read_alert_put:
  assumes "jsonb_ok jb" "typed_rows b db"
  shows "pg_read_alert jb f (put_db jb db) = Inr (read_alert f db)"
proof -
  have "find (\<lambda>r. at_fingerprint r = fp_str f) (map (put_alert jb) (db_alerts db)) = map_option (put_alert jb) (read_alert f db)"
    unfolding read_alert_def by (rule find_put) simp
  then show ?thesis using read_stored_alert [OF assms]
    by (cases "read_alert f db") (auto simp: pg_read_alert_def read_first_def read_alert_def dest!: find_SomeD)
qed

lemma typed_update_alerts:
  assumes "typed_rows b db" "\<And>r. al_fingerprint (ar_alert (g r)) = al_fingerprint (ar_alert r) \<and> ar_flap_count (g r) = ar_flap_count r"
  shows "typed_rows b (db\<lparr>db_alerts := update_where Q g (db_alerts db)\<rparr>)"
  by (rule typed_alerts [OF assms(1)]) (use typed_alert [OF assms(1)] assms in \<open>auto simp: set_update_where typed_rows_def\<close>)

lemma touch_alert_sim: "sim jb b b (\<lambda>_ _. True) (pg_touch_alert f at) (touch_alert f at)"
proof -
  have "update_where (\<lambda>r. at_fingerprint r = fp_str f) (\<lambda>r. r\<lparr>at_last_seen_at := at\<rparr>) (map (put_alert jb) as) =
      map (put_alert jb) (update_where (\<lambda>r. al_fingerprint (ar_alert r) = f) (\<lambda>r. r\<lparr>ar_last_seen_at := at\<rparr>) as)" for as
    by (rule update_where_put) (simp add: put_alert_def Let_def)
  then show ?thesis unfolding pg_touch_alert_def touch_alert_def Let_def
    by (intro sim_write) (simp_all add: typed_update_alerts)
qed

lemma upsert_alert_sim:
  assumes "fingerprint_ok (fp_str (al_fingerprint a))" "int (tn_flap_count tn) \<le> c" "b \<le> c" "c \<le> I32_MAX"
  shows "sim jb b c (\<lambda>_ _. True) (pg_upsert_alert jb a tn at) (upsert_alert a tn at)"
proof (rule simI)
  fix db
  assume typed: "typed_rows b db"
  let ?row = "\<lparr>ar_alert = a, ar_labels_hash = labels_hash (al_labels a), ar_first_seen_at = tn_first_seen_at tn,
           ar_last_seen_at = at, ar_resolved_at = tn_resolved_at tn, ar_flap_count = tn_flap_count tn, ar_updated_at = at\<rparr>"
  let ?same = "\<lambda>r. al_fingerprint (ar_alert r) = al_fingerprint a"
  have row: "pg_excluded jb a tn at = put_alert jb ?row"
    by (simp add: pg_excluded_def put_alert_def Let_def min_def)
  have upd: "update_where (\<lambda>r. at_fingerprint r = fp_str (al_fingerprint a))
      (\<lambda>r. (put_alert jb ?row)\<lparr>at_first_seen_at := at_first_seen_at r\<rparr>) (map (put_alert jb) as) =
    map (put_alert jb) (update_where ?same (\<lambda>r. ?row\<lparr>ar_first_seen_at := ar_first_seen_at r\<rparr>) as)" for as
    by (rule update_where_put) (simp add: put_alert_def Let_def)
  have ex: "list_ex (\<lambda>r. at_fingerprint r = fp_str (al_fingerprint a)) (map (put_alert jb) as) \<longleftrightarrow> affected ?same as \<noteq> 0" for as
    by (auto simp: affected_0_iff list_ex_iff)
  have app: "map (put_alert jb) as @ [put_alert jb ?row] = map (put_alert jb) (as @ [?row])" for as by simp
  have "typed_rows c (db\<lparr>db_alerts := db_alerts db @ [?row]\<rparr>)"
    "typed_rows c (db\<lparr>db_alerts := update_where ?same (\<lambda>r. ?row\<lparr>ar_first_seen_at := ar_first_seen_at r\<rparr>) (db_alerts db)\<rparr>)"
    using typed_alert [OF typed] assms
    by (intro typed_alerts [OF typed]; force simp: set_update_where)+
  then show "agrees_with jb c (\<lambda>_ _. True) db (pg_upsert_alert jb a tn at (put_db jb db)) (upsert_alert a tn at db)"
    by (simp add: pg_upsert_alert_def upsert_alert_def pg_write_def row Let_def upd ex app del: map_append)
qed

section \<open>Batches\<close>

lemma event_key_put: "pg_event_key (put_event jb e) = pg_event_key (put_event jb e') \<longleftrightarrow> event_key e = event_key e'"
proof -
  have "event_kind_str k = event_kind_str k' \<longleftrightarrow> k = k'" for k k' by (metis kind_word.parse_print sum.inject(2))
  then show ?thesis by (simp add: pg_event_key_def event_key_def put_event_def)
qed

lemma append_event_sim: "sim jb b b (\<lambda>_ _. True) (pg_append_event jb a p tn src at) (append_event a p tn src at)"
proof (rule simI)
  fix db
  assume typed: "typed_rows b db"
  let ?e = "event_of a p tn src at"
  have row: "pg_append_event jb a p tn src at = pg_write (\<lambda>s. if list_ex (\<lambda>r. pg_event_key r = pg_event_key (put_event jb ?e)) (pt_events s)
      then (0, s) else (1, s\<lparr>pt_events := pt_events s @ [put_event jb ?e]\<rparr>))"
    by (simp only: pg_append_event_def event_of_def put_event_def Let_def event_row.select_convs)
  have ex: "list_ex (\<lambda>r. pg_event_key r = pg_event_key (put_event jb ?e)) (map (put_event jb) es) \<longleftrightarrow> event_key ?e \<in> event_key ` set es" for es
    by (induction es) (auto simp: event_key_put)
  have app: "map (put_event jb) es @ [put_event jb ?e] = map (put_event jb) (es @ [?e])" for es by simp
  show "agrees_with jb b (\<lambda>_ _. True) db (pg_append_event jb a p tn src at (put_db jb db)) (append_event a p tn src at db)"
    using typed by (simp add: row append_event_def pg_write_def Let_def ex app del: map_append)
qed

lemma classify_flap: "classify previous a at regroup = Some tn \<Longrightarrow>
    tn_flap_count tn \<le> (case previous of None \<Rightarrow> 0 | Some p \<Rightarrow> Suc (ar_flap_count p))"
  by (auto simp: classify_def sat_add_u32_def Let_def split: option.splits if_splits)

lemma carried_fingerprint [simp]: "al_fingerprint (carry_over p a) = al_fingerprint a" "al_fingerprint (batch_alert x a) = al_fingerprint a"
  by (simp_all add: carry_over_def batch_alert_def split: option.split)

lemma sim_mono: "sim jb b b R m m' \<Longrightarrow> b \<le> c \<Longrightarrow> c \<le> I32_MAX \<Longrightarrow> sim jb b c R m m'"
proof (rule simI)
  fix db
  assume "sim jb b b R m m'" "b \<le> c" "c \<le> I32_MAX" "typed_rows b db"
  then show "agrees_with jb c R db (m (put_db jb db)) (m' db)"
    using simD [of jb b b R m m' db] by (cases "m' db") (auto simp: agrees_Inl agrees_Inr intro: typed_mono)
qed

lemma ingest_one_sim:
  assumes "jsonb_ok jb" "fingerprint_ok (fp_str (al_fingerprint incoming))" "b + 1 \<le> I32_MAX" "0 \<le> b"
  shows "sim jb b (b + 1) (=) (pg_ingest_one jb regroup persist x incoming out) (ingest_one regroup persist x incoming out)"
proof (rule simI)
  fix db
  assume typed: "typed_rows b db"
  let ?keyed = "batch_alert x incoming"
  let ?p = "read_alert (al_fingerprint incoming) db"
  let ?a = "carry_over ?p ?keyed"
  let ?at = "ib_received_at x"
  have read: "act_bind (pg_read (pg_read_alert jb (al_fingerprint incoming))) h (put_db jb db) = h ?p (put_db jb db)"
    for h :: "alert_record option \<Rightarrow> ('a, ingest_outcome) pg"
    by (simp add: act_bind_def pg_read_def read_alert_put [OF assms(1) typed])
  have pg: "pg_ingest_one jb regroup persist x incoming out (put_db jb db) = (case classify ?p ?a ?at regroup of
        None \<Rightarrow> act_bind (pg_touch_alert (al_fingerprint ?a) ?at) (\<lambda>_. act_ret (out\<lparr>io_duplicates := sat_add_u32 (io_duplicates out) 1\<rparr>))
      | Some tn \<Rightarrow> act_bind (pg_upsert_alert jb ?a tn ?at) (\<lambda>_.
          act_bind (if persist then pg_append_event jb ?a ?p tn (ib_source x) ?at else act_ret 0) (\<lambda>_.
          act_ret (out\<lparr>io_deltas := io_deltas out @ [\<lparr>d_kind = tn_kind tn, d_source = ib_source x, d_alert = ?a,
            d_flap_count = tn_flap_count tn, d_observed_at = ?at\<rparr>]\<rparr>)))) (put_db jb db)"
    unfolding pg_ingest_one_def batch_alert_def [symmetric] Let_def carried_fingerprint read by (rule refl)
  show "agrees_with jb (b + 1) (=) db (pg_ingest_one jb regroup persist x incoming out (put_db jb db))
      (ingest_one regroup persist x incoming out db)"
  proof (cases "classify ?p ?a ?at regroup")
    case None
    have "sim jb b (b + 1) (=) (act_bind (pg_touch_alert (al_fingerprint ?a) ?at) (\<lambda>_. act_ret (out\<lparr>io_duplicates := sat_add_u32 (io_duplicates out) 1\<rparr>)))
        (tx_bind (touch_alert (al_fingerprint ?a) ?at) (\<lambda>_. tx_ret (out\<lparr>io_duplicates := sat_add_u32 (io_duplicates out) 1\<rparr>)))"
      by (rule sim_bind [where c = "b + 1", OF sim_mono [OF touch_alert_sim]], use assms in simp, use assms in simp, rule sim_ret, rule refl)
    from simD [OF this typed] show ?thesis unfolding pg ingest_one_def Let_def None option.case .
  next
    case (Some tn)
    have "case ?p of None \<Rightarrow> True | Some p \<Rightarrow> int (ar_flap_count p) \<le> b"
      using typed_alert [OF typed] by (auto simp: read_alert_def dest!: find_SomeD split: option.split)
    then have flap: "int (tn_flap_count tn) \<le> b + 1"
      using classify_flap [OF Some] assms(4) by (auto split: option.splits)
    have "sim jb b (b + 1) (=) (act_bind (pg_upsert_alert jb ?a tn ?at) (\<lambda>_.
          act_bind (if persist then pg_append_event jb ?a ?p tn (ib_source x) ?at else act_ret 0) (\<lambda>_.
          act_ret (out\<lparr>io_deltas := io_deltas out @ [\<lparr>d_kind = tn_kind tn, d_source = ib_source x, d_alert = ?a,
            d_flap_count = tn_flap_count tn, d_observed_at = ?at\<rparr>]\<rparr>))))
       (tx_bind (upsert_alert ?a tn ?at) (\<lambda>_.
          tx_bind (if persist then append_event ?a ?p tn (ib_source x) ?at else tx_ret ()) (\<lambda>_.
          tx_ret (out\<lparr>io_deltas := io_deltas out @ [\<lparr>d_kind = tn_kind tn, d_source = ib_source x, d_alert = ?a,
            d_flap_count = tn_flap_count tn, d_observed_at = ?at\<rparr>]\<rparr>))))"
    proof (rule sim_bind [OF upsert_alert_sim])
      show "sim jb (b + 1) (b + 1) (=)
          (act_bind (if persist then pg_append_event jb ?a ?p tn (ib_source x) ?at else act_ret 0) (\<lambda>_. act_ret y))
          (tx_bind (if persist then append_event ?a ?p tn (ib_source x) ?at else tx_ret ()) (\<lambda>_. tx_ret y))" for y :: ingest_outcome
        by (rule sim_bind [where R = "\<lambda>_ _. True"]) (auto intro: append_event_sim sim_ret)
    qed (use assms flap in simp_all)
    from simD [OF this typed] show ?thesis unfolding pg ingest_one_def Let_def Some option.case .
  qed
qed

lemma ingest_all_sim:
  assumes "jsonb_ok jb" "\<And>a. a \<in> set as \<Longrightarrow> fingerprint_ok (fp_str (al_fingerprint a))" "b + int (length as) \<le> I32_MAX" "0 \<le> b"
  shows "sim jb b (b + int (length as)) (=) (pg_ingest_all jb regroup persist x as out) (ingest_all regroup persist x as out)"
  using assms(2-4)
proof (induction as arbitrary: b out)
  case Nil
  show ?case unfolding pg_ingest_all.simps ingest_all.simps by (simp add: sim_ret del: act_simps)
next
  case (Cons a as)
  have "sim jb b (b + 1) (=) (pg_ingest_one jb regroup persist x a out) (ingest_one regroup persist x a out)"
    by (rule ingest_one_sim [OF assms(1)]) (use Cons.prems in auto)
  moreover have "sim jb (b + 1) (b + 1 + int (length as)) (=) (pg_ingest_all jb regroup persist x as out1) (ingest_all regroup persist x as out1)" for out1
    by (rule Cons.IH) (use Cons.prems in auto)
  then have "sim jb (b + 1) (b + int (length (a # as))) (=) (pg_ingest_all jb regroup persist x as out1) (ingest_all regroup persist x as out1)" for out1
    by (simp add: ac_simps)
  ultimately show ?case by (auto intro: sim_bind)
qed

lemma ingest_batch_simulates:
  assumes "jsonb_ok jb" "typed_rows b db" "0 \<le> b" "b + int (length (ib_alerts x)) \<le> I32_MAX"
    "\<And>a. a \<in> set (ib_alerts x) \<Longrightarrow> fingerprint_ok (fp_str (al_fingerprint a))"
  shows "simulates jb (b + int (length (ib_alerts x))) (=) (pg_ingest_batch jb regroup persist x (put_db jb db)) (ingest_batch regroup persist x db)"
  unfolding pg_ingest_batch_def ingest_batch_def by (rule sim_commit_grows [OF ingest_all_sim]) (use assms in auto)

section \<open>Queries\<close>

lemma severity_str_inject: "severity_str s = severity_str t \<longleftrightarrow> s = t"
  by (cases s; cases t; simp add: severity_str_def)

lemma jsonb_text: "jsonb_ok jb \<Longrightarrow> jb_text jb (fst (jb_labels jb) ls) name = labels_get ls name"
  by (simp add: jsonb_ok_def)

lemma collate_le: "jsonb_ok jb \<Longrightarrow> fingerprint_ok (fp_str f) \<Longrightarrow> fingerprint_ok (fp_str g) \<Longrightarrow>
    jb_collate jb (fp_str f) \<le> jb_collate jb (fp_str g) \<longleftrightarrow> f \<le> g"
  by (simp add: jsonb_ok_def less_eq_fingerprint_def)

lemma admits_put: "jsonb_ok jb \<Longrightarrow> pg_admits jb f (put_db jb db) (put_alert jb r) = sql_admits f db r"
proof -
  assume ok: "jsonb_ok jb"
  have state: "list_ex (\<lambda>n. ct_dedupe_key n = k \<and> ct_state n = st) (map (put_card jb) ns) \<longleftrightarrow>
      (\<exists>n \<in> set ns. n_dedupe_key n = DedupeKey k \<and> state_str (n_state n) = st)" for k st ns
  proof -
    have "key_str d = k \<longleftrightarrow> d = DedupeKey k" for d by (cases d) auto
    then show ?thesis by (auto simp: list_ex_iff)
  qed
  have labels: "\<not> list_ex (\<lambda>(name, expected, equal).
         ((case jb_text jb (fst (jb_labels jb) ls) name of Some v \<Rightarrow> v | None \<Rightarrow> []) = expected) \<noteq> equal) xs \<longleftrightarrow>
      list_all (\<lambda>(n, v, eq). (get_or_empty ls n = v) = eq) xs" for ls xs
    by (induction xs) (auto simp: jsonb_text [OF ok] get_or_empty_def)
  show ?thesis
    unfolding pg_admits_def sql_admits_def sql_labels_match_def put_alert_simps put_simps labels length_0_conv
    by (cases "sq_notification_state f") (simp_all add: state)
qed

lemma filtered_put:
  assumes "jsonb_ok jb" "typed_rows b db"
  shows "pg_filtered jb f (put_db jb db) = map (put_alert jb) (filtered_alerts f db)"
proof -
  have f: "filter (pg_admits jb f (put_db jb db)) (map (put_alert jb) (db_alerts db)) =
      map (put_alert jb) (filter (sql_admits f db) (db_alerts db))"
    by (rule filter_put) (rule admits_put [OF assms(1)])
  have "sort_key (\<lambda>r. (- at_last_seen_at r, jb_collate jb (at_fingerprint r))) (map (put_alert jb) (filter (sql_admits f db) (db_alerts db))) =
      map (put_alert jb) (sort_key (\<lambda>r. (- ar_last_seen_at r, al_fingerprint (ar_alert r))) (filter (sql_admits f db) (db_alerts db)))"
    by (rule sort_put) (use typed_alert [OF assms(2)] in \<open>auto simp: collate_le [OF assms(1)]\<close>)
  then show ?thesis by (simp add: pg_filtered_def filtered_alerts_def f)
qed

lemma filtered_sub: "r \<in> set (filtered_alerts f db) \<Longrightarrow> r \<in> set (db_alerts db)"
  by (simp add: filtered_alerts_def)

lemma query_alerts_agrees:
  assumes "jsonb_ok jb" "typed_rows b db"
  shows "pg_query_alerts jb rx shows' q (put_db jb db) = query_alerts rx shows' q db"
proof -
  let ?rows = "filtered_alerts (from_query rx q) db"
  have read: "read_all (get_alert jb) (map (put_alert jb) rs) = Inr rs" if "set rs \<subseteq> set ?rows" for rs
    by (rule read_all_written, rule read_stored_alert [OF assms]) (use that filtered_sub in blast)
  have sub: "set (take n (drop k ?rows)) \<subseteq> set ?rows" "set (take n ?rows) \<subseteq> set ?rows" for n k
    by (meson dual_order.trans set_drop_subset set_take_subset)+
  show ?thesis
    by (cases "first_compile_error rx (aq_matchers q)")
      (simp_all add: pg_query_alerts_def query_alerts_def pg_scan_alerts_def scan_alerts_def filtered_put [OF assms] take_map drop_map
        read sub Let_def)
qed

lemma firing_alerts_named_agrees:
  assumes "jsonb_ok jb" "typed_rows b db"
  shows "pg_firing_alerts_named jb name (put_db jb db) = Inr (firing_alerts_named name db)"
proof -
  have "read_all (get_alert jb) (sort_key (\<lambda>r. jb_collate jb (at_fingerprint r))
     (filter (\<lambda>r. at_status r = ''firing'' \<and> (case name of Some n \<Rightarrow> jb_text jb (at_labels r) ''alertname'' = Some n
        | None \<Rightarrow> jb_text jb (at_labels r) ''alertname'' = None)) (map (put_alert jb) (db_alerts db)))) =
    Inr (sort_key (\<lambda>r. al_fingerprint (ar_alert r))
     (filter (\<lambda>r. al_status (ar_alert r) = AFiring \<and> alertname (al_labels (ar_alert r)) = name) (db_alerts db)))"
    by (rule read_selected) (use read_stored_alert [OF assms] typed_alert [OF assms(2)] in
        \<open>auto simp: state_words jsonb_text [OF assms(1)] alertname_def collate_le [OF assms(1)] split: option.split\<close>)
  then show ?thesis by (simp add: pg_firing_alerts_named_def firing_alerts_named_def)
qed

lemma firing_not_in_agrees:
  assumes "jsonb_ok jb" "typed_rows b db"
  shows "pg_firing_not_in jb present cutoff (put_db jb db) = Inr (firing_not_in present cutoff db)"
proof -
  have "read_all (get_alert jb) (filter (\<lambda>r. at_status r = ''firing'' \<and> at_last_seen_at r < cutoff) (map (put_alert jb) (db_alerts db))) =
      Inr (filter (\<lambda>r. al_status (ar_alert r) = AFiring \<and> ar_last_seen_at r < cutoff) (db_alerts db))"
    by (rule read_selected(3) [where k = "\<lambda>_. 0::nat" and h = "\<lambda>_. 0::nat"]) (use read_stored_alert [OF assms] in \<open>auto simp: state_words\<close>)
  moreover have "fp_str f \<in> fp_str ` A \<longleftrightarrow> f \<in> A" for f A by auto
  ultimately show ?thesis by (simp add: pg_firing_not_in_def firing_not_in_def)
qed

section \<open>The silence sync\<close>

lemma sync_link_put: "pg_sync_link now sil (put_db jb db) = (Inr (), put_db jb (db\<lparr>db_silences :=
    update_where (\<lambda>l. sl_am_id l = ss_am_id sil) (\<lambda>l. l\<lparr>sl_state := ss_state sil, sl_ends_at := ss_ends_at sil, sl_synced_at := now\<rparr>)
      (db_silences db)\<rparr>))"
proof -
  have "update_where (\<lambda>r. st_am_id r = ss_am_id sil)
      (\<lambda>r. r\<lparr>st_state := silence_lifecycle_str (ss_state sil), st_ends_at := ss_ends_at sil, st_synced_at := now\<rparr>) (map put_silence ls) =
    map put_silence (update_where (\<lambda>l. sl_am_id l = ss_am_id sil)
      (\<lambda>l. l\<lparr>sl_state := ss_state sil, sl_ends_at := ss_ends_at sil, sl_synced_at := now\<rparr>) ls)" for ls
    by (rule update_where_put) (simp add: put_silence_def)
  then show ?thesis by (simp add: pg_sync_link_def act_bind_def pg_write_def Let_def)
qed

lemma sync_links_put: "pg_each (pg_sync_link now) snap (put_db jb db) =
    (Inr (), put_db jb (db\<lparr>db_silences := sync_links snap now (db_silences db)\<rparr>))"
proof (induction snap arbitrary: db)
  case Nil
  then show ?case by (simp add: sync_links_def)
next
  case (Cons sil snap)
  then show ?case by (simp add: sync_links_def act_bind_def sync_link_put)
qed

lemma missing_candidates_put:
  assumes "jsonb_ok jb" "typed_rows b db"
  shows "pg_missing_candidates jb (map fp_str known) fs (put_db jb db) =
    Inr (List.map_filter (\<lambda>f. if f \<in> set known then None else read_alert f db) fs)"
proof (induction fs)
  case (Cons f fs)
  have "fp_str f \<in> fp_str ` set known \<longleftrightarrow> f \<in> set known" by auto
  with Cons read_alert_put [OF assms, of f] show ?case
    by (cases "read_alert f db") (simp_all add: List.map_filter_simps)
qed (simp add: List.map_filter_simps)

lemma candidates_put:
  assumes "jsonb_ok jb" "typed_rows b db"
  shows "pg_candidates jb desired (put_db jb db) = Inr (sync_candidates desired db)"
proof -
  have nil: "fst (jb_strings jb) xs = jb_nil jb \<longleftrightarrow> xs = []" for xs
    using assms(1) document_inject [of "jb_strings jb" xs "[]"] by (simp add: jsonb_ok_def)
  have "read_all (get_alert jb) (filter (\<lambda>r. at_silenced_by r \<noteq> jb_nil jb) (map (put_alert jb) (db_alerts db))) =
      Inr (filter (\<lambda>r. al_silenced_by (ar_alert r) \<noteq> []) (db_alerts db))"
    by (rule read_selected(3) [where k = "\<lambda>_. 0::nat" and h = "\<lambda>_. 0::nat"]) (use read_stored_alert [OF assms] in \<open>auto simp: nil\<close>)
  then show ?thesis
    using missing_candidates_put [OF assms, of "map (\<lambda>r. al_fingerprint (ar_alert r)) (filter (\<lambda>r. al_silenced_by (ar_alert r) \<noteq> []) (db_alerts db))"]
    by (simp add: pg_candidates_def sync_candidates_def Let_def comp_def)
qed

text \<open>A step of the sync over a state that differs from another in its tables of alerts and silences only.\<close>

definition same_ids :: "db \<Rightarrow> db \<Rightarrow> bool" where
  "same_ids db db' \<longleftrightarrow> db_next_card db' = db_next_card db \<and> db_next_item db' = db_next_item db"

lemma sync_one_put:
  assumes "typed_rows b db" "sync_one desired now r (db, ds) = (db', ds')"
  shows "pg_sync_one jb desired now r ds (put_db jb db) = (Inr ds', put_db jb db') \<and> typed_rows b db' \<and> same_ids db db'"
proof -
  let ?ids = "case bt_get desired (al_fingerprint (ar_alert r)) of Some i \<Rightarrow> i | None \<Rightarrow> []"
  let ?r = "resuppressed ?ids r"
  let ?g = "\<lambda>q. q\<lparr>ar_alert := (ar_alert q)\<lparr>al_silenced_by := al_silenced_by (ar_alert ?r), al_am_state := al_am_state (ar_alert ?r)\<rparr>,
      ar_updated_at := now\<rparr>"
  have upd: "update_where (\<lambda>q. at_fingerprint q = fp_str (al_fingerprint (ar_alert r)))
      (\<lambda>q. q\<lparr>at_silenced_by := fst (jb_strings jb) (al_silenced_by (ar_alert ?r)), at_am_state := am_state_str (al_am_state (ar_alert ?r)),
        at_updated_at := now\<rparr>) (map (put_alert jb) as) =
    map (put_alert jb) (update_where (\<lambda>q. al_fingerprint (ar_alert q) = al_fingerprint (ar_alert r)) ?g as)" for as
    by (rule update_where_put) (simp add: put_alert_def Let_def alert_severity_def)
  have typed: "typed_rows b (db\<lparr>db_alerts := update_where (\<lambda>q. al_fingerprint (ar_alert q) = al_fingerprint (ar_alert r)) ?g (db_alerts db)\<rparr>)"
    by (rule typed_update_alerts [OF assms(1)]) simp
  have a: "(ar_alert r)\<lparr>al_silenced_by := ?ids, al_am_state := (if ?ids \<noteq> [] \<or> al_inhibited_by (ar_alert r) \<noteq> [] then AmSuppressed else AmActive)\<rparr> =
      ar_alert ?r" by (simp add: resuppressed_def)
  have fp: "al_fingerprint (ar_alert ?r) = al_fingerprint (ar_alert r)" by (simp add: resuppressed_def)
  show ?thesis
  proof (cases "?ids = al_silenced_by (ar_alert r)")
    case True
    with assms show ?thesis by (simp add: pg_sync_one_def sync_one_def same_ids_def)
  next
    case False
    with assms(2) have db': "db' = db\<lparr>db_alerts := update_where (\<lambda>q. al_fingerprint (ar_alert q) = al_fingerprint (ar_alert r)) ?g (db_alerts db)\<rparr>"
      by (simp add: sync_one_def Let_def)
    have "pg_write_suppression jb now (ar_alert ?r) (put_db jb db) =
        (Inr (affected (\<lambda>q. at_fingerprint q = fp_str (al_fingerprint (ar_alert r))) (map (put_alert jb) (db_alerts db))), put_db jb db')"
      unfolding pg_write_suppression_def pg_write_def Let_def fp put_simps upd db' by simp
    with False assms(2) typed db' show ?thesis
      unfolding pg_sync_one_def sync_one_def Let_def a
      by (auto simp: act_bind_def same_ids_def)
  qed
qed

lemma sync_all_put:
  "typed_rows b db \<Longrightarrow> fold (sync_one desired now) rs (db, ds) = (db', ds') \<Longrightarrow>
   pg_sync_all jb desired now rs ds (put_db jb db) = (Inr ds', put_db jb db') \<and> typed_rows b db' \<and> same_ids db db'"
proof (induction rs arbitrary: db ds)
  case Nil
  then show ?case by (simp add: same_ids_def)
next
  case (Cons r rs)
  obtain db1 ds1 where 1: "sync_one desired now r (db, ds) = (db1, ds1)" by fastforce
  from sync_one_put [OF Cons.prems(1) 1, of jb] Cons.IH [of db1 ds1] Cons.prems(2) 1
  show ?case by (auto simp: act_bind_def same_ids_def)
qed

lemma sync_silences_simulates:
  assumes "jsonb_ok jb" "typed_rows b db"
  shows "simulates jb b (=) (pg_sync_silences jb snap now (put_db jb db)) (sync_silences snap now db)"
proof -
  let ?db = "db\<lparr>db_silences := sync_links snap now (db_silences db)\<rparr>"
  let ?m = "suppression_map snap"
  obtain db' ds where f: "fold (sync_one ?m now) (sync_candidates ?m ?db) (?db, []) = (db', ds)" by fastforce
  have typed: "typed_rows b ?db" using assms(2) by (simp add: typed_rows_def)
  from sync_all_put [OF typed f, of jb]
  have "pg_sync_silences jb snap now (put_db jb db) = (Inr ds, put_db jb db')"
    by (simp add: pg_sync_silences_def pg_commit_def act_bind_def sync_links_put pg_read_def candidates_put [OF assms(1) typed])
  moreover have "typed_rows b db'" using sync_all_put [OF typed f, of jb] by simp
  ultimately show ?thesis using f by (simp add: sync_silences_def run_tx_def Let_def simulates_same)
qed

lemma record_silence_simulates:
  "typed_rows b db \<Longrightarrow> simulates jb b (\<lambda>_ _. True) (pg_record_silence link (put_db jb db)) (record_silence link db)"
  unfolding pg_record_silence_def record_silence_def by (rule sim_commit [OF sim_unit [OF write_silence_sim]])

lemma silences_agree: "pg_silences active_only (put_db jb db) = Inr (silences active_only db)"
proof -
  have "read_all get_silence (sort_key (\<lambda>r. - st_starts_at r) (filter (\<lambda>r. active_only \<longrightarrow> st_state r = ''active'') (map put_silence (db_silences db)))) =
      Inr (sort_key (\<lambda>l. - sl_starts_at l) (filter (\<lambda>l. active_only \<longrightarrow> sl_state l = SilenceActive) (db_silences db)))"
    by (rule read_selected) (simp_all add: read_written_silence, simp_all add: put_silence_def state_words)
  then show ?thesis by (cases active_only) (simp_all add: pg_silences_def silences_def)
qed

section \<open>The audit log and retention\<close>

lemma append_audit_simulates:
  assumes "typed_rows b db"
  shows "simulates jb b (\<lambda>_ _. True) (pg_append_audit jb e (put_db jb db)) (append_audit e db)"
proof -
  have "sim jb b b (\<lambda>_ _. True) (pg_append_audit jb e) (\<lambda>db. Inr ((), db\<lparr>db_audit := db_audit db @ [e]\<rparr>))"
    unfolding pg_append_audit_def by (rule sim_write) (auto simp: put_db_def put_audit_def)
  from simulates_one [OF this assms] show ?thesis by (simp add: append_audit_def)
qed

lemma prune_events_put: "pg_prune_events cutoff n (put_db jb db) =
    (case delete_first (\<lambda>e. ev_received_at e < cutoff) n (db_events db) of (k, es) \<Rightarrow> (Inr k, put_db jb (db\<lparr>db_events := es\<rparr>)))"
proof -
  have "delete_first (\<lambda>r. et_received_at r < cutoff) n (map (put_event jb) (db_events db)) =
      map_prod id (map (put_event jb)) (delete_first (\<lambda>e. ev_received_at e < cutoff) n (db_events db))"
    by (rule delete_first_put) (simp add: put_event_def)
  then show ?thesis by (simp add: pg_prune_events_def pg_write_def split_beta)
qed

lemma prune_audit_put: "pg_prune_audit cutoff n (put_db jb db) =
    (case delete_first (\<lambda>e. au_at e < cutoff) n (db_audit db) of (k, us) \<Rightarrow> (Inr k, put_db jb (db\<lparr>db_audit := us\<rparr>)))"
proof -
  have "delete_first (\<lambda>r. ut_created_at r < cutoff) n (map (put_audit jb) (db_audit db)) =
      map_prod id (map (put_audit jb)) (delete_first (\<lambda>e. au_at e < cutoff) n (db_audit db))"
    by (rule delete_first_put) (simp add: put_audit_def)
  then show ?thesis by (simp add: pg_prune_audit_def pg_write_def split_beta)
qed

text \<open>A deletion of the first rows by key: the keys the statement selects are those of the rows of the other backend.\<close>

lemma first_keys_put:
  assumes "\<And>r. r \<in> set rs \<Longrightarrow> P (w r) = Q r" "\<And>r. col (w r) = h (key r)"
    and "\<And>x y. x \<in> set rs \<Longrightarrow> y \<in> set rs \<Longrightarrow> k (w x) \<le> k (w y) \<longleftrightarrow> key x \<le> key y"
  shows "set (map col (take n (sort_key k (filter P (map w rs))))) = h ` key ` set (first_rows Q key n rs)"
proof -
  have "filter P (map w rs) = map w (filter Q rs)" using assms(1) by (rule filter_put)
  moreover have "sort_key k (map w (filter Q rs)) = map w (sort_key key (filter Q rs))"
    by (rule sort_put) (use assms(3) in auto)
  ultimately show ?thesis by (simp add: first_rows_def take_map assms(2) image_image)
qed

lemma prune_cards_put:
  "pg_prune_cards cutoff n (put_db jb db) =
     (case delete_rows (settled_before cutoff) n_id n (db_cards db) of (k, ns) \<Rightarrow> (Inr k, put_db jb (db\<lparr>db_cards := ns\<rparr>)))"
proof -
  let ?gone = "n_id ` set (first_rows (settled_before cutoff) n_id n (db_cards db))"
  have gone: "set (map ct_id (take n (sort_key ct_id (filter (\<lambda>r. ct_state r = ''resolved'' \<and> ct_updated_at r < cutoff)
      (map (put_card jb) (db_cards db)))))) = id ` ?gone"
    by (rule first_keys_put) (simp_all add: state_words settled_before_def)
  have f: "filter (\<lambda>r. ct_id r \<notin> G) (map (put_card jb) (db_cards db)) = map (put_card jb) (filter (\<lambda>r. n_id r \<notin> G) (db_cards db))"
    "affected (\<lambda>r. ct_id r \<in> G) (map (put_card jb) (db_cards db)) = affected (\<lambda>r. n_id r \<in> G) (db_cards db)" for G
    by (rule filter_put, simp) (rule affected_map, simp)
  show ?thesis unfolding pg_prune_cards_def pg_write_def Let_def put_simps gone f
    by (simp add: delete_rows_def Let_def)
qed

lemma prune_alerts_put:
  assumes "jsonb_ok jb" "typed_rows b db"
  shows "pg_prune_alerts jb cutoff n (put_db jb db) =
     (case delete_rows (resolved_before cutoff) row_fingerprint n (db_alerts db) of (k, as) \<Rightarrow>
        (Inr k, put_db jb (db\<lparr>db_alerts := as, db_events := filter (\<lambda>e. ev_fingerprint e \<in> row_fingerprint ` set as \<or>
           ev_fingerprint e \<notin> row_fingerprint ` set (db_alerts db)) (db_events db)\<rparr>)))"
proof -
  let ?first = "first_rows (resolved_before cutoff) row_fingerprint n (db_alerts db)"
  let ?gone = "row_fingerprint ` set ?first"
  have gone: "set (map at_fingerprint (take n (sort_key (\<lambda>r. jb_collate jb (at_fingerprint r))
      (filter (\<lambda>r. at_status r = ''resolved'' \<and> (case at_resolved_at r of Some t \<Rightarrow> t < cutoff | None \<Rightarrow> False))
        (map (put_alert jb) (db_alerts db)))))) = fp_str ` ?gone"
    by (rule first_keys_put) (use typed_alert [OF assms(2)] in
        \<open>auto simp: state_words resolved_before_def row_fingerprint_def collate_le [OF assms(1)] split: option.split\<close>)
  have mem: "fp_str f \<in> fp_str ` G \<longleftrightarrow> f \<in> G" for f G by auto
  have f: "filter (\<lambda>r. at_fingerprint r \<notin> fp_str ` G) (map (put_alert jb) (db_alerts db)) =
      map (put_alert jb) (filter (\<lambda>r. row_fingerprint r \<notin> G) (db_alerts db))"
    "affected (\<lambda>r. at_fingerprint r \<in> fp_str ` G) (map (put_alert jb) (db_alerts db)) = affected (\<lambda>r. row_fingerprint r \<in> G) (db_alerts db)"
    "filter (\<lambda>r. et_fingerprint r \<notin> fp_str ` G) (map (put_event jb) (db_events db)) =
      map (put_event jb) (filter (\<lambda>e. ev_fingerprint e \<notin> G) (db_events db))" for G
    by (rule filter_put, simp add: row_fingerprint_def mem) (rule affected_map, simp add: row_fingerprint_def mem,
        rule filter_put, simp add: put_event_def mem)
  have sub: "?gone \<subseteq> row_fingerprint ` set (db_alerts db)" by (auto dest: first_rows_sub)
  have left: "ev_fingerprint e \<in> row_fingerprint ` set (filter (\<lambda>r. row_fingerprint r \<notin> ?gone) (db_alerts db)) \<or>
      ev_fingerprint e \<notin> row_fingerprint ` set (db_alerts db) \<longleftrightarrow> ev_fingerprint e \<notin> ?gone" for e
    using sub by auto
  show ?thesis unfolding pg_prune_alerts_def pg_write_def Let_def put_simps gone f
    by (simp only: delete_rows_def Let_def prod.case left) (simp add: put_db_def)
qed

lemma prune_simulates:
  assumes "jsonb_ok jb" "typed_rows b db"
  shows "simulates jb b (=) (pg_prune jb p now (put_db jb db)) (prune p now db)"
proof -
  let ?n = "rp_batch_limit p"
  obtain ke es where e: "delete_first (\<lambda>e. ev_received_at e < now - rp_events p) ?n (db_events db) = (ke, es)" by fastforce
  obtain kc ns where c: "delete_rows (settled_before (now - rp_resolved p)) n_id ?n (db_cards db) = (kc, ns)" by fastforce
  obtain ka as where a: "delete_rows (resolved_before (now - rp_resolved p)) row_fingerprint ?n (db_alerts db) = (ka, as)" by fastforce
  obtain ku us where u: "delete_first (\<lambda>e. au_at e < now - rp_audit p) ?n (db_audit db) = (ku, us)" by fastforce
  let ?es = "filter (\<lambda>e. ev_fingerprint e \<in> row_fingerprint ` set as \<or> ev_fingerprint e \<notin> row_fingerprint ` set (db_alerts db)) es"
  let ?out = "\<lparr>pr_events = ke, pr_alerts = ka, pr_notifications = kc, pr_audit = ku,
      pr_more = list_ex (\<lambda>k. ?n \<le> k) [ke, kc, ka, ku]\<rparr>"
  let ?db2 = "db\<lparr>db_events := es, db_cards := ns\<rparr>"
  have ns: "\<exists>Q. ns = filter Q (db_cards db)" using delete_rows_filter [of "settled_before (now - rp_resolved p)" n_id ?n "db_cards db"] c by auto
  then have typed: "typed_rows b ?db2"
    using assms(2) by (auto simp: typed_rows_def keys_unique_def messages_unique_def distinct_map_filter map_filter_filter_distinct)
  have "pg_prune jb p now (put_db jb db) = (Inr ?out, put_db jb (db\<lparr>db_events := ?es, db_cards := ns, db_alerts := as, db_audit := us\<rparr>))"
    using prune_alerts_put [OF assms(1) typed, of "now - rp_resolved p" ?n] a u
    by (simp add: pg_prune_def pg_commit_def act_bind_def prune_events_put prune_cards_put prune_audit_put e c)
  moreover have "set as \<subseteq> set (db_alerts db)"
    using set_delete_rows [of "resolved_before (now - rp_resolved p)" row_fingerprint ?n "db_alerts db"] a by simp
  then have "typed_rows b (db\<lparr>db_events := ?es, db_cards := ns, db_alerts := as, db_audit := us\<rparr>)"
    using typed by (auto simp: typed_rows_def)
  ultimately show ?thesis
    by (simp add: prune_def prune_tx_def run_tx_def Let_def e c a u simulates_same)
qed

end
