(* ===== verification/Postgres_System.thy ===== *)
theory Postgres_System
  imports Store_Port Postgres_Card_Facts Postgres_Alert_Facts
begin

text \<open>
  The PostgreSQL backend behind the store's interface (\<open>impl Store for PostgresStore\<close>), and any history of calls on it:
  every call and every query agrees with the SQLite backend, so a history never leaves the tables the other backend
  could have, and keeps the invariants proved there. A claim is taken with no other transaction open; \<open>Postgres_Claims\<close>
  has the claims that overlap.
\<close>

section \<open>The backend\<close>

fun postgres_call :: "'j jsonb \<Rightarrow> store_call \<Rightarrow> 'j tuples \<Rightarrow> (store_error + store_answer) \<times> 'j tuples" where
  "postgres_call jb (CallIngest rg ps x) s = answered AnswerOutcome (pg_ingest_batch jb rg ps x s)"
| "postgres_call jb (CallDecision d) s = answered AnswerIds (pg_apply_decision jb d s)"
| "postgres_call jb (CallAcknowledge c) s = answered AnswerAck (pg_acknowledge jb c s)"
| "postgres_call jb (CallEnqueue items at) s = answered unit_answer (pg_enqueue_effects jb items at s)"
| "postgres_call jb (CallClaim w req now) s = answered AnswerItems (pg_claim_outbox jb {} w req now s)"
| "postgres_call jb (CallComplete w i a now) s = answered unit_answer (pg_complete_outbox jb w i a now s)"
| "postgres_call jb (CallFail w i err retry) s = answered unit_answer (pg_fail_outbox jb w i err retry s)"
| "postgres_call jb (CallReclaim older now) s = answered AnswerCount (pg_reclaim_expired older now s)"
| "postgres_call jb (CallReply r) s = answered AnswerCard (pg_record_reply jb r s)"
| "postgres_call jb (CallOrphan i now) s = answered unit_answer (pg_orphan_notification i now s)"
| "postgres_call jb (CallSetState i st now) s = answered unit_answer (pg_set_notification_state i st now s)"
| "postgres_call jb (CallEscalated i at) s = answered AnswerFlag (pg_mark_escalated i at s)"
| "postgres_call jb (CallSyncSilences snap now) s = answered AnswerDeltas (pg_sync_silences jb snap now s)"
| "postgres_call jb (CallRecordSilence link) s = answered unit_answer (pg_record_silence link s)"
| "postgres_call jb (CallAudit entry) s = answered (\<lambda>_. AnswerUnit) (pg_append_audit jb entry s)"
| "postgres_call jb (CallPrune p now) s = answered AnswerReport (pg_prune jb p now s)"

fun postgres_query ::
  "'j jsonb \<Rightarrow> regex_engine \<Rightarrow> (core_error \<Rightarrow> string) \<Rightarrow> store_query \<Rightarrow> 'j tuples \<Rightarrow> store_error + store_answer" where
  "postgres_query jb rx shows' (QueryAlert f) s = map_sum id AnswerRecord (pg_read_alert jb f s)"
| "postgres_query jb rx shows' (QueryAlerts q) s = map_sum id AnswerPage (pg_query_alerts jb rx shows' q s)"
| "postgres_query jb rx shows' (QueryFiringNamed name) s = map_sum id AnswerRecords (pg_firing_alerts_named jb name s)"
| "postgres_query jb rx shows' (QueryFiringNotIn present cutoff) s = map_sum id AnswerRecords (pg_firing_not_in jb present cutoff s)"
| "postgres_query jb rx shows' QueryDepth s = Inr (AnswerDepth (pg_outbox_depth jb s))"
| "postgres_query jb rx shows' (QueryAcknowledgement f) s = map_sum id AnswerAcknowledgement (pg_acknowledgement f s)"
| "postgres_query jb rx shows' (QueryNotificationFor key channel) s = map_sum id AnswerCard (pg_notification_for jb key channel s)"
| "postgres_query jb rx shows' (QueryNotificationForThread thread) s = map_sum id AnswerCard (pg_notification_for_thread jb thread s)"
| "postgres_query jb rx shows' (QueryNotification i) s = map_sum id AnswerCard (pg_notification jb i s)"
| "postgres_query jb rx shows' (QueryLiveCards routes limit) s = map_sum id AnswerCards (pg_live_cards jb routes limit s)"
| "postgres_query jb rx shows' (QueryPinnedPosts channel) s = Inr (AnswerCount (pg_pinned_posts channel s))"
| "postgres_query jb rx shows' (QueryPendingEscalations before limit) s = map_sum id AnswerCards (pg_pending_escalations jb before limit s)"
| "postgres_query jb rx shows' (QuerySilences active_only) s = map_sum id AnswerLinks (pg_silences active_only s)"

section \<open>Call by call\<close>

text \<open>What the types of a call guarantee, and how many alerts it brings.\<close>

fun typed_call :: "store_call \<Rightarrow> bool" where
  "typed_call (CallIngest rg ps x) = list_all (\<lambda>a. fingerprint_ok (fp_str (al_fingerprint a))) (ib_alerts x)"
| "typed_call (CallDecision d) = typed_decision d"
| "typed_call _ = True"

fun alerts_in :: "store_call \<Rightarrow> int" where
  "alerts_in (CallIngest rg ps x) = int (length (ib_alerts x))"
| "alerts_in _ = 0"

lemma simulates_answered: "simulates jb c R p q \<Longrightarrow> (\<And>x y. R x y \<Longrightarrow> f x = g y) \<Longrightarrow> simulates jb c (=) (answered f p) (answered g q)"
  by (auto simp: simulates_def answered_def sum.rel_map elim!: sum.rel_mono_strong)

lemma alerts_in_nonneg: "0 \<le> alerts_in c"
  by (cases c) simp_all

lemmas call_simulates = ingest_batch_simulates apply_decision_simulates acknowledge_simulates enqueue_effects_simulates
  claim_outbox_simulates complete_outbox_simulates fail_outbox_simulates reclaim_expired_simulates record_reply_simulates
  orphan_notification_simulates set_notification_state_simulates mark_escalated_simulates sync_silences_simulates
  record_silence_simulates append_audit_simulates prune_simulates

lemma postgres_call_simulates:
  assumes "jsonb_ok jb" "typed_rows b db" "typed_call c" "0 \<le> b" "b + alerts_in c \<le> I32_MAX"
  shows "simulates jb (b + alerts_in c) (=) (postgres_call jb c (put_db jb db)) (sqlite_call c db)"
proof (cases c)
  case (CallIngest rg ps x)
  have "simulates jb (b + int (length (ib_alerts x))) (=) (pg_ingest_batch jb rg ps x (put_db jb db)) (ingest_batch rg ps x db)"
    by (rule ingest_batch_simulates) (use assms CallIngest in \<open>auto simp: list_all_iff\<close>)
  then show ?thesis unfolding CallIngest by (auto intro: simulates_answered)
qed (use assms in \<open>auto intro!: simulates_answered intro: call_simulates\<close>)

fun same_answer :: "store_answer \<Rightarrow> store_answer \<Rightarrow> bool" where
  "same_answer (AnswerDepth xs) (AnswerDepth ys) = (set xs = set ys)"
| "same_answer x y = (x = y)"

lemma same_answer_refl: "same_answer x x"
  by (cases x) simp_all

lemma rel_sum_refl: "(\<And>x. R x x) \<Longrightarrow> rel_sum (=) R r r"
  by (cases r) simp_all

lemma postgres_query_agrees:
  assumes "jsonb_ok jb" "typed_rows b db"
  shows "rel_sum (=) same_answer (postgres_query jb rx shows' q (put_db jb db)) (sqlite_query rx shows' q db)"
  by (cases q) (simp_all add: read_alert_put [OF assms] query_alerts_agrees [OF assms] firing_alerts_named_agrees [OF assms]
      firing_not_in_agrees [OF assms] outbox_depth_agrees acknowledgement_agrees notification_lookups [OF assms]
      live_cards_agrees [OF assms] pinned_posts_agrees pending_escalations_agrees [OF assms] silences_agree
      same_answer_refl rel_sum_refl)

section \<open>Histories\<close>

lemma with_ids_ok: "db_ok db \<Longrightarrow> db_next_card db \<le> i \<Longrightarrow> db_next_item db \<le> j \<Longrightarrow> db_ok (with_ids i j db)"
  by (fastforce simp: db_ok_def cards_ok_def card_ok_def outbox_ok_def item_ok_def alerts_ok_def with_ids_def)

lemma typed_with_ids [simp]: "typed_rows b (with_ids i j db) = typed_rows b db"
  by (simp add: typed_rows_def with_ids_def)

definition postgres_history :: "'j jsonb \<Rightarrow> store_call list \<Rightarrow> 'j tuples \<Rightarrow> 'j tuples" where
  "postgres_history jb = fold (\<lambda>c s. snd (postgres_call jb c s))"

lemma typed_empty: "typed_rows 0 empty_db"
  by (simp add: typed_rows_def empty_db_def I32_MAX_def keys_unique_def messages_unique_def List.map_filter_simps)

lemma sum_alerts_in: "0 \<le> (\<Sum>c\<leftarrow>calls. alerts_in c)"
  by (induction calls) (auto simp: alerts_in_nonneg)

lemma postgres_history_rows:
  assumes "jsonb_ok jb" "db_ok db" "typed_rows b db" "0 \<le> b" "list_all typed_call calls" "list_all call_ok calls"
    "b + (\<Sum>c\<leftarrow>calls. alerts_in c) \<le> I32_MAX"
  shows "\<exists>db'. postgres_history jb calls (put_db jb db) = put_db jb db' \<and> db_ok db' \<and> typed_rows (b + (\<Sum>c\<leftarrow>calls. alerts_in c)) db'"
  using assms(2-)
proof (induction calls arbitrary: db b)
  case Nil
  then show ?case by (auto simp: postgres_history_def)
next
  case (Cons c calls)
  from Cons.prems sum_alerts_in [of calls] have "b + alerts_in c \<le> I32_MAX" by simp
  from postgres_call_simulates [OF assms(1) Cons.prems(2) _ Cons.prems(3) this] Cons.prems(4)
  obtain i j where 1: "typed_rows (b + alerts_in c) (run_call c db)" "db_next_card (run_call c db) \<le> i" "db_next_item (run_call c db) \<le> j"
    "snd (postgres_call jb c (put_db jb db)) = put_db jb (with_ids i j (run_call c db))"
    unfolding simulates_def snd_sqlite_call by auto
  have ok: "db_ok (with_ids i j (run_call c db))"
    by (rule with_ids_ok [OF run_call_ok 1(2,3)]) (use Cons.prems in auto)
  have "\<exists>db'. postgres_history jb calls (put_db jb (with_ids i j (run_call c db))) = put_db jb db' \<and> db_ok db' \<and>
      typed_rows (b + alerts_in c + (\<Sum>c\<leftarrow>calls. alerts_in c)) db'"
    by (rule Cons.IH [OF ok]) (use 1(1) Cons.prems alerts_in_nonneg [of c] in \<open>auto simp: add.assoc\<close>)
  then show ?case by (simp add: postgres_history_def 1(4) add.assoc)
qed

end
