(* ===== verification/Postgres_Claims.thy ===== *)
theory Postgres_Claims
  imports Postgres_Outbox
begin

text \<open>
  Claims of several workers whose transactions overlap. A claim first locks the rows it selects, passing over the rows
  other open transactions have locked (\<open>FOR UPDATE SKIP LOCKED\<close>), and commits at some later point, in any order; only
  then are its rows marked. Lemmas: seen through the marks the open claims will make, every lock is a whole claim taken
  at once, and a commit changes nothing.
\<close>

type_synonym open_claim = "worker_id \<times> time \<times> int list"
type_synonym claim_answer = "worker_id \<times> (store_error + outbox_item list)"

datatype claim_event = ClaimLocks worker_id claim_request time | ClaimCommits nat

definition locked_ids :: "open_claim list \<Rightarrow> int set" where
  "locked_ids claims = set (concat (map (\<lambda>(w, now, ids). ids) claims))"

text \<open>A commit of a transaction that is not open is nothing.\<close>

fun claim_step :: "'j jsonb \<Rightarrow> claim_event \<Rightarrow> 'j tuples \<times> open_claim list \<times> claim_answer list \<Rightarrow>
    'j tuples \<times> open_claim list \<times> claim_answer list" where
  "claim_step jb (ClaimLocks w req now) (s, claims, out) =
     (s, claims @ [(w, now, pg_claim_ids (locked_ids claims) req now s)], out)"
| "claim_step jb (ClaimCommits k) (s, claims, out) =
     (if k < length claims then (case claims ! k of (w, now, ids) \<Rightarrow>
        case pg_commit (pg_take_ids jb w now ids) s of (r, s') \<Rightarrow> (s', take k claims @ drop (Suc k) claims, out @ [(w, r)]))
      else (s, claims, out))"

definition overlapping_claims :: "'j jsonb \<Rightarrow> claim_event list \<Rightarrow> 'j tuples \<Rightarrow>
    'j tuples \<times> open_claim list \<times> claim_answer list" where
  "overlapping_claims jb events s = fold (claim_step jb) events (s, [], [])"

text \<open>The same claims one at a time, each whole, in the order in which they locked.\<close>

fun serial_step :: "'j jsonb \<Rightarrow> claim_event \<Rightarrow> 'j tuples \<times> claim_answer list \<Rightarrow> 'j tuples \<times> claim_answer list" where
  "serial_step jb (ClaimLocks w req now) (s, out) =
     (case pg_claim_outbox jb {} w req now s of (r, s') \<Rightarrow> (s', out @ [(w, r)]))"
| "serial_step jb (ClaimCommits k) p = p"

definition serial_claims :: "'j jsonb \<Rightarrow> claim_event list \<Rightarrow> 'j tuples \<Rightarrow> 'j tuples \<times> claim_answer list" where
  "serial_claims jb events s = fold (serial_step jb) events (s, [])"

section \<open>Marks\<close>

definition mark :: "open_claim \<Rightarrow> 'j item_tuple list \<Rightarrow> 'j item_tuple list" where
  "mark c rows = (case c of (w, now, ids) \<Rightarrow> update_where (\<lambda>r. it_id r \<in> set ids)
     (\<lambda>r. r\<lparr>it_claimed_by := Some w, it_claimed_at := Some now, it_attempts := it_attempts r + 1\<rparr>) rows)"

definition taken :: "'j jsonb \<Rightarrow> open_claim \<Rightarrow> 'j item_tuple list \<Rightarrow> store_error + outbox_item list" where
  "taken jb c rows = (case c of (w, now, ids) \<Rightarrow>
     read_all (get_item jb) (sort_key tuple_order (filter (\<lambda>r. it_id r \<in> set ids) (mark c rows))))"

abbreviation picked :: "open_claim \<Rightarrow> int set" where
  "picked c \<equiv> set (snd (snd c))"

lemma locked_simps [simp]:
  "locked_ids [] = {}" "locked_ids (c # cs) = picked c \<union> locked_ids cs" "locked_ids (cs @ cs') = locked_ids cs \<union> locked_ids cs'"
  by (auto simp: locked_ids_def split_beta)

lemma mark_commute: "picked c \<inter> picked d = {} \<Longrightarrow> mark c (mark d rows) = mark d (mark c rows)"
  by (auto simp: mark_def update_where_def split_beta)

lemma mark_map: "map it_id (mark c rows) = map it_id rows" "map it_payload (mark c rows) = map it_payload rows"
  by (auto simp: mark_def update_where_def split_beta)

lemma marks_map: "map it_id (fold mark cs rows) = map it_id rows"
  by (induction cs arbitrary: rows) (simp_all add: mark_map)

lemma marks_pull: "picked c \<inter> locked_ids cs = {} \<Longrightarrow> fold mark cs (mark c rows) = mark c (fold mark cs rows)"
proof (induction cs arbitrary: rows)
  case (Cons d cs)
  then have "picked d \<inter> picked c = {}" "picked c \<inter> locked_ids cs = {}" by auto
  with Cons.IH [of "mark d rows"] show ?case by (simp add: mark_commute [of d c])
qed simp

lemma filter_mark: "picked c \<inter> I = {} \<Longrightarrow> filter (\<lambda>r. it_id r \<in> I) (mark c rows) = filter (\<lambda>r. it_id r \<in> I) rows"
  by (induction rows) (auto simp: mark_def update_where_def split_beta)

lemma filter_marks: "locked_ids cs \<inter> I = {} \<Longrightarrow> filter (\<lambda>r. it_id r \<in> I) (fold mark cs rows) = filter (\<lambda>r. it_id r \<in> I) rows"
  by (induction cs arbitrary: rows) (auto simp: filter_mark Int_Un_distrib2)

lemma filter_own_mark: "filter (\<lambda>r. it_id r \<in> picked c) (mark c rows) = mark c (filter (\<lambda>r. it_id r \<in> picked c) rows)"
  by (induction rows) (auto simp: mark_def update_where_def split_beta)

lemma taken_cong: "filter (\<lambda>r. it_id r \<in> picked c) rows = filter (\<lambda>r. it_id r \<in> picked c) rows' \<Longrightarrow> taken jb c rows = taken jb c rows'"
  using filter_own_mark [of c rows] filter_own_mark [of c rows'] by (simp add: taken_def split_beta)

text \<open>A marked row is claimable no more.\<close>

lemma claimable_mark: "filter (\<lambda>r. pg_claimable lane now r \<and> it_id r \<notin> I) (mark c rows) =
    filter (\<lambda>r. pg_claimable lane now r \<and> it_id r \<notin> I \<union> picked c) rows"
  by (induction rows) (auto simp: mark_def update_where_def pg_claimable_def split_beta)

lemma claimable_marks: "filter (\<lambda>r. pg_claimable lane now r \<and> it_id r \<notin> I) (fold mark cs rows) =
    filter (\<lambda>r. pg_claimable lane now r \<and> it_id r \<notin> I \<union> locked_ids cs) rows"
proof (induction cs arbitrary: rows)
  case (Cons c cs)
  have sets: "I \<union> locked_ids (c # cs) = (I \<union> locked_ids cs) \<union> picked c" by auto
  show ?case unfolding fold_simps(2) Cons.IH claimable_mark sets ..
qed simp

lemma claim_ids_marks: "pg_claim_ids {} req now (s\<lparr>pt_outbox := fold mark cs (pt_outbox s)\<rparr>) = pg_claim_ids (locked_ids cs) req now s"
  using claimable_marks [of "cr_lane req" now "{}" cs "pt_outbox s"] by (simp add: pg_claim_ids_def)

section \<open>Readable rows\<close>

definition readable :: "'j jsonb \<Rightarrow> 'j item_tuple list \<Rightarrow> bool" where
  "readable jb rows \<longleftrightarrow> (\<forall>r \<in> set rows. \<exists>e. doc_column (jb_effect jb) (it_payload r) ''payload'' = Inr e)"

lemma readable_mark [simp]: "readable jb (mark c rows) = readable jb rows"
proof -
  have all: "readable jb rs \<longleftrightarrow> list_all (\<lambda>p. \<exists>e. doc_column (jb_effect jb) p ''payload'' = Inr e) (map it_payload rs)" for rs
    by (simp add: readable_def list_all_iff)
  show ?thesis unfolding all mark_map ..
qed

lemma read_all_ok: "\<forall>r \<in> set rs. \<exists>x. f r = Inr x \<Longrightarrow> \<exists>xs. read_all f rs = Inr xs"
  by (induction rs) auto

lemma taken_ok: "readable jb rows \<Longrightarrow> \<exists>items. taken jb c rows = Inr items"
proof -
  assume "readable jb rows"
  then have "readable jb (mark c rows)" by simp
  then have "\<forall>r \<in> set (mark c rows). \<exists>x. get_item jb r = Inr x" by (fastforce simp: readable_def get_item_def)
  then show ?thesis unfolding taken_def by (auto simp: split_beta intro!: read_all_ok)
qed

lemma take_ids_taken:
  assumes "readable jb (pt_outbox s)"
  shows "pg_commit (pg_take_ids jb w now ids) s = (taken jb (w, now, ids) (pt_outbox s), s\<lparr>pt_outbox := mark (w, now, ids) (pt_outbox s)\<rparr>)"
proof (cases "ids = []")
  case True
  have "mark (w, now, []) rows = rows" "taken jb (w, now, []) rows = Inr []" for rows
    by (simp_all add: mark_def taken_def update_where_def)
  with True show ?thesis by (simp add: pg_commit_def pg_take_ids_def)
next
  case False
  obtain items where "taken jb (w, now, ids) (pt_outbox s) = Inr items" using taken_ok [OF assms] by blast
  with False show ?thesis
    by (simp add: pg_commit_def pg_take_ids_def act_bind_def pg_mark_claimed_def pg_write_def pg_read_def taken_def mark_def)
qed

lemma serial_claim:
  "readable jb (pt_outbox s) \<Longrightarrow> pg_claim_outbox jb {} w req now s =
     (taken jb (w, now, pg_claim_ids {} req now s) (pt_outbox s), s\<lparr>pt_outbox := mark (w, now, pg_claim_ids {} req now s) (pt_outbox s)\<rparr>)"
  using take_ids_taken [of jb s w now "pg_claim_ids {} req now s"]
  by (simp add: pg_claim_outbox_def pg_commit_def act_bind_def pg_read_def)

section \<open>Every lock is a whole claim\<close>

definition answers :: "'j jsonb \<Rightarrow> open_claim list \<Rightarrow> 'j item_tuple list \<Rightarrow> claim_answer list" where
  "answers jb cs rows = map (\<lambda>c. (fst c, taken jb c rows)) cs"

fun apart :: "open_claim list \<Rightarrow> bool" where
  "apart [] = True"
| "apart (c # cs) = (picked c \<inter> locked_ids cs = {} \<and> apart cs)"

lemma apart_append: "apart (xs @ ys) \<longleftrightarrow> apart xs \<and> apart ys \<and> locked_ids xs \<inter> locked_ids ys = {}"
  by (induction xs) auto

definition serialises :: "'j jsonb \<Rightarrow> 'j tuples \<times> open_claim list \<times> claim_answer list \<Rightarrow> 'j tuples \<times> claim_answer list \<Rightarrow> bool" where
  "serialises jb p q \<longleftrightarrow> (case p of (s, claims, out) \<Rightarrow> readable jb (pt_outbox s) \<and> apart claims \<and>
     fst q = s\<lparr>pt_outbox := fold mark claims (pt_outbox s)\<rparr> \<and> mset (snd q) = mset out + mset (answers jb claims (pt_outbox s)))"

lemma claim_ids_unlocked: "set (pg_claim_ids L req now s) \<inter> L = {}"
  by (auto simp: pg_claim_ids_def dest: in_set_takeD)

lemma readable_marks [simp]: "readable jb (fold mark cs rows) = readable jb rows"
  by (induction cs arbitrary: rows) simp_all

lemma locks_serialise:
  assumes "serialises jb (s, claims, out) (s', out')"
  shows "serialises jb (claim_step jb (ClaimLocks w req now) (s, claims, out)) (serial_step jb (ClaimLocks w req now) (s', out'))"
proof -
  let ?rows = "pt_outbox s"
  let ?c = "(w, now, pg_claim_ids (locked_ids claims) req now s)"
  have r: "readable jb ?rows" and ap: "apart claims" and s': "s' = s\<lparr>pt_outbox := fold mark claims ?rows\<rparr>"
    and out: "mset out' = mset out + mset (answers jb claims ?rows)" using assms by (simp_all add: serialises_def)
  have ids: "pg_claim_ids {} req now s' = pg_claim_ids (locked_ids claims) req now s" unfolding s' by (rule claim_ids_marks)
  have free: "locked_ids claims \<inter> picked ?c = {}" using claim_ids_unlocked [of "locked_ids claims" req now s] by auto
  have "taken jb ?c (pt_outbox s') = taken jb ?c ?rows"
    by (rule taken_cong) (use filter_marks [OF free, of ?rows] in \<open>simp add: s'\<close>)
  moreover have "pg_claim_outbox jb {} w req now s' = (taken jb ?c (pt_outbox s'), s'\<lparr>pt_outbox := mark ?c (pt_outbox s')\<rparr>)"
    using serial_claim [of jb s' w req now] r by (simp add: ids) (simp add: s')
  moreover have "s'\<lparr>pt_outbox := mark ?c (pt_outbox s')\<rparr> = s\<lparr>pt_outbox := fold mark (claims @ [?c]) ?rows\<rparr>"
    by (simp add: s')
  ultimately show ?thesis using r ap free out by (auto simp: serialises_def apart_append answers_def)
qed

lemma commits_serialise:
  assumes "serialises jb (s, claims, out) q"
  shows "serialises jb (claim_step jb (ClaimCommits k) (s, claims, out)) q"
proof (cases "k < length claims")
  case False
  with assms show ?thesis by simp
next
  case True
  let ?rows = "pt_outbox s"
  let ?before = "take k claims" and ?c = "claims ! k" and ?after = "drop (Suc k) claims"
  obtain w now ids where c: "?c = (w, now, ids)" by (cases ?c) auto
  have split: "claims = ?before @ ?c # ?after" using True by (rule id_take_nth_drop)
  have r: "readable jb ?rows" and ap: "apart claims" and q: "fst q = s\<lparr>pt_outbox := fold mark claims ?rows\<rparr>"
    and out: "mset (snd q) = mset out + mset (answers jb claims ?rows)" using assms by (simp_all add: serialises_def)
  have "apart (?before @ ?c # ?after)" using ap split by simp
  then have ap': "apart (?before @ ?after)" and dis: "picked ?c \<inter> locked_ids ?before = {}" "picked ?c \<inter> locked_ids ?after = {}"
    by (auto simp: apart_append)
  have "fold mark (?before @ ?c # ?after) ?rows = fold mark (?before @ ?after) (mark ?c ?rows)"
    by (simp add: marks_pull [OF dis(1), symmetric])
  then have rows: "fold mark (?before @ ?after) (mark ?c ?rows) = fold mark claims ?rows" using split by metis
  have other: "taken jb d (mark ?c ?rows) = taken jb d ?rows" if "d \<in> set (?before @ ?after)" for d
  proof (rule taken_cong, rule filter_mark)
    have "picked d \<subseteq> locked_ids (?before @ ?after)" using that by (force simp: locked_ids_def split_beta)
    with dis show "picked ?c \<inter> picked d = {}" by auto
  qed
  then have after: "answers jb (?before @ ?after) (mark ?c ?rows) = answers jb (?before @ ?after) ?rows" by (auto simp: answers_def)
  have "mset (answers jb claims ?rows) = mset (answers jb (?before @ ?c # ?after) ?rows)" using split by simp
  then have ans: "mset (answers jb claims ?rows) = {#(fst ?c, taken jb ?c ?rows)#} + mset (answers jb (?before @ ?after) (mark ?c ?rows))"
    unfolding after by (simp add: answers_def del: append_take_drop_id)
  have step: "claim_step jb (ClaimCommits k) (s, claims, out) =
      (s\<lparr>pt_outbox := mark ?c ?rows\<rparr>, ?before @ ?after, out @ [(fst ?c, taken jb ?c ?rows)])"
    using True take_ids_taken [OF r, of w now ids] by (simp add: c)
  show ?thesis unfolding step serialises_def prod.case
    using r ap' q rows out ans by simp
qed

lemma overlapping_serialise:
  "readable jb (pt_outbox s) \<Longrightarrow> serialises jb (overlapping_claims jb events s) (serial_claims jb events s)"
proof (induction events rule: rev_induct)
  case Nil
  then show ?case by (simp add: overlapping_claims_def serial_claims_def serialises_def answers_def)
next
  case (snoc e events)
  obtain s1 cs out where 1: "overlapping_claims jb events s = (s1, cs, out)" by (cases "overlapping_claims jb events s") auto
  obtain s2 out2 where 2: "serial_claims jb events s = (s2, out2)" by fastforce
  have "serialises jb (claim_step jb e (s1, cs, out)) (serial_step jb e (s2, out2))"
  proof (cases e)
    case (ClaimLocks w req now)
    with snoc 1 2 locks_serialise [of jb s1 cs out s2 out2] show ?thesis by simp
  next
    case (ClaimCommits k)
    with snoc 1 2 commits_serialise [of jb s1 cs out "(s2, out2)" k] show ?thesis by (simp del: claim_step.simps)
  qed
  with 1 2 show ?case by (simp add: overlapping_claims_def serial_claims_def)
qed

section \<open>No item twice\<close>

fun items_of :: "claim_answer \<Rightarrow> outbox_id list" where
  "items_of (w, Inr items) = map ob_id items"
| "items_of (w, Inl e) = []"

definition handed_once :: "'j tuples \<times> claim_answer list \<Rightarrow> bool" where
  "handed_once q \<longleftrightarrow> distinct (map it_id (pt_outbox (fst q))) \<and> distinct (concat (map items_of (snd q))) \<and>
     (\<forall>i \<in> set (concat (map items_of (snd q))). \<forall>r \<in> set (pt_outbox (fst q)). it_id r = i \<longrightarrow> it_claimed_at r \<noteq> None)"

lemma read_all_ids: "read_all (get_item jb) rs = Inr items \<Longrightarrow> map ob_id items = map it_id rs"
proof (induction rs arbitrary: items)
  case (Cons r rs)
  then obtain x xs where 1: "get_item jb r = Inr x" "read_all (get_item jb) rs = Inr xs" "items = x # xs"
    by (auto simp: and_then_def split: sum.splits)
  then have "ob_id x = it_id r" by (auto simp: get_item_def and_then_def split: sum.splits)
  with 1 Cons.IH show ?case by simp
qed simp

lemma items_of_taken:
  assumes "distinct (map it_id rows)"
  shows "distinct (items_of (w, taken jb c rows))" "set (items_of (w, taken jb c rows)) \<subseteq> picked c"
proof -
  have d: "distinct (map it_id (mark c rows))" using assms by (simp add: mark_map)
  let ?sel = "filter (\<lambda>r. it_id r \<in> picked c) (mark c rows)"
  have sort: "distinct (map it_id (sort_key tuple_order ?sel))"
    using distinct_map_filter [OF d] mset_eq_imp_distinct_iff [of "map it_id (sort_key tuple_order ?sel)" "map it_id ?sel"] by simp
  have ids: "items_of (w, taken jb c rows) = map it_id (sort_key tuple_order ?sel)" if "taken jb c rows = Inr items" for items
    using that read_all_ids [of jb "sort_key tuple_order ?sel" items] by (simp add: taken_def split_beta)
  show "distinct (items_of (w, taken jb c rows))" "set (items_of (w, taken jb c rows)) \<subseteq> picked c"
    using sort ids by (cases "taken jb c rows"; force)+
qed

lemma serial_handed_once:
  assumes "handed_once (s, out)" "readable jb (pt_outbox s)"
  shows "handed_once (serial_step jb e (s, out))"
proof (cases e)
  case (ClaimCommits k)
  with assms show ?thesis by simp
next
  case (ClaimLocks w req now)
  let ?rows = "pt_outbox s"
  let ?c = "(w, now, pg_claim_ids {} req now s)"
  have d: "distinct (map it_id ?rows)" and once: "distinct (concat (map items_of out))"
    and claimed: "\<forall>i \<in> set (concat (map items_of out)). \<forall>r \<in> set ?rows. it_id r = i \<longrightarrow> it_claimed_at r \<noteq> None"
    using assms(1) by (simp_all add: handed_once_def)
  have "\<exists>r \<in> set ?rows. it_id r = i \<and> it_claimed_at r = None" if "i \<in> picked ?c" for i
    using that by (auto simp: pg_claim_ids_def pg_claimable_def dest!: in_set_takeD)
  then have new: "set (items_of (w, taken jb ?c ?rows)) \<inter> set (concat (map items_of out)) = {}"
    using items_of_taken(2) [OF d, of w jb ?c] claimed by blast
  have still: "it_claimed_at r \<noteq> None" if "r \<in> set (mark ?c ?rows)" "it_id r \<in> set (concat (map items_of out)) \<union> picked ?c" for r
    using that claimed by (auto simp: mark_def set_update_where split: if_splits)
  show ?thesis unfolding ClaimLocks serial_step.simps serial_claim [OF assms(2)] prod.case handed_once_def fst_conv snd_conv
  proof (intro conjI)
    show "distinct (map it_id (pt_outbox (s\<lparr>pt_outbox := mark ?c ?rows\<rparr>)))" using d by (simp add: mark_map)
    show "distinct (concat (map items_of (out @ [(w, taken jb ?c ?rows)])))"
      using once new items_of_taken(1) [OF d, of w jb ?c] by auto
    have sub: "set (concat (map items_of (out @ [(w, taken jb ?c ?rows)]))) \<subseteq> set (concat (map items_of out)) \<union> picked ?c"
      using items_of_taken(2) [OF d, of w jb ?c] by auto
    show "\<forall>i \<in> set (concat (map items_of (out @ [(w, taken jb ?c ?rows)]))).
        \<forall>r \<in> set (pt_outbox (s\<lparr>pt_outbox := mark ?c ?rows\<rparr>)). it_id r = i \<longrightarrow> it_claimed_at r \<noteq> None"
    proof (intro ballI impI)
      fix i r
      assume "i \<in> set (concat (map items_of (out @ [(w, taken jb ?c ?rows)])))"
        "r \<in> set (pt_outbox (s\<lparr>pt_outbox := mark ?c ?rows\<rparr>))" "it_id r = i"
      with sub show "it_claimed_at r \<noteq> None" by (intro still) auto
    qed
  qed
qed

lemma serial_claims_handed_once:
  assumes "distinct (map it_id (pt_outbox s))" "readable jb (pt_outbox s)"
  shows "handed_once (serial_claims jb events s) \<and> readable jb (pt_outbox (fst (serial_claims jb events s)))"
proof (induction events rule: rev_induct)
  case Nil
  with assms show ?case by (simp add: serial_claims_def handed_once_def)
next
  case (snoc e events)
  obtain s2 out2 where 2: "serial_claims jb events s = (s2, out2)" by fastforce
  have "readable jb (pt_outbox (fst (serial_step jb e (s2, out2))))"
    using snoc 2 by (cases e) (simp_all add: serial_claim)
  with snoc 2 serial_handed_once [of s2 out2 jb e] show ?case by (simp add: serial_claims_def)
qed

lemma handed_once_permuted: "mset out = mset out' \<Longrightarrow> distinct (concat (map items_of out)) = distinct (concat (map items_of out'))"
proof -
  assume "mset out = mset out'"
  then have "mset (concat (map items_of out)) = mset (concat (map items_of out'))"
    by (metis mset_concat mset_map sum_mset_sum_list)
  then show ?thesis by (rule mset_eq_imp_distinct_iff)
qed

end
