(* ===== verification/Postgres_Routing.thy ===== *)
theory Postgres_Routing
  imports Sqlite_Routing Postgres_Rows
begin

text \<open>
  The routing tables of the PostgreSQL backend (\<open>store-postgres/src/store/routing.rs\<close>): their rows column by column, what
  a read makes of a row, and the operations as the statements the code sends. An insert draws its id before PostgreSQL
  looks at the unique indexes, so a declared route that turns out to exist, and an insert that is refused, both leave a
  number of the sequence unused.
\<close>

section \<open>Rows\<close>

text \<open>\<open>rj_null\<close> tells the JSON null, which a nullable column may hold besides the SQL one.\<close>

record 'j route_json =
  rj_target :: "(route_target, 'j) document"
  rj_mentions :: "(mentions, 'j) document"
  rj_escalation :: "(escalation, 'j) document"
  rj_null :: "'j \<Rightarrow> bool"
  rj_collate :: "string \<Rightarrow> string"

record 'j route_tuple =
  qr_id :: int
  qr_guild_id :: int
  qr_name :: string
  qr_matcher_source :: string
  qr_min_severity :: "string option"
  qr_target :: 'j
  qr_group_strategy :: string
  qr_mentions :: 'j
  qr_escalation :: "'j option"
  qr_priority :: int
  qr_continue_to_next :: bool
  qr_source :: string
  qr_enabled :: bool
  qr_created_by :: "int option"
  qr_created_at :: time

record ignore_tuple =
  qi_id :: int
  qi_scope :: string
  qi_guild_id :: int
  qi_channel_id :: "int option"
  qi_matcher_source :: string
  qi_reason :: string
  qi_created_by :: int
  qi_created_at :: time
  qi_expires_at :: "time option"
  qi_revoked_at :: "time option"

record subscription_tuple =
  qs_id :: int
  qs_user_id :: int
  qs_matcher_source :: string
  qs_min_severity :: "string option"
  qs_created_at :: time

record tag_tuple =
  qg_channel_id :: int
  qg_tag_name :: string
  qg_tag_id :: int
  qg_moderated :: bool
  qg_synced_at :: time

record 'j routing_tuples =
  qt_routes :: "'j route_tuple list"
  qt_next_route :: int
  qt_ignores :: "ignore_tuple list"
  qt_next_ignore :: int
  qt_subscriptions :: "subscription_tuple list"
  qt_next_subscription :: int
  qt_tags :: "tag_tuple list"

section \<open>Reading rows\<close>

definition doc_opt_column :: "('j \<Rightarrow> bool) \<Rightarrow> ('a, 'j) document \<Rightarrow> 'j option \<Rightarrow> string \<Rightarrow> store_error + 'a option" where
  "doc_opt_column null c raw kind = (case raw of
     None \<Rightarrow> Inr None
   | Some v \<Rightarrow> if null v then Inr None else map_sum id Some (doc_column c v kind))"

definition matcher_column :: "regex_engine \<Rightarrow> string \<Rightarrow> string \<Rightarrow> store_error + matcher_set" where
  "matcher_column rx source kind = map_sum (\<lambda>e. Decode kind (core_error_str e)) id (parse_matchers rx source)"

definition floor_column :: "string option \<Rightarrow> string \<Rightarrow> store_error + severity option" where
  "floor_column raw kind = (case raw of
     None \<Rightarrow> Inr None
   | Some w \<Rightarrow> map_sum id Some (word_column severity_from_str w kind))"

definition get_route :: "regex_engine \<Rightarrow> 'j route_json \<Rightarrow> 'j route_tuple \<Rightarrow> store_error + route" where
  "get_route rx rj row =
     and_then (matcher_column rx (qr_matcher_source row) ''route matchers'') (\<lambda>ms.
     and_then (floor_column (qr_min_severity row) ''route severity'') (\<lambda>floor.
     and_then (doc_column (rj_target rj) (qr_target row) ''target'') (\<lambda>target.
     and_then (word_column group_strategy_from_str (qr_group_strategy row) ''group_strategy'') (\<lambda>strategy.
     and_then (doc_column (rj_mentions rj) (qr_mentions row) ''mentions'') (\<lambda>mentions.
     and_then (doc_opt_column (rj_null rj) (rj_escalation rj) (qr_escalation row) ''escalation'') (\<lambda>escalation.
     and_then (word_column route_source_from_str (qr_source row) ''source'') (\<lambda>source.
     Inr \<lparr>rt_id = qr_id row, rt_guild_id = from_db (qr_guild_id row), rt_name = qr_name row,
       rt_matcher_source = qr_matcher_source row, rt_matchers = ms, rt_min_severity = floor, rt_target = target,
       rt_group_strategy = strategy, rt_mentions = mentions, rt_escalation = escalation, rt_priority = qr_priority row,
       rt_continue_to_next = qr_continue_to_next row, rt_source = source, rt_enabled = qr_enabled row,
       rt_created_by = map_option from_db (qr_created_by row), rt_created_at = qr_created_at row\<rparr>)))))))"

definition get_ignore :: "regex_engine \<Rightarrow> ignore_tuple \<Rightarrow> store_error + ignore_rule" where
  "get_ignore rx row =
     and_then (word_column ignore_scope_from_str (qi_scope row) ''scope'') (\<lambda>scope.
     and_then (matcher_column rx (qi_matcher_source row) ''ignore matchers'') (\<lambda>ms.
     Inr \<lparr>ig_id = qi_id row, ig_scope = scope, ig_guild_id = from_db (qi_guild_id row),
       ig_channel_id = map_option from_db (qi_channel_id row), ig_matcher_source = qi_matcher_source row, ig_matchers = ms,
       ig_reason = qi_reason row, ig_created_by = from_db (qi_created_by row), ig_created_at = qi_created_at row,
       ig_expires_at = qi_expires_at row, ig_revoked_at = qi_revoked_at row\<rparr>))"

definition get_subscription :: "regex_engine \<Rightarrow> subscription_tuple \<Rightarrow> store_error + subscription" where
  "get_subscription rx row =
     and_then (matcher_column rx (qs_matcher_source row) ''subscription matchers'') (\<lambda>ms.
     and_then (floor_column (qs_min_severity row) ''subscription severity'') (\<lambda>floor.
     Inr \<lparr>su_id = qs_id row, su_user_id = from_db (qs_user_id row), su_matcher_source = qs_matcher_source row,
       su_matchers = ms, su_min_severity = floor, su_created_at = qs_created_at row\<rparr>))"

definition get_tag :: "tag_tuple \<Rightarrow> forum_tag" where
  "get_tag row = \<lparr>ft_channel_id = from_db (qg_channel_id row), ft_name = qg_tag_name row, ft_id = from_db (qg_tag_id row),
     ft_moderated = qg_moderated row, ft_synced_at = qg_synced_at row\<rparr>"

section \<open>Statements\<close>

type_synonym ('j, 'a) routing_action = "('j routing_tuples, store_error, 'a) action"

text \<open>What a transaction that fails leaves: the rows as they were, the sequences as they are.\<close>

definition pr_commit :: "('j, 'a) routing_action \<Rightarrow> ('j, 'a) routing_action" where
  "pr_commit m = (\<lambda>s. case m s of
     (Inr x, s') \<Rightarrow> (Inr x, s')
   | (Inl e, s') \<Rightarrow> (Inl e, s\<lparr>qt_next_route := qt_next_route s', qt_next_ignore := qt_next_ignore s',
       qt_next_subscription := qt_next_subscription s'\<rparr>))"

definition pr_write :: "('j routing_tuples \<Rightarrow> nat \<times> 'j routing_tuples) \<Rightarrow> ('j, nat) routing_action" where
  "pr_write f = (\<lambda>s. case f s of (n, s') \<Rightarrow> (Inr n, s'))"

fun pr_each :: "('a \<Rightarrow> ('j, unit) routing_action) \<Rightarrow> 'a list \<Rightarrow> ('j, unit) routing_action" where
  "pr_each f [] = act_ret ()"
| "pr_each f (x # xs) = act_bind (f x) (\<lambda>_. pr_each f xs)"

section \<open>Ignore rules\<close>

definition pr_insert_ignore :: "ignore_rule \<Rightarrow> ('j, ignore_id) routing_action" where
  "pr_insert_ignore r = (\<lambda>s. let i = qt_next_ignore s in
     (Inr i, s\<lparr>qt_next_ignore := i + 1, qt_ignores := qt_ignores s @
       [\<lparr>qi_id = i, qi_scope = ignore_scope_str (ig_scope r), qi_guild_id = to_db (ig_guild_id r),
         qi_channel_id = map_option to_db (ig_channel_id r), qi_matcher_source = ig_matcher_source r, qi_reason = ig_reason r,
         qi_created_by = to_db (ig_created_by r), qi_created_at = ig_created_at r, qi_expires_at = ig_expires_at r,
         qi_revoked_at = ig_revoked_at r\<rparr>]\<rparr>))"

definition pr_update_ignore :: "ignore_rule \<Rightarrow> ('j, nat) routing_action" where
  "pr_update_ignore r = pr_write (\<lambda>s. let same = (\<lambda>q. qi_id q = ig_id r) in
     (affected same (qt_ignores s), s\<lparr>qt_ignores := update_where same (\<lambda>q. q\<lparr>qi_scope := ignore_scope_str (ig_scope r),
       qi_guild_id := to_db (ig_guild_id r), qi_channel_id := map_option to_db (ig_channel_id r),
       qi_matcher_source := ig_matcher_source r, qi_reason := ig_reason r, qi_expires_at := ig_expires_at r,
       qi_revoked_at := ig_revoked_at r\<rparr>) (qt_ignores s)\<rparr>))"

definition pr_upsert_ignore :: "ignore_rule \<Rightarrow> ('j, ignore_id) routing_action" where
  "pr_upsert_ignore r = pr_commit (if ig_id r = 0 then pr_insert_ignore r
     else act_bind (pr_update_ignore r) (\<lambda>_. act_ret (ig_id r)))"

definition pr_revoke_ignore :: "ignore_id \<Rightarrow> guild_id \<Rightarrow> time \<Rightarrow> ('j, unit) routing_action" where
  "pr_revoke_ignore i guild now = act_bind
     (pr_write (\<lambda>s. let live = (\<lambda>q. qi_id q = i \<and> qi_guild_id q = to_db guild \<and> qi_revoked_at q = None) in
       (affected live (qt_ignores s), s\<lparr>qt_ignores := update_where live (\<lambda>q. q\<lparr>qi_revoked_at := Some now\<rparr>) (qt_ignores s)\<rparr>)))
     (\<lambda>n. if n = 0 then act_fail (NotFound ''ignore rule'' (show_int i)) else act_ret ())"

definition pr_active_ignores :: "regex_engine \<Rightarrow> guild_id \<Rightarrow> time \<Rightarrow> 'j routing_tuples \<Rightarrow> store_error + ignore_rule list" where
  "pr_active_ignores rx guild now s = read_all (get_ignore rx) (sort_key qi_id
     (filter (\<lambda>q. qi_guild_id q = to_db guild \<and> qi_revoked_at q = None \<and>
       (qi_expires_at q = None \<or> now < the (qi_expires_at q))) (qt_ignores s)))"

section \<open>Routes\<close>

text \<open>The index of \<open>UNIQUE (guild_id, name)\<close> and the primary key of the tags, by the names PostgreSQL gives them.\<close>

definition PG_ROUTE_INDEX :: string where "PG_ROUTE_INDEX = ''routes_guild_id_name_key''"
definition PG_TAG_INDEX :: string where "PG_TAG_INDEX = ''forum_tags_pkey''"

definition pr_route_row :: "'j route_json \<Rightarrow> int \<Rightarrow> route \<Rightarrow> 'j route_tuple" where
  "pr_route_row rj i r = \<lparr>qr_id = i, qr_guild_id = to_db (rt_guild_id r), qr_name = rt_name r,
     qr_matcher_source = rt_matcher_source r, qr_min_severity = map_option severity_str (rt_min_severity r),
     qr_target = fst (rj_target rj) (rt_target r), qr_group_strategy = group_strategy_str (rt_group_strategy r),
     qr_mentions = fst (rj_mentions rj) (rt_mentions r), qr_escalation = map_option (fst (rj_escalation rj)) (rt_escalation r),
     qr_priority = rt_priority r, qr_continue_to_next = rt_continue_to_next r, qr_source = route_source_str (rt_source r),
     qr_enabled = rt_enabled r, qr_created_by = map_option to_db (rt_created_by r), qr_created_at = rt_created_at r\<rparr>"

definition pr_update_route :: "'j route_json \<Rightarrow> route \<Rightarrow> ('j, nat) routing_action" where
  "pr_update_route rj r = (\<lambda>s. let same = (\<lambda>q. qr_id q = rt_id r);
     rows = update_where same (\<lambda>q. (pr_route_row rj (qr_id q) r)\<lparr>qr_created_at := qr_created_at q\<rparr>) (qt_routes s)
     in if distinct (map (\<lambda>q. (qr_guild_id q, qr_name q)) rows) then (Inr (affected same (qt_routes s)), s\<lparr>qt_routes := rows\<rparr>)
        else (Inl (Conflict PG_ROUTE_INDEX), s))"

definition pr_same_name :: "route \<Rightarrow> 'j route_tuple \<Rightarrow> bool" where
  "pr_same_name r q \<longleftrightarrow> qr_guild_id q = to_db (rt_guild_id r) \<and> qr_name q = rt_name r"

text \<open>\<open>INSERT \<dots> ON CONFLICT (guild_id, name) DO UPDATE\<close>, for a route the file declares.\<close>

definition pr_declare_route :: "'j route_json \<Rightarrow> route \<Rightarrow> ('j, route_id) routing_action" where
  "pr_declare_route rj r = (\<lambda>s. let i = qt_next_route s; new = pr_route_row rj i r; s' = s\<lparr>qt_next_route := i + 1\<rparr> in
     case find (pr_same_name r) (qt_routes s) of
       Some old \<Rightarrow> (Inr (qr_id old), s'\<lparr>qt_routes := update_where (pr_same_name r) (\<lambda>q. q\<lparr>
         qr_matcher_source := qr_matcher_source new, qr_min_severity := qr_min_severity new, qr_target := qr_target new,
         qr_group_strategy := qr_group_strategy new, qr_mentions := qr_mentions new, qr_escalation := qr_escalation new,
         qr_priority := qr_priority new, qr_continue_to_next := qr_continue_to_next new, qr_source := qr_source new,
         qr_enabled := qr_enabled new\<rparr>) (qt_routes s)\<rparr>)
     | None \<Rightarrow> (Inr i, s'\<lparr>qt_routes := qt_routes s @ [new]\<rparr>))"

definition pr_insert_route :: "'j route_json \<Rightarrow> route \<Rightarrow> ('j, route_id) routing_action" where
  "pr_insert_route rj r = (\<lambda>s. let i = qt_next_route s; s' = s\<lparr>qt_next_route := i + 1\<rparr> in
     if list_ex (pr_same_name r) (qt_routes s) then (Inl (Conflict PG_ROUTE_INDEX), s')
     else (Inr i, s'\<lparr>qt_routes := qt_routes s @ [pr_route_row rj i r]\<rparr>))"

definition pr_upsert_route :: "'j route_json \<Rightarrow> route \<Rightarrow> ('j, route_id) routing_action" where
  "pr_upsert_route rj r = pr_commit (if rt_id r \<noteq> 0 then act_bind (pr_update_route rj r) (\<lambda>_. act_ret (rt_id r))
     else if rt_source r = RouteConfig then pr_declare_route rj r else pr_insert_route rj r)"

definition pr_routes :: "regex_engine \<Rightarrow> 'j route_json \<Rightarrow> 'j routing_tuples \<Rightarrow> store_error + route list" where
  "pr_routes rx rj s = read_all (get_route rx rj) (sort_key (\<lambda>q. (qr_priority q, qr_id q)) (qt_routes s))"

definition pr_disable_missing :: "string list \<Rightarrow> ('j, nat) routing_action" where
  "pr_disable_missing keep = pr_write (\<lambda>s.
     let gone = (\<lambda>q. qr_source q = ''config'' \<and> qr_enabled q \<and> \<not> list_ex ((=) (qr_name q)) keep) in
     (affected gone (qt_routes s), s\<lparr>qt_routes := update_where gone (\<lambda>q. q\<lparr>qr_enabled := False\<rparr>) (qt_routes s)\<rparr>))"

section \<open>Subscriptions\<close>

definition pr_insert_subscription :: "subscription \<Rightarrow> ('j, subscription_id) routing_action" where
  "pr_insert_subscription u = (\<lambda>s. let i = qt_next_subscription s in
     (Inr i, s\<lparr>qt_next_subscription := i + 1, qt_subscriptions := qt_subscriptions s @
       [\<lparr>qs_id = i, qs_user_id = to_db (su_user_id u), qs_matcher_source = su_matcher_source u,
         qs_min_severity = map_option severity_str (su_min_severity u), qs_created_at = su_created_at u\<rparr>]\<rparr>))"

definition pr_update_subscription :: "subscription \<Rightarrow> ('j, nat) routing_action" where
  "pr_update_subscription u = pr_write (\<lambda>s. let own = (\<lambda>q. qs_id q = su_id u \<and> qs_user_id q = to_db (su_user_id u)) in
     (affected own (qt_subscriptions s), s\<lparr>qt_subscriptions := update_where own (\<lambda>q. q\<lparr>qs_matcher_source := su_matcher_source u,
       qs_min_severity := map_option severity_str (su_min_severity u)\<rparr>) (qt_subscriptions s)\<rparr>))"

definition pr_upsert_subscription :: "subscription \<Rightarrow> ('j, subscription_id) routing_action" where
  "pr_upsert_subscription u = pr_commit (if su_id u = 0 then pr_insert_subscription u
     else act_bind (pr_update_subscription u) (\<lambda>n.
       if n = 0 then act_fail (NotFound ''subscription'' (show_int (su_id u))) else act_ret (su_id u)))"

definition pr_remove_subscription :: "subscription_id \<Rightarrow> user_id \<Rightarrow> ('j, unit) routing_action" where
  "pr_remove_subscription i user = pr_commit (act_bind
     (pr_write (\<lambda>s. let own = (\<lambda>q. qs_id q = i \<and> qs_user_id q = to_db user) in
       (affected own (qt_subscriptions s), s\<lparr>qt_subscriptions := filter (\<lambda>q. \<not> own q) (qt_subscriptions s)\<rparr>)))
     (\<lambda>n. if n = 0 then act_fail (NotFound ''subscription'' (show_int i)) else act_ret ()))"

definition pr_subscriptions :: "regex_engine \<Rightarrow> 'j routing_tuples \<Rightarrow> store_error + subscription list" where
  "pr_subscriptions rx s = read_all (get_subscription rx) (sort_key qs_id (qt_subscriptions s))"

section \<open>Forum tags\<close>

definition pr_clear_tags :: "channel_id \<Rightarrow> ('j, nat) routing_action" where
  "pr_clear_tags channel = pr_write (\<lambda>s. let old = (\<lambda>q. qg_channel_id q = to_db channel) in
     (affected old (qt_tags s), s\<lparr>qt_tags := filter (\<lambda>q. \<not> old q) (qt_tags s)\<rparr>))"

definition pr_insert_tag :: "channel_id \<Rightarrow> forum_tag \<Rightarrow> ('j, unit) routing_action" where
  "pr_insert_tag channel g = (\<lambda>s.
     if list_ex (\<lambda>q. qg_channel_id q = to_db channel \<and> qg_tag_name q = ft_name g) (qt_tags s)
     then (Inl (Conflict PG_TAG_INDEX), s)
     else (Inr (), s\<lparr>qt_tags := qt_tags s @ [\<lparr>qg_channel_id = to_db channel, qg_tag_name = ft_name g,
       qg_tag_id = to_db (ft_id g), qg_moderated = ft_moderated g, qg_synced_at = ft_synced_at g\<rparr>]\<rparr>))"

definition pr_sync_forum_tags :: "channel_id \<Rightarrow> forum_tag list \<Rightarrow> ('j, unit) routing_action" where
  "pr_sync_forum_tags channel tags = pr_commit (act_bind (pr_clear_tags channel) (\<lambda>_. pr_each (pr_insert_tag channel) tags))"

definition pr_forum_tags :: "'j route_json \<Rightarrow> channel_id \<Rightarrow> 'j routing_tuples \<Rightarrow> forum_tag list" where
  "pr_forum_tags rj channel s =
     map get_tag (sort_key (\<lambda>q. rj_collate rj (qg_tag_name q)) (filter (\<lambda>q. qg_channel_id q = to_db channel) (qt_tags s)))"

end
