(* ===== verification/Sqlite_Routing_Rows.thy ===== *)
theory Sqlite_Routing_Rows
  imports Sqlite_Rows
begin

text \<open>
  The rows of routes, ignore rules and subscriptions as the SQLite backend binds and reads them. \<open>Sqlite_Routing\<close> keeps
  the records in its tables and compiles their matchers on a read; the lemmas here say that this is what reading the
  bound columns gives.
\<close>

section \<open>Columns\<close>

record route_codecs =
  rk_target :: "route_target codec"
  rk_mentions :: "mentions codec"
  rk_escalation :: "escalation codec"

definition json_opt_column :: "'a codec \<Rightarrow> string option \<Rightarrow> string \<Rightarrow> store_error + 'a option" where
  "json_opt_column c raw kind = opt_column (\<lambda>v. json_column c v kind) raw"

definition severity_opt_column :: "string option \<Rightarrow> string \<Rightarrow> store_error + severity option" where
  "severity_opt_column raw kind = opt_column (\<lambda>v. parsed_column severity_from_str v kind) raw"

section \<open>Routes\<close>

record route_row =
  rw_id :: int
  rw_guild_id :: int
  rw_name :: string
  rw_matcher_source :: string
  rw_min_severity :: "string option"
  rw_target :: string
  rw_group_strategy :: string
  rw_mentions :: string
  rw_escalation :: "string option"
  rw_priority :: int
  rw_continue_to_next :: int
  rw_source :: string
  rw_enabled :: int
  rw_created_by :: "int option"
  rw_created_at :: string

definition bind_route :: "codecs \<Rightarrow> route_codecs \<Rightarrow> int \<Rightarrow> route \<Rightarrow> route_row" where
  "bind_route cc rk i r = \<lparr>rw_id = i, rw_guild_id = to_db (rt_guild_id r), rw_name = rt_name r,
     rw_matcher_source = rt_matcher_source r, rw_min_severity = map_option severity_str (rt_min_severity r),
     rw_target = fst (rk_target rk) (rt_target r), rw_group_strategy = group_strategy_str (rt_group_strategy r),
     rw_mentions = fst (rk_mentions rk) (rt_mentions r), rw_escalation = map_option (fst (rk_escalation rk)) (rt_escalation r),
     rw_priority = rt_priority r, rw_continue_to_next = (if rt_continue_to_next r then 1 else 0),
     rw_source = route_source_str (rt_source r), rw_enabled = (if rt_enabled r then 1 else 0),
     rw_created_by = map_option to_db (rt_created_by r), rw_created_at = encode_time cc (rt_created_at r)\<rparr>"

text \<open>A priority wider than 32 bits is read as the largest one.\<close>

definition priority_column :: "int \<Rightarrow> int" where
  "priority_column raw = (if - I32_MAX - 1 \<le> raw \<and> raw \<le> I32_MAX then raw else I32_MAX)"

definition read_route_row :: "regex_engine \<Rightarrow> codecs \<Rightarrow> route_codecs \<Rightarrow> route_row \<Rightarrow> store_error + route" where
  "read_route_row rx cc rk row =
     and_then (decode_matchers rx (rw_matcher_source row) ''route matchers'') (\<lambda>ms.
     and_then (severity_opt_column (rw_min_severity row) ''route severity'') (\<lambda>floor.
     and_then (json_column (rk_target rk) (rw_target row) ''target'') (\<lambda>target.
     and_then (parsed_column group_strategy_from_str (rw_group_strategy row) ''group_strategy'') (\<lambda>strategy.
     and_then (json_column (rk_mentions rk) (rw_mentions row) ''mentions'') (\<lambda>mentions.
     and_then (json_opt_column (rk_escalation rk) (rw_escalation row) ''escalation'') (\<lambda>escalation.
     and_then (parsed_column route_source_from_str (rw_source row) ''source'') (\<lambda>source.
     and_then (time_column cc (rw_created_at row) ''created_at'') (\<lambda>created.
     Inr \<lparr>rt_id = rw_id row, rt_guild_id = from_db (rw_guild_id row), rt_name = rw_name row,
       rt_matcher_source = rw_matcher_source row, rt_matchers = ms, rt_min_severity = floor, rt_target = target,
       rt_group_strategy = strategy, rt_mentions = mentions, rt_escalation = escalation,
       rt_priority = priority_column (rw_priority row), rt_continue_to_next = flag_column (rw_continue_to_next row),
       rt_source = source, rt_enabled = flag_column (rw_enabled row),
       rt_created_by = map_option from_db (rw_created_by row), rt_created_at = created\<rparr>))))))))"

section \<open>Ignore rules and subscriptions\<close>

record ignore_row =
  iw_id :: int
  iw_scope :: string
  iw_guild_id :: int
  iw_channel_id :: "int option"
  iw_matcher_source :: string
  iw_reason :: string
  iw_created_by :: int
  iw_created_at :: string
  iw_expires_at :: "string option"
  iw_revoked_at :: "string option"

definition bind_ignore :: "codecs \<Rightarrow> int \<Rightarrow> ignore_rule \<Rightarrow> ignore_row" where
  "bind_ignore cc i r = \<lparr>iw_id = i, iw_scope = ignore_scope_str (ig_scope r), iw_guild_id = to_db (ig_guild_id r),
     iw_channel_id = map_option to_db (ig_channel_id r), iw_matcher_source = ig_matcher_source r, iw_reason = ig_reason r,
     iw_created_by = to_db (ig_created_by r), iw_created_at = encode_time cc (ig_created_at r),
     iw_expires_at = encode_time_opt cc (ig_expires_at r), iw_revoked_at = encode_time_opt cc (ig_revoked_at r)\<rparr>"

definition read_ignore_row :: "regex_engine \<Rightarrow> codecs \<Rightarrow> ignore_row \<Rightarrow> store_error + ignore_rule" where
  "read_ignore_row rx cc row =
     and_then (parsed_column ignore_scope_from_str (iw_scope row) ''scope'') (\<lambda>scope.
     and_then (decode_matchers rx (iw_matcher_source row) ''ignore matchers'') (\<lambda>ms.
     and_then (time_column cc (iw_created_at row) ''created_at'') (\<lambda>created.
     and_then (time_opt_column cc (iw_expires_at row) ''expires_at'') (\<lambda>expires.
     and_then (time_opt_column cc (iw_revoked_at row) ''revoked_at'') (\<lambda>revoked.
     Inr \<lparr>ig_id = iw_id row, ig_scope = scope, ig_guild_id = from_db (iw_guild_id row),
       ig_channel_id = map_option from_db (iw_channel_id row), ig_matcher_source = iw_matcher_source row, ig_matchers = ms,
       ig_reason = iw_reason row, ig_created_by = from_db (iw_created_by row), ig_created_at = created,
       ig_expires_at = expires, ig_revoked_at = revoked\<rparr>)))))"

record subscription_row =
  uw_id :: int
  uw_user_id :: int
  uw_matcher_source :: string
  uw_min_severity :: "string option"
  uw_created_at :: string

definition bind_subscription :: "codecs \<Rightarrow> int \<Rightarrow> subscription \<Rightarrow> subscription_row" where
  "bind_subscription cc i u = \<lparr>uw_id = i, uw_user_id = to_db (su_user_id u), uw_matcher_source = su_matcher_source u,
     uw_min_severity = map_option severity_str (su_min_severity u), uw_created_at = encode_time cc (su_created_at u)\<rparr>"

definition read_subscription_row :: "regex_engine \<Rightarrow> codecs \<Rightarrow> subscription_row \<Rightarrow> store_error + subscription" where
  "read_subscription_row rx cc row =
     and_then (decode_matchers rx (uw_matcher_source row) ''subscription matchers'') (\<lambda>ms.
     and_then (severity_opt_column (uw_min_severity row) ''subscription severity'') (\<lambda>floor.
     and_then (time_column cc (uw_created_at row) ''created_at'') (\<lambda>created.
     Inr \<lparr>su_id = uw_id row, su_user_id = from_db (uw_user_id row), su_matcher_source = uw_matcher_source row,
       su_matchers = ms, su_min_severity = floor, su_created_at = created\<rparr>)))"

section \<open>Reading back what was bound\<close>

lemma severity_word: "severity_from_str (severity_str s) = Inr s"
  by (cases s) (simp_all add: severity_str_def, code_simp+)

lemma routing_words:
  "parsed_column severity_from_str (severity_str s1) kind = Inr s1"
  "parsed_column group_strategy_from_str (group_strategy_str s2) kind = Inr s2"
  "parsed_column route_source_from_str (route_source_str s3) kind = Inr s3"
  "parsed_column ignore_scope_from_str (ignore_scope_str s4) kind = Inr s4"
  by (simp_all add: parsed_column_def severity_word strategy_word.parse_print route_source_word.parse_print
      scope_word.parse_print)

lemma severity_opt_encode: "severity_opt_column (map_option severity_str f) kind = Inr f"
  by (cases f) (simp_all add: severity_opt_column_def opt_column_def routing_words)

lemma json_opt_encode: "pred_option (reads_back c) x \<Longrightarrow> json_opt_column c (map_option (fst c) x) kind = Inr x"
  by (cases x) (simp_all add: json_opt_column_def opt_column_def json_column_encode)

lemma ids_encode: "map_option from_db (map_option to_db x) = x"
  by (cases x) simp_all

lemmas routing_encode = column_encode routing_words severity_opt_encode json_opt_encode ids_encode

definition route_readable :: "codecs \<Rightarrow> route_codecs \<Rightarrow> route \<Rightarrow> bool" where
  "route_readable cc rk r \<longleftrightarrow> reads_back (cc_time cc) (rt_created_at r) \<and> reads_back (rk_target rk) (rt_target r) \<and>
     reads_back (rk_mentions rk) (rt_mentions r) \<and> pred_option (reads_back (rk_escalation rk)) (rt_escalation r) \<and>
     - I32_MAX - 1 \<le> rt_priority r \<and> rt_priority r \<le> I32_MAX"

lemma bound_route_reads_back:
  "route_readable cc rk r \<Longrightarrow> read_route_row rx cc rk (bind_route cc rk (rt_id r) r) = decode_route rx r"
  by (cases "decode_matchers rx (rt_matcher_source r) ''route matchers''")
    (simp_all add: read_route_row_def bind_route_def decode_route_def routing_encode route_readable_def priority_column_def)

lemma bound_ignore_reads_back:
  "reads_back (cc_time cc) (ig_created_at r) \<Longrightarrow> pred_option (reads_back (cc_time cc)) (ig_expires_at r) \<Longrightarrow>
   pred_option (reads_back (cc_time cc)) (ig_revoked_at r) \<Longrightarrow> read_ignore_row rx cc (bind_ignore cc (ig_id r) r) = decode_ignore rx r"
  by (cases "decode_matchers rx (ig_matcher_source r) ''ignore matchers''")
    (simp_all add: read_ignore_row_def bind_ignore_def decode_ignore_def routing_encode)

lemma bound_subscription_reads_back:
  "reads_back (cc_time cc) (su_created_at u) \<Longrightarrow> read_subscription_row rx cc (bind_subscription cc (su_id u) u) = decode_subscription rx u"
  by (cases "decode_matchers rx (su_matcher_source u) ''subscription matchers''")
    (simp_all add: read_subscription_row_def bind_subscription_def decode_subscription_def routing_encode)

end
