(* ===== verification/Postgres_Routing_Facts.thy ===== *)
theory Postgres_Routing_Facts
  imports Postgres_Routing Postgres_Sim Properties_Routing Sqlite_Routing_Rows
begin

text \<open>
  The routing tables of the PostgreSQL backend against those of the SQLite one: \<open>put_routing\<close> writes the records as rows,
  every operation answers the same and leaves the rows of what the other leaves, up to numbers of the route sequence
  that were drawn and not used, and every read finds the same records.
\<close>

section \<open>Records as rows\<close>

definition put_ignore :: "ignore_rule \<Rightarrow> ignore_tuple" where
  "put_ignore r = \<lparr>qi_id = ig_id r, qi_scope = ignore_scope_str (ig_scope r), qi_guild_id = to_db (ig_guild_id r),
     qi_channel_id = map_option to_db (ig_channel_id r), qi_matcher_source = ig_matcher_source r, qi_reason = ig_reason r,
     qi_created_by = to_db (ig_created_by r), qi_created_at = ig_created_at r, qi_expires_at = ig_expires_at r,
     qi_revoked_at = ig_revoked_at r\<rparr>"

definition put_subscription :: "subscription \<Rightarrow> subscription_tuple" where
  "put_subscription u = \<lparr>qs_id = su_id u, qs_user_id = to_db (su_user_id u), qs_matcher_source = su_matcher_source u,
     qs_min_severity = map_option severity_str (su_min_severity u), qs_created_at = su_created_at u\<rparr>"

definition put_tag :: "forum_tag \<Rightarrow> tag_tuple" where
  "put_tag g = \<lparr>qg_channel_id = to_db (ft_channel_id g), qg_tag_name = ft_name g, qg_tag_id = to_db (ft_id g),
     qg_moderated = ft_moderated g, qg_synced_at = ft_synced_at g\<rparr>"

definition put_routing :: "'j route_json \<Rightarrow> routing_tables \<Rightarrow> 'j routing_tuples" where
  "put_routing rj t = \<lparr>qt_routes = map (\<lambda>r. pr_route_row rj (rt_id r) r) (rb_routes t), qt_next_route = rb_next_route t,
     qt_ignores = map put_ignore (rb_ignores t), qt_next_ignore = rb_next_ignore t,
     qt_subscriptions = map put_subscription (rb_subscriptions t), qt_next_subscription = rb_next_subscription t,
     qt_tags = map put_tag (rb_tags t)\<rparr>"

section \<open>Reading back\<close>

text \<open>A document reads back as what was written, and a policy is never the JSON null.\<close>

definition route_json_ok :: "'j route_json \<Rightarrow> bool" where
  "route_json_ok rj \<longleftrightarrow> document_ok (rj_target rj) \<and> document_ok (rj_mentions rj) \<and> document_ok (rj_escalation rj) \<and>
     (\<forall>e. \<not> rj_null rj (fst (rj_escalation rj) e))"

lemma routing_word_columns:
  "word_column severity_from_str (severity_str s1) kind = Inr s1"
  "word_column group_strategy_from_str (group_strategy_str s2) kind = Inr s2"
  "word_column route_source_from_str (route_source_str s3) kind = Inr s3"
  "word_column ignore_scope_from_str (ignore_scope_str s4) kind = Inr s4"
  by (simp_all add: word_column_def severity_word strategy_word.parse_print route_source_word.parse_print
      scope_word.parse_print)

lemma floor_column_write: "floor_column (map_option severity_str f) kind = Inr f"
  by (cases f) (simp_all add: floor_column_def routing_word_columns)

lemma doc_opt_column_write:
  "document_ok c \<Longrightarrow> (\<And>x. \<not> null (fst c x)) \<Longrightarrow> doc_opt_column null c (map_option (fst c) x) kind = Inr x"
  by (cases x) (simp_all add: doc_opt_column_def doc_column_write)

lemma matcher_column_decode: "matcher_column rx source kind = decode_matchers rx source kind"
  by (simp add: matcher_column_def decode_matchers_def split: sum.split)

lemma get_route_put: "route_json_ok rj \<Longrightarrow> get_route rx rj (pr_route_row rj (rt_id r) r) = decode_route rx r"
  by (simp add: get_route_def pr_route_row_def decode_route_def matcher_column_decode floor_column_write routing_word_columns
      doc_column_write doc_opt_column_write route_json_ok_def and_then_def split: sum.split)

lemma get_ignore_put: "get_ignore rx (put_ignore r) = decode_ignore rx r"
  by (simp add: get_ignore_def put_ignore_def decode_ignore_def matcher_column_decode routing_word_columns and_then_def split: sum.split)

lemma get_subscription_put: "get_subscription rx (put_subscription u) = decode_subscription rx u"
  by (simp add: get_subscription_def put_subscription_def decode_subscription_def matcher_column_decode floor_column_write
      and_then_def split: sum.split)

lemma get_tag_put: "get_tag (put_tag g) = g"
  by (simp add: get_tag_def put_tag_def)

lemma read_all_decode: "(\<And>x. x \<in> set xs \<Longrightarrow> f (w x) = g x) \<Longrightarrow> read_all f (map w xs) = decode_all g xs"
  by (induction xs) (auto simp: and_then_def split: sum.split)

section \<open>What agreement is\<close>

fun routing_error :: "store_error \<Rightarrow> store_error" where
  "routing_error (Conflict c) = Conflict (if c = ROUTE_NAME_INDEX then PG_ROUTE_INDEX else if c = TAG_NAME_INDEX then PG_TAG_INDEX else c)"
| "routing_error e = e"

definition routing_agrees ::
  "'j route_json \<Rightarrow> (store_error + 'a) \<times> 'j routing_tuples \<Rightarrow> (store_error + 'a) \<times> routing_tables \<Rightarrow> bool" where
  "routing_agrees rj p q \<longleftrightarrow> fst p = map_sum routing_error id (fst q) \<and>
     (\<exists>i \<ge> rb_next_route (snd q). snd p = put_routing rj ((snd q)\<lparr>rb_next_route := i\<rparr>))"

lemma agrees_sameI:
  "fst p = map_sum routing_error id (fst q) \<Longrightarrow> snd p = put_routing rj (snd q) \<Longrightarrow> routing_agrees rj p q"
  unfolding routing_agrees_def by (rule conjI, assumption, rule exI [of _ "rb_next_route (snd q)"]) simp

lemma index_names: "ROUTE_NAME_INDEX \<noteq> TAG_NAME_INDEX" "TAG_NAME_INDEX \<noteq> ROUTE_NAME_INDEX"
  by (simp_all add: ROUTE_NAME_INDEX_def TAG_NAME_INDEX_def)

section \<open>Ignore rules and subscriptions\<close>

lemma put_ignore_fields [simp]:
  "qi_id (put_ignore r) = ig_id r" "qi_guild_id (put_ignore r) = to_db (ig_guild_id r)"
  "qi_revoked_at (put_ignore r) = ig_revoked_at r" "qi_expires_at (put_ignore r) = ig_expires_at r"
  by (simp_all add: put_ignore_def)

lemma put_subscription_fields [simp]:
  "qs_id (put_subscription u) = su_id u" "qs_user_id (put_subscription u) = to_db (su_user_id u)"
  by (simp_all add: put_subscription_def)

lemma upsert_ignore_agrees: "routing_agrees rj (pr_upsert_ignore r (put_routing rj t)) (upsert_ignore r t)"
proof (rule agrees_sameI)
  have "update_where (\<lambda>q. qi_id q = ig_id r) (\<lambda>q. q\<lparr>qi_scope := ignore_scope_str (ig_scope r),
       qi_guild_id := to_db (ig_guild_id r), qi_channel_id := map_option to_db (ig_channel_id r),
       qi_matcher_source := ig_matcher_source r, qi_reason := ig_reason r, qi_expires_at := ig_expires_at r,
       qi_revoked_at := ig_revoked_at r\<rparr>) (map put_ignore (rb_ignores t)) = map put_ignore (update_where (\<lambda>q. ig_id q = ig_id r)
       (\<lambda>q. r\<lparr>ig_created_by := ig_created_by q, ig_created_at := ig_created_at q\<rparr>) (rb_ignores t))"
    by (rule update_where_put) (simp add: put_ignore_def)
  then show "snd (pr_upsert_ignore r (put_routing rj t)) = put_routing rj (snd (upsert_ignore r t))"
    by (simp add: pr_upsert_ignore_def pr_commit_def pr_insert_ignore_def pr_update_ignore_def pr_write_def act_bind_def
        upsert_ignore_def put_routing_def put_ignore_def Let_def)
  show "fst (pr_upsert_ignore r (put_routing rj t)) = map_sum routing_error id (fst (upsert_ignore r t))"
    by (simp add: pr_upsert_ignore_def pr_commit_def pr_insert_ignore_def pr_update_ignore_def pr_write_def act_bind_def
        upsert_ignore_def put_routing_def Let_def)
qed

lemma revoke_ignore_agrees: "routing_agrees rj (pr_revoke_ignore i g now (put_routing rj t)) (revoke_ignore i g now t)"
proof (rule agrees_sameI)
  let ?P = "\<lambda>q. qi_id q = i \<and> qi_guild_id q = to_db g \<and> qi_revoked_at q = None"
  let ?Q = "\<lambda>q. ig_id q = i \<and> ig_guild_id q = g \<and> ig_revoked_at q = None"
  have n: "affected ?P (map put_ignore (rb_ignores t)) = affected ?Q (rb_ignores t)" by (rule affected_map) simp
  have u: "update_where ?P (\<lambda>q. q\<lparr>qi_revoked_at := Some now\<rparr>) (map put_ignore (rb_ignores t)) =
      map put_ignore (update_where ?Q (\<lambda>q. q\<lparr>ig_revoked_at := Some now\<rparr>) (rb_ignores t))"
    by (rule update_where_put) (simp add: put_ignore_def)
  show "fst (pr_revoke_ignore i g now (put_routing rj t)) = map_sum routing_error id (fst (revoke_ignore i g now t))"
    using n by (simp add: pr_revoke_ignore_def pr_write_def act_bind_def revoke_ignore_def put_routing_def Let_def)
  have "affected ?Q (rb_ignores t) = 0 \<Longrightarrow> update_where ?Q f (rb_ignores t) = rb_ignores t" for f
    by (intro update_where_none) (auto simp: affected_def filter_empty_conv)
  then show "snd (pr_revoke_ignore i g now (put_routing rj t)) = put_routing rj (snd (revoke_ignore i g now t))"
    using n u by (simp add: pr_revoke_ignore_def pr_write_def act_bind_def revoke_ignore_def put_routing_def Let_def)
qed

lemma upsert_subscription_agrees: "routing_agrees rj (pr_upsert_subscription u (put_routing rj t)) (upsert_subscription u t)"
proof (rule agrees_sameI)
  let ?P = "\<lambda>q. qs_id q = su_id u \<and> qs_user_id q = to_db (su_user_id u)"
  let ?Q = "\<lambda>q. su_id q = su_id u \<and> su_user_id q = su_user_id u"
  have n: "affected ?P (map put_subscription (rb_subscriptions t)) = affected ?Q (rb_subscriptions t)"
    by (rule affected_map) simp
  have w: "update_where ?P (\<lambda>q. q\<lparr>qs_matcher_source := su_matcher_source u,
      qs_min_severity := map_option severity_str (su_min_severity u)\<rparr>) (map put_subscription (rb_subscriptions t)) =
      map put_subscription (update_where ?Q (\<lambda>r. r\<lparr>su_matcher_source := su_matcher_source u,
         su_matchers := su_matchers u, su_min_severity := su_min_severity u\<rparr>) (rb_subscriptions t))"
    by (rule update_where_put) (simp add: put_subscription_def)
  show "fst (pr_upsert_subscription u (put_routing rj t)) = map_sum routing_error id (fst (upsert_subscription u t))"
    using n by (simp add: pr_upsert_subscription_def pr_commit_def pr_insert_subscription_def pr_update_subscription_def
        pr_write_def act_bind_def upsert_subscription_def put_routing_def Let_def)
  show "snd (pr_upsert_subscription u (put_routing rj t)) = put_routing rj (snd (upsert_subscription u t))"
    using n w by (simp add: pr_upsert_subscription_def pr_commit_def pr_insert_subscription_def pr_update_subscription_def
        pr_write_def act_bind_def upsert_subscription_def put_routing_def put_subscription_def Let_def)
qed

lemma remove_subscription_agrees: "routing_agrees rj (pr_remove_subscription i user (put_routing rj t)) (remove_subscription i user t)"
proof (rule agrees_sameI)
  let ?P = "\<lambda>q. qs_id q = i \<and> qs_user_id q = to_db user"
  let ?Q = "\<lambda>q. su_id q = i \<and> su_user_id q = user"
  have n: "affected ?P (map put_subscription (rb_subscriptions t)) = affected ?Q (rb_subscriptions t)"
    by (rule affected_map) simp
  have d: "filter (\<lambda>q. \<not> ?P q) (map put_subscription (rb_subscriptions t)) =
      map put_subscription (filter (\<lambda>q. \<not> ?Q q) (rb_subscriptions t))"
    by (rule filter_put) simp
  show "fst (pr_remove_subscription i user (put_routing rj t)) = map_sum routing_error id (fst (remove_subscription i user t))"
    using n by (simp add: pr_remove_subscription_def pr_commit_def pr_write_def act_bind_def remove_subscription_def
        put_routing_def Let_def)
  show "snd (pr_remove_subscription i user (put_routing rj t)) = put_routing rj (snd (remove_subscription i user t))"
    using n d by (simp add: pr_remove_subscription_def pr_commit_def pr_write_def act_bind_def remove_subscription_def
        put_routing_def Let_def)
qed

section \<open>Routes\<close>

abbreviation put_route :: "'j route_json \<Rightarrow> route \<Rightarrow> 'j route_tuple" where
  "put_route rj r \<equiv> pr_route_row rj (rt_id r) r"

lemma route_row_fields [simp]:
  "qr_id (pr_route_row rj i r) = i" "qr_guild_id (pr_route_row rj i r) = to_db (rt_guild_id r)"
  "qr_name (pr_route_row rj i r) = rt_name r" "qr_enabled (pr_route_row rj i r) = rt_enabled r"
  "qr_source (pr_route_row rj i r) = route_source_str (rt_source r)" "qr_priority (pr_route_row rj i r) = rt_priority r"
  by (simp_all add: pr_route_row_def)

lemma same_name_put: "pr_same_name r (put_route rj q) = same_name r q"
  by (simp add: pr_same_name_def same_name_def)

lemma distinct_names_put:
  "distinct (map (\<lambda>q. (qr_guild_id q, qr_name q)) (map (put_route rj) rs)) = names_unique rs"
  by (induction rs) (auto simp: names_unique_def image_iff)

lemma update_route_put:
  "pr_update_route rj r (put_routing rj t) =
     (let rows = update_where (\<lambda>q. rt_id q = rt_id r) (\<lambda>q. r\<lparr>rt_created_at := rt_created_at q\<rparr>) (rb_routes t) in
      if names_unique rows then (Inr (affected (\<lambda>q. rt_id q = rt_id r) (rb_routes t)), put_routing rj (t\<lparr>rb_routes := rows\<rparr>))
      else (Inl (Conflict PG_ROUTE_INDEX), put_routing rj t))"
proof -
  have n: "affected (\<lambda>q. qr_id q = rt_id r) (map (put_route rj) (rb_routes t)) = affected (\<lambda>q. rt_id q = rt_id r) (rb_routes t)"
    by (rule affected_map) simp
  have w: "update_where (\<lambda>q. qr_id q = rt_id r) (\<lambda>q. (pr_route_row rj (qr_id q) r)\<lparr>qr_created_at := qr_created_at q\<rparr>)
      (map (put_route rj) (rb_routes t)) =
      map (put_route rj) (update_where (\<lambda>q. rt_id q = rt_id r) (\<lambda>q. r\<lparr>rt_created_at := rt_created_at q\<rparr>) (rb_routes t))"
    by (rule update_where_put) (auto simp: pr_route_row_def)
  have s: "qt_routes (put_routing rj t) = map (put_route rj) (rb_routes t)" by (simp add: put_routing_def)
  have u: "(put_routing rj t)\<lparr>qt_routes := map (put_route rj) rows\<rparr> = put_routing rj (t\<lparr>rb_routes := rows\<rparr>)" for rows
    by (simp add: put_routing_def)
  show ?thesis unfolding pr_update_route_def Let_def s n w distinct_names_put u by (rule refl)
qed

lemma declare_route_put:
  "pr_declare_route rj r (put_routing rj t) =
     (case find (same_name r) (rb_routes t) of
        Some old \<Rightarrow> (Inr (rt_id old), put_routing rj (t\<lparr>rb_next_route := rb_next_route t + 1,
          rb_routes := update_where (same_name r) (redeclare r) (rb_routes t)\<rparr>))
      | None \<Rightarrow> (Inr (rb_next_route t), put_routing rj (t\<lparr>rb_next_route := rb_next_route t + 1,
          rb_routes := rb_routes t @ [r\<lparr>rt_id := rb_next_route t\<rparr>]\<rparr>)))"
proof -
  have f: "find (pr_same_name r) (qt_routes (put_routing rj t)) = map_option (put_route rj) (find (same_name r) (rb_routes t))"
    unfolding put_routing_def routing_tuples.simps by (rule find_put) (rule same_name_put)
  have w: "update_where (pr_same_name r) (\<lambda>q. q\<lparr>
         qr_matcher_source := qr_matcher_source (pr_route_row rj i r), qr_min_severity := qr_min_severity (pr_route_row rj i r),
         qr_target := qr_target (pr_route_row rj i r), qr_group_strategy := qr_group_strategy (pr_route_row rj i r),
         qr_mentions := qr_mentions (pr_route_row rj i r), qr_escalation := qr_escalation (pr_route_row rj i r),
         qr_priority := qr_priority (pr_route_row rj i r), qr_continue_to_next := qr_continue_to_next (pr_route_row rj i r),
         qr_source := qr_source (pr_route_row rj i r), qr_enabled := qr_enabled (pr_route_row rj i r)\<rparr>)
       (map (put_route rj) (rb_routes t)) = map (put_route rj) (update_where (same_name r) (redeclare r) (rb_routes t))" for i
    by (rule update_where_put) (simp add: pr_same_name_def same_name_def pr_route_row_def redeclare_def)
  show ?thesis
  proof (cases "find (same_name r) (rb_routes t)")
    case None
    with f show ?thesis by (simp add: pr_declare_route_def Let_def) (simp add: put_routing_def pr_route_row_def)
  next
    case (Some old)
    have s: "qt_routes (put_routing rj t) = map (put_route rj) (rb_routes t)" "qt_next_route (put_routing rj t) = rb_next_route t"
      by (simp_all add: put_routing_def)
    from Some show ?thesis unfolding pr_declare_route_def Let_def f s(2)
      by (simp only: option.simps s(1) w) (simp add: put_routing_def)
  qed
qed

lemma insert_route_put:
  "pr_insert_route rj r (put_routing rj t) = (if list_ex (same_name r) (rb_routes t)
     then (Inl (Conflict PG_ROUTE_INDEX), put_routing rj (t\<lparr>rb_next_route := rb_next_route t + 1\<rparr>))
     else (Inr (rb_next_route t), put_routing rj (t\<lparr>rb_next_route := rb_next_route t + 1,
       rb_routes := rb_routes t @ [r\<lparr>rt_id := rb_next_route t\<rparr>]\<rparr>)))"
proof -
  have "list_ex (pr_same_name r) (qt_routes (put_routing rj t)) = list_ex (same_name r) (rb_routes t)"
    unfolding put_routing_def routing_tuples.simps by (rule list_ex_put) (rule same_name_put)
  then show ?thesis by (simp add: pr_insert_route_def Let_def) (simp add: put_routing_def pr_route_row_def)
qed

lemma names_unique_insert: "names_unique rs \<Longrightarrow> names_unique (rs @ [r\<lparr>rt_id := i\<rparr>]) \<longleftrightarrow> \<not> list_ex (same_name r) rs"
  by (auto simp: names_unique_def same_name_def list_ex_iff image_iff)

lemma put_order: "put_routing rj (t\<lparr>rb_next_route := i, rb_routes := rs\<rparr>) = put_routing rj (t\<lparr>rb_routes := rs, rb_next_route := i\<rparr>)"
  by (simp add: put_routing_def)

lemma commit_kept: "m s = (Inl e, s) \<Longrightarrow> pr_commit m s = (Inl e, s)"
  by (cases s) (simp add: pr_commit_def)

lemma commit_moved:
  "m (put_routing rj t) = (Inl e, put_routing rj (t\<lparr>rb_next_route := i\<rparr>)) \<Longrightarrow>
   pr_commit m (put_routing rj t) = (Inl e, put_routing rj (t\<lparr>rb_next_route := i\<rparr>))"
  by (simp add: pr_commit_def put_routing_def)

lemma commit_done: "m s = (Inr x, s') \<Longrightarrow> pr_commit m s = (Inr x, s')"
  by (simp add: pr_commit_def)

lemma upsert_route_agrees:
  assumes "names_unique (rb_routes t)"
  shows "routing_agrees rj (pr_upsert_route rj r (put_routing rj t)) (upsert_route r t)"
proof -
  have none: "find (same_name r) (rb_routes t) = None \<longleftrightarrow> \<not> list_ex (same_name r) (rb_routes t)"
    by (auto simp: find_None_iff list_ex_iff)
  let ?next = "rb_next_route t + 1"
  consider (by_id) "rt_id r \<noteq> 0" | (declared) "rt_id r = 0" "rt_source r = RouteConfig" | (fresh) "rt_id r = 0" "rt_source r \<noteq> RouteConfig"
    by blast
  then show ?thesis
  proof cases
    case by_id
    let ?rows = "update_where (\<lambda>q. rt_id q = rt_id r) (\<lambda>q. r\<lparr>rt_created_at := rt_created_at q\<rparr>) (rb_routes t)"
    show ?thesis
    proof (rule agrees_sameI; cases "names_unique ?rows")
    qed (use by_id in \<open>simp_all add: pr_upsert_route_def commit_done commit_kept act_bind_def update_route_put upsert_route_def
        write_routes_def Let_def index_names\<close>)
  next
    case declared
    show ?thesis
    proof (cases "find (same_name r) (rb_routes t)")
      case None
      with declared none names_unique_insert [OF assms] show ?thesis
        by (intro agrees_sameI) (simp_all add: pr_upsert_route_def commit_done declare_route_put upsert_route_def insert_route_def
            write_routes_def put_order)
    next
      case (Some old)
      with declared show ?thesis
        by (auto simp: routing_agrees_def pr_upsert_route_def commit_done declare_route_put upsert_route_def put_order intro: exI [of _ ?next])
    qed
  next
    case fresh
    show ?thesis
    proof (cases "list_ex (same_name r) (rb_routes t)")
      case True
      with fresh names_unique_insert [OF assms] show ?thesis
        by (auto simp: routing_agrees_def pr_upsert_route_def commit_moved insert_route_put upsert_route_def insert_route_def
            write_routes_def index_names intro: exI [of _ ?next])
    next
      case False
      with fresh names_unique_insert [OF assms] show ?thesis
        by (intro agrees_sameI) (simp_all add: pr_upsert_route_def commit_done insert_route_put upsert_route_def insert_route_def
            write_routes_def put_order)
    qed
  qed
qed

lemma list_ex_mem: "list_ex ((=) x) xs \<longleftrightarrow> x \<in> set xs"
  by (auto simp: list_ex_iff)

lemma route_source_word_config: "route_source_str s = ''config'' \<longleftrightarrow> s = RouteConfig"
  by (cases s) (simp_all add: route_source_str_def)

lemma disable_missing_agrees:
  "pr_disable_missing keep (put_routing rj t) =
     (let p = disable_missing_config_routes keep t in (Inr (fst p), put_routing rj (snd p)))"
proof -
  let ?P = "\<lambda>q. qr_source q = ''config'' \<and> qr_enabled q \<and> \<not> list_ex ((=) (qr_name q)) keep"
  let ?Q = "\<lambda>r. rt_source r = RouteConfig \<and> rt_enabled r \<and> rt_name r \<notin> set keep"
  have n: "affected ?P (map (put_route rj) (rb_routes t)) = affected ?Q (rb_routes t)"
    by (rule affected_map) (simp add: list_ex_mem route_source_word_config)
  have w: "update_where ?P (\<lambda>q. q\<lparr>qr_enabled := False\<rparr>) (map (put_route rj) (rb_routes t)) =
      map (put_route rj) (update_where ?Q (\<lambda>r. r\<lparr>rt_enabled := False\<rparr>) (rb_routes t))"
    by (rule update_where_put) (simp add: list_ex_mem route_source_word_config, simp add: pr_route_row_def)
  show ?thesis using n w
    by (simp add: pr_disable_missing_def pr_write_def disable_missing_config_routes_def put_routing_def Let_def)
qed

section \<open>Forum tags\<close>

definition named_in :: "channel_id \<Rightarrow> 'j routing_tuples \<Rightarrow> string set" where
  "named_in channel s = qg_tag_name ` {q \<in> set (qt_tags s). qg_channel_id q = to_db channel}"

lemma insert_tag_cases:
  "pr_insert_tag channel g s = (if ft_name g \<in> named_in channel s then (Inl (Conflict PG_TAG_INDEX), s)
     else (Inr (), s\<lparr>qt_tags := qt_tags s @ [put_tag (g\<lparr>ft_channel_id := channel\<rparr>)]\<rparr>))"
  by (auto simp: pr_insert_tag_def put_tag_def named_in_def list_ex_iff intro: rev_image_eqI)

lemma named_in_added [simp]:
  "named_in channel (s\<lparr>qt_tags := qt_tags s @ [put_tag (g\<lparr>ft_channel_id := channel\<rparr>)]\<rparr>) = insert (ft_name g) (named_in channel s)"
proof -
  let ?row = "put_tag (g\<lparr>ft_channel_id := channel\<rparr>)"
  have "{q \<in> set (qt_tags s @ [?row]). qg_channel_id q = to_db channel} = insert ?row {q \<in> set (qt_tags s). qg_channel_id q = to_db channel}"
    by (auto simp: put_tag_def)
  moreover have "qg_tag_name ?row = ft_name g" by (simp add: put_tag_def)
  ultimately show ?thesis by (simp add: named_in_def del: set_append)
qed

lemma insert_tags_fresh:
  "distinct (map ft_name tags) \<Longrightarrow> named_in channel s \<inter> ft_name ` set tags = {} \<Longrightarrow> pr_each (pr_insert_tag channel) tags s =
     (Inr (), s\<lparr>qt_tags := qt_tags s @ map (\<lambda>g. put_tag (g\<lparr>ft_channel_id := channel\<rparr>)) tags\<rparr>)"
proof (induction tags arbitrary: s)
  case (Cons g tags)
  have "pr_each (pr_insert_tag channel) tags (s\<lparr>qt_tags := qt_tags s @ [put_tag (g\<lparr>ft_channel_id := channel\<rparr>)]\<rparr>) =
      (Inr (), s\<lparr>qt_tags := (qt_tags s @ [put_tag (g\<lparr>ft_channel_id := channel\<rparr>)]) @ map (\<lambda>g. put_tag (g\<lparr>ft_channel_id := channel\<rparr>)) tags\<rparr>)"
    using Cons.IH [of "s\<lparr>qt_tags := qt_tags s @ [put_tag (g\<lparr>ft_channel_id := channel\<rparr>)]\<rparr>"] Cons.prems by auto
  moreover have "pr_insert_tag channel g s = (Inr (), s\<lparr>qt_tags := qt_tags s @ [put_tag (g\<lparr>ft_channel_id := channel\<rparr>)]\<rparr>)"
    using Cons.prems by (auto simp: insert_tag_cases)
  ultimately show ?case by (simp add: act_bind_def)
qed simp

lemma insert_tags_clash:
  "\<not> distinct (map ft_name tags) \<or> named_in channel s \<inter> ft_name ` set tags \<noteq> {} \<Longrightarrow>
   \<exists>ts. pr_each (pr_insert_tag channel) tags s = (Inl (Conflict PG_TAG_INDEX), s\<lparr>qt_tags := ts\<rparr>)"
proof (induction tags arbitrary: s)
  case (Cons g tags)
  show ?case
  proof (cases "ft_name g \<in> named_in channel s")
    case True
    then have "pr_insert_tag channel g s = (Inl (Conflict PG_TAG_INDEX), s)" by (simp add: insert_tag_cases)
    then show ?thesis by (intro exI [of _ "qt_tags s"]) (simp add: act_bind_def)
  next
    case False
    with Cons.IH [of "s\<lparr>qt_tags := qt_tags s @ [put_tag (g\<lparr>ft_channel_id := channel\<rparr>)]\<rparr>"] Cons.prems
    obtain ts where "pr_each (pr_insert_tag channel) tags (s\<lparr>qt_tags := qt_tags s @ [put_tag (g\<lparr>ft_channel_id := channel\<rparr>)]\<rparr>) =
        (Inl (Conflict PG_TAG_INDEX), s\<lparr>qt_tags := ts\<rparr>)"
      by auto
    moreover from False have "pr_insert_tag channel g s = (Inr (), s\<lparr>qt_tags := qt_tags s @ [put_tag (g\<lparr>ft_channel_id := channel\<rparr>)]\<rparr>)"
      by (simp add: insert_tag_cases)
    ultimately show ?thesis by (intro exI [of _ ts]) (simp add: act_bind_def)
  qed
qed simp

lemma sync_forum_tags_agrees: "routing_agrees rj (pr_sync_forum_tags channel tags (put_routing rj t)) (sync_forum_tags channel tags t)"
proof (rule agrees_sameI)
  let ?t = "t\<lparr>rb_tags := filter (\<lambda>g. ft_channel_id g \<noteq> channel) (rb_tags t)\<rparr>"
  have cleared: "snd (pr_clear_tags channel (put_routing rj t)) = put_routing rj ?t"
    unfolding pr_clear_tags_def pr_write_def Let_def put_routing_def
    by simp (rule filter_put, simp add: put_tag_def)
  have ran: "act_bind (pr_clear_tags channel) (\<lambda>_. pr_each (pr_insert_tag channel) tags) (put_routing rj t) =
      pr_each (pr_insert_tag channel) tags (put_routing rj ?t)"
    unfolding cleared [symmetric] by (simp add: act_bind_def pr_clear_tags_def pr_write_def Let_def)
  have none: "named_in channel (put_routing rj ?t) = {}" by (auto simp: named_in_def put_routing_def put_tag_def)
  have "pr_sync_forum_tags channel tags (put_routing rj t) =
      (map_sum routing_error id (fst (sync_forum_tags channel tags t)), put_routing rj (snd (sync_forum_tags channel tags t)))"
  proof (cases "distinct (map ft_name tags)")
    case True
    from insert_tags_fresh [OF True, of channel "put_routing rj ?t"] none ran True show ?thesis
      by (simp add: pr_sync_forum_tags_def commit_done sync_forum_tags_def) (simp add: put_routing_def)
  next
    case False
    from insert_tags_clash [of tags channel "put_routing rj ?t"] False ran obtain ts where
      "act_bind (pr_clear_tags channel) (\<lambda>_. pr_each (pr_insert_tag channel) tags) (put_routing rj t) =
        (Inl (Conflict PG_TAG_INDEX), (put_routing rj ?t)\<lparr>qt_tags := ts\<rparr>)"
      by auto
    with False show ?thesis
      by (simp add: pr_sync_forum_tags_def pr_commit_def sync_forum_tags_def index_names) (simp add: put_routing_def)
  qed
  then show "fst (pr_sync_forum_tags channel tags (put_routing rj t)) = map_sum routing_error id (fst (sync_forum_tags channel tags t))"
    "snd (pr_sync_forum_tags channel tags (put_routing rj t)) = put_routing rj (snd (sync_forum_tags channel tags t))"
    by simp_all
qed

section \<open>What is read\<close>

text \<open>The database's collation puts tag names in the order of their bytes.\<close>

definition byte_order :: "'j route_json \<Rightarrow> string set \<Rightarrow> bool" where
  "byte_order rj names \<longleftrightarrow> (\<forall>x \<in> names. \<forall>y \<in> names. rj_collate rj x \<le> rj_collate rj y \<longleftrightarrow> x \<le> y)"

lemma routes_agree: "route_json_ok rj \<Longrightarrow> pr_routes rx rj (put_routing rj t) = read_routes rx t"
proof -
  assume "route_json_ok rj"
  have "sort_key (\<lambda>q. (qr_priority q, qr_id q)) (map (put_route rj) (rb_routes t)) =
      map (put_route rj) (sort_key (\<lambda>r. (rt_priority r, rt_id r)) (rb_routes t))"
    by (rule sort_put) simp
  with \<open>route_json_ok rj\<close> show ?thesis
    by (simp add: pr_routes_def put_routing_def read_routes_def read_all_decode get_route_put)
qed

lemma active_ignores_agree: "pr_active_ignores rx guild now (put_routing rj t) = active_ignores rx guild now t"
proof -
  let ?P = "\<lambda>q. qi_guild_id q = to_db guild \<and> qi_revoked_at q = None \<and> (qi_expires_at q = None \<or> now < the (qi_expires_at q))"
  let ?Q = "\<lambda>r. ig_guild_id r = guild \<and> ig_revoked_at r = None \<and> (ig_expires_at r = None \<or> now < the (ig_expires_at r))"
  have "filter ?P (map put_ignore (rb_ignores t)) = map put_ignore (filter ?Q (rb_ignores t))"
    by (rule filter_put) simp
  moreover have "sort_key qi_id (map put_ignore (filter ?Q (rb_ignores t))) = map put_ignore (sort_key ig_id (filter ?Q (rb_ignores t)))"
    by (rule sort_put) simp
  ultimately show ?thesis
    by (simp add: pr_active_ignores_def put_routing_def active_ignores_def read_all_decode get_ignore_put)
qed

lemma subscriptions_agree: "pr_subscriptions rx (put_routing rj t) = read_subscriptions rx t"
proof -
  have "sort_key qs_id (map put_subscription (rb_subscriptions t)) = map put_subscription (sort_key su_id (rb_subscriptions t))"
    by (rule sort_put) simp
  then show ?thesis
    by (simp add: pr_subscriptions_def put_routing_def read_subscriptions_def read_all_decode get_subscription_put)
qed

lemma tags_of_put:
  "filter (\<lambda>q. qg_channel_id q = to_db channel) (map put_tag tags) = map put_tag (filter (\<lambda>g. ft_channel_id g = channel) tags)"
  by (rule filter_put) (simp add: put_tag_def)

lemma map_get_tag_put: "map get_tag (map put_tag tags) = tags"
  by (simp add: get_tag_put comp_def)

lemma forum_tags_same: "mset (pr_forum_tags rj channel (put_routing rj t)) = mset (read_forum_tags channel t)"
proof -
  have "mset (pr_forum_tags rj channel (put_routing rj t)) =
      mset (map get_tag (map put_tag (filter (\<lambda>g. ft_channel_id g = channel) (rb_tags t))))"
    by (simp add: pr_forum_tags_def put_routing_def tags_of_put del: map_map)
  then show ?thesis by (simp only: map_get_tag_put) (simp add: read_forum_tags_def)
qed

lemma forum_tags_agree:
  assumes "byte_order rj (ft_name ` set (rb_tags t))"
  shows "pr_forum_tags rj channel (put_routing rj t) = read_forum_tags channel t"
proof -
  let ?tags = "filter (\<lambda>g. ft_channel_id g = channel) (rb_tags t)"
  have "sort_key (\<lambda>q. rj_collate rj (qg_tag_name q)) (map put_tag ?tags) = map put_tag (sort_key ft_name ?tags)"
    by (rule sort_put) (use assms in \<open>auto simp: byte_order_def put_tag_def\<close>)
  then show ?thesis
    by (simp only: pr_forum_tags_def put_routing_def routing_tuples.simps tags_of_put map_get_tag_put read_forum_tags_def)
qed

definition pr_snapshot_of :: "regex_engine \<Rightarrow> 'j route_json \<Rightarrow> time \<Rightarrow> 'j routing_tuples \<Rightarrow> store_error + routing_snapshot" where
  "pr_snapshot_of rx rj now s = load_snapshot (pr_routes rx rj s) (\<lambda>guild. pr_active_ignores rx guild now s)
     (\<lambda>channel. Inr (pr_forum_tags rj channel s)) (pr_subscriptions rx s)"

lemma snapshot_agrees:
  "route_json_ok rj \<Longrightarrow> byte_order rj (ft_name ` set (rb_tags t)) \<Longrightarrow> pr_snapshot_of rx rj now (put_routing rj t) = snapshot_of rx now t"
  by (simp add: pr_snapshot_of_def snapshot_of_def routes_agree active_ignores_agree subscriptions_agree forum_tags_agree)

section \<open>The methods\<close>

text \<open>
  The routing methods of \<open>trait Store\<close> (\<open>store/src/lib.rs\<close>) as both backends forward them, with what each answers, and
  histories of them on PostgreSQL. \<open>Properties_Routing\<close> has the calls themselves.
\<close>

datatype routing_answer =
    StoredRoute route_id
  | DisabledRoutes nat
  | StoredIgnore ignore_id
  | StoredSubscription subscription_id
  | RoutingUnit

definition routed :: "('a \<Rightarrow> routing_answer) \<Rightarrow> (store_error + 'a) \<times> 's \<Rightarrow> (store_error + routing_answer) \<times> 's" where
  "routed f = map_prod (map_sum id f) id"

fun sqlite_routing_call :: "routing_call \<Rightarrow> routing_tables \<Rightarrow> (store_error + routing_answer) \<times> routing_tables" where
  "sqlite_routing_call (CallUpsertRoute r) t = routed StoredRoute (upsert_route r t)"
| "sqlite_routing_call (CallDisableMissing keep) t =
     routed DisabledRoutes (map_prod Inr id (disable_missing_config_routes keep t))"
| "sqlite_routing_call (CallUpsertIgnore r) t = routed StoredIgnore (upsert_ignore r t)"
| "sqlite_routing_call (CallRevokeIgnore i g now) t = routed (\<lambda>_. RoutingUnit) (revoke_ignore i g now t)"
| "sqlite_routing_call (CallUpsertSubscription s) t = routed StoredSubscription (upsert_subscription s t)"
| "sqlite_routing_call (CallRemoveSubscription i u) t = routed (\<lambda>_. RoutingUnit) (remove_subscription i u t)"
| "sqlite_routing_call (CallSyncTags c tags) t = routed (\<lambda>_. RoutingUnit) (sync_forum_tags c tags t)"

fun postgres_routing_call ::
  "'j route_json \<Rightarrow> routing_call \<Rightarrow> 'j routing_tuples \<Rightarrow> (store_error + routing_answer) \<times> 'j routing_tuples" where
  "postgres_routing_call rj (CallUpsertRoute r) s = routed StoredRoute (pr_upsert_route rj r s)"
| "postgres_routing_call rj (CallDisableMissing keep) s = routed DisabledRoutes (pr_disable_missing keep s)"
| "postgres_routing_call rj (CallUpsertIgnore r) s = routed StoredIgnore (pr_upsert_ignore r s)"
| "postgres_routing_call rj (CallRevokeIgnore i g now) s = routed (\<lambda>_. RoutingUnit) (pr_revoke_ignore i g now s)"
| "postgres_routing_call rj (CallUpsertSubscription u) s = routed StoredSubscription (pr_upsert_subscription u s)"
| "postgres_routing_call rj (CallRemoveSubscription i u) s = routed (\<lambda>_. RoutingUnit) (pr_remove_subscription i u s)"
| "postgres_routing_call rj (CallSyncTags c tags) s = routed (\<lambda>_. RoutingUnit) (pr_sync_forum_tags c tags s)"

text \<open>The state a call leaves is the one histories are made of.\<close>

lemma snd_routed [simp]: "snd (routed f p) = snd p"
  by (simp add: routed_def)

lemma snd_sqlite_routing_call: "snd (sqlite_routing_call c t) = run_routing_call c t"
  by (cases c) simp_all

section \<open>Call by call\<close>

lemma routed_agrees: "routing_agrees rj p q \<Longrightarrow> routing_agrees rj (routed f p) (routed f q)"
  by (cases "fst q") (auto simp: routing_agrees_def routed_def)

lemma routing_call_agrees:
  assumes "names_unique (rb_routes t)"
  shows "routing_agrees rj (postgres_routing_call rj c (put_routing rj t)) (sqlite_routing_call c t)"
proof (cases c)
  case (CallDisableMissing keep)
  have "routing_agrees rj (pr_disable_missing keep (put_routing rj t)) (map_prod Inr id (disable_missing_config_routes keep t))"
    by (rule agrees_sameI) (simp_all add: disable_missing_agrees Let_def)
  then show ?thesis by (simp add: CallDisableMissing routed_agrees)
qed (auto intro!: routed_agrees upsert_route_agrees upsert_ignore_agrees revoke_ignore_agrees upsert_subscription_agrees
    remove_subscription_agrees sync_forum_tags_agrees assms)

section \<open>Histories\<close>

definition postgres_routing_history :: "'j route_json \<Rightarrow> routing_call list \<Rightarrow> 'j routing_tuples \<Rightarrow> 'j routing_tuples" where
  "postgres_routing_history rj = fold (\<lambda>c s. snd (postgres_routing_call rj c s))"

lemma routing_ok_moved: "routing_ok t \<Longrightarrow> rb_next_route t \<le> i \<Longrightarrow> routing_ok (t\<lparr>rb_next_route := i\<rparr>)"
  by (fastforce simp: routing_ok_def route_rows.rows_ok_def)

lemma postgres_routing_rows:
  "routing_ok t \<Longrightarrow> \<exists>t'. postgres_routing_history rj cs (put_routing rj t) = put_routing rj t' \<and> routing_ok t'"
proof (induction cs arbitrary: t)
  case Nil
  then show ?case by (auto simp: postgres_routing_history_def)
next
  case (Cons c cs)
  have "routing_agrees rj (postgres_routing_call rj c (put_routing rj t)) (sqlite_routing_call c t)"
    by (rule routing_call_agrees) (use Cons.prems in \<open>simp add: routing_ok_def\<close>)
  then obtain i where i: "rb_next_route (run_routing_call c t) \<le> i"
    "snd (postgres_routing_call rj c (put_routing rj t)) = put_routing rj ((run_routing_call c t)\<lparr>rb_next_route := i\<rparr>)"
    by (auto simp: routing_agrees_def snd_sqlite_routing_call)
  from Cons.IH [OF routing_ok_moved [OF run_routing_call_ok [OF Cons.prems] i(1)]] i(2) show ?case
    by (simp add: postgres_routing_history_def)
qed

end
