(* ===== verification/Properties_Postgres.thy ===== *)
theory Properties_Postgres
  imports Postgres_System Postgres_Claims Postgres_Routing_Facts Properties_Store
begin

text \<open>
  What the PostgreSQL backend promises: it answers as the SQLite backend does, so what is proved of that one holds of
  it, and its claims may overlap.
\<close>

section \<open>A document type\<close>

text \<open>The plainest documents there are: a value each, with one empty list.\<close>

datatype plain_doc =
    DocNil
  | DocLabels labels
  | DocAnnotations annotations
  | DocStrings "string list"
  | DocTags "tag_id list"
  | DocEffect effect
  | DocPayload event_payload
  | DocDetail json

definition plain_jsonb :: "plain_doc jsonb" where
  "plain_jsonb = \<lparr>
     jb_labels = (DocLabels, \<lambda>d. case d of DocLabels ls \<Rightarrow> Inr ls | _ \<Rightarrow> Inl ''not labels''),
     jb_annotations = (DocAnnotations, \<lambda>d. case d of DocAnnotations as \<Rightarrow> Inr as | _ \<Rightarrow> Inl ''not annotations''),
     jb_strings = (\<lambda>xs. if xs = [] then DocNil else DocStrings xs,
       \<lambda>d. case d of DocNil \<Rightarrow> Inr [] | DocStrings xs \<Rightarrow> Inr xs | _ \<Rightarrow> Inl ''not strings''),
     jb_tags = (\<lambda>xs. if xs = [] then DocNil else DocTags xs,
       \<lambda>d. case d of DocNil \<Rightarrow> Inr [] | DocTags xs \<Rightarrow> Inr xs | _ \<Rightarrow> Inl ''not tags''),
     jb_effect = (DocEffect, \<lambda>d. case d of DocEffect e \<Rightarrow> Inr e | _ \<Rightarrow> Inl ''not an effect''),
     jb_payload = DocPayload, jb_detail = DocDetail,
     jb_text = (\<lambda>d name. case d of DocLabels ls \<Rightarrow> labels_get ls name | _ \<Rightarrow> None),
     jb_nil = DocNil, jb_collate = id\<rparr>"

lemma plain_jsonb_ok: "jsonb_ok plain_jsonb"
  by (simp add: jsonb_ok_def plain_jsonb_def document_ok_def)


section \<open>The same answers\<close>





text \<open>
  C11: Whatever calls a PostgreSQL store has served since it was empty, its tables are the rows of records that keep the
  whole invariant of the store: one live card per channel and key and per message, one unrevoked acknowledgement and
  one row per alert, ids below their sequences, every queued item in its key's lane and claimed by somebody exactly when
  it has a claim time.
\<close>

theorem postgres_keeps_invariant:
  assumes "jsonb_ok jb" "list_all typed_call calls" "list_all call_ok calls" "(\<Sum>c\<leftarrow>calls. alerts_in c) \<le> I32_MAX"
  shows "\<exists>db. postgres_history jb calls (put_db jb empty_db) = put_db jb db \<and> db_ok db"
  using postgres_history_rows [OF assms(1) empty_db_ok typed_empty _ assms(2,3)] assms(4) by auto

theorem postgres_keeps_invariant_witness:
  "\<exists>db. postgres_history plain_jsonb [CallDecision disk_plan, CallOrphan 1 5, CallDecision disk_plan] (put_db plain_jsonb empty_db) =
     put_db plain_jsonb db \<and> distinct (map n_id (db_cards db))"
proof -
  have "fingerprint_ok (fp_str fp_a)" unfolding fp_a_def by code_simp
  then have "typed_decision disk_plan" by (simp add: typed_decision_def disk_plan_def)
  then show ?thesis
    using postgres_keeps_invariant [OF plain_jsonb_ok, of "[CallDecision disk_plan, CallOrphan 1 5, CallDecision disk_plan]"]
    by (auto simp: I32_MAX_def db_ok_def cards_ok_def)
qed

section \<open>Routing\<close>







section \<open>Overlapping claims\<close>

text \<open>
  C9: Any number of workers may claim at the same time, each transaction locking its rows before others commit and
  committing in any order: once none is open, the queue and what every worker was handed are as if each claim had run
  whole, one after another in the order in which they locked, and no item was handed out twice.
\<close>

theorem overlapping_claims_serialise:
  assumes "distinct (map it_id (pt_outbox s))" "readable jb (pt_outbox s)" "overlapping_claims jb events s = (s', [], out)"
  shows "s' = fst (serial_claims jb events s) \<and> mset out = mset (snd (serial_claims jb events s)) \<and>
    distinct (concat (map items_of out))"
proof -
  from overlapping_serialise [OF assms(2), of events] assms(3)
  have 1: "s' = fst (serial_claims jb events s)" "mset out = mset (snd (serial_claims jb events s))"
    by (simp_all add: serialises_def answers_def)
  moreover have "distinct (concat (map items_of out))"
    using serial_claims_handed_once [OF assms(1,2), of events] handed_once_permuted [OF 1(2)] by (simp add: handed_once_def)
  ultimately show ?thesis by simp
qed

definition two_queued :: "plain_doc tuples" where
  "two_queued = put_db plain_jsonb (empty_db\<lparr>db_outbox := [disk_item, disk_item\<lparr>ob_id := 2\<rparr>]\<rparr>)"

definition one_each :: claim_request where
  "one_each = any_worker\<lparr>cr_limit := 1\<rparr>"

text \<open>Two workers lock one item each, and the second commits first.\<close>

definition crossing :: "claim_event list" where
  "crossing = [ClaimLocks ''w1'' one_each 5, ClaimLocks ''w2'' one_each 6, ClaimCommits 1, ClaimCommits 0]"

lemma two_queued_rows: "pt_outbox two_queued = [put_item plain_jsonb disk_item, put_item plain_jsonb (disk_item\<lparr>ob_id := 2\<rparr>)]"
  by (simp add: two_queued_def)

lemma two_queued_ok: "distinct (map it_id (pt_outbox two_queued))" "readable plain_jsonb (pt_outbox two_queued)"
  by (simp_all add: two_queued_rows disk_item_def readable_def doc_column_def plain_jsonb_def)

lemma two_claims: "snd (overlapping_claims plain_jsonb crossing two_queued) =
  ([], [(''w2'', Inr [take_row ''w2'' 6 (disk_item\<lparr>ob_id := 2\<rparr>)]), (''w1'', Inr [take_row ''w1'' 5 disk_item])])"
proof -
  let ?rows = "pt_outbox two_queued"
  have lane: "ob_lane disk_item < 65536" by (simp add: disk_item_def key_lane_bound)
  have ids: "pg_claim_ids {} one_each 5 two_queued = [1]" "pg_claim_ids {1} one_each 6 two_queued = [2]"
    by (simp_all add: pg_claim_ids_def two_queued_rows pg_claimable_def one_each_def any_worker_def disk_item_def)
  have take: "mark (w, now, [ob_id i]) [put_item plain_jsonb i] = [put_item plain_jsonb (take_row w now i)]" for w now i
    by (simp add: mark_def update_where_def put_item_def take_row_def)
  have taken: "taken plain_jsonb (w, now, [ob_id i]) rows = Inr [take_row w now i]"
    if "filter (\<lambda>r. it_id r \<in> {ob_id i}) rows = [put_item plain_jsonb i]" "ob_lane i < 65536" for w now i rows
  proof -
    have "filter (\<lambda>r. it_id r \<in> {ob_id i}) (mark (w, now, [ob_id i]) rows) = [put_item plain_jsonb (take_row w now i)]"
      using filter_own_mark [of "(w, now, [ob_id i])" rows] that(1) take by simp
    then show ?thesis using that(2) read_written_item [OF plain_jsonb_ok, of "take_row w now i"]
      by (simp add: taken_def take_row_def)
  qed
  have t2: "taken plain_jsonb (''w2'', 6, [2]) ?rows = Inr [take_row ''w2'' 6 (disk_item\<lparr>ob_id := 2\<rparr>)]"
    using taken [of "disk_item\<lparr>ob_id := 2\<rparr>" ?rows] lane by (simp add: two_queued_rows) (simp add: disk_item_def)
  have t1: "taken plain_jsonb (''w1'', 5, [1]) (mark (''w2'', 6, [2]) ?rows) = Inr [take_row ''w1'' 5 disk_item]"
    using taken [of disk_item "mark (''w2'', 6, [2]) ?rows"] filter_mark [of "(''w2'', 6, [2])" "{1}" ?rows] lane
    by (simp add: two_queued_rows) (simp add: disk_item_def)
  have c: "pg_commit (pg_take_ids plain_jsonb ''w2'' 6 [2]) two_queued =
      (Inr [take_row ''w2'' 6 (disk_item\<lparr>ob_id := 2\<rparr>)], two_queued\<lparr>pt_outbox := mark (''w2'', 6, [2]) ?rows\<rparr>)"
    using take_ids_taken [OF two_queued_ok(2)] t2 by simp
  have d: "fst (pg_commit (pg_take_ids plain_jsonb ''w1'' 5 [1]) (two_queued\<lparr>pt_outbox := mark (''w2'', 6, [2]) ?rows\<rparr>)) =
      Inr [take_row ''w1'' 5 disk_item]"
    using take_ids_taken [of plain_jsonb "two_queued\<lparr>pt_outbox := mark (''w2'', 6, [2]) ?rows\<rparr>" "''w1''" 5 "[1]"] two_queued_ok(2) t1
    by simp
  then obtain s where d': "pg_commit (pg_take_ids plain_jsonb ''w1'' 5 [1]) (two_queued\<lparr>pt_outbox := mark (''w2'', 6, [2]) ?rows\<rparr>) =
      (Inr [take_row ''w1'' 5 disk_item], s)" by (metis prod.collapse)
  show ?thesis by (simp add: overlapping_claims_def crossing_def ids c d')
qed

theorem overlapping_claims_serialise_witness:
  "mset (snd (serial_claims plain_jsonb crossing two_queued)) =
     {#(''w2'', Inr [take_row ''w2'' 6 (disk_item\<lparr>ob_id := 2\<rparr>)]), (''w1'', Inr [take_row ''w1'' 5 disk_item])#}"
proof -
  obtain s' where "overlapping_claims plain_jsonb crossing two_queued =
      (s', [], [(''w2'', Inr [take_row ''w2'' 6 (disk_item\<lparr>ob_id := 2\<rparr>)]), (''w1'', Inr [take_row ''w1'' 5 disk_item])])"
    using two_claims by (metis prod.collapse)
  from overlapping_claims_serialise [OF two_queued_ok this] show ?thesis by (simp add: add_mset_commute)
qed

section \<open>Instants finer than the columns\<close>

text \<open>
  Both backends keep an instant to the microsecond and drop the rest. With instants counted in nanoseconds, an alert
  that started in the middle of a microsecond is never recognised when it is delivered again.
\<close>

lemma finer_instant_never_duplicate:
  assumes "al_starts_at (ar_alert r) = 1000 * (al_starts_at a div 1000)" "al_starts_at a mod 1000 \<noteq> 0"
  shows "classify (Some r) a at regroup \<noteq> None"
proof -
  have "al_starts_at (ar_alert r) \<noteq> al_starts_at a" using assms mod_mult_self1_is_0 by metis
  then show ?thesis by (simp add: classify_None_iff is_material_change_def)
qed

end
