(* ===== verification/Spec2Isabelle.thy ===== *)
theory Spec2Isabelle
  imports Properties_Core Properties_Engine Properties_Store Properties_Routing Properties_Dispatch Properties_Discord Properties_Views Properties_Retention Properties_Wire Properties_Postgres
begin

text \<open>
  A verification library for discord-alertmanager, the bot that turns Prometheus Alertmanager's webhooks into Discord
  cards.

  \<^bold>\<open>The program.\<close> Alertmanager delivers alerts by webhook and is polled by a reconciler and a silence syncer. Every
  delivery is a batch of alerts; the store compares each with the row it holds (\<open>store/src/logic.rs\<close>, \<open>classify\<close>) and
  returns the changes, the alert deltas. For each delta the service (\<open>runtime/src/service.rs\<close>, \<open>apply_deltas\<close>) reads
  the cards held at every place the routes would use and asks the pure function \<open>decide\<close> (\<open>engine/src/decide.rs\<close>) for a
  decision: cards to create, cards to update, and the effects on Discord each update needs. \<open>apply_decision\<close> writes it in
  one transaction, queueing the effects in the outbox (\<open>store-sqlite/src/store\<close>). Workers claim outbox items, perform
  them against Discord or Alertmanager and complete, retry or drop them. Sweeps escalate cards nobody acknowledged, free
  the leases of dead workers, and report a silent Alertmanager; a janitor prunes what is past its retention. People act
  on alerts from Discord, by slash commands, by the controls of a card and by writing in its thread; every action checks
  the caller's capability, goes through the same store and leaves an audit row.

  \<^bold>\<open>Theories.\<close>
  \<^item> \<open>Prelude\<close>, \<open>Strings\<close>, \<open>Ordered_Map\<close>, \<open>Result_State\<close>: time in microseconds, saturating arithmetic, list lemmas; the
    string functions of the standard library the code uses; ordered maps (Rust's \<open>BTreeMap\<close>) behind a locale; the
    state-and-failure monad of the worker and of the gateway, and the locale of what an invariant of it needs.
  \<^item> \<open>Core_Labels\<close>, \<open>Core_Alert\<close>, \<open>Core_State\<close>, \<open>Core_Matcher\<close>: the crate \<open>core\<close>, one theory per file group: labels with
    the 64-bit FNV hash and identity policies; alerts and dedupe keys; the card state machine; matchers.
  \<^item> \<open>Store_Types\<close>, \<open>Store_Logic\<close>: the crate \<open>store\<close>: the records and enums of its interface, the
    decisions both backends share (\<open>classify\<close>, \<open>suppression_map\<close>, the SQL filter), audit entries and the retention policy.
  \<^item> \<open>Engine_Routing\<close>, \<open>Engine_Storm\<close>, \<open>Engine_Decide\<close>, \<open>Engine_Explain\<close>: the crate \<open>engine\<close>: the routing snapshot, the storm
    counter, the whole of \<open>decide\<close>, and the comparison of two posts; \<open>Decide_Facts\<close> holds the lemmas about decisions.
    \<open>Engine_Config\<close> is the route section of the configuration (crate \<open>config\<close>), its conversion to routes and their
    synchronisation on start (\<open>main.rs\<close>, \<open>sync_routes\<close>). \<open>Engine_Ports\<close> holds what the engine asks of Discord and
    Alertmanager: a record of functions each, from the state of the world to an answer and the next state of the world.
  \<^item> \<open>Sqlite_Db\<close>, \<open>Sqlite_Outbox\<close>, \<open>Sqlite_Cards\<close>, \<open>Sqlite_Alerts\<close>: the crate \<open>store-sqlite\<close>: the tables as a record of row
    lists, a transaction as a function that fails or returns a result with the new tables, one definition per operation.
    \<open>run_tx\<close> restores the tables when a transaction fails. The unique indexes and the checks of the schema are tests
    inside the writes that could break them. \<open>Cards_Facts\<close>, \<open>Sqlite_Silences\<close> and \<open>Sqlite_System\<close> hold the lemmas and
    the invariant \<open>db_ok\<close> every operation keeps. \<open>Sqlite_Routing\<close> holds the tables of routes, ignore rules, subscriptions
    and forum tags, which no transaction touches together with the others; \<open>Routing_Facts\<close> its invariant and what a
    synchronisation with the file leaves in them. \<open>Sqlite_Audit\<close> is the audit log and the retention pass. \<open>Sqlite_Rows\<close> is
    what is bound to a statement and what is read from a row (\<open>convert.rs\<close>): text, integers and nulls;
    \<open>Sqlite_Routing_Rows\<close> has the rows whose matchers a read compiles.
  \<^item> \<open>Postgres_Rows\<close>, \<open>Postgres_Outbox\<close>, \<open>Postgres_Cards\<close>, \<open>Postgres_Alerts\<close>: the crate \<open>store-postgres\<close>, a level below: rows
    of words, integers and documents, and one definition per statement, so that what a transaction reads and writes is
    what its SQL says. A failed transaction gives back the tables but not the numbers it drew. \<open>Postgres_Sim\<close> relates a
    record to its row and a statement list to a transaction of \<open>Sqlite_Db\<close>; \<open>Postgres_Facts\<close>, \<open>Postgres_Card_Facts\<close> and
    \<open>Postgres_Alert_Facts\<close> prove the simulation for every operation. \<open>Store_Port\<close> is the interface both backends serve
    (\<open>trait Store\<close>), \<open>Postgres_System\<close> the agreement behind it, \<open>Postgres_Claims\<close> the claims that overlap.
    \<open>Postgres_Routing\<close> and \<open>Postgres_Routing_Facts\<close> do the same for the routing tables.
  \<^item> \<open>Runtime_Service\<close>, \<open>Service_Facts\<close>: the crate \<open>runtime\<close>: the service's handlers over the tables and its in-memory
    state (poll clocks, storm counter, the administrators' lane), and the step relation \<open>pipeline_step\<close> of the running
    process, whose reachable states satisfy \<open>db_ok\<close>. \<open>Runtime_Cards\<close> reads a card back for the sink; \<open>Runtime_Dispatch\<close> is
    the worker: one definition per effect, written in the monad over the worker's state (the
    process's state, the routing tables and snapshot, the tags it was refused, the world), the settling of an outcome
    and the turn of its loop. \<open>Dispatch_Facts\<close> states once, in a locale of relations between worker states, that every
    effect is made of store calls, and instantiates it with what effects keep.
  \<^item> \<open>Am_Model\<close>, \<open>Am_Client\<close>: the crate \<open>am\<close>: the documents of Alertmanager's interface and their conversion to the core's
    types, with every refusal; the client with its endpoints, its failover and its retries. \<open>Ingest_Router\<close> is the crate
    \<open>ingest\<close>: the bearer check, the webhook handler, the probes. \<open>Wire_Facts\<close> closes the process over them: the step
    relation \<open>wire_step\<close>, in which alerts enter only as documents, and a locale of properties of alerts the store keeps.
  \<^item> \<open>Discord_Text\<close>, \<open>Discord_Custom_Id\<close>, \<open>Discord_Capability\<close>, \<open>Discord_Links\<close>, \<open>Discord_Render\<close>, \<open>Discord_Views\<close>: the crate
    \<open>discord\<close>, what it shows: text counted in UTF-16 units, the ids of controls, the capability table, link buttons, the
    card with Discord's limits and its hash, detail views and page controls. \<open>Discord_Sink\<close> is the sink the worker calls,
    over a record of the requests the client library makes.
  \<^item> \<open>Discord_Bot\<close>, \<open>Discord_Components\<close>, \<open>Discord_Commands\<close>, \<open>Discord_Routing\<close>, \<open>Discord_Reports\<close>, \<open>Discord_Debug\<close>:
    the same crate, what it does: the shared mutations (\<open>actions.rs\<close>) and events of \<open>bot.rs\<close>, the controls
    of a card, the commands one theory per group of files, and the dispatcher with its audit. \<open>Discord_Facts\<close> proves once
    what every command keeps; \<open>Gateway_Facts\<close> makes the gateway a step relation and shows it to be runs of the process.
  \<^item> \<open>Fixtures\<close> and the theories \<open>Properties_*\<close>: the alerts, routes and tables used to apply the properties, and the
    properties, one theory per part of the program; those that span the whole process are below.

  \<^bold>\<open>Correspondence.\<close> A Rust struct is a record with the field prefix of its type, an enum a datatype, \<open>Result\<close> a sum whose left
  side is the error, a timestamp the microseconds since the epoch, an id an integer bounded as the type bounds it.
  Numbers that saturate or wrap in the code do so in the model. A timer or clock reading is an argument of the handler
  that makes it, or a function from the position of the reading where there are several. A panic the code can reach is
  a value of its own (\<open>None\<close> of \<open>Escalation::after\<close>, \<open>Aborted\<close> of a command, \<open>Panicked\<close> of a page), since the release
  profile aborts. Text is a list of bytes in UTF-8.

  \<^bold>\<open>Parameters.\<close> The regex engine, chrono's conversions, the digest that spreads keys over lanes, the template engine, the
  URL parser, the JSON reader and writer, the documents and the text order of PostgreSQL, the HTTP client, Discord and
  Alertmanager are arguments of the definitions that use them. Nothing is assumed of them beyond the hypotheses a theorem states.

  \<^bold>\<open>What is shown.\<close> The store: every operation, in any order, keeps one card per channel and key, one row and one standing
  acknowledgement per alert, every item in the lane of its key; a decision is applied whole or not at all; a claim needs
  its lease to settle; the PostgreSQL backend answers and stores what the SQLite one does, and its claims may overlap
  in time without sharing an item; nothing queued disappears unsettled; a retention pass
  removes only what is past its age, and passes come to an end; a stored row reads back as it was written. The decision:
  why a card is created, that no accepted change is lost, how cards re-arm and resolve, that an archived post is sealed
  last. The service: the invariant over every run of the process, what becomes of a fresh alert, and when a missing
  alert is resolved. The worker: its turns are runs of the process, an item it handles is removed or handed back, a
  card is posted once, work the card has moved past makes no request. Routing: keys stay unique, and a start leaves
  exactly the file's routes enabled. The edge: every stored alert is well-formed whatever documents arrive, what the
  listener answers to each request, that a call to Alertmanager returns. Discord: a caller changes only what their capabilities allow, every command
  leaves one audit row, the gateway is a part of the process, an acknowledgement has one winner, a silence from a card
  covers that card's alert; a card stays inside the limits, its links on the allowed hosts, and no text in it can
  notify anybody. The core: round trips of the matcher expression and of the stored words; the state machine.

  \<^bold>\<open>Bounds.\<close> Every loop of the modelled code but one is over a finite list and is structural recursion; no fuel is used.
  The retries of the client (\<open>retry_loop\<close>) end by the clock, so they are a partial function, shown to return over any
  clock that moves with the waits.

  \<^bold>\<open>Not modelled.\<close> The HTTP server with its layers (body limit, time limit, tracing), the Discord connection and the
  registration of commands, logging, metrics export, task scheduling, the reading of configuration files, and the pool
  and migrations of the database are input and output around this code.
  A read or write of the database that fails for the backend's own reasons (\<open>StoreError::Backend\<close>) is not modelled, nor
  the client library's panic on an id of zero. Of PostgreSQL, two transactions that run at the same time are modelled for
  claims only, every other call runs alone; a counter past 32 bits and a NUL in a document are not modelled. Both backends cut an instant to the microsecond; instants here are
  microseconds. The component list of the manifest gives the reason for each part left out.
\<close>

section \<open>The running process\<close>

text \<open>
  C1: Whatever webhooks arrive, whatever polls and silence syncs answer, whatever the sweeps, the janitor, the
  workers and the commands do, in any order, at any times and under any routing snapshots: at every moment there is
  at most one card for each channel and key, one row for each alert and one standing acknowledgement for each
  alert, and every queued item waits in the lane of its key.
\<close>

theorem pipeline_keeps_one_card:
  assumes "reachable from_ts cf counter storm pl"
  shows "distinct (map (\<lambda>n. (n_channel_id n, n_dedupe_key n)) (db_cards (pl_db pl))) \<and>
    distinct (map (\<lambda>r. al_fingerprint (ar_alert r)) (db_alerts (pl_db pl))) \<and>
    distinct (map ak_fingerprint (filter (\<lambda>a. ak_revoked_at a = None) (db_acks (pl_db pl)))) \<and>
    (\<forall>i \<in> set (db_outbox (pl_db pl)). ob_lane i = key_lane (ob_dedupe_key i) OUTBOX_LANES)"
  using reachable_ok [OF assms]
  by (auto simp: db_ok_def cards_ok_def keys_unique_def acks_ok_def alerts_ok_def outbox_ok_def item_ok_def)

definition plain_config :: service_config where
  "plain_config = \<lparr>cf_settings = default_settings, cf_regroup = seconds 1800, cf_persist_events = True, cf_admin = Some 3,
     cf_lease = seconds 30, cf_deadman = seconds 600\<rparr>"

definition fresh_pipeline :: pipeline where
  "fresh_pipeline = start_pipeline empty_db (new_counter 10 10 (seconds 60)) quiet"

theorem pipeline_keeps_one_card_witness:
  "distinct (map (\<lambda>n. (n_channel_id n, n_dedupe_key n))
     (db_cards (pl_db (snd (ingest (\<lambda>_. None) plain_config text_snapshot disk_batch 4 fresh_pipeline)))))"
proof -
  have "reachable (\<lambda>_. None) plain_config (new_counter 10 10 (seconds 60)) quiet
      (snd (ingest (\<lambda>_. None) plain_config text_snapshot disk_batch 4 fresh_pipeline))"
    unfolding reachable_def fresh_pipeline_def by (rule r_into_rtranclp) (rule pipeline_step.webhook)
  from pipeline_keeps_one_card [OF this] show ?thesis by simp
qed

text \<open>
  C5: A fresh alert reaches every route or none: when no card is held yet at any place the routes of a firing alert
  would use, applying the change gives every unmuted route its card exactly when no two of them share a channel and
  key; when two do, the whole decision is rolled back, the error is swallowed as a lost race, and nothing is posted
  on any route.
\<close>

theorem fresh_alert_everywhere_or_nowhere:
  assumes "cards_ok db" "is_firing (d_alert delta)"
    "\<forall>(ch, k) \<in> set (card_places from_ts sn storm ds now delta). notification_for k ch db = None"
  defines "places \<equiv> map (\<lambda>r. (delivery_channel (rt_target r), dedupe_key from_ts delta r storm ds now))
      (filter (\<lambda>r. \<not> is_muted sn delta now r) (resolve sn (al_labels (d_alert delta)) (alert_severity (d_alert delta))))"
  shows "\<exists>db'. apply_delta from_ts sn storm ds now delta db = (Inr (), db') \<and>
    (if distinct places then card_key ` set (db_cards db') = set places \<union> card_key ` set (db_cards db) else db' = db)"
proof (cases "distinct places")
  case True
  with fresh_alert [OF assms(1-3)] show ?thesis by (simp add: places_def routes_for_def)
next
  case False
  with fresh_alert [OF assms(1-3)] show ?thesis by (simp add: places_def routes_for_def)
qed

definition twin_snapshot :: routing_snapshot where
  "twin_snapshot = new_snapshot [text_route, text_route\<lparr>rt_id := 2\<rparr>] [] []"

theorem fresh_alert_everywhere_or_nowhere_witness:
  "snd (apply_delta (\<lambda>_. None) twin_snapshot quiet default_settings 0 fired empty_db) = empty_db"
proof -
  have res: "resolve twin_snapshot disk_labels Critical = [text_route, text_route\<lparr>rt_id := 2\<rparr>]"
    by (simp add: twin_snapshot_def new_snapshot_def resolve_def route_accepts_def text_route_def set_matches_def at_least_def)
  have keys: "dedupe_key (\<lambda>_. None) fired r quiet default_settings 0 = per_alert fp_a" if "r \<in> {text_route, text_route\<lparr>rt_id := 2\<rparr>}" for r
    using that by (auto simp: dedupe_key_def dedupe_keys_def text_route_def is_storming_def quiet_def empty_storm_def threshold_for_def
        storm_count_def alert_identity_def identity_exact default_settings_def is_exact_def Set.is_empty_iff Let_def)
  have free: "\<forall>(ch, k) \<in> set (card_places (\<lambda>_. None) twin_snapshot quiet default_settings 0 fired). notification_for k ch empty_db = None"
    by (simp add: notification_for_def empty_db_def split_beta)
  have ok: "cards_ok empty_db" by (rule cards.inv_empty)
  have mute: "is_muted twin_snapshot fired 0 r = False" for r
    by (simp add: is_muted_def ignore_for_def twin_snapshot_def new_snapshot_def)
  from fresh_alert_everywhere_or_nowhere [OF ok _ free] show ?thesis by (auto simp: res mute keys)
qed

section \<open>The reconciler\<close>

text \<open>
  C34: It takes three polls, not two, to resolve an alert Alertmanager stopped reporting: an alert last seen at the
  start of a poll is still firing after two further polls that do not list it, and is resolved by the third.
\<close>

theorem three_polls_resolve:
  fixes pl :: pipeline and tick tick' tick'' :: clock
  assumes "db_ok (pl_db pl)" "read_alert f (pl_db pl) = Some r" "al_status (ar_alert r) = AFiring"
    and seen: "ar_last_seen_at r = at" "pl_last_poll pl = timestamp at" "pl_previous_poll pl \<le> timestamp at"
    and clock: "from_ts (pl_previous_poll pl) \<in> {None, Some (seconds (pl_previous_poll pl))}"
      "from_ts (timestamp at) = Some (seconds (timestamp at))" "from_ts (timestamp (tick 0)) = Some (seconds (timestamp (tick 0)))"
      "0 < timestamp at" "timestamp at < timestamp (tick 0)"
    and absent: "f \<notin> al_fingerprint ` set listed" "f \<notin> al_fingerprint ` set listed'" "f \<notin> al_fingerprint ` set listed''"
    and run: "pl' = snd (reconcile from_ts cf sn (Inr listed) tick pl)" "pl'' = snd (reconcile from_ts cf sn (Inr listed') tick' pl')"
  shows "read_alert f (pl_db pl'') = Some r \<and>
    (\<exists>r'. read_alert f (pl_db (snd (reconcile from_ts cf sn (Inr listed'') tick'' pl''))) = Some r' \<and> al_status (ar_alert r') = AResolved)"
proof -
  have floor: "seconds (timestamp t) \<le> t" for t by (simp add: seconds_def timestamp_def)
  have early: "seconds (pl_previous_poll pl) \<le> at"
    using seen(3) floor [of at] by (simp add: seconds_def)
  then have "\<not> last_seen_before from_ts pl r"
    using clock(1) by (auto simp: last_seen_before_def seen(1) split: option.splits)
  from reconcile_unlisted(1) [OF assms(1-3) absent(1) this] have r2: "read_alert f (pl_db pl') = Some r" by (simp add: run(1))
  have ok2: "db_ok (pl_db pl')" unfolding run(1) by (rule reconcile_ok [OF assms(1)])
  have polls2: "pl_previous_poll pl' = timestamp at" "pl_last_poll pl' = timestamp (tick 0)"
    by (simp_all add: run(1) reconcile_polls seen(2))
  have "\<not> last_seen_before from_ts pl' r"
    using floor [of at] by (simp add: last_seen_before_def polls2 clock(2) seen(1))
  from reconcile_unlisted(1) [OF ok2 r2 assms(3) absent(2) this] have r3: "read_alert f (pl_db pl'') = Some r" by (simp add: run(2))
  have ok3: "db_ok (pl_db pl'')" unfolding run(2) by (rule reconcile_ok [OF ok2])
  have "at < seconds (timestamp at + 1)"
    using pos_mod_bound [of usecs_per_sec at] div_mult_mod_eq [of at usecs_per_sec]
    by (simp add: seconds_def timestamp_def distrib_right)
  also have "\<dots> \<le> seconds (timestamp (tick 0))" using clock(5) by (simp add: seconds_def)
  finally have "last_seen_before from_ts pl'' r"
    using clock(3-5) by (simp add: last_seen_before_def run(2) reconcile_polls polls2 seen(1))
  from reconcile_unlisted(2) [OF ok3 r3 assms(3) absent(3) this] r3 show ?thesis by blast
qed

definition seen_db :: db where
  "seen_db = snd (ingest_batch (seconds 1800) True (new_batch SReconciler [disk_alert] (seconds 5)) empty_db)"

lemma seen_read: "read_alert fp_a seen_db = Some \<lparr>ar_alert = disk_alert, ar_labels_hash = labels_hash disk_labels,
    ar_first_seen_at = seconds 5, ar_last_seen_at = seconds 5, ar_resolved_at = None, ar_flap_count = 0, ar_updated_at = seconds 5\<rparr>"
  by (simp add: seen_db_def ingest_batch_def run_tx_def tx_bind_def tx_ret_def ingest_one_def new_batch_def empty_db_def
      read_alert_def Let_def classify_def upsert_alert_def affected_def append_event_def batch_alert_def carry_over_def
      disk_group resolved_at_def is_firing_def disk_alert_def)

theorem three_polls_resolve_witness:
  "\<exists>r. read_alert fp_a (pl_db (snd (reconcile (\<lambda>s. Some (seconds s)) plain_config text_snapshot (Inr []) (\<lambda>_. seconds 65)
     (snd (reconcile (\<lambda>s. Some (seconds s)) plain_config text_snapshot (Inr []) (\<lambda>_. seconds 35)
        (fresh_pipeline\<lparr>pl_db := seen_db, pl_last_poll := 5\<rparr>)))))) = Some r \<and> al_status (ar_alert r) = AFiring"
proof -
  have ok: "db_ok seen_db" unfolding seen_db_def by (rule ingest_db_ok) simp
  show ?thesis
    using three_polls_resolve [where pl = "fresh_pipeline\<lparr>pl_db := seen_db, pl_last_poll := 5\<rparr>" and f = fp_a and at = "seconds 5"
        and from_ts = "\<lambda>s. Some (seconds s)" and cf = plain_config and sn = text_snapshot and listed = "[]" and listed' = "[]" and listed'' = "[]"
        and tick = "\<lambda>_. seconds 35" and tick' = "\<lambda>_. seconds 65" and tick'' = "\<lambda>_. seconds 95"]
      ok seen_read by (simp add: fresh_pipeline_def start_pipeline_def)
qed

end
